(* ===== verification/EnosPrelude.thy ===== *)
theory EnosPrelude
  imports Main "HOL-Library.Word" "HOL-Library.Signed_Division"
begin

text \<open>
  Shared vocabulary of the development: the machine types of the SDK, C arithmetic,
  the negative state codes of \<^verbatim>\<open>src/src/infra/infra_state.h\<close>, and the generic list and
  word lemmas the component theories use.

  A C \<^verbatim>\<open>int\<close> is an \<open>int\<close>: signed overflow is undefined in C, and every sum the modelled
  code forms is a sum of lengths that its callers bound far below \<open>2^31\<close>. Unsigned values
  keep their width as words. C division truncates, so it is \<open>sdiv\<close> and \<open>smod\<close>.
\<close>

unbundle bit_operations_syntax

named_theorems wire_simps \<open>evaluation of the wire-format primitives\<close>
named_theorems rc_simps \<open>unfolding of guards on return codes\<close>

type_synonym byte = "8 word"
type_synonym u16 = "16 word"
type_synonym u32 = "32 word"

section \<open>State codes\<close>

abbreviation (input) STATE_SUCCESS :: int where "STATE_SUCCESS \<equiv> 0"
abbreviation (input) STATE_USER_INPUT_INVALID :: int where "STATE_USER_INPUT_INVALID \<equiv> - 0x113"
abbreviation (input) STATE_SYS_DEPEND_MALLOC :: int where "STATE_SYS_DEPEND_MALLOC \<equiv> - 0x201"
abbreviation (input) STATE_SYS_DEPEND_MUTEX_CREATE :: int where "STATE_SYS_DEPEND_MUTEX_CREATE \<equiv> - 0x205"
abbreviation (input) STATE_SYS_DEPEND_NWK_CLOSE :: int where "STATE_SYS_DEPEND_NWK_CLOSE \<equiv> - 0x208"
abbreviation (input) STATE_SYS_DEPEND_NWK_READ_ERROR :: int
  where "STATE_SYS_DEPEND_NWK_READ_ERROR \<equiv> - 0x20B"
abbreviation (input) STATE_MQTT_CONNACK_VERSION_UNACCEPT :: int
  where "STATE_MQTT_CONNACK_VERSION_UNACCEPT \<equiv> - 0x301"
abbreviation (input) STATE_MQTT_CONNACK_IDENT_REJECT :: int
  where "STATE_MQTT_CONNACK_IDENT_REJECT \<equiv> - 0x302"
abbreviation (input) STATE_MQTT_CONNACK_SERVICE_NA :: int where "STATE_MQTT_CONNACK_SERVICE_NA \<equiv> - 0x303"
abbreviation (input) STATE_MQTT_CONNACK_NOT_AUTHORIZED :: int
  where "STATE_MQTT_CONNACK_NOT_AUTHORIZED \<equiv> - 0x304"
abbreviation (input) STATE_MQTT_CONNACK_BAD_USERDATA :: int
  where "STATE_MQTT_CONNACK_BAD_USERDATA \<equiv> - 0x305"
abbreviation (input) STATE_MQTT_WAIT_RECONN_TIMER :: int where "STATE_MQTT_WAIT_RECONN_TIMER \<equiv> - 0x306"
abbreviation (input) STATE_MQTT_SERIALIZE_CONN_ERROR :: int
  where "STATE_MQTT_SERIALIZE_CONN_ERROR \<equiv> - 0x30C"
abbreviation (input) STATE_MQTT_SERIALIZE_PUBACK_ERROR :: int
  where "STATE_MQTT_SERIALIZE_PUBACK_ERROR \<equiv> - 0x30D"
abbreviation (input) STATE_MQTT_SERIALIZE_PINGREQ_ERROR :: int
  where "STATE_MQTT_SERIALIZE_PINGREQ_ERROR \<equiv> - 0x30E"
abbreviation (input) STATE_MQTT_SERIALIZE_SUB_ERROR :: int
  where "STATE_MQTT_SERIALIZE_SUB_ERROR \<equiv> - 0x30F"
abbreviation (input) STATE_MQTT_SERIALIZE_UNSUB_ERROR :: int
  where "STATE_MQTT_SERIALIZE_UNSUB_ERROR \<equiv> - 0x310"
abbreviation (input) STATE_MQTT_SERIALIZE_PUB_ERROR :: int
  where "STATE_MQTT_SERIALIZE_PUB_ERROR \<equiv> - 0x311"
abbreviation (input) STATE_MQTT_DESERIALIZE_CONNACK_ERROR :: int
  where "STATE_MQTT_DESERIALIZE_CONNACK_ERROR \<equiv> - 0x312"
abbreviation (input) STATE_MQTT_DESERIALIZE_SUBACK_ERROR :: int
  where "STATE_MQTT_DESERIALIZE_SUBACK_ERROR \<equiv> - 0x313"
abbreviation (input) STATE_MQTT_DESERIALIZE_PUB_ERROR :: int
  where "STATE_MQTT_DESERIALIZE_PUB_ERROR \<equiv> - 0x314"
abbreviation (input) STATE_MQTT_DESERIALIZE_UNSUBACK_ERROR :: int
  where "STATE_MQTT_DESERIALIZE_UNSUBACK_ERROR \<equiv> - 0x315"
abbreviation (input) STATE_MQTT_PACKET_READ_ERROR :: int where "STATE_MQTT_PACKET_READ_ERROR \<equiv> - 0x316"
abbreviation (input) STATE_MQTT_CONNACK_UNKNOWN_ERROR :: int
  where "STATE_MQTT_CONNACK_UNKNOWN_ERROR \<equiv> - 0x317"
abbreviation (input) STATE_MQTT_TX_BUFFER_TOO_SHORT :: int
  where "STATE_MQTT_TX_BUFFER_TOO_SHORT \<equiv> - 0x319"
abbreviation (input) STATE_MQTT_TOPIC_BUF_TOO_SHORT :: int
  where "STATE_MQTT_TOPIC_BUF_TOO_SHORT \<equiv> - 0x31A"
abbreviation (input) STATE_MQTT_CONN_RETRY_EXCEED_MAX :: int
  where "STATE_MQTT_CONN_RETRY_EXCEED_MAX \<equiv> - 0x31B"
abbreviation (input) STATE_MQTT_QOS1_REPUB_EXCEED_MAX :: int
  where "STATE_MQTT_QOS1_REPUB_EXCEED_MAX \<equiv> - 0x31C"
abbreviation (input) STATE_MQTT_PUB_QOS_INVALID :: int where "STATE_MQTT_PUB_QOS_INVALID \<equiv> - 0x31D"
abbreviation (input) STATE_MQTT_IN_OFFLINE_STATUS :: int where "STATE_MQTT_IN_OFFLINE_STATUS \<equiv> - 0x31E"
abbreviation (input) STATE_MQTT_RECV_UNKNOWN_PACKET :: int
  where "STATE_MQTT_RECV_UNKNOWN_PACKET \<equiv> - 0x31F"
abbreviation (input) STATE_MQTT_UNEXP_TOPIC_FORMAT :: int
  where "STATE_MQTT_UNEXP_TOPIC_FORMAT \<equiv> - 0x322"
abbreviation (input) STATE_MQTT_SYNC_SUB_TIMEOUT :: int where "STATE_MQTT_SYNC_SUB_TIMEOUT \<equiv> - 0x323"
abbreviation (input) STATE_MQTT_ASYNC_STACK_CONN_IN_PROG :: int
  where "STATE_MQTT_ASYNC_STACK_CONN_IN_PROG \<equiv> - 0x324"
abbreviation (input) STATE_USER_INPUT_PK :: int where "STATE_USER_INPUT_PK \<equiv> - 0x103"
abbreviation (input) STATE_USER_INPUT_DN :: int where "STATE_USER_INPUT_DN \<equiv> - 0x105"
abbreviation (input) STATE_USER_INPUT_MQTT_DOMAIN :: int where "STATE_USER_INPUT_MQTT_DOMAIN \<equiv> - 0x108"
abbreviation (input) STATE_MQTT_SIGN_HOSTNAME_BUF_SHORT :: int where "STATE_MQTT_SIGN_HOSTNAME_BUF_SHORT \<equiv> - 0x307"
abbreviation (input) STATE_MQTT_SIGN_USERNAME_BUF_SHORT :: int where "STATE_MQTT_SIGN_USERNAME_BUF_SHORT \<equiv> - 0x308"
abbreviation (input) STATE_MQTT_SIGN_CLIENTID_BUF_SHORT :: int where "STATE_MQTT_SIGN_CLIENTID_BUF_SHORT \<equiv> - 0x309"
abbreviation (input) STATE_MQTT_SIGN_SOURCE_BUF_SHORT :: int where "STATE_MQTT_SIGN_SOURCE_BUF_SHORT \<equiv> - 0x30A"
abbreviation (input) STATE_DEV_MODEL_INTERNAL_ERROR :: int where "STATE_DEV_MODEL_INTERNAL_ERROR \<equiv> - 0x909"
abbreviation (input) STATE_DEV_MODEL_INTERNAL_MQTT_NOT_INIT_YET :: int
  where "STATE_DEV_MODEL_INTERNAL_MQTT_NOT_INIT_YET \<equiv> - 0x90B"
abbreviation (input) STATE_DEV_MODEL_CM_OPEN_FAILED :: int where "STATE_DEV_MODEL_CM_OPEN_FAILED \<equiv> - 0x90C"
abbreviation (input) STATE_DEV_MODEL_CM_FD_NOT_FOUND :: int where "STATE_DEV_MODEL_CM_FD_NOT_FOUND \<equiv> - 0x90D"
abbreviation (input) STATE_DEV_MODEL_CM_FD_ERROR :: int where "STATE_DEV_MODEL_CM_FD_ERROR \<equiv> - 0x90E"
abbreviation (input) STATE_DEV_MODEL_MQTT_CONNECT_FAILED :: int
  where "STATE_DEV_MODEL_MQTT_CONNECT_FAILED \<equiv> - 0x90F"
abbreviation (input) STATE_DEV_MODEL_MSGQ_FULL :: int where "STATE_DEV_MODEL_MSGQ_FULL \<equiv> - 0x92D"
abbreviation (input) STATE_DEV_MODEL_MSGQ_EMPTY :: int where "STATE_DEV_MODEL_MSGQ_EMPTY \<equiv> - 0x92E"
abbreviation (input) STATE_DEV_MODEL_CTX_LIST_FULL :: int
  where "STATE_DEV_MODEL_CTX_LIST_FULL \<equiv> - 0x932"
abbreviation (input) STATE_DEV_MODEL_CTX_LIST_EMPTY :: int
  where "STATE_DEV_MODEL_CTX_LIST_EMPTY \<equiv> - 0x933"

section \<open>C division\<close>

lemma smod_nonneg [simp]: "0 \<le> (a::int) \<Longrightarrow> 0 < b \<Longrightarrow> a smod b = a mod b"
  by (simp add: signed_modulo_int_def signed_divide_int_def sgn_if minus_div_mult_eq_mod
      split: if_splits) 

lemma sdiv_nonneg [simp]: "0 \<le> (a::int) \<Longrightarrow> 0 < b \<Longrightarrow> a sdiv b = a div b"
  by (simp add: signed_divide_int_def sgn_if)

section \<open>Buffers\<close>

text \<open>Writing a run of bytes at an offset of a buffer; what falls beyond the end is cut.\<close>

definition buf_write :: "byte list \<Rightarrow> nat \<Rightarrow> byte list \<Rightarrow> byte list" where
  "buf_write buf off bs = take (length buf) (take off buf @ bs @ drop (off + length bs) buf)"

lemma length_buf_write [simp]:
  "off \<le> length buf \<Longrightarrow> length (buf_write buf off bs) = length buf"
  by (simp add: buf_write_def)

lemma buf_write_fits:
  "off + length bs \<le> length buf \<Longrightarrow>
   buf_write buf off bs = take off buf @ bs @ drop (off + length bs) buf"
  by (simp add: buf_write_def)

lemma buf_write_prefix:
  "length p + length bs \<le> length buf \<Longrightarrow>
   take (length p) buf = p \<Longrightarrow>
   take (length p + length bs) (buf_write buf (length p) bs) = p @ bs"
  by (simp add: buf_write_fits)

text \<open>
  The C string at the start of a memory block, \<open>None\<close> when no NUL ends it inside the block, and
  \<^verbatim>\<open>memcmp(a, b, n) == 0\<close>, which reads byte by byte up to the first difference and gives
  \<open>None\<close> when that runs off the end of one of the blocks.
\<close>

definition c_str :: "byte list \<Rightarrow> byte list option" where
  "c_str mem = (if 0 \<in> set mem then Some (takeWhile (\<lambda>c. c \<noteq> 0) mem) else None)"

definition memcmp_eq :: "byte list \<Rightarrow> byte list \<Rightarrow> nat \<Rightarrow> bool option" where
  "memcmp_eq a b n =
     (let m = min n (min (length a) (length b))
      in if take m a \<noteq> take m b then Some False else if m = n then Some True else None)"

lemma c_str_terminated [simp]: "0 \<notin> set s \<Longrightarrow> c_str (s @ 0 # rest) = Some s"
  by (simp add: c_str_def takeWhile_append)

text \<open>The bytes of a string literal.\<close>

definition ascii :: "string \<Rightarrow> byte list" where
  "ascii s = map (of_nat \<circ> of_char) s"

lemma length_ascii [simp]: "length (ascii s) = length s"
  by (simp add: ascii_def)

section \<open>Bytes and counters\<close>

text \<open>Two bytes are equal when their eight bits are.\<close>

lemma byte_eqI:
  fixes a b :: "byte"
  assumes "bit a 0 = bit b 0" "bit a 1 = bit b 1" "bit a 2 = bit b 2" "bit a 3 = bit b 3"
    "bit a 4 = bit b 4" "bit a 5 = bit b 5" "bit a 6 = bit b 6" "bit a 7 = bit b 7"
  shows "a = b"
proof (rule bit_word_eqI)
  fix n :: nat
  assume "n < LENGTH(8)"
  then have "n = 0 \<or> n = 1 \<or> n = 2 \<or> n = 3 \<or> n = 4 \<or> n = 5 \<or> n = 6 \<or> n = 7"
    by auto
  with assms show "bit a n = bit b n" by auto
qed
lemmas byte_bits = bit_simps

lemma and_u32_all [simp]: "(x :: u32) AND 0xFFFFFFFF = x"
proof -
  have "(0xFFFFFFFF :: u32) = - 1" by simp
  then show ?thesis by (simp only: and.right_neutral)
qed

text \<open>A free-running 32-bit counter, read \<open>d\<close> ticks after \<open>now\<close>.\<close>

lemma uint_diff_of_nat:
  fixes now :: "u32"
  assumes "d < 2 ^ 32" "m < 2 ^ 32"
  shows "uint ((now + word_of_nat d) - (now + word_of_nat m)) = (int d - int m) mod 2 ^ 32"
proof -
  have "(now + word_of_nat d) - (now + word_of_nat m) = (word_of_int (int d - int m) :: u32)"
    by (simp only: of_int_diff of_int_of_nat_eq add_diff_cancel_left)
  then show ?thesis by (simp only: uint_word_of_int) (simp add: take_bit_eq_mod)
qed
lemma minus_elapsed:
  fixes now :: "u32"
  assumes "d < 2 ^ 32" "m \<le> d"
  shows "unat ((now + word_of_nat d) - (now + word_of_nat m)) = d - m"
proof -
  have "uint ((now + word_of_nat d) - (now + word_of_nat m)) = int (d - m)"
    using uint_diff_of_nat [of d m now] assms by (simp add: of_nat_diff)
  then show ?thesis by (simp only: unat_eq_nat_uint nat_int)
qed
lemma minus_before:
  fixes now :: "u32"
  assumes "m < 2 ^ 32" "d < m"
  shows "unat ((now + word_of_nat d) - (now + word_of_nat m)) = 2 ^ 32 - (m - d)"
proof -
  have "(int d - int m) mod 2 ^ 32 = int (2 ^ 32 - (m - d))"
  proof -
    have "(int d - int m) mod 2 ^ 32 = (int d - int m + 2 ^ 32) mod 2 ^ 32"
      by (rule mod_add_self2 [symmetric])
    also have "\<dots> = int d - int m + 2 ^ 32"
      by (rule mod_pos_pos_trivial) (use assms in auto)
    also have "\<dots> = int (2 ^ 32 - (m - d))"
      using assms by (simp add: of_nat_diff)
    finally show ?thesis .
  qed
  then have "uint ((now + word_of_nat d) - (now + word_of_nat m)) = int (2 ^ 32 - (m - d))"
    using uint_diff_of_nat [of d m now] assms by simp
  then show ?thesis by (simp only: unat_eq_nat_uint nat_int)
qed
end
