(* ===== verification/InfraTimer.thy ===== *)
theory InfraTimer
  imports EnosPrelude
begin

text \<open>
  The SDK's timers, \<^verbatim>\<open>src/src/infra/infra_timer.c\<close>. A timer holds the value of the 32-bit
  millisecond counter \<^verbatim>\<open>HAL_UptimeMs\<close> at which it expires (or started). Every function reads
  the counter through the platform layer, so the model takes the value read as the argument
  \<open>now\<close>; the functions that read it twice take both readings. A null timer is \<open>None\<close>.
  All arithmetic wraps at \<open>2^32\<close>, as the C does.
\<close>

record iotx_time =
  time :: u32

abbreviation (input) UINT32_MAX :: u32 where "UINT32_MAX \<equiv> 0xFFFFFFFF"

definition iotx_time_start :: "u32 \<Rightarrow> iotx_time \<Rightarrow> iotx_time" where
  "iotx_time_start now timer = timer\<lparr>time := now\<rparr>"

definition utils_time_spend :: "u32 \<Rightarrow> iotx_time option \<Rightarrow> u32" where
  "utils_time_spend now start = (case start of None \<Rightarrow> 0 | Some t \<Rightarrow> now - time t)"

definition utils_time_is_expired :: "u32 \<Rightarrow> iotx_time option \<Rightarrow> bool" where
  "utils_time_is_expired cur_time timer =
     (case timer of None \<Rightarrow> True | Some t \<Rightarrow> cur_time - time t < UINT32_MAX div 2)"

text \<open>\<open>iotx_time_left\<close> reads the clock once for the expiry test and once for the difference.\<close>

definition iotx_time_left :: "u32 \<Rightarrow> u32 \<Rightarrow> iotx_time option \<Rightarrow> u32" where
  "iotx_time_left now1 now2 end =
     (case end of None \<Rightarrow> 0
      | Some t \<Rightarrow> if utils_time_is_expired now1 end then 0 else time t - now2)"

definition iotx_time_init :: "iotx_time \<Rightarrow> iotx_time" where
  "iotx_time_init timer = timer\<lparr>time := 0\<rparr>"

definition utils_time_countdown_ms :: "u32 \<Rightarrow> iotx_time \<Rightarrow> u32 \<Rightarrow> iotx_time" where
  "utils_time_countdown_ms now timer millisecond = timer\<lparr>time := now + millisecond\<rparr>"

section \<open>Facts the clients of the timer use\<close>

lemma half_max: "UINT32_MAX div 2 = (0x7FFFFFFF :: u32)"
  by simp

lemma countdown_time [simp]: "time (utils_time_countdown_ms now t ms) = now + ms"
  by (simp add: utils_time_countdown_ms_def)

lemma expired_Some: "utils_time_is_expired now (Some t) \<longleftrightarrow> now - time t < 0x7FFFFFFF"
  by (simp add: utils_time_is_expired_def)

lemma countdown_expired_iff:
  assumes "m \<le> 0x80000001" and "d < m + 0x7FFFFFFF"
  shows "utils_time_is_expired (now + word_of_nat d)
           (Some (utils_time_countdown_ms now t (word_of_nat m))) \<longleftrightarrow> m \<le> d"
proof (cases "m \<le> d")
  case True
  with assms have "unat ((now + word_of_nat d) - (now + word_of_nat m)) = d - m"
    by (intro minus_elapsed) simp_all
  with True assms show ?thesis by (simp add: expired_Some word_less_nat_alt)
next
  case False
  with assms have "unat ((now + word_of_nat d) - (now + word_of_nat m)) = 2 ^ 32 - (m - d)"
    by (intro minus_before) simp_all
  with False assms show ?thesis by (simp add: expired_Some word_less_nat_alt)
qed

text \<open>
  A countdown of \<open>m\<close> milliseconds started at counter value \<open>now\<close> is reported expired
  \<open>d\<close> milliseconds later exactly when \<open>m \<le> d\<close>, whatever \<open>now\<close> is, so across the wrap of
  the counter too, as long as the countdown is at most half the counter's range and it is
  asked at most half a range after its end.
\<close>

theorem countdown_expires:
  assumes "m \<le> 0x80000001" and "d < m + 0x7FFFFFFF"
  shows "utils_time_is_expired (now + word_of_nat d)
           (Some (utils_time_countdown_ms now t (word_of_nat m))) \<longleftrightarrow> m \<le> d"
  using assms by (rule countdown_expired_iff)

theorem countdown_expires_witness:
  "utils_time_is_expired (0xFFFFFF00 + word_of_nat 1000)
     (Some (utils_time_countdown_ms 0xFFFFFF00 \<lparr>time = 0\<rparr> (word_of_nat 1000)))"
  using countdown_expires [of 1000 1000 "0xFFFFFF00" "\<lparr>time = 0\<rparr>"] by simp

text \<open>
  The time left of a countdown, both clock reads \<open>d\<close> milliseconds after its start, is
  the remaining number of milliseconds, and 0 from the end on.
\<close>

theorem time_left_counts_down:
  assumes "m \<le> 0x80000001" and "d < m + 0x7FFFFFFF"
  shows "unat (iotx_time_left (now + word_of_nat d) (now + word_of_nat d)
           (Some (utils_time_countdown_ms now t (word_of_nat m)))) = m - d"
proof (cases "m \<le> d")
  case True
  then have "utils_time_is_expired (now + word_of_nat d)
      (Some (utils_time_countdown_ms now t (word_of_nat m)))"
    using assms by (simp add: countdown_expired_iff)
  with True show ?thesis by (simp add: iotx_time_left_def)
next
  case False
  then have "\<not> utils_time_is_expired (now + word_of_nat d)
      (Some (utils_time_countdown_ms now t (word_of_nat m)))"
    using assms by (simp add: countdown_expired_iff)
  moreover have "unat ((now + word_of_nat m) - (now + word_of_nat d)) = m - d"
    using False assms by (intro minus_elapsed) simp_all
  ultimately show ?thesis by (simp add: iotx_time_left_def)
qed

theorem time_left_counts_down_witness:
  "unat (iotx_time_left (0xFFFFFF00 + word_of_nat 400) (0xFFFFFF00 + word_of_nat 400)
     (Some (utils_time_countdown_ms 0xFFFFFF00 \<lparr>time = 0\<rparr> (word_of_nat 1000)))) = 600"
  using time_left_counts_down [of 1000 400 "0xFFFFFF00" "\<lparr>time = 0\<rparr>"] by simp

text \<open>
  \<open>iotx_time_left\<close> reads the clock twice. When the timer passes its end between the two
  reads, the difference wraps: \<open>k\<close> milliseconds past the end it reports \<open>2^32 - k\<close>
  milliseconds left instead of 0.
\<close>

theorem time_left_race:
  assumes "\<not> utils_time_is_expired now1 (Some t)" and "0 < k" and "k < 2 ^ 32"
  shows "unat (iotx_time_left now1 (time t + word_of_nat k) (Some t)) = 2 ^ 32 - k"
proof -
  have "unat ((time t + word_of_nat 0) - (time t + word_of_nat k)) = 2 ^ 32 - (k - 0)"
    using assms(2,3) by (intro minus_before) simp_all
  with assms(1) show ?thesis by (simp add: iotx_time_left_def)
qed

theorem time_left_race_witness:
  "unat (iotx_time_left 999 1001 (Some \<lparr>time = 1000\<rparr>)) = 4294967295"
  using time_left_race [of 999 "\<lparr>time = 1000\<rparr>" 1] by (simp add: expired_Some)

end
