(* ===== verification/MqttPacket.thy ===== *)
theory MqttPacket
  imports EnosPrelude
begin

text \<open>
  The primitives of the MQTT wire format, \<^verbatim>\<open>src/src/mqtt/impl/MQTTPacket.c\<close> and
  \<^verbatim>\<open>MQTTPacket.h\<close>.

  Writing: a cursor \<^verbatim>\<open>unsigned char **pptr\<close> that moves through the output buffer is the list
  of the bytes written so far, from the start of the buffer; writing appends.
  Reading: a cursor into memory is the list of the bytes from the cursor to the end of the
  allocation it points into. Reading past the end of that list is undefined behaviour in C and
  gives \<open>None\<close> here. \<^verbatim>\<open>enddata\<close> is kept as the distance \<^verbatim>\<open>enddata - curdata\<close>, an \<open>int\<close> that
  goes negative exactly when the C pointer difference does.
  A C string is the list of its characters before the terminating NUL.
\<close>

section \<open>Constants and the header byte\<close>

abbreviation (input) MQTTPACKET_BUFFER_TOO_SHORT :: int where "MQTTPACKET_BUFFER_TOO_SHORT \<equiv> - 2"
abbreviation (input) MQTTPACKET_READ_ERROR :: int where "MQTTPACKET_READ_ERROR \<equiv> - 1"

definition CONNECT :: byte where "CONNECT = 1"
definition CONNACK :: byte where "CONNACK = 2"
definition PUBLISH :: byte where "PUBLISH = 3"
definition PUBACK :: byte where "PUBACK = 4"
definition PUBREC :: byte where "PUBREC = 5"
definition PUBREL :: byte where "PUBREL = 6"
definition PUBCOMP :: byte where "PUBCOMP = 7"
definition SUBSCRIBE :: byte where "SUBSCRIBE = 8"
definition SUBACK :: byte where "SUBACK = 9"
definition UNSUBSCRIBE :: byte where "UNSUBSCRIBE = 10"
definition UNSUBACK :: byte where "UNSUBACK = 11"
definition PINGREQ :: byte where "PINGREQ = 12"
definition PINGRESP :: byte where "PINGRESP = 13"
definition DISCONNECT :: byte where "DISCONNECT = 14"

lemmas msgTypes_defs = CONNECT_def CONNACK_def PUBLISH_def PUBACK_def PUBREC_def PUBREL_def
  PUBCOMP_def SUBSCRIBE_def SUBACK_def UNSUBSCRIBE_def UNSUBACK_def PINGREQ_def PINGRESP_def
  DISCONNECT_def

definition MQTT_HEADER_GET_TYPE :: "byte \<Rightarrow> byte" where
  "MQTT_HEADER_GET_TYPE head = drop_bit 4 (head AND 0xF0)"
definition MQTT_HEADER_GET_DUP :: "byte \<Rightarrow> byte" where
  "MQTT_HEADER_GET_DUP head = drop_bit 3 (head AND 0x08)"
definition MQTT_HEADER_GET_QOS :: "byte \<Rightarrow> byte" where
  "MQTT_HEADER_GET_QOS head = drop_bit 1 (head AND 0x06)"
definition MQTT_HEADER_GET_RETAIN :: "byte \<Rightarrow> byte" where
  "MQTT_HEADER_GET_RETAIN head = head AND 0x01"

definition MQTT_HEADER_SET_TYPE :: "byte \<Rightarrow> byte \<Rightarrow> byte" where
  "MQTT_HEADER_SET_TYPE head type = head OR (push_bit 4 type AND 0xF0)"
definition MQTT_HEADER_SET_DUP :: "byte \<Rightarrow> byte \<Rightarrow> byte" where
  "MQTT_HEADER_SET_DUP head dup = head OR (push_bit 3 dup AND 0x08)"
definition MQTT_HEADER_SET_QOS :: "byte \<Rightarrow> byte \<Rightarrow> byte" where
  "MQTT_HEADER_SET_QOS head qos = head OR (push_bit 1 qos AND 0x06)"
definition MQTT_HEADER_SET_RETAIN :: "byte \<Rightarrow> byte \<Rightarrow> byte" where
  "MQTT_HEADER_SET_RETAIN head retain = head OR (retain AND 0x01)"

lemmas header_defs = MQTT_HEADER_GET_TYPE_def MQTT_HEADER_GET_DUP_def MQTT_HEADER_GET_QOS_def
  MQTT_HEADER_GET_RETAIN_def MQTT_HEADER_SET_TYPE_def MQTT_HEADER_SET_DUP_def
  MQTT_HEADER_SET_QOS_def MQTT_HEADER_SET_RETAIN_def

section \<open>The remaining-length field\<close>

text \<open>
  \<^verbatim>\<open>MQTTPacket_encode\<close> writes the base-128 digits of \<open>length\<close>, least significant first, with
  the top bit set on all but the last. The result is the bytes written; the C return value is
  their number.
\<close>

function MQTTPacket_encode :: "int \<Rightarrow> byte list" where
  "MQTTPacket_encode len =
     (let d = word_of_int (len smod 128);
          len' = len sdiv 128
      in if len' > 0 then (d OR 0x80) # MQTTPacket_encode len' else [d])"
  by pat_completeness auto
termination
proof (relation "measure nat", goal_cases)
  case (2 len d len')
  then have "0 < len sdiv 128" by simp
  then have "0 < len" by (simp add: signed_divide_int_def sgn_if split: if_splits)
  then show ?case using 2 by simp
qed simp

declare MQTTPacket_encode.simps [simp del]

text \<open>
  \<^verbatim>\<open>MQTTPacket_decode\<close> reads such a field through a callback \<^verbatim>\<open>getcharfn(&c, 1)\<close>. The callback's
  state is threaded; it returns its C result, the byte, and the new state, or \<open>None\<close> for a read
  outside memory. The result is the number of bytes consumed (5 for a field longer than four
  bytes) and the value accumulated.
\<close>

type_synonym 's getchar = "'s \<Rightarrow> (int \<times> byte \<times> 's) option"

function MQTTPacket_decode_loop ::
  "'s getchar \<Rightarrow> nat \<Rightarrow> int \<Rightarrow> int \<Rightarrow> 's \<Rightarrow> (int \<times> int \<times> 's) option" where
  "MQTTPacket_decode_loop getcharfn len multiplier val s =
     (if Suc len > 4 then Some (int (Suc len), val, s)
      else case getcharfn s of None \<Rightarrow> None
      | Some (rc, c, s') \<Rightarrow>
          if rc \<noteq> 1 then Some (int (Suc len), val, s')
          else let val' = val + uint (c AND 127) * multiplier
               in if c AND 128 \<noteq> 0
                  then MQTTPacket_decode_loop getcharfn (Suc len) (multiplier * 128) val' s'
                  else Some (int (Suc len), val', s'))"
  by pat_completeness auto
termination
  by (relation "measure (\<lambda>(g, len, m, v, s). 4 - len)") auto

declare MQTTPacket_decode_loop.simps [simp del]

definition MQTTPacket_decode :: "'s getchar \<Rightarrow> 's \<Rightarrow> (int \<times> int \<times> 's) option" where
  "MQTTPacket_decode getcharfn s = MQTTPacket_decode_loop getcharfn 0 1 0 s"

text \<open>\<^verbatim>\<open>bufchar\<close>: the callback over the static pointer \<^verbatim>\<open>bufptr\<close>, called with count 1.\<close>

fun bufchar :: "byte list getchar" where
  "bufchar [] = None"
| "bufchar (c # bufptr) = Some (1, c, bufptr)"

definition MQTTPacket_decodeBuf :: "byte list \<Rightarrow> (int \<times> int \<times> byte list) option" where
  "MQTTPacket_decodeBuf buf = MQTTPacket_decode bufchar buf"

definition MQTTPacket_len :: "int \<Rightarrow> int" where
  "MQTTPacket_len rem_len =
     (let r = rem_len + 1
      in if r < 128 then r + 1
         else if r < 16384 then r + 2
         else if r < 2097151 then r + 3
         else r + 4)"

section \<open>Integers, characters and strings\<close>

definition readInt :: "byte list \<Rightarrow> (int \<times> byte list) option" where
  "readInt ptr = (case ptr of a # b # ptr' \<Rightarrow> Some (256 * uint a + uint b, ptr') | _ \<Rightarrow> None)"

definition readChar :: "byte list \<Rightarrow> (byte \<times> byte list) option" where
  "readChar ptr = (case ptr of c # ptr' \<Rightarrow> Some (c, ptr') | [] \<Rightarrow> None)"

definition writeChar :: "byte list \<Rightarrow> byte \<Rightarrow> byte list" where
  "writeChar ptr c = ptr @ [c]"

definition writeInt :: "byte list \<Rightarrow> int \<Rightarrow> byte list" where
  "writeInt ptr anInt = ptr @ [word_of_int (anInt sdiv 256), word_of_int (anInt smod 256)]"

definition writeCString :: "byte list \<Rightarrow> byte list \<Rightarrow> byte list" where
  "writeCString ptr str = writeInt ptr (int (length str)) @ str"

text \<open>
  \<^verbatim>\<open>MQTTString\<close>: a C string pointer, and a length with a data pointer. The data pointer is the
  memory it points to.
\<close>

record MQTTString =
  cstring :: "byte list option"
  lenstring_len :: int
  lenstring_data :: "byte list option"

definition MQTTString_initializer :: MQTTString where
  "MQTTString_initializer = \<lparr>cstring = None, lenstring_len = 0, lenstring_data = None\<rparr>"

definition getLenStringLen :: "byte list \<Rightarrow> int option" where
  "getLenStringLen ptr = map_option fst (readInt ptr)"

definition writeMQTTString :: "byte list \<Rightarrow> MQTTString \<Rightarrow> byte list option" where
  "writeMQTTString ptr s =
     (if lenstring_len s > 0 then
        (case lenstring_data s of None \<Rightarrow> None
         | Some d \<Rightarrow> if lenstring_len s \<le> int (length d)
                     then Some (writeInt ptr (lenstring_len s) @ take (nat (lenstring_len s)) d)
                     else None)
      else (case cstring s of Some c \<Rightarrow> Some (writeCString ptr c) | None \<Rightarrow> Some (writeInt ptr 0)))"

text \<open>
  \<^verbatim>\<open>readMQTTLenString\<close> takes the string structure to fill, the cursor and the distance to
  \<^verbatim>\<open>enddata\<close>; it gives its result, the structure, the cursor and the new distance. On the path
  that fails after the length was read, the length field has been overwritten and the cursor
  stands behind the length.
\<close>

definition readMQTTLenString ::
  "MQTTString \<Rightarrow> byte list \<Rightarrow> int \<Rightarrow> (bool \<times> MQTTString \<times> byte list \<times> int) option" where
  "readMQTTLenString s ptr end =
     (if end > 1 then
        (case readInt ptr of None \<Rightarrow> None
         | Some (n, ptr') \<Rightarrow>
             if n \<le> end - 2
             then Some (True, s\<lparr>lenstring_len := n, lenstring_data := Some ptr', cstring := None\<rparr>,
                        drop (nat n) ptr', end - 2 - n)
             else Some (False, s\<lparr>lenstring_len := n, cstring := None\<rparr>, ptr', end - 2))
      else Some (False, s\<lparr>cstring := None\<rparr>, ptr, end))"

definition MQTTstrlen :: "MQTTString \<Rightarrow> int" where
  "MQTTstrlen s = (case cstring s of Some c \<Rightarrow> int (length c) | None \<Rightarrow> lenstring_len s)"

text \<open>
  \<^verbatim>\<open>MQTTPacket_equals\<close>. \<open>zipt\<close> is the build option \<^verbatim>\<open>WITH_MQTT_ZIP_TOPIC\<close>, and \<open>bptr\<close> is the memory
  the second argument points to (for a C string: with its NUL). With the option, both sides
  are compared over the length of the first; without it \<open>blen\<close> is the C string length of \<open>bptr\<close>.
  \<open>None\<close> is a comparison that runs off the end of one of the two blocks: \<^verbatim>\<open>memcmp\<close> reads byte by
  byte up to the first difference.
\<close>

definition MQTTPacket_equals :: "bool \<Rightarrow> MQTTString \<Rightarrow> byte list \<Rightarrow> bool option" where
  "MQTTPacket_equals zipt a bptr =
     (if zipt then
        (case lenstring_data a of None \<Rightarrow> None
         | Some d \<Rightarrow> memcmp_eq d bptr (nat (lenstring_len a)))
      else
        (case c_str bptr of None \<Rightarrow> None
         | Some b \<Rightarrow>
            (case cstring a of
               Some c \<Rightarrow> Some (c = b)
             | None \<Rightarrow>
                 if lenstring_len a = int (length b)
                 then (case lenstring_data a of None \<Rightarrow> None
                       | Some d \<Rightarrow> memcmp_eq d b (length b))
                 else Some False)))"

section \<open>The interface of a wire field\<close>

text \<open>
  A wire field is an encoder and a decoder that inverts it in front of any further bytes. The
  client lemmas say that such fields are self-delimiting, and that a sequence of them is
  read back in order.
\<close>

fun dec_seq :: "(byte list \<Rightarrow> ('a \<times> byte list) option) \<Rightarrow> nat \<Rightarrow> byte list \<Rightarrow>
  ('a list \<times> byte list) option" where
  "dec_seq dec 0 bs = Some ([], bs)"
| "dec_seq dec (Suc n) bs =
     (case dec bs of None \<Rightarrow> None
      | Some (a, bs') \<Rightarrow> map_option (map_prod ((#) a) id) (dec_seq dec n bs'))"

locale wire_field =
  fixes enc :: "'a \<Rightarrow> byte list"
    and dec :: "byte list \<Rightarrow> ('a \<times> byte list) option"
    and valid :: "'a \<Rightarrow> bool"
  assumes dec_enc: "valid a \<Longrightarrow> dec (enc a @ rest) = Some (a, rest)"
begin

lemma self_delimiting:
  assumes "valid a" "valid b" "enc a @ xs = enc b @ ys"
  shows "a = b \<and> xs = ys"
proof -
  have "Some (a, xs) = Some (b, ys)"
    using dec_enc [OF assms(1), of xs] dec_enc [OF assms(2), of ys] by (simp only: assms(3))
  then show ?thesis by simp
qed

lemma dec_seq_enc:
  "\<forall>a\<in>set as. valid a \<Longrightarrow>
   dec_seq dec (length as) (concat (map enc as) @ rest) = Some (as, rest)"
  by (induction as) (simp_all add: dec_enc)

end

section \<open>The remaining-length field round-trips\<close>

lemma encode_small: "0 \<le> n \<Longrightarrow> n < 128 \<Longrightarrow> MQTTPacket_encode n = [word_of_int n]"
  by (subst MQTTPacket_encode.simps) simp

lemma encode_step:
  "128 \<le> n \<Longrightarrow>
   MQTTPacket_encode n = (word_of_int (n mod 128) OR 0x80) # MQTTPacket_encode (n div 128)"
  by (subst MQTTPacket_encode.simps) (simp add: Let_def pos_imp_zdiv_pos_iff)

lemma encode_not_Nil [simp]: "MQTTPacket_encode n \<noteq> []"
  by (subst MQTTPacket_encode.simps) (simp add: Let_def)

text \<open>Digits of a base-128 numeral as bytes.\<close>

lemma digit_top_clear: "0 \<le> n \<Longrightarrow> n < 128 \<Longrightarrow> (word_of_int n :: byte) AND 128 = 0"
proof -
  assume n: "0 \<le> n" "n < 128"
  then have "take_bit 7 n = n"
    by (simp add: take_bit_int_eq_self_iff)
  then have "\<not> bit n 7"
    by (metis bit_take_bit_iff less_irrefl)
  then show ?thesis
    by (intro byte_eqI) (simp_all add: bit_simps)
qed

lemma digit_low: "0 \<le> n \<Longrightarrow> n < 128 \<Longrightarrow> uint ((word_of_int n :: byte) AND 127) = n"
proof -
  assume n: "0 \<le> n" "n < 128"
  have "(word_of_int n :: byte) AND 127 = take_bit 7 (word_of_int n)"
    by (rule byte_eqI) (simp_all add: bit_simps)
  then have "uint ((word_of_int n :: byte) AND 127) = take_bit 7 (uint (word_of_int n :: byte))"
    by (simp add: unsigned_take_bit_eq)
  also have "\<dots> = n"
    using n by (simp add: take_bit_eq_mod uint_word_of_int)
  finally show ?thesis .
qed

lemma digit_marked_top: "((word_of_int n OR 0x80) :: byte) AND 128 \<noteq> 0"
proof
  assume "((word_of_int n OR 0x80) :: byte) AND 128 = 0"
  then have "\<not> bit (((word_of_int n OR 0x80) :: byte) AND 128) 7" by simp
  then show False by (simp add: bit_simps)
qed

lemma digit_marked_low: "((word_of_int n OR 0x80) :: byte) AND 127 = word_of_int n AND 127"
  by (rule byte_eqI) (simp_all add: bit_simps)

lemma decode_loop_encode:
  assumes "0 \<le> n" "len + length (MQTTPacket_encode n) \<le> 4"
  shows "MQTTPacket_decode_loop bufchar len mul val (MQTTPacket_encode n @ rest) =
         Some (int (len + length (MQTTPacket_encode n)), val + n * mul, rest)"
  using assms
proof (induction n arbitrary: len mul val rule: MQTTPacket_encode.induct)
  case (1 n)
  show ?case
  proof (cases "n < 128")
    case True
    with 1 show ?thesis
      by (simp add: encode_small MQTTPacket_decode_loop.simps [of _ len] digit_low digit_top_clear)
  next
    case False
    then have step: "MQTTPacket_encode n =
        (word_of_int (n mod 128) OR 0x80) # MQTTPacket_encode (n div 128)"
      by (intro encode_step) simp
    have IH: "MQTTPacket_decode_loop bufchar (Suc len) (mul * 128) (val + (n mod 128) * mul)
          (MQTTPacket_encode (n div 128) @ rest) =
        Some (int (Suc len + length (MQTTPacket_encode (n div 128))),
          val + (n mod 128) * mul + n div 128 * (mul * 128), rest)"
      using "1.prems" False step "1.IH" [OF refl refl, of "Suc len" "mul * 128"]
      by (simp add: pos_imp_zdiv_pos_iff)
    have "val + (n mod 128) * mul + n div 128 * (mul * 128)
        = val + (n mod 128 + n div 128 * 128) * mul"
      by (simp only: algebra_simps)
    then have sum: "val + (n mod 128) * mul + n div 128 * (mul * 128) = val + n * mul"
      by (simp only: mod_mult_div_eq mod_div_mult_eq)
    show ?thesis
      using IH sum "1.prems"
      by (simp add: step MQTTPacket_decode_loop.simps [of _ len] digit_marked_top digit_marked_low
          digit_low)
  qed
qed

lemma length_encode:
  assumes "0 \<le> n" "n < 268435456"
  shows "length (MQTTPacket_encode n) =
    (if n < 128 then 1 else if n < 16384 then 2 else if n < 2097152 then 3 else 4)"
proof -
  have l1: "length (MQTTPacket_encode k) = 1" if "0 \<le> k" "k < 128" for k
    using that by (simp add: encode_small)
  have l2: "length (MQTTPacket_encode k) = 2" if "128 \<le> k" "k < 16384" for k
    using that l1 [of "k div 128"] by (simp add: encode_step)
  have l3: "length (MQTTPacket_encode k) = 3" if "16384 \<le> k" "k < 2097152" for k
    using that l2 [of "k div 128"] by (simp add: encode_step)
  have l4: "length (MQTTPacket_encode k) = 4" if "2097152 \<le> k" "k < 268435456" for k
    using that l3 [of "k div 128"] by (simp add: encode_step)
  show ?thesis
    using assms l1 [of n] l2 [of n] l3 [of n] l4 [of n] by (auto split: if_splits)
qed

definition rem_len_ok :: "int \<Rightarrow> bool" where
  "rem_len_ok n \<longleftrightarrow> 0 \<le> n \<and> n < 268435456"

lemma length_encode_le4: "rem_len_ok n \<Longrightarrow> length (MQTTPacket_encode n) \<le> 4"
  by (simp add: rem_len_ok_def length_encode)

lemma decodeBuf_encode:
  assumes "rem_len_ok n"
  shows "MQTTPacket_decodeBuf (MQTTPacket_encode n @ rest) =
         Some (int (length (MQTTPacket_encode n)), n, rest)"
  using assms length_encode_le4 [OF assms] decode_loop_encode [of n 0 1 0 rest]
  by (simp add: MQTTPacket_decodeBuf_def MQTTPacket_decode_def rem_len_ok_def)

text \<open>The bytes of a packet fit the length \<open>MQTTPacket_len\<close> computes for it.\<close>

lemma MQTTPacket_len_bound:
  "rem_len_ok n \<Longrightarrow> 1 + int (length (MQTTPacket_encode n)) + n \<le> MQTTPacket_len n"
  by (simp add: rem_len_ok_def length_encode MQTTPacket_len_def Let_def)

text \<open>Whatever the memory holds, the decoder stops after at most five steps.\<close>

lemma decode_loop_len:
  "MQTTPacket_decode_loop g len mul val s = Some (l, v, s') \<Longrightarrow> len \<le> 4 \<Longrightarrow> int len < l \<and> l \<le> 5"
proof (induction g len mul val s rule: MQTTPacket_decode_loop.induct)
  case (1 g len mul val s)
  show ?case
  proof (cases "\<exists>c s1. g s = Some (1, c, s1) \<and> c AND 128 \<noteq> 0 \<and> len < 4")
    case True
    then obtain c s1 where c: "g s = Some (1, c, s1)" "c AND 128 \<noteq> 0" "len < 4" by blast
    then have "int (Suc len) < l \<and> l \<le> 5"
      using "1.prems" by (intro "1.IH" [of "(1, c, s1)"])
        (simp_all add: MQTTPacket_decode_loop.simps [of _ len])
    then show ?thesis by simp
  next
    case False
    with "1.prems" show ?thesis
      by (subst (asm) MQTTPacket_decode_loop.simps)
        (auto simp: Let_def split: if_splits option.splits)
  qed
qed

section \<open>Two-byte integers and length-prefixed strings\<close>

lemma readInt_Cons [simp]: "readInt (a # b # ptr) = Some (256 * uint a + uint b, ptr)"
  by (simp add: readInt_def)

lemma readChar_Cons [simp]: "readChar (c # ptr) = Some (c, ptr)"
  by (simp add: readChar_def)

lemma writeInt_bytes:
  "0 \<le> n \<Longrightarrow> writeInt ptr n = ptr @ [word_of_int (n div 256), word_of_int (n mod 256)]"
  by (simp add: writeInt_def)

lemma length_writeInt [simp]: "length (writeInt ptr n) = length ptr + 2"
  by (simp add: writeInt_def)

lemma uint_byte: "0 \<le> n \<Longrightarrow> n < 256 \<Longrightarrow> uint (word_of_int n :: byte) = n"
  by (simp add: uint_word_of_int)

lemma int16_bytes [simp]:
  assumes "0 \<le> n" "n < 65536"
  shows "256 * uint (word_of_int (n div 256) :: byte) + uint (word_of_int (n mod 256) :: byte) = n"
proof -
  have "0 \<le> n div 256" "n div 256 < 256" using assms by (simp_all add: pos_imp_zdiv_nonneg_iff)
  then show ?thesis using assms by (simp only: uint_byte) (simp add: uint_byte)
qed

definition len_str :: "byte list \<Rightarrow> byte list" where
  "len_str bs = writeInt [] (int (length bs)) @ bs"

definition read_len_str :: "byte list \<Rightarrow> (byte list \<times> byte list) option" where
  "read_len_str mem = (case readInt mem of None \<Rightarrow> None
     | Some (n, mem') \<Rightarrow> if nat n \<le> length mem' then Some (take (nat n) mem', drop (nat n) mem')
                         else None)"

lemma length_len_str [simp]: "length (len_str bs) = 2 + length bs"
  by (simp add: len_str_def)

lemma writeCString_len_str: "writeCString ptr c = ptr @ len_str c"
  by (simp add: writeCString_def len_str_def writeInt_def)

interpretation u16_field: wire_field "\<lambda>n. writeInt [] n" readInt "\<lambda>n. 0 \<le> n \<and> n < 65536"
  by unfold_locales (auto simp: writeInt_bytes)

interpretation len_field: wire_field MQTTPacket_encode
  "\<lambda>bs. map_option snd (MQTTPacket_decodeBuf bs)" rem_len_ok
  by unfold_locales (simp add: decodeBuf_encode)

interpretation str_field: wire_field len_str read_len_str "\<lambda>bs. length bs < 65536"
  by unfold_locales (auto simp: len_str_def read_len_str_def writeInt_bytes)

text \<open>The bytes a well-formed \<open>MQTTString\<close> stands for: exactly one of its two forms is used.\<close>

definition mqtt_str :: "MQTTString \<Rightarrow> byte list" where
  "mqtt_str s = (if lenstring_len s > 0
     then (case lenstring_data s of None \<Rightarrow> [] | Some d \<Rightarrow> take (nat (lenstring_len s)) d)
     else (case cstring s of None \<Rightarrow> [] | Some c \<Rightarrow> c))"

definition mqtt_str_ok :: "MQTTString \<Rightarrow> bool" where
  "mqtt_str_ok s \<longleftrightarrow>
     (if lenstring_len s > 0
      then cstring s = None \<and>
        (case lenstring_data s of None \<Rightarrow> False | Some d \<Rightarrow> lenstring_len s \<le> int (length d))
      else lenstring_len s = 0) \<and> length (mqtt_str s) < 65536"

lemma writeMQTTString_ok:
  "mqtt_str_ok s \<Longrightarrow> writeMQTTString ptr s = Some (ptr @ len_str (mqtt_str s))"
  by (auto simp: mqtt_str_ok_def writeMQTTString_def mqtt_str_def len_str_def writeInt_def
      writeCString_def split: option.splits if_splits)

lemma MQTTstrlen_ok: "mqtt_str_ok s \<Longrightarrow> MQTTstrlen s = int (length (mqtt_str s))"
  by (auto simp: mqtt_str_ok_def MQTTstrlen_def mqtt_str_def split: option.splits if_splits)

lemma mqtt_str_ok_cstring [simp]:
  "length c < 65536 \<Longrightarrow> mqtt_str_ok \<lparr>cstring = Some c, lenstring_len = 0, lenstring_data = d\<rparr>"
  "mqtt_str \<lparr>cstring = Some c, lenstring_len = 0, lenstring_data = d\<rparr> = c"
  by (simp_all add: mqtt_str_ok_def mqtt_str_def)

section \<open>Header bytes\<close>

lemma get_type_fixed:
  "MQTT_HEADER_GET_TYPE (MQTT_HEADER_SET_TYPE 0 t) = t AND 0x0F"
  by (rule byte_eqI) (simp_all add: header_defs bit_simps)

lemma bit_double_byte: "bit (q * 2 :: byte) n \<longleftrightarrow> n \<noteq> 0 \<and> n < 8 \<and> bit q (n - 1)"
  using bit_double_iff [of q n] by (auto simp: mult.commute)

lemma publish_header:
  fixes dup qos retained t :: byte
  defines "h \<equiv> MQTT_HEADER_SET_RETAIN
     (MQTT_HEADER_SET_QOS (MQTT_HEADER_SET_DUP (MQTT_HEADER_SET_TYPE 0 t) dup) qos) retained"
  shows "MQTT_HEADER_GET_TYPE h = t AND 0x0F"
    and "MQTT_HEADER_GET_DUP h = dup AND 1"
    and "MQTT_HEADER_GET_QOS h = qos AND 3"
    and "MQTT_HEADER_GET_RETAIN h = retained AND 1"
  unfolding h_def by (rule byte_eqI; simp add: header_defs bit_simps bit_double_byte)+

lemma ack_header:
  fixes dup qos t :: byte
  defines "h \<equiv> MQTT_HEADER_SET_QOS (MQTT_HEADER_SET_DUP (MQTT_HEADER_SET_TYPE 0 t) dup) qos"
  shows "MQTT_HEADER_GET_TYPE h = t AND 0x0F" and "MQTT_HEADER_GET_DUP h = dup AND 1"
  unfolding h_def by (rule byte_eqI; simp add: header_defs bit_simps bit_double_byte)+

end
