(* ===== verification/MqttMessages.thy ===== *)
theory MqttMessages
  imports MqttPacket "HOL-Library.Monad_Syntax"
begin

text \<open>
  The MQTT control packets: \<^verbatim>\<open>MQTTConnectClient.c\<close>, \<^verbatim>\<open>MQTTSerializePublish.c\<close>,
  \<^verbatim>\<open>MQTTDeserializePublish.c\<close>, \<^verbatim>\<open>MQTTSubscribeClient.c\<close> and \<^verbatim>\<open>MQTTUnsubscribeClient.c\<close> of
  \<^verbatim>\<open>src/src/mqtt/impl\<close>.

  A serializer gives its C result and the bytes it wrote from the start of the buffer; \<open>None\<close>
  is a read through a bad \<^verbatim>\<open>MQTTString\<close> or payload pointer. A deserializer takes the initial
  contents of its output parameters and the memory behind \<^verbatim>\<open>buf\<close>; \<open>None\<close> is a read past the
  end of that memory. (The C functions never look at their \<^verbatim>\<open>buflen\<close>.) An output that a path
  leaves alone keeps its initial contents.
\<close>

section \<open>CONNECT\<close>

record MQTTPacket_willOptions =
  w_struct_id :: "byte list"
  w_struct_version :: int
  topicName :: MQTTString
  message :: MQTTString
  retained :: byte
  w_qos :: byte

record MQTTPacket_connectData =
  struct_id :: "byte list"
  struct_version :: int
  MQTTVersion :: byte
  clientID :: MQTTString
  keepAliveInterval :: u16
  cleansession :: byte
  willFlag :: byte
  will :: MQTTPacket_willOptions
  username :: MQTTString
  password :: MQTTString

definition has_string :: "MQTTString \<Rightarrow> bool" where
  "has_string s \<longleftrightarrow> cstring s \<noteq> None \<or> lenstring_data s \<noteq> None"

definition MQTTSerialize_connectLength :: "MQTTPacket_connectData \<Rightarrow> int" where
  "MQTTSerialize_connectLength options =
     (let len = (if MQTTVersion options = 3 then 12 else if MQTTVersion options = 4 then 10 else 0);
          len = len + MQTTstrlen (clientID options) + 2;
          len = (if willFlag options \<noteq> 0
                 then len + MQTTstrlen (topicName (will options)) + 2
                          + MQTTstrlen (message (will options)) + 2
                 else len);
          len = (if has_string (username options)
                 then len + MQTTstrlen (username options) + 2 else len)
      in if has_string (password options)
         then len + MQTTstrlen (password options) + 2 else len)"

abbreviation (input) MQTT_CONN_FLAG_USER_NAME :: byte where "MQTT_CONN_FLAG_USER_NAME \<equiv> 0x80"
abbreviation (input) MQTT_CONN_FLAG_PASSWORD :: byte where "MQTT_CONN_FLAG_PASSWORD \<equiv> 0x40"
abbreviation (input) MQTT_CONN_FLAG_WILL_RETAIN :: byte where "MQTT_CONN_FLAG_WILL_RETAIN \<equiv> 0x20"
abbreviation (input) MQTT_CONN_FLAG_WILL_FLAG :: byte where "MQTT_CONN_FLAG_WILL_FLAG \<equiv> 0x04"
abbreviation (input) MQTT_CONN_FLAG_CLEAN_SESSION :: byte
  where "MQTT_CONN_FLAG_CLEAN_SESSION \<equiv> 0x02"

text \<open>The connect-flags byte, in the order the function builds it.\<close>

definition connect_flags :: "MQTTPacket_connectData \<Rightarrow> byte" where
  "connect_flags options =
     (let all = (0 :: byte);
          all = all OR (if cleansession options \<noteq> 0 then MQTT_CONN_FLAG_CLEAN_SESSION else 0);
          all = all OR (if willFlag options \<noteq> 0 then MQTT_CONN_FLAG_WILL_FLAG else 0);
          all = (if all AND MQTT_CONN_FLAG_WILL_FLAG \<noteq> 0
                 then (all OR push_bit 3 (w_qos (will options) AND 0x03))
                      OR (if retained (will options) \<noteq> 0 then MQTT_CONN_FLAG_WILL_RETAIN else 0)
                 else all);
          all = (if has_string (username options) then all OR MQTT_CONN_FLAG_USER_NAME else all)
      in if has_string (password options) then all OR MQTT_CONN_FLAG_PASSWORD else all)"

definition mqtt_magic :: "byte list" where
  "mqtt_magic = [0x4D, 0x51, 0x54, 0x54]" \<comment> \<open>MQTT\<close>

definition mqisdp_magic :: "byte list" where
  "mqisdp_magic = [0x4D, 0x51, 0x49, 0x73, 0x64, 0x70]" \<comment> \<open>MQIsdp\<close>

definition MQTTSerialize_connect ::
  "int \<Rightarrow> MQTTPacket_connectData \<Rightarrow> (int \<times> byte list) option" where
  "MQTTSerialize_connect buflen options =
     (let len = MQTTSerialize_connectLength options
      in if MQTTPacket_len len > buflen then Some (MQTTPACKET_BUFFER_TOO_SHORT, [])
         else
           let header = MQTT_HEADER_SET_TYPE 0 CONNECT;
               ptr = writeChar [] header;
               ptr = ptr @ MQTTPacket_encode len;
               ptr = (if MQTTVersion options = 4
                      then writeChar (writeCString ptr mqtt_magic) 4
                      else writeChar (writeCString ptr mqisdp_magic) 3);
               flags = connect_flags options;
               ptr = writeChar ptr flags;
               ptr = writeInt ptr (uint (keepAliveInterval options))
           in do {
             ptr \<leftarrow> writeMQTTString ptr (clientID options);
             ptr \<leftarrow> (if willFlag options \<noteq> 0 then do {
                       ptr \<leftarrow> writeMQTTString ptr (topicName (will options));
                       writeMQTTString ptr (message (will options)) }
                     else Some ptr);
             ptr \<leftarrow> (if flags AND MQTT_CONN_FLAG_USER_NAME \<noteq> 0
                     then writeMQTTString ptr (username options) else Some ptr);
             ptr \<leftarrow> (if flags AND MQTT_CONN_FLAG_PASSWORD \<noteq> 0
                     then writeMQTTString ptr (password options) else Some ptr);
             Some (int (length ptr), ptr)
           })"

text \<open>
  \<^verbatim>\<open>flags.bits.sessionpresent\<close> is declared after seven unused bits; on the little-endian
  targets the SDK is built for that is bit 7 of the flags byte.
\<close>

definition MQTTDeserialize_connack ::
  "byte \<Rightarrow> byte \<Rightarrow> byte list \<Rightarrow> (int \<times> byte \<times> byte) option" where
  "MQTTDeserialize_connack sessionPresent connack_rc buf = do {
     (header, curdata) \<leftarrow> readChar buf;
     if MQTT_HEADER_GET_TYPE header \<noteq> CONNACK then Some (0, sessionPresent, connack_rc)
     else do {
       (rc, mylen, _) \<leftarrow> MQTTPacket_decodeBuf curdata;
       let curdata = drop (nat rc) curdata;
       if mylen < 2 then Some (rc, sessionPresent, connack_rc)
       else do {
         (flags, curdata) \<leftarrow> readChar curdata;
         (c, curdata) \<leftarrow> readChar curdata;
         Some (1, drop_bit 7 flags, c)
       }
     }
   }"

section \<open>Packets without a body\<close>

definition MQTTSerialize_zero :: "int \<Rightarrow> byte \<Rightarrow> int \<times> byte list" where
  "MQTTSerialize_zero buflen packettype =
     (if buflen < 2 then (MQTTPACKET_BUFFER_TOO_SHORT, [])
      else let ptr = writeChar [] (MQTT_HEADER_SET_TYPE 0 packettype);
               ptr = ptr @ MQTTPacket_encode 0
           in (int (length ptr), ptr))"

definition MQTTSerialize_disconnect :: "int \<Rightarrow> int \<times> byte list" where
  "MQTTSerialize_disconnect buflen = MQTTSerialize_zero buflen DISCONNECT"

definition MQTTSerialize_pingreq :: "int \<Rightarrow> int \<times> byte list" where
  "MQTTSerialize_pingreq buflen = MQTTSerialize_zero buflen PINGREQ"

section \<open>PUBLISH and the acknowledgements\<close>

definition MQTTSerialize_publishLength :: "int \<Rightarrow> MQTTString \<Rightarrow> int \<Rightarrow> int" where
  "MQTTSerialize_publishLength qos topic payloadlen =
     (let len = 2 + MQTTstrlen topic + payloadlen in if qos > 0 then len + 2 else len)"

definition MQTTSerialize_publish ::
  "int \<Rightarrow> byte \<Rightarrow> int \<Rightarrow> byte \<Rightarrow> u16 \<Rightarrow> MQTTString \<Rightarrow> byte list \<Rightarrow> int \<Rightarrow>
   (int \<times> byte list) option" where
  "MQTTSerialize_publish buflen dup qos retain packetid topic payload payloadlen =
     (let rem_len = MQTTSerialize_publishLength qos topic payloadlen
      in if MQTTPacket_len rem_len > buflen then Some (MQTTPACKET_BUFFER_TOO_SHORT, [])
         else
           let header = MQTT_HEADER_SET_TYPE 0 PUBLISH;
               header = MQTT_HEADER_SET_DUP header dup;
               header = MQTT_HEADER_SET_QOS header (word_of_int qos);
               header = MQTT_HEADER_SET_RETAIN header retain;
               ptr = writeChar [] header;
               ptr = ptr @ MQTTPacket_encode rem_len
           in do {
             ptr \<leftarrow> writeMQTTString ptr topic;
             let ptr = (if qos > 0 then writeInt ptr (uint packetid) else ptr);
             if 0 \<le> payloadlen \<and> payloadlen \<le> int (length payload)
             then let ptr = ptr @ take (nat payloadlen) payload
                  in Some (int (length ptr), ptr)
             else None
           })"

definition MQTTSerialize_ack :: "int \<Rightarrow> byte \<Rightarrow> byte \<Rightarrow> u16 \<Rightarrow> int \<times> byte list" where
  "MQTTSerialize_ack buflen packettype dup packetid =
     (if buflen < 4 then (MQTTPACKET_BUFFER_TOO_SHORT, [])
      else let header = MQTT_HEADER_SET_TYPE 0 packettype;
               header = MQTT_HEADER_SET_DUP header dup;
               header = MQTT_HEADER_SET_QOS header (if packettype = PUBREL then 1 else 0);
               ptr = writeChar [] header;
               ptr = ptr @ MQTTPacket_encode 2;
               ptr = writeInt ptr (uint packetid)
           in (int (length ptr), ptr))"

text \<open>
  The outputs of \<^verbatim>\<open>MQTTDeserialize_publish\<close>. The payload pointer is the memory it points to;
  \<^verbatim>\<open>*payloadlen\<close> is \<^verbatim>\<open>enddata - curdata\<close>.
\<close>

record publish_out =
  p_dup :: byte
  p_qos :: int
  p_retained :: byte
  p_packetid :: u16
  p_topic :: MQTTString
  p_payload :: "byte list option"
  p_payloadlen :: int

definition MQTTDeserialize_publish ::
  "publish_out \<Rightarrow> byte list \<Rightarrow> (int \<times> publish_out) option" where
  "MQTTDeserialize_publish out buf = do {
     (header, curdata) \<leftarrow> readChar buf;
     if MQTT_HEADER_GET_TYPE header \<noteq> PUBLISH then Some (0, out)
     else do {
       let out = out\<lparr>p_dup := MQTT_HEADER_GET_DUP header,
                     p_qos := uint (MQTT_HEADER_GET_QOS header),
                     p_retained := MQTT_HEADER_GET_RETAIN header\<rparr>;
       (rc, mylen, _) \<leftarrow> MQTTPacket_decodeBuf curdata;
       let curdata = drop (nat rc) curdata;
       (ok, topic, curdata, end) \<leftarrow> readMQTTLenString (p_topic out) curdata mylen;
       let out = out\<lparr>p_topic := topic\<rparr>;
       if \<not> ok \<or> end < 0 then Some (rc, out)
       else do {
         (out, curdata, end) \<leftarrow>
           (if p_qos out > 0 then do {
              (n, curdata) \<leftarrow> readInt curdata;
              Some (out\<lparr>p_packetid := word_of_int n\<rparr>, curdata, end - 2) }
            else Some (out, curdata, end));
         Some (1, out\<lparr>p_payloadlen := end, p_payload := Some curdata\<rparr>)
       }
     }
   }"

record ack_out =
  a_type :: byte
  a_dup :: byte
  a_packetid :: u16

definition MQTTDeserialize_ack :: "ack_out \<Rightarrow> byte list \<Rightarrow> (int \<times> ack_out) option" where
  "MQTTDeserialize_ack out buf = do {
     (header, curdata) \<leftarrow> readChar buf;
     let out = out\<lparr>a_dup := MQTT_HEADER_GET_DUP header, a_type := MQTT_HEADER_GET_TYPE header\<rparr>;
     (rc, mylen, _) \<leftarrow> MQTTPacket_decodeBuf curdata;
     let curdata = drop (nat rc) curdata;
     if mylen < 2 then Some (rc, out)
     else do {
       (n, curdata) \<leftarrow> readInt curdata;
       Some (1, out\<lparr>a_packetid := word_of_int n\<rparr>)
     }
   }"

section \<open>SUBSCRIBE and UNSUBSCRIBE\<close>

text \<open>The arrays have \<open>count\<close> elements; the counting loops are folds over them.\<close>

fun sum_subscribe :: "MQTTString list \<Rightarrow> int \<Rightarrow> int" where
  "sum_subscribe [] len = len"
| "sum_subscribe (t # ts) len = sum_subscribe ts (len + (2 + MQTTstrlen t + 1))"

definition MQTTSerialize_subscribeLength :: "MQTTString list \<Rightarrow> int" where
  "MQTTSerialize_subscribeLength topicFilters = sum_subscribe topicFilters 2"

fun write_subs :: "byte list \<Rightarrow> (MQTTString \<times> int) list \<Rightarrow> byte list option" where
  "write_subs ptr [] = Some ptr"
| "write_subs ptr ((t, q) # ts) = do {
     ptr \<leftarrow> writeMQTTString ptr t;
     write_subs (writeChar ptr (word_of_int q)) ts }"

definition MQTTSerialize_subscribe ::
  "int \<Rightarrow> byte \<Rightarrow> u16 \<Rightarrow> MQTTString list \<Rightarrow> int list \<Rightarrow> (int \<times> byte list) option" where
  "MQTTSerialize_subscribe buflen dup packetid topicFilters requestedQoSs =
     (let rem_len = MQTTSerialize_subscribeLength topicFilters
      in if MQTTPacket_len rem_len > buflen then Some (MQTTPACKET_BUFFER_TOO_SHORT, [])
         else
           let header = MQTT_HEADER_SET_TYPE 0 SUBSCRIBE;
               header = MQTT_HEADER_SET_DUP header dup;
               header = MQTT_HEADER_SET_QOS header 1;
               ptr = writeChar [] header;
               ptr = ptr @ MQTTPacket_encode rem_len;
               ptr = writeInt ptr (uint packetid)
           in if length requestedQoSs < length topicFilters then None
              else do {
                ptr \<leftarrow> write_subs ptr (zip topicFilters requestedQoSs);
                Some (int (length ptr), ptr) })"

text \<open>
  The granted codes are read through \<^verbatim>\<open>char\<close>, signed on the SDK's targets, into an \<^verbatim>\<open>int\<close> array
  with room for \<open>maxcount\<close> of them.
\<close>

fun read_granted :: "nat \<Rightarrow> int \<Rightarrow> byte list \<Rightarrow> int list \<Rightarrow> (bool \<times> int list) option" where
  "read_granted 0 maxcount curdata acc = Some (True, acc)"
| "read_granted (Suc left) maxcount curdata acc =
     (if int (length acc) \<ge> maxcount then Some (False, acc)
      else do {
        (c, curdata) \<leftarrow> readChar curdata;
        read_granted left maxcount curdata (acc @ [sint c]) })"

record suback_out =
  s_packetid :: u16
  s_count :: int
  s_granted :: "int list"

definition MQTTDeserialize_suback ::
  "suback_out \<Rightarrow> int \<Rightarrow> byte list \<Rightarrow> (int \<times> suback_out) option" where
  "MQTTDeserialize_suback out maxcount buf = do {
     (header, curdata) \<leftarrow> readChar buf;
     if MQTT_HEADER_GET_TYPE header \<noteq> SUBACK then Some (0, out)
     else do {
       (rc, mylen, _) \<leftarrow> MQTTPacket_decodeBuf curdata;
       let curdata = drop (nat rc) curdata;
       if mylen < 2 then Some (rc, out)
       else do {
         (n, curdata) \<leftarrow> readInt curdata;
         (ok, granted) \<leftarrow> read_granted (nat (mylen - 2)) maxcount curdata [];
         Some (if ok then 1 else - 1,
               \<lparr>s_packetid = word_of_int n, s_count = int (length granted), s_granted = granted\<rparr>)
       }
     }
   }"

fun sum_unsubscribe :: "MQTTString list \<Rightarrow> int \<Rightarrow> int" where
  "sum_unsubscribe [] len = len"
| "sum_unsubscribe (t # ts) len = sum_unsubscribe ts (len + (2 + MQTTstrlen t))"

definition MQTTSerialize_unsubscribeLength :: "MQTTString list \<Rightarrow> int" where
  "MQTTSerialize_unsubscribeLength topicFilters = sum_unsubscribe topicFilters 2"

fun write_unsubs :: "byte list \<Rightarrow> MQTTString list \<Rightarrow> byte list option" where
  "write_unsubs ptr [] = Some ptr"
| "write_unsubs ptr (t # ts) = do { ptr \<leftarrow> writeMQTTString ptr t; write_unsubs ptr ts }"

definition MQTTSerialize_unsubscribe ::
  "int \<Rightarrow> byte \<Rightarrow> u16 \<Rightarrow> MQTTString list \<Rightarrow> (int \<times> byte list) option" where
  "MQTTSerialize_unsubscribe buflen dup packetid topicFilters =
     (let rem_len = MQTTSerialize_unsubscribeLength topicFilters
      in if MQTTPacket_len rem_len > buflen then Some (MQTTPACKET_BUFFER_TOO_SHORT, [])
         else
           let header = MQTT_HEADER_SET_TYPE 0 UNSUBSCRIBE;
               header = MQTT_HEADER_SET_DUP header dup;
               header = MQTT_HEADER_SET_QOS header 1;
               ptr = writeChar [] header;
               ptr = ptr @ MQTTPacket_encode rem_len;
               ptr = writeInt ptr (uint packetid)
           in do {
             ptr \<leftarrow> write_unsubs ptr topicFilters;
             Some (int (length ptr), ptr) })"

definition MQTTDeserialize_unsuback :: "u16 \<Rightarrow> byte list \<Rightarrow> (int \<times> u16) option" where
  "MQTTDeserialize_unsuback packetid buf = do {
     (rc, out) \<leftarrow> MQTTDeserialize_ack \<lparr>a_type = 0, a_dup = 0, a_packetid = packetid\<rparr> buf;
     Some (if a_type out = UNSUBACK then 1 else rc, a_packetid out)
   }"

end
