(* ===== verification/MqttMessagesProofs.thy ===== *)
theory MqttMessagesProofs
  imports MqttMessages
begin

text \<open>
  The correctness of the control packets: what bytes each serializer produces, that they fit
  the buffer, that the deserializers read them back, that no deserializer reads outside a
  received packet, and the paths on which the C results mislead.
\<close>

section \<open>Frames\<close>

text \<open>An MQTT packet: the header byte, the remaining length, the body.\<close>

definition frame :: "byte \<Rightarrow> byte list \<Rightarrow> byte list" where
  "frame h body = h # MQTTPacket_encode (int (length body)) @ body"

definition fits :: "int \<Rightarrow> byte list \<Rightarrow> bool" where
  "fits buflen body \<longleftrightarrow> MQTTPacket_len (int (length body)) \<le> buflen"

definition emit :: "int \<Rightarrow> byte \<Rightarrow> byte list \<Rightarrow> int \<times> byte list" where
  "emit buflen h body =
     (if fits buflen body then (int (length (frame h body)), frame h body)
      else (MQTTPACKET_BUFFER_TOO_SHORT, []))"

lemma frame_fits:
  assumes "fits buflen body" "buflen \<le> 268435456"
  shows "int (length (frame h body)) \<le> buflen"
proof -
  have "rem_len_ok (int (length body))"
    using assms by (auto simp: fits_def MQTTPacket_len_def rem_len_ok_def Let_def split: if_splits)
  from MQTTPacket_len_bound [OF this] assms(1) show ?thesis
    by (simp add: frame_def fits_def)
qed

lemma emit_bounded:
  "buflen \<le> 268435456 \<Longrightarrow> emit buflen h body = (rc, out) \<Longrightarrow>
   (rc = int (length out) \<and> rc \<le> buflen \<and> out = frame h body) \<or> (rc = - 2 \<and> out = [])"
  using frame_fits [of buflen body h] by (auto simp: emit_def split: if_splits)

lemma decode_frame:
  "rem_len_ok (int (length body)) \<Longrightarrow>
   MQTTPacket_decodeBuf (MQTTPacket_encode (int (length body)) @ body @ rest) =
     Some (int (length (MQTTPacket_encode (int (length body)))), int (length body), body @ rest)"
  using decodeBuf_encode [of "int (length body)" "body @ rest"] by simp

section \<open>Serializers\<close>

definition publish_header_byte :: "byte \<Rightarrow> int \<Rightarrow> byte \<Rightarrow> byte" where
  "publish_header_byte dup qos retain =
     MQTT_HEADER_SET_RETAIN (MQTT_HEADER_SET_QOS (MQTT_HEADER_SET_DUP
       (MQTT_HEADER_SET_TYPE 0 PUBLISH) dup) (word_of_int qos)) retain"

definition publish_body :: "int \<Rightarrow> u16 \<Rightarrow> byte list \<Rightarrow> byte list \<Rightarrow> byte list" where
  "publish_body qos packetid topic payload =
     len_str topic @ (if qos > 0 then writeInt [] (uint packetid) else []) @ payload"

lemma writeInt_append: "writeInt ptr n = ptr @ writeInt [] n"
  by (simp add: writeInt_def)

lemma uint16_range: "0 \<le> uint (w :: u16)" "uint (w :: u16) < 65536"
  using uint_lt2p [of w] by simp_all

lemma publish_layout:
  assumes "mqtt_str_ok topic"
  shows "MQTTSerialize_publish buflen dup qos retain packetid topic payload (int (length payload)) =
    Some (emit buflen (publish_header_byte dup qos retain)
            (publish_body qos packetid (mqtt_str topic) payload))"
proof -
  have "MQTTSerialize_publishLength qos topic (int (length payload)) =
      int (length (publish_body qos packetid (mqtt_str topic) payload))"
    by (simp add: MQTTSerialize_publishLength_def MQTTstrlen_ok [OF assms] publish_body_def)
  then show ?thesis
    by (simp add: MQTTSerialize_publish_def Let_def emit_def fits_def frame_def writeChar_def
        writeMQTTString_ok [OF assms] publish_header_byte_def publish_body_def
        writeInt_append [of "a # b" for a b])
qed

definition ack_header_byte :: "byte \<Rightarrow> byte \<Rightarrow> byte" where
  "ack_header_byte packettype dup =
     MQTT_HEADER_SET_QOS (MQTT_HEADER_SET_DUP (MQTT_HEADER_SET_TYPE 0 packettype) dup)
       (if packettype = PUBREL then 1 else 0)"

lemma ack_layout:
  "MQTTSerialize_ack buflen packettype dup packetid =
   (if buflen < 4 then (MQTTPACKET_BUFFER_TOO_SHORT, [])
    else (4, frame (ack_header_byte packettype dup) (writeInt [] (uint packetid))))"
  by (simp add: MQTTSerialize_ack_def Let_def frame_def writeChar_def ack_header_byte_def
      encode_small writeInt_append [of "[a, b]" for a b])

definition connect_body :: "MQTTPacket_connectData \<Rightarrow> byte list" where
  "connect_body options =
     (if MQTTVersion options = 4 then len_str mqtt_magic @ [4] else len_str mqisdp_magic @ [3]) @
     [connect_flags options] @ writeInt [] (uint (keepAliveInterval options)) @
     len_str (mqtt_str (clientID options)) @
     (if willFlag options \<noteq> 0 then len_str (mqtt_str (topicName (will options))) @
        len_str (mqtt_str (message (will options))) else []) @
     (if has_string (username options) then len_str (mqtt_str (username options)) else []) @
     (if has_string (password options) then len_str (mqtt_str (password options)) else [])"

definition connect_ok :: "MQTTPacket_connectData \<Rightarrow> bool" where
  "connect_ok options \<longleftrightarrow>
     (MQTTVersion options = 3 \<or> MQTTVersion options = 4) \<and>
     mqtt_str_ok (clientID options) \<and>
     (willFlag options \<noteq> 0 \<longrightarrow>
        mqtt_str_ok (topicName (will options)) \<and> mqtt_str_ok (message (will options))) \<and>
     mqtt_str_ok (username options) \<and> mqtt_str_ok (password options)"

lemma connect_flags_bits:
  "connect_flags options AND 0x80 \<noteq> 0 \<longleftrightarrow> has_string (username options)"
  "connect_flags options AND 0x40 \<noteq> 0 \<longleftrightarrow> has_string (password options)"
proof -
  have b: "w AND 0x80 \<noteq> 0 \<longleftrightarrow> bit w 7" "w AND 0x40 \<noteq> 0 \<longleftrightarrow> bit w 6" for w :: byte
  proof -
    have "w AND 0x80 = push_bit 7 (of_bool (bit w 7))" "w AND 0x40 = push_bit 6 (of_bool (bit w 6))"
      by (rule byte_eqI; simp add: bit_simps)+
    then show "w AND 0x80 \<noteq> 0 \<longleftrightarrow> bit w 7" "w AND 0x40 \<noteq> 0 \<longleftrightarrow> bit w 6"
      by (auto simp: of_bool_def)
  qed
  show "connect_flags options AND 0x80 \<noteq> 0 \<longleftrightarrow> has_string (username options)"
    "connect_flags options AND 0x40 \<noteq> 0 \<longleftrightarrow> has_string (password options)"
    unfolding b by (simp_all add: connect_flags_def Let_def bit_simps)
qed

lemma connect_length:
  assumes "connect_ok options"
  shows "MQTTSerialize_connectLength options = int (length (connect_body options))"
  using assms
  by (auto simp: connect_ok_def MQTTSerialize_connectLength_def connect_body_def MQTTstrlen_ok
      mqtt_magic_def mqisdp_magic_def)

lemma connect_layout:
  assumes "connect_ok options"
  shows "MQTTSerialize_connect buflen options =
    Some (emit buflen (MQTT_HEADER_SET_TYPE 0 CONNECT) (connect_body options))"
proof (cases "fits buflen (connect_body options)")
  case False
  then show ?thesis
    by (simp add: MQTTSerialize_connect_def Let_def emit_def fits_def connect_length [OF assms])
next
  case True
  then have "\<not> MQTTPacket_len (MQTTSerialize_connectLength options) > buflen"
    by (simp add: fits_def connect_length [OF assms])
  with assms True show ?thesis
    by (auto simp: MQTTSerialize_connect_def Let_def emit_def frame_def connect_length [OF assms]
        connect_flags_bits writeMQTTString_ok writeChar_def writeCString_len_str connect_ok_def
        connect_body_def writeInt_append [of "a # b" for a b] simp del: of_nat_add)
qed

definition subscribe_body :: "u16 \<Rightarrow> MQTTString list \<Rightarrow> int list \<Rightarrow> byte list" where
  "subscribe_body packetid topics qoss = writeInt [] (uint packetid) @
     concat (map (\<lambda>(t, q). len_str (mqtt_str t) @ [word_of_int q]) (zip topics qoss))"

lemma sum_subscribe_ok:
  "\<forall>t\<in>set ts. mqtt_str_ok t \<Longrightarrow> length ts \<le> length qs \<Longrightarrow>
   sum_subscribe ts n = n +
     int (length (concat (map (\<lambda>(t, q). len_str (mqtt_str t) @ [word_of_int q :: byte]) (zip ts qs))))"
proof (induction ts arbitrary: n qs)
  case (Cons t ts)
  then obtain q qs' where "qs = q # qs'" by (cases qs) auto
  with Cons show ?case by (simp add: MQTTstrlen_ok)
qed simp

lemma write_subs_ok:
  "\<forall>(t, q)\<in>set xs. mqtt_str_ok t \<Longrightarrow>
   write_subs ptr xs = Some (ptr @ concat (map (\<lambda>(t, q). len_str (mqtt_str t) @ [word_of_int q]) xs))"
  by (induction xs arbitrary: ptr) (auto simp: writeMQTTString_ok writeChar_def)

lemma subscribe_layout:
  assumes "\<forall>t\<in>set topics. mqtt_str_ok t" "length qoss = length topics"
  shows "MQTTSerialize_subscribe buflen dup packetid topics qoss =
    Some (emit buflen (MQTT_HEADER_SET_QOS (MQTT_HEADER_SET_DUP
        (MQTT_HEADER_SET_TYPE 0 SUBSCRIBE) dup) 1) (subscribe_body packetid topics qoss))"
proof -
  have "MQTTSerialize_subscribeLength topics = int (length (subscribe_body packetid topics qoss))"
    using assms
    by (simp add: MQTTSerialize_subscribeLength_def sum_subscribe_ok [of _ qoss] subscribe_body_def)
  moreover have "\<forall>(t, q)\<in>set (zip topics qoss). mqtt_str_ok t"
    using assms(1) by (auto dest: set_zip_leftD)
  ultimately show ?thesis
    using assms(2)
    by (simp add: MQTTSerialize_subscribe_def Let_def emit_def fits_def frame_def writeChar_def
        write_subs_ok subscribe_body_def writeInt_append [of "a # b" for a b])
qed

definition unsubscribe_body :: "u16 \<Rightarrow> MQTTString list \<Rightarrow> byte list" where
  "unsubscribe_body packetid topics =
     writeInt [] (uint packetid) @ concat (map (\<lambda>t. len_str (mqtt_str t)) topics)"

lemma sum_unsubscribe_ok:
  "\<forall>t\<in>set ts. mqtt_str_ok t \<Longrightarrow>
   sum_unsubscribe ts n = n + int (length (concat (map (\<lambda>t. len_str (mqtt_str t)) ts)))"
  by (induction ts arbitrary: n) (simp_all add: MQTTstrlen_ok)

lemma write_unsubs_ok:
  "\<forall>t\<in>set ts. mqtt_str_ok t \<Longrightarrow>
   write_unsubs ptr ts = Some (ptr @ concat (map (\<lambda>t. len_str (mqtt_str t)) ts))"
  by (induction ts arbitrary: ptr) (auto simp: writeMQTTString_ok)

lemma unsubscribe_layout:
  assumes "\<forall>t\<in>set topics. mqtt_str_ok t"
  shows "MQTTSerialize_unsubscribe buflen dup packetid topics =
    Some (emit buflen (MQTT_HEADER_SET_QOS (MQTT_HEADER_SET_DUP
        (MQTT_HEADER_SET_TYPE 0 UNSUBSCRIBE) dup) 1) (unsubscribe_body packetid topics))"
proof -
  have "MQTTSerialize_unsubscribeLength topics = int (length (unsubscribe_body packetid topics))"
    using assms
    by (simp add: MQTTSerialize_unsubscribeLength_def sum_unsubscribe_ok unsubscribe_body_def)
  then show ?thesis
    using assms
    by (simp add: MQTTSerialize_unsubscribe_def Let_def emit_def fits_def frame_def writeChar_def
        write_unsubs_ok unsubscribe_body_def writeInt_append [of "a # b" for a b])
qed

section \<open>Deserializers\<close>

lemma publish_header_byte_get:
  "MQTT_HEADER_GET_TYPE (publish_header_byte dup qos retain) = PUBLISH"
  "MQTT_HEADER_GET_DUP (publish_header_byte dup qos retain) = dup AND 1"
  "MQTT_HEADER_GET_RETAIN (publish_header_byte dup qos retain) = retain AND 1"
  "0 \<le> qos \<Longrightarrow> qos \<le> 3 \<Longrightarrow>
     uint (MQTT_HEADER_GET_QOS (publish_header_byte dup qos retain)) = qos"
proof -
  show "MQTT_HEADER_GET_TYPE (publish_header_byte dup qos retain) = PUBLISH"
    "MQTT_HEADER_GET_DUP (publish_header_byte dup qos retain) = dup AND 1"
    "MQTT_HEADER_GET_RETAIN (publish_header_byte dup qos retain) = retain AND 1"
    by (simp_all add: publish_header_byte_def publish_header PUBLISH_def)
  assume "0 \<le> qos" "qos \<le> 3"
  then have "qos = 0 \<or> qos = 1 \<or> qos = 2 \<or> qos = 3" by auto
  then show "uint (MQTT_HEADER_GET_QOS (publish_header_byte dup qos retain)) = qos"
    by (auto simp: publish_header_byte_def publish_header)
qed

lemma readInt_writeInt_append:
  "0 \<le> n \<Longrightarrow> n < 65536 \<Longrightarrow> readInt (writeInt [] n @ rest) = Some (n, rest)"
  by (rule u16_field.dec_enc) simp

lemma readMQTTLenString_len_str:
  assumes "length bs < 65536" "2 + int (length bs) \<le> end"
  shows "readMQTTLenString s (len_str bs @ rest) end =
    Some (True, s\<lparr>lenstring_len := int (length bs), lenstring_data := Some (bs @ rest),
      cstring := None\<rparr>, rest, end - 2 - int (length bs))"
  using assms readInt_writeInt_append [of "int (length bs)" "bs @ rest"]
  by (simp add: readMQTTLenString_def len_str_def)

text \<open>Reading a PUBLISH frame whose body starts with a topic and, for QoS above 0, a packet id.\<close>

lemma deserialize_publish_frame:
  assumes body: "body = len_str topic @ tail" and topic: "length topic < 65536"
    and ok: "rem_len_ok (int (length body))"
    and hdr: "MQTT_HEADER_GET_TYPE h = PUBLISH"
  shows "MQTTDeserialize_publish out (frame h body @ rest) =
    (let out = out\<lparr>p_dup := MQTT_HEADER_GET_DUP h, p_qos := uint (MQTT_HEADER_GET_QOS h),
           p_retained := MQTT_HEADER_GET_RETAIN h,
           p_topic := (p_topic out)\<lparr>lenstring_len := int (length topic),
             lenstring_data := Some (topic @ tail @ rest), cstring := None\<rparr>\<rparr>
     in if uint (MQTT_HEADER_GET_QOS h) > 0
        then do {
          (n, cur) \<leftarrow> readInt (tail @ rest);
          Some (1, out\<lparr>p_packetid := word_of_int n, p_payloadlen := int (length tail) - 2,
                       p_payload := Some cur\<rparr>) }
        else Some (1, out\<lparr>p_payloadlen := int (length tail), p_payload := Some (tail @ rest)\<rparr>))"
proof -
  have "MQTTPacket_decodeBuf (MQTTPacket_encode (int (length body)) @ body @ rest) =
      Some (int (length (MQTTPacket_encode (int (length body)))), int (length body), body @ rest)"
    using ok by (rule decode_frame)
  moreover have "readMQTTLenString s (body @ rest) (int (length body)) =
      Some (True, s\<lparr>lenstring_len := int (length topic), lenstring_data := Some (topic @ tail @ rest),
        cstring := None\<rparr>, tail @ rest, int (length tail))" for s
    using readMQTTLenString_len_str [of topic "int (length body)" s "tail @ rest"] topic
    by (simp add: body)
  ultimately show ?thesis
    using hdr by (cases "readInt (tail @ rest)") (auto simp: MQTTDeserialize_publish_def frame_def Let_def)
qed

lemma publish_body_split:
  "publish_body qos packetid topic payload =
   len_str topic @ ((if qos > 0 then writeInt [] (uint packetid) else []) @ payload)"
  by (simp add: publish_body_def)

lemma emit_ok:
  assumes "emit buflen h body = (rc, pkt)" "rc > 0" "buflen \<le> 268435456"
  shows "pkt = frame h body" "rc = int (length pkt)" "rem_len_ok (int (length body))"
  using assms
  by (auto simp: emit_def fits_def MQTTPacket_len_def rem_len_ok_def Let_def split: if_splits)

lemma publish_reads_back:
  assumes "mqtt_str_ok topic" "0 \<le> qos" "qos \<le> 3" "buflen \<le> 268435456"
    and "MQTTSerialize_publish buflen dup qos retain packetid topic payload (int (length payload)) =
           Some (rc, pkt)"
    and "rc > 0"
  shows "\<exists>out'. MQTTDeserialize_publish out (pkt @ rest) = Some (1, out') \<and>
    mqtt_str (p_topic out') = mqtt_str topic \<and>
    p_payloadlen out' = int (length payload) \<and> p_payload out' = Some (payload @ rest) \<and>
    p_qos out' = qos \<and> p_dup out' = dup AND 1 \<and> p_retained out' = retain AND 1 \<and>
    p_packetid out' = (if qos > 0 then packetid else p_packetid out)"
proof -
  have len: "length (mqtt_str topic) < 65536"
    using assms(1) by (simp add: mqtt_str_ok_def split: if_splits)
  note e = emit_ok [OF assms(5) [unfolded publish_layout [OF assms(1)] option.inject] assms(6,4)]
  from deserialize_publish_frame [OF publish_body_split len e(3) publish_header_byte_get(1)]
  show ?thesis
    using assms(2,3) len
    by (auto simp: e(1) Let_def publish_header_byte_get readInt_writeInt_append uint16_range
        mqtt_str_def)
qed

text \<open>
  C15. A PUBLISH packet that \<open>MQTTSerialize_publish\<close> produced is read back by
  \<open>MQTTDeserialize_publish\<close>, whatever bytes follow it in memory: the same topic, payload, QoS,
  dup and retain bits, and (for QoS above 0) the same packet identifier.
\<close>

theorem publish_roundtrip:
  assumes "mqtt_str_ok topic" "0 \<le> qos" "qos \<le> 3" "buflen \<le> 268435456"
    and "MQTTSerialize_publish buflen dup qos retain packetid topic payload (int (length payload)) =
           Some (rc, pkt)"
    and "rc > 0"
  shows "\<exists>out'. MQTTDeserialize_publish out (pkt @ rest) = Some (1, out') \<and>
    mqtt_str (p_topic out') = mqtt_str topic \<and>
    p_payloadlen out' = int (length payload) \<and> p_payload out' = Some (payload @ rest) \<and>
    p_qos out' = qos \<and> p_dup out' = dup AND 1 \<and> p_retained out' = retain AND 1 \<and>
    p_packetid out' = (if qos > 0 then packetid else p_packetid out)"
  by (rule publish_reads_back [OF assms])

theorem publish_roundtrip_witness:
  "\<exists>out'. MQTTDeserialize_publish
      \<lparr>p_dup = 0, p_qos = 0, p_retained = 0, p_packetid = 0, p_topic = MQTTString_initializer,
       p_payload = None, p_payloadlen = 0\<rparr>
      ([0x32, 7, 0, 2, 0x2F, 0x61, 0, 9, 0x78] @ [0xFF]) = Some (1, out') \<and>
    mqtt_str (p_topic out') = [0x2F, 0x61] \<and> p_payloadlen out' = 1 \<and>
    p_payload out' = Some [0x78, 0xFF] \<and> p_qos out' = 1 \<and> p_packetid out' = 9"
proof -
  let ?t = "\<lparr>cstring = Some [0x2F, 0x61 :: byte], lenstring_len = 0, lenstring_data = None\<rparr>"
  have "MQTTSerialize_publish 64 0 1 0 9 ?t [0x78] (int (length [0x78 :: byte])) =
      Some (9, [0x32, 7, 0, 2, 0x2F, 0x61, 0, 9, 0x78])"
    by (subst publish_layout)
      (simp_all add: emit_def fits_def frame_def publish_body_def len_str_def writeInt_def
        MQTTPacket_len_def encode_small publish_header_byte_def header_defs PUBLISH_def)
  from publish_roundtrip [OF _ _ _ _ this] show ?thesis by fastforce
qed

lemma ack_header_byte_get:
  "t AND 0x0F = t \<Longrightarrow> MQTT_HEADER_GET_TYPE (ack_header_byte t dup) = t"
  "MQTT_HEADER_GET_DUP (ack_header_byte t dup) = dup AND 1"
  by (simp_all add: ack_header_byte_def ack_header)

lemma deserialize_ack_frame:
  assumes "rem_len_ok (int (length body))"
  shows "MQTTDeserialize_ack out (frame h body @ rest) =
    (let out = out\<lparr>a_dup := MQTT_HEADER_GET_DUP h, a_type := MQTT_HEADER_GET_TYPE h\<rparr>
     in if length body < 2 then Some (int (length (MQTTPacket_encode (int (length body)))), out)
        else do { (n, cur) \<leftarrow> readInt (body @ rest); Some (1, out\<lparr>a_packetid := word_of_int n\<rparr>) })"
  using decode_frame [OF assms, of rest]
  by (simp add: MQTTDeserialize_ack_def frame_def Let_def)

text \<open>
  An acknowledgement packet (any of the 16 packet types) that \<open>MQTTSerialize_ack\<close> produced is
  read back by \<open>MQTTDeserialize_ack\<close>: type, dup bit and packet identifier.
\<close>

theorem ack_roundtrip:
  assumes "packettype AND 0x0F = packettype" "4 \<le> buflen"
  shows "MQTTDeserialize_ack out (snd (MQTTSerialize_ack buflen packettype dup packetid) @ rest) =
    Some (1, out\<lparr>a_type := packettype, a_dup := dup AND 1, a_packetid := packetid\<rparr>)"
proof -
  have "rem_len_ok (int (length (writeInt [] (uint packetid))))"
    by (simp add: rem_len_ok_def)
  from deserialize_ack_frame [OF this] show ?thesis
    using assms by (simp add: ack_layout Let_def ack_header_byte_get readInt_writeInt_append
        uint16_range)
qed

theorem ack_roundtrip_witness:
  "MQTTDeserialize_ack \<lparr>a_type = 0, a_dup = 0, a_packetid = 0\<rparr>
     (snd (MQTTSerialize_ack 16 PUBACK 0 0x1234) @ [1, 2, 3]) =
   Some (1, \<lparr>a_type = PUBACK, a_dup = 0, a_packetid = 0x1234\<rparr>)"
  using ack_roundtrip [of PUBACK 16 "\<lparr>a_type = 0, a_dup = 0, a_packetid = 0\<rparr>" 0 "0x1234" "[1, 2, 3]"]
  by (simp add: PUBACK_def)

section \<open>Bounds\<close>

text \<open>
  C16. No serializer writes past the buffer it was given, up to the 256 MB an MQTT packet can
  have: the bytes written are as many as the result says and at most \<open>buflen\<close>, or nothing was
  written and the result is the error code.
\<close>

theorem serializers_fit:
  assumes "buflen \<le> 268435456" "mqtt_str_ok topic" "connect_ok options"
    and "\<forall>t\<in>set topics. mqtt_str_ok t" "length qoss = length topics"
    and "r \<in> {MQTTSerialize_publish buflen dup qos retain packetid topic payload
                 (int (length payload)),
               MQTTSerialize_connect buflen options,
               MQTTSerialize_subscribe buflen dup packetid topics qoss,
               MQTTSerialize_unsubscribe buflen dup packetid topics,
               Some (MQTTSerialize_ack buflen packettype dup packetid),
               Some (MQTTSerialize_zero buflen packettype)}"
  shows "\<exists>rc out. r = Some (rc, out) \<and>
    (rc = int (length out) \<and> rc \<le> buflen \<or> rc = MQTTPACKET_BUFFER_TOO_SHORT \<and> out = [])"
proof -
  have z: "MQTTSerialize_zero buflen packettype =
      (if buflen < 2 then (- 2, []) else (2, [MQTT_HEADER_SET_TYPE 0 packettype, 0]))"
    by (simp add: MQTTSerialize_zero_def writeChar_def encode_small)
  have e: "\<exists>rc out. emit buflen h body = (rc, out) \<and>
      (rc = int (length out) \<and> rc \<le> buflen \<or> rc = - 2 \<and> out = [])" for h body
    using emit_bounded [OF assms(1), of h body] by (cases "emit buflen h body") auto
  show ?thesis
    using assms(6) e
    by (auto simp: publish_layout [OF assms(2)] connect_layout [OF assms(3)]
        subscribe_layout [OF assms(4,5)] unsubscribe_layout [OF assms(4)] ack_layout z
        frame_def encode_small)
qed

theorem serializers_fit_witness:
  "\<exists>rc out. MQTTSerialize_unsubscribe 16 0 7 [\<lparr>cstring = Some [0x2F], lenstring_len = 0,
     lenstring_data = None\<rparr>] = Some (rc, out) \<and>
     (rc = int (length out) \<and> rc \<le> 16 \<or> rc = MQTTPACKET_BUFFER_TOO_SHORT \<and> out = [])"
proof -
  let ?t = "\<lparr>cstring = Some [0x2F :: byte], lenstring_len = 0, lenstring_data = None\<rparr>"
  let ?o = "\<lparr>struct_id = [], struct_version = 0, MQTTVersion = 4, clientID = ?t,
    keepAliveInterval = 60, cleansession = 0, willFlag = 0,
    will = \<lparr>w_struct_id = [], w_struct_version = 0, topicName = ?t, message = ?t, retained = 0,
      w_qos = 0\<rparr>, username = ?t, password = ?t\<rparr>"
  have "connect_ok ?o" by (simp add: connect_ok_def)
  from serializers_fit [OF _ _ this, of 16 ?t "[?t]" "[0]"
      "MQTTSerialize_unsubscribe 16 0 7 [?t]" 0 0 0 7 "[]"]
  show ?thesis by simp
qed

lemma readInt_long: "2 \<le> length ptr \<Longrightarrow> \<exists>n ptr'. readInt ptr = Some (n, ptr') \<and>
    length ptr' = length ptr - 2 \<and> 0 \<le> n"
  by (cases ptr; cases "tl ptr") (auto simp: readInt_def)

lemma read_granted_total:
  "left \<le> length cur \<Longrightarrow> \<exists>ok g. read_granted left maxcount cur acc = Some (ok, g)"
  by (induction left arbitrary: cur acc) (auto simp: readChar_def split: list.split)

lemma readMQTTLenString_total:
  assumes "0 \<le> end" "end \<le> int (length ptr)"
  obtains ok t ptr' end' where "readMQTTLenString s ptr end = Some (ok, t, ptr', end')"
    "end' \<le> int (length ptr')" "length ptr' - nat end' = length ptr - nat end \<or> \<not> ok" "0 \<le> end'"
proof (cases "end > 1")
  case True
  with assms obtain n p where r: "readInt ptr = Some (n, p)" "length p = length ptr - 2" "0 \<le> n"
    using readInt_long [of ptr] by auto
  show thesis
  proof (cases "n \<le> end - 2")
    case True
    with r \<open>end > 1\<close> assms show ?thesis
      by (intro that [of True "s\<lparr>lenstring_len := n, lenstring_data := Some p, cstring := None\<rparr>"
            "drop (nat n) p" "end - 2 - n"]) (auto simp: readMQTTLenString_def nat_diff_distrib)
  next
    case False
    with r \<open>end > 1\<close> assms show ?thesis
      by (intro that [of False "s\<lparr>lenstring_len := n, cstring := None\<rparr>" p "end - 2"])
        (auto simp: readMQTTLenString_def)
  qed
next
  case False
  with assms show ?thesis
    by (intro that [of False "s\<lparr>cstring := None\<rparr>" ptr "end"]) (auto simp: readMQTTLenString_def)
qed

text \<open>
  C17. On a well-framed packet, whatever its header and body, no deserializer of an
  acknowledgement reads outside the packet, and \<open>MQTTDeserialize_publish\<close> reads at most the two
  bytes behind it.
\<close>

theorem deserializers_stay_inside:
  assumes "rem_len_ok (int (length body))" "2 \<le> length slack"
  shows "MQTTDeserialize_ack a (frame h body) \<noteq> None \<and>
    MQTTDeserialize_unsuback u (frame h body) \<noteq> None \<and>
    MQTTDeserialize_connack sp crc (frame h body) \<noteq> None \<and>
    MQTTDeserialize_suback s maxcount (frame h body) \<noteq> None \<and>
    MQTTDeserialize_publish p (frame h body @ slack) \<noteq> None"
proof (intro conjI)
  note dec = decode_frame [OF assms(1), of "[]", simplified]
  have ack: "MQTTDeserialize_ack a (frame h body) \<noteq> None" for a
    using deserialize_ack_frame [OF assms(1), of a h "[]"] readInt_long [of body]
    by (auto simp: Let_def)
  show "MQTTDeserialize_ack a (frame h body) \<noteq> None" by (rule ack)
  show "MQTTDeserialize_unsuback u (frame h body) \<noteq> None"
    using ack [of "\<lparr>a_type = 0, a_dup = 0, a_packetid = u\<rparr>"]
    by (auto simp: MQTTDeserialize_unsuback_def)
  show "MQTTDeserialize_connack sp crc (frame h body) \<noteq> None"
    using dec by (cases body; cases "tl body")
      (auto simp: MQTTDeserialize_connack_def frame_def Let_def)
  show "MQTTDeserialize_suback s maxcount (frame h body) \<noteq> None"
  proof (cases "2 \<le> length body")
    case True
    then obtain n b where b: "readInt body = Some (n, b)" "length b = length body - 2"
      using readInt_long by blast
    then have "\<exists>ok g. read_granted (length body - 2) maxcount b [] = Some (ok, g)"
      by (intro read_granted_total) simp
    then obtain ok g where "read_granted (length body - 2) maxcount b [] = Some (ok, g)"
      by blast
    with b dec True show ?thesis
      by (auto simp: MQTTDeserialize_suback_def frame_def Let_def nat_diff_distrib)
  next
    case False
    with dec show ?thesis
      by (auto simp: MQTTDeserialize_suback_def frame_def Let_def)
  qed
  note slack = assms(2)
  note dec' = decode_frame [OF assms(1), of slack]
  obtain ok t ptr e where r:
    "readMQTTLenString (p_topic p) (body @ slack) (int (length body)) = Some (ok, t, ptr, e)"
    "e \<le> int (length ptr)" "0 \<le> e" "length ptr - nat e = length slack \<or> \<not> ok"
    by (rule readMQTTLenString_total [of "int (length body)" "body @ slack" "p_topic p"]) auto
  show "MQTTDeserialize_publish p (frame h body @ slack) \<noteq> None"
  proof (cases ok)
    case True
    with r slack have "2 \<le> length ptr" by auto
    then obtain n q where "readInt ptr = Some (n, q)" using readInt_long by blast
    with r dec' show ?thesis
      by (auto simp: MQTTDeserialize_publish_def frame_def Let_def)
  next
    case False
    with r dec' show ?thesis
      by (auto simp: MQTTDeserialize_publish_def frame_def Let_def)
  qed
qed

theorem deserializers_stay_inside_witness:
  "MQTTDeserialize_suback \<lparr>s_packetid = 0, s_count = 0, s_granted = []\<rparr> 5
     (frame 0x90 [0, 1, 0x80]) \<noteq> None \<and>
   MQTTDeserialize_publish \<lparr>p_dup = 0, p_qos = 0, p_retained = 0, p_packetid = 0,
     p_topic = MQTTString_initializer, p_payload = None, p_payloadlen = 0\<rparr>
     (frame 0x32 [0, 0] @ [0, 0]) \<noteq> None"
  using deserializers_stay_inside [where body = "[0, 1, 0x80]" and slack = "[0, 0]" and h = "0x90"
      and s = "\<lparr>s_packetid = 0, s_count = 0, s_granted = []\<rparr>" and maxcount = "5"]
    deserializers_stay_inside [where body = "[0, 0]" and slack = "[0, 0]" and h = "0x32"
      and p = "\<lparr>p_dup = 0, p_qos = 0, p_retained = 0, p_packetid = 0,
        p_topic = MQTTString_initializer, p_payload = None, p_payloadlen = 0\<rparr>"]
  by (simp add: rem_len_ok_def)

section \<open>Results that mislead\<close>

text \<open>
  A QoS 1 or 2 PUBLISH whose body ends right behind the topic, with no packet identifier, is
  accepted: the result is 1 (success), the two bytes behind the packet are taken as the
  identifier, and the payload length is \<open>- 2\<close>, which the client stores as \<open>2^32 - 2\<close>.
\<close>

theorem publish_without_packetid:
  assumes "qos = 1 \<or> qos = 2" "length topic < 65536"
  shows "\<exists>out'. MQTTDeserialize_publish out
      (frame (publish_header_byte dup qos retain) (len_str topic) @ a # b # rest) = Some (1, out') \<and>
    p_payloadlen out' = - 2 \<and> uint (word_of_int (p_payloadlen out') :: u32) = 4294967294 \<and>
    p_packetid out' = word_of_int (256 * uint a + uint b)"
proof -
  have "rem_len_ok (int (length (len_str topic)))"
    using assms(2) by (simp add: rem_len_ok_def)
  from deserialize_publish_frame [of "len_str topic" topic "[]", OF _ assms(2) this
      publish_header_byte_get(1)] show ?thesis
    using assms(1) by (auto simp: Let_def publish_header_byte_get)
qed

theorem publish_without_packetid_witness:
  "\<exists>out'. MQTTDeserialize_publish
      \<lparr>p_dup = 0, p_qos = 0, p_retained = 0, p_packetid = 0, p_topic = MQTTString_initializer,
       p_payload = None, p_payloadlen = 0\<rparr>
      (frame (publish_header_byte 0 1 0) (len_str [0x2F]) @ 7 # 8 # []) = Some (1, out') \<and>
    p_payloadlen out' = - 2 \<and> uint (word_of_int (p_payloadlen out') :: u32) = 4294967294 \<and>
    p_packetid out' = word_of_int (256 * uint (7 :: byte) + uint (8 :: byte))"
  by (rule publish_without_packetid) simp_all

text \<open>
  The result of \<open>MQTTDeserialize_ack\<close> on a packet too short to hold an identifier is the number
  of bytes of its remaining-length field, so 1, which its callers take for success; the
  identifier is left as it was. \<open>MQTTDeserialize_unsuback\<close> reports success for any
  acknowledgement type.
\<close>

theorem ack_truncated_success:
  assumes "length body < 2"
  shows "MQTTDeserialize_ack out (frame h body) =
      Some (1, out\<lparr>a_dup := MQTT_HEADER_GET_DUP h, a_type := MQTT_HEADER_GET_TYPE h\<rparr>) \<and>
    MQTTDeserialize_unsuback packetid (frame h body) = Some (1, packetid) \<and>
    MQTTDeserialize_unsuback packetid (frame h' (writeInt [] (uint packetid'))) = Some (1, packetid')"
proof (intro conjI)
  have ok: "rem_len_ok (int (length body))" "length (MQTTPacket_encode (int (length body))) = 1"
    "rem_len_ok (int (length (writeInt [] (uint packetid'))))"
    using assms by (simp_all add: rem_len_ok_def encode_small)
  show a: "MQTTDeserialize_ack out (frame h body) =
      Some (1, out\<lparr>a_dup := MQTT_HEADER_GET_DUP h, a_type := MQTT_HEADER_GET_TYPE h\<rparr>)" for out
    using deserialize_ack_frame [OF ok(1), of out h "[]"] ok assms by (simp add: Let_def)
  show "MQTTDeserialize_unsuback packetid (frame h body) = Some (1, packetid)"
    by (simp add: MQTTDeserialize_unsuback_def a)
  show "MQTTDeserialize_unsuback packetid (frame h' (writeInt [] (uint packetid'))) =
      Some (1, packetid')"
    using deserialize_ack_frame [OF ok(3), of "\<lparr>a_type = 0, a_dup = 0, a_packetid = packetid\<rparr>" h' "[]"]
      readInt_writeInt_append [OF uint16_range, of packetid' "[]"]
    by (simp add: MQTTDeserialize_unsuback_def Let_def)
qed

theorem ack_truncated_success_witness:
  "MQTTDeserialize_unsuback 0xBEEF (frame 0x40 [7]) = Some (1, 0xBEEF)"
  using ack_truncated_success [of "[7]"] by simp

text \<open>
  \<open>MQTTDeserialize_connack\<close> reports as session-present flag bit 7 of the acknowledge flags, not
  bit 0 where MQTT 3.1.1 puts it, and the return code unchanged.
\<close>

theorem connack_fields:
  "MQTTDeserialize_connack sp crc (frame (push_bit 4 CONNACK) [flags, code]) =
     Some (1, drop_bit 7 flags, code)"
proof -
  have "MQTT_HEADER_GET_TYPE (push_bit 4 CONNACK) = CONNACK"
    by (rule byte_eqI) (simp_all add: CONNACK_def header_defs bit_simps)
  moreover have "rem_len_ok (int (length [flags, code]))" by (simp add: rem_len_ok_def)
  ultimately show ?thesis
    using decode_frame [of "[flags, code]" "[]"]
    by (simp add: MQTTDeserialize_connack_def frame_def Let_def)
qed

end
