(* ===== verification/Sha256.thy ===== *)
theory Sha256
  imports EnosPrelude
begin

text \<open>
  SHA-256 and HMAC-SHA-256, \<^verbatim>\<open>src/src/infra/infra_sha256.c\<close>, as compiled: the file defines
  \<^verbatim>\<open>INFRA_SHA256_SMALLER\<close>, so \<^verbatim>\<open>utils_sha256_process\<close> is the rotating one-round loop.
  An input is the list of its \<^verbatim>\<open>ilen\<close> bytes. The context is proved to refine the standard
  (FIPS 180-4): what the streaming code leaves in the context after any sequence of updates is
  determined by the concatenation of the inputs, and the digest is the hash the standard
  defines for it.
\<close>

section \<open>The code\<close>

record iot_sha256_context =
  total :: "u32 \<times> u32"
  sha_state :: "u32 list"
  buffer :: "byte list"
  is224 :: int

definition GET_UINT32_BE :: "byte list \<Rightarrow> nat \<Rightarrow> u32" where
  "GET_UINT32_BE b i = push_bit 24 (ucast (b ! i)) OR push_bit 16 (ucast (b ! (i + 1)))
     OR push_bit 8 (ucast (b ! (i + 2))) OR ucast (b ! (i + 3))"

definition PUT_UINT32_BE :: "u32 \<Rightarrow> byte list" where
  "PUT_UINT32_BE n = [ucast (drop_bit 24 n), ucast (drop_bit 16 n), ucast (drop_bit 8 n), ucast n]"

definition utils_sha256_init :: "iot_sha256_context" where
  "utils_sha256_init = \<lparr>total = (0, 0), sha_state = replicate 8 0, buffer = replicate 64 0,
     is224 = 0\<rparr>"

definition utils_sha256_starts :: "iot_sha256_context \<Rightarrow> iot_sha256_context" where
  "utils_sha256_starts ctx = ctx\<lparr>total := (0, 0),
     sha_state := [0x6A09E667, 0xBB67AE85, 0x3C6EF372, 0xA54FF53A,
                   0x510E527F, 0x9B05688C, 0x1F83D9AB, 0x5BE0CD19],
     is224 := 0\<rparr>"

definition sha256_K :: "u32 list" where
  "sha256_K =
    [0x428A2F98, 0x71374491, 0xB5C0FBCF, 0xE9B5DBA5, 0x3956C25B, 0x59F111F1,
     0x923F82A4, 0xAB1C5ED5, 0xD807AA98, 0x12835B01, 0x243185BE, 0x550C7DC3,
     0x72BE5D74, 0x80DEB1FE, 0x9BDC06A7, 0xC19BF174, 0xE49B69C1, 0xEFBE4786,
     0x0FC19DC6, 0x240CA1CC, 0x2DE92C6F, 0x4A7484AA, 0x5CB0A9DC, 0x76F988DA,
     0x983E5152, 0xA831C66D, 0xB00327C8, 0xBF597FC7, 0xC6E00BF3, 0xD5A79147,
     0x06CA6351, 0x14292967, 0x27B70A85, 0x2E1B2138, 0x4D2C6DFC, 0x53380D13,
     0x650A7354, 0x766A0ABB, 0x81C2C92E, 0x92722C85, 0xA2BFE8A1, 0xA81A664B,
     0xC24B8B70, 0xC76C51A3, 0xD192E819, 0xD6990624, 0xF40E3585, 0x106AA070,
     0x19A4C116, 0x1E376C08, 0x2748774C, 0x34B0BCB5, 0x391C0CB3, 0x4ED8AA4A,
     0x5B9CCA4F, 0x682E6FF3, 0x748F82EE, 0x78A5636F, 0x84C87814, 0x8CC70208,
     0x90BEFFFA, 0xA4506CEB, 0xBEF9A3F7, 0xC67178F2]"

definition SHR :: "u32 \<Rightarrow> nat \<Rightarrow> u32" where
  "SHR x n = drop_bit n (x AND 0xFFFFFFFF)"
definition ROTR :: "u32 \<Rightarrow> nat \<Rightarrow> u32" where
  "ROTR x n = SHR x n OR push_bit (32 - n) x"

definition S0 :: "u32 \<Rightarrow> u32" where "S0 x = (ROTR x 7 XOR ROTR x 18) XOR SHR x 3"
definition S1 :: "u32 \<Rightarrow> u32" where "S1 x = (ROTR x 17 XOR ROTR x 19) XOR SHR x 10"
definition S2 :: "u32 \<Rightarrow> u32" where "S2 x = (ROTR x 2 XOR ROTR x 13) XOR ROTR x 22"
definition S3 :: "u32 \<Rightarrow> u32" where "S3 x = (ROTR x 6 XOR ROTR x 11) XOR ROTR x 25"
definition F0 :: "u32 \<Rightarrow> u32 \<Rightarrow> u32 \<Rightarrow> u32" where "F0 x y z = (x AND y) OR (z AND (x OR y))"
definition F1 :: "u32 \<Rightarrow> u32 \<Rightarrow> u32 \<Rightarrow> u32" where "F1 x y z = z XOR (x AND (y XOR z))"

text \<open>
  One round of the loop of \<^verbatim>\<open>utils_sha256_process\<close>: macro \<^verbatim>\<open>R\<close>, macro \<^verbatim>\<open>P\<close> on the working
  variables \<open>A\<close>, then the rotation of \<open>A\<close> by one. \<open>W\<close> holds the words filled so far.
\<close>

definition sha256_round ::
  "byte list \<Rightarrow> nat \<Rightarrow> u32 list \<times> u32 list \<Rightarrow> u32 list \<times> u32 list" where
  "sha256_round data i = (\<lambda>(W, A).
     (let w = (if i < 16 then GET_UINT32_BE data (4 * i)
               else S1 (W ! (i - 2)) + W ! (i - 7) + S0 (W ! (i - 15)) + W ! (i - 16));
          temp1 = A ! 7 + S3 (A ! 4) + F1 (A ! 4) (A ! 5) (A ! 6) + sha256_K ! i + w;
          temp2 = S2 (A ! 0) + F0 (A ! 0) (A ! 1) (A ! 2);
          A = A[3 := A ! 3 + temp1];
          A = A[7 := temp1 + temp2]
      in (W @ [w], [A ! 7, A ! 0, A ! 1, A ! 2, A ! 3, A ! 4, A ! 5, A ! 6])))"

definition utils_sha256_process ::
  "iot_sha256_context \<Rightarrow> byte list \<Rightarrow> iot_sha256_context" where
  "utils_sha256_process ctx data =
     (let (W, A) = fold (sha256_round data) [0..<64] ([], sha_state ctx)
      in ctx\<lparr>sha_state := map2 (+) (sha_state ctx) A\<rparr>)"

function sha256_absorb_blocks ::
  "iot_sha256_context \<Rightarrow> byte list \<Rightarrow> iot_sha256_context \<times> byte list" where
  "sha256_absorb_blocks ctx input =
     (if 64 \<le> length input
      then sha256_absorb_blocks (utils_sha256_process ctx (take 64 input)) (drop 64 input)
      else (ctx, input))"
  by auto
termination by (relation "measure (\<lambda>(_, input). length input)") auto

declare sha256_absorb_blocks.simps [simp del]

text \<open>The 64-bit byte count, kept in two words.\<close>

definition sha256_count :: "iot_sha256_context \<Rightarrow> u32 \<Rightarrow> iot_sha256_context" where
  "sha256_count ctx ilen =
     (let t0 = (fst (total ctx) + ilen) AND 0xFFFFFFFF;
          t1 = (if t0 < ilen then snd (total ctx) + 1 else snd (total ctx))
      in ctx\<lparr>total := (t0, t1)\<rparr>)"

definition utils_sha256_update ::
  "iot_sha256_context \<Rightarrow> byte list \<Rightarrow> iot_sha256_context" where
  "utils_sha256_update ctx input =
     (let ilen = (word_of_nat (length input) :: u32)
      in if ilen = 0 then ctx
         else
           let left = unat (fst (total ctx) AND 0x3F);
               fill = 64 - left;
               ctx = sha256_count ctx ilen;
               (ctx, input, left) =
                 (if left \<noteq> 0 \<and> length input \<ge> fill
                  then let ctx = ctx\<lparr>buffer := buf_write (buffer ctx) left (take fill input)\<rparr>
                       in (utils_sha256_process ctx (buffer ctx), drop fill input, 0)
                  else (ctx, input, left));
               (ctx, input) = sha256_absorb_blocks ctx input
           in if input \<noteq> [] then ctx\<lparr>buffer := buf_write (buffer ctx) left input\<rparr> else ctx)"

definition sha256_padding :: "byte list" where
  "sha256_padding = 0x80 # replicate 63 0"

definition utils_sha256_finish ::
  "iot_sha256_context \<Rightarrow> iot_sha256_context \<times> byte list" where
  "utils_sha256_finish ctx =
     (let high = drop_bit 29 (fst (total ctx)) OR push_bit 3 (snd (total ctx));
          low = push_bit 3 (fst (total ctx));
          msglen = PUT_UINT32_BE high @ PUT_UINT32_BE low;
          last = unat (fst (total ctx) AND 0x3F);
          padn = (if last < 56 then 56 - last else 120 - last);
          ctx = utils_sha256_update ctx (take padn sha256_padding);
          ctx = utils_sha256_update ctx msglen
      in (ctx, concat (map PUT_UINT32_BE (take 7 (sha_state ctx)))
               @ (if is224 ctx = 0 then PUT_UINT32_BE (sha_state ctx ! 7) else [])))"

definition utils_sha256 :: "byte list \<Rightarrow> byte list" where
  "utils_sha256 input =
     (let ctx = utils_sha256_starts utils_sha256_init;
          ctx = utils_sha256_update ctx input
      in snd (utils_sha256_finish ctx))"

text \<open>
  \<open>None\<close> when the function returns without writing \<^verbatim>\<open>output\<close> (a null argument, or a key
  longer than a block).
\<close>

definition utils_hmac_sha256 ::
  "byte list option \<Rightarrow> byte list option \<Rightarrow> byte list option" where
  "utils_hmac_sha256 msg key =
     (case (msg, key) of
        (Some msg, Some key) \<Rightarrow>
          if length key > 64 then None
          else
            let k = key @ replicate (64 - length key) 0;
                k_ipad = map (\<lambda>b. b XOR 0x36) k;
                k_opad = map (\<lambda>b. b XOR 0x5C) k;
                context = utils_sha256_starts utils_sha256_init;
                context = utils_sha256_update context k_ipad;
                context = utils_sha256_update context msg;
                (context, output) = utils_sha256_finish context;
                context = utils_sha256_starts utils_sha256_init;
                context = utils_sha256_update context k_opad;
                context = utils_sha256_update context output
            in Some (snd (utils_sha256_finish context))
      | _ \<Rightarrow> None)"

section \<open>The standard\<close>

text \<open>
  FIPS 180-4: the functions of section 4.1.2, the message schedule and the round of section
  6.2.2, the padding of section 5.1.1.
\<close>

definition Ch :: "u32 \<Rightarrow> u32 \<Rightarrow> u32 \<Rightarrow> u32" where "Ch x y z = (x AND y) XOR (NOT x AND z)"
definition Maj :: "u32 \<Rightarrow> u32 \<Rightarrow> u32 \<Rightarrow> u32" where
  "Maj x y z = (x AND y) XOR (x AND z) XOR (y AND z)"
definition Sum0 :: "u32 \<Rightarrow> u32" where
  "Sum0 x = word_rotr 2 x XOR word_rotr 13 x XOR word_rotr 22 x"
definition Sum1 :: "u32 \<Rightarrow> u32" where
  "Sum1 x = word_rotr 6 x XOR word_rotr 11 x XOR word_rotr 25 x"
definition sigma0 :: "u32 \<Rightarrow> u32" where
  "sigma0 x = word_rotr 7 x XOR word_rotr 18 x XOR drop_bit 3 x"
definition sigma1 :: "u32 \<Rightarrow> u32" where
  "sigma1 x = word_rotr 17 x XOR word_rotr 19 x XOR drop_bit 10 x"

fun fips_W :: "byte list \<Rightarrow> nat \<Rightarrow> u32" where
  "fips_W M t = (if t < 16 then GET_UINT32_BE M (4 * t)
     else sigma1 (fips_W M (t - 2)) + fips_W M (t - 7) + sigma0 (fips_W M (t - 15))
            + fips_W M (t - 16))"

declare fips_W.simps [simp del]

definition fips_round :: "byte list \<Rightarrow> nat \<Rightarrow> u32 list \<Rightarrow> u32 list" where
  "fips_round M t A =
     (let T1 = A ! 7 + Sum1 (A ! 4) + Ch (A ! 4) (A ! 5) (A ! 6) + sha256_K ! t + fips_W M t;
          T2 = Sum0 (A ! 0) + Maj (A ! 0) (A ! 1) (A ! 2)
      in [T1 + T2, A ! 0, A ! 1, A ! 2, A ! 3 + T1, A ! 4, A ! 5, A ! 6])"

definition fips_compress :: "u32 list \<Rightarrow> byte list \<Rightarrow> u32 list" where
  "fips_compress H M = map2 (+) H (fold (fips_round M) [0..<64] H)"

definition fips_H0 :: "u32 list" where
  "fips_H0 = [0x6A09E667, 0xBB67AE85, 0x3C6EF372, 0xA54FF53A,
              0x510E527F, 0x9B05688C, 0x1F83D9AB, 0x5BE0CD19]"

function fips_blocks :: "u32 list \<Rightarrow> byte list \<Rightarrow> u32 list" where
  "fips_blocks H msg =
     (if 64 \<le> length msg then fips_blocks (fips_compress H (take 64 msg)) (drop 64 msg) else H)"
  by auto
termination by (relation "measure (\<lambda>(_, msg). length msg)") auto

declare fips_blocks.simps [simp del]

definition fips_length :: "nat \<Rightarrow> byte list" where
  "fips_length n = PUT_UINT32_BE (word_of_nat (8 * n div 2 ^ 32)) @ PUT_UINT32_BE (word_of_nat (8 * n))"

definition fips_pad :: "byte list \<Rightarrow> byte list" where
  "fips_pad msg = msg @ [0x80] @ replicate (nat ((55 - int (length msg)) mod 64)) 0
                    @ fips_length (length msg)"

definition fips_sha256 :: "byte list \<Rightarrow> byte list" where
  "fips_sha256 msg = concat (map PUT_UINT32_BE (fips_blocks fips_H0 (fips_pad msg)))"

section \<open>One block\<close>

lemma SHR_drop [simp]: "SHR x n = drop_bit n x"
  by (simp add: SHR_def)

lemma ROTR_rotr:
  assumes "0 < n" "n < 32"
  shows "ROTR x n = word_rotr n x"
proof (rule bit_word_eqI)
  fix i :: nat
  assume "i < LENGTH(32)"
  then have i: "i < 32" by simp
  have l: "LENGTH(32) = 32" by simp
  have rotr: "bit (word_rotr n x) i = bit x ((i + n) mod 32)"
    using i by (simp only: bit_word_rotr_iff l simp_thms)
  have "bit (ROTR x n) i = (bit x (n + i) \<or> (32 - n \<le> i \<and> bit x (i - (32 - n))))"
    using i by (simp add: ROTR_def bit_or_iff bit_drop_bit_eq bit_push_bit_iff)
  moreover have "(i + n) mod 32 = (if i + n < 32 then i + n else i + n - 32)"
    using i assms by (simp add: mod_if)
  moreover have "\<not> i + n < 32 \<Longrightarrow> \<not> bit x (n + i)"
    by (auto dest: bit_imp_le_length)
  ultimately show "bit (ROTR x n) i = bit (word_rotr n x) i"
    using i assms rotr by (cases "i + n < 32") (auto simp: add.commute)
qed

lemma F0_Maj: "F0 x y z = Maj x y z"
  by (rule bit_word_eqI) (auto simp: F0_def Maj_def bit_simps)

lemma F1_Ch: "F1 x y z = Ch x y z"
  by (rule bit_word_eqI) (auto simp: F1_def Ch_def bit_simps)

lemmas sha256_functions = F0_Maj F1_Ch

lemma S_sigma [simp]: "S0 x = sigma0 x" "S1 x = sigma1 x" "S2 x = Sum0 x" "S3 x = Sum1 x"
  by (simp_all add: S0_def S1_def S2_def S3_def sigma0_def sigma1_def Sum0_def Sum1_def ROTR_rotr
      xor.assoc)

lemma length_fips_round [simp]: "length (fips_round M t A) = 8"
  by (simp add: fips_round_def Let_def)

lemma length_fold_round: "length A = 8 \<Longrightarrow> length (fold (fips_round M) ts A) = 8"
  by (induction ts arbitrary: A) simp_all

lemma sha256_round_fips:
  assumes "length A = 8" "W = map (fips_W M) [0..<t]"
  shows "sha256_round M t (W, A) = (map (fips_W M) [0..<Suc t], fips_round M t A)"
  using assms
  by (cases "t < 16")
    (simp_all add: sha256_round_def fips_round_def Let_def sha256_functions fips_W.simps [of M t])

lemma sha256_rounds_fips:
  assumes "length A = 8"
  shows "fold (sha256_round M) [0..<n] ([], A) =
         (map (fips_W M) [0..<n], fold (fips_round M) [0..<n] A)"
  by (induction n) (simp_all add: sha256_round_fips length_fold_round assms)

lemma process_compress:
  "length (sha_state ctx) = 8 \<Longrightarrow>
   utils_sha256_process ctx M = ctx\<lparr>sha_state := fips_compress (sha_state ctx) M\<rparr>"
  by (simp add: utils_sha256_process_def sha256_rounds_fips fips_compress_def)

lemma length_compress [simp]: "length H = 8 \<Longrightarrow> length (fips_compress H M) = 8"
  by (simp add: fips_compress_def length_fold_round)

section \<open>Runs of blocks\<close>

lemma length_blocks [simp]: "length H = 8 \<Longrightarrow> length (fips_blocks H msg) = 8"
proof (induction H msg rule: fips_blocks.induct)
  case (1 H msg)
  then show ?case by (subst fips_blocks.simps) simp
qed

lemma blocks_short [simp]: "length p < 64 \<Longrightarrow> fips_blocks H p = H"
  by (subst fips_blocks.simps) simp

lemma blocks_block [simp]:
  "length b = 64 \<Longrightarrow> fips_blocks H (b @ rest) = fips_blocks (fips_compress H b) rest"
  by (subst fips_blocks.simps) simp

lemma blocks_append:
  "64 dvd length q \<Longrightarrow> fips_blocks H (q @ rest) = fips_blocks (fips_blocks H q) rest"
proof (induction H q rule: fips_blocks.induct)
  case (1 H q)
  show ?case
  proof (cases "64 \<le> length q")
    case True
    with 1 have "64 dvd length (drop 64 q)" by (simp add: dvd_diff_nat)
    with True 1 have "fips_blocks (fips_compress H (take 64 q)) (drop 64 q @ rest) =
        fips_blocks (fips_blocks (fips_compress H (take 64 q)) (drop 64 q)) rest" by simp
    then show ?thesis
      using True by (simp add: fips_blocks.simps [of H "q @ rest"] fips_blocks.simps [of H q])
  next
    case False
    with 1(2) have "q = []" by (auto dest: dvd_imp_le)
    then show ?thesis by simp
  qed
qed

lemma absorb_blocks_spec:
  assumes "length (sha_state ctx) = 8"
  shows "\<exists>q rest. sha256_absorb_blocks ctx input =
           (ctx\<lparr>sha_state := fips_blocks (sha_state ctx) q\<rparr>, rest) \<and>
           input = q @ rest \<and> 64 dvd length q \<and> length rest < 64"
  using assms
proof (induction ctx input rule: sha256_absorb_blocks.induct)
  case (1 ctx input)
  show ?case
  proof (cases "64 \<le> length input")
    case True
    let ?ctx = "ctx\<lparr>sha_state := fips_compress (sha_state ctx) (take 64 input)\<rparr>"
    obtain q rest where q: "sha256_absorb_blocks ?ctx (drop 64 input) =
        (?ctx\<lparr>sha_state := fips_blocks (sha_state ?ctx) q\<rparr>, rest)"
      "drop 64 input = q @ rest" "64 dvd length q" "length rest < 64"
      using 1 True by (auto simp: process_compress)
    have "input = (take 64 input @ q) @ rest" using q(2) by (metis append.assoc append_take_drop_id)
    moreover have "64 dvd length (take 64 input @ q)" using True q(3) by simp
    moreover have "sha256_absorb_blocks ctx input =
        (ctx\<lparr>sha_state := fips_blocks (sha_state ctx) (take 64 input @ q)\<rparr>, rest)"
      using True q(1) 1(2) by (subst sha256_absorb_blocks.simps) (simp add: process_compress)
    ultimately show ?thesis using q(4) by blast
  next
    case False
    then have "sha256_absorb_blocks ctx input = (ctx\<lparr>sha_state := fips_blocks (sha_state ctx) []\<rparr>, input)"
      by (subst sha256_absorb_blocks.simps) simp
    then show ?thesis using False by (intro exI [of _ "[]"] exI [of _ input]) simp
  qed
qed

section \<open>The context\<close>

text \<open>
  A context that has taken in the bytes \<open>msg\<close>: the hash state of the whole blocks, the tail in
  the buffer, the 64-bit count in two words.
\<close>

definition absorbed :: "iot_sha256_context \<Rightarrow> byte list \<Rightarrow> bool" where
  "absorbed ctx msg \<longleftrightarrow>
     total ctx = (word_of_nat (length msg), word_of_nat (length msg div 2 ^ 32)) \<and>
     length (buffer ctx) = 64 \<and> is224 ctx = 0 \<and>
     (\<exists>q p. msg = q @ p \<and> 64 dvd length q \<and> length p < 64 \<and>
            sha_state ctx = fips_blocks fips_H0 q \<and> take (length p) (buffer ctx) = p)"

lemma absorbedI:
  assumes "total ctx = (word_of_nat (length msg), word_of_nat (length msg div 2 ^ 32))"
    "length (buffer ctx) = 64" "is224 ctx = 0" "msg = q @ p" "64 dvd length q" "length p < 64"
    "sha_state ctx = fips_blocks fips_H0 q" "take (length p) (buffer ctx) = p"
  shows "absorbed ctx msg"
  using assms unfolding absorbed_def by blast

lemma absorbed_starts: "length (buffer ctx) = 64 \<Longrightarrow> absorbed (utils_sha256_starts ctx) []"
  by (simp add: absorbed_def utils_sha256_starts_def fips_H0_def)

lemma length_H0 [simp]: "length fips_H0 = 8"
  by (simp add: fips_H0_def)

lemma low_six_bits:
  fixes n :: nat
  shows "unat ((word_of_nat n :: u32) AND 0x3F) = n mod 64"
proof -
  have "(0x3F :: u32) = mask 6" by (simp add: mask_eq_exp_minus_1)
  then have "(word_of_nat n :: u32) AND 0x3F = take_bit 6 (word_of_nat n)"
    by (simp only: take_bit_eq_mask)
  also have "\<dots> = word_of_nat (take_bit 6 n)"
    by (simp only: take_bit_of_nat)
  finally have "unat ((word_of_nat n :: u32) AND 0x3F) = take_bit 32 (take_bit 6 n)"
    by (simp add: unat_of_nat take_bit_eq_mod)
  then show ?thesis by (simp add: take_bit_eq_mod)
qed

lemma div_add_carry: "0 < c \<Longrightarrow> (n + m) div c = n div c + (n mod c + m) div (c :: nat)"
  using div_mult_self3 [of c "n div c" "n mod c + m"] by (simp add: add.assoc [symmetric])

lemma word_of_nat_inverse32: "n < 2 ^ 32 \<Longrightarrow> unat (word_of_nat n :: u32) = n"
  by (simp add: unat_of_nat)

lemma carry_count:
  assumes "m < 2 ^ 32"
  shows "(if (word_of_nat (n + m) :: u32) < word_of_nat m then (word_of_nat (n div 2 ^ 32) + 1 :: u32)
          else word_of_nat (n div 2 ^ 32)) = word_of_nat ((n + m) div 2 ^ 32)"
proof -
  let ?q = "n div 2 ^ 32" and ?r = "n mod 2 ^ 32"
  have r: "?r < 2 ^ 32" by simp
  have u: "unat (word_of_nat k :: u32) = k mod 2 ^ 32" for k
    by (simp add: unat_of_nat)
  have less: "((word_of_nat (n + m) :: u32) < word_of_nat m) \<longleftrightarrow> (n + m) mod 2 ^ 32 < m"
    using assms by (simp only: word_less_nat_alt u mod_less)
  have split: "(n + m) div 2 ^ 32 = ?q + (?r + m) div 2 ^ 32" "(n + m) mod 2 ^ 32 = (?r + m) mod 2 ^ 32"
    by (rule div_add_carry) (simp_all only: mod_add_left_eq, simp)
  show ?thesis
  proof (cases "?r + m < 2 ^ 32")
    case True
    then show ?thesis unfolding less split by simp
  next
    case False
    then have "(?r + m) div 2 ^ 32 = 1" "(?r + m) mod 2 ^ 32 = ?r + m - 2 ^ 32"
      using r assms by (simp_all add: div_nat_eqI mod_nat_eqI le_mod_geq)
    moreover from this have "(?r + m) mod 2 ^ 32 < m" using r assms False by simp
    ultimately show ?thesis unfolding less split by simp
  qed
qed

lemma update_absorbed:
  assumes ctx: "absorbed ctx msg" and len: "length input < 2 ^ 32"
  shows "absorbed (utils_sha256_update ctx input) (msg @ input)"
proof (cases "input = []")
  case True
  with ctx show ?thesis by (simp add: utils_sha256_update_def)
next
  case False
  obtain q p where m: "msg = q @ p" "64 dvd length q" "length p < 64"
      "sha_state ctx = fips_blocks fips_H0 q" "take (length p) (buffer ctx) = p"
    and c: "total ctx = (word_of_nat (length msg), word_of_nat (length msg div 2 ^ 32))"
      "length (buffer ctx) = 64" "is224 ctx = 0"
    using ctx by (auto simp: absorbed_def)
  have nz: "(word_of_nat (length input) :: u32) \<noteq> 0"
  proof
    assume "(word_of_nat (length input) :: u32) = 0"
    with word_of_nat_inverse32 [OF len] have "length input = 0" by simp
    with False show False by simp
  qed
  have left: "unat (fst (total ctx) AND 0x3F) = length p"
  proof -
    obtain k where "length q = 64 * k" using m(2) by (auto simp: dvd_def)
    with m(1,3) show ?thesis by (simp only: c(1) fst_conv low_six_bits) simp
  qed
  let ?t = "(word_of_nat (length (msg @ input)), word_of_nat (length (msg @ input) div 2 ^ 32)) :: u32 \<times> u32"
  define c1 where "c1 = ctx\<lparr>total := ?t\<rparr>"
  have t: "sha256_count ctx (word_of_nat (length input)) = c1"
    by (simp only: sha256_count_def c1_def c fst_conv snd_conv and_u32_all Let_def length_append
        of_nat_add [symmetric] carry_count [OF len])
  have c1: "buffer c1 = buffer ctx" "sha_state c1 = sha_state ctx" "is224 c1 = is224 ctx"
      "total c1 = ?t"
    by (simp_all add: c1_def)
  show ?thesis
  proof (cases "length p \<noteq> 0 \<and> length input \<ge> 64 - length p")
    case True
    let ?b = "take (64 - length p) input" and ?r = "drop (64 - length p) input"
    have "length ?b = 64 - length p" using True by simp
    then have buf: "buf_write (buffer ctx) (length p) ?b = p @ ?b"
      using c(2) m(3,5) by (simp add: buf_write_fits)
    have blk: "length (p @ ?b) = 64" using True m by simp
    define c2 where "c2 = c1\<lparr>buffer := p @ ?b, sha_state := fips_compress (sha_state ctx) (p @ ?b)\<rparr>"
    have proc: "utils_sha256_process (c1\<lparr>buffer := p @ ?b\<rparr>) (p @ ?b) = c2"
      by (simp add: process_compress c1 c2_def m)
    obtain q' r' where a: "sha256_absorb_blocks c2 ?r =
        (c2\<lparr>sha_state := fips_blocks (sha_state c2) q'\<rparr>, r')"
      "?r = q' @ r'" "64 dvd length q'" "length r' < 64"
      using absorb_blocks_spec [of c2 ?r] by (auto simp: c2_def m)
    have upd: "utils_sha256_update ctx input =
        (if r' \<noteq> [] then (c2\<lparr>sha_state := fips_blocks (sha_state c2) q'\<rparr>)
             \<lparr>buffer := buf_write (p @ ?b) 0 r'\<rparr>
         else c2\<lparr>sha_state := fips_blocks (sha_state c2) q'\<rparr>)"
      using nz True a(1) buf proc c1(1)
      by (simp add: utils_sha256_update_def left t Let_def) (simp add: c2_def)
    have "msg @ input = (q @ (p @ ?b) @ q') @ r'"
      using m a(2) by (metis append.assoc append_take_drop_id)
    moreover have "64 dvd length (q @ (p @ ?b) @ q')"
      using m(2) a(3) blk by (metis dvd_add dvd_refl length_append)
    moreover have "fips_blocks fips_H0 (q @ (p @ ?b) @ q') = fips_blocks (sha_state c2) q'"
      using m(2,4) blk by (simp only: blocks_append blocks_block) (simp add: c2_def)
    ultimately show ?thesis
      using a(4) blk c unfolding upd
      by (intro absorbedI [where q = "q @ (p @ ?b) @ q'" and p = r'])
        (auto simp: c2_def c1 buf_write_fits)
  next
    case short: False
    obtain q' r' where a: "sha256_absorb_blocks c1 input =
        (c1\<lparr>sha_state := fips_blocks (sha_state c1) q'\<rparr>, r')"
      "input = q' @ r'" "64 dvd length q'" "length r' < 64"
      using absorb_blocks_spec [of c1 input] by (auto simp: c1 m)
    have upd: "utils_sha256_update ctx input =
        (if r' \<noteq> [] then (c1\<lparr>sha_state := fips_blocks (sha_state c1) q'\<rparr>)
             \<lparr>buffer := buf_write (buffer ctx) (length p) r'\<rparr>
         else c1\<lparr>sha_state := fips_blocks (sha_state c1) q'\<rparr>)"
      using nz short a(1) c1(1)
      by (auto simp: utils_sha256_update_def left t Let_def)
    show ?thesis
    proof (cases "p = []")
      case True
      then have "fips_blocks fips_H0 (q @ q') = fips_blocks (sha_state c1) q'" "64 dvd length (q @ q')"
        using m a by (simp_all add: blocks_append c1)
      then show ?thesis
        using a c m True unfolding upd
        by (intro absorbedI [where q = "q @ q'" and p = r']) (auto simp: c1 buf_write_fits)
    next
      case False
      then have "q' = []" using short a(2,3) by (auto dest: dvd_imp_le)
      moreover from this have "length (p @ r') < 64" using False short a(2) by simp
      ultimately show ?thesis
        using a c m unfolding upd
        by (intro absorbedI [where q = q and p = "p @ r'"]) (auto simp: c1 buf_write_fits)
    qed
  qed
qed

lemma absorbed_foldl:
  "absorbed ctx msg \<Longrightarrow> \<forall>input \<in> set inputs. length input < 2 ^ 32 \<Longrightarrow>
   absorbed (foldl utils_sha256_update ctx inputs) (msg @ concat inputs)"
proof (induction inputs arbitrary: ctx msg)
  case (Cons a inputs)
  then have "absorbed (utils_sha256_update ctx a) (msg @ a)" by (intro update_absorbed) auto
  from Cons.IH [OF this] Cons.prems(2) show ?case by simp
qed simp

lemma finish_length:
  "PUT_UINT32_BE (drop_bit 29 (word_of_nat n) OR push_bit 3 (word_of_nat (n div 2 ^ 32)))
     @ PUT_UINT32_BE (push_bit 3 (word_of_nat n)) = fips_length n"
proof -
  have low: "push_bit 3 (word_of_nat n) = (word_of_nat (8 * n) :: u32)"
    by (simp add: push_bit_eq_mult)
  have high: "drop_bit 29 (word_of_nat n) OR push_bit 3 (word_of_nat (n div 2 ^ 32)) =
        (word_of_nat (8 * n div 2 ^ 32) :: u32)"
  proof (rule bit_word_eqI)
    fix i :: nat
    assume "i < LENGTH(32)"
    then have i: "i < 32" by simp
    have b: "bit (word_of_nat k :: u32) j \<longleftrightarrow> j < 32 \<and> bit k j" for k j
      by (simp add: bit_of_nat_iff)
    have e: "8 * n div 2 ^ 32 = drop_bit 29 n" "n div 2 ^ 32 = drop_bit 32 n"
      by (simp_all add: drop_bit_eq_div)
    have "bit (drop_bit 29 (word_of_nat n) OR push_bit 3 (word_of_nat (n div 2 ^ 32)) :: u32) i
        \<longleftrightarrow> (29 + i < 32 \<and> bit n (29 + i)) \<or> (3 \<le> i \<and> bit n (32 + (i - 3)))"
      using i unfolding e(2) by (auto simp: bit_or_iff bit_drop_bit_eq bit_push_bit_iff b)
    also have "\<dots> \<longleftrightarrow> bit n (29 + i)"
      by (cases "3 \<le> i") (simp_all add: add.commute)
    also have "\<dots> \<longleftrightarrow> bit (word_of_nat (8 * n div 2 ^ 32) :: u32) i"
      using i by (simp only: e(1) b bit_drop_bit_eq o_def simp_thms)
    finally show "bit (drop_bit 29 (word_of_nat n) OR push_bit 3 (word_of_nat (n div 2 ^ 32)) :: u32) i
        = bit (word_of_nat (8 * n div 2 ^ 32) :: u32) i" .
  qed
  show ?thesis by (simp only: fips_length_def low high)
qed

lemma padding_bytes:
  assumes "n mod 64 = l"
  shows "take (if l < 56 then 56 - l else 120 - l) sha256_padding
         = [0x80] @ replicate (nat ((55 - int n) mod 64)) 0"
proof -
  have "l < 64" using assms by auto
  have "int l = int n mod 64" by (simp only: assms [symmetric] of_nat_mod of_nat_numeral)
  then have "(55 - int n) mod 64 = (55 - int l) mod 64"
    by (simp only: mod_diff_right_eq)
  also have "\<dots> = (if l < 56 then 55 - int l else 119 - int l)"
  proof (cases "l < 56")
    case True
    then show ?thesis by (simp add: mod_pos_pos_trivial)
  next
    case False
    have "(55 - int l) mod 64 = (55 - int l + 64) mod 64" by (simp only: mod_add_self2)
    also have "\<dots> = 119 - int l"
      using False \<open>l < 64\<close> mod_pos_pos_trivial [of "119 - int l" 64] by simp
    finally show ?thesis using False by simp
  qed
  finally have "nat ((55 - int n) mod 64) = (if l < 56 then 55 - l else 119 - l)"
    by (auto simp: nat_diff_distrib)
  with \<open>l < 64\<close> show ?thesis
    by (auto simp: sha256_padding_def take_Cons' min_def)
qed

lemma finish_digest:
  assumes "absorbed ctx msg"
  shows "snd (utils_sha256_finish ctx) = fips_sha256 msg"
proof -
  have t: "total ctx = (word_of_nat (length msg), word_of_nat (length msg div 2 ^ 32))"
    using assms by (simp add: absorbed_def)
  have last: "unat (fst (total ctx) AND 0x3F) = length msg mod 64"
    by (simp only: t fst_conv low_six_bits)
  define pad where "pad = [0x80] @ replicate (nat ((55 - int (length msg)) mod 64)) (0 :: byte)"
  have "nat ((55 - int (length msg)) mod 64) < 64" by (simp add: nat_less_iff)
  then have pl: "length pad < 2 ^ 32" by (simp add: pad_def)
  define c1 where "c1 = utils_sha256_update ctx pad"
  define c2 where "c2 = utils_sha256_update c1 (fips_length (length msg))"
  have c2: "absorbed c2 (fips_pad msg)"
    using update_absorbed [OF update_absorbed [OF assms pl], of "fips_length (length msg)"]
    by (simp add: c1_def c2_def pad_def fips_pad_def fips_length_def PUT_UINT32_BE_def)
  have "64 dvd length (fips_pad msg)"
  proof -
    have "(int (length msg) + 1 + (55 - int (length msg)) mod 64 + 8) mod 64 = 0"
      using mod_add_right_eq [of "int (length msg) + 9" "55 - int (length msg)" 64]
      by (simp add: algebra_simps)
    then have "int (length (fips_pad msg)) mod 64 = 0"
      by (simp add: fips_pad_def fips_length_def PUT_UINT32_BE_def algebra_simps)
    then show ?thesis by presburger
  qed
  moreover obtain q p where qp: "fips_pad msg = q @ p" "64 dvd length q" "length p < 64"
      "sha_state c2 = fips_blocks fips_H0 q" and z: "is224 c2 = 0"
    using c2 by (auto simp: absorbed_def)
  ultimately have "p = []" by (auto simp: dvd_add_right_iff dest: dvd_imp_le)
  with qp have st: "sha_state c2 = fips_blocks fips_H0 (fips_pad msg)" by simp
  then have "length (sha_state c2) = 8" by simp
  then have eight: "take 7 (sha_state c2) @ [sha_state c2 ! 7] = sha_state c2"
    using take_Suc_conv_app_nth [of 7 "sha_state c2"] by simp
  have "utils_sha256_finish ctx = (c2, concat (map PUT_UINT32_BE (sha_state c2)))"
    unfolding utils_sha256_finish_def Let_def last
      padding_bytes [OF refl, of "length msg", folded pad_def]
    by (simp only: t fst_conv snd_conv finish_length c1_def [symmetric] c2_def [symmetric] z if_True)
      (subst (3) eight [symmetric], simp)
  then show ?thesis by (simp add: fips_sha256_def st)
qed

section \<open>Results\<close>

text \<open>
  C26. The digest of any sequence of updates is the FIPS 180-4 hash of the concatenation of
  their inputs, whatever the way the message is cut, as long as each single update is shorter
  than \<open>2^32\<close> bytes (its length argument is a 32-bit word).
\<close>

theorem sha256_streaming:
  assumes "\<forall>input \<in> set inputs. length input < 2 ^ 32"
  shows "snd (utils_sha256_finish
           (foldl utils_sha256_update (utils_sha256_starts utils_sha256_init) inputs))
         = fips_sha256 (concat inputs)"
  using absorbed_foldl [OF absorbed_starts assms, of utils_sha256_init]
  by (intro finish_digest) (simp add: utils_sha256_init_def)

theorem sha256_streaming_witness:
  "snd (utils_sha256_finish (foldl utils_sha256_update (utils_sha256_starts utils_sha256_init)
     [[0x61], [], [0x62, 0x63]])) = fips_sha256 [0x61, 0x62, 0x63]"
  using sha256_streaming [of "[[0x61], [], [0x62, 0x63]]"] by simp

text \<open>
  C27. \<open>utils_hmac_sha256\<close> is HMAC over the standard's hash, for every message and key it
  accepts; it leaves the output untouched exactly for a missing argument or a key longer than
  one block.
\<close>

theorem hmac_sha256_correct:
  assumes "length msg < 2 ^ 32"
  shows "utils_hmac_sha256 (Some msg) (Some key) =
    (if length key \<le> 64
     then let k = key @ replicate (64 - length key) 0
          in Some (fips_sha256 (map (\<lambda>b. b XOR 0x5C) k
                     @ fips_sha256 (map (\<lambda>b. b XOR 0x36) k @ msg)))
     else None)"
proof (cases "length key \<le> 64")
  case True
  let ?k = "key @ replicate (64 - length key) 0"
  let ?i = "map (\<lambda>b. b XOR 0x36) ?k" and ?o = "map (\<lambda>b. b XOR 0x5C) ?k"
  have l: "length ?i < 2 ^ 32" "length ?o < 2 ^ 32" using True by simp_all
  have st: "absorbed (utils_sha256_starts utils_sha256_init) []"
    by (simp add: absorbed_starts utils_sha256_init_def)
  have "length (fips_blocks fips_H0 m) = 8" for m by simp
  then have "length (fips_sha256 m) = 32" for m
    by (simp add: fips_sha256_def length_concat PUT_UINT32_BE_def comp_def sum_list_triv)
  then have d: "length (fips_sha256 m) < 2 ^ 32" for m by simp
  have inner: "snd (utils_sha256_finish (utils_sha256_update (utils_sha256_update
      (utils_sha256_starts utils_sha256_init) ?i) msg)) = fips_sha256 (?i @ msg)"
    using finish_digest [OF update_absorbed [OF update_absorbed [OF st l(1)] assms]] by simp
  have outer: "snd (utils_sha256_finish (utils_sha256_update (utils_sha256_update
      (utils_sha256_starts utils_sha256_init) ?o) (fips_sha256 m))) = fips_sha256 (?o @ fips_sha256 m)"
    for m
    using finish_digest [OF update_absorbed [OF update_absorbed [OF st l(2)] d]] by simp
  obtain c out where f: "utils_sha256_finish (utils_sha256_update (utils_sha256_update
      (utils_sha256_starts utils_sha256_init) ?i) msg) = (c, out)" by (cases rule: prod.exhaust)
  with inner have out: "out = fips_sha256 (?i @ msg)" by simp
  show ?thesis
    unfolding utils_hmac_sha256_def Let_def prod.case option.case f
    using True by (simp only: not_less [symmetric] if_False if_True not_not out outer simp_thms)
next
  case False
  then show ?thesis by (simp add: utils_hmac_sha256_def)
qed

theorem hmac_sha256_correct_witness:
  "utils_hmac_sha256 (Some [0x61]) (Some (replicate 65 0)) = None"
  using hmac_sha256_correct [of "[0x61]" "replicate 65 0"] by simp

end
