(* ===== verification/InfraString.thy ===== *)
theory InfraString
  imports EnosPrelude "HOL-Library.Monad_Syntax"
begin

text \<open>
  The string helpers, \<^verbatim>\<open>src/src/infra/infra_string.c\<close>: hexadecimal and decimal conversion,
  the tokenizer the topic checker is built on, and the key search the client applies to
  identity responses and dynamic-activation answers.

  A C string is the list of its characters before the terminating NUL, a (pointer, length)
  pair the list of those bytes. An output buffer is the list of the bytes written to it.
\<close>

section \<open>Conversions\<close>

definition infra_hex2char :: "byte \<Rightarrow> byte" where
  "infra_hex2char hex =
     (let hex = hex AND 0xF in if hex < 10 then 0x30 + hex else hex - 10 + 0x61)"

definition zEncode_upper :: "byte list" where
  "zEncode_upper = [0x30, 0x31, 0x32, 0x33, 0x34, 0x35, 0x36, 0x37, 0x38, 0x39,
                    0x41, 0x42, 0x43, 0x44, 0x45, 0x46]"

definition zEncode_lower :: "byte list" where
  "zEncode_lower = [0x30, 0x31, 0x32, 0x33, 0x34, 0x35, 0x36, 0x37, 0x38, 0x39,
                    0x61, 0x62, 0x63, 0x64, 0x65, 0x66]"

fun infra_hex2str :: "byte list \<Rightarrow> byte list" where
  "infra_hex2str [] = []"
| "infra_hex2str (x # xs) =
     zEncode_upper ! unat (drop_bit 4 x AND 0xF) # zEncode_upper ! unat (x AND 0xF)
       # infra_hex2str xs"

fun LITE_hexbuf_convert :: "bool \<Rightarrow> byte list \<Rightarrow> byte list" where
  "LITE_hexbuf_convert uppercase [] = []"
| "LITE_hexbuf_convert uppercase (a # digest) =
     (let enc = (if uppercase then zEncode_upper else zEncode_lower)
      in enc ! unat (drop_bit 4 a AND 0xF) # enc ! unat (a AND 0xF)
           # LITE_hexbuf_convert uppercase digest)"

text \<open>The digits of \<open>input\<close>, last one first, as the first loop leaves them in \<^verbatim>\<open>tmp\<close>.\<close>

function infra_int2str_tmp :: "u32 \<Rightarrow> byte list" where
  "infra_int2str_tmp input =
     (let c = ucast (input mod 10) + 0x30; input' = input div 10
      in if input' > 0 then c # infra_int2str_tmp input' else [c])"
  by auto
termination
  by (relation "measure unat") (auto simp: word_less_nat_alt unat_div word_gt_0)

declare infra_int2str_tmp.simps [simp del]

definition infra_int2str :: "u32 \<Rightarrow> byte list" where
  "infra_int2str input = rev (infra_int2str_tmp input)"

definition hexval_of_char :: "byte \<Rightarrow> byte" where
  "hexval_of_char hex =
     (if hex \<le> 0x39 \<and> hex \<ge> 0x30 then hex - 0x30
      else if hex \<ge> 0x61 \<and> hex \<le> 0x66 then hex - 0x61 + 10
      else if hex \<ge> 0x41 \<and> hex \<le> 0x46 then hex - 0x41 + 10
      else 0)"

fun hexstr_loop :: "nat \<Rightarrow> byte list \<Rightarrow> byte list" where
  "hexstr_loop room (a # b # input) =
     (if room = 0 then []
      else (push_bit 4 (hexval_of_char a) OR hexval_of_char b) # hexstr_loop (room - 1) input)"
| "hexstr_loop room _ = []"

definition LITE_hexstr_convert :: "byte list \<Rightarrow> nat \<Rightarrow> byte list" where
  "LITE_hexstr_convert input output_len =
     (if odd (length input) then [] else hexstr_loop output_len input)"

fun str2int_digits :: "byte list \<Rightarrow> int \<Rightarrow> int" where
  "str2int_digits [] temp = temp"
| "str2int_digits (c # input) temp =
     (if c < 0x30 \<or> c > 0x39 then temp else str2int_digits input (temp * 10 + uint (c - 0x30)))"

definition infra_str2int :: "byte list \<Rightarrow> int" where
  "infra_str2int input =
     (let input = dropWhile (\<lambda>c. c = 0x20) input
      in case input of
           [] \<Rightarrow> str2int_digits [] 0
         | c # rest \<Rightarrow> if c = 0x2B then str2int_digits rest 0
                       else if c = 0x2D then - str2int_digits rest 0
                       else str2int_digits input 0)"

fun str2uint_loop :: "byte list \<Rightarrow> u32 \<Rightarrow> u32 option" where
  "str2uint_loop [] temp = Some temp"
| "str2uint_loop (c # input) temp =
     (if c < 0x30 \<or> c > 0x39 then None
      else str2uint_loop input (temp * 10 + ucast c - 0x30))"

text \<open>\<open>None\<close> is the result - 1, which leaves the output alone.\<close>

definition utils_str2uint :: "byte list \<Rightarrow> u32 option" where
  "utils_str2uint input = str2uint_loop input 0"

definition infra_str_replace :: "byte list \<Rightarrow> byte \<Rightarrow> byte \<Rightarrow> byte list" where
  "infra_str_replace origin src dst = map (\<lambda>c. if c = src then dst else c) origin"

section \<open>The tokenizer\<close>

text \<open>
  \<open>infra_strtok\<close> keeps the position in the string it cuts up in a static variable, here the
  state \<open>pos\<close>: \<open>None\<close> is the null pointer, \<open>Some s\<close> the string from that position on. The
  string between \<^verbatim>\<open>target\<close> and \<^verbatim>\<open>pos\<close> is \<open>tok\<close>, so \<^verbatim>\<open>target == pos\<close> is \<open>tok = []\<close>. With an
  empty delimiter the C loop need not end, and then the result is \<open>None\<close>.
\<close>

partial_function (option) strtok_loop ::
  "bool \<Rightarrow> byte list \<Rightarrow> byte list \<Rightarrow> byte list \<Rightarrow> (byte list option \<times> byte list) option" where
  "strtok_loop only_delim tok pos delim =
     (if length pos < length delim then Some (Some (tok @ pos), pos)
      else if take (length delim) pos \<noteq> delim
      then strtok_loop False (tok @ [hd pos]) (tl pos) delim
      else if length pos = length delim
      then Some (if only_delim then None else Some tok, [])
      else if tok = [] then strtok_loop only_delim [] (drop (length delim) pos) delim
      else Some (Some tok, drop (length delim) pos))"

declare strtok_loop.simps [code]

definition infra_strtok ::
  "byte list option \<Rightarrow> byte list \<Rightarrow> byte list option \<Rightarrow> (byte list option \<times> byte list option) option"
  where
  "infra_strtok str delim pos =
     (let pos = (if str = None then pos else str)
      in case pos of
           None \<Rightarrow> Some (None, pos)
         | Some p \<Rightarrow>
             if length p \<le> length delim then Some (None, pos)
             else map_option (\<lambda>(t, p). (t, Some p)) (strtok_loop True [] p delim))"

section \<open>Looking up a key in a JSON text\<close>

text \<open>
  The inner loop: the distance from \<open>idx\<close> to the first of the three closing characters.
\<close>

fun json_value_end :: "byte list \<Rightarrow> nat option" where
  "json_value_end [] = None"
| "json_value_end (c # cs) =
     (if c = 0x2C \<or> c = 0x7D \<or> c = 0x5D then Some 0 else map_option Suc (json_value_end cs))"

text \<open>
  The outer loop, \<open>idx\<close> characters into the input. The result is the start and length of the
  value, or \<open>None\<close> for - 1. When no closing character follows, \<^verbatim>\<open>idx\<close> has reached the end and
  the outer loop ends as well.
\<close>

function json_value_loop ::
  "byte list \<Rightarrow> byte list \<Rightarrow> nat \<Rightarrow> (nat \<times> nat) option" where
  "json_value_loop input key idx =
     (if idx < length input
      then if idx + length key \<ge> length input then None
           else if take (length key) (drop idx input) = key
           then let idx = idx + length key
                in if idx + 4 \<ge> length input \<or> input ! (idx + 1) \<noteq> 0x3A then None
                   else map_option (\<lambda>n. (idx + 2, n)) (json_value_end (drop (idx + 2) input))
           else json_value_loop input key (idx + 1)
      else None)"
  by auto
termination by (relation "measure (\<lambda>(input, key, idx). length input - idx)") auto

declare json_value_loop.simps [simp del]

definition infra_json_value :: "byte list \<Rightarrow> byte list \<Rightarrow> (nat \<times> nat) option" where
  "infra_json_value input key = json_value_loop input key 0"

section \<open>Round trips\<close>

lemma byte_nibbles: "push_bit 4 (drop_bit 4 x AND 0xF) OR (x AND 0xF) = (x :: byte)"
  by (rule byte_eqI) (simp_all add: bit_simps)

lemma byte_nibbles' [simp]: "push_bit 4 (drop_bit 4 x) AND 240 OR x AND 15 = (x :: byte)"
  by (rule byte_eqI) (simp_all add: bit_simps)

lemma nibble_cases:
  fixes x :: byte
  shows "x AND 0xF \<in> {0, 1, 2, 3, 4, 5, 6, 7, 8, 9, 10, 11, 12, 13, 14, 15}"
proof -
  have "unat (x AND 0xF) \<le> unat (0xF :: byte)"
    by (simp only: word_and_le1 flip: word_le_nat_alt)
  then have "unat (x AND 0xF) < 16" by simp
  then have "unat (x AND 0xF) \<in> {0, 1, 2, 3, 4, 5, 6, 7, 8, 9, 10, 11, 12, 13, 14, 15}"
    by (auto simp: less_Suc_eq numeral_eq_Suc)
  then show ?thesis by (auto simp: word_unat_eq_iff)
qed

lemma hexval_upper [simp]: "hexval_of_char (zEncode_upper ! unat (x AND 0xF)) = x AND 0xF"
  using nibble_cases [of x]
  by (elim insertE emptyE) (simp_all add: zEncode_upper_def hexval_of_char_def)

lemma hexval_lower [simp]: "hexval_of_char (zEncode_lower ! unat (x AND 0xF)) = x AND 0xF"
  using nibble_cases [of x]
  by (elim insertE emptyE) (simp_all add: zEncode_lower_def hexval_of_char_def)

lemma length_hexbuf [simp]: "length (LITE_hexbuf_convert u xs) = 2 * length xs"
  by (induction u xs rule: LITE_hexbuf_convert.induct) (simp_all add: Let_def)

text \<open>
  Decoding a hexadecimal text undoes encoding, in either case of letters, as far as the
  output buffer reaches.
\<close>

theorem hex_roundtrip:
  "LITE_hexstr_convert (LITE_hexbuf_convert uppercase xs) output_len = take output_len xs"
proof -
  have "hexstr_loop n (LITE_hexbuf_convert uppercase xs) = take n xs" for n
    by (induction xs arbitrary: n) (simp_all add: Let_def byte_nibbles take_Cons')
  then show ?thesis by (simp add: LITE_hexstr_convert_def)
qed

text \<open>Decimal digits.\<close>

lemma digit_char:
  assumes "c < (10 :: u32)"
  shows "ucast c + (0x30 :: byte) \<ge> 0x30" "ucast c + (0x30 :: byte) \<le> 0x39"
    "uint (ucast c + (0x30 :: byte) - 0x30) = uint c"
proof -
  have "unat c < 10" using assms by (simp add: word_less_nat_alt)
  then have "unat c \<in> {0, 1, 2, 3, 4, 5, 6, 7, 8, 9}" by (auto simp: less_Suc_eq numeral_eq_Suc)
  then have "c \<in> {0, 1, 2, 3, 4, 5, 6, 7, 8, 9}" by (auto simp: word_unat_eq_iff)
  then show "ucast c + (0x30 :: byte) \<ge> 0x30" "ucast c + (0x30 :: byte) \<le> 0x39"
    "uint (ucast c + (0x30 :: byte) - 0x30) = uint c" by auto
qed

lemma str2int_append:
  "\<forall>c \<in> set xs. 0x30 \<le> c \<and> c \<le> 0x39 \<Longrightarrow>
   str2int_digits (xs @ ys) n = str2int_digits ys (str2int_digits xs n)"
  by (induction xs n rule: str2int_digits.induct) auto

lemma int2str_tmp_digits: "\<forall>c \<in> set (infra_int2str_tmp n). 0x30 \<le> c \<and> c \<le> 0x39"
proof (induction n rule: infra_int2str_tmp.induct)
  case (1 n)
  have "n mod 10 < 10" by (simp add: word_mod_less_divisor)
  with 1 digit_char [OF this] show ?case
    by (subst infra_int2str_tmp.simps) (auto simp: Let_def)
qed

lemma int2str_value: "str2int_digits (infra_int2str n) 0 = uint n"
  unfolding infra_int2str_def
proof (induction n rule: infra_int2str_tmp.induct)
  case (1 n)
  have m: "n mod 10 < 10" by (simp add: word_mod_less_divisor)
  note d = digit_char [OF m]
  let ?c = "ucast (n mod 10) + (0x30 :: byte)"
  have last: "str2int_digits [?c] k = k * 10 + uint (n mod 10)" for k
    using d by (simp add: linorder_not_less [symmetric])
  have dm: "uint (n div 10) * 10 + uint (n mod 10) = uint n"
    by (simp add: uint_div uint_mod)
  show ?case
  proof (cases "n div 10 > 0")
    case True
    then have "rev (infra_int2str_tmp n) = rev (infra_int2str_tmp (n div 10)) @ [?c]"
      by (subst infra_int2str_tmp.simps) (simp add: Let_def)
    then have "str2int_digits (rev (infra_int2str_tmp n)) 0 = str2int_digits [?c] (uint (n div 10))"
      using 1 [OF refl refl True] int2str_tmp_digits [of "n div 10"] by (simp only: str2int_append set_rev)
    then show ?thesis using last [of "uint (n div 10)"] dm by simp
  next
    case False
    then have z: "n div 10 = 0" by (simp add: word_gt_0)
    then have "infra_int2str_tmp n = [?c]"
      by (subst infra_int2str_tmp.simps) (simp add: Let_def)
    then show ?thesis using last [of 0] dm z by simp
  qed
qed

text \<open>
  Reading back the decimal text of a 32-bit number gives the number, with or without
  leading spaces and with either sign in front.
\<close>

theorem int_roundtrip:
  "infra_str2int (replicate k 0x20 @ infra_int2str n) = uint n \<and>
   infra_str2int (replicate k 0x20 @ 0x2D # infra_int2str n) = - uint n"
proof -
  have ne: "infra_int2str n \<noteq> []"
    by (simp add: infra_int2str_def) (subst infra_int2str_tmp.simps, simp add: Let_def)
  then obtain c cs where c: "infra_int2str n = c # cs" by (cases "infra_int2str n") auto
  then have "c \<in> set (infra_int2str_tmp n)"
    by (metis infra_int2str_def list.set_intros(1) set_rev)
  then have "0x30 \<le> c" using int2str_tmp_digits by blast
  then have "c \<noteq> 0x20" "c \<noteq> 0x2B" "c \<noteq> 0x2D" by auto
  moreover have "dropWhile (\<lambda>c. c = 0x20) (replicate k 0x20 @ xs) = dropWhile (\<lambda>c. c = 0x20) xs"
    for xs :: "byte list"
    by (induction k) simp_all
  ultimately show ?thesis
    using int2str_value [of n] by (simp add: infra_str2int_def c Let_def)
qed

text \<open>
  \<open>utils_str2uint\<close> accepts exactly the texts of decimal digits, and its value is the
  number they denote modulo \<open>2^32\<close>: too large a number is not rejected, it wraps.
\<close>

theorem str2uint_value:
  "utils_str2uint xs = (if \<forall>c \<in> set xs. 0x30 \<le> c \<and> c \<le> 0x39
     then Some (word_of_int (str2int_digits xs 0)) else None)"
proof -
  have u: "ucast c - 0x30 = (word_of_int (uint (c - 0x30)) :: u32)" if "0x30 \<le> c" for c :: byte
    using that by (simp add: uint_sub_if' word_le_def of_int_diff)
  have "str2uint_loop xs (word_of_int t) = (if \<forall>c \<in> set xs. 0x30 \<le> c \<and> c \<le> 0x39
     then Some (word_of_int (str2int_digits xs t)) else None)" for t
  proof (induction xs arbitrary: t)
    case (Cons c xs)
    show ?case
    proof (cases "0x30 \<le> c \<and> c \<le> 0x39")
      case True
      then have g: "(c < 0x30 \<or> c > 0x39) = False" by auto
      have "word_of_int t * 10 + ucast c - 0x30 = (word_of_int (t * 10 + uint (c - 0x30)) :: u32)"
        using u [of c] True by (simp add: add_diff_eq [symmetric])
      then have "str2uint_loop (c # xs) (word_of_int t)
          = str2uint_loop xs (word_of_int (t * 10 + uint (c - 0x30)))"
        by (simp only: str2uint_loop.simps g if_False)
      with True g Cons.IH [of "t * 10 + uint (c - 0x30)"] show ?thesis
        by (simp only: str2int_digits.simps if_False list.set ball_simps simp_thms)
    qed (auto simp: not_le)
  qed simp
  from this [of 0] show ?thesis by (simp add: utils_str2uint_def)
qed

text \<open>\<^verbatim>\<open>4294967299\<close> is read as 3.\<close>

theorem str2uint_value_witness:
  "utils_str2uint [0x34, 0x32, 0x39, 0x34, 0x39, 0x36, 0x37, 0x32, 0x39, 0x39] = Some 3"
  using str2uint_value [of "[0x34, 0x32, 0x39, 0x34, 0x39, 0x36, 0x37, 0x32, 0x39, 0x39]"] by simp

end
