(* ===== verification/TopicFilter.thy ===== *)
theory TopicFilter
  imports InfraString
begin

text \<open>
  Topic names and filters in the MQTT client, \<^verbatim>\<open>src/src/mqtt/impl/iotx_mqtt_client.c\<close>: the
  syntax check applied before a topic is used and the matcher that finds the handlers of a
  received message. The matcher is proved equal to a matcher on topic levels, and that one is
  compared with the matching MQTT prescribes.

  A \<^verbatim>\<open>char\<close> is a byte; the signed comparison \<^verbatim>\<open>c < 32 || c >= 127\<close> rejects the same characters
  as the unsigned one written here. A topic string of the caller is its characters before the
  NUL; the (pointer, length) form of a received topic is the list of its bytes.
\<close>

section \<open>The code\<close>

datatype iotx_mc_topic_type = TOPIC_NAME_TYPE | TOPIC_FILTER_TYPE

abbreviation (input) Slash :: byte where "Slash \<equiv> 0x2F"
abbreviation (input) Plus :: byte where "Plus \<equiv> 0x2B"
abbreviation (input) Hash :: byte where "Hash \<equiv> 0x23"

definition CONFIG_MQTT_TOPIC_MAXLEN :: nat where "CONFIG_MQTT_TOPIC_MAXLEN = 128"

fun check_rule_loop :: "iotx_mc_topic_type \<Rightarrow> nat \<Rightarrow> byte list \<Rightarrow> int" where
  "check_rule_loop type len [] = STATE_SUCCESS"
| "check_rule_loop type len (c # cs) =
     (if type = TOPIC_FILTER_TYPE \<and> (c = Plus \<or> c = Hash) \<and> len \<noteq> 1
      then STATE_MQTT_UNEXP_TOPIC_FORMAT
      else if type \<noteq> TOPIC_FILTER_TYPE \<and> (c = Plus \<or> c = Hash)
      then STATE_MQTT_UNEXP_TOPIC_FORMAT
      else if c < 32 \<or> c \<ge> 127 then STATE_MQTT_UNEXP_TOPIC_FORMAT
      else check_rule_loop type len cs)"

definition iotx_mc_check_rule :: "byte list option \<Rightarrow> iotx_mc_topic_type \<Rightarrow> int" where
  "iotx_mc_check_rule iterm type =
     (case iterm of None \<Rightarrow> STATE_USER_INPUT_INVALID
      | Some s \<Rightarrow> check_rule_loop type (length s) s)"

text \<open>The loop of \<open>iotx_mc_check_topic\<close>; \<open>pos\<close> is the tokenizer's position.\<close>

partial_function (option) check_topic_loop ::
  "iotx_mc_topic_type \<Rightarrow> bool \<Rightarrow> byte list option \<Rightarrow> int option" where
  "check_topic_loop type masked pos =
     Option.bind (infra_strtok None [Slash] pos) (\<lambda>(iterm, pos).
       case iterm of
         None \<Rightarrow> Some STATE_SUCCESS
       | Some it \<Rightarrow>
           if masked then Some STATE_MQTT_UNEXP_TOPIC_FORMAT
           else let res = iotx_mc_check_rule iterm type
                in if res < STATE_SUCCESS then Some res
                   else check_topic_loop type (it \<noteq> [] \<and> hd it = Hash) pos)"

declare check_topic_loop.simps [code]

definition iotx_mc_check_topic :: "byte list option \<Rightarrow> iotx_mc_topic_type \<Rightarrow> int option" where
  "iotx_mc_check_topic topicName type =
     (case topicName of
        None \<Rightarrow> Some STATE_MQTT_UNEXP_TOPIC_FORMAT
      | Some topic \<Rightarrow>
          if topic = [] \<or> hd topic \<noteq> Slash then Some STATE_MQTT_UNEXP_TOPIC_FORMAT
          else if length topic > CONFIG_MQTT_TOPIC_MAXLEN then Some STATE_MQTT_TOPIC_BUF_TOO_SHORT
          else
            let topicString = take (CONFIG_MQTT_TOPIC_MAXLEN - 1) topic
            in do {
              (iterm, pos) \<leftarrow> infra_strtok (Some topicString) [Slash] None;
              (let res = iotx_mc_check_rule iterm type
               in if res < STATE_SUCCESS then Some res
                  else check_topic_loop type False pos)
            })"

fun topic_matched :: "byte list \<Rightarrow> byte list \<Rightarrow> bool" where
  "topic_matched [] curn = (curn = [])"
| "topic_matched (f # curf) [] = False"
| "topic_matched (f # curf) (n # curn) =
     (if n = Slash \<and> f \<noteq> Slash then False
      else if f \<noteq> Plus \<and> f \<noteq> Hash \<and> f \<noteq> n then False
      else if f = Plus then topic_matched curf (dropWhile (\<lambda>c. c \<noteq> Slash) curn)
      else if f = Hash then topic_matched curf []
      else topic_matched curf curn)"

text \<open>\<open>None\<close> is a null filter.\<close>

definition iotx_mc_is_topic_matched :: "byte list option \<Rightarrow> byte list \<Rightarrow> bool" where
  "iotx_mc_is_topic_matched topicFilter topicName =
     (case topicFilter of None \<Rightarrow> False | Some f \<Rightarrow> topic_matched f topicName)"

text \<open>
  The same matcher over the memory the filter pointer refers to. A filter stored as a C string
  ends with its NUL; a block without one can be read past its end, which gives \<open>None\<close>.
\<close>

fun topic_matched_mem :: "byte list \<Rightarrow> byte list \<Rightarrow> bool option" where
  "topic_matched_mem [] curn = None"
| "topic_matched_mem (f # curf) [] = Some (f = 0)"
| "topic_matched_mem (f # curf) (n # curn) =
     (if f = 0 then Some False
      else if n = Slash \<and> f \<noteq> Slash then Some False
      else if f \<noteq> Plus \<and> f \<noteq> Hash \<and> f \<noteq> n then Some False
      else if f = Plus then topic_matched_mem curf (dropWhile (\<lambda>c. c \<noteq> Slash) curn)
      else if f = Hash then topic_matched_mem curf []
      else topic_matched_mem curf curn)"

lemma topic_matched_mem_str [simp]:
  "0 \<notin> set f \<Longrightarrow> topic_matched_mem (f @ 0 # rest) n = Some (topic_matched f n)"
proof (induction f n rule: topic_matched.induct)
  case (1 n)
  then show ?case by (cases n) auto
qed auto

section \<open>Topic levels\<close>

fun levels :: "byte list \<Rightarrow> byte list list" where
  "levels [] = [[]]"
| "levels (c # cs) = (if c = Slash then [] # levels cs
     else (c # hd (levels cs)) # tl (levels cs))"

fun join :: "byte list list \<Rightarrow> byte list" where
  "join [] = []"
| "join [l] = l"
| "join (l # ls) = l @ Slash # join ls"

lemma levels_ne [simp]: "levels s \<noteq> []"
  by (cases s) auto

lemma levels_no_slash: "l \<in> set (levels s) \<Longrightarrow> Slash \<notin> set l"
proof (induction s arbitrary: l)
  case (Cons c s)
  then show ?case
    by (cases "levels s") (auto split: if_splits)
qed simp

lemma join_Cons: "ls \<noteq> [] \<Longrightarrow> join (l # ls) = l @ Slash # join ls"
  by (cases ls) auto

lemma join_levels [simp]: "join (levels s) = s"
proof (induction s)
  case (Cons c s)
  obtain l ls where l: "levels s = l # ls" by (cases "levels s") auto
  with Cons show ?case by (cases ls) auto
qed simp

lemma levels_append: "Slash \<notin> set w \<Longrightarrow> levels (w @ Slash # r) = w # levels r"
  by (induction w) auto

lemma levels_chars: "l \<in> set (levels s) \<Longrightarrow> set l \<subseteq> set s"
proof (induction s arbitrary: l)
  case (Cons c s)
  obtain a ls where "levels s = a # ls" by (cases "levels s") auto
  with Cons.IH [of a] Cons.IH [of l] Cons.prems show ?case by (auto split: if_splits)
qed simp

lemma levels_word: "Slash \<notin> set w \<Longrightarrow> levels w = [w]"
  by (induction w) auto

text \<open>A legal filter: a wildcard is a level of its own, and \<open>#\<close> only the last.\<close>

fun legal_levels :: "byte list list \<Rightarrow> bool" where
  "legal_levels [] = True"
| "legal_levels (l # ls) = ((l = [Plus] \<or> l = [Hash] \<and> ls = [] \<or> Plus \<notin> set l \<and> Hash \<notin> set l)
     \<and> legal_levels ls)"

text \<open>Matching level by level: as the code does it, and as MQTT 3.1.1, section 4.7, has it.\<close>

fun level_match :: "byte list list \<Rightarrow> byte list list \<Rightarrow> bool" where
  "level_match [] ts = (ts = [])"
| "level_match (f # fs) [] = False"
| "level_match (f # fs) (t # ts) =
     (if f = [Hash] then t \<noteq> []
      else if f = [Plus] then t \<noteq> [] \<and> level_match fs ts
      else f = t \<and> level_match fs ts)"

fun mqtt_match :: "byte list list \<Rightarrow> byte list list \<Rightarrow> bool" where
  "mqtt_match [] ts = (ts = [])"
| "mqtt_match (f # fs) [] = (f = [Hash])"
| "mqtt_match (f # fs) (t # ts) =
     (if f = [Hash] then True
      else if f = [Plus] then mqtt_match fs ts
      else f = t \<and> mqtt_match fs ts)"

lemma matched_literal:
  assumes "Slash \<notin> set f" "Plus \<notin> set f" "Hash \<notin> set f" "Slash \<notin> set t"
    and "r = [] \<or> hd r = Slash" "s = [] \<or> hd s = Slash"
  shows "topic_matched (f @ r) (t @ s) \<longleftrightarrow> f = t \<and> topic_matched r s"
  using assms
proof (induction f arbitrary: t)
  case Nil
  then show ?case by (cases t; cases r) auto
next
  case (Cons c f)
  then show ?case by (cases t; cases s) auto
qed

lemma matched_nil [simp]: "topic_matched f [] \<longleftrightarrow> f = []"
  by (cases f) auto

lemma dropWhile_level: "Slash \<notin> set t \<Longrightarrow> dropWhile (\<lambda>c. c \<noteq> Slash) (t @ s) =
    dropWhile (\<lambda>c. c \<noteq> Slash) s"
  by (induction t) auto

lemma matched_levels:
  assumes "legal_levels fs" "fs \<noteq> []" "ts \<noteq> []"
    and "\<forall>f \<in> set fs. Slash \<notin> set f" "\<forall>t \<in> set ts. Slash \<notin> set t"
  shows "topic_matched (join fs) (join ts) \<longleftrightarrow> level_match fs ts"
  using assms
proof (induction fs arbitrary: ts)
  case (Cons f fs)
  obtain t tr where ts: "ts = t # tr" using Cons.prems by (cases ts) auto
  let ?r = "if fs = [] then [] else Slash # join fs"
  let ?s = "if tr = [] then [] else Slash # join tr"
  have jf: "join (f # fs) = f @ ?r" and jt: "join ts = t @ ?s"
    by (auto simp: join_Cons ts)
  have IH: "topic_matched ?r ?s \<longleftrightarrow> level_match fs tr"
    using Cons by (cases fs; cases tr) (auto simp: ts)
  have noslash: "Slash \<notin> set f" "Slash \<notin> set t" using Cons.prems by (auto simp: ts)
  consider "f = [Plus]" | "f = [Hash]" "fs = []" | "Plus \<notin> set f" "Hash \<notin> set f"
    using Cons.prems(1) by auto
  then show ?case
  proof cases
    case 1
    show ?thesis
    proof (cases t)
      case Nil
      then show ?thesis using 1 unfolding jf jt by (simp add: ts)
    next
      case (Cons n t')
      then have "dropWhile (\<lambda>c. c \<noteq> Slash) (t' @ ?s) = ?s"
        using noslash by (simp add: dropWhile_level)
      then show ?thesis using 1 Cons noslash IH unfolding jf jt by (simp add: ts)
    qed
  next
    case 2
    then show ?thesis using noslash unfolding jf jt by (cases t) (auto simp: ts)
  next
    case 3
    then have "f \<noteq> [Plus]" "f \<noteq> [Hash]" by auto
    with 3 show ?thesis
      using noslash matched_literal [of f t ?r ?s] IH unfolding jf jt by (simp add: ts)
  qed
qed simp

text \<open>
  C28. On a legal filter the character-by-character matcher is the matcher on levels: \<open>+\<close>
  matches exactly one nonempty level, \<open>#\<close> everything from a nonempty level on, any other level
  itself.
\<close>

theorem topic_matched_levels:
  assumes "legal_levels (levels flt)"
  shows "iotx_mc_is_topic_matched (Some flt) topic \<longleftrightarrow> level_match (levels flt) (levels topic)"
  using matched_levels [OF assms, of "levels topic"] levels_no_slash
  by (auto simp: iotx_mc_is_topic_matched_def)

theorem topic_matched_levels_witness:
  "iotx_mc_is_topic_matched (Some [Slash, 97, Slash, Plus, Slash, Hash])
     [Slash, 97, Slash, 98, 99, Slash, 100, Slash, 101] \<longleftrightarrow>
   level_match [[], [97], [Plus], [Hash]] [[], [97], [98, 99], [100], [101]]"
  using topic_matched_levels [of "[Slash, 97, Slash, Plus, Slash, Hash]"
      "[Slash, 97, Slash, 98, 99, Slash, 100, Slash, 101]"] by simp

lemma level_match_sound: "level_match fs ts \<Longrightarrow> mqtt_match fs ts"
  by (induction fs ts rule: level_match.induct) (auto split: if_splits)

lemma level_match_complete:
  "mqtt_match fs ts \<Longrightarrow> legal_levels fs \<Longrightarrow> \<forall>t \<in> set ts. t \<noteq> [] \<Longrightarrow>
   level_match fs ts \<or> (fs \<noteq> [] \<and> last fs = [Hash] \<and> level_match (butlast fs) ts)"
proof (induction fs ts rule: mqtt_match.induct)
  case (3 f fs t ts)
  show ?case
  proof (cases "f = [Hash]")
    case False
    then have "mqtt_match fs ts" "legal_levels fs" using 3 by (auto split: if_splits)
    then have "level_match fs ts \<or> (fs \<noteq> [] \<and> last fs = [Hash] \<and> level_match (butlast fs) ts)"
      using 3 False by (cases "f = [Plus]") simp_all
    with False 3(3-) show ?thesis by (auto split: if_splits)
  qed (use 3 in simp)
qed auto

text \<open>
  Against MQTT's own rule the matcher never matches too much, on any legal filter.
\<close>

theorem topic_matched_sound:
  assumes "legal_levels (levels flt)" and "iotx_mc_is_topic_matched (Some flt) topic"
  shows "mqtt_match (levels flt) (levels topic)"
proof -
  have "topic_matched (join (levels flt)) (join (levels topic))"
    using assms(2) by (simp add: iotx_mc_is_topic_matched_def)
  then have "level_match (levels flt) (levels topic)"
    using matched_levels [OF assms(1), of "levels topic"] levels_no_slash by auto
  then show ?thesis by (rule level_match_sound)
qed

theorem topic_matched_sound_witness:
  "mqtt_match [[], [97], [Plus]] [[], [97], [98, 99]]"
  using topic_matched_sound [of "[Slash, 97, Slash, Plus]" "[Slash, 97, Slash, 98, 99]"]
  by (simp add: iotx_mc_is_topic_matched_def)

text \<open>
  It matches too little in one way only, when no level of the topic behind the leading
  slash is empty: a filter ending in \<open>#\<close> does not match the topic of its parent level, which
  MQTT includes.
\<close>

theorem topic_matched_misses_parent:
  assumes "legal_levels fs" and "fs \<noteq> []"
    and "\<forall>f \<in> set fs. Slash \<notin> set f"
    and "\<forall>t \<in> set ts. Slash \<notin> set t \<and> t \<noteq> []" and "ts \<noteq> []"
  shows "mqtt_match fs ts \<longleftrightarrow>
     iotx_mc_is_topic_matched (Some (join ([] # fs))) (join ([] # ts)) \<or>
     last fs = [Hash] \<and> level_match (butlast fs) ts"
proof -
  note lf = assms(1)
  have m: "iotx_mc_is_topic_matched (Some (join ([] # fs))) (join ([] # ts)) \<longleftrightarrow> level_match fs ts"
    using matched_levels [OF lf assms(2,5)] assms(2-5)
    by (simp add: iotx_mc_is_topic_matched_def join_Cons)
  have parent: "last fs = [Hash] \<Longrightarrow> level_match (butlast fs) ts \<Longrightarrow> mqtt_match fs ts"
    using lf assms(2)
  proof (induction fs arbitrary: ts)
    case (Cons f fs)
    then show ?case by (cases ts; cases "fs = []") (auto split: if_splits)
  qed simp
  show ?thesis
    using level_match_complete [OF _ lf, of ts] level_match_sound [of fs ts] parent m assms(4) by blast
qed

theorem topic_matched_misses_parent_witness:
  "mqtt_match [[97], [Hash]] [[97]] \<and> \<not> iotx_mc_is_topic_matched (Some (join [[], [97], [Hash]])) (join [[], [97]])"
  using topic_matched_misses_parent [of "[[97], [Hash]]" "[[97]]"]
  by (simp add: iotx_mc_is_topic_matched_def)

section \<open>What the syntax check looks at\<close>

text \<open>The tokens \<open>infra_strtok\<close> cuts off at slashes, and the verdict on them.\<close>

definition after_token :: "byte list \<Rightarrow> byte list" where
  "after_token p = tl (dropWhile (\<lambda>c. c \<noteq> Slash) (dropWhile (\<lambda>c. c = Slash) p))"

lemma after_token_shorter:
  assumes "dropWhile (\<lambda>c. c = Slash) p \<noteq> []"
  shows "length (after_token p) < length p"
proof -
  let ?q = "dropWhile (\<lambda>c. c = Slash) p"
  have "length (after_token p) \<le> length (tl ?q)"
    using length_dropWhile_le [of "\<lambda>c. c \<noteq> Slash" ?q] by (simp add: after_token_def)
  also have "\<dots> < length ?q" using assms by (cases ?q) simp_all
  also have "\<dots> \<le> length p" by (rule length_dropWhile_le)
  finally show ?thesis .
qed

function toks :: "byte list \<Rightarrow> byte list list" where
  "toks p = (if length p \<le> 1 then []
     else let q = dropWhile (\<lambda>c. c = Slash) p
          in if q = [] then []
             else takeWhile (\<lambda>c. c \<noteq> Slash) q # toks (after_token p))"
  by auto
termination by (relation "measure length") (simp_all add: after_token_shorter)

declare toks.simps [simp del]

fun verdict :: "iotx_mc_topic_type \<Rightarrow> bool \<Rightarrow> byte list list \<Rightarrow> int" where
  "verdict type masked [] = STATE_SUCCESS"
| "verdict type masked (t # ts) =
     (if masked then STATE_MQTT_UNEXP_TOPIC_FORMAT
      else let res = check_rule_loop type (length t) t
           in if res < STATE_SUCCESS then res else verdict type (t \<noteq> [] \<and> hd t = Hash) ts)"

lemma strtok_word:
  "tok \<noteq> [] \<Longrightarrow> strtok_loop False tok p [Slash] =
     Some (Some (tok @ takeWhile (\<lambda>c. c \<noteq> Slash) p), tl (dropWhile (\<lambda>c. c \<noteq> Slash) p))"
proof (induction p arbitrary: tok)
  case Nil
  then show ?case by (subst strtok_loop.simps) simp
next
  case (Cons c p)
  then show ?case by (subst strtok_loop.simps) auto
qed

lemma strtok_start:
  "p \<noteq> [] \<Longrightarrow> strtok_loop True [] p [Slash] =
     (let q = dropWhile (\<lambda>c. c = Slash) p
      in if q = [] then Some (None, [])
         else Some (Some (takeWhile (\<lambda>c. c \<noteq> Slash) q), after_token p))"
proof (induction p)
  case (Cons c p)
  show ?case
  proof (cases "c = Slash")
    case True
    with Cons show ?thesis by (subst strtok_loop.simps) (auto simp: Let_def after_token_def)
  next
    case False
    then show ?thesis by (subst strtok_loop.simps) (simp add: strtok_word after_token_def)
  qed
qed simp

lemma strtok_toks:
  "infra_strtok None [Slash] (Some p) =
     (case toks p of
        [] \<Rightarrow> Some (None, Some (if length p \<le> 1 then p else []))
      | t # _ \<Rightarrow> Some (Some t, Some (after_token p)))"
proof (cases "length p \<le> 1")
  case True
  then show ?thesis by (subst toks.simps) (simp add: infra_strtok_def)
next
  case False
  then have "p \<noteq> []" by auto
  with False strtok_start [OF this] show ?thesis
    by (subst toks.simps) (auto simp: infra_strtok_def Let_def)
qed

lemma toks_tail: "toks p = t # ts \<Longrightarrow> toks (after_token p) = ts"
  by (subst (asm) toks.simps) (auto simp: Let_def split: if_splits)

lemma check_topic_loop_verdict:
  "toks p = ts \<Longrightarrow> check_topic_loop type m (Some p) = Some (verdict type m ts)"
proof (induction ts arbitrary: p m)
  case Nil
  then show ?case by (subst check_topic_loop.simps) (simp add: strtok_toks)
next
  case (Cons t ts)
  then show ?case
    by (subst check_topic_loop.simps)
      (simp add: strtok_toks toks_tail iotx_mc_check_rule_def Let_def)
qed

lemma check_topic_verdict:
  assumes "topic \<noteq> []" "hd topic = Slash" "length topic \<le> 127"
  shows "iotx_mc_check_topic (Some topic) type =
    (case toks topic of [] \<Rightarrow> Some STATE_USER_INPUT_INVALID
     | t # ts \<Rightarrow> (let res = check_rule_loop type (length t) t
                 in Some (if res < STATE_SUCCESS then res else verdict type False ts)))"
proof -
  have "infra_strtok (Some topic) [Slash] None = infra_strtok None [Slash] (Some topic)"
    by (simp add: infra_strtok_def)
  then show ?thesis
    using assms check_topic_loop_verdict [OF toks_tail, of topic]
    by (auto simp: iotx_mc_check_topic_def CONFIG_MQTT_TOPIC_MAXLEN_def strtok_toks
        iotx_mc_check_rule_def Let_def split: list.split)
qed

lemma levels_toks:
  assumes "q = dropWhile (\<lambda>c. c = Slash) p" "q \<noteq> []"
    and "w = takeWhile (\<lambda>c. c \<noteq> Slash) q" "r = dropWhile (\<lambda>c. c \<noteq> Slash) q"
  shows "\<exists>k. levels p = replicate k [] @ w # (if r = [] then [] else levels (tl r))"
proof -
  have w: "Slash \<notin> set w" using assms(3) by (auto dest: set_takeWhileD)
  have r: "r \<noteq> [] \<Longrightarrow> hd r = Slash" using assms(4) by (metis (full_types) hd_dropWhile)
  have "q = w @ r" using assms(3,4) by simp
  then have "levels q = w # (if r = [] then [] else levels (tl r))"
    using w r by (cases r) (auto simp: levels_word levels_append)
  moreover have "\<exists>k. levels p = replicate k [] @ levels q"
  proof -
    have "levels (replicate k Slash @ q) = replicate k [] @ levels q" for k
      by (induction k) simp_all
    moreover have "p = replicate (length (takeWhile (\<lambda>c. c = Slash) p)) Slash @ q"
      using assms(1) by (metis (mono_tags, lifting) replicate_length_same set_takeWhileD takeWhile_dropWhile_id)
    ultimately show ?thesis by metis
  qed
  ultimately show ?thesis by simp
qed

lemma toks_cover: "l \<in> set (levels p) \<Longrightarrow> 2 \<le> length l \<Longrightarrow> l \<in> set (toks p)"
proof (induction p rule: toks.induct)
  case (1 p)
  let ?q = "dropWhile (\<lambda>c. c = Slash) p"
  let ?r = "dropWhile (\<lambda>c. c \<noteq> Slash) ?q"
  have len: "length p > 1"
  proof (rule ccontr)
    assume "\<not> length p > 1"
    then have "p = [] \<or> (\<exists>c. p = [c])" by (cases p) auto
    with 1(2,3) show False by (auto split: if_splits)
  qed
  have q: "?q \<noteq> []"
  proof
    assume "?q = []"
    then have "\<forall>c \<in> set p. c = Slash" by (simp add: dropWhile_eq_Nil_conv)
    then have "set (levels p) = {[]}" by (induction p) auto
    with 1(2,3) show False by auto
  qed
  define w r where "w = takeWhile (\<lambda>c. c \<noteq> Slash) ?q" and "r = dropWhile (\<lambda>c. c \<noteq> Slash) ?q"
  obtain k where k: "levels p = replicate k [] @ w # (if r = [] then [] else levels (tl r))"
    using levels_toks [OF refl q w_def r_def] by blast
  have t: "after_token p = tl r" by (simp only: after_token_def r_def)
  have "l = w \<or> l \<in> set (levels (after_token p))"
    using 1(2,3) k unfolding t by (cases "r = []") auto
  moreover have "toks p = w # toks (after_token p)"
    using len q by (subst toks.simps) (simp only: Let_def not_le [symmetric] if_False w_def)
  ultimately show ?case using 1(1) [OF _ refl q] 1(3) len by auto
qed

lemma check_rule_ok:
  "check_rule_loop type n l \<ge> 0 \<Longrightarrow> 2 \<le> n \<Longrightarrow> c \<in> set l \<Longrightarrow>
   32 \<le> c \<and> c < 127 \<and> c \<noteq> Plus \<and> c \<noteq> Hash"
  by (induction type n l rule: check_rule_loop.induct) (auto split: if_splits)

lemma verdict_ok:
  "verdict type m ts \<ge> 0 \<Longrightarrow> t \<in> set ts \<Longrightarrow> 0 \<le> check_rule_loop type (length t) t"
  by (induction type m ts rule: verdict.induct) (auto simp: Let_def split: if_splits)

lemma check_topic_accepts:
  assumes "iotx_mc_check_topic (Some topic) type = Some STATE_SUCCESS" "length topic \<le> 127"
    "t \<in> set (toks topic)"
  shows "0 \<le> check_rule_loop type (length t) t"
proof -
  have "topic \<noteq> []" "hd topic = Slash"
    using assms(1) by (auto simp: iotx_mc_check_topic_def split: if_splits)
  with assms(1,2) have "\<exists>t ts. toks topic = t # ts \<and> 0 \<le> check_rule_loop type (length t) t \<and>
      0 \<le> verdict type False ts"
    by (cases "toks topic") (auto simp: check_topic_verdict Let_def split: if_splits)
  with assms(3) verdict_ok show ?thesis by auto
qed

lemma check_topic_total: "\<exists>rc. iotx_mc_check_topic (Some topic) type = Some rc"
proof (cases "topic \<noteq> [] \<and> hd topic = Slash \<and> length topic \<le> 128")
  case True
  let ?t = "take 127 topic"
  have "iotx_mc_check_topic (Some topic) type = iotx_mc_check_topic (Some ?t) type"
    using True by (cases topic) (auto simp: iotx_mc_check_topic_def CONFIG_MQTT_TOPIC_MAXLEN_def min_def)
  moreover have "\<exists>rc. iotx_mc_check_topic (Some ?t) type = Some rc"
    using True by (subst check_topic_verdict) (auto split: list.split simp: Let_def)
  ultimately show ?thesis by simp
next
  case False
  then show ?thesis by (auto simp: iotx_mc_check_topic_def CONFIG_MQTT_TOPIC_MAXLEN_def)
qed



lemma verdict_legal:
  "type = TOPIC_FILTER_TYPE \<Longrightarrow> legal_levels ts \<Longrightarrow>
   \<forall>t \<in> set ts. \<forall>c \<in> set t. 32 \<le> c \<and> c < 127 \<Longrightarrow> (m \<Longrightarrow> ts = []) \<Longrightarrow>
   verdict type m ts = STATE_SUCCESS"
proof (induction type m ts rule: verdict.induct)
  case (2 type m t ts)
  have r: "\<forall>c \<in> set t. 32 \<le> c \<and> c < 127" using 2 by simp
  have "check_rule_loop type (length t) t = 0"
  proof (cases "Plus \<notin> set t \<and> Hash \<notin> set t")
    case True
    have "Plus \<notin> set l \<Longrightarrow> Hash \<notin> set l \<Longrightarrow> \<forall>c \<in> set l. 32 \<le> c \<and> c < 127 \<Longrightarrow>
        check_rule_loop type n l = 0" for n l
      by (induction type n l rule: check_rule_loop.induct) (auto simp: not_le)
    with True r show ?thesis by blast
  next
    case False
    with 2(3) have "t = [Plus] \<or> t = [Hash]" by auto
    with 2(2) show ?thesis by auto
  qed
  moreover have "\<not> m" using 2 by auto
  moreover have "t \<noteq> [] \<and> hd t = Hash \<Longrightarrow> ts = []"
    using 2(3) by (cases t) auto
  ultimately show ?case using 2 by (simp add: Let_def)
qed simp

lemma legal_append: "legal_levels (xs @ ys) \<Longrightarrow> legal_levels ys"
  by (induction xs) auto

lemma toks_legal:
  "legal_levels (levels p) \<Longrightarrow> legal_levels (toks p) \<and> set (toks p) \<subseteq> set (levels p)"
proof (induction p rule: toks.induct)
  case (1 p)
  let ?q = "dropWhile (\<lambda>c. c = Slash) p"
  show ?case
  proof (cases "length p \<le> 1 \<or> ?q = []")
    case True
    then show ?thesis by (subst toks.simps, subst (2) toks.simps) (auto simp: Let_def)
  next
    case False
    define w r where "w = takeWhile (\<lambda>c. c \<noteq> Slash) ?q" and "r = dropWhile (\<lambda>c. c \<noteq> Slash) ?q"
    obtain k where k: "levels p = replicate k [] @ w # (if r = [] then [] else levels (tl r))"
      using levels_toks [OF refl _ w_def r_def] False by blast
    have t: "after_token p = tl r" by (simp only: after_token_def r_def)
    have tk: "toks p = w # toks (after_token p)"
      using False by (subst toks.simps) (simp only: Let_def if_False simp_thms de_Morgan_disj w_def)
    have lw: "legal_levels (w # (if r = [] then [] else levels (tl r)))"
      using 1(2) k legal_append by metis
    show ?thesis
    proof (cases "r = []")
      case True
      then have "toks (after_token p) = []" unfolding t by (subst toks.simps) simp
      with tk k lw True show ?thesis by simp
    next
      case nonempty: False
      then have l: "legal_levels (levels (after_token p))" using lw t by simp
      then have IH: "legal_levels (toks (after_token p))"
          "set (toks (after_token p)) \<subseteq> set (levels (after_token p))"
        using 1(1) [OF _ refl] False by auto
      moreover have "w = [Hash] \<Longrightarrow> levels (tl r) = []" using lw nonempty by auto
      ultimately show ?thesis using tk k lw nonempty t by auto
    qed
  qed
qed

text \<open>
  Every legal filter of at most 127 characters that starts with a slash, is printable and
  has a level the tokenizer sees is accepted.
\<close>

theorem check_topic_complete:
  assumes "topic \<noteq> []" "hd topic = Slash" "length topic \<le> 127"
    and "legal_levels (levels topic)" "\<forall>c \<in> set topic. 32 \<le> c \<and> c < 127"
    and "\<exists>l \<in> set (levels topic). 2 \<le> length l"
  shows "iotx_mc_check_topic (Some topic) TOPIC_FILTER_TYPE = Some STATE_SUCCESS"
proof -
  have "set l \<subseteq> set topic" if "l \<in> set (levels topic)" for l
    using that by (rule levels_chars)
  with assms(5) have pr: "\<forall>t \<in> set (toks topic). \<forall>c \<in> set t. 32 \<le> c \<and> c < 127"
    using toks_legal [OF assms(4)] by blast
  have "toks topic \<noteq> []" using assms(6) toks_cover by fastforce
  then obtain y ys where y: "toks topic = y # ys" by (cases "toks topic") auto
  have "legal_levels (y # ys)" using toks_legal [OF assms(4)] y by simp
  with pr y have "verdict TOPIC_FILTER_TYPE False (y # ys) = STATE_SUCCESS"
    "verdict TOPIC_FILTER_TYPE False ys = STATE_SUCCESS"
    by (intro verdict_legal; simp)+
  then show ?thesis
    by (simp add: check_topic_verdict [OF assms(1-3)] y Let_def split: if_splits)
qed

theorem check_topic_complete_witness:
  "iotx_mc_check_topic (Some [Slash, 97, 98, Slash, Plus, Slash, Hash]) TOPIC_FILTER_TYPE
     = Some STATE_SUCCESS"
  by (rule check_topic_complete) simp_all

text \<open>
  What the check lets through: the tokenizer stops in front of a last level of one
  character, so that level is not looked at, and the first level is not remembered as a \<open>#\<close>. The
  wildcard topic \<^verbatim>\<open>/ab/#\<close> is accepted as a topic to publish to, and the filters \<^verbatim>\<open>/#/ab\<close> and
  \<^verbatim>\<open>/ab/#/c\<close>, with \<^verbatim>\<open>#\<close> in front of other levels, are accepted.
\<close>

theorem check_topic_gaps:
  "iotx_mc_check_topic (Some [Slash, 97, 98, Slash, Hash]) TOPIC_NAME_TYPE = Some STATE_SUCCESS \<and>
   iotx_mc_check_topic (Some [Slash, Hash, Slash, 97, 98]) TOPIC_FILTER_TYPE = Some STATE_SUCCESS \<and>
   iotx_mc_check_topic (Some [Slash, 97, 98, Slash, Hash, Slash, 99]) TOPIC_FILTER_TYPE
     = Some STATE_SUCCESS \<and>
   \<not> legal_levels (levels [Slash, Hash, Slash, 97, 98]) \<and>
   \<not> legal_levels (levels [Slash, 97, 98, Slash, Hash, Slash, 99])"
proof -
  have t: "toks [Slash, 97, 98, Slash, Hash] = [[97, 98]]"
    "toks [Slash, Hash, Slash, 97, 98] = [[Hash], [97, 98]]"
    "toks [Slash, 97, 98, Slash, Hash, Slash, 99] = [[97, 98], [Hash]]"
    by (simp_all add: toks.simps after_token_def)
  show ?thesis by (simp add: check_topic_verdict t)
qed

end
