(* ===== verification/InfraCompat.thy ===== *)
theory InfraCompat
  imports EnosPrelude "HOL-Library.Monad_Syntax"
begin

text \<open>
  The SDK's global settings and event table, \<^verbatim>\<open>src/src/infra/infra_compat.c\<close>, and the two
  options of the device model they forward to, \<^verbatim>\<open>src/src/dev_model/dm_opt.c\<close>.

  A character array of the context is the C string it holds. The argument \<^verbatim>\<open>data\<close> of
  \<^verbatim>\<open>IOT_Ioctl\<close> is what it points to: an integer, a port, a block of memory, a record of two
  strings. A pointer of the wrong kind for the option, a string without an end, or a write
  past the end of the caller's block is undefined and gives \<open>None\<close>.
\<close>

section \<open>Options of the device model\<close>

record dm_opt_ctx =
  thing_reply_opt :: int
  measurepoint_set_auto_reply_opt :: int

datatype dm_opt_t = DM_OPT_DOWNSTREAM_THING_REPLY | DM_OPT_UPSTREAM_MEASUREPOINT_SET_AUTO_REPLY
  | DM_OPT_MAX

definition dm_opt_set :: "dm_opt_t \<Rightarrow> int option \<Rightarrow> dm_opt_ctx \<Rightarrow> int \<times> dm_opt_ctx" where
  "dm_opt_set opt data g =
     (case data of None \<Rightarrow> (STATE_USER_INPUT_INVALID, g)
      | Some v \<Rightarrow>
          (case opt of
             DM_OPT_DOWNSTREAM_THING_REPLY \<Rightarrow> (0, g\<lparr>thing_reply_opt := v\<rparr>)
           | DM_OPT_UPSTREAM_MEASUREPOINT_SET_AUTO_REPLY \<Rightarrow>
               (0, g\<lparr>measurepoint_set_auto_reply_opt := v\<rparr>)
           | DM_OPT_MAX \<Rightarrow> (STATE_USER_INPUT_INVALID, g)))"

text \<open>The new content of \<^verbatim>\<open>*data\<close> with the result.\<close>

definition dm_opt_get :: "dm_opt_t \<Rightarrow> int option \<Rightarrow> dm_opt_ctx \<Rightarrow> int \<times> int option" where
  "dm_opt_get opt data g =
     (case data of None \<Rightarrow> (STATE_USER_INPUT_INVALID, None)
      | Some v \<Rightarrow>
          (case opt of
             DM_OPT_DOWNSTREAM_THING_REPLY \<Rightarrow> (0, Some (thing_reply_opt g))
           | DM_OPT_UPSTREAM_MEASUREPOINT_SET_AUTO_REPLY \<Rightarrow>
               (0, Some (measurepoint_set_auto_reply_opt g))
           | DM_OPT_MAX \<Rightarrow> (- 0x922, Some v)))"

section \<open>The settings\<close>

record sdk_impl_ctx =
  domain_type :: int
  dynamic_activate :: int
  cloud_custom_domain :: "byte list"
  mqtt_port_num :: u16
  mqtt_customzie_info :: "byte list"
  product_key :: "byte list"
  product_secret :: "byte list"
  device_key :: "byte list"
  device_secret :: "byte list"

abbreviation (input) FAIL_RETURN :: int where "FAIL_RETURN \<equiv> - 1"
abbreviation (input) SUCCESS_RETURN :: int where "SUCCESS_RETURN \<equiv> 0"

definition IOTX_PRODUCT_KEY_LEN :: nat where "IOTX_PRODUCT_KEY_LEN = 20"
definition IOTX_PRODUCT_SECRET_LEN :: nat where "IOTX_PRODUCT_SECRET_LEN = 64"
definition IOTX_DEVICE_KEY_LEN :: nat where "IOTX_DEVICE_KEY_LEN = 64"
definition IOTX_DEVICE_SECRET_LEN :: nat where "IOTX_DEVICE_SECRET_LEN = 64"
definition IOTX_DOMAIN_MAX_LEN :: nat where "IOTX_DOMAIN_MAX_LEN = 64"
definition IOTX_CUSTOMIZE_INFO_LEN :: nat where "IOTX_CUSTOMIZE_INFO_LEN = 80"

lemmas len_limits = IOTX_PRODUCT_KEY_LEN_def IOTX_PRODUCT_SECRET_LEN_def IOTX_DEVICE_KEY_LEN_def
  IOTX_DEVICE_SECRET_LEN_def IOTX_DOMAIN_MAX_LEN_def IOTX_CUSTOMIZE_INFO_LEN_def

datatype iotx_ioctl_option =
    IOTX_IOCTL_SET_REGION | IOTX_IOCTL_GET_REGION | IOTX_IOCTL_SET_MQTT_DOMAIN
  | IOTX_IOCTL_SET_DYNAMIC_ACTIVATE | IOTX_IOCTL_GET_DYNAMIC_ACTIVATE
  | IOTX_IOCTL_RECV_THING_REPLY | IOTX_IOCTL_SEND_MEASUREPOINT_SET_AUTO_REPLY
  | IOTX_IOCTL_SET_SUBDEV_SIGN | IOTX_IOCTL_GET_SUBDEV_LOGIN | IOTX_IOCTL_SET_OTA_DEV_ID
  | IOTX_IOCTL_SET_CUSTOMIZE_INFO | IOTX_IOCTL_SET_MQTT_PORT | IOTX_IOCTL_QUERY_DEVID
  | IOTX_IOCTL_SUB_USER_TOPIC | IOTX_IOCTL_SET_PRODUCT_KEY | IOTX_IOCTL_GET_PRODUCT_KEY
  | IOTX_IOCTL_SET_PRODUCT_SECRET | IOTX_IOCTL_GET_PRODUCT_SECRET | IOTX_IOCTL_SET_DEVICE_KEY
  | IOTX_IOCTL_GET_DEVICE_KEY | IOTX_IOCTL_SET_DEVICE_SECRET | IOTX_IOCTL_GET_DEVICE_SECRET
  | IOTX_IOCTL_OTHER int

datatype ioctl_data = Data_int int | Data_port u16 | Data_mem "byte list"
  | Data_strings "byte list" "byte list"

text \<open>\<^verbatim>\<open>memcpy(data, src, strlen(src))\<close> into the caller's block; no NUL is written.\<close>

definition copy_out :: "byte list \<Rightarrow> ioctl_data \<Rightarrow> ioctl_data option" where
  "copy_out src data =
     (case data of
        Data_mem m \<Rightarrow> if length src \<le> length m then Some (Data_mem (buf_write m 0 src)) else None
      | _ \<Rightarrow> None)"

definition string_arg :: "ioctl_data \<Rightarrow> byte list option" where
  "string_arg data = (case data of Data_mem m \<Rightarrow> c_str m | _ \<Rightarrow> None)"

definition int_arg :: "ioctl_data \<Rightarrow> int option" where
  "int_arg data = (case data of Data_int i \<Rightarrow> Some i | _ \<Rightarrow> None)"

text \<open>
  \<open>custom_domain_set\<close>: whether \<^verbatim>\<open>g_infra_mqtt_domain[IOTX_CLOUD_REGION_CUSTOM]\<close> points at
  \<^verbatim>\<open>cloud_custom_domain\<close> of the context; it is null before.
\<close>

record ioctl_state =
  ctx :: sdk_impl_ctx
  g_dm_opt :: dm_opt_ctx
  custom_domain_set :: bool

definition g_sdk_impl_ctx :: ioctl_state where
  "g_sdk_impl_ctx = \<lparr>
     ctx = \<lparr>domain_type = 0, dynamic_activate = 0, cloud_custom_domain = [], mqtt_port_num = 0,
       mqtt_customzie_info = [], product_key = [], product_secret = [], device_key = [],
       device_secret = []\<rparr>,
     g_dm_opt = \<lparr>thing_reply_opt = 0, measurepoint_set_auto_reply_opt = 0\<rparr>,
     custom_domain_set = False\<rparr>"

text \<open>The host name of the region, as the signature reads it.\<close>

definition g_infra_mqtt_domain :: "ioctl_state \<Rightarrow> byte list option" where
  "g_infra_mqtt_domain s = (if custom_domain_set s then Some (cloud_custom_domain (ctx s)) else None)"

text \<open>
  The result, the caller's data afterwards and the new settings. \<open>query_id\<close> is
  \<^verbatim>\<open>iot_enos_subdev_query_id\<close> and \<open>sub_topic\<close> is \<^verbatim>\<open>iotx_dm_subscribe_user_topic\<close>, of the device
  model.
\<close>

definition IOT_Ioctl ::
  "(byte list \<Rightarrow> byte list \<Rightarrow> int) \<Rightarrow> (byte list \<Rightarrow> byte list \<Rightarrow> int) \<Rightarrow>
   iotx_ioctl_option \<Rightarrow> ioctl_data option \<Rightarrow> ioctl_state \<Rightarrow>
   (int \<times> ioctl_data option \<times> ioctl_state) option" where
  "IOT_Ioctl query_id sub_topic option data s =
     (case data of None \<Rightarrow> Some (FAIL_RETURN, None, s)
      | Some d \<Rightarrow>
     (case option of
        IOTX_IOCTL_SET_REGION \<Rightarrow> do {
          i \<leftarrow> int_arg d;
          Some (SUCCESS_RETURN, data, s\<lparr>ctx := (ctx s)\<lparr>domain_type := i\<rparr>\<rparr>) }
      | IOTX_IOCTL_GET_REGION \<Rightarrow> do {
          _ \<leftarrow> int_arg d;
          Some (SUCCESS_RETURN, Some (Data_int (domain_type (ctx s))), s) }
      | IOTX_IOCTL_SET_MQTT_DOMAIN \<Rightarrow> do {
          str \<leftarrow> string_arg d;
          let s = s\<lparr>ctx := (ctx s)\<lparr>domain_type := 0\<rparr>\<rparr>;
          (if length str > IOTX_DOMAIN_MAX_LEN then Some (FAIL_RETURN, data, s)
           else Some (SUCCESS_RETURN, data,
             s\<lparr>ctx := (ctx s)\<lparr>cloud_custom_domain := str\<rparr>, custom_domain_set := True\<rparr>)) }
      | IOTX_IOCTL_SET_DYNAMIC_ACTIVATE \<Rightarrow> do {
          i \<leftarrow> int_arg d;
          Some (SUCCESS_RETURN, data, s\<lparr>ctx := (ctx s)\<lparr>dynamic_activate := i\<rparr>\<rparr>) }
      | IOTX_IOCTL_GET_DYNAMIC_ACTIVATE \<Rightarrow> do {
          _ \<leftarrow> int_arg d;
          Some (SUCCESS_RETURN, Some (Data_int (dynamic_activate (ctx s))), s) }
      | IOTX_IOCTL_SET_PRODUCT_KEY \<Rightarrow> do {
          str \<leftarrow> string_arg d;
          (if length str \<le> IOTX_PRODUCT_KEY_LEN
           then Some (SUCCESS_RETURN, data, s\<lparr>ctx := (ctx s)\<lparr>product_key := str\<rparr>\<rparr>)
           else Some (FAIL_RETURN, data, s)) }
      | IOTX_IOCTL_GET_PRODUCT_KEY \<Rightarrow> do {
          d \<leftarrow> copy_out (product_key (ctx s)) d;
          Some (SUCCESS_RETURN, Some d, s) }
      | IOTX_IOCTL_SET_PRODUCT_SECRET \<Rightarrow> do {
          str \<leftarrow> string_arg d;
          (if length str \<le> IOTX_PRODUCT_SECRET_LEN
           then Some (SUCCESS_RETURN, data, s\<lparr>ctx := (ctx s)\<lparr>product_secret := str\<rparr>\<rparr>)
           else Some (FAIL_RETURN, data, s)) }
      | IOTX_IOCTL_GET_PRODUCT_SECRET \<Rightarrow> do {
          d \<leftarrow> copy_out (product_secret (ctx s)) d;
          Some (SUCCESS_RETURN, Some d, s) }
      | IOTX_IOCTL_SET_DEVICE_KEY \<Rightarrow> do {
          str \<leftarrow> string_arg d;
          (if length str \<le> IOTX_DEVICE_KEY_LEN
           then Some (SUCCESS_RETURN, data, s\<lparr>ctx := (ctx s)\<lparr>device_key := str\<rparr>\<rparr>)
           else Some (FAIL_RETURN, data, s)) }
      | IOTX_IOCTL_GET_DEVICE_KEY \<Rightarrow> do {
          d \<leftarrow> copy_out (device_key (ctx s)) d;
          Some (SUCCESS_RETURN, Some d, s) }
      | IOTX_IOCTL_SET_DEVICE_SECRET \<Rightarrow> do {
          str \<leftarrow> string_arg d;
          (if length str \<le> IOTX_DEVICE_SECRET_LEN
           then Some (SUCCESS_RETURN, data, s\<lparr>ctx := (ctx s)\<lparr>device_secret := str\<rparr>\<rparr>)
           else Some (FAIL_RETURN, data, s)) }
      | IOTX_IOCTL_GET_DEVICE_SECRET \<Rightarrow> do {
          d \<leftarrow> copy_out (device_secret (ctx s)) d;
          Some (SUCCESS_RETURN, Some d, s) }
      | IOTX_IOCTL_RECV_THING_REPLY \<Rightarrow> do {
          i \<leftarrow> int_arg d;
          let (res, g) = dm_opt_set DM_OPT_DOWNSTREAM_THING_REPLY (Some i) (g_dm_opt s);
          Some (res, data, s\<lparr>g_dm_opt := g\<rparr>) }
      | IOTX_IOCTL_SEND_MEASUREPOINT_SET_AUTO_REPLY \<Rightarrow> do {
          i \<leftarrow> int_arg d;
          let (res, g) = dm_opt_set DM_OPT_UPSTREAM_MEASUREPOINT_SET_AUTO_REPLY (Some i) (g_dm_opt s);
          Some (res, data, s\<lparr>g_dm_opt := g\<rparr>) }
      | IOTX_IOCTL_SET_SUBDEV_SIGN \<Rightarrow> Some (SUCCESS_RETURN, data, s)
      | IOTX_IOCTL_GET_SUBDEV_LOGIN \<Rightarrow> Some (SUCCESS_RETURN, data, s)
      | IOTX_IOCTL_SET_CUSTOMIZE_INFO \<Rightarrow> do {
          str \<leftarrow> string_arg d;
          (if length str > IOTX_CUSTOMIZE_INFO_LEN then Some (FAIL_RETURN, data, s)
           else Some (SUCCESS_RETURN, data, s\<lparr>ctx := (ctx s)\<lparr>mqtt_customzie_info := str\<rparr>\<rparr>)) }
      | IOTX_IOCTL_SET_MQTT_PORT \<Rightarrow>
          (case d of Data_port p \<Rightarrow>
             Some (SUCCESS_RETURN, data, s\<lparr>ctx := (ctx s)\<lparr>mqtt_port_num := p\<rparr>\<rparr>)
           | _ \<Rightarrow> None)
      | IOTX_IOCTL_QUERY_DEVID \<Rightarrow>
          (case d of Data_strings pk dk \<Rightarrow> Some (query_id pk dk, data, s) | _ \<Rightarrow> None)
      | IOTX_IOCTL_SUB_USER_TOPIC \<Rightarrow>
          (case d of Data_strings t cb \<Rightarrow> Some (sub_topic t cb, data, s) | _ \<Rightarrow> None)
      | _ \<Rightarrow> Some (FAIL_RETURN, data, s)))"

definition IOT_SetupConnInfo ::
  "byte list option \<Rightarrow> byte list option \<Rightarrow> byte list option \<Rightarrow> int" where
  "IOT_SetupConnInfo pk dk ds =
     (case (pk, dk, ds) of
        (Some pk, Some dk, Some ds) \<Rightarrow>
          if length pk > IOTX_PRODUCT_KEY_LEN \<or> length dk > IOTX_DEVICE_KEY_LEN
             \<or> length ds > IOTX_DEVICE_SECRET_LEN then - 2 else SUCCESS_RETURN
      | _ \<Rightarrow> - 2)"

section \<open>The event table\<close>

text \<open>
  \<^verbatim>\<open>g_impl_event_map\<close>: one callback slot per event, indexed by the event's number in
  \<^verbatim>\<open>iotx_ioctl_event_t\<close>. A function pointer is the number of the function, \<open>None\<close> is null.
\<close>

definition ITE_COUNT :: nat where "ITE_COUNT = 28"
definition ITE_STATE_EVERYTHING :: int where "ITE_STATE_EVERYTHING = 18"
definition ITE_STATE_DEV_MODEL :: int where "ITE_STATE_DEV_MODEL = 27"
definition ITE_IDENTITY_RESPONSE :: int where "ITE_IDENTITY_RESPONSE = 17"

type_synonym event_map = "nat option list"

definition g_impl_event_map :: event_map where
  "g_impl_event_map = replicate ITE_COUNT None"

definition iotx_event_callback :: "event_map \<Rightarrow> int \<Rightarrow> nat option" where
  "iotx_event_callback m evt =
     (if evt < 0 \<or> evt \<ge> int (length m) then None else m ! nat evt)"

definition iotx_register_for :: "int \<Rightarrow> nat option \<Rightarrow> event_map \<Rightarrow> int \<times> event_map" where
  "iotx_register_for evt cb m =
     (if evt < 0 \<or> evt \<ge> int (length m) then (- 1, m) else (0, m[nat evt := cb]))"

definition iotx_register_for_ITE_STATE_EVERYTHING :: "nat option \<Rightarrow> event_map \<Rightarrow> int \<times> event_map" where
  "iotx_register_for_ITE_STATE_EVERYTHING cb m =
     (0, fold (\<lambda>idx m. m[idx := cb]) [nat ITE_STATE_EVERYTHING..<Suc (nat ITE_STATE_DEV_MODEL)] m)"

text \<open>The result and the handlers \<open>iotx_state_event\<close> calls, in order.\<close>

definition iotx_state_event :: "event_map \<Rightarrow> int \<Rightarrow> int \<times> nat list" where
  "iotx_state_event m event =
     (let everything = iotx_event_callback m ITE_STATE_EVERYTHING
      in case iotx_event_callback m event of
           None \<Rightarrow> (- 1, [])
         | Some h \<Rightarrow> (0, h # (case everything of None \<Rightarrow> []
                               | Some e \<Rightarrow> if e \<noteq> h then [e] else [])))"

section \<open>The interface of a setting\<close>

text \<open>
  What the SDK relies on for each of its stored strings: a setter that takes every C string up
  to a limit and refuses a longer one without touching anything, and a getter.
\<close>

locale setting =
  fixes put :: "byte list \<Rightarrow> 's \<Rightarrow> int \<times> 's"
    and get :: "'s \<Rightarrow> byte list"
    and limit :: nat
  assumes put_ok: "0 \<notin> set v \<Longrightarrow> length v \<le> limit \<Longrightarrow>
      fst (put v s) = SUCCESS_RETURN \<and> get (snd (put v s)) = v"
    and put_long: "0 \<notin> set v \<Longrightarrow> limit < length v \<Longrightarrow> put v s = (FAIL_RETURN, s)"
begin

lemma put_bounded:
  "0 \<notin> set v \<Longrightarrow> length (get s) \<le> limit \<Longrightarrow> length (get (snd (put v s))) \<le> limit"
  by (cases "length v \<le> limit") (simp_all add: put_ok put_long not_le)

lemma last_good_wins:
  "\<forall>v \<in> set vs. 0 \<notin> set v \<Longrightarrow>
   get (fold (\<lambda>v s. snd (put v s)) vs s) =
   (case List.filter (\<lambda>v. length v \<le> limit) (rev vs) of [] \<Rightarrow> get s | v # _ \<Rightarrow> v)"
proof (induction vs rule: rev_induct)
  case (snoc v vs)
  then show ?case by (cases "length v \<le> limit") (simp_all add: put_ok put_long not_le)
qed simp

end

text \<open>A string setting of \<open>IOT_Ioctl\<close>: the call with a NUL-terminated string.\<close>

definition ioctl_string :: "iotx_ioctl_option \<Rightarrow> byte list \<Rightarrow> ioctl_state \<Rightarrow> int \<times> ioctl_state" where
  "ioctl_string option v s =
     (case IOT_Ioctl (\<lambda>_ _. 0) (\<lambda>_ _. 0) option (Some (Data_mem (v @ [0]))) s of
        Some (r, _, s') \<Rightarrow> (r, s') | None \<Rightarrow> (0, s))"

lemma string_arg_str: "0 \<notin> set v \<Longrightarrow> string_arg (Data_mem (v @ [0])) = Some v"
  by (simp add: string_arg_def)

interpretation pk: setting "ioctl_string IOTX_IOCTL_SET_PRODUCT_KEY" "\<lambda>s. product_key (ctx s)"
    IOTX_PRODUCT_KEY_LEN
  by unfold_locales (simp_all add: ioctl_string_def IOT_Ioctl_def string_arg_str)

interpretation ps: setting "ioctl_string IOTX_IOCTL_SET_PRODUCT_SECRET" "\<lambda>s. product_secret (ctx s)"
    IOTX_PRODUCT_SECRET_LEN
  by unfold_locales (simp_all add: ioctl_string_def IOT_Ioctl_def string_arg_str)

interpretation dk: setting "ioctl_string IOTX_IOCTL_SET_DEVICE_KEY" "\<lambda>s. device_key (ctx s)"
    IOTX_DEVICE_KEY_LEN
  by unfold_locales (simp_all add: ioctl_string_def IOT_Ioctl_def string_arg_str)

interpretation ds: setting "ioctl_string IOTX_IOCTL_SET_DEVICE_SECRET" "\<lambda>s. device_secret (ctx s)"
    IOTX_DEVICE_SECRET_LEN
  by unfold_locales (simp_all add: ioctl_string_def IOT_Ioctl_def string_arg_str)

interpretation ci: setting "ioctl_string IOTX_IOCTL_SET_CUSTOMIZE_INFO" "\<lambda>s. mqtt_customzie_info (ctx s)"
    IOTX_CUSTOMIZE_INFO_LEN
  by unfold_locales (simp_all add: ioctl_string_def IOT_Ioctl_def string_arg_str)

text \<open>
  After any sequence of device-key settings the stored key is the last one that fits its
  buffer, and a key that does not fit changes nothing: the buffer of 65 bytes is never overrun.
\<close>

theorem device_key_last_good:
  assumes "\<forall>v \<in> set vs. 0 \<notin> set v"
  shows "device_key (ctx (fold (\<lambda>v s. snd (ioctl_string IOTX_IOCTL_SET_DEVICE_KEY v s)) vs s)) =
    (case List.filter (\<lambda>v. length v \<le> IOTX_DEVICE_KEY_LEN) (rev vs) of
       [] \<Rightarrow> device_key (ctx s) | v # _ \<Rightarrow> v)"
  using assms by (rule dk.last_good_wins)

theorem device_key_last_good_witness:
  "device_key (ctx (fold (\<lambda>v s. snd (ioctl_string IOTX_IOCTL_SET_DEVICE_KEY v s))
     [[97], [98, 99], replicate 65 100] g_sdk_impl_ctx)) = [98, 99]"
  using device_key_last_good [of "[[97], [98, 99], replicate 65 100]" g_sdk_impl_ctx]
  by (simp add: len_limits)

text \<open>
  Reading a setting back copies the string without its NUL: a getter leaves the caller's
  string equal to the setting only if the caller's block is already zero behind it. Into a
  block that holds the longer string \<open>old\<close> it gives a mixture of both.
\<close>

theorem get_without_terminator:
  assumes "0 \<notin> set old" "length (device_key (ctx s)) \<le> length old"
  shows "\<exists>m. IOT_Ioctl q t IOTX_IOCTL_GET_DEVICE_KEY (Some (Data_mem (old @ 0 # rest))) s =
       Some (SUCCESS_RETURN, Some (Data_mem m), s) \<and>
     (0 \<notin> set (device_key (ctx s)) \<longrightarrow>
      c_str m = Some (device_key (ctx s) @ drop (length (device_key (ctx s))) old))"
proof -
  let ?k = "device_key (ctx s)"
  have m: "buf_write (old @ 0 # rest) 0 ?k = (?k @ drop (length ?k) old) @ 0 # rest"
    using assms(2) by (simp add: buf_write_fits)
  have "0 \<notin> set ?k \<Longrightarrow> 0 \<notin> set (?k @ drop (length ?k) old)"
    using assms(1) in_set_dropD by fastforce
  then have "0 \<notin> set ?k \<longrightarrow> c_str ((?k @ drop (length ?k) old) @ 0 # rest) = Some (?k @ drop (length ?k) old)"
    by (blast intro: c_str_terminated)
  then show ?thesis
    using assms(2) m by (simp add: IOT_Ioctl_def copy_out_def)
qed

theorem get_without_terminator_witness:
  "\<exists>m. IOT_Ioctl (\<lambda>_ _. 0) (\<lambda>_ _. 0) IOTX_IOCTL_GET_DEVICE_KEY
           (Some (Data_mem ([97, 98, 99] @ 0 # [])))
           (snd (ioctl_string IOTX_IOCTL_SET_DEVICE_KEY [120] g_sdk_impl_ctx)) =
         Some (SUCCESS_RETURN, Some (Data_mem m),
           snd (ioctl_string IOTX_IOCTL_SET_DEVICE_KEY [120] g_sdk_impl_ctx)) \<and>
       c_str m = Some [120, 98, 99]"
proof -
  have "device_key (ctx (snd (ioctl_string IOTX_IOCTL_SET_DEVICE_KEY [120] g_sdk_impl_ctx))) = [120]"
    using dk.put_ok [of "[120]" g_sdk_impl_ctx] by (simp add: len_limits)
  then show ?thesis
    using get_without_terminator [of "[97, 98, 99]"
        "snd (ioctl_string IOTX_IOCTL_SET_DEVICE_KEY [120] g_sdk_impl_ctx)"
        "\<lambda>_ _. 0" "\<lambda>_ _. 0" "[]"] by simp
qed

text \<open>
  A custom domain that is too long is refused with - 1, but the region has been switched to
  custom all the same: the settings are not what they were before the refused call.
\<close>

theorem refused_domain_switches_region:
  assumes "0 \<notin> set str" "IOTX_DOMAIN_MAX_LEN < length str"
  shows "IOT_Ioctl q t IOTX_IOCTL_SET_MQTT_DOMAIN (Some (Data_mem (str @ [0]))) s =
    Some (FAIL_RETURN, Some (Data_mem (str @ [0])), s\<lparr>ctx := (ctx s)\<lparr>domain_type := 0\<rparr>\<rparr>)"
  using assms by (simp add: IOT_Ioctl_def string_arg_str)

theorem refused_domain_switches_region_witness:
  "IOT_Ioctl (\<lambda>_ _. 0) (\<lambda>_ _. 0) IOTX_IOCTL_SET_MQTT_DOMAIN (Some (Data_mem (replicate 65 97 @ [0])))
     (g_sdk_impl_ctx\<lparr>ctx := (ctx g_sdk_impl_ctx)\<lparr>domain_type := 3\<rparr>\<rparr>) =
   Some (FAIL_RETURN, Some (Data_mem (replicate 65 97 @ [0])), g_sdk_impl_ctx)"
  using refused_domain_switches_region [of "replicate 65 97" "\<lambda>_ _. 0" "\<lambda>_ _. 0"
      "g_sdk_impl_ctx\<lparr>ctx := (ctx g_sdk_impl_ctx)\<lparr>domain_type := 3\<rparr>\<rparr>"]
  by (simp add: len_limits g_sdk_impl_ctx_def)

section \<open>Event handlers\<close>

lemma fold_update_nth:
  "idx < length m \<Longrightarrow> fold (\<lambda>i m. m[i := cb]) [a..<b] m ! idx =
     (if a \<le> idx \<and> idx < b then cb else m ! idx)"
proof (induction b)
  case (Suc b)
  have len: "length (fold (\<lambda>i m. m[i := cb]) xs m) = length m" for xs
    by (induction xs arbitrary: m) simp_all
  from Suc show ?case by (cases "idx = b") (auto simp: len)
qed simp

text \<open>
  Once a handler is registered for every state event, each state event from user input
  to device model reaches it exactly once, and every other event keeps its own callback.
\<close>

theorem everything_handler_gets_all:
  assumes "length m = ITE_COUNT" "iotx_register_for_ITE_STATE_EVERYTHING (Some h) m = (rc, m')"
  shows "rc = 0 \<and>
    (\<forall>evt \<in> {ITE_STATE_EVERYTHING..ITE_STATE_DEV_MODEL}. iotx_state_event m' evt = (0, [h])) \<and>
    (\<forall>evt < ITE_STATE_EVERYTHING. iotx_event_callback m' evt = iotx_event_callback m evt)"
proof -
  have len: "length (fold (\<lambda>i m. m[i := cb]) xs m) = length m" for xs and cb :: "nat option"
    by (induction xs arbitrary: m) simp_all
  have m': "rc = 0" "m' = fold (\<lambda>i m. m[i := Some h]) [18..<28] m"
    using assms(2) by (simp_all add: iotx_register_for_ITE_STATE_EVERYTHING_def
        ITE_STATE_EVERYTHING_def ITE_STATE_DEV_MODEL_def del: upt.upt_Suc)
  have nth: "idx < 28 \<Longrightarrow> m' ! idx = (if 18 \<le> idx \<and> idx < 28 then Some h else m ! idx)" for idx
    using assms(1) unfolding m'(2) by (subst fold_update_nth) (auto simp: ITE_COUNT_def)
  have l': "length m' = 28" using assms(1) by (simp only: m'(2) len ITE_COUNT_def)
  have cb: "0 \<le> evt \<Longrightarrow> evt < 28 \<Longrightarrow> iotx_event_callback m' evt =
      (if 18 \<le> evt then Some h else m ! nat evt)" for evt
    using nth [of "nat evt"] l' by (auto simp: iotx_event_callback_def)
  have "iotx_event_callback m' evt = iotx_event_callback m evt" if "evt < 18" for evt
    using that cb [of evt] assms(1) l'
    by (cases "0 \<le> evt") (auto simp: iotx_event_callback_def ITE_COUNT_def)
  moreover have "iotx_state_event m' evt = (0, [h])" if "18 \<le> evt" "evt \<le> 27" for evt
    using that cb [of evt] cb [of 18]
    by (simp add: iotx_state_event_def ITE_STATE_EVERYTHING_def Let_def)
  ultimately show ?thesis
    using m'(1) by (auto simp: ITE_STATE_EVERYTHING_def ITE_STATE_DEV_MODEL_def)
qed

theorem everything_handler_gets_all_witness:
  "iotx_state_event (snd (iotx_register_for_ITE_STATE_EVERYTHING (Some 7) g_impl_event_map)) 21 = (0, [7])"
  using everything_handler_gets_all [of g_impl_event_map 7 _ "snd (iotx_register_for_ITE_STATE_EVERYTHING (Some 7) g_impl_event_map)"]
  by (auto simp: g_impl_event_map_def ITE_STATE_EVERYTHING_def ITE_STATE_DEV_MODEL_def
      iotx_register_for_ITE_STATE_EVERYTHING_def)

end
