(* ===== verification/InfraNet.thy ===== *)
theory InfraNet
  imports EnosPrelude
begin

text \<open>
  The platform interface the SDK is written against (\<^verbatim>\<open>wrappers/wrappers.h\<close>) and the network
  object over it, \<^verbatim>\<open>src/src/infra/infra_net.c\<close>, in the TCP build (\<^verbatim>\<open>SUPPORT_TLS\<close> not defined).

  The platform is a record of functions over a state \<open>'w\<close> of the outside world: clock, memory,
  network, application. Nothing is assumed of them in the definitions. A read delivers the
  bytes it stores in the caller's buffer; what is stored beyond the requested length is cut.
  A connection handle is an \<open>int\<close>, with \<open>- 1\<close> for \<^verbatim>\<open>(uintptr_t)(-1)\<close>.
\<close>

record 'w hal =
  HAL_UptimeMs :: "'w \<Rightarrow> u32 \<times> 'w"
  HAL_SleepMs :: "u32 \<Rightarrow> 'w \<Rightarrow> 'w"
  HAL_Malloc :: "u32 \<Rightarrow> 'w \<Rightarrow> bool \<times> 'w"
  HAL_MutexCreate :: "'w \<Rightarrow> bool \<times> 'w"
  HAL_TCP_Establish :: "byte list option \<Rightarrow> u16 \<Rightarrow> 'w \<Rightarrow> int \<times> 'w"
  HAL_TCP_Destroy :: "int \<Rightarrow> 'w \<Rightarrow> 'w"
  HAL_TCP_Read :: "int \<Rightarrow> u32 \<Rightarrow> u32 \<Rightarrow> 'w \<Rightarrow> int \<times> byte list \<times> 'w"
  HAL_TCP_Write :: "int \<Rightarrow> byte list \<Rightarrow> u32 \<Rightarrow> 'w \<Rightarrow> int \<times> 'w"

record utils_network =
  pHostAddress :: "byte list option"
  net_port :: u16
  ca_crt_len :: u16
  ca_crt :: "byte list option"
  net_handle :: int

abbreviation (input) STATE_SYS_DEPEND_NWK_INVALID_HANDLE :: int
  where "STATE_SYS_DEPEND_NWK_INVALID_HANDLE \<equiv> - 0x20A"

definition utils_net_read ::
  "('w, 'e) hal_scheme \<Rightarrow> utils_network \<Rightarrow> u32 \<Rightarrow> u32 \<Rightarrow> 'w \<Rightarrow> int \<times> byte list \<times> 'w" where
  "utils_net_read env net len timeout_ms w =
     (let (rc, bytes, w) = HAL_TCP_Read env (net_handle net) len timeout_ms w
      in (rc, take (unat len) bytes, w))"

definition utils_net_write ::
  "('w, 'e) hal_scheme \<Rightarrow> utils_network \<Rightarrow> byte list \<Rightarrow> u32 \<Rightarrow> 'w \<Rightarrow> int \<times> 'w" where
  "utils_net_write env net buf timeout_ms w = HAL_TCP_Write env (net_handle net) buf timeout_ms w"

definition iotx_net_disconnect ::
  "('w, 'e) hal_scheme \<Rightarrow> utils_network \<Rightarrow> 'w \<Rightarrow> int \<times> utils_network \<times> 'w" where
  "iotx_net_disconnect env net w =
     (if net_handle net = - 1 then (STATE_SYS_DEPEND_NWK_INVALID_HANDLE, net, w)
      else (STATE_SUCCESS, net\<lparr>net_handle := - 1\<rparr>, HAL_TCP_Destroy env (net_handle net) w))"

definition iotx_net_connect ::
  "('w, 'e) hal_scheme \<Rightarrow> utils_network \<Rightarrow> 'w \<Rightarrow> int \<times> utils_network \<times> 'w" where
  "iotx_net_connect env net w =
     (let (h, w) = HAL_TCP_Establish env (pHostAddress net) (net_port net) w;
          net = net\<lparr>net_handle := h\<rparr>
      in if h = - 1 then (STATE_SYS_DEPEND_NWK_INVALID_HANDLE, net, w) else (STATE_SUCCESS, net, w))"

definition iotx_net_init ::
  "utils_network \<Rightarrow> byte list option \<Rightarrow> u16 \<Rightarrow> byte list option \<Rightarrow> int \<times> utils_network" where
  "iotx_net_init net host port crt =
     (case host of None \<Rightarrow> (STATE_USER_INPUT_INVALID, net)
      | Some h \<Rightarrow> (STATE_SUCCESS,
          \<lparr>pHostAddress = host, net_port = port,
           ca_crt_len = (case crt of None \<Rightarrow> 0 | Some c \<Rightarrow> word_of_nat (length c)),
           ca_crt = crt, net_handle = 0\<rparr>))"

end
