(* ===== verification/MqttClient.thy ===== *)
theory MqttClient
  imports MqttMessages InfraTimer InfraNet InfraCompat InfraString TopicFilter Sha256
begin

text \<open>
  The MQTT client, \<^verbatim>\<open>src/src/mqtt/impl/iotx_mqtt_client.c\<close> and \<^verbatim>\<open>.h\<close>: its state, its buffers,
  sending and reading packets, and the handlers of received packets. \<^verbatim>\<open>MqttClientApi\<close> continues
  with connecting, keep-alive, publishing, subscribing and the public functions.

  The build is the one of the shipped configurations: dynamic memory, dynamic buffers, QoS 1,
  no QoS 2 packets, no flow control, no asynchronous protocol stack. The option
  \<^verbatim>\<open>WITH_MQTT_ZIP_TOPIC\<close> is the field \<open>zip_topic\<close> of the environment, so every statement covers
  both builds.

  A function that takes the client pointer is a function on the system state \<open>sys\<close>: the client,
  the outside world, the SDK's settings and the file's static \<^verbatim>\<open>_in_yield_cb\<close>. The client
  pointer itself is never null here; the null checks at the entry of each function are left
  out, other null checks are kept. \<open>None\<close> stands for undefined behaviour of the C (an access
  outside a block, a null dereference, an uninitialised value) and for a loop that does not
  end. Mutexes are taken and released in pairs on every path and have no effect on a single
  thread, so they do not appear; neither does logging. An application callback acts on the
  outside world and does not call back into the client.
\<close>

section \<open>The state\<close>

datatype iotx_mc_state = IOTX_MC_STATE_INVALID | IOTX_MC_STATE_INITIALIZED
  | IOTX_MC_STATE_CONNECTED | IOTX_MC_STATE_DISCONNECTED
  | IOTX_MC_STATE_DISCONNECTED_RECONNECTING | IOTX_MC_STATE_CONNECT_BLOCK

datatype iotx_mc_node = IOTX_MC_NODE_STATE_NORMANL | IOTX_MC_NODE_STATE_INVALID

datatype iotx_mqtt_event_type = IOTX_MQTT_EVENT_UNDEF | IOTX_MQTT_EVENT_DISCONNECT
  | IOTX_MQTT_EVENT_RECONNECT | IOTX_MQTT_EVENT_SUBCRIBE_SUCCESS
  | IOTX_MQTT_EVENT_SUBCRIBE_TIMEOUT | IOTX_MQTT_EVENT_SUBCRIBE_NACK
  | IOTX_MQTT_EVENT_UNSUBCRIBE_SUCCESS | IOTX_MQTT_EVENT_UNSUBCRIBE_TIMEOUT | IOTX_MQTT_EVENT_UNSUBCRIBE_NACK
  | IOTX_MQTT_EVENT_PUBLISH_SUCCESS | IOTX_MQTT_EVENT_PUBLISH_TIMEOUT | IOTX_MQTT_EVENT_PUBLISH_NACK
  | IOTX_MQTT_EVENT_PUBLISH_RECEIVED | IOTX_MQTT_EVENT_BUFFER_OVERFLOW

record iotx_mqtt_event_handle =
  h_fp :: "nat option"
  pcontext :: nat

record iotx_mqtt_topic_info =
  ti_packet_id :: u16
  qos :: byte
  dup :: byte
  retain :: byte
  topic_len :: u16
  payload_len :: u32
  ptopic :: "byte list option"
  payload :: "byte list option"

datatype event_detail = Ev_null | Ev_packet_id u16 | Ev_topic iotx_mqtt_topic_info | Ev_text

record iotx_mqtt_event_msg =
  event_type :: iotx_mqtt_event_type
  msg :: event_detail

record iotx_mc_topic_handle =
  topic_type :: iotx_mc_topic_type
  handle :: iotx_mqtt_event_handle
  topic_filter :: "byte list"

record iotx_mc_pub_info =
  pub_start_time :: iotx_time
  node_state :: iotx_mc_node
  msg_id :: u16
  pub_len :: u32
  pub_buf :: "byte list"

record mqtt_sub_sync_node =
  sync_packet_id :: int
  ack_type :: iotx_mqtt_event_type

record iotx_mc_client =
  packet_id :: u32
  request_timeout_ms :: u32
  cycle_timeout_ms :: u32
  buf_size_send :: u32
  buf_size_send_max :: u32
  buf_size_read_max :: u32
  buf_size_read :: u32
  keepalive_probes :: byte
  buf_send :: "byte list option"
  buf_read :: "byte list option"
  list_sub_handle :: "iotx_mc_topic_handle list"
  ipstack :: utils_network
  next_ping_time :: iotx_time
  client_state :: iotx_mc_state
  reconnect_next_time :: iotx_time
  reconnect_time_interval_ms :: u32
  connect_data :: MQTTPacket_connectData
  list_pub_wait_ack :: "iotx_mc_pub_info list"
  list_sub_sync_ack :: "mqtt_sub_sync_node list"
  handle_event :: iotx_mqtt_event_handle

text \<open>
  The environment: the platform, the application's callbacks, the build option, the value an
  uninitialised 16-bit local happens to hold, and the sizes of the structures allocated.
\<close>

record 'w env = "'w hal" +
  app_call :: "nat \<Rightarrow> nat \<Rightarrow> iotx_mqtt_event_msg \<Rightarrow> 'w \<Rightarrow> 'w"
  app_event :: "nat \<Rightarrow> byte list \<Rightarrow> 'w \<Rightarrow> 'w"
  zip_topic :: bool
  stack_junk :: u16
  sizeof_pub_info :: u32
  sizeof_topic_handle :: u32
  sizeof_sync_node :: u32
  sizeof_client :: u32

record 'w sys =
  cl :: iotx_mc_client
  world :: 'w
  in_yield_cb :: bool
  settings :: ioctl_state
  events :: event_map

abbreviation (input) IOTX_MC_REPUB_NUM_MAX :: nat where "IOTX_MC_REPUB_NUM_MAX \<equiv> 10"
abbreviation (input) IOTX_MC_PACKET_ID_MAX :: u32 where "IOTX_MC_PACKET_ID_MAX \<equiv> 65535"
abbreviation (input) IOTX_MC_RECONNECT_INTERVAL_MIN_MS :: u32
  where "IOTX_MC_RECONNECT_INTERVAL_MIN_MS \<equiv> 1000"
abbreviation (input) IOTX_MC_RECONNECT_INTERVAL_MAX_MS :: u32
  where "IOTX_MC_RECONNECT_INTERVAL_MAX_MS \<equiv> 30000"
abbreviation (input) IOTX_MC_KEEPALIVE_PROBE_MAX :: byte where "IOTX_MC_KEEPALIVE_PROBE_MAX \<equiv> 2"
abbreviation (input) MQTT_DYNBUF_SEND_MARGIN :: int where "MQTT_DYNBUF_SEND_MARGIN \<equiv> 64"
abbreviation (input) MQTT_DYNBUF_RECV_MARGIN :: int where "MQTT_DYNBUF_RECV_MARGIN \<equiv> 8"
abbreviation (input) MUTLI_SUBSCIRBE_MAX :: int where "MUTLI_SUBSCIRBE_MAX \<equiv> 5"
abbreviation (input) MQTT_PUBLISH_PACKET_ERROR :: int where "MQTT_PUBLISH_PACKET_ERROR \<equiv> - 21"
abbreviation (input) MQTT_PUBLISH_ACK_PACKET_ERROR :: int
  where "MQTT_PUBLISH_ACK_PACKET_ERROR \<equiv> - 19"

section \<open>Calls to the platform\<close>

definition upd :: "(iotx_mc_client \<Rightarrow> iotx_mc_client) \<Rightarrow> 'w sys \<Rightarrow> 'w sys" where
  "upd f s = s\<lparr>cl := f (cl s)\<rparr>"

definition uptime :: "'w env \<Rightarrow> 'w sys \<Rightarrow> u32 \<times> 'w sys" where
  "uptime env s = (let (t, w) = HAL_UptimeMs env (world s) in (t, s\<lparr>world := w\<rparr>))"

definition sleep :: "'w env \<Rightarrow> u32 \<Rightarrow> 'w sys \<Rightarrow> 'w sys" where
  "sleep env ms s = s\<lparr>world := HAL_SleepMs env ms (world s)\<rparr>"

definition malloc :: "'w env \<Rightarrow> u32 \<Rightarrow> 'w sys \<Rightarrow> bool \<times> 'w sys" where
  "malloc env n s = (let (ok, w) = HAL_Malloc env n (world s) in (ok, s\<lparr>world := w\<rparr>))"

definition net_read :: "'w env \<Rightarrow> u32 \<Rightarrow> u32 \<Rightarrow> 'w sys \<Rightarrow> int \<times> byte list \<times> 'w sys" where
  "net_read env len timeout s =
     (let (rc, bytes, w) = utils_net_read env (ipstack (cl s)) len timeout (world s)
      in (rc, bytes, s\<lparr>world := w\<rparr>))"

definition net_write :: "'w env \<Rightarrow> byte list \<Rightarrow> u32 \<Rightarrow> 'w sys \<Rightarrow> int \<times> 'w sys" where
  "net_write env bytes timeout s =
     (let (rc, w) = utils_net_write env (ipstack (cl s)) bytes timeout (world s)
      in (rc, s\<lparr>world := w\<rparr>))"

definition net_connect :: "'w env \<Rightarrow> 'w sys \<Rightarrow> int \<times> 'w sys" where
  "net_connect env s =
     (let (rc, net, w) = iotx_net_connect env (ipstack (cl s)) (world s)
      in (rc, upd (ipstack_update (\<lambda>_. net)) (s\<lparr>world := w\<rparr>)))"

definition net_disconnect :: "'w env \<Rightarrow> 'w sys \<Rightarrow> 'w sys" where
  "net_disconnect env s =
     (let (rc, net, w) = iotx_net_disconnect env (ipstack (cl s)) (world s)
      in upd (ipstack_update (\<lambda>_. net)) (s\<lparr>world := w\<rparr>))"

text \<open>The timer functions, with their clock reads.\<close>

definition countdown :: "'w env \<Rightarrow> u32 \<Rightarrow> 'w sys \<Rightarrow> iotx_time \<times> 'w sys" where
  "countdown env ms s =
     (let (now, s) = uptime env s in (utils_time_countdown_ms now \<lparr>time = 0\<rparr> ms, s))"

definition time_expired :: "'w env \<Rightarrow> iotx_time \<Rightarrow> 'w sys \<Rightarrow> bool \<times> 'w sys" where
  "time_expired env t s = (let (now, s) = uptime env s in (utils_time_is_expired now (Some t), s))"

definition time_left :: "'w env \<Rightarrow> iotx_time \<Rightarrow> 'w sys \<Rightarrow> u32 \<times> 'w sys" where
  "time_left env t s =
     (let (now1, s) = uptime env s
      in if utils_time_is_expired now1 (Some t) then (0, s)
         else let (now2, s) = uptime env s in (iotx_time_left now1 now2 (Some t), s))"

definition time_spend :: "'w env \<Rightarrow> iotx_time \<Rightarrow> 'w sys \<Rightarrow> u32 \<times> 'w sys" where
  "time_spend env t s = (let (now, s) = uptime env s in (utils_time_spend now (Some t), s))"

definition time_now :: "'w env \<Rightarrow> 'w sys \<Rightarrow> iotx_time \<times> 'w sys" where
  "time_now env s = (let (now, s) = uptime env s in (iotx_time_start now \<lparr>time = 0\<rparr>, s))"

text \<open>\<^verbatim>\<open>left_t = iotx_time_left(t); left_t = (left_t == 0) ? 1 : left_t;\<close>\<close>

definition time_left1 :: "'w env \<Rightarrow> iotx_time \<Rightarrow> 'w sys \<Rightarrow> u32 \<times> 'w sys" where
  "time_left1 env t s = (let (l, s) = time_left env t s in (if l = 0 then 1 else l, s))"

definition iotx_mc_set_client_state :: "iotx_mc_state \<Rightarrow> 'w sys \<Rightarrow> 'w sys" where
  "iotx_mc_set_client_state newState = upd (client_state_update (\<lambda>_. newState))"

definition iotx_mc_get_client_state :: "'w sys \<Rightarrow> iotx_mc_state" where
  "iotx_mc_get_client_state s = client_state (cl s)"

section \<open>Buffers\<close>

definition get_connect_length :: "MQTTPacket_connectData \<Rightarrow> int" where
  "get_connect_length options = MQTTPacket_len (MQTTSerialize_connectLength options)"

definition reset_send_buffer :: "'w sys \<Rightarrow> 'w sys" where
  "reset_send_buffer s =
     (if buf_send (cl s) = None then s
      else upd (\<lambda>c. c\<lparr>buf_send := None, buf_size_send := 0\<rparr>) s)"

definition reset_recv_buffer :: "'w sys \<Rightarrow> 'w sys" where
  "reset_recv_buffer s =
     (if buf_read (cl s) = None then s
      else upd (\<lambda>c. c\<lparr>buf_read := None, buf_size_read := 0\<rparr>) s)"

text \<open>\<^verbatim>\<open>tmp_len\<close> is an \<^verbatim>\<open>int\<close>, compared with the unsigned maximum after conversion.\<close>

definition dyn_len :: "int \<Rightarrow> u32 \<Rightarrow> u32" where
  "dyn_len tmp_len limit = (if word_of_int tmp_len > limit then limit else word_of_int tmp_len)"

definition alloc_send_buffer :: "'w env \<Rightarrow> int \<Rightarrow> 'w sys \<Rightarrow> int \<times> 'w sys" where
  "alloc_send_buffer env len s =
     (let tmp_len = dyn_len (MQTT_DYNBUF_SEND_MARGIN + len) (buf_size_send_max (cl s));
          (ok, s) = malloc env tmp_len s
      in if \<not> ok then (STATE_SYS_DEPEND_MALLOC, upd (buf_send_update (\<lambda>_. None)) s)
         else (STATE_SUCCESS, upd (\<lambda>c. c\<lparr>buf_send := Some (replicate (unat tmp_len) 0),
                                          buf_size_send := tmp_len\<rparr>) s))"

definition alloc_recv_buffer :: "'w env \<Rightarrow> int \<Rightarrow> 'w sys \<Rightarrow> int \<times> 'w sys" where
  "alloc_recv_buffer env len s =
     (let tmp_len = dyn_len (MQTT_DYNBUF_RECV_MARGIN + len) (buf_size_read_max (cl s));
          (ok, s) = malloc env tmp_len s
      in case buf_read (cl s) of
           Some old \<Rightarrow>
             if \<not> ok then (STATE_SYS_DEPEND_MALLOC, s)
             else let n = (if buf_size_read (cl s) < tmp_len then buf_size_read (cl s) else tmp_len);
                      temp = buf_write (replicate (unat tmp_len) 0) 0 (take (unat n) old)
                  in (STATE_SUCCESS, upd (\<lambda>c. c\<lparr>buf_read := Some temp, buf_size_read := tmp_len\<rparr>) s)
         | None \<Rightarrow>
             if \<not> ok then (STATE_SYS_DEPEND_MALLOC, s)
             else (STATE_SUCCESS, upd (\<lambda>c. c\<lparr>buf_read := Some (replicate (unat tmp_len) 0),
                                              buf_size_read := tmp_len\<rparr>) s))"

text \<open>A serializer filled the send buffer with \<open>bytes\<close>; reading \<open>len\<close> bytes of the network to
  offset \<open>off\<close> of the receive buffer.\<close>

definition fill_send :: "byte list \<Rightarrow> 'w sys \<Rightarrow> 'w sys option" where
  "fill_send bytes s =
     (case buf_send (cl s) of
        None \<Rightarrow> None
      | Some b \<Rightarrow> if length bytes \<le> length b
                  then Some (upd (buf_send_update (\<lambda>_. Some (buf_write b 0 bytes))) s) else None)"

definition write_read_buf :: "nat \<Rightarrow> byte list \<Rightarrow> 'w sys \<Rightarrow> 'w sys option" where
  "write_read_buf off bytes s =
     (case buf_read (cl s) of
        None \<Rightarrow> None
      | Some b \<Rightarrow> if off + length bytes \<le> length b
                  then Some (upd (buf_read_update (\<lambda>_. Some (buf_write b off bytes))) s) else None)"

definition read_into :: "'w env \<Rightarrow> nat \<Rightarrow> u32 \<Rightarrow> u32 \<Rightarrow> 'w sys \<Rightarrow> (int \<times> 'w sys) option" where
  "read_into env off len timeout s = do {
     let (rc, bytes, s) = net_read env len timeout s;
     s \<leftarrow> write_read_buf off bytes s;
     Some (rc, s) }"

section \<open>Sending\<close>

partial_function (option) send_loop ::
  "'w env \<Rightarrow> byte list \<Rightarrow> int \<Rightarrow> iotx_time \<Rightarrow> int \<Rightarrow> 'w sys \<Rightarrow> (int \<times> 'w sys) option" where
  "send_loop env buf len timer sent s =
     (if \<not> sent < len then Some (sent, s)
      else let (expired, s) = time_expired env timer s
           in if expired then Some (sent, s)
              else let (left_t, s) = time_left1 env timer s;
                       (rc, s) = net_write env (take (nat (len - sent)) (drop (nat sent) buf)) left_t s
                   in if rc < 0 then Some (sent, s)
                      else send_loop env buf len timer (sent + rc) s)"

declare send_loop.simps [code]

definition iotx_mc_send_packet ::
  "'w env \<Rightarrow> byte list option \<Rightarrow> int \<Rightarrow> iotx_time \<Rightarrow> 'w sys \<Rightarrow> (int \<times> 'w sys) option" where
  "iotx_mc_send_packet env buf len timer s =
     (case buf of
        None \<Rightarrow> Some (STATE_USER_INPUT_INVALID, s)
      | Some b \<Rightarrow>
          if len > int (length b) then None
          else do {
            (sent, s) \<leftarrow> send_loop env b len timer 0 s;
            Some (if sent = len then STATE_SUCCESS else STATE_SYS_DEPEND_NWK_CLOSE, s) })"

definition MQTTConnect :: "'w env \<Rightarrow> 'w sys \<Rightarrow> (int \<times> 'w sys) option" where
  "MQTTConnect env s =
     (let len = get_connect_length (connect_data (cl s));
          (res, s) = alloc_send_buffer env len s
      in if res < STATE_SUCCESS then Some (res, s)
         else do {
           (len, bytes) \<leftarrow> MQTTSerialize_connect (uint (buf_size_send (cl s))) (connect_data (cl s));
           s \<leftarrow> fill_send bytes s;
           (if len \<le> 0 then Some (STATE_MQTT_SERIALIZE_CONN_ERROR, reset_send_buffer s)
            else do {
              let (connectTimer, s) = countdown env (request_timeout_ms (cl s)) s;
              (res, s) \<leftarrow> iotx_mc_send_packet env (buf_send (cl s)) len connectTimer s;
              let s = reset_send_buffer s;
              Some (if res < STATE_SUCCESS then res else STATE_SUCCESS, s) }) })"

section \<open>Reading\<close>

text \<open>The remaining length, byte by byte from the network.\<close>

function decode_packet_loop ::
  "'w env \<Rightarrow> u32 \<Rightarrow> int \<Rightarrow> int \<Rightarrow> nat \<Rightarrow> 'w sys \<Rightarrow> (int \<times> int \<times> 'w sys) option" where
  "decode_packet_loop env timeout multiplier val len s =
     (if len + 1 > 4 then Some (MQTTPACKET_READ_ERROR, val, s)
      else let (rc, bytes, s) = net_read env 1 (if timeout = 0 then 1 else timeout) s
           in if rc \<le> 0 then Some (STATE_SYS_DEPEND_NWK_CLOSE, val, s)
              else (case bytes of
                      [] \<Rightarrow> None
                    | i # _ \<Rightarrow>
                        let val = val + uint (i AND 127) * multiplier
                        in if i AND 128 \<noteq> 0
                           then decode_packet_loop env timeout (multiplier * 128) val (len + 1) s
                           else Some (int (len + 1), val, s)))"
  by auto
termination by (relation "measure (\<lambda>(env, timeout, m, v, len, s). 4 - len)") auto

declare decode_packet_loop.simps [simp del]

definition iotx_mc_decode_packet ::
  "'w env \<Rightarrow> u32 \<Rightarrow> 'w sys \<Rightarrow> (int \<times> int \<times> 'w sys) option" where
  "iotx_mc_decode_packet env timeout s = decode_packet_loop env timeout 1 0 0 s"

definition handle_event_call ::
  "'w env \<Rightarrow> iotx_mqtt_event_handle \<Rightarrow> iotx_mqtt_event_msg \<Rightarrow> 'w sys \<Rightarrow> int \<times> 'w sys" where
  "handle_event_call env hdl m s =
     (case h_fp hdl of
        None \<Rightarrow> (STATE_USER_INPUT_INVALID, s)
      | Some f \<Rightarrow>
          let s = s\<lparr>in_yield_cb := True\<rparr>;
              s = s\<lparr>world := app_call env f (pcontext hdl) m (world s)\<rparr>
          in (STATE_SUCCESS, s\<lparr>in_yield_cb := False\<rparr>))"

text \<open>The loop that reads and drops an oversized packet, a buffer at a time.\<close>

partial_function (option) discard_loop ::
  "'w env \<Rightarrow> u32 \<Rightarrow> int \<Rightarrow> 'w sys \<Rightarrow> (bool \<times> 'w sys) option" where
  "discard_loop env left_t rem_len s =
     (let needReadLen = (if rem_len > uint (buf_size_read (cl s)) then uint (buf_size_read (cl s))
                         else rem_len)
      in Option.bind (read_into env 0 (word_of_int needReadLen) left_t s) (\<lambda>(rc, s).
           if rc \<noteq> needReadLen then Some (False, s)
           else if rem_len - needReadLen \<noteq> 0 then discard_loop env left_t (rem_len - needReadLen) s
           else Some (True, s)))"

declare discard_loop.simps [code]

text \<open>
  \<open>pt\<close> is the value of \<^verbatim>\<open>*packet_type\<close> on entry, which stays on the error paths.
\<close>

definition iotx_mc_read_packet ::
  "'w env \<Rightarrow> iotx_time \<Rightarrow> byte \<Rightarrow> 'w sys \<Rightarrow> (int \<times> byte \<times> 'w sys) option" where
  "iotx_mc_read_packet env timer pt s =
     (let (rc, s) = alloc_recv_buffer env 0 s
      in if rc < 0 then Some (rc, pt, s)
         else do {
           let (left_t, s) = time_left1 env timer s;
           (rc, s) \<leftarrow> read_into env 0 1 left_t s;
           (if rc = 0 then Some (STATE_SUCCESS, 0, s)
            else if rc < STATE_SUCCESS then Some (STATE_SYS_DEPEND_NWK_CLOSE, pt, s)
            else do {
              let (left_t, s) = time_left1 env timer s;
              (rc, rem_len, s) \<leftarrow> iotx_mc_decode_packet env left_t s;
              (if rc < 0 then Some (rc, pt, s)
               else do {
                 let enc = MQTTPacket_encode rem_len;
                 s \<leftarrow> write_read_buf 1 enc s;
                 let len = 1 + int (length enc);
                 let (rc, s) = alloc_recv_buffer env (rem_len + len) s;
                 (if rc < 0 then Some (rc, pt, s)
                  else if rem_len > 0 \<and> rem_len + len > uint (buf_size_read (cl s))
                  then do {
                    let (left_t, s) = time_left1 env timer s;
                    (ok, s) \<leftarrow> discard_loop env left_t rem_len s;
                    (if \<not> ok then Some (STATE_SYS_DEPEND_NWK_READ_ERROR, 0, s)
                     else Some (STATE_SUCCESS, 0,
                       snd (handle_event_call env (handle_event (cl s))
                              \<lparr>event_type = IOTX_MQTT_EVENT_BUFFER_OVERFLOW, msg = Ev_text\<rparr> s))) }
                  else do {
                    let (left_t, s) = time_left1 env timer s;
                    (rc, s) \<leftarrow> read_into env (nat len) (word_of_int rem_len) left_t s;
                    (if rem_len > 0 \<and> rc < 0 then Some (STATE_SYS_DEPEND_NWK_CLOSE, pt, s)
                     else if rem_len > 0 \<and> rc \<noteq> rem_len then Some (STATE_MQTT_PACKET_READ_ERROR, pt, s)
                     else do {
                       b \<leftarrow> buf_read (cl s);
                       (header, _) \<leftarrow> readChar b;
                       s \<leftarrow> (if len + rem_len < uint (buf_size_read (cl s))
                             then write_read_buf (nat (len + rem_len)) [0] s else Some s);
                       Some (STATE_SUCCESS, MQTT_HEADER_GET_TYPE header, s) }) }) }) }) })"

section \<open>CONNACK\<close>

definition iotx_mc_handle_recv_CONNACK :: "'w sys \<Rightarrow> int option" where
  "iotx_mc_handle_recv_CONNACK s = do {
     buf \<leftarrow> buf_read (cl s);
     (rc, sessionPresent, connack_rc) \<leftarrow> MQTTDeserialize_connack 0 255 buf;
     Some (if rc \<noteq> 1 then STATE_MQTT_DESERIALIZE_CONNACK_ERROR
           else if connack_rc = 0 then STATE_SUCCESS
           else if connack_rc = 1 then STATE_MQTT_CONNACK_VERSION_UNACCEPT
           else if connack_rc = 2 then STATE_MQTT_CONNACK_IDENT_REJECT
           else if connack_rc = 3 then STATE_MQTT_CONNACK_SERVICE_NA
           else if connack_rc = 5 then STATE_MQTT_CONNACK_NOT_AUTHORIZED
           else if connack_rc = 4 then STATE_MQTT_CONNACK_BAD_USERDATA
           else STATE_MQTT_CONNACK_UNKNOWN_ERROR) }"

text \<open>\<open>wait_connack\<close> counts the packets read; more than ten give up.\<close>

function wait_CONNACK_loop ::
  "'w env \<Rightarrow> iotx_time \<Rightarrow> nat \<Rightarrow> byte \<Rightarrow> 'w sys \<Rightarrow> (int \<times> 'w sys) option" where
  "wait_CONNACK_loop env timer wait_connack packetType s =
     Option.bind (iotx_mc_read_packet env timer packetType s) (\<lambda>(rc, packetType, s).
       if rc < STATE_SUCCESS then Some (rc, reset_recv_buffer s)
       else if wait_connack + 1 > 10 then Some (STATE_SYS_DEPEND_NWK_CLOSE, reset_recv_buffer s)
       else if packetType \<noteq> CONNACK
       then wait_CONNACK_loop env timer (wait_connack + 1) packetType s
       else Option.bind (iotx_mc_handle_recv_CONNACK s) (\<lambda>rc. Some (rc, reset_recv_buffer s)))"
  by auto
termination by (relation "measure (\<lambda>(env, timer, n, pt, s). 11 - n)") auto

declare wait_CONNACK_loop.simps [simp del]

definition iotx_mc_wait_CONNACK :: "'w env \<Rightarrow> 'w sys \<Rightarrow> (int \<times> 'w sys) option" where
  "iotx_mc_wait_CONNACK env s =
     (let (timer, s) = countdown env (request_timeout_ms (cl s)) s
      in wait_CONNACK_loop env timer 0 0 s)"

section \<open>Publishes waiting for their acknowledgement\<close>

text \<open>The node pointer handed back is the last element of the list.\<close>

definition iotx_mc_push_pubInfo_to :: "'w env \<Rightarrow> int \<Rightarrow> u16 \<Rightarrow> 'w sys \<Rightarrow> (int \<times> 'w sys) option" where
  "iotx_mc_push_pubInfo_to env len msgId s =
     (if len < 0 \<or> len > uint (buf_size_send (cl s)) then Some (STATE_MQTT_TX_BUFFER_TOO_SHORT, s)
      else if length (list_pub_wait_ack (cl s)) \<ge> IOTX_MC_REPUB_NUM_MAX
      then Some (STATE_MQTT_QOS1_REPUB_EXCEED_MAX, s)
      else let (ok, s) = malloc env (sizeof_pub_info env + word_of_int len) s
           in if \<not> ok then Some (STATE_SYS_DEPEND_MALLOC, s)
              else let (now, s) = time_now env s
                   in (case buf_send (cl s) of
                         None \<Rightarrow> None
                       | Some b \<Rightarrow>
                           if len > int (length b) then None
                           else Some (STATE_SUCCESS,
                             upd (list_pub_wait_ack_update (\<lambda>l. l @
                               [\<lparr>pub_start_time = now, node_state = IOTX_MC_NODE_STATE_NORMANL,
                                 msg_id = msgId, pub_len = word_of_int len,
                                 pub_buf = take (nat len) b\<rparr>])) s)))"

definition iotx_mc_mask_pubInfo_from :: "u16 \<Rightarrow> 'w sys \<Rightarrow> 'w sys" where
  "iotx_mc_mask_pubInfo_from msgId =
     upd (list_pub_wait_ack_update (map (\<lambda>node.
       if msg_id node = msgId then node\<lparr>node_state := IOTX_MC_NODE_STATE_INVALID\<rparr> else node)))"

definition MQTTRePublish :: "'w env \<Rightarrow> byte list \<Rightarrow> int \<Rightarrow> 'w sys \<Rightarrow> (int \<times> 'w sys) option" where
  "MQTTRePublish env buf len s = do {
     let (timer, s) = countdown env (request_timeout_ms (cl s)) s;
     (rc, s) \<leftarrow> iotx_mc_send_packet env (Some buf) len timer s;
     Some (if rc \<noteq> STATE_SUCCESS then STATE_SYS_DEPEND_NWK_CLOSE else STATE_SUCCESS, s) }"

text \<open>The loop of \<open>MQTTPubInfoProc\<close> over the nodes, with the list it leaves.\<close>

fun pubinfo_loop ::
  "'w env \<Rightarrow> iotx_mc_pub_info list \<Rightarrow> 'w sys \<Rightarrow> (iotx_mc_pub_info list \<times> 'w sys) option" where
  "pubinfo_loop env [] s = Some ([], s)"
| "pubinfo_loop env (node # nodes) s =
     (if node_state node = IOTX_MC_NODE_STATE_INVALID then pubinfo_loop env nodes s
      else if iotx_mc_get_client_state s \<noteq> IOTX_MC_STATE_CONNECTED
      then do { (rest, s) \<leftarrow> pubinfo_loop env nodes s; Some (node # rest, s) }
      else do {
        let (spent, s) = time_spend env (pub_start_time node) s;
        (if spent \<le> request_timeout_ms (cl s) * 2
         then do { (rest, s) \<leftarrow> pubinfo_loop env nodes s; Some (node # rest, s) }
         else do {
           (rc, s) \<leftarrow> MQTTRePublish env (pub_buf node) (sint (pub_len node)) s;
           let (now, s) = time_now env s;
           let node = node\<lparr>pub_start_time := now\<rparr>;
           (if rc = STATE_SYS_DEPEND_NWK_CLOSE
            then Some (node # nodes, iotx_mc_set_client_state IOTX_MC_STATE_DISCONNECTED s)
            else do { (rest, s) \<leftarrow> pubinfo_loop env nodes s; Some (node # rest, s) }) }) })"

definition MQTTPubInfoProc :: "'w env \<Rightarrow> 'w sys \<Rightarrow> (int \<times> 'w sys) option" where
  "MQTTPubInfoProc env s = do {
     (nodes, s) \<leftarrow> pubinfo_loop env (list_pub_wait_ack (cl s)) s;
     Some (STATE_SUCCESS, upd (list_pub_wait_ack_update (\<lambda>_. nodes)) s) }"

section \<open>Received acknowledgements\<close>

definition iotx_mc_handle_recv_PUBACK :: "'w env \<Rightarrow> 'w sys \<Rightarrow> (int \<times> 'w sys) option" where
  "iotx_mc_handle_recv_PUBACK env s = do {
     buf \<leftarrow> buf_read (cl s);
     (rc, out) \<leftarrow> MQTTDeserialize_ack \<lparr>a_type = 0, a_dup = 0, a_packetid = stack_junk env\<rparr> buf;
     (if rc \<noteq> 1 then Some (MQTT_PUBLISH_ACK_PACKET_ERROR, s)
      else let s = iotx_mc_mask_pubInfo_from (a_packetid out) s
           in Some (STATE_SUCCESS, snd (handle_event_call env (handle_event (cl s))
                \<lparr>event_type = IOTX_MQTT_EVENT_PUBLISH_SUCCESS, msg = Ev_packet_id (a_packetid out)\<rparr> s))) }"

definition iotx_mqtt_event_handle_sub :: "iotx_mqtt_event_type \<Rightarrow> u16 \<Rightarrow> 'w sys \<Rightarrow> 'w sys" where
  "iotx_mqtt_event_handle_sub ev pid =
     upd (list_sub_sync_ack_update (map (\<lambda>node.
       if sync_packet_id node = uint pid then node\<lparr>ack_type := ev\<rparr> else node)))"

text \<open>The loop over the granted codes: the flag after it is the one of the last code.\<close>

definition suback_fail_flag :: "int list \<Rightarrow> int" where
  "suback_fail_flag granted =
     fold (\<lambda>g flag. if (word_of_int g :: byte) = 0x80 then 1 else 0) granted (- 1)"

definition iotx_mc_handle_recv_SUBACK :: "'w env \<Rightarrow> 'w sys \<Rightarrow> (int \<times> 'w sys) option" where
  "iotx_mc_handle_recv_SUBACK env s = do {
     buf \<leftarrow> buf_read (cl s);
     (rc, out) \<leftarrow> MQTTDeserialize_suback
        \<lparr>s_packetid = stack_junk env, s_count = 0, s_granted = []\<rparr> MUTLI_SUBSCIRBE_MAX buf;
     (if rc < 0 then Some (STATE_MQTT_DESERIALIZE_SUBACK_ERROR, s)
      else let ev = (if suback_fail_flag (take (nat (s_count out)) (s_granted out)) = 1
                     then IOTX_MQTT_EVENT_SUBCRIBE_NACK else IOTX_MQTT_EVENT_SUBCRIBE_SUCCESS);
               s = iotx_mqtt_event_handle_sub ev (s_packetid out) s
           in Some (STATE_SUCCESS, snd (handle_event_call env (handle_event (cl s))
                \<lparr>event_type = ev, msg = Ev_packet_id (s_packetid out)\<rparr> s))) }"

definition iotx_mc_handle_recv_UNSUBACK :: "'w env \<Rightarrow> 'w sys \<Rightarrow> (int \<times> 'w sys) option" where
  "iotx_mc_handle_recv_UNSUBACK env s = do {
     buf \<leftarrow> buf_read (cl s);
     (rc, pid) \<leftarrow> MQTTDeserialize_unsuback 0 buf;
     (if rc \<noteq> 1 then Some (STATE_MQTT_DESERIALIZE_UNSUBACK_ERROR, s)
      else Some (STATE_SUCCESS, snd (handle_event_call env (handle_event (cl s))
             \<lparr>event_type = IOTX_MQTT_EVENT_UNSUBCRIBE_SUCCESS, msg = Ev_packet_id pid\<rparr> s))) }"

section \<open>Received messages\<close>

definition MQTT_ZIP_PATH_DEFAULT_LEN :: nat where "MQTT_ZIP_PATH_DEFAULT_LEN = 32"

text \<open>The new content of the first bytes of \<^verbatim>\<open>outbuf\<close>, or an error.\<close>

definition iotx_mc_get_zip_topic :: "byte list \<Rightarrow> nat \<Rightarrow> int + byte list" where
  "iotx_mc_get_zip_topic path outlen =
     (if path = [] \<or> outlen = 0 then Inl STATE_USER_INPUT_INVALID
      else Inr (take (if outlen > MQTT_ZIP_PATH_DEFAULT_LEN then MQTT_ZIP_PATH_DEFAULT_LEN else outlen)
                  (utils_sha256 path)))"

definition identify_topic :: "byte list" where
  "identify_topic = map (of_nat \<circ> of_char) ''/ext/auth/identity/response''"
definition productKey_str :: "byte list" where
  "productKey_str = map (of_nat \<circ> of_char) ''productKey''"
definition deviceKey_str :: "byte list" where
  "deviceKey_str = map (of_nat \<circ> of_char) ''deviceKey''"

text \<open>\<^verbatim>\<open>memcpy(dst, src, n)\<close> from the block \<open>mem\<close>.\<close>

definition mem_take :: "u32 \<Rightarrow> byte list \<Rightarrow> byte list option" where
  "mem_take n mem = (if unat n \<le> length mem then Some (take (unat n) mem) else None)"

definition ioctl_set :: "iotx_ioctl_option \<Rightarrow> byte list \<Rightarrow> 'w sys \<Rightarrow> 'w sys option" where
  "ioctl_set opt v s = do {
     (_, _, st) \<leftarrow> IOT_Ioctl (\<lambda>_ _. 0) (\<lambda>_ _. 0) opt (Some (Data_mem (v @ [0]))) (settings s);
     Some (s\<lparr>settings := st\<rparr>) }"

definition iotx_mc_parse_identity_response ::
  "'w env \<Rightarrow> iotx_mqtt_topic_info \<Rightarrow> 'w sys \<Rightarrow> 'w sys option" where
  "iotx_mc_parse_identity_response env m s =
     (case (ptopic m, payload m) of
        (Some tp, Some mem) \<Rightarrow>
          if unat (topic_len m) = length identify_topic \<and>
             take (unat (topic_len m)) tp = identify_topic
          then let (ok, s) = malloc env (payload_len m + 1) s
               in if \<not> ok then Some s
                  else do {
                    pl \<leftarrow> mem_take (payload_len m) mem;
                    let s = (case iotx_event_callback (events s) ITE_IDENTITY_RESPONSE of
                               None \<Rightarrow> s
                             | Some f \<Rightarrow> s\<lparr>world := app_event env f (takeWhile (\<lambda>c. c \<noteq> 0) pl) (world s)\<rparr>);
                    (case (infra_json_value pl productKey_str, infra_json_value pl deviceKey_str) of
                       (Some (pk, pk_len), Some (dk, dk_len)) \<Rightarrow>
                         let (ok, s) = malloc env (of_nat pk_len - 2 + 1) s
                         in if \<not> ok then Some s
                            else do {
                              str_pk \<leftarrow> mem_take (of_nat pk_len - 2) (drop (pk + 1) mem);
                              let (ok, s) = malloc env (of_nat dk_len - 2 + 1) s;
                              (if \<not> ok then Some s
                               else do {
                                 str_dk \<leftarrow> mem_take (of_nat dk_len - 2) (drop (dk + 1) mem);
                                 s \<leftarrow> ioctl_set IOTX_IOCTL_SET_PRODUCT_KEY str_pk s;
                                 ioctl_set IOTX_IOCTL_SET_DEVICE_KEY str_dk s }) }
                     | _ \<Rightarrow> Some s) }
          else Some s
      | _ \<Rightarrow> Some s)"

text \<open>
  The handlers whose filter matches are called in list order; the flag tells whether one was
  called.
\<close>

fun deliver_loop ::
  "'w env \<Rightarrow> MQTTString \<Rightarrow> byte list \<Rightarrow> iotx_mqtt_topic_info \<Rightarrow> iotx_mc_topic_handle list \<Rightarrow>
   bool \<Rightarrow> 'w sys \<Rightarrow> (bool \<times> 'w sys) option" where
  "deliver_loop env compare_topic name m [] flag s = Some (flag, s)"
| "deliver_loop env compare_topic name m (node # nodes) flag s = do {
     eq \<leftarrow> MQTTPacket_equals (zip_topic env) compare_topic (topic_filter node);
     matched \<leftarrow> (if eq then Some True else topic_matched_mem (topic_filter node) name);
     (if matched \<and> h_fp (handle node) \<noteq> None
      then deliver_loop env compare_topic name m nodes True
             (snd (handle_event_call env (handle node)
                \<lparr>event_type = IOTX_MQTT_EVENT_PUBLISH_RECEIVED, msg = Ev_topic m\<rparr> s))
      else deliver_loop env compare_topic name m nodes flag s) }"

text \<open>\<open>topicName\<close> comes from \<open>MQTTDeserialize_publish\<close>: a length and a data pointer.\<close>

definition iotx_mc_deliver_message ::
  "'w env \<Rightarrow> MQTTString \<Rightarrow> iotx_mqtt_topic_info \<Rightarrow> 'w sys \<Rightarrow> 'w sys option" where
  "iotx_mc_deliver_message env tname m s = do {
     data \<leftarrow> lenstring_data tname;
     let name = take (nat (lenstring_len tname)) data;
     let m = m\<lparr>ptopic := Some data, topic_len := word_of_int (lenstring_len tname)\<rparr>;
     s \<leftarrow> iotx_mc_parse_identity_response env m s;
     let hash = (case iotx_mc_get_zip_topic (case cstring tname of Some c \<Rightarrow> c | None \<Rightarrow> name)
                        MQTT_ZIP_PATH_DEFAULT_LEN of
                   Inl _ \<Rightarrow> replicate MQTT_ZIP_PATH_DEFAULT_LEN 0 | Inr h \<Rightarrow> h);
     let compare_topic =
       (if zip_topic env then \<lparr>cstring = None, lenstring_len = int MQTT_ZIP_PATH_DEFAULT_LEN,
                              lenstring_data = Some hash\<rparr>
        else tname);
     (flag, s) \<leftarrow> deliver_loop env compare_topic name m (list_sub_handle (cl s)) False s;
     Some (if flag then s
           else snd (handle_event_call env (handle_event (cl s))
                  \<lparr>event_type = IOTX_MQTT_EVENT_PUBLISH_RECEIVED, msg = Ev_topic m\<rparr> s)) }"

definition MQTTPuback :: "'w env \<Rightarrow> u16 \<Rightarrow> byte \<Rightarrow> 'w sys \<Rightarrow> (int \<times> 'w sys) option" where
  "MQTTPuback env msgId type s =
     (let (timer, s) = countdown env (request_timeout_ms (cl s)) s
      in if type = PUBACK
         then let (rc, s) = alloc_send_buffer env 0 s
              in if rc < STATE_SUCCESS then Some (rc, s)
                 else do {
                   let (len, bytes) = MQTTSerialize_ack (uint (buf_size_send (cl s))) PUBACK 0 msgId;
                   s \<leftarrow> fill_send bytes s;
                   (if len \<le> 0 then Some (STATE_MQTT_SERIALIZE_PUBACK_ERROR, reset_send_buffer s)
                    else do {
                      (rc, s) \<leftarrow> iotx_mc_send_packet env (buf_send (cl s)) len timer s;
                      let s = reset_send_buffer s;
                      Some (if rc < STATE_SUCCESS then rc else STATE_SUCCESS, s) }) }
         else Some (STATE_MQTT_SERIALIZE_PUBACK_ERROR, s))"

definition iotx_mc_handle_recv_PUBLISH :: "'w env \<Rightarrow> 'w sys \<Rightarrow> (int \<times> 'w sys) option" where
  "iotx_mc_handle_recv_PUBLISH env s = do {
     buf \<leftarrow> buf_read (cl s);
     (rc, out) \<leftarrow> MQTTDeserialize_publish
        \<lparr>p_dup = 0, p_qos = 0, p_retained = 0, p_packetid = 0, p_topic = MQTTString_initializer,
         p_payload = None, p_payloadlen = 0\<rparr> buf;
     (if rc \<noteq> 1 then Some (MQTT_PUBLISH_PACKET_ERROR, s)
      else if lenstring_len (p_topic out) = 0 \<or> lenstring_data (p_topic out) = None
      then Some (STATE_MQTT_DESERIALIZE_PUB_ERROR, s)
      else do {
        let m = \<lparr>ti_packet_id = p_packetid out, qos = word_of_int (p_qos out), dup = p_dup out,
                 retain = p_retained out, topic_len = 0,
                 payload_len = word_of_int (p_payloadlen out), ptopic = None,
                 payload = p_payload out\<rparr>;
        s \<leftarrow> iotx_mc_deliver_message env (p_topic out) m s;
        (if qos m = 0 then Some (STATE_SUCCESS, s)
         else if qos m = 1 then MQTTPuback env (ti_packet_id m) PUBACK s
         else if qos m = 2 then MQTTPuback env (ti_packet_id m) PUBREC s
         else Some (STATE_MQTT_PUB_QOS_INVALID, s)) }) }"

section \<open>One cycle\<close>

definition dispatch_packet :: "'w env \<Rightarrow> byte \<Rightarrow> 'w sys \<Rightarrow> (int \<times> 'w sys) option" where
  "dispatch_packet env packetType s =
     (if packetType = CONNACK then Some (STATE_SUCCESS, s)
      else if packetType = PUBACK then iotx_mc_handle_recv_PUBACK env s
      else if packetType = SUBACK then iotx_mc_handle_recv_SUBACK env s
      else if packetType = PUBLISH then iotx_mc_handle_recv_PUBLISH env s
      else if packetType = UNSUBACK then iotx_mc_handle_recv_UNSUBACK env s
      else if packetType = PINGRESP then Some (STATE_SUCCESS, s)
      else Some (STATE_MQTT_RECV_UNKNOWN_PACKET, s))"

definition iotx_mc_cycle :: "'w env \<Rightarrow> iotx_time \<Rightarrow> 'w sys \<Rightarrow> (int \<times> 'w sys) option" where
  "iotx_mc_cycle env timer s =
     (if iotx_mc_get_client_state s \<noteq> IOTX_MC_STATE_CONNECTED
      then Some (STATE_MQTT_IN_OFFLINE_STATUS, s)
      else if keepalive_probes (cl s) > IOTX_MC_KEEPALIVE_PROBE_MAX
      then Some (STATE_MQTT_IN_OFFLINE_STATUS,
             upd (keepalive_probes_update (\<lambda>_. 0))
               (iotx_mc_set_client_state IOTX_MC_STATE_DISCONNECTED s))
      else do {
        (rc, packetType, s) \<leftarrow> iotx_mc_read_packet env timer 0 s;
        (if rc \<noteq> STATE_SUCCESS
         then let s = reset_recv_buffer s
              in Some (STATE_SYS_DEPEND_NWK_CLOSE,
                   if rc = STATE_SYS_DEPEND_NWK_CLOSE
                   then iotx_mc_set_client_state IOTX_MC_STATE_DISCONNECTED s else s)
         else if packetType = 0 then Some (STATE_SUCCESS, reset_recv_buffer s)
         else do {
           let s = upd (keepalive_probes_update (\<lambda>_. 0)) s;
           (rc, s) \<leftarrow> dispatch_packet env packetType s;
           Some (rc, reset_recv_buffer s) }) })"

partial_function (option) mqtt_cycle_loop :: "'w env \<Rightarrow> iotx_time \<Rightarrow> 'w sys \<Rightarrow> 'w sys option" where
  "mqtt_cycle_loop env t s =
     Option.bind (iotx_mc_cycle env t s) (\<lambda>(rc, s).
     Option.bind (if rc = STATE_SUCCESS then MQTTPubInfoProc env s else Some (0, s)) (\<lambda>(_, s).
       let (left_t, s) = time_left env t s;
           s = sleep env (if left_t < 10 then left_t else 10) s;
           (expired, s) = time_expired env t s
       in if expired then Some s else mqtt_cycle_loop env t s))"

declare mqtt_cycle_loop.simps [code]

definition mqtt_cycle :: "'w env \<Rightarrow> 'w sys \<Rightarrow> 'w sys option" where
  "mqtt_cycle env s =
     (let (t, s) = countdown env (cycle_timeout_ms (cl s)) s in mqtt_cycle_loop env t s)"

end
