(* ===== verification/MqttClientApi.thy ===== *)
theory MqttClientApi
  imports MqttClient
begin

text \<open>
  The rest of \<^verbatim>\<open>src/src/mqtt/impl/iotx_mqtt_client.c\<close>: setting up a client, connecting with
  retries, keep-alive and reconnection, subscribing, publishing, and the public functions
  \<^verbatim>\<open>wrapper_mqtt_*\<close>. Conventions are those of \<^verbatim>\<open>MqttClient\<close>; freeing memory has no effect in
  the model.
\<close>

section \<open>Setting up\<close>

definition CONFIG_MQTT_KEEPALIVE_INTERVAL :: u16 where "CONFIG_MQTT_KEEPALIVE_INTERVAL = 60"
definition CONFIG_MQTT_KEEPALIVE_INTERVAL_MIN :: u16 where "CONFIG_MQTT_KEEPALIVE_INTERVAL_MIN = 30"
definition CONFIG_MQTT_KEEPALIVE_INTERVAL_MAX :: u16 where "CONFIG_MQTT_KEEPALIVE_INTERVAL_MAX = 1200"
definition CONFIG_MQTT_REQUEST_TIMEOUT :: u32 where "CONFIG_MQTT_REQUEST_TIMEOUT = 5000"
definition CONFIG_MQTT_REQ_TIMEOUT_MIN :: u32 where "CONFIG_MQTT_REQ_TIMEOUT_MIN = 1000"
definition CONFIG_MQTT_REQ_TIMEOUT_MAX :: u32 where "CONFIG_MQTT_REQ_TIMEOUT_MAX = 10000"

lemmas mqtt_config = CONFIG_MQTT_KEEPALIVE_INTERVAL_def CONFIG_MQTT_KEEPALIVE_INTERVAL_MIN_def
  CONFIG_MQTT_KEEPALIVE_INTERVAL_MAX_def CONFIG_MQTT_REQUEST_TIMEOUT_def
  CONFIG_MQTT_REQ_TIMEOUT_MIN_def CONFIG_MQTT_REQ_TIMEOUT_MAX_def

text \<open>The connection parameters, and what the client keeps of them.\<close>

definition iotx_mc_set_connect_params ::
  "MQTTPacket_connectData \<Rightarrow> iotx_mc_client \<Rightarrow> iotx_mc_client" where
  "iotx_mc_set_connect_params p c =
     c\<lparr>connect_data := p\<lparr>keepAliveInterval :=
         (if keepAliveInterval p < CONFIG_MQTT_KEEPALIVE_INTERVAL_MIN
             \<or> keepAliveInterval p > CONFIG_MQTT_KEEPALIVE_INTERVAL_MAX
          then CONFIG_MQTT_KEEPALIVE_INTERVAL else keepAliveInterval p)\<rparr>\<rparr>"

record iotx_mqtt_param =
  par_port :: u16
  par_host :: "byte list option"
  par_client_id :: "byte list option"
  par_username :: "byte list option"
  par_password :: "byte list option"
  par_customize_info :: "byte list option"
  par_pub_key :: "byte list option"
  par_clean_session :: byte
  par_request_timeout_ms :: u32
  par_keepalive_interval_ms :: u32
  par_write_buf_size :: u32
  par_read_buf_size :: u32
  par_handle_event :: iotx_mqtt_event_handle

definition c_string :: "byte list option \<Rightarrow> MQTTString" where
  "c_string s = \<lparr>cstring = s, lenstring_len = 0, lenstring_data = None\<rparr>"

definition init_connectdata :: "iotx_mqtt_param \<Rightarrow> MQTTPacket_connectData" where
  "init_connectdata p =
     \<lparr>struct_id = [0x4D, 0x51, 0x54, 0x43], struct_version = 0, MQTTVersion = 4,
      clientID = c_string (par_client_id p),
      keepAliveInterval = ucast (par_keepalive_interval_ms p div 1000),
      cleansession = par_clean_session p, willFlag = 0,
      will = \<lparr>w_struct_id = [0x4D, 0x51, 0x54, 0x57], w_struct_version = 0,
              topicName = MQTTString_initializer, message = MQTTString_initializer,
              retained = 0, w_qos = 0\<rparr>,
      username = c_string (par_username p), password = c_string (par_password p)\<rparr>"

text \<open>The five mutexes are created in turn; the first that fails ends the set-up.\<close>

fun mutex_create :: "'w env \<Rightarrow> nat \<Rightarrow> 'w sys \<Rightarrow> nat option \<times> 'w sys" where
  "mutex_create env 0 s = (None, s)"
| "mutex_create env (Suc n) s =
     (let (ok, w) = HAL_MutexCreate env (world s); s = s\<lparr>world := w\<rparr>
      in if ok then mutex_create env n s else (Some (Suc n), s))"

definition iotx_mc_init :: "'w env \<Rightarrow> iotx_mqtt_param \<Rightarrow> 'w sys \<Rightarrow> int \<times> 'w sys" where
  "iotx_mc_init env p s =
     (if par_write_buf_size p = 0 \<or> par_read_buf_size p = 0 then (STATE_USER_INPUT_INVALID, s)
      else
        let (failed, s) = mutex_create env 5 s
        in if failed = Some 5 then (STATE_SYS_DEPEND_MUTEX_CREATE, s)
           else if failed \<noteq> None then (- 1, iotx_mc_set_client_state IOTX_MC_STATE_INVALID s)
           else
             let s = upd (\<lambda>c. c\<lparr>
                 request_timeout_ms :=
                   (if par_request_timeout_ms p < CONFIG_MQTT_REQ_TIMEOUT_MIN
                       \<or> par_request_timeout_ms p > CONFIG_MQTT_REQ_TIMEOUT_MAX
                    then CONFIG_MQTT_REQUEST_TIMEOUT else par_request_timeout_ms p),
                 buf_size_send_max := par_write_buf_size p,
                 buf_size_read_max := par_read_buf_size p,
                 keepalive_probes := 0,
                 handle_event := par_handle_event p,
                 reconnect_time_interval_ms := IOTX_MC_RECONNECT_INTERVAL_MIN_MS,
                 list_pub_wait_ack := [], list_sub_handle := [], list_sub_sync_ack := []\<rparr>) s;
                 s = upd (iotx_mc_set_connect_params (init_connectdata p)) s;
                 s = upd (\<lambda>c. c\<lparr>next_ping_time := iotx_time_init (next_ping_time c),
                                reconnect_next_time := iotx_time_init (reconnect_next_time c)\<rparr>) s;
                 (rc, net) = iotx_net_init (ipstack (cl s)) (par_host p) (par_port p) (par_pub_key p)
             in if rc \<noteq> STATE_SUCCESS
                then (rc, iotx_mc_set_client_state IOTX_MC_STATE_INVALID
                            (upd (\<lambda>c. c\<lparr>buf_send := None, buf_read := None\<rparr>) s))
                else (STATE_SUCCESS, iotx_mc_set_client_state IOTX_MC_STATE_INITIALIZED
                            (upd (ipstack_update (\<lambda>_. net)) s)))"

definition client_zero :: iotx_mc_client where
  "client_zero = \<lparr>packet_id = 0, request_timeout_ms = 0, cycle_timeout_ms = 0, buf_size_send = 0,
     buf_size_send_max = 0, buf_size_read_max = 0, buf_size_read = 0, keepalive_probes = 0,
     buf_send = None, buf_read = None, list_sub_handle = [],
     ipstack = \<lparr>pHostAddress = None, net_port = 0, ca_crt_len = 0, ca_crt = None, net_handle = 0\<rparr>,
     next_ping_time = \<lparr>time = 0\<rparr>, client_state = IOTX_MC_STATE_INVALID,
     reconnect_next_time = \<lparr>time = 0\<rparr>, reconnect_time_interval_ms = 0,
     connect_data = \<lparr>struct_id = replicate 4 0, struct_version = 0, MQTTVersion = 0,
       clientID = MQTTString_initializer, keepAliveInterval = 0, cleansession = 0, willFlag = 0,
       will = \<lparr>w_struct_id = replicate 4 0, w_struct_version = 0,
         topicName = MQTTString_initializer, message = MQTTString_initializer, retained = 0,
         w_qos = 0\<rparr>,
       username = MQTTString_initializer, password = MQTTString_initializer\<rparr>,
     list_pub_wait_ack = [], list_sub_sync_ack = [],
     handle_event = \<lparr>h_fp = None, pcontext = 0\<rparr>\<rparr>"

text \<open>The result tells whether a client was made.\<close>

definition wrapper_mqtt_init :: "'w env \<Rightarrow> iotx_mqtt_param \<Rightarrow> 'w sys \<Rightarrow> bool \<times> 'w sys" where
  "wrapper_mqtt_init env p s =
     (let (ok, s) = malloc env (sizeof_client env) s
      in if \<not> ok then (False, s)
         else let s = upd (\<lambda>_. client_zero) s;
                  (err, s) = iotx_mc_init env p s
              in (\<not> err < STATE_SUCCESS, s))"

section \<open>Connecting\<close>

text \<open>
  \<open>Inl rc\<close> is an early return, \<open>Inr n\<close> leaves the loop with \<^verbatim>\<open>try_count = n\<close>. The keep-alive
  interval \<open>ka\<close> of the user goes back into the connect data after the first CONNECT.
\<close>

function mqtt_connect_loop :: "'w env \<Rightarrow> u16 \<Rightarrow> nat \<Rightarrow> 'w sys \<Rightarrow> ((int + nat) \<times> 'w sys) option" where
  "mqtt_connect_loop env ka try_count s =
     Option.bind (MQTTConnect env s) (\<lambda>(rc, s).
       let s = upd (connect_data_update (keepAliveInterval_update (\<lambda>_. ka))) s
       in if rc < STATE_SUCCESS then Some (Inl rc, net_disconnect env s)
          else Option.bind (iotx_mc_wait_CONNACK env s) (\<lambda>(rc, s).
            if rc \<le> STATE_MQTT_CONNACK_VERSION_UNACCEPT \<and> rc \<ge> STATE_MQTT_CONNACK_NOT_AUTHORIZED
            then Some (Inl rc, net_disconnect env s)
            else if rc \<noteq> STATE_SUCCESS
            then let s = sleep env 2000 s;
                     s = net_disconnect env s;
                     (_, s) = net_connect env s
                 in if try_count + 1 < 9 then mqtt_connect_loop env ka (try_count + 1) s
                    else Some (Inr (try_count + 1), s)
            else Some (Inr try_count, s)))"
  by auto
termination by (relation "measure (\<lambda>(env, ka, n, s). 9 - n)") auto

declare mqtt_connect_loop.simps [simp del]

definition mqtt_connect :: "'w env \<Rightarrow> 'w sys \<Rightarrow> (int \<times> 'w sys) option" where
  "mqtt_connect env s =
     (let user = keepAliveInterval (connect_data (cl s));
          doubled = (word_of_int (uint user * 2) :: u16);
          ka = (if doubled > CONFIG_MQTT_KEEPALIVE_INTERVAL_MAX
                then CONFIG_MQTT_KEEPALIVE_INTERVAL_MAX else doubled);
          s = upd (connect_data_update (keepAliveInterval_update (\<lambda>_. ka))) s
      in do {
        (r, s) \<leftarrow> mqtt_connect_loop env user 1 s;
        (case r of
           Inl rc \<Rightarrow> Some (rc, s)
         | Inr try_count \<Rightarrow>
             if try_count = 9 then Some (STATE_MQTT_CONN_RETRY_EXCEED_MAX, s)
             else
               let s = upd (keepalive_probes_update (\<lambda>_. 0)) s;
                   s = iotx_mc_set_client_state IOTX_MC_STATE_CONNECTED s;
                   (t, s) = countdown env
                     (word_of_int (uint (keepAliveInterval (connect_data (cl s))) * 1000)) s
               in Some (STATE_SUCCESS, upd (next_ping_time_update (\<lambda>_. t)) s)) })"

text \<open>\<open>left\<close> is the number of further attempts.\<close>

fun nwk_connect_loop :: "'w env \<Rightarrow> nat \<Rightarrow> 'w sys \<Rightarrow> int \<times> 'w sys" where
  "nwk_connect_loop env left s =
     (let (rc, s) = net_connect env s
      in if rc = STATE_SUCCESS then (rc, s)
         else let s = net_disconnect env s;
                  rc = (if rc = - 1015 then - 309 else STATE_SYS_DEPEND_NWK_CLOSE);
                  s = sleep env 1000 s
              in (case left of 0 \<Rightarrow> (rc, s) | Suc n \<Rightarrow> nwk_connect_loop env n s))"

declare nwk_connect_loop.simps [simp del]

definition mqtt_nwk_connect :: "'w env \<Rightarrow> 'w sys \<Rightarrow> int \<times> 'w sys" where
  "mqtt_nwk_connect env s = nwk_connect_loop env 2 s"

definition ioctl_get :: "iotx_ioctl_option \<Rightarrow> byte list \<Rightarrow> 'w sys \<Rightarrow> byte list option" where
  "ioctl_get opt m s =
     (case IOT_Ioctl (\<lambda>_ _. 0) (\<lambda>_ _. 0) opt (Some (Data_mem m)) (settings s) of
        Some (_, Some (Data_mem m'), _) \<Rightarrow> Some m' | _ \<Rightarrow> None)"

text \<open>After connecting, up to nine cycles of 500 ms until both keys are known.\<close>

fun wait_identity :: "'w env \<Rightarrow> nat \<Rightarrow> byte list \<Rightarrow> byte list \<Rightarrow> 'w sys \<Rightarrow> 'w sys option" where
  "wait_identity env left pk dk s = do {
     let s = upd (cycle_timeout_ms_update (\<lambda>_. 500)) s;
     s \<leftarrow> mqtt_cycle env s;
     pk \<leftarrow> ioctl_get IOTX_IOCTL_GET_PRODUCT_KEY pk s;
     dk \<leftarrow> ioctl_get IOTX_IOCTL_GET_DEVICE_KEY dk s;
     pk_str \<leftarrow> c_str pk;
     dk_str \<leftarrow> c_str dk;
     (if length pk_str \<noteq> 0 \<and> length dk_str \<noteq> 0 then Some s
      else case left of 0 \<Rightarrow> Some s | Suc n \<Rightarrow> wait_identity env n pk dk s) }"

declare wait_identity.simps [simp del]

definition wrapper_mqtt_connect :: "'w env \<Rightarrow> 'w sys \<Rightarrow> (int \<times> 'w sys) option" where
  "wrapper_mqtt_connect env s =
     (let (rc, s) = mqtt_nwk_connect env s
      in if rc \<noteq> STATE_SUCCESS then Some (rc, s)
         else do {
           (rc, s) \<leftarrow> mqtt_connect env s;
           s \<leftarrow> wait_identity env 8 (replicate (IOTX_PRODUCT_KEY_LEN + 1) 0)
                  (replicate (IOTX_DEVICE_KEY_LEN + 1) 0) s;
           Some (rc, s) })"

section \<open>Keep-alive and reconnection\<close>

definition wrapper_mqtt_check_state :: "'w sys \<Rightarrow> bool" where
  "wrapper_mqtt_check_state s \<longleftrightarrow> iotx_mc_get_client_state s = IOTX_MC_STATE_CONNECTED"

definition MQTTKeepalive :: "'w env \<Rightarrow> 'w sys \<Rightarrow> (int \<times> 'w sys) option" where
  "MQTTKeepalive env s =
     (let (timer, s) = countdown env 1000 s;
          (rc, s) = alloc_send_buffer env 0 s
      in if rc < STATE_SUCCESS then Some (rc, s)
         else do {
           let (len, bytes) = MQTTSerialize_pingreq (uint (buf_size_send (cl s)));
           s \<leftarrow> fill_send bytes s;
           (if len \<le> 0 then Some (STATE_MQTT_SERIALIZE_PINGREQ_ERROR, reset_send_buffer s)
            else do {
              (rc, s) \<leftarrow> iotx_mc_send_packet env (buf_send (cl s)) len timer s;
              Some (if rc < STATE_SUCCESS then STATE_SYS_DEPEND_NWK_CLOSE else STATE_SUCCESS,
                    reset_send_buffer s) }) })"

definition iotx_mc_keepalive_sub :: "'w env \<Rightarrow> 'w sys \<Rightarrow> (int \<times> 'w sys) option" where
  "iotx_mc_keepalive_sub env s =
     (if \<not> wrapper_mqtt_check_state s then Some (STATE_SUCCESS, s)
      else
        let (expired, s) = time_expired env (next_ping_time (cl s)) s
        in if \<not> expired then Some (STATE_SUCCESS, s)
           else do {
             let (t, s) = countdown env
               (word_of_int (uint (keepAliveInterval (connect_data (cl s))) * 1000)) s;
             let s = upd (next_ping_time_update (\<lambda>_. t)) s;
             (rc, s) \<leftarrow> MQTTKeepalive env s;
             (if rc < STATE_SUCCESS
              then Some (rc, if rc = STATE_SYS_DEPEND_NWK_CLOSE
                             then iotx_mc_set_client_state IOTX_MC_STATE_DISCONNECTED s else s)
              else Some (STATE_SUCCESS, upd (keepalive_probes_update (\<lambda>n. n + 1)) s)) })"

definition iotx_mc_attempt_reconnect :: "'w env \<Rightarrow> 'w sys \<Rightarrow> (int \<times> 'w sys) option" where
  "iotx_mc_attempt_reconnect env s =
     (let s = net_disconnect env s;
          (_, s) = mqtt_nwk_connect env s
      in mqtt_connect env s)"

text \<open>The back-off: the interval doubled below the maximum, and the wait cut at it.\<close>

definition next_interval :: "u32 \<Rightarrow> u32" where
  "next_interval i = (if IOTX_MC_RECONNECT_INTERVAL_MAX_MS > i then i * 2
                      else IOTX_MC_RECONNECT_INTERVAL_MAX_MS)"

definition wait_interval :: "u32 \<Rightarrow> u32" where
  "wait_interval i = (if IOTX_MC_RECONNECT_INTERVAL_MAX_MS < i
                      then IOTX_MC_RECONNECT_INTERVAL_MAX_MS else i)"

definition iotx_mc_handle_reconnect :: "'w env \<Rightarrow> 'w sys \<Rightarrow> (int \<times> 'w sys) option" where
  "iotx_mc_handle_reconnect env s =
     (let (expired, s) = time_expired env (reconnect_next_time (cl s)) s
      in if \<not> expired then Some (STATE_MQTT_WAIT_RECONN_TIMER, sleep env 100 s)
         else do {
           (rc, s) \<leftarrow> iotx_mc_attempt_reconnect env s;
           (if rc = STATE_SUCCESS
            then Some (STATE_SUCCESS, iotx_mc_set_client_state IOTX_MC_STATE_CONNECTED s)
            else if rc = STATE_MQTT_ASYNC_STACK_CONN_IN_PROG then Some (rc, s)
            else
              let s = upd (reconnect_time_interval_ms_update next_interval) s;
                  (t, s) = countdown env (wait_interval (reconnect_time_interval_ms (cl s))) s
              in Some (rc, upd (reconnect_next_time_update (\<lambda>_. t)) s)) })"

text \<open>The two callbacks do not set \<^verbatim>\<open>_in_yield_cb\<close>.\<close>

definition client_callback :: "'w env \<Rightarrow> iotx_mqtt_event_type \<Rightarrow> 'w sys \<Rightarrow> 'w sys" where
  "client_callback env ev s =
     (case h_fp (handle_event (cl s)) of
        None \<Rightarrow> s
      | Some f \<Rightarrow> s\<lparr>world := app_call env f (pcontext (handle_event (cl s)))
                      \<lparr>event_type = ev, msg = Ev_null\<rparr> (world s)\<rparr>)"

definition iotx_mc_reconnect_callback :: "'w env \<Rightarrow> 'w sys \<Rightarrow> 'w sys" where
  "iotx_mc_reconnect_callback env = client_callback env IOTX_MQTT_EVENT_RECONNECT"

definition iotx_mc_disconnect_callback :: "'w env \<Rightarrow> 'w sys \<Rightarrow> 'w sys" where
  "iotx_mc_disconnect_callback env = client_callback env IOTX_MQTT_EVENT_DISCONNECT"

definition iotx_mc_keepalive :: "'w env \<Rightarrow> 'w sys \<Rightarrow> 'w sys option" where
  "iotx_mc_keepalive env s = do {
     (_, s) \<leftarrow> iotx_mc_keepalive_sub env s;
     let currentState = iotx_mc_get_client_state s;
     (if currentState = IOTX_MC_STATE_DISCONNECTED_RECONNECTING
         \<or> currentState = IOTX_MC_STATE_CONNECT_BLOCK
      then do {
        (rc, s) \<leftarrow> iotx_mc_handle_reconnect env s;
        (if rc < STATE_SUCCESS then Some s
         else Some (upd (reconnect_time_interval_ms_update (\<lambda>_. IOTX_MC_RECONNECT_INTERVAL_MIN_MS))
                (iotx_mc_reconnect_callback env s))) }
      else if currentState = IOTX_MC_STATE_DISCONNECTED
      then
        let s = iotx_mc_disconnect_callback env s;
            s = upd (reconnect_time_interval_ms_update (\<lambda>_. IOTX_MC_RECONNECT_INTERVAL_MIN_MS)) s;
            (t, s) = countdown env (reconnect_time_interval_ms (cl s)) s;
            s = upd (reconnect_next_time_update (\<lambda>_. t)) s;
            s = net_disconnect env s
        in Some (iotx_mc_set_client_state IOTX_MC_STATE_DISCONNECTED_RECONNECTING s)
      else Some s) }"

definition wrapper_mqtt_yield :: "'w env \<Rightarrow> int \<Rightarrow> 'w sys \<Rightarrow> (int \<times> 'w sys) option" where
  "wrapper_mqtt_yield env timeout_ms s =
     (if timeout_ms < 0 then Some (STATE_USER_INPUT_INVALID, s)
      else do {
        let timeout_ms = (if timeout_ms = 0 then 10 else timeout_ms);
        let s = upd (cycle_timeout_ms_update (\<lambda>_. word_of_int timeout_ms)) s;
        s \<leftarrow> iotx_mc_keepalive env s;
        s \<leftarrow> mqtt_cycle env s;
        Some (STATE_SUCCESS, s) })"

section \<open>Subscribing\<close>

text \<open>The result is 0 for identical handlers and 1 otherwise.\<close>

definition same_c_string :: "byte list \<Rightarrow> byte list \<Rightarrow> int option" where
  "same_c_string a b = do {
     x \<leftarrow> c_str a;
     y \<leftarrow> c_str b;
     Some (if length x \<noteq> length y then 1 else if x \<noteq> y then 1 else 0) }"

definition iotx_mc_check_handle_is_identical_ex ::
  "bool \<Rightarrow> iotx_mc_topic_handle \<Rightarrow> iotx_mc_topic_handle \<Rightarrow> int option" where
  "iotx_mc_check_handle_is_identical_ex zipt h1 h2 =
     (if \<not> zipt then same_c_string (topic_filter h1) (topic_filter h2)
      else if topic_type h1 \<noteq> topic_type h2 then Some 1
      else if topic_type h1 = TOPIC_NAME_TYPE
      then map_option (\<lambda>eq. if eq then 0 else 1)
             (memcmp_eq (topic_filter h2) (topic_filter h1) MQTT_ZIP_PATH_DEFAULT_LEN)
      else same_c_string (topic_filter h1) (topic_filter h2))"

definition iotx_mc_check_handle_is_identical ::
  "bool \<Rightarrow> iotx_mc_topic_handle \<Rightarrow> iotx_mc_topic_handle \<Rightarrow> int option" where
  "iotx_mc_check_handle_is_identical zipt h1 h2 = do {
     r \<leftarrow> iotx_mc_check_handle_is_identical_ex zipt h1 h2;
     Some (if r \<noteq> 0 then 1
           else if h_fp (handle h1) \<noteq> h_fp (handle h2) then 1
           else if pcontext (handle h1) \<noteq> pcontext (handle h2) then 1
           else 0) }"

fun has_substring :: "byte list \<Rightarrow> byte list \<Rightarrow> bool" where
  "has_substring [] pat = (pat = [])"
| "has_substring (c # cs) pat = (take (length pat) (c # cs) = pat \<or> has_substring cs pat)"

text \<open>
  The handler block both \<open>MQTTSubscribe\<close> and \<open>MQTTUnsubscribe\<close> allocate for a filter: the filter
  itself, or with the zip option the hash of a filter without wildcards.
\<close>

definition make_handler ::
  "'w env \<Rightarrow> byte list \<Rightarrow> 'w sys \<Rightarrow> (int + iotx_mc_topic_handle) \<times> 'w sys" where
  "make_handler env topicFilter s =
     (let (ok, s) = malloc env (sizeof_topic_handle env) s
      in if \<not> ok then (Inl STATE_SYS_DEPEND_MALLOC, s)
         else
           let h = \<lparr>topic_type = TOPIC_NAME_TYPE, handle = \<lparr>h_fp = None, pcontext = 0\<rparr>,
                    topic_filter = []\<rparr>
           in if \<not> zip_topic env then
                let (ok, s) = malloc env (word_of_nat (length topicFilter) + 1) s
                in if \<not> ok then (Inl STATE_SYS_DEPEND_MALLOC, s)
                   else (Inr (h\<lparr>topic_filter := topicFilter @ [0]\<rparr>), s)
              else if has_substring topicFilter [Slash, Plus] \<or> has_substring topicFilter [Slash, Hash]
              then
                let (ok, s) = malloc env (word_of_nat (length topicFilter) + 1) s
                in if \<not> ok then (Inl STATE_SYS_DEPEND_MALLOC, s)
                   else (Inr (h\<lparr>topic_type := TOPIC_FILTER_TYPE, topic_filter := topicFilter @ [0]\<rparr>), s)
              else
                let (ok, s) = malloc env (word_of_nat MQTT_ZIP_PATH_DEFAULT_LEN) s
                in if \<not> ok then (Inl STATE_SYS_DEPEND_MALLOC, s)
                   else (case iotx_mc_get_zip_topic topicFilter MQTT_ZIP_PATH_DEFAULT_LEN of
                           Inl e \<Rightarrow> (Inl e, s)
                         | Inr z \<Rightarrow> (Inr (h\<lparr>topic_filter :=
                             buf_write (replicate MQTT_ZIP_PATH_DEFAULT_LEN 0) 0 z\<rparr>), s)))"

fun dup_handler :: "bool \<Rightarrow> iotx_mc_topic_handle \<Rightarrow> iotx_mc_topic_handle list \<Rightarrow> bool option" where
  "dup_handler zipt h [] = Some False"
| "dup_handler zipt h (node # nodes) = do {
     r \<leftarrow> iotx_mc_check_handle_is_identical zipt node h;
     d \<leftarrow> dup_handler zipt h nodes;
     Some (r = 0 \<or> d) }"

definition add_handler :: "'w env \<Rightarrow> iotx_mc_topic_handle \<Rightarrow> 'w sys \<Rightarrow> 'w sys option" where
  "add_handler env h s = do {
     d \<leftarrow> dup_handler (zip_topic env) h (list_sub_handle (cl s));
     Some (if d then s else upd (list_sub_handle_update (\<lambda>l. l @ [h])) s) }"

definition MQTTSubscribe ::
  "'w env \<Rightarrow> byte list \<Rightarrow> int \<Rightarrow> u32 \<Rightarrow> nat \<Rightarrow> nat \<Rightarrow> 'w sys \<Rightarrow> (int \<times> 'w sys) option" where
  "MQTTSubscribe env topicFilter q msgId messageHandler context s =
     (let (timer, s) = countdown env (request_timeout_ms (cl s)) s;
          (h, s) = make_handler env topicFilter s
      in case h of
           Inl e \<Rightarrow> Some (e, s)
         | Inr h \<Rightarrow>
             let h = h\<lparr>handle := \<lparr>h_fp = Some messageHandler, pcontext = context\<rparr>\<rparr>
             in if q = 3 then map_option (\<lambda>s. (STATE_SUCCESS, s)) (add_handler env h s)
                else
                  let (res, s) = alloc_send_buffer env (int (length topicFilter)) s
                  in if res < STATE_SUCCESS then Some (res, s)
                     else do {
                       (len, bytes) \<leftarrow> MQTTSerialize_subscribe (uint (buf_size_send (cl s))) 0
                          (ucast msgId) [c_string (Some topicFilter)] [q];
                       s \<leftarrow> fill_send bytes s;
                       (if len \<le> 0 then Some (STATE_MQTT_SERIALIZE_SUB_ERROR, reset_send_buffer s)
                        else do {
                          (rc, s) \<leftarrow> iotx_mc_send_packet env (buf_send (cl s)) len timer s;
                          let s = reset_send_buffer s;
                          (if rc \<noteq> STATE_SUCCESS then Some (STATE_SYS_DEPEND_NWK_CLOSE, s)
                           else map_option (\<lambda>s. (STATE_SUCCESS, s)) (add_handler env h s)) }) })"

definition iotx_mc_get_next_packetid :: "'w sys \<Rightarrow> u32 \<times> 'w sys" where
  "iotx_mc_get_next_packetid s =
     (let s = upd (packet_id_update (\<lambda>i. if i = IOTX_MC_PACKET_ID_MAX then 1 else i + 1)) s
      in (packet_id (cl s), s))"

text \<open>The nodes that stay: those that neither equal nor match the topic.\<close>

fun unsub_filter ::
  "bool \<Rightarrow> MQTTString \<Rightarrow> byte list \<Rightarrow> iotx_mc_topic_handle list \<Rightarrow> iotx_mc_topic_handle list option"
  where
  "unsub_filter zipt cur_topic name [] = Some []"
| "unsub_filter zipt cur_topic name (node # nodes) = do {
     eq \<leftarrow> MQTTPacket_equals zipt cur_topic (topic_filter node);
     matched \<leftarrow> (if eq then Some True else topic_matched_mem (topic_filter node) name);
     rest \<leftarrow> unsub_filter zipt cur_topic name nodes;
     Some (if matched then rest else node # rest) }"

definition MQTTUnsubscribe :: "'w env \<Rightarrow> byte list \<Rightarrow> u32 \<Rightarrow> 'w sys \<Rightarrow> (int \<times> 'w sys) option" where
  "MQTTUnsubscribe env topicFilter msgId s =
     (let (timer, s) = countdown env (request_timeout_ms (cl s)) s;
          (h, s) = make_handler env topicFilter s
      in case h of
           Inl e \<Rightarrow> Some (e, s)
         | Inr h \<Rightarrow>
             let (res, s) = alloc_send_buffer env (int (length topicFilter)) s
             in if res < STATE_SUCCESS then Some (res, s)
                else do {
                  (len, bytes) \<leftarrow> MQTTSerialize_unsubscribe (uint (buf_size_send (cl s))) 0
                     (ucast msgId) [c_string (Some topicFilter)];
                  s \<leftarrow> fill_send bytes s;
                  (if len \<le> 0 then Some (STATE_MQTT_SERIALIZE_UNSUB_ERROR, reset_send_buffer s)
                   else do {
                     (rc, s) \<leftarrow> iotx_mc_send_packet env (buf_send (cl s)) len timer s;
                     (if rc \<noteq> STATE_SUCCESS
                      then Some (STATE_SYS_DEPEND_NWK_CLOSE, reset_send_buffer s)
                      else do {
                        n \<leftarrow> (if zip_topic env \<and> topic_type h \<noteq> TOPIC_FILTER_TYPE
                              then Some MQTT_ZIP_PATH_DEFAULT_LEN
                              else map_option (\<lambda>x. length x + 1) (c_str (topic_filter h)));
                        let cur_topic = \<lparr>cstring = None, lenstring_len = int n,
                                         lenstring_data = Some (topic_filter h)\<rparr>;
                        nodes \<leftarrow> unsub_filter (zip_topic env) cur_topic (take n (topic_filter h))
                                   (list_sub_handle (cl s));
                        let s = upd (list_sub_handle_update (\<lambda>_. nodes)) s;
                        Some (STATE_SUCCESS, reset_send_buffer s) }) }) })"

section \<open>Publishing\<close>

definition MQTTPublish ::
  "'w env \<Rightarrow> byte list \<Rightarrow> iotx_mqtt_topic_info \<Rightarrow> 'w sys \<Rightarrow> (int \<times> 'w sys) option" where
  "MQTTPublish env tname m s =
     (let (timer, s) = countdown env (request_timeout_ms (cl s)) s;
          (res, s) = alloc_send_buffer env
            (sint (word_of_nat (length tname) + payload_len m :: u32)) s
      in if res < STATE_SUCCESS then Some (res, s)
         else do {
           pl \<leftarrow> payload m;
           (len, bytes) \<leftarrow> MQTTSerialize_publish (uint (buf_size_send (cl s))) 0 (uint (qos m))
              (retain m) (ti_packet_id m) (c_string (Some tname)) pl (sint (payload_len m));
           s \<leftarrow> fill_send bytes s;
           (if len \<le> 0 then Some (STATE_MQTT_SERIALIZE_PUB_ERROR, reset_send_buffer s)
            else do {
              (res, s) \<leftarrow> (if qos m > 0 then iotx_mc_push_pubInfo_to env len (ti_packet_id m) s
                           else Some (STATE_SUCCESS, s));
              (if res < STATE_SUCCESS then Some (res, reset_send_buffer s)
               else do {
                 (rc, s) \<leftarrow> iotx_mc_send_packet env (buf_send (cl s)) len timer s;
                 (if rc \<noteq> STATE_SUCCESS
                  then let s = (if qos m > 0 then upd (list_pub_wait_ack_update butlast) s else s)
                       in Some (STATE_SYS_DEPEND_NWK_CLOSE, reset_send_buffer s)
                  else Some (STATE_SUCCESS, reset_send_buffer s)) }) }) })"

definition MQTTDisconnect :: "'w env \<Rightarrow> 'w sys \<Rightarrow> (int \<times> 'w sys) option" where
  "MQTTDisconnect env s =
     (let (res, s) = alloc_send_buffer env 0 s
      in if res < STATE_SUCCESS then Some (res, s)
         else do {
           let (len, bytes) = MQTTSerialize_disconnect (uint (buf_size_send (cl s)));
           s \<leftarrow> fill_send bytes s;
           let (timer, s) = countdown env (request_timeout_ms (cl s)) s;
           (rc, s) \<leftarrow> (if len > 0 then iotx_mc_send_packet env (buf_send (cl s)) len timer s
                        else Some (STATE_SUCCESS, s));
           Some (rc, reset_send_buffer s) })"

definition iotx_mc_disconnect :: "'w env \<Rightarrow> 'w sys \<Rightarrow> (int \<times> 'w sys) option" where
  "iotx_mc_disconnect env s = do {
     (_, s) \<leftarrow> (if wrapper_mqtt_check_state s then MQTTDisconnect env s else Some (- 1, s));
     let s = net_disconnect env s;
     Some (STATE_SUCCESS, iotx_mc_set_client_state IOTX_MC_STATE_INITIALIZED s) }"

section \<open>The public functions\<close>

definition wrapper_mqtt_release :: "'w env \<Rightarrow> 'w sys \<Rightarrow> (int \<times> 'w sys) option" where
  "wrapper_mqtt_release env s = do {
     let s = sleep env 100 s;
     (_, s) \<leftarrow> iotx_mc_disconnect env s;
     let s = iotx_mc_set_client_state IOTX_MC_STATE_INVALID s;
     let s = sleep env 100 s;
     Some (STATE_SUCCESS, upd (\<lambda>c. c\<lparr>list_sub_handle := [], list_pub_wait_ack := [],
                                     buf_send := None, buf_read := None\<rparr>) s) }"

text \<open>The common tail: a closed network takes the client offline.\<close>

definition offline_on_close :: "int \<Rightarrow> 'w sys \<Rightarrow> 'w sys" where
  "offline_on_close rc s =
     (if rc = STATE_SYS_DEPEND_NWK_CLOSE
      then iotx_mc_set_client_state IOTX_MC_STATE_DISCONNECTED s else s)"

definition wrapper_mqtt_subscribe ::
  "'w env \<Rightarrow> byte list option \<Rightarrow> int \<Rightarrow> nat option \<Rightarrow> nat \<Rightarrow> 'w sys \<Rightarrow> (int \<times> 'w sys) option" where
  "wrapper_mqtt_subscribe env topicFilter q fn context s =
     (case (topicFilter, fn) of
        (Some tf, Some f) \<Rightarrow>
          if tf = [] then Some (STATE_USER_INPUT_INVALID, s)
          else
            let (msgId, s) = iotx_mc_get_next_packetid s
            in if \<not> wrapper_mqtt_check_state s then Some (STATE_MQTT_IN_OFFLINE_STATUS, s)
               else do {
                 rc \<leftarrow> iotx_mc_check_topic (Some tf) TOPIC_FILTER_TYPE;
                 (if rc < STATE_SUCCESS then Some (rc, s)
                  else do {
                    (rc, s) \<leftarrow> MQTTSubscribe env tf q msgId f context s;
                    (if rc < STATE_SUCCESS then Some (rc, offline_on_close rc s)
                     else Some (uint msgId, s)) }) }
      | _ \<Rightarrow> Some (STATE_USER_INPUT_INVALID, s))"

text \<open>
  One turn of the loop of the synchronous subscription: \<open>Inl r\<close> returns \<open>r\<close>, \<open>Inr (ret, subed)\<close>
  goes on to the loop condition.
\<close>

definition sync_turn ::
  "'w env \<Rightarrow> byte list option \<Rightarrow> int \<Rightarrow> nat option \<Rightarrow> nat \<Rightarrow> int \<Rightarrow> bool \<Rightarrow> 'w sys \<Rightarrow>
   ((int + int \<times> bool) \<times> 'w sys) option" where
  "sync_turn env tf q fn context ret subed s = do {
     (ret, early, s) \<leftarrow>
       (if ret < 0 then do {
          (ret, s) \<leftarrow> wrapper_mqtt_subscribe env tf q fn context s;
          Some (ret, in_yield_cb s \<or> q = 3, s) }
        else Some (ret, False, s));
     (if early then Some (Inl ret, s)
      else do {
        let (subed, s) =
          (if \<not> subed \<and> ret \<ge> 0
           then let (ok, s) = malloc env (sizeof_sync_node env) s
                in if ok then (True, upd (list_sub_sync_ack_update (\<lambda>l. l @
                       [\<lparr>sync_packet_id = ret, ack_type = IOTX_MQTT_EVENT_UNDEF\<rparr>])) s)
                   else (subed, s)
           else (subed, s));
        (_, s) \<leftarrow> wrapper_mqtt_yield env 100 s;
        (case list_sub_sync_ack (cl s) of
           [] \<Rightarrow> Some (Inr (ret, subed), s)
         | node # rest \<Rightarrow>
             if sync_packet_id node \<noteq> ret then Some (Inr (ret, subed), s)
             else if ack_type node = IOTX_MQTT_EVENT_SUBCRIBE_SUCCESS
             then Some (Inl ret, upd (list_sub_sync_ack_update (\<lambda>_. rest)) s)
             else if ack_type node = IOTX_MQTT_EVENT_SUBCRIBE_NACK
                     \<or> ack_type node = IOTX_MQTT_EVENT_SUBCRIBE_TIMEOUT
             then Some (Inr (- 1, False), upd (list_sub_sync_ack_update (\<lambda>_. rest)) s)
             else Some (Inr (ret, subed), s)) }) }"

partial_function (option) subscribe_sync_loop ::
  "'w env \<Rightarrow> byte list option \<Rightarrow> int \<Rightarrow> nat option \<Rightarrow> nat \<Rightarrow> iotx_time \<Rightarrow> int \<Rightarrow> bool \<Rightarrow> 'w sys \<Rightarrow>
   (int \<times> 'w sys) option" where
  "subscribe_sync_loop env tf q fn context timer ret subed s =
     Option.bind (sync_turn env tf q fn context ret subed s) (\<lambda>(r, s).
       case r of
         Inl ret \<Rightarrow> Some (ret, s)
       | Inr (ret, subed) \<Rightarrow>
           let (expired, s) = time_expired env timer s
           in if \<not> expired then subscribe_sync_loop env tf q fn context timer ret subed s
              else Some (STATE_MQTT_SYNC_SUB_TIMEOUT,
                     upd (list_sub_sync_ack_update (List.filter (\<lambda>n. sync_packet_id n \<noteq> ret))) s))"

declare subscribe_sync_loop.simps [code]

definition wrapper_mqtt_subscribe_sync ::
  "'w env \<Rightarrow> byte list option \<Rightarrow> int \<Rightarrow> nat option \<Rightarrow> nat \<Rightarrow> int \<Rightarrow> 'w sys \<Rightarrow> (int \<times> 'w sys) option" where
  "wrapper_mqtt_subscribe_sync env tf q fn context timeout_ms s =
     (let q = (if q > 3 then 0 else q);
          (timer, s) = countdown env (word_of_int timeout_ms) s
      in subscribe_sync_loop env tf q fn context timer (- 1) False s)"

definition wrapper_mqtt_unsubscribe ::
  "'w env \<Rightarrow> byte list option \<Rightarrow> 'w sys \<Rightarrow> (int \<times> 'w sys) option" where
  "wrapper_mqtt_unsubscribe env topicFilter s =
     (case topicFilter of
        None \<Rightarrow> Some (STATE_USER_INPUT_INVALID, s)
      | Some tf \<Rightarrow>
          let (msgId, s) = iotx_mc_get_next_packetid s
          in do {
            rc \<leftarrow> iotx_mc_check_topic (Some tf) TOPIC_FILTER_TYPE;
            (if rc < STATE_SUCCESS then Some (rc, s)
             else if \<not> wrapper_mqtt_check_state s then Some (STATE_MQTT_IN_OFFLINE_STATUS, s)
             else do {
               (rc, s) \<leftarrow> MQTTUnsubscribe env tf msgId s;
               (if rc < STATE_SUCCESS then Some (rc, offline_on_close rc s)
                else Some (uint msgId, s)) }) })"

definition wrapper_mqtt_publish ::
  "'w env \<Rightarrow> byte list option \<Rightarrow> iotx_mqtt_topic_info option \<Rightarrow> 'w sys \<Rightarrow> (int \<times> 'w sys) option" where
  "wrapper_mqtt_publish env tname topic_msg s =
     (case (tname, topic_msg) of
        (Some tn, Some m) \<Rightarrow>
          if payload m = None then Some (STATE_USER_INPUT_INVALID, s)
          else do {
            rc \<leftarrow> iotx_mc_check_topic (Some tn) TOPIC_NAME_TYPE;
            (if rc < STATE_SUCCESS then Some (rc, s)
             else if \<not> wrapper_mqtt_check_state s then Some (STATE_MQTT_IN_OFFLINE_STATUS, s)
             else do {
               let (id16, s) =
                 (if qos m = 1 \<or> qos m = 2
                  then let (i, s) = iotx_mc_get_next_packetid s in (ucast i :: u16, s)
                  else (0, s));
               let m = (if qos m = 1 \<or> qos m = 2 then m\<lparr>ti_packet_id := id16\<rparr> else m);
               (if qos m = 2 then Some (STATE_MQTT_PUB_QOS_INVALID, s)
                else do {
                  (rc, s) \<leftarrow> MQTTPublish env tn m s;
                  (if rc < STATE_SUCCESS then Some (rc, offline_on_close rc s)
                   else Some (uint id16, s)) }) }) }
      | _ \<Rightarrow> Some (STATE_USER_INPUT_INVALID, s))"

end
