(* ===== verification/MqttClientProofs.thy ===== *)
theory MqttClientProofs
  imports MqttClientApi
begin

text \<open>
  What each function of the client leaves unchanged. A function that only talks to the platform
  leaves the client as it was; one that works in the dynamic buffers leaves it as it was once
  the buffer is released again. These facts carry the invariant and the properties of
  \<^verbatim>\<open>MqttClientSpec\<close>.
\<close>

section \<open>Platform calls\<close>

lemma cl_upd [simp]: "cl (upd f s) = f (cl s)"
  by (simp add: upd_def)

lemma upd_others [simp]: "world (upd f s) = world s" "in_yield_cb (upd f s) = in_yield_cb s"
    "settings (upd f s) = settings s" "events (upd f s) = events s"
  by (simp_all add: upd_def)

lemma cl_platform [simp]:
  "cl (snd (uptime env s)) = cl s" "cl (sleep env ms s) = cl s" "cl (snd (malloc env n s)) = cl s"
  "cl (snd (snd (net_read env len t s))) = cl s" "cl (snd (net_write env bs t s)) = cl s"
  by (simp_all add: uptime_def sleep_def malloc_def net_read_def net_write_def split_beta Let_def)

lemma cl_timers [simp]:
  "cl (snd (countdown env ms s)) = cl s" "cl (snd (time_expired env t s)) = cl s"
  "cl (snd (time_left env t s)) = cl s" "cl (snd (time_left1 env t s)) = cl s"
  "cl (snd (time_spend env t s)) = cl s" "cl (snd (time_now env s)) = cl s"
  by (simp_all add: countdown_def time_expired_def time_left_def time_left1_def time_spend_def
      time_now_def split_beta Let_def)

lemma cl_handle_event [simp]: "cl (snd (handle_event_call env h m s)) = cl s"
  by (simp add: handle_event_call_def Let_def split: option.split)

lemma cl_client_callback [simp]: "cl (client_callback env ev s) = cl s"
  by (simp add: client_callback_def split: option.split)

lemma cl_state [simp]: "cl (iotx_mc_set_client_state st s) = (cl s)\<lparr>client_state := st\<rparr>"
  by (simp add: iotx_mc_set_client_state_def)

definition same_but_net :: "'w sys \<Rightarrow> 'w sys \<Rightarrow> bool" where
  "same_but_net s s' \<longleftrightarrow> (\<exists>x. cl s' = (cl s)\<lparr>ipstack := x\<rparr>)"

lemma same_but_net_refl [simp]: "cl s' = cl s \<Longrightarrow> same_but_net s s'"
  unfolding same_but_net_def by (intro exI [of _ "ipstack (cl s)"]) simp

lemma same_but_net_trans [trans]: "same_but_net s s' \<Longrightarrow> same_but_net s' s'' \<Longrightarrow> same_but_net s s''"
  unfolding same_but_net_def by (elim exE, simp) blast

lemma net_calls [intro]:
  "same_but_net s x \<Longrightarrow> same_but_net s (net_disconnect env x)"
  "same_but_net s x \<Longrightarrow> same_but_net s (snd (net_connect env x))"
  unfolding same_but_net_def by (auto simp: net_disconnect_def net_connect_def split_beta Let_def)

lemma same_but_net_cl: "cl y = cl x \<Longrightarrow> same_but_net s y = same_but_net s x"
  by (simp add: same_but_net_def)

lemma same_but_net_platform [simp]: "same_but_net s (sleep env n x) = same_but_net s x"
  by (rule same_but_net_cl) simp

text \<open>
  What every result of a computation satisfies; a computation without a result (undefined
  behaviour, or a loop that does not end) satisfies anything. Results that do exist are the
  subject of other lemmas.
\<close>

definition holds :: "'a option \<Rightarrow> ('a \<Rightarrow> bool) \<Rightarrow> bool" where
  "holds m P \<longleftrightarrow> (\<forall>x. m = Some x \<longrightarrow> P x)"

lemma holdsI: "(\<And>x. m = Some x \<Longrightarrow> P x) \<Longrightarrow> holds m P"
  by (simp add: holds_def)

lemma holdsD: "holds m P \<Longrightarrow> m = Some x \<Longrightarrow> P x"
  by (simp add: holds_def)

lemma holds_mono: "holds m Q \<Longrightarrow> (\<And>x. Q x \<Longrightarrow> P x) \<Longrightarrow> holds m P"
  by (simp add: holds_def)

lemma holds_simps [simp]:
  "holds None P" "holds (Some x) P = P x"
  "holds (Option.bind m f) P = holds m (\<lambda>x. holds (f x) P)"
  "holds (map_option g m) P = holds m (\<lambda>x. P (g x))"
  "holds (if c then m1 else m2) P = ((c \<longrightarrow> holds m1 P) \<and> (\<not> c \<longrightarrow> holds m2 P))"
  "holds (Let y h) P = (let z = y in holds (h z) P)"
  "holds (case p of (a, b) \<Rightarrow> k a b) P = (case p of (a, b) \<Rightarrow> holds (k a b) P)"
  "holds (case z of None \<Rightarrow> m1 | Some v \<Rightarrow> m3 v) P =
    (case z of None \<Rightarrow> holds m1 P | Some v \<Rightarrow> holds (m3 v) P)"
  by (auto simp: holds_def Option.bind_eq_Some_conv split: prod.split option.split)

lemma holds_any: "(\<And>x. P x) \<Longrightarrow> holds m P"
  by (simp add: holds_def)

lemma holds_True [simp]: "holds m (\<lambda>_. True)"
  by (simp add: holds_def)

section \<open>Sending\<close>

lemma send_loop_cl:
  assumes "send_loop env buf len t sent s = Some r"
  shows "cl (snd r) = cl s"
proof (rule send_loop.raw_induct [where P = "\<lambda>env buf len t sent s r. cl (snd r) = cl s", OF _ assms])
  fix f env buf len t sent s r
  assume IH: "\<And>buf len timer sent s b y. f buf len timer sent s b = Some y \<Longrightarrow> cl (snd y) = cl b"
    and eq: "(if \<not> sent < len then Some (sent, s)
      else let (expired, s) = time_expired env t s
           in if expired then Some (sent, s)
              else let (left_t, s) = time_left1 env t s;
                       (rc, s) = net_write env (take (nat (len - sent)) (drop (nat sent) buf)) left_t s
                   in if rc < 0 then Some (sent, s) else f env buf len t (sent + rc) s) = Some r"
  from eq show "cl (snd r) = cl s"
    by (auto simp: split_beta Let_def dest!: IH split: if_splits)
qed


lemma send_loop_holds: "holds (send_loop env buf len t sent s) (\<lambda>(_, s'). cl s' = cl s)"
  by (rule holdsI) (auto dest: send_loop_cl)

lemma send_packet_holds: "holds (iotx_mc_send_packet env b len t s) (\<lambda>(_, s'). cl s' = cl s)"
  by (auto simp: iotx_mc_send_packet_def intro: holds_mono [OF send_loop_holds] split: option.split)

lemma fill_send_holds: "holds (fill_send bytes s) (\<lambda>s'. \<exists>b. cl s' = (cl s)\<lparr>buf_send := Some b\<rparr>)"
  by (auto simp: fill_send_def split: option.split)

lemma alloc_send_cl:
  "cl (snd (alloc_send_buffer env len s)) =
     (if fst (alloc_send_buffer env len s) < 0 then (cl s)\<lparr>buf_send := None\<rparr>
      else let n = dyn_len (MQTT_DYNBUF_SEND_MARGIN + len) (buf_size_send_max (cl s))
           in (cl s)\<lparr>buf_send := Some (replicate (unat n) 0), buf_size_send := n\<rparr>)"
  by (simp add: alloc_send_buffer_def split_beta Let_def)

lemma reset_send_cl:
  "cl (reset_send_buffer s) =
     (if buf_send (cl s) = None then cl s else (cl s)\<lparr>buf_send := None, buf_size_send := 0\<rparr>)"
  by (simp add: reset_send_buffer_def)

text \<open>The send buffer is free, the receive buffer is free: nothing of them is allocated.\<close>

definition send_free :: "iotx_mc_client \<Rightarrow> bool" where
  "send_free c \<longleftrightarrow> buf_send c = None \<and> buf_size_send c = 0"

definition recv_free :: "iotx_mc_client \<Rightarrow> bool" where
  "recv_free c \<longleftrightarrow> buf_read c = None \<and> buf_size_read c = 0"

lemma send_free_record [simp]:
  "send_free c \<Longrightarrow> c\<lparr>buf_send := None\<rparr> = c"
  "send_free c \<Longrightarrow> c\<lparr>buf_size_send := 0\<rparr> = c"
  "send_free c \<Longrightarrow> buf_send c = None"
  by (simp_all add: send_free_def)

lemmas send_rules = alloc_send_cl reset_send_cl split_beta Let_def

lemma MQTTConnect_holds: "send_free (cl s) \<Longrightarrow> holds (MQTTConnect env s) (\<lambda>(_, s'). cl s' = cl s)"
  by (auto simp: MQTTConnect_def send_rules
      intro!: holds_any [where m = "MQTTSerialize_connect n d" for n d] holds_mono [OF fill_send_holds] holds_mono [OF send_packet_holds])

lemma MQTTKeepalive_holds:
  "send_free (cl s) \<Longrightarrow> holds (MQTTKeepalive env s) (\<lambda>(_, s'). cl s' = cl s)"
  by (auto simp: MQTTKeepalive_def send_rules
      intro!: holds_mono [OF fill_send_holds] holds_mono [OF send_packet_holds])

lemma MQTTPuback_holds:
  "send_free (cl s) \<Longrightarrow> holds (MQTTPuback env i ty s) (\<lambda>(_, s'). cl s' = cl s)"
  by (auto simp: MQTTPuback_def send_rules
      intro!: holds_mono [OF fill_send_holds] holds_mono [OF send_packet_holds])

lemma MQTTDisconnect_holds:
  "send_free (cl s) \<Longrightarrow> holds (MQTTDisconnect env s) (\<lambda>(_, s'). cl s' = cl s)"
  by (auto simp: MQTTDisconnect_def send_rules
      intro!: holds_mono [OF fill_send_holds] holds_mono [OF send_packet_holds])

lemma MQTTRePublish_holds: "holds (MQTTRePublish env b len s) (\<lambda>(_, s'). cl s' = cl s)"
  by (auto simp: MQTTRePublish_def split_beta Let_def intro!: holds_mono [OF send_packet_holds])

section \<open>Reading\<close>

text \<open>Nothing but the receive buffer changes while a packet is read.\<close>

definition reading :: "'w sys \<Rightarrow> 'w sys \<Rightarrow> bool" where
  "reading s s' \<longleftrightarrow> (buf_read (cl s') = None \<longrightarrow> buf_size_read (cl s') = 0) \<and>
     (cl s')\<lparr>buf_read := None, buf_size_read := 0\<rparr> = (cl s)\<lparr>buf_read := None, buf_size_read := 0\<rparr>"

lemma reading_refl [simp]: "recv_free (cl s) \<Longrightarrow> cl s' = cl s \<Longrightarrow> reading s s'"
  by (simp add: reading_def recv_free_def)

lemma reading_cl: "reading s s' \<Longrightarrow> cl s'' = cl s' \<Longrightarrow> reading s s''"
  by (simp add: reading_def)

lemma reading_platform [simp]:
  "reading s (snd (time_left1 env t x)) = reading s x"
  "reading s (snd (handle_event_call env h m x)) = reading s x"
  "reading s (snd (snd (net_read env len ms x))) = reading s x"
  by (simp_all add: reading_def)

lemma reading_alloc [intro]: "reading s s' \<Longrightarrow> reading s (snd (alloc_recv_buffer env n s'))"
  by (auto simp: reading_def alloc_recv_buffer_def split_beta Let_def split: option.split)

lemma write_read_holds:
  "reading s s' \<Longrightarrow> holds (write_read_buf off bs s') (\<lambda>s''. reading s s'')"
  by (auto simp: write_read_buf_def reading_def split: option.split)

lemma read_into_holds:
  "reading s s' \<Longrightarrow> holds (read_into env off n t s') (\<lambda>(_, s''). reading s s'')"
  by (auto simp: read_into_def split_beta Let_def
      intro!: holds_mono [OF write_read_holds] elim: reading_cl)

lemma decode_loop_holds:
  "holds (decode_packet_loop env t m v n s) (\<lambda>(_, _, s'). cl s' = cl s)"
proof (induction "4 - n" arbitrary: m v n s rule: less_induct)
  case less
  define T where "T = (if t = 0 then 1 else t)"
  have "holds (decode_packet_loop env t m' v' (n + 1) (snd (snd (net_read env 1 T s))))
      (\<lambda>(_, _, s'). cl s' = cl s)" if "n < 4" for m' v'
    using that by (intro holds_mono [OF less]) auto
  then show ?case
    by (subst decode_packet_loop.simps)
      (auto simp: split_beta Let_def T_def [symmetric] simp del: holds_simps(6) split: list.split)
qed

lemma discard_loop_reading:
  assumes "discard_loop env t n s' = Some r" "reading s s'"
  shows "reading s (snd r)"
proof -
  have "reading s s' \<longrightarrow> reading s (snd r)"
  proof (rule discard_loop.raw_induct
      [where P = "\<lambda>env t n s' r. reading s s' \<longrightarrow> reading s (snd r)", OF _ assms(1)])
    fix f env t n s' r
    assume IH: "\<And>env t n s' y. f env t n s' = Some y \<Longrightarrow> reading s s' \<longrightarrow> reading s (snd y)"
      and eq: "(let needReadLen = (if n > uint (buf_size_read (cl s')) then uint (buf_size_read (cl s'))
                 else n)
        in Option.bind (read_into env 0 (word_of_int needReadLen) t s') (\<lambda>(rc, s).
           if rc \<noteq> needReadLen then Some (False, s)
           else if n - needReadLen \<noteq> 0 then f env t (n - needReadLen) s
           else Some (True, s))) = Some r"
    show "reading s s' \<longrightarrow> reading s (snd r)"
    proof
      assume "reading s s'"
      note h = holdsD [OF read_into_holds [OF this]]
      show "reading s (snd r)"
        using eq by (auto simp: Let_def Option.bind_eq_Some_conv dest!: h IH [rule_format]
            split: if_splits)
    qed
  qed
  with assms(2) show ?thesis by blast
qed

lemma discard_holds: "reading s s' \<Longrightarrow> holds (discard_loop env t n s') (\<lambda>(_, s''). reading s s'')"
  by (rule holdsI) (auto dest: discard_loop_reading)

lemma read_packet_holds:
  assumes "reading s s'"
  shows "holds (iotx_mc_read_packet env t pt s') (\<lambda>(_, _, s''). reading s s'')"
  using assms
  by (auto simp: iotx_mc_read_packet_def iotx_mc_decode_packet_def split_beta Let_def
      intro!: holds_mono [OF read_into_holds] holds_mono [OF write_read_holds]
        holds_mono [OF decode_loop_holds] holds_mono [OF discard_holds]
        holds_any [where m = "readChar b" for b]
        holds_any [where m = "buf_read c" for c]
      elim: reading_cl)

lemma recv_free_record: "recv_free c \<Longrightarrow> c\<lparr>buf_read := None, buf_size_read := 0\<rparr> = c"
  by (simp add: recv_free_def)

lemma reset_reading: "reading s s' \<Longrightarrow> recv_free (cl s) \<Longrightarrow> cl (reset_recv_buffer s') = cl s"
proof -
  assume r: "reading s s'" "recv_free (cl s)"
  have "cl s' = (cl s')\<lparr>buf_read := None, buf_size_read := 0\<rparr>" if "buf_read (cl s') = None"
    using that r(1) recv_free_record [of "cl s'"] by (simp add: reading_def recv_free_def)
  with r recv_free_record [of "cl s"] show "cl (reset_recv_buffer s') = cl s"
    by (auto simp: reading_def reset_recv_buffer_def)
qed

lemma wait_CONNACK_loop_holds:
  "reading s s' \<Longrightarrow> recv_free (cl s) \<Longrightarrow>
   holds (wait_CONNACK_loop env t n pt s') (\<lambda>(_, s''). cl s'' = cl s)"
proof (induction "11 - n" arbitrary: n pt s' rule: less_induct)
  case less
  have IH: "holds (wait_CONNACK_loop env t (n + 1) p x) (\<lambda>(_, s''). cl s'' = cl s)"
    if "n + 1 \<le> 10" "reading s x" for p x
    using that less by simp
  show ?case
    by (subst wait_CONNACK_loop.simps)
      (auto simp: split_beta reset_reading less intro!: holds_mono [OF read_packet_holds [OF less(2)]]
        holds_mono [OF IH] holds_any [where m = "iotx_mc_handle_recv_CONNACK x" for x])
qed

lemma wait_CONNACK_holds:
  "recv_free (cl s) \<Longrightarrow> holds (iotx_mc_wait_CONNACK env s) (\<lambda>(_, s'). cl s' = cl s)"
  unfolding iotx_mc_wait_CONNACK_def
  by (auto simp: split_beta Let_def
      intro!: holds_mono [OF wait_CONNACK_loop_holds [where s = "snd (countdown env n s)" for n]])

section \<open>Connecting\<close>

lemma same_but_net_fields:
  assumes "same_but_net s s'"
  shows "send_free (cl s') = send_free (cl s)" "recv_free (cl s') = recv_free (cl s)"
    and "connect_data (cl s') = connect_data (cl s)"
  using assms by (auto simp: same_but_net_def send_free_def recv_free_def)

lemma nwk_connect_loop_net: "same_but_net s x \<Longrightarrow> same_but_net s (snd (nwk_connect_loop env n x))"
proof (induction n arbitrary: x)
  case 0
  then show ?case
    by (subst nwk_connect_loop.simps) (auto simp: split_beta Let_def)
next
  case (Suc n)
  have "same_but_net s (sleep env 1000 (net_disconnect env (snd (net_connect env x))))"
    using Suc(2) by auto
  from Suc(1) [OF this] Suc(2) show ?case
    by (subst nwk_connect_loop.simps) (auto simp: split_beta Let_def)
qed

lemma mqtt_nwk_connect_net [simp]: "same_but_net s (snd (mqtt_nwk_connect env s))"
  by (simp add: mqtt_nwk_connect_def nwk_connect_loop_net)

abbreviation (input) set_ka :: "u16 \<Rightarrow> iotx_mc_client \<Rightarrow> iotx_mc_client" where
  "set_ka k \<equiv> connect_data_update (keepAliveInterval_update (\<lambda>_. k))"

lemma set_ka_id: "keepAliveInterval (connect_data c) = ka \<Longrightarrow> set_ka ka c = c"
  by (cases c) (auto simp: iotx_mc_client.defs MQTTPacket_connectData.defs)

lemma set_ka_same:
  "same_but_net s y \<Longrightarrow> ka = keepAliveInterval (connect_data (cl s)) \<Longrightarrow> same_but_net s (upd (set_ka ka) y)"
  using same_but_net_cl [of "upd (set_ka ka) y" y s] set_ka_id [of "cl y" ka]
    same_but_net_fields(3) [of s y] by simp

lemma set_ka_free:
  assumes "same_but_net s (upd (set_ka ka) y)"
  shows "send_free (cl y) = send_free (cl s)" "recv_free (cl y) = recv_free (cl s)"
  using same_but_net_fields [OF assms] by (simp_all add: send_free_def recv_free_def)

lemma connect_loop_net:
  assumes "send_free (cl s)" "recv_free (cl s)" "ka = keepAliveInterval (connect_data (cl s))"
    and "same_but_net s (upd (set_ka ka) s')"
  shows "holds (mqtt_connect_loop env ka n s') (\<lambda>(r, s''). r \<noteq> Inl STATE_SUCCESS \<and> same_but_net s s'')"
  using assms(4)
proof (induction "9 - n" arbitrary: n s' rule: less_induct)
  case less
  have free: "send_free (cl s')" "recv_free (cl s')"
    using set_ka_free [OF less(2)] assms(1,2) by simp_all
  have free': "recv_free (cl (upd (set_ka ka) y))" if "cl y = cl s'" for y
    using that free(2) by (simp add: recv_free_def)
  have same: "same_but_net s z" if "cl z = set_ka ka (cl s')" for z
    using less(2) same_but_net_cl [of z "upd (set_ka ka) s'" s] that by simp
  have IH: "holds (mqtt_connect_loop env ka (Suc n) z) (\<lambda>(r, s''). r \<noteq> Inl STATE_SUCCESS \<and> same_but_net s s'')"
    if "Suc n < 9" "same_but_net s z" for z
    using that assms(3) by (intro less(1) set_ka_same) auto
  show ?case
    by (subst mqtt_connect_loop.simps)
      (auto simp: split_beta Let_def intro!: holds_mono [OF MQTTConnect_holds [OF free(1)]]
        holds_mono [OF wait_CONNACK_holds [OF free']] holds_mono [OF IH] net_calls intro: same)
qed

text \<open>
  Connecting leaves nothing but another network, or a client in state connected, with no ping
  unanswered and the next one due; the keep-alive interval of the user is in place again.
\<close>

definition connected :: "'w sys \<Rightarrow> 'w sys \<Rightarrow> bool" where
  "connected s s' \<longleftrightarrow> client_state (cl s') = IOTX_MC_STATE_CONNECTED \<and> keepalive_probes (cl s') = 0 \<and>
     (cl s')\<lparr>ipstack := ipstack (cl s), keepalive_probes := keepalive_probes (cl s),
       client_state := client_state (cl s), next_ping_time := next_ping_time (cl s)\<rparr> = cl s"

lemma mqtt_connect_holds:
  assumes "send_free (cl s)" "recv_free (cl s)"
  shows "holds (mqtt_connect env s)
    (\<lambda>(rc, s'). if rc = STATE_SUCCESS then connected s s' else same_but_net s s')"
proof -
  let ?ka = "keepAliveInterval (connect_data (cl s))"
  have start: "same_but_net s (upd (set_ka ?ka) (upd (set_ka k) s))" for k
    using set_ka_id [of "cl s" ?ka] by (intro same_but_net_refl) (simp add: comp_def)
  have conn: "connected s y"
    if "same_but_net s x" "cl y = (cl x)\<lparr>keepalive_probes := 0,
        client_state := IOTX_MC_STATE_CONNECTED, next_ping_time := t\<rparr>" for x y t
    using that by (auto simp: same_but_net_def connected_def)
  show ?thesis
    unfolding mqtt_connect_def
    by (auto simp: split_beta Let_def intro!: holds_mono [OF connect_loop_net [OF assms refl start]]
        intro: conn split: sum.split)
qed

section \<open>Publishes waiting for their acknowledgement\<close>

text \<open>
  The publishes the client still owes: identifier and packet of the nodes not yet acknowledged,
  in the order they were sent.
\<close>

definition pending_node :: "iotx_mc_pub_info \<Rightarrow> u16 \<times> byte list" where
  "pending_node n = (msg_id n, pub_buf n)"

definition pending :: "iotx_mc_client \<Rightarrow> (u16 \<times> byte list) list" where
  "pending c = map pending_node
     (List.filter (\<lambda>n. node_state n = IOTX_MC_NODE_STATE_NORMANL) (list_pub_wait_ack c))"

lemma node_state_cases: "(node_state n \<noteq> IOTX_MC_NODE_STATE_INVALID) = (node_state n = IOTX_MC_NODE_STATE_NORMANL)"
  by (cases "node_state n") simp_all

text \<open>A node is sound when the length it records is the length of its packet.\<close>

definition sound_node :: "iotx_mc_pub_info \<Rightarrow> bool" where
  "sound_node n \<longleftrightarrow> length (pub_buf n) = unat (pub_len n)"

lemma restarted_node [simp]:
  "pending_node (n\<lparr>pub_start_time := t\<rparr>) = pending_node n"
  "sound_node (n\<lparr>pub_start_time := t\<rparr>) = sound_node n"
  by (simp_all add: pending_node_def sound_node_def)

definition goes_offline :: "'w sys \<Rightarrow> 'w sys \<Rightarrow> bool" where
  "goes_offline s s' \<longleftrightarrow> client_state (cl s') = client_state (cl s) \<or>
     client_state (cl s) = IOTX_MC_STATE_CONNECTED \<and> client_state (cl s') = IOTX_MC_STATE_DISCONNECTED"

lemma pubinfo_loop_holds:
  "holds (pubinfo_loop env nodes s) (\<lambda>(nodes', s').
     goes_offline s s' \<and> (cl s')\<lparr>client_state := client_state (cl s)\<rparr> = cl s \<and>
     length nodes' \<le> length nodes \<and>
     ((\<forall>n\<in>set nodes. sound_node n) \<longrightarrow> (\<forall>n\<in>set nodes'. sound_node n)) \<and>
     map pending_node (List.filter (\<lambda>n. node_state n = IOTX_MC_NODE_STATE_NORMANL) nodes') =
     map pending_node (List.filter (\<lambda>n. node_state n = IOTX_MC_NODE_STATE_NORMANL) nodes))"
proof (induction nodes arbitrary: s)
  case Nil
  show ?case by (simp add: goes_offline_def)
next
  case (Cons node nodes)
  show ?case
    by (auto simp: split_beta Let_def iotx_mc_get_client_state_def goes_offline_def node_state_cases
        intro!: holds_mono [OF Cons] holds_mono [OF MQTTRePublish_holds])
qed

text \<open>
  What a cycle may change: a connected client may go offline, unanswered pings may be forgotten,
  acknowledged publishes are dropped and no other, no publish is added, the pending synchronous
  subscriptions stay the same but for their answers. Everything else stays.
\<close>

definition steady :: "iotx_mc_client \<Rightarrow> iotx_mc_client" where
  "steady c = c\<lparr>client_state := IOTX_MC_STATE_INVALID, keepalive_probes := 0,
     list_pub_wait_ack := [], list_sub_sync_ack := [], buf_read := None, buf_size_read := 0\<rparr>"

definition cycles :: "'w sys \<Rightarrow> 'w sys \<Rightarrow> bool" where
  "cycles s s' \<longleftrightarrow> steady (cl s') = steady (cl s) \<and> goes_offline s s' \<and>
     (keepalive_probes (cl s') = keepalive_probes (cl s) \<or> keepalive_probes (cl s') = 0) \<and>
     length (list_pub_wait_ack (cl s')) \<le> length (list_pub_wait_ack (cl s)) \<and>
     ((\<forall>n\<in>set (list_pub_wait_ack (cl s)). sound_node n) \<longrightarrow>
      (\<forall>n\<in>set (list_pub_wait_ack (cl s')). sound_node n)) \<and>
     (\<exists>acked. pending (cl s') = List.filter (\<lambda>p. fst p \<notin> acked) (pending (cl s))) \<and>
     map sync_packet_id (list_sub_sync_ack (cl s')) = map sync_packet_id (list_sub_sync_ack (cl s))"

lemma goes_offline_trans: "goes_offline s s' \<Longrightarrow> goes_offline s' s'' \<Longrightarrow> goes_offline s s''"
  by (auto simp: goes_offline_def)

lemma cyclesD:
  assumes "cycles s s'"
  shows "steady (cl s') = steady (cl s)" "goes_offline s s'"
    and "keepalive_probes (cl s') = keepalive_probes (cl s) \<or> keepalive_probes (cl s') = 0"
    and "length (list_pub_wait_ack (cl s')) \<le> length (list_pub_wait_ack (cl s))"
    and "\<forall>n\<in>set (list_pub_wait_ack (cl s)). sound_node n \<Longrightarrow>
      \<forall>n\<in>set (list_pub_wait_ack (cl s')). sound_node n"
    and "\<exists>acked. pending (cl s') = List.filter (\<lambda>p. fst p \<notin> acked) (pending (cl s))"
    and "map sync_packet_id (list_sub_sync_ack (cl s')) = map sync_packet_id (list_sub_sync_ack (cl s))"
  using assms by (simp_all add: cycles_def)

lemma cyclesI:
  assumes "steady (cl s') = steady (cl s)" "goes_offline s s'"
    and "keepalive_probes (cl s') = keepalive_probes (cl s) \<or> keepalive_probes (cl s') = 0"
    and "length (list_pub_wait_ack (cl s')) \<le> length (list_pub_wait_ack (cl s))"
    and "\<forall>n\<in>set (list_pub_wait_ack (cl s)). sound_node n \<Longrightarrow>
      \<forall>n\<in>set (list_pub_wait_ack (cl s')). sound_node n"
    and "\<exists>acked. pending (cl s') = List.filter (\<lambda>p. fst p \<notin> acked) (pending (cl s))"
    and "map sync_packet_id (list_sub_sync_ack (cl s')) = map sync_packet_id (list_sub_sync_ack (cl s))"
  shows "cycles s s'"
  using assms by (simp add: cycles_def)

lemma cycles_trans [trans]:
  assumes a: "cycles s s'" and b: "cycles s' s''"
  shows "cycles s s''"
proof (rule cyclesI)
  show "steady (cl s'') = steady (cl s)"
    by (rule trans [OF cyclesD(1) [OF b] cyclesD(1) [OF a]])
  show "goes_offline s s''"
    by (rule goes_offline_trans [OF cyclesD(2) [OF a] cyclesD(2) [OF b]])
  show "keepalive_probes (cl s'') = keepalive_probes (cl s) \<or> keepalive_probes (cl s'') = 0"
    using cyclesD(3) [OF a] cyclesD(3) [OF b] by metis
  show "length (list_pub_wait_ack (cl s'')) \<le> length (list_pub_wait_ack (cl s))"
    by (rule le_trans [OF cyclesD(4) [OF b] cyclesD(4) [OF a]])
  show "\<forall>n\<in>set (list_pub_wait_ack (cl s'')). sound_node n"
    if "\<forall>n\<in>set (list_pub_wait_ack (cl s)). sound_node n"
    by (rule cyclesD(5) [OF b cyclesD(5) [OF a that]])
  obtain A B where A: "pending (cl s') = List.filter (\<lambda>p. fst p \<notin> A) (pending (cl s))"
    and B: "pending (cl s'') = List.filter (\<lambda>p. fst p \<notin> B) (pending (cl s'))"
    using cyclesD(6) [OF a] cyclesD(6) [OF b] by blast
  show "\<exists>acked. pending (cl s'') = List.filter (\<lambda>p. fst p \<notin> acked) (pending (cl s))"
    unfolding B A filter_filter by (intro exI [of _ "A \<union> B"] filter_cong) auto
  show "map sync_packet_id (list_sub_sync_ack (cl s'')) = map sync_packet_id (list_sub_sync_ack (cl s))"
    by (rule trans [OF cyclesD(7) [OF b] cyclesD(7) [OF a]])
qed

lemma cycles_refl: "cl s' = cl s \<Longrightarrow> cycles s s'"
  by (rule cyclesI) (auto simp: goes_offline_def intro!: exI [of _ "{}"])

lemma cycles_cl: "cl s'' = cl s' \<Longrightarrow> cycles s s'' = cycles s s'"
  by (simp add: cycles_def goes_offline_def)

lemma cycles_event [simp]:
  "cycles s (snd (handle_event_call env h m x)) = cycles s x"
  by (rule cycles_cl) simp

lemma reading_cycles: "reading s s' \<Longrightarrow> cycles s s'"
proof -
  assume "reading s s'"
  then have e: "(cl s')\<lparr>buf_read := None, buf_size_read := 0\<rparr> = (cl s)\<lparr>buf_read := None, buf_size_read := 0\<rparr>"
    by (simp add: reading_def)
  have st: "steady (cl s') = steady (cl s)" 
    using arg_cong [OF e, of steady] by (simp add: steady_def)
  have "f (cl s') = f (cl s)" if "\<And>c. f (c\<lparr>buf_read := None, buf_size_read := 0\<rparr>) = f c" for f :: "iotx_mc_client \<Rightarrow> 'b"
    using arg_cong [OF e, of f] that by simp
  note f = this
  show ?thesis
    using st f [of client_state] f [of keepalive_probes] f [of list_pub_wait_ack] f [of list_sub_sync_ack]
    by (intro cyclesI) (auto simp: goes_offline_def pending_def intro!: exI [of _ "{}"])
qed

section \<open>One cycle\<close>

text \<open>A handler of a received packet: a cycle that leaves the receive buffer as it is.\<close>

definition handled :: "'w sys \<Rightarrow> 'w sys \<Rightarrow> bool" where
  "handled s s' \<longleftrightarrow> cycles s s' \<and> buf_read (cl s') = buf_read (cl s) \<and>
     buf_size_read (cl s') = buf_size_read (cl s)"

lemma handled_refl: "cl s' = cl s \<Longrightarrow> handled s s'"
  by (simp add: handled_def cycles_refl)

lemma handled_cl: "cl s'' = cl s' \<Longrightarrow> handled s s'' = handled s s'"
  using cycles_cl [of s'' s' s] by (simp add: handled_def)

lemma handled_event [simp]: "handled s (snd (handle_event_call env h m x)) = handled s x"
  by (rule handled_cl) simp

lemma filter_masked:
  "map pending_node (List.filter (\<lambda>n. node_state n = IOTX_MC_NODE_STATE_NORMANL)
     (map (\<lambda>n. if msg_id n = i then n\<lparr>node_state := IOTX_MC_NODE_STATE_INVALID\<rparr> else n) l)) =
   List.filter (\<lambda>p. fst p \<noteq> i)
     (map pending_node (List.filter (\<lambda>n. node_state n = IOTX_MC_NODE_STATE_NORMANL) l))"
  by (induction l) (auto simp: pending_node_def)

lemma pending_mask: "pending (cl (iotx_mc_mask_pubInfo_from i s)) = List.filter (\<lambda>p. fst p \<noteq> i) (pending (cl s))"
  by (simp add: pending_def iotx_mc_mask_pubInfo_from_def filter_masked)

lemma mask_handled: "handled s (iotx_mc_mask_pubInfo_from i s)"
  unfolding handled_def
proof (intro conjI cyclesI)
  show "\<exists>acked. pending (cl (iotx_mc_mask_pubInfo_from i s)) = List.filter (\<lambda>p. fst p \<notin> acked) (pending (cl s))"
    by (rule exI [of _ "{i}"]) (simp add: pending_mask)
  show "\<forall>n\<in>set (list_pub_wait_ack (cl (iotx_mc_mask_pubInfo_from i s))). sound_node n"
    if "\<forall>n\<in>set (list_pub_wait_ack (cl s)). sound_node n"
    using that by (auto simp: iotx_mc_mask_pubInfo_from_def sound_node_def)
qed (simp_all add: iotx_mc_mask_pubInfo_from_def steady_def goes_offline_def)

lemma PUBACK_handled: "holds (iotx_mc_handle_recv_PUBACK env s) (\<lambda>(_, s'). handled s s')"
  by (auto simp: iotx_mc_handle_recv_PUBACK_def split_beta Let_def handled_refl mask_handled
      intro!: holds_any [where m = "buf_read c" for c] holds_any [where m = "MQTTDeserialize_ack a b" for a b])

lemma SUBACK_handled: "holds (iotx_mc_handle_recv_SUBACK env s) (\<lambda>(_, s'). handled s s')"
proof -
  have "handled s (iotx_mqtt_event_handle_sub ev i s)" for ev i
    unfolding handled_def
    by (intro conjI cyclesI) (auto simp: iotx_mqtt_event_handle_sub_def steady_def goes_offline_def
        pending_def intro!: exI [of _ "{}"])
  then show ?thesis
    by (auto simp: iotx_mc_handle_recv_SUBACK_def split_beta Let_def handled_refl
        intro!: holds_any [where m = "buf_read c" for c] holds_any [where m = "MQTTDeserialize_suback a b d" for a b d])
qed

lemma UNSUBACK_handled: "holds (iotx_mc_handle_recv_UNSUBACK env s) (\<lambda>(_, s'). handled s s')"
  by (auto simp: iotx_mc_handle_recv_UNSUBACK_def split_beta Let_def handled_refl
      intro!: holds_any [where m = "buf_read c" for c] holds_any [where m = "MQTTDeserialize_unsuback a b" for a b])

lemma deliver_loop_holds: "holds (deliver_loop env ct name m nodes flag s) (\<lambda>(_, s'). cl s' = cl s)"
proof (induction nodes arbitrary: flag s)
  case Nil
  show ?case by simp
next
  case (Cons node nodes)
  show ?case
    by (auto intro!: holds_any [where m = "MQTTPacket_equals a b c" for a b c]
      holds_any [where m = "topic_matched_mem a b" for a b] holds_mono [OF Cons])
qed

lemma ioctl_set_holds: "holds (ioctl_set opt v s) (\<lambda>s'. cl s' = cl s)"
  by (auto simp: ioctl_set_def split_beta intro!: holds_any [where m = "IOT_Ioctl a b c d e" for a b c d e])

lemma parse_identity_holds: "holds (iotx_mc_parse_identity_response env m s) (\<lambda>s'. cl s' = cl s)"
  by (auto simp: iotx_mc_parse_identity_response_def split_beta Let_def split: option.split
      intro!: holds_any [where m = "mem_take a b" for a b] holds_mono [OF ioctl_set_holds])

lemma deliver_holds: "holds (iotx_mc_deliver_message env tn m s) (\<lambda>s'. cl s' = cl s)"
  by (auto simp: iotx_mc_deliver_message_def split_beta Let_def
      intro!: holds_any [where m = "lenstring_data a" for a] holds_mono [OF parse_identity_holds]
        holds_mono [OF deliver_loop_holds])

lemma PUBLISH_holds:
  "send_free (cl s) \<Longrightarrow> holds (iotx_mc_handle_recv_PUBLISH env s) (\<lambda>(_, s'). cl s' = cl s)"
  by (auto simp: iotx_mc_handle_recv_PUBLISH_def split_beta Let_def
      intro!: holds_any [where m = "buf_read a" for a] holds_mono [OF deliver_holds]
        holds_any [where m = "MQTTDeserialize_publish a b" for a b]
        holds_mono [OF MQTTPuback_holds])

lemma dispatch_handled:
  "send_free (cl s) \<Longrightarrow> holds (dispatch_packet env ty s) (\<lambda>(_, s'). handled s s')"
  by (auto simp: dispatch_packet_def handled_refl PUBACK_handled SUBACK_handled UNSUBACK_handled
      intro: holds_mono [OF PUBLISH_holds])

lemma cycles_free: "cycles s s' \<Longrightarrow> send_free (cl s') = send_free (cl s)"
  using arg_cong [OF cyclesD(1) [of s s'], of send_free] by (simp add: steady_def send_free_def)

lemma reset_cycles:
  assumes "cycles s s'" "buf_read (cl s') = None \<longrightarrow> buf_size_read (cl s') = 0"
  shows "cycles s (reset_recv_buffer s')" "recv_free (cl (reset_recv_buffer s'))"
proof -
  have "cycles s' (reset_recv_buffer s')"
    by (rule cyclesI) (simp_all add: reset_recv_buffer_def steady_def goes_offline_def pending_def
        exI [of _ "{}"])
  with assms(1) show "cycles s (reset_recv_buffer s')"
    by (rule cycles_trans)
  show "recv_free (cl (reset_recv_buffer s'))"
    using assms(2) by (simp add: reset_recv_buffer_def recv_free_def)
qed

lemma offline_cycles:
  assumes "cycles s s'" "client_state (cl s') = IOTX_MC_STATE_CONNECTED"
  shows "cycles s (iotx_mc_set_client_state IOTX_MC_STATE_DISCONNECTED s')"
  by (rule cycles_trans [OF assms(1)], rule cyclesI)
    (use assms(2) in \<open>simp_all add: steady_def goes_offline_def pending_def exI [of _ "{}"]\<close>)

lemma probes_cycles: "cycles s s' \<Longrightarrow> cycles s (upd (keepalive_probes_update (\<lambda>_. 0)) s')"
  by (erule cycles_trans, rule cyclesI)
    (simp_all add: steady_def goes_offline_def pending_def exI [of _ "{}"])

lemma reading_state:
  assumes "reading s s'"
  shows "client_state (cl s') = client_state (cl s)"
proof -
  have "client_state ((cl s')\<lparr>buf_read := None, buf_size_read := 0\<rparr>) =
      client_state ((cl s)\<lparr>buf_read := None, buf_size_read := 0\<rparr>)"
    using assms by (metis reading_def)
  then show ?thesis by simp
qed

lemma recv_free_others:
  "recv_free (c\<lparr>client_state := st, keepalive_probes := k\<rparr>) = recv_free c"
  by (simp add: recv_free_def)

lemma cycle_cycles:
  assumes "send_free (cl s)" "recv_free (cl s)"
  shows "holds (iotx_mc_cycle env t s) (\<lambda>(_, s'). cycles s s' \<and> recv_free (cl s'))"
proof -
  have handler: "cycles s (reset_recv_buffer s2) \<and> recv_free (cl (reset_recv_buffer s2))"
    if "reading s s1" "handled (upd (keepalive_probes_update (\<lambda>_. 0)) s1) s2" for s1 s2
  proof -
    have "cycles s (upd (keepalive_probes_update (\<lambda>_. 0)) s1)"
      by (rule probes_cycles [OF reading_cycles [OF that(1)]])
    with that(2) have a: "cycles s s2"
      unfolding handled_def by (auto intro: cycles_trans)
    have b: "buf_read (cl s2) = None \<longrightarrow> buf_size_read (cl s2) = 0"
      using that by (simp add: handled_def reading_def)
    show ?thesis
      using reset_cycles [OF a b] by blast
  qed
  have free: "send_free (cl (upd (keepalive_probes_update (\<lambda>_. 0)) s1))" if "reading s s1" for s1
    using cycles_free [OF reading_cycles [OF that]] assms(1) by (simp add: send_free_def)
  have reset: "cycles s (reset_recv_buffer s1) \<and> recv_free (cl (reset_recv_buffer s1))"
    if "reading s s1" for s1
    using reset_cycles [OF reading_cycles [OF that]] that by (simp add: reading_def)
  have closed: "cycles s s2 \<and> recv_free (cl s2)"
    if "reading s s1" "client_state (cl s) = IOTX_MC_STATE_CONNECTED"
      "s2 = iotx_mc_set_client_state IOTX_MC_STATE_DISCONNECTED (reset_recv_buffer s1)" for s1 s2
    using offline_cycles [of s "reset_recv_buffer s1"] reset [OF that(1)] reset_reading [OF that(1) assms(2)] that
    by (simp add: recv_free_def)
  have same: "cycles s s" "reading s s"
    using assms by (simp_all add: cycles_refl)
  have gone: "cycles s (upd (keepalive_probes_update (\<lambda>_. 0)) (iotx_mc_set_client_state IOTX_MC_STATE_DISCONNECTED s))"
    if "client_state (cl s) = IOTX_MC_STATE_CONNECTED"
    by (intro probes_cycles offline_cycles same that)
  show ?thesis
    unfolding iotx_mc_cycle_def
    by (auto simp: split_beta Let_def iotx_mc_get_client_state_def same assms
        gone [simplified] recv_free_others
        intro!: holds_mono [OF read_packet_holds [OF same(2)]] holds_mono [OF dispatch_handled [OF free]]
        dest: reset handler closed [OF _ _ refl])
qed

lemma PubInfoProc_cycles:
  "recv_free (cl s) \<Longrightarrow> holds (MQTTPubInfoProc env s) (\<lambda>(_, s'). cycles s s' \<and> recv_free (cl s'))"
  unfolding MQTTPubInfoProc_def
proof (simp add: split_beta, rule holds_mono [OF pubinfo_loop_holds], clarsimp)
  fix nodes s'
  assume free: "recv_free (cl s)" and off: "goes_offline s s'"
    and same: "(cl s')\<lparr>client_state := client_state (cl s)\<rparr> = cl s"
    and len: "length nodes \<le> length (list_pub_wait_ack (cl s))"
    and sound: "(\<forall>n\<in>set (list_pub_wait_ack (cl s)). sound_node n) \<longrightarrow> (\<forall>n\<in>set nodes. sound_node n)"
    and pend: "map pending_node (List.filter (\<lambda>n. node_state n = IOTX_MC_NODE_STATE_NORMANL) nodes) =
      map pending_node (List.filter (\<lambda>n. node_state n = IOTX_MC_NODE_STATE_NORMANL) (list_pub_wait_ack (cl s)))"
  let ?s = "upd (list_pub_wait_ack_update (\<lambda>_. nodes)) s'"
  have st: "steady (cl ?s) = steady (cl s)"
    using arg_cong [OF same, of steady] by (simp add: steady_def)
  have "recv_free (cl s')" "keepalive_probes (cl s') = keepalive_probes (cl s)"
      "list_sub_sync_ack (cl s') = list_sub_sync_ack (cl s)"
    using free arg_cong [OF same, of recv_free] arg_cong [OF same, of keepalive_probes]
      arg_cong [OF same, of list_sub_sync_ack] by (simp_all add: recv_free_def)
  with st off len sound pend show "cycles s ?s \<and> recv_free ((cl s')\<lparr>list_pub_wait_ack := nodes\<rparr>)"
    by (intro conjI cyclesI) (auto simp: goes_offline_def pending_def recv_free_def intro!: exI [of _ "{}"])
qed

lemma mqtt_cycle_loop_cycles:
  assumes "mqtt_cycle_loop env t s = Some r" "send_free (cl s)" "recv_free (cl s)"
  shows "cycles s r \<and> recv_free (cl r)"
proof -
  have "send_free (cl s) \<and> recv_free (cl s) \<longrightarrow> cycles s r \<and> recv_free (cl r)"
  proof (rule mqtt_cycle_loop.raw_induct
      [where P = "\<lambda>env t s r. send_free (cl s) \<and> recv_free (cl s) \<longrightarrow> cycles s r \<and> recv_free (cl r)",
       OF _ assms(1)])
    fix f env t s r
    assume IH: "\<And>env t s y. f env t s = Some y \<Longrightarrow>
        send_free (cl s) \<and> recv_free (cl s) \<longrightarrow> cycles s y \<and> recv_free (cl y)"
      and eq: "Option.bind (iotx_mc_cycle env t s) (\<lambda>(rc, s).
        Option.bind (if rc = STATE_SUCCESS then MQTTPubInfoProc env s else Some (0, s)) (\<lambda>(_, s).
          let (left_t, s) = time_left env t s;
              s = sleep env (if left_t < 10 then left_t else 10) s;
              (expired, s) = time_expired env t s
          in if expired then Some s else f env t s)) = Some r"
    show "send_free (cl s) \<and> recv_free (cl s) \<longrightarrow> cycles s r \<and> recv_free (cl r)"
    proof
      assume free: "send_free (cl s) \<and> recv_free (cl s)"
      from eq obtain rc s1 x s2 where
        1: "iotx_mc_cycle env t s = Some (rc, s1)"
        and 2: "(if rc = STATE_SUCCESS then MQTTPubInfoProc env s1 else Some (0, s1)) = Some (x, s2)"
        and tail: "(let (left_t, s) = time_left env t s2;
              s = sleep env (if left_t < 10 then left_t else 10) s;
              (expired, s) = time_expired env t s
          in if expired then Some s else f env t s) = Some r"
        by (simp only: Option.bind_eq_Some_conv split_paired_Ex case_prod_conv) blast
      define s3 where "s3 = snd (time_expired env t (sleep env
        (if fst (time_left env t s2) < 10 then fst (time_left env t s2) else 10) (snd (time_left env t s2))))"
      have 3: "cl s3 = cl s2" "r = s3 \<or> f env t s3 = Some r"
        using tail by (simp_all add: s3_def split_beta Let_def split: if_splits)
      have c1: "cycles s s1" "recv_free (cl s1)"
        using holdsD [OF cycle_cycles 1] free by simp_all
      have c2: "cycles s1 s2" "recv_free (cl s2)"
        using 2 c1(2) holdsD [OF PubInfoProc_cycles [OF c1(2)]] by (auto split: if_splits intro: cycles_refl)
      have c: "cycles s s3" "recv_free (cl s3)" "send_free (cl s3)"
        using cycles_trans [OF c1(1) c2(1)] c2(2) 3(1) cycles_cl [of s3 s2 s] free
          cycles_free [of s s3] by simp_all
      from 3(2) c IH [of env t s3 r] show "cycles s r \<and> recv_free (cl r)"
        by (auto intro: cycles_trans)
    qed
  qed
  with assms show ?thesis by blast
qed

lemma mqtt_cycle_cycles:
  assumes "send_free (cl s)" "recv_free (cl s)"
  shows "holds (mqtt_cycle env s) (\<lambda>s'. cycles s s' \<and> recv_free (cl s'))"
proof (rule holdsI)
  fix r
  assume "mqtt_cycle env s = Some r"
  then obtain t s1 where "mqtt_cycle_loop env t s1 = Some r" "cl s1 = cl s"
    by (auto simp: mqtt_cycle_def split_beta Let_def)
  then show "cycles s r \<and> recv_free (cl r)"
    using mqtt_cycle_loop_cycles [of env t s1 r] assms cycles_trans [OF cycles_refl, of s1 s r] by auto
qed

end
