(* ===== verification/MqttClientInv.thy ===== *)
theory MqttClientInv
  imports MqttClientProofs
begin

text \<open>
  The properties of the client as a whole: the invariant of every state the public functions can
  reach, the moves of the connection state, the back-off, packet identifiers, and the publishes
  the client owes.
\<close>

section \<open>The invariant\<close>

definition backoff_values :: "u32 set" where
  "backoff_values = {1000, 2000, 4000, 8000, 16000, 32000, 30000}"

text \<open>
  Between two calls no buffer is allocated, the packet identifier fits 16 bits, the configured
  times are in their ranges, at most ten publishes wait for their acknowledgement and each has
  its whole packet, and at most two pings are unanswered.
\<close>

definition settled :: "iotx_mc_client \<Rightarrow> bool" where
  "settled c \<longleftrightarrow> send_free c \<and> recv_free c \<and> packet_id c \<le> IOTX_MC_PACKET_ID_MAX \<and>
     CONFIG_MQTT_REQ_TIMEOUT_MIN \<le> request_timeout_ms c \<and>
     request_timeout_ms c \<le> CONFIG_MQTT_REQ_TIMEOUT_MAX \<and>
     CONFIG_MQTT_KEEPALIVE_INTERVAL_MIN \<le> keepAliveInterval (connect_data c) \<and>
     keepAliveInterval (connect_data c) \<le> CONFIG_MQTT_KEEPALIVE_INTERVAL_MAX \<and>
     reconnect_time_interval_ms c \<in> backoff_values \<and>
     length (list_pub_wait_ack c) \<le> IOTX_MC_REPUB_NUM_MAX \<and>
     (\<forall>n\<in>set (list_pub_wait_ack c). sound_node n)"

definition client_ok :: "iotx_mc_client \<Rightarrow> bool" where
  "client_ok c \<longleftrightarrow> settled c \<and> keepalive_probes c \<le> IOTX_MC_KEEPALIVE_PROBE_MAX"

lemma settled_free [simp]: "settled c \<Longrightarrow> send_free c" "settled c \<Longrightarrow> recv_free c"
  by (simp_all add: settled_def)

lemma free_updates [simp]:
  "send_free (c\<lparr>next_ping_time := t\<rparr>) = send_free c" "send_free (c\<lparr>packet_id := i\<rparr>) = send_free c"
  "send_free (c\<lparr>cycle_timeout_ms := j\<rparr>) = send_free c"
  "recv_free (c\<lparr>packet_id := i\<rparr>) = recv_free c" "recv_free (c\<lparr>list_sub_handle := l\<rparr>) = recv_free c"
  "send_free (c\<lparr>list_sub_handle := l\<rparr>) = send_free c"
  by (simp_all add: send_free_def recv_free_def)

lemma settled_net: "same_but_net s s' \<Longrightarrow> settled (cl s') = settled (cl s)"
  by (auto simp: same_but_net_def settled_def send_free_def recv_free_def)

lemma settled_updates [simp]:
  "settled (c\<lparr>client_state := st\<rparr>) = settled c"
  "settled (c\<lparr>next_ping_time := t\<rparr>) = settled c"
  "settled (c\<lparr>reconnect_next_time := t\<rparr>) = settled c"
  "settled (c\<lparr>keepalive_probes := k\<rparr>) = settled c"
  "settled (keepalive_probes_update f c) = settled c"
  "settled (c\<lparr>cycle_timeout_ms := t'\<rparr>) = settled c"
  "settled (c\<lparr>list_sub_handle := l\<rparr>) = settled c"
  "settled (c\<lparr>list_sub_sync_ack := l'\<rparr>) = settled c"
  "settled (c\<lparr>ipstack := x\<rparr>) = settled c"
  by (simp_all add: settled_def send_free_def recv_free_def)

lemma settled_interval:
  "settled c \<Longrightarrow> settled (c\<lparr>reconnect_time_interval_ms := i\<rparr>) = (i \<in> backoff_values)"
  by (auto simp: settled_def send_free_def recv_free_def)

lemma settled_connected:
  assumes "connected s s'"
  shows "settled (cl s') = settled (cl s)"
proof -
  have e: "(cl s')\<lparr>ipstack := ipstack (cl s), keepalive_probes := keepalive_probes (cl s),
       client_state := client_state (cl s), next_ping_time := next_ping_time (cl s)\<rparr> = cl s"
    using assms by (simp only: connected_def)
  show ?thesis
    using arg_cong [OF e, of settled] by (simp only: settled_updates)
qed

lemma settled_cycles:
  assumes "cycles s s'" "recv_free (cl s')" "settled (cl s)"
  shows "settled (cl s')"
proof -
  have f: "g (cl s') = g (cl s)" if "\<And>c. g (steady c) = g c" for g :: "iotx_mc_client \<Rightarrow> 'b"
    using arg_cong [OF cyclesD(1) [OF assms(1)], of g] unfolding that .
  have same: "packet_id (cl s') = packet_id (cl s)" "request_timeout_ms (cl s') = request_timeout_ms (cl s)"
    "connect_data (cl s') = connect_data (cl s)"
    "reconnect_time_interval_ms (cl s') = reconnect_time_interval_ms (cl s)"
    by (rule f; simp add: steady_def)+
  have pubs: "length (list_pub_wait_ack (cl s')) \<le> 10" "\<forall>n\<in>set (list_pub_wait_ack (cl s')). sound_node n"
    using assms(3) cyclesD(4) [OF assms(1)] cyclesD(5) [OF assms(1)] unfolding settled_def
    by (linarith, blast)
  show ?thesis
    using assms(2,3) pubs cycles_free [OF assms(1)] unfolding settled_def same by blast
qed

section \<open>Cycles\<close>

lemma cycle_loop_step:
  assumes "mqtt_cycle_loop env t s = Some r"
  obtains rc s1 x s2 s3 where "iotx_mc_cycle env t s = Some (rc, s1)"
    "(if rc = STATE_SUCCESS then MQTTPubInfoProc env s1 else Some (0, s1)) = Some (x, s2)"
    "cl s3 = cl s2" "r = s3 \<or> mqtt_cycle_loop env t s3 = Some r"
proof -
  from assms obtain rc s1 x s2 where
    1: "iotx_mc_cycle env t s = Some (rc, s1)"
      "(if rc = STATE_SUCCESS then MQTTPubInfoProc env s1 else Some (0, s1)) = Some (x, s2)"
    and tail: "(let (left_t, s) = time_left env t s2;
          s = sleep env (if left_t < 10 then left_t else 10) s;
          (expired, s) = time_expired env t s
      in if expired then Some s else mqtt_cycle_loop env t s) = Some r"
    by (subst (asm) mqtt_cycle_loop.simps)
      (simp only: Option.bind_eq_Some_conv split_paired_Ex case_prod_conv, blast)
  define s3 where "s3 = snd (time_expired env t (sleep env
    (if fst (time_left env t s2) < 10 then fst (time_left env t s2) else 10) (snd (time_left env t s2))))"
  have "cl s3 = cl s2" "r = s3 \<or> mqtt_cycle_loop env t s3 = Some r"
    using tail by (simp_all add: s3_def split_beta Let_def split: if_splits)
  with 1 that show thesis by blast
qed

text \<open>A connected client may have three pings unanswered; the next cycle takes it offline.\<close>

definition answered :: "iotx_mc_client \<Rightarrow> bool" where
  "answered c \<longleftrightarrow> keepalive_probes c \<le> IOTX_MC_KEEPALIVE_PROBE_MAX \<or> client_state c = IOTX_MC_STATE_CONNECTED"

lemma cycles_probes:
  "cycles s s' \<Longrightarrow> keepalive_probes (cl s) \<le> 2 \<Longrightarrow> keepalive_probes (cl s') \<le> 2"
  using cyclesD(3) [of s s'] by auto

lemma cycle_probes:
  assumes "settled (cl s)" "answered (cl s)"
  shows "holds (iotx_mc_cycle env t s) (\<lambda>(_, s'). keepalive_probes (cl s') \<le> IOTX_MC_KEEPALIVE_PROBE_MAX)"
proof (cases "keepalive_probes (cl s) \<le> 2")
  case True
  with assms show ?thesis
    by (auto intro!: holds_mono [OF cycle_cycles] dest: cycles_probes)
next
  case False
  with assms show ?thesis
    by (auto simp: iotx_mc_cycle_def answered_def iotx_mc_get_client_state_def)
qed

lemma mqtt_cycle_ok:
  assumes "settled (cl s)" "answered (cl s)"
  shows "holds (mqtt_cycle env s) (\<lambda>s'. client_ok (cl s') \<and> cycles s s')"
proof (rule holdsI)
  fix r
  assume run: "mqtt_cycle env s = Some r"
  have c: "cycles s r" "recv_free (cl r)"
    using holdsD [OF mqtt_cycle_cycles run] assms(1) by simp_all
  from run obtain t s0 where "mqtt_cycle_loop env t s0 = Some r" and s0: "cl s0 = cl s"
    by (auto simp: mqtt_cycle_def split_beta Let_def)
  then obtain rc s1 x s2 s3 where
    1: "iotx_mc_cycle env t s0 = Some (rc, s1)"
      "(if rc = STATE_SUCCESS then MQTTPubInfoProc env s1 else Some (0, s1)) = Some (x, s2)"
    and 3: "cl s3 = cl s2" "r = s3 \<or> mqtt_cycle_loop env t s3 = Some r"
    by (elim cycle_loop_step)
  have p1: "keepalive_probes (cl s1) \<le> 2" and c1: "cycles s0 s1" "recv_free (cl s1)"
    using holdsD [OF cycle_probes 1(1)] holdsD [OF cycle_cycles 1(1)] assms s0 by simp_all
  have c2: "cycles s1 s2 \<and> recv_free (cl s2)"
    using 1(2) c1(2) holdsD [OF PubInfoProc_cycles [OF c1(2)]] by (auto split: if_splits intro: cycles_refl)
  with p1 have p3: "keepalive_probes (cl s3) \<le> 2" "recv_free (cl s3)"
    using 3(1) cycles_probes by auto
  have "send_free (cl s3)"
    using cycles_free [OF c1(1)] cycles_free [OF conjunct1 [OF c2]] s0 3(1) assms(1) by simp
  with 3(2) p3 have "keepalive_probes (cl r) \<le> 2"
    using mqtt_cycle_loop_cycles [of env t s3 r] cycles_probes by blast
  with c settled_cycles [OF c assms(1)] show "client_ok (cl r) \<and> cycles s r"
    by (simp add: client_ok_def)
qed

section \<open>Keep-alive, reconnection and yield\<close>

text \<open>The publishes owed are those of before.\<close>

lemma pending_updates [simp]:
  "pending (c\<lparr>client_state := st\<rparr>) = pending c" "pending (c\<lparr>next_ping_time := t\<rparr>) = pending c"
  "pending (keepalive_probes_update f c) = pending c" "pending (c\<lparr>ipstack := x\<rparr>) = pending c"
  "pending (c\<lparr>reconnect_next_time := t\<rparr>) = pending c"
  "pending (c\<lparr>reconnect_time_interval_ms := i\<rparr>) = pending c"
  "pending (c\<lparr>cycle_timeout_ms := i\<rparr>) = pending c"
  "pending (c\<lparr>packet_id := i\<rparr>) = pending c"
  "pending (c\<lparr>list_sub_handle := h\<rparr>) = pending c" "pending (c\<lparr>list_sub_sync_ack := l\<rparr>) = pending c"
  by (simp_all add: pending_def)

lemma keepalive_sub_holds:
  assumes "settled (cl s)"
  shows "holds (iotx_mc_keepalive_sub env s) (\<lambda>(_, s'). settled (cl s') \<and> goes_offline s s' \<and>
    pending (cl s') = pending (cl s) \<and>
    (keepalive_probes (cl s') = keepalive_probes (cl s) \<or>
     keepalive_probes (cl s') = keepalive_probes (cl s) + 1 \<and> client_state (cl s') = IOTX_MC_STATE_CONNECTED))"
  using assms
  by (auto simp: iotx_mc_keepalive_sub_def wrapper_mqtt_check_state_def iotx_mc_get_client_state_def
      split_beta Let_def goes_offline_def
      intro!: holds_mono [OF MQTTKeepalive_holds])

lemma pending_net: "same_but_net s s' \<Longrightarrow> pending (cl s') = pending (cl s)"
  by (auto simp: same_but_net_def)

lemma pending_connected:
  assumes "connected s s'"
  shows "pending (cl s') = pending (cl s)"
proof -
  have e: "(cl s')\<lparr>ipstack := ipstack (cl s), keepalive_probes := keepalive_probes (cl s),
       client_state := client_state (cl s), next_ping_time := next_ping_time (cl s)\<rparr> = cl s"
    using assms by (simp only: connected_def)
  show ?thesis
    using arg_cong [OF e, of pending] by (simp only: pending_updates)
qed

lemma backoff_next: "i \<in> backoff_values \<Longrightarrow> next_interval i \<in> backoff_values"
  by (auto simp: backoff_values_def next_interval_def)

text \<open>Connecting again: connected, or nothing but the network and the next attempt's time changed.\<close>

definition retried :: "'w sys \<Rightarrow> 'w sys \<Rightarrow> bool" where
  "retried s s' \<longleftrightarrow> client_state (cl s') = client_state (cl s) \<and>
     keepalive_probes (cl s') = keepalive_probes (cl s)"

lemma attempt_reconnect_holds:
  assumes "settled (cl s)"
  shows "holds (iotx_mc_attempt_reconnect env s) (\<lambda>(rc, s'). settled (cl s') \<and> pending (cl s') = pending (cl s) \<and>
    reconnect_time_interval_ms (cl s') = reconnect_time_interval_ms (cl s) \<and>
    (if rc = STATE_SUCCESS then client_state (cl s') = IOTX_MC_STATE_CONNECTED \<and> keepalive_probes (cl s') = 0
     else retried s s'))"
proof -
  define s1 where "s1 = snd (mqtt_nwk_connect env (net_disconnect env s))"
  have n: "same_but_net s s1"
    unfolding s1_def by (rule same_but_net_trans [of _ "net_disconnect env s"]) auto
  have free: "send_free (cl s1)" "recv_free (cl s1)"
    using same_but_net_fields [OF n] assms by simp_all
  have same: "f (cl s1) = f (cl s)" if "\<And>c x. f (c\<lparr>ipstack := x\<rparr>) = f c" for f :: "iotx_mc_client \<Rightarrow> 'b"
    using n that by (auto simp: same_but_net_def)
  have iv: "reconnect_time_interval_ms (cl y) = reconnect_time_interval_ms (cl s1)" if "connected s1 y" for y
  proof -
    have e: "(cl y)\<lparr>ipstack := ipstack (cl s1), keepalive_probes := keepalive_probes (cl s1),
       client_state := client_state (cl s1), next_ping_time := next_ping_time (cl s1)\<rparr> = cl s1"
      using that by (simp only: connected_def)
    show ?thesis
      using arg_cong [OF e, of reconnect_time_interval_ms] by simp
  qed
  have conn: "settled (cl y) \<and> pending (cl y) = pending (cl s) \<and>
      reconnect_time_interval_ms (cl y) = reconnect_time_interval_ms (cl s) \<and>
      client_state (cl y) = IOTX_MC_STATE_CONNECTED \<and> keepalive_probes (cl y) = 0"
    if c: "connected s1 y" for y
    using iv [OF c] settled_connected [OF c] pending_connected [OF c] assms settled_net [OF n]
      pending_net [OF n] same [of reconnect_time_interval_ms] c
    by (simp add: connected_def)
  have net: "settled (cl y) \<and> pending (cl y) = pending (cl s) \<and>
      reconnect_time_interval_ms (cl y) = reconnect_time_interval_ms (cl s) \<and> retried s y"
    if "same_but_net s1 y" for y
  proof -
    have "same_but_net s y" using n that by (rule same_but_net_trans)
    with assms show ?thesis
      using settled_net [of s y] pending_net [of s y] by (auto simp: same_but_net_def retried_def)
  qed
  show ?thesis
    unfolding iotx_mc_attempt_reconnect_def Let_def split_beta s1_def [symmetric]
    by (rule holds_mono [OF mqtt_connect_holds [OF free]]) (use conn net in \<open>fastforce split: if_splits\<close>)
qed

lemma settled_backoff [simp]:
  "settled c \<Longrightarrow> settled (reconnect_time_interval_ms_update next_interval c)"
  "settled c \<Longrightarrow> settled (reconnect_time_interval_ms_update (\<lambda>_. 1000) c)"
  by (simp_all add: settled_def send_free_def recv_free_def backoff_next)
    (simp add: backoff_values_def)

lemma pending_interval [simp]: "pending (reconnect_time_interval_ms_update f c) = pending c"
  by (simp add: pending_def)

lemma handle_reconnect_holds:
  assumes "settled (cl s)"
  shows "holds (iotx_mc_handle_reconnect env s) (\<lambda>(rc, s'). settled (cl s') \<and> pending (cl s') = pending (cl s) \<and>
    (if rc = STATE_SUCCESS then client_state (cl s') = IOTX_MC_STATE_CONNECTED \<and> keepalive_probes (cl s') = 0
     else retried s s'))"
proof -
  have free: "settled (cl (snd (time_expired env (reconnect_next_time (cl s)) s)))" using assms by simp
  show ?thesis
    unfolding iotx_mc_handle_reconnect_def
    by (auto simp: split_beta Let_def assms retried_def split: if_splits
        intro!: holds_mono [OF attempt_reconnect_holds [OF free]])
qed

text \<open>The moves of the connection state in the keep-alive part of a yield.\<close>

definition keepalive_move :: "iotx_mc_state \<Rightarrow> iotx_mc_state \<Rightarrow> bool" where
  "keepalive_move a b \<longleftrightarrow> a = b \<or>
     a = IOTX_MC_STATE_CONNECTED \<and> b = IOTX_MC_STATE_DISCONNECTED_RECONNECTING \<or>
     a = IOTX_MC_STATE_DISCONNECTED \<and> b = IOTX_MC_STATE_DISCONNECTED_RECONNECTING \<or>
     a = IOTX_MC_STATE_DISCONNECTED_RECONNECTING \<and> b = IOTX_MC_STATE_CONNECTED \<or>
     a = IOTX_MC_STATE_CONNECT_BLOCK \<and> b = IOTX_MC_STATE_CONNECTED"

lemma keepalive_holds:
  assumes "client_ok (cl s)"
  shows "holds (iotx_mc_keepalive env s) (\<lambda>s'. settled (cl s') \<and> answered (cl s') \<and>
    pending (cl s') = pending (cl s) \<and> keepalive_move (client_state (cl s)) (client_state (cl s')))"
proof -
  have ok: "settled (cl s)" "keepalive_probes (cl s) \<le> 2" using assms by (simp_all add: client_ok_def)
  have interval: "settled (reconnect_time_interval_ms_update (\<lambda>_. 1000) c)" if "settled c" for c
    using settled_interval [OF that, of 1000] by (simp add: backoff_values_def)
  have net: "settled (cl (net_disconnect env x))" "pending (cl (net_disconnect env x)) = pending (cl x)"
    "keepalive_probes (cl (net_disconnect env x)) = keepalive_probes (cl x)"
    if "settled (cl x)" for x
    using that by (simp_all add: net_disconnect_def split_beta)
  show ?thesis
    unfolding iotx_mc_keepalive_def
    apply (simp add: split_beta Let_def)
    apply (rule holds_mono [OF keepalive_sub_holds [OF ok(1)]])
    apply (auto simp: iotx_mc_get_client_state_def interval net iotx_mc_reconnect_callback_def
        iotx_mc_disconnect_callback_def goes_offline_def answered_def keepalive_move_def retried_def
        ok intro!: holds_mono [OF handle_reconnect_holds] split: if_splits)
    done
qed

lemma client_ok_cycle_timeout [simp]: "client_ok (c\<lparr>cycle_timeout_ms := t\<rparr>) = client_ok c"
  by (simp add: client_ok_def)

text \<open>A yield: one step of keep-alive, then cycles, which may find the connection broken.\<close>

definition yield_move :: "iotx_mc_state \<Rightarrow> iotx_mc_state \<Rightarrow> bool" where
  "yield_move a b \<longleftrightarrow> keepalive_move a b \<or>
     keepalive_move a IOTX_MC_STATE_CONNECTED \<and> b = IOTX_MC_STATE_DISCONNECTED"

lemma yield_holds:
  assumes "client_ok (cl s)"
  shows "holds (wrapper_mqtt_yield env ms s) (\<lambda>(_, s'). client_ok (cl s') \<and>
    yield_move (client_state (cl s)) (client_state (cl s')) \<and>
    (\<exists>acked. pending (cl s') = List.filter (\<lambda>p. fst p \<notin> acked) (pending (cl s))))"
proof (cases "ms < 0")
  case True
  with assms show ?thesis
    by (auto simp: wrapper_mqtt_yield_def yield_move_def keepalive_move_def intro!: exI [of _ "{}"])
next
  case False
  have start: "client_ok (cl (upd (cycle_timeout_ms_update (\<lambda>_. t)) s))" for t
    using assms by simp
  have move: "yield_move (client_state (cl s)) (client_state (cl s2))"
    if "keepalive_move (client_state (cl s)) (client_state (cl s1))" "cycles s1 s2" for s1 s2
    using that cyclesD(2) [of s1 s2] by (auto simp: yield_move_def goes_offline_def)
  have owed: "\<exists>acked. pending (cl s2) = List.filter (\<lambda>p. fst p \<notin> acked) (pending (cl s))"
    if "pending (cl s1) = pending (cl s)" "cycles s1 s2" for s1 s2
    using cyclesD(6) [OF that(2)] that(1) by simp
  show ?thesis
    unfolding wrapper_mqtt_yield_def using False
    by (auto simp: Let_def intro!: holds_mono [OF keepalive_holds [OF start]] holds_mono [OF mqtt_cycle_ok]
        intro: move owed)
qed

section \<open>Subscribing\<close>

definition same_but_subs :: "'w sys \<Rightarrow> 'w sys \<Rightarrow> bool" where
  "same_but_subs s s' \<longleftrightarrow> (cl s')\<lparr>list_sub_handle := list_sub_handle (cl s)\<rparr> = cl s"

lemma same_but_subs_refl: "cl s' = cl s \<Longrightarrow> same_but_subs s s'"
  by (simp add: same_but_subs_def)

lemma make_handler_cl [simp]: "cl (snd (make_handler env tf s)) = cl s"
  by (simp add: make_handler_def split_beta Let_def split: sum.split)

lemma add_handler_holds:
  "holds (add_handler env h s) (\<lambda>s'. same_but_subs s s' \<and>
     (list_sub_handle (cl s') = list_sub_handle (cl s) \<or> list_sub_handle (cl s') = list_sub_handle (cl s) @ [h]))"
  by (auto simp: add_handler_def same_but_subs_def intro!: holds_any [where m = "dup_handler a b c" for a b c])

lemma same_but_subs_cl:
  "same_but_subs s s' \<Longrightarrow> cl s = cl t \<Longrightarrow> same_but_subs t s'"
  by (simp add: same_but_subs_def)

lemma MQTTSubscribe_holds:
  assumes "send_free (cl s)"
  shows "holds (MQTTSubscribe env tf q i f x s) (\<lambda>(_, s'). same_but_subs s s')"
proof -
  define s1 where "s1 = snd (make_handler env tf (snd (countdown env (request_timeout_ms (cl s)) s)))"
  have c: "cl s1 = cl s" by (simp add: s1_def)
  have a: "holds (add_handler env h s2) (\<lambda>s'. same_but_subs s s')" if "cl s2 = cl s" for s2 h
    by (rule holds_mono [OF add_handler_holds]) (auto intro: same_but_subs_cl that)
  show ?thesis
    unfolding MQTTSubscribe_def Let_def split_beta s1_def [symmetric]
    using assms c
    by (auto simp: send_rules same_but_subs_refl a split: sum.split
        intro!: holds_mono [OF fill_send_holds] holds_mono [OF send_packet_holds] a
          holds_any [where m = "MQTTSerialize_subscribe n d i l q" for n d i l q])
qed

lemma same_but_subs_reset:
  assumes "send_free (cl s)" "buf_send (cl s') \<noteq> None"
    and "(cl s')\<lparr>buf_send := None, buf_size_send := 0\<rparr> = (cl s)\<lparr>buf_send := None, buf_size_send := 0\<rparr>"
  shows "same_but_subs s (reset_send_buffer (upd (list_sub_handle_update (\<lambda>_. l)) s'))"
proof -
  let ?c = "(cl s')\<lparr>buf_send := None, buf_size_send := 0\<rparr>"
  have "?c = cl s"
    using assms(3) by (rule trans) (simp add: assms(1))
  then have "?c\<lparr>list_sub_handle := list_sub_handle (cl s)\<rparr> = (cl s)\<lparr>list_sub_handle := list_sub_handle (cl s)\<rparr>"
    by (simp only:)
  with assms(2) show ?thesis
    by (auto simp: same_but_subs_def reset_send_cl)
qed

lemma MQTTUnsubscribe_holds:
  assumes "send_free (cl s)"
  shows "holds (MQTTUnsubscribe env tf i s) (\<lambda>(_, s'). same_but_subs s s')"
proof -
  define s1 where "s1 = snd (make_handler env tf (snd (countdown env (request_timeout_ms (cl s)) s)))"
  have c: "cl s1 = cl s" by (simp add: s1_def)
  show ?thesis
    unfolding MQTTUnsubscribe_def Let_def split_beta s1_def [symmetric]
    using assms c
    by (auto simp: send_rules same_but_subs_refl split: sum.split
        intro!: holds_mono [OF fill_send_holds] holds_mono [OF send_packet_holds] same_but_subs_reset
          holds_any [where m = "MQTTSerialize_unsubscribe n d i l" for n d i l]
          holds_any [where m = "unsub_filter a b c d" for a b c d] holds_any [where m = "c_str a" for a])
qed

lemma same_but_subs_ok:
  assumes "same_but_subs s s'"
  shows "client_ok (cl s') = client_ok (cl s)" "pending (cl s') = pending (cl s)"
    "client_state (cl s') = client_state (cl s)" "list_sub_sync_ack (cl s') = list_sub_sync_ack (cl s)"
proof -
  have e: "(cl s')\<lparr>list_sub_handle := list_sub_handle (cl s)\<rparr> = cl s"
    using assms by (simp only: same_but_subs_def)
  show "client_ok (cl s') = client_ok (cl s)" "pending (cl s') = pending (cl s)"
    "client_state (cl s') = client_state (cl s)" "list_sub_sync_ack (cl s') = list_sub_sync_ack (cl s)"
    using arg_cong [OF e, of client_ok] arg_cong [OF e, of pending] arg_cong [OF e, of client_state]
      arg_cong [OF e, of list_sub_sync_ack]
    by (simp_all add: client_ok_def)
qed

lemma next_packetid_cl:
  "cl (snd (iotx_mc_get_next_packetid s)) =
     (cl s)\<lparr>packet_id := if packet_id (cl s) = IOTX_MC_PACKET_ID_MAX then 1 else packet_id (cl s) + 1\<rparr>"
  by (simp add: iotx_mc_get_next_packetid_def)

lemma settled_packet_id: "settled c \<Longrightarrow> settled (c\<lparr>packet_id := i\<rparr>) = (i \<le> IOTX_MC_PACKET_ID_MAX)"
  by (cases c) (simp only: settled_def send_free_def recv_free_def iotx_mc_client.simps, blast)

lemma packet_id_step:
  assumes "i \<le> IOTX_MC_PACKET_ID_MAX"
  shows "(if i = IOTX_MC_PACKET_ID_MAX then 1 else i + 1) \<le> IOTX_MC_PACKET_ID_MAX"
  using assms inc_le [of i 65535] by auto

lemma next_packetid_ok: "client_ok (cl s) \<Longrightarrow> client_ok (cl (snd (iotx_mc_get_next_packetid s)))"
proof -
  assume ok: "client_ok (cl s)"
  then have "packet_id (cl s) \<le> IOTX_MC_PACKET_ID_MAX"
    by (simp only: client_ok_def settled_def)
  from packet_id_step [OF this] ok show ?thesis
    by (simp only: client_ok_def next_packetid_cl settled_packet_id) simp
qed

lemma offline_ok [simp]:
  "client_ok (cl (offline_on_close rc s)) = client_ok (cl s)"
  "pending (cl (offline_on_close rc s)) = pending (cl s)"
  by (simp_all add: offline_on_close_def client_ok_def)

text \<open>The moves of a call that sends: a client in any state but connected stays where it is.\<close>

definition send_move :: "iotx_mc_state \<Rightarrow> iotx_mc_state \<Rightarrow> bool" where
  "send_move a b \<longleftrightarrow> a = b \<or> a = IOTX_MC_STATE_CONNECTED \<and> b = IOTX_MC_STATE_DISCONNECTED"

lemma offline_state:
  "client_state (cl (offline_on_close rc s)) =
     (if rc = STATE_SYS_DEPEND_NWK_CLOSE then IOTX_MC_STATE_DISCONNECTED else client_state (cl s))"
  "list_sub_sync_ack (cl (offline_on_close rc s)) = list_sub_sync_ack (cl s)"
  by (simp_all add: offline_on_close_def)

lemma subscribe_holds:
  assumes "client_ok (cl s)"
  shows "holds (wrapper_mqtt_subscribe env tf q f x s) (\<lambda>(_, s'). client_ok (cl s') \<and>
    pending (cl s') = pending (cl s) \<and> send_move (client_state (cl s)) (client_state (cl s')) \<and>
    list_sub_sync_ack (cl s') = list_sub_sync_ack (cl s))"
proof -
  define s1 where "s1 = snd (iotx_mc_get_next_packetid s)"
  have ok: "client_ok (cl s1)" and p: "pending (cl s1) = pending (cl s)"
    and st: "client_state (cl s1) = client_state (cl s)" 
    and sy: "list_sub_sync_ack (cl s1) = list_sub_sync_ack (cl s)"
    using next_packetid_ok [OF assms] by (simp_all add: s1_def next_packetid_cl)
  have free: "send_free (cl s1)" using ok by (simp add: client_ok_def)
  show ?thesis
    unfolding wrapper_mqtt_subscribe_def Let_def split_beta s1_def [symmetric]
    by (auto simp: assms ok p st sy offline_state wrapper_mqtt_check_state_def iotx_mc_get_client_state_def send_move_def
        same_but_subs_ok
        intro!: holds_mono [OF MQTTSubscribe_holds [OF free]] holds_any [where m = "iotx_mc_check_topic a b" for a b]
        split: option.split)
qed

lemma unsubscribe_holds:
  assumes "client_ok (cl s)"
  shows "holds (wrapper_mqtt_unsubscribe env tf s) (\<lambda>(_, s'). client_ok (cl s') \<and>
    pending (cl s') = pending (cl s) \<and> send_move (client_state (cl s)) (client_state (cl s')))"
proof -
  define s1 where "s1 = snd (iotx_mc_get_next_packetid s)"
  have ok: "client_ok (cl s1)" and p: "pending (cl s1) = pending (cl s)"
    and st: "client_state (cl s1) = client_state (cl s)"
    using next_packetid_ok [OF assms] by (simp_all add: s1_def next_packetid_cl)
  have free: "send_free (cl s1)" using ok by (simp add: client_ok_def)
  show ?thesis
    unfolding wrapper_mqtt_unsubscribe_def Let_def split_beta s1_def [symmetric]
    by (auto simp: assms ok p st offline_state wrapper_mqtt_check_state_def iotx_mc_get_client_state_def
        send_move_def same_but_subs_ok
        intro!: holds_mono [OF MQTTUnsubscribe_holds [OF free]] holds_any [where m = "iotx_mc_check_topic a b" for a b]
        split: option.split)
qed

section \<open>Publishing\<close>

text \<open>The node that is kept for a packet of \<open>len\<close> bytes at the start of a buffer \<open>b\<close>.\<close>

definition node_for :: "u16 \<Rightarrow> int \<Rightarrow> byte list \<Rightarrow> iotx_mc_pub_info \<Rightarrow> bool" where
  "node_for i len b n \<longleftrightarrow> node_state n = IOTX_MC_NODE_STATE_NORMANL \<and> msg_id n = i \<and>
     pub_len n = word_of_int len \<and> pub_buf n = take (nat len) b \<and> len \<le> int (length b)"

lemma push_holds:
  "holds (iotx_mc_push_pubInfo_to env len i s) (\<lambda>(rc, s').
     if rc < STATE_SUCCESS then cl s' = cl s
     else rc = STATE_SUCCESS \<and> 0 \<le> len \<and> len \<le> uint (buf_size_send (cl s)) \<and> length (list_pub_wait_ack (cl s)) < 10 \<and>
       (\<exists>b n. buf_send (cl s) = Some b \<and> node_for i len b n \<and>
         cl s' = (cl s)\<lparr>list_pub_wait_ack := list_pub_wait_ack (cl s) @ [n]\<rparr>))"
proof -
  define now where "now = fst (time_now env (snd (malloc env (sizeof_pub_info env + word_of_int len) s)))"
  define nd where "nd b = \<lparr>pub_start_time = now, node_state = IOTX_MC_NODE_STATE_NORMANL, msg_id = i,
    pub_len = word_of_int len, pub_buf = take (nat len) b\<rparr>" for b
  have nd: "node_for i len b (nd b)" if "len \<le> int (length b)" for b
    using that by (simp add: node_for_def nd_def)
  have "list_pub_wait_ack_update (\<lambda>l. l @ [nd b]) c =
      c\<lparr>list_pub_wait_ack := list_pub_wait_ack c @ [nd b]\<rparr>" for b c
    by simp
  then show ?thesis
    unfolding iotx_mc_push_pubInfo_to_def
    by (auto simp: split_beta Let_def now_def [symmetric] nd_def [symmetric] split: option.split
        intro!: exI [of _ "nd b" for b] nd)
qed

lemma node_for_sound:
  assumes "node_for i len b n" "0 \<le> len" "len \<le> uint (m :: u32)"
  shows "sound_node n"
proof -
  have "unat (word_of_int len :: u32) = nat len"
    using assms(2,3) uint_bounded [of m] by (simp add: unat_eq_nat_uint uint_word_of_int take_bit_int_eq_self)
  with assms show ?thesis
    by (auto simp: sound_node_def node_for_def)
qed

lemma fill_send_exact:
  "holds (fill_send bytes s) (\<lambda>s'. \<exists>b. buf_send (cl s) = Some b \<and> length bytes \<le> length b \<and>
     cl s' = (cl s)\<lparr>buf_send := Some (buf_write b 0 bytes)\<rparr>)"
  by (auto simp: fill_send_def split: option.split)

lemma serialize_holds:
  "holds m (\<lambda>x. m = Some x)"
  by (simp add: holds_def)

text \<open>What \<open>MQTTPublish\<close> leaves: one more node with the packet it serialized, or the old list.\<close>

definition publish_packet ::
  "byte list \<Rightarrow> iotx_mqtt_topic_info \<Rightarrow> u32 \<Rightarrow> int \<Rightarrow> byte list \<Rightarrow> bool" where
  "publish_packet tname m sz len bytes \<longleftrightarrow> (\<exists>pl. payload m = Some pl \<and>
     MQTTSerialize_publish (uint sz) 0 (uint (qos m)) (retain m) (ti_packet_id m)
       (c_string (Some tname)) pl (sint (payload_len m)) = Some (len, bytes))"

lemma send_free_pub [simp]:
  assumes "send_free c"
  shows "c\<lparr>list_pub_wait_ack := l, buf_send := None, buf_size_send := 0\<rparr> = c\<lparr>list_pub_wait_ack := l\<rparr>"
    and "(list_pub_wait_ack_update (butlast \<circ> (\<lambda>_. list_pub_wait_ack c @ [n])) c)
      \<lparr>buf_send := None, buf_size_send := 0\<rparr> = c"
proof -
  show "c\<lparr>list_pub_wait_ack := l, buf_send := None, buf_size_send := 0\<rparr> = c\<lparr>list_pub_wait_ack := l\<rparr>"
    using assms by (cases c) (simp add: send_free_def)
  show "(list_pub_wait_ack_update (butlast \<circ> (\<lambda>_. list_pub_wait_ack c @ [n])) c)
      \<lparr>buf_send := None, buf_size_send := 0\<rparr> = c"
    using assms by (simp add: comp_def)
qed

lemma MQTTPublish_holds:
  assumes "send_free (cl s)"
  shows "holds (MQTTPublish env tn m s) (\<lambda>(rc, s'). rc \<le> STATE_SUCCESS \<and>
    (if rc = STATE_SUCCESS \<and> qos m > 0
    then length (list_pub_wait_ack (cl s)) < 10 \<and>
      (\<exists>n sz len bytes. publish_packet tn m sz len bytes \<and> sz \<le> buf_size_send_max (cl s) \<and>
        0 < len \<and> len \<le> uint sz \<and>
        node_for (ti_packet_id m) len (buf_write (replicate (unat sz) 0) 0 bytes) n \<and>
        cl s' = (cl s)\<lparr>list_pub_wait_ack := list_pub_wait_ack (cl s) @ [n]\<rparr>)
    else cl s' = cl s))"
proof -
  have max: "dyn_len k (buf_size_send_max (cl s)) \<le> buf_size_send_max (cl s)" for k
    by (auto simp: dyn_len_def)
  show ?thesis
    unfolding MQTTPublish_def
    using assms
    apply (auto simp: send_rules max  intro!: holds_mono [OF fill_send_exact] holds_mono [OF send_packet_holds]
        holds_mono [OF push_holds] holds_mono [OF serialize_holds [of "payload a" for a]]
        holds_mono [OF serialize_holds [of "MQTTSerialize_publish a b c d e f g h" for a b c d e f g h]])
    subgoal for x a b xa bb bc n
      by (intro exI [of _ n] exI [of _ "dyn_len (64 + sint (word_of_nat (length tn) + payload_len m))
          (buf_size_send_max (cl s))"] exI [of _ a] exI [of _ b])
        (simp add: publish_packet_def max)
    done
qed

lemma settled_push:
  "settled c \<Longrightarrow> length (list_pub_wait_ack c) < 10 \<Longrightarrow> sound_node n \<Longrightarrow>
   settled (c\<lparr>list_pub_wait_ack := list_pub_wait_ack c @ [n]\<rparr>)"
  by (auto simp: settled_def send_free_def recv_free_def)

lemma pending_push:
  "node_for i len b n \<Longrightarrow>
   pending (c\<lparr>list_pub_wait_ack := list_pub_wait_ack c @ [n]\<rparr>) = pending c @ [(i, take (nat len) b)]"
  by (simp add: pending_def node_for_def pending_node_def)

text \<open>The packet a successful publish of QoS 1 leaves to be acknowledged.\<close>

definition owes_packet ::
  "byte list \<Rightarrow> iotx_mqtt_topic_info \<Rightarrow> u32 \<Rightarrow> byte list \<Rightarrow> bool" where
  "owes_packet tn m limit pkt \<longleftrightarrow> (\<exists>sz len bytes. publish_packet tn m sz len bytes \<and> sz \<le> limit \<and>
     0 < len \<and> len \<le> uint sz \<and> pkt = take (nat len) (buf_write (replicate (unat sz) 0) 0 bytes))"

lemma publish_qos1_holds:
  assumes "client_ok (cl s)" "qos m = 1"
  shows "holds (wrapper_mqtt_publish env (Some tn) (Some m) s) (\<lambda>(rc, s').
    client_ok (cl s') \<and> send_move (client_state (cl s)) (client_state (cl s')) \<and>
    (if rc < STATE_SUCCESS then pending (cl s') = pending (cl s)
     else \<exists>pkt. owes_packet tn (m\<lparr>ti_packet_id := word_of_int rc\<rparr>) (buf_size_send_max (cl s)) pkt \<and>
       pending (cl s') = pending (cl s) @ [(word_of_int rc, pkt)]))"
proof -
  define s1 where "s1 = snd (iotx_mc_get_next_packetid s)"
  have ok: "client_ok (cl s1)" and p: "pending (cl s1) = pending (cl s)"
    and st: "client_state (cl s1) = client_state (cl s)"
    and mx: "buf_size_send_max (cl s1) = buf_size_send_max (cl s)"
    using next_packetid_ok [OF assms(1)] by (simp_all add: s1_def next_packetid_cl)
  have free: "send_free (cl s1)" using ok by (simp add: client_ok_def)
  let ?push = "\<lambda>n. (cl s1)\<lparr>list_pub_wait_ack := list_pub_wait_ack (cl s1) @ [n]\<rparr>"
  have kept: "client_ok (?push n) \<and> (\<exists>pkt. owes_packet tn (m\<lparr>ti_packet_id := i\<rparr>) (buf_size_send_max (cl s)) pkt \<and>
        pending (?push n) = pending (cl s) @ [(i, pkt)])"
    if h: "length (list_pub_wait_ack (cl s1)) < 10"
      "publish_packet tn (m\<lparr>ti_packet_id := i\<rparr>) sz len bytes" "sz \<le> buf_size_send_max (cl s1)"
      "0 < len" "len \<le> uint sz" "node_for i len (buf_write (replicate (unat sz) 0) 0 bytes) n"
    for i sz len bytes n
  proof (intro conjI exI)
    show "client_ok (?push n)"
      using ok settled_push [OF _ h(1) node_for_sound [OF h(6) _ h(5)]] h(4)
      by (simp add: client_ok_def)
    show "pending (?push n) = pending (cl s) @
        [(i, take (nat len) (buf_write (replicate (unat sz) 0) 0 bytes))]"
      by (simp add: pending_push [OF h(6)] p)
    show "owes_packet tn (m\<lparr>ti_packet_id := i\<rparr>) (buf_size_send_max (cl s))
        (take (nat len) (buf_write (replicate (unat sz) 0) 0 bytes))"
      using h(2-5) unfolding owes_packet_def mx by blast
  qed
  show ?thesis
    unfolding wrapper_mqtt_publish_def Let_def split_beta s1_def [symmetric]
    using assms
    by (auto simp: ok p st offline_state wrapper_mqtt_check_state_def iotx_mc_get_client_state_def
        send_move_def kept
        intro!: holds_mono [OF MQTTPublish_holds [OF free]] holds_any [where m = "iotx_mc_check_topic a b" for a b]
        split: option.split if_splits dest: kept)
qed

lemma publish_holds:
  assumes "client_ok (cl s)"
  shows "holds (wrapper_mqtt_publish env tn tm s) (\<lambda>(rc, s').
    client_ok (cl s') \<and> send_move (client_state (cl s)) (client_state (cl s')))"
proof -
  have other: "holds (wrapper_mqtt_publish env (Some t) (Some m) s) (\<lambda>(rc, s').
      client_ok (cl s') \<and> send_move (client_state (cl s)) (client_state (cl s')))" if "qos m \<noteq> 1" for t m
  proof -
    have free: "send_free (cl s)" "settled (cl s)" "keepalive_probes (cl s) \<le> 2"
      using assms by (simp_all add: client_ok_def)
    have ok2: "client_ok (cl (snd (iotx_mc_get_next_packetid s)))"
      "client_state (cl (snd (iotx_mc_get_next_packetid s))) = client_state (cl s)"
      using next_packetid_ok [OF assms] by (simp_all add: next_packetid_cl)
    have push: "client_ok ((cl s)\<lparr>list_pub_wait_ack := list_pub_wait_ack (cl s) @ [n]\<rparr>)"
      if "node_for i len b n" "0 < len" "len \<le> uint (sz :: u32)" "length (list_pub_wait_ack (cl s)) < 10"
      for i len b n sz
      using free settled_push [OF _ that(4) node_for_sound [OF that(1) _ that(3)]] that(2)
      by (simp add: client_ok_def)
    show ?thesis
      unfolding wrapper_mqtt_publish_def Let_def split_beta using that assms ok2
      by (auto simp: offline_state wrapper_mqtt_check_state_def iotx_mc_get_client_state_def send_move_def
          intro!: holds_mono [OF MQTTPublish_holds [OF free(1)]] holds_any [where m = "iotx_mc_check_topic a b" for a b]
          split: option.split if_splits) (erule push; assumption)
  qed
  show ?thesis
  proof (cases "tn = None \<or> tm = None")
    case True
    with assms show ?thesis
      by (auto simp: wrapper_mqtt_publish_def send_move_def split: option.split)
  next
    case False
    then obtain t m where t: "tn = Some t" "tm = Some m" by auto
    show ?thesis
    proof (cases "qos m = 1")
      case True
      show ?thesis
        unfolding t by (rule holds_mono [OF publish_qos1_holds [OF assms True]]) auto
    next
      case False
      show ?thesis unfolding t by (rule other [OF False])
    qed
  qed
qed

section \<open>The other public functions\<close>

text \<open>A client that has been initialised is in one of four states until it is released.\<close>

definition client_live :: "iotx_mc_client \<Rightarrow> bool" where
  "client_live c \<longleftrightarrow> client_ok c \<and> client_state c \<in> {IOTX_MC_STATE_INITIALIZED, IOTX_MC_STATE_CONNECTED,
     IOTX_MC_STATE_DISCONNECTED, IOTX_MC_STATE_DISCONNECTED_RECONNECTING}"

lemma live_moves:
  "client_live c \<Longrightarrow> client_ok c' \<Longrightarrow> send_move (client_state c) (client_state c') \<Longrightarrow> client_live c'"
  "client_live c \<Longrightarrow> client_ok c' \<Longrightarrow> yield_move (client_state c) (client_state c') \<Longrightarrow> client_live c'"
  by (auto simp: client_live_def send_move_def yield_move_def keepalive_move_def)

lemma client_live_ok: "client_live c \<Longrightarrow> client_ok c"
  by (simp add: client_live_def)

lemma subscribe_live:
  "client_live (cl s) \<Longrightarrow> holds (wrapper_mqtt_subscribe env tf q f x s) (\<lambda>(_, s'). client_live (cl s'))"
  by (rule holds_mono [OF subscribe_holds]) (auto intro: live_moves client_live_ok)

lemma yield_live:
  "client_live (cl s) \<Longrightarrow> holds (wrapper_mqtt_yield env ms s) (\<lambda>(_, s'). client_live (cl s'))"
  by (rule holds_mono [OF yield_holds]) (auto intro: live_moves client_live_ok)

lemma client_live_sync [simp]: "client_live (list_sub_sync_ack_update f c) = client_live c"
  by (simp add: client_live_def client_ok_def settled_def send_free_def recv_free_def)

lemma sync_turn_holds:
  assumes "client_live (cl s)"
  shows "holds (sync_turn env tf q f x ret subed s) (\<lambda>(_, s'). client_live (cl s'))"
proof -
  have m: "cl (snd (malloc env n y)) = cl y" for n and y :: "'a sys" by simp
  show ?thesis
    unfolding sync_turn_def Let_def split_beta
    by (auto simp: assms intro!: holds_mono [OF subscribe_live] holds_mono [OF yield_live]
        split: list.split if_splits)
qed

lemma subscribe_sync_loop_ok:
  assumes "subscribe_sync_loop env tf q f x t ret subed s = Some r" "client_live (cl s)"
  shows "client_live (cl (snd r))"
proof -
  have "client_live (cl s) \<longrightarrow> client_live (cl (snd r))"
  proof (rule subscribe_sync_loop.raw_induct
      [where P = "\<lambda>env tf q f x t ret subed s r. client_live (cl s) \<longrightarrow> client_live (cl (snd r))", OF _ assms(1)])
    fix g env tf q f x t ret subed s r
    assume IH: "\<And>env tf q f x t ret subed s y. g env tf q f x t ret subed s = Some y \<Longrightarrow>
        client_live (cl s) \<longrightarrow> client_live (cl (snd y))"
      and eq: "Option.bind (sync_turn env tf q f x ret subed s) (\<lambda>(r, s).
       case r of
         Inl ret \<Rightarrow> Some (ret, s)
       | Inr (ret, subed) \<Rightarrow>
           let (expired, s) = time_expired env t s
           in if \<not> expired then g env tf q f x t ret subed s
              else Some (STATE_MQTT_SYNC_SUB_TIMEOUT,
                     upd (list_sub_sync_ack_update (List.filter (\<lambda>n. sync_packet_id n \<noteq> ret))) s)) = Some r"
    show "client_live (cl s) \<longrightarrow> client_live (cl (snd r))"
    proof
      assume ok: "client_live (cl s)"
      from eq obtain r1 s1 where turn: "sync_turn env tf q f x ret subed s = Some (r1, s1)"
        by (auto simp: Option.bind_eq_Some_conv)
      with holdsD [OF sync_turn_holds [OF ok]] have "client_live (cl s1)" by fastforce
      with eq turn show "client_live (cl (snd r))"
        by (cases r1) (auto simp: split_beta Let_def dest!: IH [rule_format] split: if_splits)
    qed
  qed
  with assms(2) show ?thesis by blast
qed

lemma subscribe_sync_holds:
  assumes "client_live (cl s)"
  shows "holds (wrapper_mqtt_subscribe_sync env tf q f x ms s) (\<lambda>(_, s'). client_live (cl s'))"
  using assms
  by (auto simp: wrapper_mqtt_subscribe_sync_def Let_def split_beta intro!: holdsI dest: subscribe_sync_loop_ok)

lemma wait_identity_ok:
  "client_ok (cl s) \<Longrightarrow> holds (wait_identity env n pk dk s) (\<lambda>s'. client_ok (cl s') \<and> goes_offline s s')"
proof (induction n arbitrary: pk dk s)
  case 0
  have start: "settled (cl (upd (cycle_timeout_ms_update (\<lambda>_. 500)) s))"
    "answered (cl (upd (cycle_timeout_ms_update (\<lambda>_. 500)) s))"
    using 0 by (simp_all add: client_ok_def answered_def)
  show ?case
    by (subst wait_identity.simps)
      (auto simp: Let_def goes_offline_def intro!: holds_mono [OF mqtt_cycle_ok [OF start]] holds_any [where m = "ioctl_get a b c" for a b c]
        holds_any [where m = "c_str a" for a] dest!: cyclesD(2))
next
  case (Suc n)
  have start: "settled (cl (upd (cycle_timeout_ms_update (\<lambda>_. 500)) s))"
    "answered (cl (upd (cycle_timeout_ms_update (\<lambda>_. 500)) s))"
    using Suc(2) by (simp_all add: client_ok_def answered_def)
  show ?case
    by (subst wait_identity.simps)
      (auto simp: Let_def goes_offline_def intro!: holds_mono [OF mqtt_cycle_ok [OF start]] holds_any [where m = "ioctl_get a b c" for a b c]
        holds_any [where m = "c_str a" for a] holds_mono [OF Suc(1)] dest!: cyclesD(2))
qed

lemma connected_ok:
  assumes "connected s s'" "client_ok (cl s)"
  shows "client_ok (cl s')"
  using settled_connected [OF assms(1)] assms by (simp add: client_ok_def connected_def)

lemma same_but_net_ok:
  assumes "same_but_net s s'"
  shows "client_ok (cl s') = client_ok (cl s)" "client_state (cl s') = client_state (cl s)"
  using assms by (auto simp: same_but_net_def client_ok_def)

lemma connect_holds:
  assumes "client_ok (cl s)"
  shows "holds (wrapper_mqtt_connect env s) (\<lambda>(rc, s'). client_ok (cl s') \<and>
    client_state (cl s') \<in> {client_state (cl s), IOTX_MC_STATE_CONNECTED, IOTX_MC_STATE_DISCONNECTED})"
proof -
  define s1 where "s1 = snd (mqtt_nwk_connect env s)"
  have n: "same_but_net s s1" by (simp add: s1_def)
  have ok: "client_ok (cl s1)" "client_state (cl s1) = client_state (cl s)"
    using same_but_net_ok [OF n] assms by simp_all
  have free: "send_free (cl s1)" "recv_free (cl s1)"
    using ok by (simp_all add: client_ok_def)
  have conn: "client_ok (cl y) \<and> client_state (cl y) = IOTX_MC_STATE_CONNECTED" if "connected s1 y" for y
    using connected_ok [OF that ok(1)] that by (simp add: connected_def)
  have net: "client_ok (cl y) \<and> client_state (cl y) = client_state (cl s)" if "same_but_net s1 y" for y
    using same_but_net_ok [OF that] ok by simp
  have wait: "holds (wait_identity env n pk dk y) (\<lambda>z. client_ok (cl z) \<and>
      client_state (cl z) \<in> {client_state (cl s), IOTX_MC_STATE_CONNECTED, IOTX_MC_STATE_DISCONNECTED})"
    if "client_ok (cl y)" "client_state (cl y) = IOTX_MC_STATE_CONNECTED \<or> client_state (cl y) = client_state (cl s)"
    for y n pk dk
    by (rule holds_mono [OF wait_identity_ok [OF that(1)]]) (use that(2) in \<open>auto simp: goes_offline_def\<close>)
  show ?thesis
    unfolding wrapper_mqtt_connect_def Let_def split_beta s1_def [symmetric]
    by (auto simp: ok assms intro!: holds_mono [OF mqtt_connect_holds [OF free]]
        holds_mono [OF wait [simplified]] dest: conn net split: if_splits)
qed

lemma init_ok:
  assumes "wrapper_mqtt_init env p s = (True, s')"
  shows "client_ok (cl s') \<and> client_state (cl s') = IOTX_MC_STATE_INITIALIZED \<and> pending (cl s') = []"
proof -
  have mutex: "cl (snd (mutex_create env n x)) = cl x" for n x
    by (induction n arbitrary: x) (simp_all add: split_beta Let_def)
  have neg: "fst (iotx_net_init n h q c) < 0" if "fst (iotx_net_init n h q c) \<noteq> 0" for n h q c
    using that by (simp add: iotx_net_init_def split: option.splits)
  have fields: "buf_send client_zero = None" "buf_size_send client_zero = 0" "buf_read client_zero = None"
    "buf_size_read client_zero = 0" "packet_id client_zero = 0"
    by (simp_all add: client_zero_def)
  define K where "K = keepAliveInterval (init_connectdata p)"
  define s1 where "s1 = upd (\<lambda>_. client_zero) (snd (malloc env (sizeof_client env) s))"
  define s2 where "s2 = snd (mutex_create env 5 s1)"
  have s2: "cl s2 = client_zero" by (simp add: s2_def s1_def mutex)
  define s3 where "s3 = upd (\<lambda>c. c\<lparr>next_ping_time := iotx_time_init (next_ping_time c),
      reconnect_next_time := iotx_time_init (reconnect_next_time c)\<rparr>)
    (upd (iotx_mc_set_connect_params (init_connectdata p))
      (upd (\<lambda>c. c\<lparr>
         request_timeout_ms :=
           (if par_request_timeout_ms p < CONFIG_MQTT_REQ_TIMEOUT_MIN
               \<or> par_request_timeout_ms p > CONFIG_MQTT_REQ_TIMEOUT_MAX
            then CONFIG_MQTT_REQUEST_TIMEOUT else par_request_timeout_ms p),
         buf_size_send_max := par_write_buf_size p,
         buf_size_read_max := par_read_buf_size p,
         keepalive_probes := 0,
         handle_event := par_handle_event p,
         reconnect_time_interval_ms := IOTX_MC_RECONNECT_INTERVAL_MIN_MS,
         list_pub_wait_ack := [], list_sub_handle := [], list_sub_sync_ack := []\<rparr>) s2))"
  obtain net where ready: "s' = iotx_mc_set_client_state IOTX_MC_STATE_INITIALIZED (upd (ipstack_update (\<lambda>_. net)) s3)"
    using assms neg
    unfolding wrapper_mqtt_init_def iotx_mc_init_def split_beta Let_def s1_def [symmetric] s2_def [symmetric]
      s3_def [symmetric]
    by (auto split: if_splits)
  have zero: "send_free (cl s') \<and> recv_free (cl s')" "packet_id (cl s') = 0 \<and> keepalive_probes (cl s') = 0"
    "list_pub_wait_ack (cl s') = [] \<and> reconnect_time_interval_ms (cl s') = 1000"
    "client_state (cl s') = IOTX_MC_STATE_INITIALIZED"
    by (simp_all add: ready s3_def s2 send_free_def recv_free_def fields iotx_mc_set_connect_params_def)
  have timeout: "request_timeout_ms (cl s') =
      (if par_request_timeout_ms p < CONFIG_MQTT_REQ_TIMEOUT_MIN
          \<or> par_request_timeout_ms p > CONFIG_MQTT_REQ_TIMEOUT_MAX
       then CONFIG_MQTT_REQUEST_TIMEOUT else par_request_timeout_ms p)"
    and alive: "keepAliveInterval (connect_data (cl s')) =
      (if K < CONFIG_MQTT_KEEPALIVE_INTERVAL_MIN \<or> K > CONFIG_MQTT_KEEPALIVE_INTERVAL_MAX
       then CONFIG_MQTT_KEEPALIVE_INTERVAL else K)"
    by (simp_all add: ready s3_def s2 K_def iotx_mc_set_connect_params_def)
  have range1: "CONFIG_MQTT_REQ_TIMEOUT_MIN \<le> CONFIG_MQTT_REQUEST_TIMEOUT"
    "CONFIG_MQTT_REQUEST_TIMEOUT \<le> CONFIG_MQTT_REQ_TIMEOUT_MAX"
    and range2: "CONFIG_MQTT_KEEPALIVE_INTERVAL_MIN \<le> CONFIG_MQTT_KEEPALIVE_INTERVAL"
    "CONFIG_MQTT_KEEPALIVE_INTERVAL \<le> CONFIG_MQTT_KEEPALIVE_INTERVAL_MAX"
    by (simp_all add: mqtt_config)
  have "CONFIG_MQTT_REQ_TIMEOUT_MIN \<le> request_timeout_ms (cl s') \<and>
      request_timeout_ms (cl s') \<le> CONFIG_MQTT_REQ_TIMEOUT_MAX"
    unfolding timeout using range1 by (cases "par_request_timeout_ms p < CONFIG_MQTT_REQ_TIMEOUT_MIN"; 
      cases "par_request_timeout_ms p > CONFIG_MQTT_REQ_TIMEOUT_MAX") (simp_all add: not_less)
  moreover have "CONFIG_MQTT_KEEPALIVE_INTERVAL_MIN \<le> keepAliveInterval (connect_data (cl s')) \<and>
      keepAliveInterval (connect_data (cl s')) \<le> CONFIG_MQTT_KEEPALIVE_INTERVAL_MAX"
    unfolding alive using range2 by (cases "K < CONFIG_MQTT_KEEPALIVE_INTERVAL_MIN";
      cases "K > CONFIG_MQTT_KEEPALIVE_INTERVAL_MAX") (simp_all add: not_less)
  moreover have "packet_id (cl s') \<le> IOTX_MC_PACKET_ID_MAX" "keepalive_probes (cl s') \<le> IOTX_MC_KEEPALIVE_PROBE_MAX"
    "reconnect_time_interval_ms (cl s') \<in> backoff_values" "length (list_pub_wait_ack (cl s')) \<le> 10"
    "\<forall>n\<in>set (list_pub_wait_ack (cl s')). sound_node n"
    using zero by (simp_all add: backoff_values_def)
  ultimately have "client_ok (cl s')"
    unfolding client_ok_def settled_def using zero(1) by blast
  moreover have "pending (cl s') = []"
    using zero(3) by (simp add: pending_def)
  ultimately show ?thesis
    using zero(4) by blast
qed

end
