(* ===== verification/MqttClientSpec.thy ===== *)
theory MqttClientSpec
  imports MqttClientInv MqttMessagesProofs
begin

text \<open>
  The properties of the MQTT client, over every state its public functions can reach and over
  every platform. The hypotheses on the platform that some of them need are stated with them.
\<close>

section \<open>A platform to try things on\<close>

text \<open>
  Its world is a clock, the bytes on their way to the client and the bytes it has sent. Every
  look at the clock takes a millisecond, memory never runs out, the network takes everything and
  delivers what is there.
\<close>

record demo =
  clock :: u32
  rx :: "byte list"
  tx :: "byte list"

definition demo_env :: "demo env" where
  "demo_env = \<lparr>HAL_UptimeMs = \<lambda>w. (clock w, w\<lparr>clock := clock w + 1\<rparr>),
     HAL_SleepMs = \<lambda>ms w. w\<lparr>clock := clock w + ms\<rparr>,
     HAL_Malloc = \<lambda>n w. (True, w), HAL_MutexCreate = \<lambda>w. (True, w),
     HAL_TCP_Establish = \<lambda>h p w. (1, w), HAL_TCP_Destroy = \<lambda>h w. w,
     HAL_TCP_Read = \<lambda>h len t w. (int (length (take (unat len) (rx w))), take (unat len) (rx w),
        w\<lparr>rx := drop (unat len) (rx w)\<rparr>),
     HAL_TCP_Write = \<lambda>h bs t w. (int (length bs), w\<lparr>tx := tx w @ bs\<rparr>),
     app_call = \<lambda>f x m w. w, app_event = \<lambda>f x w. w, zip_topic = False, stack_junk = 0,
     sizeof_pub_info = 32, sizeof_topic_handle = 32, sizeof_sync_node = 16, sizeof_client = 512\<rparr>"

definition demo_param :: iotx_mqtt_param where
  "demo_param = \<lparr>par_port = 1883, par_host = Some [97], par_client_id = Some [99], par_username = Some [117],
     par_password = Some [112], par_customize_info = None, par_pub_key = None, par_clean_session = 0, par_request_timeout_ms = 2000,
     par_keepalive_interval_ms = 60000, par_write_buf_size = 1024, par_read_buf_size = 1024,
     par_handle_event = \<lparr>h_fp = None, pcontext = 0\<rparr>\<rparr>"

definition demo_start :: "demo sys" where
  "demo_start = \<lparr>cl = client_zero, world = \<lparr>clock = 0, rx = [], tx = []\<rparr>, in_yield_cb = False,
     settings = g_sdk_impl_ctx, events = g_impl_event_map\<rparr>"

definition demo_init :: "demo sys" where
  "demo_init = snd (wrapper_mqtt_init demo_env demo_param demo_start)"

lemma demo_ready: "wrapper_mqtt_init demo_env demo_param demo_start = (True, demo_init)"
proof -
  have "fst (wrapper_mqtt_init demo_env demo_param demo_start)"
    by code_simp
  then show ?thesis
    by (simp add: demo_init_def prod_eq_iff)
qed

text \<open>The same client, connected.\<close>

definition demo_online :: "demo sys" where
  "demo_online = iotx_mc_set_client_state IOTX_MC_STATE_CONNECTED demo_init"

lemma demo_online_ok: "client_ok (cl demo_online)"
  using init_ok [OF demo_ready] by (simp add: demo_online_def client_ok_def)

section \<open>The invariant of every reachable state\<close>

text \<open>
  The states the public functions reach from a successful initialisation. Between two calls
  the outside world, the settings and the registered callbacks may become anything.
\<close>

inductive reached :: "'w env \<Rightarrow> 'w sys \<Rightarrow> bool" for env where
  init: "wrapper_mqtt_init env p s = (True, s') \<Longrightarrow> reached env s'"
| outside: "reached env s \<Longrightarrow> reached env (s\<lparr>world := w, settings := st, events := ev\<rparr>)"
| connect: "reached env s \<Longrightarrow> wrapper_mqtt_connect env s = Some (rc, s') \<Longrightarrow> reached env s'"
| yield: "reached env s \<Longrightarrow> wrapper_mqtt_yield env ms s = Some (rc, s') \<Longrightarrow> reached env s'"
| subscribe: "reached env s \<Longrightarrow> wrapper_mqtt_subscribe env tf q f x s = Some (rc, s') \<Longrightarrow> reached env s'"
| subscribe_sync:
    "reached env s \<Longrightarrow> wrapper_mqtt_subscribe_sync env tf q f x ms s = Some (rc, s') \<Longrightarrow> reached env s'"
| unsubscribe: "reached env s \<Longrightarrow> wrapper_mqtt_unsubscribe env tf s = Some (rc, s') \<Longrightarrow> reached env s'"
| publish: "reached env s \<Longrightarrow> wrapper_mqtt_publish env tn tm s = Some (rc, s') \<Longrightarrow> reached env s'"

text \<open>
  A public function keeps the invariant and moves the connection state along allowed edges; so do
  any number of its calls.
\<close>

fun calls :: "('s \<Rightarrow> (int \<times> 's) option) \<Rightarrow> nat \<Rightarrow> 's \<Rightarrow> 's option" where
  "calls f 0 s = Some s"
| "calls f (Suc n) s = Option.bind (f s) (\<lambda>(_, s). calls f n s)"

locale public_call =
  fixes call :: "'w sys \<Rightarrow> (int \<times> 'w sys) option"
    and move :: "iotx_mc_state \<Rightarrow> iotx_mc_state \<Rightarrow> bool"
  assumes keeps: "client_ok (cl s) \<Longrightarrow> call s = Some (rc, s') \<Longrightarrow> client_ok (cl s')"
    and moves: "client_ok (cl s) \<Longrightarrow> call s = Some (rc, s') \<Longrightarrow>
      move (client_state (cl s)) (client_state (cl s'))"
begin

lemma calls_keep: "client_ok (cl s) \<Longrightarrow> calls call n s = Some s' \<Longrightarrow> client_ok (cl s')"
  by (induction n arbitrary: s) (auto simp: Option.bind_eq_Some_conv dest: keeps)

lemma calls_move:
  "client_ok (cl s) \<Longrightarrow> calls call n s = Some s' \<Longrightarrow> move\<^sup>*\<^sup>* (client_state (cl s)) (client_state (cl s'))"
proof (induction n arbitrary: s)
  case (Suc n)
  then obtain rc s1 where 1: "call s = Some (rc, s1)" "calls call n s1 = Some s'"
    by (auto simp: Option.bind_eq_Some_conv)
  with Suc(2) have "move (client_state (cl s)) (client_state (cl s1))" "client_ok (cl s1)"
    by (auto intro: moves keeps)
  with Suc(1) 1(2) show ?case
    by (blast intro: converse_rtranclp_into_rtranclp)
qed simp

end

interpretation yield: public_call "wrapper_mqtt_yield env ms" yield_move for env ms
  by unfold_locales (auto dest: holdsD [OF yield_holds])

interpretation subscribe: public_call "wrapper_mqtt_subscribe env tf q f x" send_move for env tf q f x
  by unfold_locales (auto dest: holdsD [OF subscribe_holds])

interpretation unsubscribe: public_call "wrapper_mqtt_unsubscribe env tf" send_move for env tf
  by unfold_locales (auto dest: holdsD [OF unsubscribe_holds])

interpretation publish: public_call "wrapper_mqtt_publish env tn tm" send_move for env tn tm
  by unfold_locales (auto dest: holdsD [OF publish_holds])

lemma reached_live:
  assumes "reached env s"
  shows "client_live (cl s)"
  using assms
proof (induction rule: reached.induct)
  case (init p s s')
  then show ?case using init_ok [of env p s s'] by (simp add: client_live_def)
next
  case (outside s w st ev)
  then show ?case by simp
next
  case (connect s rc s')
  then show ?case
    using holdsD [OF connect_holds [OF client_live_ok [OF connect(3)]] connect(2)]
    by (auto simp: client_live_def)
next
  case (yield s ms rc s')
  then show ?case using holdsD [OF yield_live] by fastforce
next
  case (subscribe s tf q f x rc s')
  then show ?case using holdsD [OF subscribe_live] by fastforce
next
  case (subscribe_sync s tf q f x ms rc s')
  then show ?case using holdsD [OF subscribe_sync_holds] by fastforce
next
  case (unsubscribe s tf rc s')
  then show ?case
    using holdsD [OF unsubscribe_holds [OF client_live_ok [OF unsubscribe(3)]] unsubscribe(2)]
    by (auto intro: live_moves)
next
  case (publish s tn tm rc s')
  then show ?case
    using holdsD [OF publish_holds [OF client_live_ok [OF publish(3)]] publish(2)]
    by (auto intro: live_moves)
qed

lemma client_ok_reached: "reached env s \<Longrightarrow> client_ok (cl s)"
  by (rule client_live_ok [OF reached_live])

text \<open>
  C1. Every state the public functions reach is well formed: no buffer is left allocated, the packet
  identifier fits 16 bits, the configured times are in their ranges, the back-off interval is one
  of its seven values, at most ten publishes wait for their acknowledgement, each with its whole
  packet, at most two pings are unanswered, and the connection state is one of the four of a
  client that has been initialised.
\<close>

theorem client_invariant:
  assumes "reached env s"
  shows "client_live (cl s)"
  by (rule reached_live [OF assms])

theorem client_invariant_witness:
  "client_live (cl demo_init)"
  by (intro client_invariant [of demo_env] reached.init [OF demo_ready])


section \<open>Packet identifiers\<close>

text \<open>The identifiers of \<open>n\<close> consecutive requests.\<close>

fun packet_ids :: "nat \<Rightarrow> 'w sys \<Rightarrow> u32 list" where
  "packet_ids 0 s = []"
| "packet_ids (Suc n) s = (let (i, s) = iotx_mc_get_next_packetid s in i # packet_ids n s)"

lemma next_packetid_value:
  assumes "packet_id (cl s) \<le> IOTX_MC_PACKET_ID_MAX"
  shows "unat (fst (iotx_mc_get_next_packetid s)) = unat (packet_id (cl s)) mod 65535 + 1"
    and "packet_id (cl (snd (iotx_mc_get_next_packetid s))) = fst (iotx_mc_get_next_packetid s)"
proof -
  have "unat (packet_id (cl s)) \<le> 65535"
    using assms by (simp add: word_le_nat_alt)
  then show "unat (fst (iotx_mc_get_next_packetid s)) = unat (packet_id (cl s)) mod 65535 + 1"
    by (cases "packet_id (cl s) = 65535")
      (auto simp: iotx_mc_get_next_packetid_def unat_word_ariths word_unat_eq_iff)
qed (simp add: iotx_mc_get_next_packetid_def)

lemma ok_packet_id: "client_ok c \<Longrightarrow> packet_id c \<le> IOTX_MC_PACKET_ID_MAX"
  unfolding client_ok_def settled_def by blast

lemma mod_Suc_shift: "Suc (k + a mod m) mod m = Suc (k + a) mod (m :: nat)"
  by (metis add_Suc mod_add_right_eq)

lemma mod_shift_inj:
  fixes p k j m :: nat
  assumes "(p + k) mod m = (p + j) mod m" "k < m" "j < m"
  shows "k = j"
proof -
  have le: "k = j" if "(p + k) mod m = (p + j) mod m" "k \<le> j" "j < m" for k j
    using that mod_eq_dvd_iff_nat [of "p + k" "p + j" m] by (auto dest: dvd_imp_le)
  show ?thesis
    using le [of k j] le [of j k] assms by (cases "k \<le> j") auto
qed

lemma packet_ids_values:
  assumes "packet_id (cl s) \<le> IOTX_MC_PACKET_ID_MAX"
  shows "map unat (packet_ids n s) = map (\<lambda>k. (unat (packet_id (cl s)) + k) mod 65535 + 1) [0..<n]"
  using assms
proof (induction n arbitrary: s)
  case (Suc n)
  let ?s = "snd (iotx_mc_get_next_packetid s)"
  note v = next_packetid_value [OF Suc.prems]
  have "packet_id (cl ?s) \<le> IOTX_MC_PACKET_ID_MAX"
    using v by (simp add: word_le_nat_alt)
  from Suc.IH [OF this] v show ?case
    by (simp add: split_beta Let_def upt_conv_Cons map_Suc_upt [symmetric] mod_Suc_shift add.commute
        del: upt_Suc map_Suc_upt)
qed simp

text \<open>
  The client hands out the packet identifiers 1 to 65535 in turn: identifiers of requests fewer
  than 65535 apart differ, and none is 0.
\<close>

theorem packet_ids_cycle:
  assumes "reached env s" "n \<le> 65535"
  shows "distinct (packet_ids n s) \<and> (\<forall>i \<in> set (packet_ids n s). 1 \<le> i \<and> i \<le> 65535)"
proof -
  have p: "packet_id (cl s) \<le> IOTX_MC_PACKET_ID_MAX"
    by (rule ok_packet_id [OF client_ok_reached [OF assms(1)]])
  note v = packet_ids_values [OF this, of n]
  have "inj_on (\<lambda>k. (unat (packet_id (cl s)) + k) mod 65535 + 1) {0..<n}"
  proof (rule inj_onI)
    fix k j
    assume "k \<in> {0..<n}" "j \<in> {0..<n}"
      and e: "(unat (packet_id (cl s)) + k) mod 65535 + 1 = (unat (packet_id (cl s)) + j) mod 65535 + 1"
    then have "k < 65535" "j < 65535" using assms(2) by simp_all
    with e show "k = j"
      by (intro mod_shift_inj [of "unat (packet_id (cl s))" k 65535 j]) (simp_all only: add_right_cancel)
  qed
  then have "distinct (map unat (packet_ids n s))"
    unfolding v by (simp add: distinct_map)
  moreover have "1 \<le> i \<and> i \<le> 65535" if "i \<in> set (packet_ids n s)" for i
  proof -
    have "unat i \<in> set (map unat (packet_ids n s))" using that by simp
    then obtain k where "unat i = k mod 65535 + 1"
      unfolding v by auto
    moreover have "k mod 65535 < (65535 :: nat)" for k by simp
    ultimately have "1 \<le> unat i \<and> unat i \<le> 65535"
      by (metis Suc_eq_plus1 Suc_leI le_add2)
    then show ?thesis by (simp add: word_le_nat_alt)
  qed
  ultimately show ?thesis by (auto simp: distinct_map)
qed

theorem packet_ids_cycle_witness:
  "distinct (packet_ids 300 demo_init)"
  using packet_ids_cycle [OF reached.init [OF demo_ready], of 300] by simp

section \<open>Reconnecting\<close>

text \<open>\<open>n\<close> attempts in a row that were due and failed.\<close>

inductive failed_retries :: "'w env \<Rightarrow> nat \<Rightarrow> 'w sys \<Rightarrow> 'w sys \<Rightarrow> bool" for env where
  none: "failed_retries env 0 s s"
| retry: "failed_retries env n s s1 \<Longrightarrow> iotx_mc_handle_reconnect env s1 = Some (rc, s2) \<Longrightarrow>
    rc \<notin> {STATE_SUCCESS, STATE_MQTT_WAIT_RECONN_TIMER, STATE_MQTT_ASYNC_STACK_CONN_IN_PROG} \<Longrightarrow>
    failed_retries env (Suc n) s s2"

lemma failed_retry_interval:
  assumes "settled (cl s)" "iotx_mc_handle_reconnect env s = Some (rc, s')"
    and "rc \<notin> {STATE_SUCCESS, STATE_MQTT_WAIT_RECONN_TIMER, STATE_MQTT_ASYNC_STACK_CONN_IN_PROG}"
  shows "settled (cl s') \<and> reconnect_time_interval_ms (cl s') = next_interval (reconnect_time_interval_ms (cl s)) \<and>
    (\<exists>now. reconnect_next_time (cl s') =
       utils_time_countdown_ms now \<lparr>time = 0\<rparr> (wait_interval (reconnect_time_interval_ms (cl s'))))"
proof -
  have "holds (iotx_mc_handle_reconnect env s) (\<lambda>(rc, s').
     rc \<in> {STATE_SUCCESS, STATE_MQTT_WAIT_RECONN_TIMER, STATE_MQTT_ASYNC_STACK_CONN_IN_PROG} \<or>
     reconnect_time_interval_ms (cl s') = next_interval (reconnect_time_interval_ms (cl s)) \<and>
    (\<exists>now. reconnect_next_time (cl s') =
       utils_time_countdown_ms now \<lparr>time = 0\<rparr> (wait_interval (reconnect_time_interval_ms (cl s')))))"
    unfolding iotx_mc_handle_reconnect_def
    by (auto simp: split_beta Let_def assms(1) countdown_def
        intro!: holds_mono [OF attempt_reconnect_holds])
  from holdsD [OF this assms(2)] holdsD [OF handle_reconnect_holds [OF assms(1)] assms(2)] assms(3)
  show ?thesis by auto
qed

definition backoff_ms :: "nat \<Rightarrow> nat" where
  "backoff_ms n = min (1000 * 2 ^ n) 30000"

definition interval_after :: "nat \<Rightarrow> u32" where
  "interval_after n = (if n \<le> 5 then 1000 * 2 ^ n else 30000)"

lemma interval_after_Suc: "interval_after (Suc n) = next_interval (interval_after n)"
proof -
  have "n = 0 \<or> n = 1 \<or> n = 2 \<or> n = 3 \<or> n = 4 \<or> n = 5 \<or> 6 \<le> n" by arith
  then show ?thesis
    by (auto simp: interval_after_def next_interval_def)
qed

lemma wait_interval_after: "wait_interval (interval_after n) = word_of_nat (backoff_ms n)"
proof (cases "n \<le> 5")
  case True
  then have "n = 0 \<or> n = 1 \<or> n = 2 \<or> n = 3 \<or> n = 4 \<or> n = 5" by arith
  then show ?thesis
    by (auto simp: interval_after_def wait_interval_def backoff_ms_def)
next
  case False
  then have "(2 :: nat) ^ 5 \<le> 2 ^ n" by (intro power_increasing) auto
  with False show ?thesis
    by (simp add: interval_after_def wait_interval_def backoff_ms_def min_def)
qed

lemma failed_retries_interval:
  assumes "failed_retries env n s s'" "settled (cl s)"
    and "reconnect_time_interval_ms (cl s) = IOTX_MC_RECONNECT_INTERVAL_MIN_MS"
  shows "settled (cl s') \<and> reconnect_time_interval_ms (cl s') = interval_after n \<and>
    (0 < n \<longrightarrow> (\<exists>now. reconnect_next_time (cl s') =
       utils_time_countdown_ms now \<lparr>time = 0\<rparr> (word_of_nat (backoff_ms n))))"
  using assms
proof (induction rule: failed_retries.induct)
  case (none s)
  then show ?case by (simp add: interval_after_def)
next
  case (retry n s s1 rc s2)
  from retry.IH [OF retry.prems] have "settled (cl s1)" "reconnect_time_interval_ms (cl s1) = interval_after n"
    by simp_all
  with failed_retry_interval [OF _ retry.hyps(2,3)] show ?case
    by (auto simp: interval_after_Suc [symmetric] wait_interval_after)
qed


text \<open>The platform with its network down and no memory left.\<close>

definition demo_down :: "demo env" where
  "demo_down = demo_env\<lparr>HAL_TCP_Establish := \<lambda>h p w. (- 1, w), HAL_Malloc := \<lambda>n w. (False, w)\<rparr>"

definition demo_due :: "demo sys" where
  "demo_due = demo_init\<lparr>world := \<lparr>clock = 50, rx = [], tx = []\<rparr>\<rparr>"

lemma demo_due_reached: "reached demo_env demo_due"
  using reached.outside [OF reached.init [OF demo_ready], where w = "\<lparr>clock = 50, rx = [], tx = []\<rparr>"
      and st = "settings demo_init" and ev = "events demo_init"]
  by (simp add: demo_due_def)

lemma demo_down_connect:
  "fst (mqtt_nwk_connect demo_down s) = STATE_SYS_DEPEND_NWK_CLOSE"
  "\<exists>s'. MQTTConnect demo_down s = Some (STATE_SYS_DEPEND_MALLOC, s')"
  by (simp_all add: mqtt_nwk_connect_def nwk_connect_loop.simps net_connect_def iotx_net_connect_def
      demo_down_def demo_env_def split_beta Let_def numeral_2_eq_2 MQTTConnect_def
      alloc_send_buffer_def malloc_def)

lemma demo_down_mqtt_connect: "\<exists>s'. mqtt_connect demo_down x = Some (STATE_SYS_DEPEND_MALLOC, s')"
proof -
  obtain y where "MQTTConnect demo_down s = Some (STATE_SYS_DEPEND_MALLOC, y s)" for s
    using demo_down_connect(2) by metis
  then show ?thesis
    by (simp add: mqtt_connect_def mqtt_connect_loop.simps Let_def split_beta)
qed

lemma demo_down_reconnect:
  assumes "fst (time_expired demo_down (reconnect_next_time (cl s)) s)"
  shows "\<exists>s'. iotx_mc_handle_reconnect demo_down s = Some (STATE_SYS_DEPEND_MALLOC, s')"
proof -
  obtain y where "mqtt_connect demo_down x = Some (STATE_SYS_DEPEND_MALLOC, y x)" for x
    using demo_down_mqtt_connect by metis
  with assms show ?thesis
    by (simp add: iotx_mc_handle_reconnect_def iotx_mc_attempt_reconnect_def split_beta Let_def)
qed


section \<open>Connecting\<close>

text \<open>
  C31. Connecting either makes the whole client connected, with no ping unanswered and the first one due
  in one keep-alive interval of the user's configuration, or fails and leaves nothing changed but
  the network object. No other part of the client changes in either case: the
  subscriptions, the publishes still owed and the keep-alive interval of the configuration (which
  is doubled on the wire for the first attempt) are those from before.
\<close>

theorem connect_all_or_nothing:
  assumes "reached env0 s" "mqtt_connect env s = Some (rc, s')"
  shows "\<exists>net t. cl s' = (if rc = STATE_SUCCESS
    then (cl s)\<lparr>ipstack := net, keepalive_probes := 0, client_state := IOTX_MC_STATE_CONNECTED,
           next_ping_time := t\<rparr>
    else (cl s)\<lparr>ipstack := net\<rparr>)"
proof -
  have free: "send_free (cl s)" "recv_free (cl s)"
    using client_ok_reached [OF assms(1)] by (simp_all add: client_ok_def)
  note h = holdsD [OF mqtt_connect_holds [OF free] assms(2), simplified]
  show ?thesis
  proof (cases "rc = STATE_SUCCESS")
    case True
    with h have k: "client_state (cl s') = IOTX_MC_STATE_CONNECTED" "keepalive_probes (cl s') = 0"
      and e: "(cl s')\<lparr>ipstack := ipstack (cl s), keepalive_probes := keepalive_probes (cl s),
        client_state := client_state (cl s), next_ping_time := next_ping_time (cl s)\<rparr> = cl s"
      by (simp_all add: connected_def)
    have "cl s' = (cl s)\<lparr>ipstack := ipstack (cl s'), keepalive_probes := 0,
        client_state := IOTX_MC_STATE_CONNECTED, next_ping_time := next_ping_time (cl s')\<rparr>"
      by (subst e [symmetric]) (simp add: k [symmetric])
    with True show ?thesis by auto
  next
    case False
    with h show ?thesis
      by (auto simp: same_but_net_def)
  qed
qed

theorem connect_all_or_nothing_witness:
  "\<exists>s' net. mqtt_connect demo_down demo_due = Some (STATE_SYS_DEPEND_MALLOC, s') \<and>
     cl s' = (cl demo_due)\<lparr>ipstack := net\<rparr>"
proof -
  obtain s' where "mqtt_connect demo_down demo_due = Some (STATE_SYS_DEPEND_MALLOC, s')"
    using demo_down_mqtt_connect by blast
  with connect_all_or_nothing [OF demo_due_reached this] show ?thesis by auto
qed

section \<open>The connection state during a yield\<close>

text \<open>
  A yield moves the connection state along these edges only. In particular a client whose
  connection broke is not connected again before a later yield has put it into the state
  \<^verbatim>\<open>DISCONNECTED_RECONNECTING\<close> and the application has been told; a client that was never connected stays so.
\<close>

theorem yield_moves_state:
  assumes "reached env s" "wrapper_mqtt_yield env ms s = Some (rc, s')"
  shows "(client_state (cl s), client_state (cl s')) \<in>
    {(IOTX_MC_STATE_INITIALIZED, IOTX_MC_STATE_INITIALIZED),
     (IOTX_MC_STATE_CONNECTED, IOTX_MC_STATE_CONNECTED),
     (IOTX_MC_STATE_CONNECTED, IOTX_MC_STATE_DISCONNECTED),
     (IOTX_MC_STATE_CONNECTED, IOTX_MC_STATE_DISCONNECTED_RECONNECTING),
     (IOTX_MC_STATE_DISCONNECTED, IOTX_MC_STATE_DISCONNECTED),
     (IOTX_MC_STATE_DISCONNECTED, IOTX_MC_STATE_DISCONNECTED_RECONNECTING),
     (IOTX_MC_STATE_DISCONNECTED_RECONNECTING, IOTX_MC_STATE_DISCONNECTED_RECONNECTING),
     (IOTX_MC_STATE_DISCONNECTED_RECONNECTING, IOTX_MC_STATE_CONNECTED),
     (IOTX_MC_STATE_DISCONNECTED_RECONNECTING, IOTX_MC_STATE_DISCONNECTED)}"
proof -
  have "yield_move (client_state (cl s)) (client_state (cl s'))"
    using yield.moves [OF client_ok_reached [OF assms(1)] assms(2)] .
  moreover have "client_state (cl s) \<in> {IOTX_MC_STATE_INITIALIZED, IOTX_MC_STATE_CONNECTED,
     IOTX_MC_STATE_DISCONNECTED, IOTX_MC_STATE_DISCONNECTED_RECONNECTING}"
    using reached_live [OF assms(1)] unfolding client_live_def by blast
  ultimately show ?thesis
    by (cases "client_state (cl s)"; cases "client_state (cl s')")
      (simp_all add: yield_move_def keepalive_move_def)
qed

lemma demo_env_sel [simp]:
  "HAL_UptimeMs demo_env = (\<lambda>w. (clock w, w\<lparr>clock := clock w + 1\<rparr>))"
  "HAL_SleepMs demo_env = (\<lambda>ms w. w\<lparr>clock := clock w + ms\<rparr>)"
  "HAL_Malloc demo_env = (\<lambda>n w. (True, w))"
  "HAL_TCP_Write demo_env = (\<lambda>h bs t w. (int (length bs), w\<lparr>tx := tx w @ bs\<rparr>))"
  "HAL_TCP_Read demo_env = (\<lambda>h len t w. (int (length (take (unat len) (rx w))), take (unat len) (rx w),
        w\<lparr>rx := drop (unat len) (rx w)\<rparr>))"
  "app_call demo_env = (\<lambda>f x m w. w)" "app_event demo_env = (\<lambda>f x w. w)"
  "zip_topic demo_env = False" "stack_junk demo_env = 0"
  by (simp_all add: demo_env_def)

lemma demo_yield:
  assumes "client_state (cl s) = IOTX_MC_STATE_INITIALIZED" "clock (world s) = 0"
  shows "\<exists>s'. wrapper_mqtt_yield demo_env 1 s = Some (STATE_SUCCESS, s')"
  using assms
  apply (simp add: wrapper_mqtt_yield_def iotx_mc_keepalive_def iotx_mc_keepalive_sub_def
      wrapper_mqtt_check_state_def iotx_mc_get_client_state_def Let_def split_beta mqtt_cycle_def)
  apply (subst mqtt_cycle_loop.simps)
  apply (simp add: iotx_mc_cycle_def iotx_mc_get_client_state_def countdown_def uptime_def Let_def split_beta
     time_left_def time_expired_def sleep_def utils_time_countdown_ms_def utils_time_is_expired_def iotx_time_left_def)
  done

theorem yield_moves_state_witness:
  "\<exists>s'. wrapper_mqtt_yield demo_env 1 demo_init = Some (STATE_SUCCESS, s') \<and>
     client_state (cl s') = IOTX_MC_STATE_INITIALIZED"
proof -
  have s: "client_state (cl demo_init) = IOTX_MC_STATE_INITIALIZED" "clock (world demo_init) = 0"
    by code_simp+
  obtain s' where y: "wrapper_mqtt_yield demo_env 1 demo_init = Some (STATE_SUCCESS, s')"
    using demo_yield [OF s] by blast
  from yield_moves_state [OF reached.init [OF demo_ready] y] y s(1) show ?thesis by auto
qed

section \<open>Publishing\<close>

lemma sint_word_of_nat: "n < 2 ^ 31 \<Longrightarrow> sint (word_of_nat n :: u32) = int n"
  by transfer (simp add: signed_take_bit_int_eq_self)

text \<open>
  C8. A publish of QoS 1 that is accepted is owed: the client keeps, after the publishes it already
  owes, exactly one more packet, under the identifier it returned, and that packet reads back as the
  caller's topic and payload with QoS 1, no dup bit and that identifier. A publish that fails
  leaves what is owed as it was.
\<close>

theorem qos1_publish_owed:
  assumes "client_ok (cl s)" "qos m = 1" "payload m = Some pl" "payload_len m = word_of_nat (length pl)"
    and "length pl < 2 ^ 31" "length tn < 65536" "buf_size_send_max (cl s) \<le> 268435456"
    and "wrapper_mqtt_publish env (Some tn) (Some m) s = Some (rc, s')"
  shows "if rc < STATE_SUCCESS then pending (cl s') = pending (cl s)
    else \<exists>pkt. pending (cl s') = pending (cl s) @ [(word_of_int rc, pkt)] \<and>
      (\<forall>rest. \<exists>out'. MQTTDeserialize_publish out (pkt @ rest) = Some (1, out') \<and>
         mqtt_str (p_topic out') = tn \<and> p_payloadlen out' = int (length pl) \<and>
         p_payload out' = Some (pl @ rest) \<and> p_qos out' = 1 \<and> p_dup out' = 0 \<and>
         p_packetid out' = word_of_int rc)"
proof (cases "rc < STATE_SUCCESS")
  case True
  with holdsD [OF publish_qos1_holds [OF assms(1,2)] assms(8)] show ?thesis by simp
next
  case False
  let ?m = "m\<lparr>ti_packet_id := word_of_int rc\<rparr>"
  from holdsD [OF publish_qos1_holds [OF assms(1,2)] assms(8)] False
  obtain pkt where o: "owes_packet tn ?m (buf_size_send_max (cl s)) pkt"
    and p: "pending (cl s') = pending (cl s) @ [(word_of_int rc, pkt)]"
    by auto
  obtain sz len bytes where ser: "MQTTSerialize_publish (uint sz) 0 (uint (qos ?m)) (retain ?m)
      (ti_packet_id ?m) (c_string (Some tn)) pl (sint (payload_len ?m)) = Some (len, bytes)"
    and sz: "sz \<le> buf_size_send_max (cl s)" and len: "0 < len" "len \<le> uint sz"
    and pkt: "pkt = take (nat len) (buf_write (replicate (unat sz) 0) 0 bytes)"
    using o assms(3) by (auto simp: owes_packet_def publish_packet_def)
  have pl: "sint (payload_len m) = int (length pl)"
    using assms(5) by (simp add: assms(4) sint_word_of_nat)
  have str: "mqtt_str_ok (c_string (Some tn))" "mqtt_str (c_string (Some tn)) = tn"
    using assms(6) by (simp_all add: mqtt_str_ok_def mqtt_str_def c_string_def)
  have big: "uint sz \<le> 268435456"
    using order_trans [OF sz assms(7)] by (simp add: word_le_def)
  have ser': "MQTTSerialize_publish (uint sz) 0 1 (retain m) (word_of_int rc) (c_string (Some tn)) pl
      (int (length pl)) = Some (len, bytes)"
    using ser by (simp add: assms(2) pl)
  have lb: "len = int (length bytes)"
    using emit_ok [OF ser' [unfolded publish_layout [OF str(1)] option.inject] len(1) big] by simp
  then have "length bytes \<le> unat sz"
    using len(2) by (simp only: unat_eq_nat_uint le_nat_iff [OF unsigned_greater_eq] lb)
  then have "pkt = bytes"
    by (simp add: pkt lb buf_write_def)
  moreover have "\<exists>out'. MQTTDeserialize_publish out (bytes @ rest) = Some (1, out') \<and>
      mqtt_str (p_topic out') = tn \<and> p_payloadlen out' = int (length pl) \<and>
      p_payload out' = Some (pl @ rest) \<and> p_qos out' = 1 \<and> p_dup out' = 0 \<and>
      p_packetid out' = word_of_int rc" for rest
    using publish_reads_back [where out = out and rest = rest, OF str(1) _ _ big ser' len(1)]
    by (auto simp: str(2))
  ultimately show ?thesis
    unfolding if_not_P [OF False] using p by blast
qed

definition demo_msg :: iotx_mqtt_topic_info where
  "demo_msg = \<lparr>ti_packet_id = 0, qos = 1, dup = 0, retain = 0, topic_len = 2, payload_len = word_of_nat 1,
     ptopic = None, payload = Some [0x78]\<rparr>"


theorem qos1_publish_owed_witness:
  "\<exists>s' pkt out'. wrapper_mqtt_publish demo_env (Some [0x2F, 0x61]) (Some demo_msg) demo_online = Some (1, s') \<and>
     pending (cl s') = [(1, pkt)] \<and> MQTTDeserialize_publish
       \<lparr>p_dup = 0, p_qos = 0, p_retained = 0, p_packetid = 0, p_topic = MQTTString_initializer,
        p_payload = None, p_payloadlen = 0\<rparr> (pkt @ []) = Some (1, out') \<and>
     mqtt_str (p_topic out') = [0x2F, 0x61] \<and> p_payload out' = Some [0x78]"
proof -
  have "map_option fst (wrapper_mqtt_publish demo_env (Some [0x2F, 0x61]) (Some demo_msg) demo_online) = Some 1"
    by code_simp
  then obtain s' where p:
    "wrapper_mqtt_publish demo_env (Some [0x2F, 0x61]) (Some demo_msg) demo_online = Some (1, s')"
    by auto
  have e: "pending (cl demo_online) = []" "buf_size_send_max (cl demo_online) \<le> 268435456"
    by code_simp+
  show ?thesis
    using qos1_publish_owed [OF demo_online_ok _ _ _ _ _ e(2) p, of "[0x78]"
        "\<lparr>p_dup = 0, p_qos = 0, p_retained = 0, p_packetid = 0, p_topic = MQTTString_initializer,
          p_payload = None, p_payloadlen = 0\<rparr>"] e(1) p
    by (fastforce simp: demo_msg_def dest: spec [of _ "[]"])
qed

section \<open>Acknowledgements\<close>

text \<open>What a received PUBACK does to the publishes owed.\<close>

definition acked_by :: "'w env \<Rightarrow> 'w sys \<Rightarrow> iotx_mc_client \<Rightarrow> bool" where
  "acked_by env s c \<longleftrightarrow> (\<exists>buf out. buf_read (cl s) = Some buf \<and>
     MQTTDeserialize_ack \<lparr>a_type = 0, a_dup = 0, a_packetid = stack_junk env\<rparr> buf = Some (1, out) \<and>
     pending c = List.filter (\<lambda>p. fst p \<noteq> a_packetid out) (pending (cl s)))"

lemma PUBACK_acks:
  "holds (iotx_mc_handle_recv_PUBACK env s) (\<lambda>(_, s').
     pending (cl s') = pending (cl s) \<or> acked_by env s (cl s'))"
  by (auto simp: iotx_mc_handle_recv_PUBACK_def split_beta Let_def pending_mask acked_by_def
      intro!: holds_mono [OF serialize_holds [of "buf_read c" for c]]
        holds_mono [OF serialize_holds [of "MQTTDeserialize_ack a b" for a b]])

lemma pending_sub [simp]: "pending (cl (iotx_mqtt_event_handle_sub ev i s)) = pending (cl s)"
  by (simp add: iotx_mqtt_event_handle_sub_def pending_def)

lemma SUBACK_pending: "holds (iotx_mc_handle_recv_SUBACK env s) (\<lambda>(_, s'). pending (cl s') = pending (cl s))"
  by (auto simp: iotx_mc_handle_recv_SUBACK_def split_beta Let_def
      intro!: holds_any [where m = "buf_read c" for c] holds_any [where m = "MQTTDeserialize_suback a b d" for a b d])

lemma UNSUBACK_pending: "holds (iotx_mc_handle_recv_UNSUBACK env s) (\<lambda>(_, s'). pending (cl s') = pending (cl s))"
  by (auto simp: iotx_mc_handle_recv_UNSUBACK_def split_beta Let_def
      intro!: holds_any [where m = "buf_read c" for c] holds_any [where m = "MQTTDeserialize_unsuback a b" for a b])

lemma dispatch_acks:
  "send_free (cl s) \<Longrightarrow> holds (dispatch_packet env ty s) (\<lambda>(_, s').
     pending (cl s') = pending (cl s) \<or> ty = PUBACK \<and> acked_by env s (cl s'))"
  by (auto simp: dispatch_packet_def intro!: holds_mono [OF PUBLISH_holds] holds_mono [OF PUBACK_acks]
      holds_mono [OF SUBACK_pending] holds_mono [OF UNSUBACK_pending])

lemma pending_reset [simp]: "pending (cl (reset_recv_buffer s)) = pending (cl s)"
  by (simp add: reset_recv_buffer_def pending_def)

lemma pending_probes [simp]: "pending (keepalive_probes_update f c) = pending c"
  by (simp add: pending_def)

lemma acked_by_probes [simp]: "acked_by env (upd (keepalive_probes_update f) s) c = acked_by env s c"
  by (simp add: acked_by_def)

lemma acked_by_reset [simp]: "acked_by env s (cl (reset_recv_buffer s')) = acked_by env s (cl s')"
  by (simp add: acked_by_def)

lemma reading_pending: "reading s s' \<Longrightarrow> pending (cl s') = pending (cl s)"
proof -
  assume "reading s s'"
  then have e: "(cl s')\<lparr>buf_read := None, buf_size_read := 0\<rparr> = (cl s)\<lparr>buf_read := None, buf_size_read := 0\<rparr>"
    by (simp add: reading_def)
  show ?thesis
    using arg_cong [OF e, of pending] by (simp add: pending_def)
qed

lemma reading_send_free: "reading s s' \<Longrightarrow> send_free (cl s') = send_free (cl s)"
  by (rule cycles_free [OF reading_cycles])

lemma read_packet_result:
  assumes "recv_free (cl s)"
  shows "holds (iotx_mc_read_packet env t pt s) (\<lambda>(rc, ty, s').
    reading s s' \<and> iotx_mc_read_packet env t pt s = Some (rc, ty, s'))"
  by (rule holdsI) (use assms in \<open>auto dest: holdsD [OF read_packet_holds [OF reading_refl [OF assms refl]]]\<close>)

lemma send_free_probes [simp]: "send_free (c\<lparr>keepalive_probes := k\<rparr>) = send_free c"
  by (simp add: send_free_def)

lemma cycle_acks:
  assumes "client_ok (cl s)"
  shows "holds (iotx_mc_cycle env t s) (\<lambda>(_, s'). pending (cl s') = pending (cl s) \<or>
    (\<exists>s1. iotx_mc_read_packet env t 0 s = Some (STATE_SUCCESS, PUBACK, s1) \<and>
       pending (cl s1) = pending (cl s) \<and> acked_by env s1 (cl s')))"
proof -
  have free: "send_free (cl s)" "recv_free (cl s)"
    using assms by (simp_all add: client_ok_def)
  show ?thesis
    unfolding iotx_mc_cycle_def
    by (auto simp: split_beta Let_def iotx_mc_get_client_state_def reading_pending reading_send_free free
        intro!: holds_mono [OF read_packet_result [OF free(2)]] holds_mono [OF dispatch_acks])
qed

text \<open>
  C9. A cycle takes a publish off the ones the client owes only when it read a PUBACK packet, and then
  exactly those with the identifier in that packet; no other packet, no error and no
  expired timer loses one, and the others keep their packets and their order.
\<close>

theorem cycle_acks_only_its_puback:
  assumes "client_ok (cl s)" "iotx_mc_cycle env t s = Some (rc, s')"
  shows "pending (cl s') = pending (cl s) \<or>
    (\<exists>s1 buf out. iotx_mc_read_packet env t 0 s = Some (STATE_SUCCESS, PUBACK, s1) \<and>
       buf_read (cl s1) = Some buf \<and>
       MQTTDeserialize_ack \<lparr>a_type = 0, a_dup = 0, a_packetid = stack_junk env\<rparr> buf = Some (1, out) \<and>
       pending (cl s') = List.filter (\<lambda>p. fst p \<noteq> a_packetid out) (pending (cl s)))"
  using holdsD [OF cycle_acks [OF assms(1)] assms(2)] by (auto simp: acked_by_def)

text \<open>A connected client that owes publishes 1 and 2, and a PUBACK for 1 on its way.\<close>

definition demo_owing :: "demo sys" where
  "demo_owing = (upd (list_pub_wait_ack_update (\<lambda>_.
       [\<lparr>pub_start_time = \<lparr>time = 0\<rparr>, node_state = IOTX_MC_NODE_STATE_NORMANL, msg_id = 1, pub_len = 1, pub_buf = [1]\<rparr>,
        \<lparr>pub_start_time = \<lparr>time = 0\<rparr>, node_state = IOTX_MC_NODE_STATE_NORMANL, msg_id = 2, pub_len = 1, pub_buf = [2]\<rparr>]))
     demo_online)\<lparr>world := \<lparr>clock = 0, rx = [0x40, 2, 0, 1], tx = []\<rparr>\<rparr>"

lemma demo_owing_ok: "client_ok (cl demo_owing)"
proof -
  have e: "cl demo_owing = (cl demo_online)\<lparr>list_pub_wait_ack := list_pub_wait_ack (cl demo_owing)\<rparr>"
    by (simp add: demo_owing_def)
  have "length (list_pub_wait_ack (cl demo_owing)) \<le> 10"
    "\<forall>n \<in> set (list_pub_wait_ack (cl demo_owing)). sound_node n"
    by (simp_all add: demo_owing_def sound_node_def)
  with demo_online_ok show ?thesis
    by (subst e) (auto simp: client_ok_def settled_def send_free_def recv_free_def)
qed

theorem cycle_acks_only_its_puback_witness:
  "\<exists>s' s1 i. iotx_mc_cycle demo_env \<lparr>time = 1000\<rparr> demo_owing = Some (STATE_SUCCESS, s') \<and>
     iotx_mc_read_packet demo_env \<lparr>time = 1000\<rparr> 0 demo_owing = Some (STATE_SUCCESS, PUBACK, s1) \<and>
     pending (cl s') = [(2, [2])] \<and>
     pending (cl s') = List.filter (\<lambda>p. fst p \<noteq> i) (pending (cl demo_owing))"
proof -
  have "map_option (\<lambda>(rc, s). (rc, pending (cl s))) (iotx_mc_cycle demo_env \<lparr>time = 1000\<rparr> demo_owing) =
      Some (STATE_SUCCESS, [(2, [2])])"
    and owed: "pending (cl demo_owing) = [(1, [1]), (2, [2])]"
    by code_simp+
  then obtain s' where c: "iotx_mc_cycle demo_env \<lparr>time = 1000\<rparr> demo_owing = Some (STATE_SUCCESS, s')"
    and p: "pending (cl s') = [(2, [2])]"
    by auto
  have "pending (cl s') \<noteq> pending (cl demo_owing)"
    by (simp add: p owed)
  with cycle_acks_only_its_puback [OF demo_owing_ok c] obtain s1 buf out where
    "iotx_mc_read_packet demo_env \<lparr>time = 1000\<rparr> 0 demo_owing = Some (STATE_SUCCESS, PUBACK, s1)"
    "MQTTDeserialize_ack \<lparr>a_type = 0, a_dup = 0, a_packetid = stack_junk demo_env\<rparr> buf = Some (1, out)"
    "pending (cl s') = List.filter (\<lambda>p. fst p \<noteq> a_packetid out) (pending (cl demo_owing))"
    by auto
  with p c show ?thesis
    by blast
qed

end
