(* ===== verification/MqttClientWire.thy ===== *)
theory MqttClientWire
  imports MqttClientSpec
begin

text \<open>
  The client on the wire: the bytes it sends are the packets it means to send, and it takes whole
  packets off the stream of bytes it receives. Both rest on the platform reading and writing what
  it says it does (\<open>writes_truly\<close>, \<open>reads_truly\<close>).
\<close>

section \<open>Bytes sent\<close>

text \<open>
  What a platform is relied on for: \<open>sent\<close> is what has gone out. A write sends a prefix of its
  buffer, as long as it says when it succeeds; looking at the clock sends nothing.
\<close>

definition writes_truly :: "'w env \<Rightarrow> ('w \<Rightarrow> byte list) \<Rightarrow> bool" where
  "writes_truly env sent \<longleftrightarrow>
     (\<forall>w. sent (snd (HAL_UptimeMs env w)) = sent w) \<and>
     (\<forall>h bs t w. \<exists>n\<le>length bs. sent (snd (HAL_TCP_Write env h bs t w)) = sent w @ take n bs \<and>
        (fst (HAL_TCP_Write env h bs t w) < 0 \<or> fst (HAL_TCP_Write env h bs t w) = int n))"

lemma sent_uptime: "writes_truly env sent \<Longrightarrow> sent (world (snd (uptime env s))) = sent (world s)"
  by (simp add: writes_truly_def uptime_def split_beta)

lemma sent_timers [simp]:
  assumes "writes_truly env sent"
  shows "sent (world (snd (time_expired env t s))) = sent (world s)"
    and "sent (world (snd (time_left1 env t s))) = sent (world s)"
    and "sent (world (snd (countdown env ms s))) = sent (world s)"
  by (simp_all add: time_expired_def time_left1_def time_left_def countdown_def Let_def split_beta
      sent_uptime [OF assms])

lemma sent_write:
  assumes "writes_truly env sent"
  obtains n where "n \<le> length bs" "sent (world (snd (net_write env bs t s))) = sent (world s) @ take n bs"
    "fst (net_write env bs t s) < 0 \<or> fst (net_write env bs t s) = int n"
proof -
  have "\<exists>n\<le>length bs. sent (world (snd (net_write env bs t s))) = sent (world s) @ take n bs \<and>
      (fst (net_write env bs t s) < 0 \<or> fst (net_write env bs t s) = int n)"
    using assms by (simp add: writes_truly_def net_write_def utils_net_write_def split_beta)
  with that show ?thesis by blast
qed

text \<open>From \<open>k\<close> bytes on, the loop sends \<open>n\<close> more, and all there are if it says so.\<close>

definition sends :: "('w \<Rightarrow> byte list) \<Rightarrow> byte list \<Rightarrow> int \<Rightarrow> int \<Rightarrow> 'w sys \<Rightarrow> int \<times> 'w sys \<Rightarrow> bool" where
  "sends sent b len k s r \<longleftrightarrow> 0 \<le> k \<longrightarrow> k \<le> len \<longrightarrow> len \<le> int (length b) \<longrightarrow>
     (\<exists>n \<le> nat (len - k). sent (world (snd r)) = sent (world s) @ take n (drop (nat k) b) \<and>
        (fst r = len \<longrightarrow> n = nat (len - k)))"

lemma sends_more:
  assumes "sends sent b len (k + int n) s1 r" "sent (world s1) = sent (world s) @ take n (drop (nat k) b)"
    and "k + int n \<le> len"
  shows "sends sent b len k s r"
  unfolding sends_def
proof (intro impI)
  assume k: "0 \<le> k" "k \<le> len" "len \<le> int (length b)"
  with assms(1,3) obtain m where m: "m \<le> nat (len - (k + int n))"
    "sent (world (snd r)) = sent (world s1) @ take m (drop (nat (k + int n)) b)"
    "fst r = len \<longrightarrow> m = nat (len - (k + int n))"
    unfolding sends_def by auto
  have "nat (k + int n) = n + nat k" using k by simp
  then have "take n (drop (nat k) b) @ take m (drop (nat (k + int n)) b) = take (n + m) (drop (nat k) b)"
    by (simp add: take_add)
  with m assms(2,3) k show "\<exists>n\<le>nat (len - k). sent (world (snd r)) = sent (world s) @ take n (drop (nat k) b) \<and>
      (fst r = len \<longrightarrow> n = nat (len - k))"
    by (intro exI [of _ "n + m"]) auto
qed

lemma send_loop_sends:
  assumes "writes_truly env sent" "send_loop env b len t k s = Some r"
  shows "sends sent b len k s r"
proof -
  have "env = env \<longrightarrow> sends sent b len k s r"
  proof (rule send_loop.raw_induct [where P = "\<lambda>e b len t k s r. e = env \<longrightarrow> sends sent b len k s r", OF _ assms(2)])
    fix f e b len t k s r
    assume IH: "\<And>e b len t k s r. f e b len t k s = Some r \<Longrightarrow> e = env \<longrightarrow> sends sent b len k s r"
      and eq: "(if \<not> k < len then Some (k, s)
        else let (expired, s) = time_expired e t s
             in if expired then Some (k, s)
                else let (left_t, s) = time_left1 e t s;
                         (rc, s) = net_write e (take (nat (len - k)) (drop (nat k) b)) left_t s
                     in if rc < 0 then Some (k, s) else f e b len t (k + rc) s) = Some r"
    show "e = env \<longrightarrow> sends sent b len k s r"
    proof
      assume e: "e = env"
      define s1 where "s1 = snd (time_left1 env t (snd (time_expired env t s)))"
      define ms where "ms = fst (time_left1 env t (snd (time_expired env t s)))"
      define bs where "bs = take (nat (len - k)) (drop (nat k) b)"
      have w: "sent (world s1) = sent (world s)"
        by (simp add: s1_def assms(1))
      obtain n where n: "n \<le> length bs" "sent (world (snd (net_write env bs ms s1))) = sent (world s1) @ take n bs"
        "fst (net_write env bs ms s1) < 0 \<or> fst (net_write env bs ms s1) = int n"
        by (rule sent_write [OF assms(1)])
      have stop: "sends sent b len k s (k, s')" if "sent (world s') = sent (world s)" for s'
        using that by (auto simp: sends_def)
      show "sends sent b len k s r"
      proof (cases "k < len \<and> \<not> fst (time_expired env t s)")
        case False
        with eq e show ?thesis
          by (auto simp: split_beta Let_def assms(1) intro: stop split: if_splits)
      next
        case True
        have go: "(if fst (net_write env bs ms s1) < 0 then Some (k, snd (net_write env bs ms s1))
            else f env b len t (k + fst (net_write env bs ms s1)) (snd (net_write env bs ms s1))) = Some r"
          using eq True by (simp add: e split_beta Let_def s1_def ms_def bs_def split: if_splits)
        show ?thesis
        proof (cases "fst (net_write env bs ms s1) < 0")
          case neg: True
          with go have r: "r = (k, snd (net_write env bs ms s1))" by simp
          with n(1,2) True w show ?thesis
            by (auto simp: sends_def bs_def min_def intro!: exI [of _ n] split: if_splits)
        next
          case pos: False
          with n(3) go have "sends sent b len (k + int n) (snd (net_write env bs ms s1)) r"
            using IH by fastforce
          moreover have "sent (world (snd (net_write env bs ms s1))) = sent (world s) @ take n (drop (nat k) b)"
            "k + int n \<le> len"
            using n(1,2) w True by (auto simp: bs_def min_def split: if_splits)
          ultimately show ?thesis by (rule sends_more)
        qed
      qed
    qed
  qed
  then show ?thesis by simp
qed

text \<open>
  C6. Over a platform that sends what it says it does, \<open>iotx_mc_send_packet\<close> sends a prefix of the packet
  and nothing else, and when it reports success it has sent the whole packet exactly once, in however many
  pieces the network took it.
\<close>

theorem send_packet_exact:
  assumes "writes_truly env sent" "0 \<le> len"
    and "iotx_mc_send_packet env (Some b) len t s = Some (rc, s')"
  shows "\<exists>n \<le> nat len. sent (world s') = sent (world s) @ take n b \<and> (rc = STATE_SUCCESS \<longrightarrow> n = nat len)"
proof -
  obtain k where "send_loop env b len t 0 s = Some (k, s')" "len \<le> int (length b)"
    and "rc = (if k = len then STATE_SUCCESS else STATE_SYS_DEPEND_NWK_CLOSE)"
    using assms(3) by (auto simp: iotx_mc_send_packet_def Option.bind_eq_Some_conv split: if_splits)
  with send_loop_sends [OF assms(1)] assms(2) show ?thesis
    by (force simp: sends_def)
qed

lemma demo_writes_truly: "writes_truly demo_env tx"
  by (auto simp: writes_truly_def)

theorem send_packet_exact_witness:
  "\<exists>s'. iotx_mc_send_packet demo_env (Some [0xC0, 0, 7]) 2 \<lparr>time = 1000\<rparr> demo_online = Some (STATE_SUCCESS, s') \<and>
     tx (world s') = [0xC0, 0]"
proof -
  have "map_option fst (iotx_mc_send_packet demo_env (Some [0xC0, 0, 7]) 2 \<lparr>time = 1000\<rparr> demo_online) = Some STATE_SUCCESS"
    and e: "tx (world demo_online) = []"
    by code_simp+
  then obtain s' where
    s: "iotx_mc_send_packet demo_env (Some [0xC0, 0, 7]) 2 \<lparr>time = 1000\<rparr> demo_online = Some (STATE_SUCCESS, s')"
    by auto
  from send_packet_exact [OF demo_writes_truly _ s] e s show ?thesis by auto
qed

section \<open>Packets received\<close>

text \<open>
  What a platform is relied on for when it reads: \<open>inc\<close> is what is on its way to the client. A read
  takes at most the bytes asked for off the front, stores them, and returns their number unless
  it fails; nothing else touches what is on its way.
\<close>

definition reads_truly :: "'w env \<Rightarrow> ('w \<Rightarrow> byte list) \<Rightarrow> bool" where
  "reads_truly env inc \<longleftrightarrow>
     (\<forall>w. inc (snd (HAL_UptimeMs env w)) = inc w) \<and> (\<forall>n w. inc (snd (HAL_Malloc env n w)) = inc w) \<and>
     (\<forall>f x m w. inc (app_call env f x m w) = inc w) \<and>
     (\<forall>h len t w. let (rc, bs, w') = HAL_TCP_Read env h len t w
        in inc w = bs @ inc w' \<and> length bs \<le> unat len \<and> (rc < 0 \<or> rc = int (length bs)))"

lemma inc_calls [simp]:
  assumes "reads_truly env inc"
  shows "inc (world (snd (uptime env s))) = inc (world s)"
    and "inc (world (snd (time_left1 env t s))) = inc (world s)"
    and "inc (world (snd (alloc_recv_buffer env n s))) = inc (world s)"
    and "inc (world (snd (handle_event_call env h m s))) = inc (world s)"
proof -
  show u: "inc (world (snd (uptime env s))) = inc (world s)" for s
    using assms by (simp add: reads_truly_def uptime_def split_beta)
  have m: "inc (world (snd (malloc env n s))) = inc (world s)" for n s
    using assms by (simp add: reads_truly_def malloc_def split_beta)
  show "inc (world (snd (time_left1 env t s))) = inc (world s)"
    by (simp add: time_left1_def time_left_def Let_def split_beta u)
  show "inc (world (snd (alloc_recv_buffer env n s))) = inc (world s)"
    by (simp add: alloc_recv_buffer_def Let_def split_beta m split: option.split)
  show "inc (world (snd (handle_event_call env h m s))) = inc (world s)"
    using assms by (simp add: reads_truly_def handle_event_call_def Let_def split: option.split)
qed

text \<open>A read of the network, and one into the receive buffer.\<close>

definition took :: "('w \<Rightarrow> byte list) \<Rightarrow> u32 \<Rightarrow> int \<Rightarrow> byte list \<Rightarrow> 'w sys \<Rightarrow> 'w sys \<Rightarrow> bool" where
  "took inc len rc bs s s' \<longleftrightarrow> inc (world s) = bs @ inc (world s') \<and> length bs \<le> unat len \<and>
     (rc < 0 \<or> rc = int (length bs))"

lemma net_read_took:
  assumes "reads_truly env inc" "net_read env len t s = (rc, bs, s')"
  shows "took inc len rc bs s s' \<and> cl s' = cl s"
proof -
  obtain rc0 bs0 w where r: "HAL_TCP_Read env (net_handle (ipstack (cl s))) len t (world s) = (rc0, bs0, w)"
    by (metis prod_cases3)
  have "inc (world s) = bs0 @ inc w \<and> length bs0 \<le> unat len \<and> (rc0 < 0 \<or> rc0 = int (length bs0))"
    using assms(1) r by (auto simp: reads_truly_def dest: spec [of _ len] split: prod.splits)
  with assms(2) r show ?thesis
    by (auto simp: net_read_def utils_net_read_def took_def)
qed

lemma read_into_took:
  assumes "reads_truly env inc" "read_into env off len t s = Some (rc, s')"
  shows "\<exists>bs b. took inc len rc bs s s' \<and> buf_read (cl s) = Some b \<and> off + length bs \<le> length b \<and>
    cl s' = (cl s)\<lparr>buf_read := Some (buf_write b off bs)\<rparr>"
proof -
  obtain rc0 bs s0 where r: "net_read env len t s = (rc0, bs, s0)" by (metis prod_cases3)
  note t = net_read_took [OF assms(1) r]
  from assms(2) obtain b where "buf_read (cl s0) = Some b" "off + length bs \<le> length b" "rc = rc0"
    "s' = upd (buf_read_update (\<lambda>_. Some (buf_write b off bs))) s0"
    by (auto simp: read_into_def r write_read_buf_def Option.bind_eq_Some_conv split: option.splits if_splits)
  with t show ?thesis
    by (intro exI [of _ bs] exI [of _ b]) (simp add: took_def)
qed

text \<open>The remaining length is read as \<open>MQTTPacket_decodeBuf\<close> reads it from memory.\<close>

lemma low7_bound: "uint ((i :: byte) AND 127) \<le> 127"
proof -
  have "i AND 127 \<le> 127" by (rule word_and_le1)
  then show ?thesis by (simp add: word_le_def)
qed

lemma decode_loop_frame:
  assumes "reads_truly env inc" "decode_packet_loop env t mul val len s = Some (rc, v, s')" "0 \<le> rc"
    and "0 \<le> mul" "0 \<le> val"
  shows "\<exists>enc. inc (world s) = enc @ inc (world s') \<and> cl s' = cl s \<and> 0 \<le> v \<and> rc = int (len + length enc) \<and>
    v + mul \<le> val + mul * 128 ^ (4 - len) \<and>
    (\<forall>rest. MQTTPacket_decode_loop bufchar len mul val (enc @ rest) = Some (rc, v, rest))"
  using assms(2-)
proof (induction "4 - len" arbitrary: mul val len s rule: less_induct)
  case less
  define T where "T = (if t = 0 then 1 else t)"
  obtain rc1 bs s1 where r: "net_read env 1 T s = (rc1, bs, s1)" by (metis prod_cases3)
  note tk = net_read_took [OF assms(1) r, unfolded took_def]
  from less.prems(1,2) obtain i bs' where i: "len < 4" "0 < rc1" "bs = i # bs'"
    and go: "(let val = val + uint (i AND 127) * mul
      in if i AND 128 \<noteq> 0 then decode_packet_loop env t (mul * 128) val (len + 1) s1
         else Some (int (len + 1), val, s1)) = Some (rc, v, s')"
    by (subst (asm) decode_packet_loop.simps)
      (auto simp: T_def [symmetric] r split_beta Let_def split: if_splits list.splits)
  from tk i have one: "inc (world s) = i # inc (world s1)" "cl s1 = cl s" by auto
  have digit: "uint (i AND 127) * mul \<le> 127 * mul"
    using low7_bound [of i] less.prems(3) by (intro mult_right_mono) simp_all
  have top: "mul * 128 ^ (4 - len) = mul * 128 * 128 ^ (4 - (len + 1))"
  proof -
    have "4 - len = Suc (4 - (len + 1))" using i(1) by arith
    then show ?thesis by (simp only: power_Suc mult.assoc)
  qed
  have more: "mul * 128 * 1 \<le> mul * 128 * 128 ^ (4 - (len + 1))"
    using less.prems(3) by (intro mult_left_mono) simp_all
  show ?case
  proof (cases "i AND 128 = 0")
    case True
    with go have "rc = int (len + 1)" "v = val + uint (i AND 127) * mul" "s' = s1"
      by (auto simp: Let_def)
    moreover from this have "v + mul \<le> val + mul * 128 ^ (4 - len)"
      using digit more top by linarith
    ultimately show ?thesis
      using one True i(1) less.prems
      by (intro exI [of _ "[i]"]) (simp add: MQTTPacket_decode_loop.simps [of _ len] Let_def)
  next
    case False
    with go have "decode_packet_loop env t (mul * 128) (val + uint (i AND 127) * mul) (len + 1) s1 = Some (rc, v, s')"
      by (simp add: Let_def)
    moreover have "4 - (len + 1) < 4 - len" "0 \<le> mul * 128" "0 \<le> val + uint (i AND 127) * mul"
      using i(1) less.prems(3,4) by simp_all
    ultimately obtain enc where e: "inc (world s1) = enc @ inc (world s')" "cl s' = cl s1" "0 \<le> v"
      "rc = int (len + 1 + length enc)"
      "v + mul * 128 \<le> val + uint (i AND 127) * mul + mul * 128 * 128 ^ (4 - (len + 1))"
      "\<And>rest. MQTTPacket_decode_loop bufchar (len + 1) (mul * 128) (val + uint (i AND 127) * mul) (enc @ rest)
        = Some (rc, v, rest)"
      using less.hyps [of "len + 1" "mul * 128"] less.prems(2) by blast
    moreover from this have "v + mul \<le> val + mul * 128 ^ (4 - len)"
      using digit top by linarith
    ultimately show ?thesis
      using one False i(1)
      by (intro exI [of _ "i # enc"]) (simp add: MQTTPacket_decode_loop.simps [of _ len] Let_def)
  qed
qed

lemma decode_packet_frame:
  assumes "reads_truly env inc" "iotx_mc_decode_packet env t s = Some (rc, v, s')" "0 \<le> rc"
  shows "\<exists>enc. inc (world s) = enc @ inc (world s') \<and> cl s' = cl s \<and> rem_len_ok v \<and>
    (\<forall>rest. MQTTPacket_decodeBuf (enc @ rest) = Some (int (length enc), v, rest))"
proof -
  from decode_loop_frame [OF assms(1) assms(2) [unfolded iotx_mc_decode_packet_def] assms(3)]
  obtain enc where e: "inc (world s) = enc @ inc (world s')" "cl s' = cl s" "0 \<le> v" "rc = int (length enc)" "v < 268435456"
    "\<And>rest. MQTTPacket_decodeBuf (enc @ rest) = Some (rc, v, rest)"
    by (auto simp: MQTTPacket_decodeBuf_def MQTTPacket_decode_def)
  then show ?thesis
    by (intro exI [of _ enc]) (simp add: rem_len_ok_def)
qed

lemma discard_loop_took:
  assumes "reads_truly env inc" "discard_loop env t n s = Some (True, s')" "0 \<le> n"
  shows "\<exists>bs. inc (world s) = bs @ inc (world s') \<and> int (length bs) = n"
proof -
  have "env = env \<longrightarrow> 0 \<le> n \<longrightarrow> fst (True, s') \<longrightarrow>
      (\<exists>bs. inc (world s) = bs @ inc (world (snd (True, s'))) \<and> int (length bs) = n)"
  proof (rule discard_loop.raw_induct [where P = "\<lambda>e t n s r. e = env \<longrightarrow> 0 \<le> n \<longrightarrow> fst r \<longrightarrow>
      (\<exists>bs. inc (world s) = bs @ inc (world (snd r)) \<and> int (length bs) = n)", OF _ assms(2)])
    fix f e t n s r
    assume IH: "\<And>e t n s r. f e t n s = Some r \<Longrightarrow> e = env \<longrightarrow> 0 \<le> n \<longrightarrow> fst r \<longrightarrow>
        (\<exists>bs. inc (world s) = bs @ inc (world (snd r)) \<and> int (length bs) = n)"
      and eq: "(let needReadLen = (if n > uint (buf_size_read (cl s)) then uint (buf_size_read (cl s)) else n)
        in Option.bind (read_into e 0 (word_of_int needReadLen) t s) (\<lambda>(rc, s).
           if rc \<noteq> needReadLen then Some (False, s)
           else if n - needReadLen \<noteq> 0 then f e t (n - needReadLen) s
           else Some (True, s))) = Some r"
    define need where "need = (if n > uint (buf_size_read (cl s)) then uint (buf_size_read (cl s)) else n)"
    show "e = env \<longrightarrow> 0 \<le> n \<longrightarrow> fst r \<longrightarrow> (\<exists>bs. inc (world s) = bs @ inc (world (snd r)) \<and> int (length bs) = n)"
    proof (intro impI)
      assume e: "e = env" and n: "0 \<le> n" and r: "fst r"
      then have need: "0 \<le> need" "need \<le> n" by (auto simp: need_def)
      from eq r obtain s1 where s1: "read_into env 0 (word_of_int need) t s = Some (need, s1)"
        and go: "(if n - need \<noteq> 0 then f env t (n - need) s1 else Some (True, s1)) = Some r"
        by (auto simp: e need_def [symmetric] Let_def Option.bind_eq_Some_conv split: if_splits)
      from read_into_took [OF assms(1) s1] need obtain bs where
        bs: "inc (world s) = bs @ inc (world s1)" "int (length bs) = need"
        by (auto simp: took_def)
      show "\<exists>bs. inc (world s) = bs @ inc (world (snd r)) \<and> int (length bs) = n"
      proof (cases "n - need = 0")
        case True
        with go bs show ?thesis by auto
      next
        case False
        with go IH [of env t "n - need" s1 r] need r obtain cs where
          "inc (world s1) = cs @ inc (world (snd r))" "int (length cs) = n - need"
          by auto
        with bs show ?thesis by (intro exI [of _ "bs @ cs"]) simp
      qed
    qed
  qed
  with assms(3) show ?thesis by simp
qed

text \<open>The stages of reading a packet, from state \<open>s\<close>: its first byte, and its remaining length.\<close>

definition read_first :: "('w \<Rightarrow> byte list) \<Rightarrow> 'w sys \<Rightarrow> byte \<Rightarrow> 'w sys \<Rightarrow> bool" where
  "read_first inc s i x \<longleftrightarrow> inc (world s) = i # inc (world x) \<and>
     (\<exists>b. buf_read (cl x) = Some b \<and> length b = unat (buf_size_read (cl x)) \<and> take 1 b = [i]) \<and>
     buf_size_read (cl x) = dyn_len 8 (buf_size_read_max (cl x))"

definition read_length :: "('w \<Rightarrow> byte list) \<Rightarrow> 'w sys \<Rightarrow> byte \<Rightarrow> byte list \<Rightarrow> int \<Rightarrow> 'w sys \<Rightarrow> bool" where
  "read_length inc s i enc v x \<longleftrightarrow> inc (world s) = i # enc @ inc (world x) \<and> rem_len_ok v \<and>
     (\<forall>rest. MQTTPacket_decodeBuf (enc @ rest) = Some (int (length enc), v, rest))"

definition holds_front :: "byte list \<Rightarrow> 'w sys \<Rightarrow> bool" where
  "holds_front p x \<longleftrightarrow> (\<exists>b. buf_read (cl x) = Some b \<and> length b = unat (buf_size_read (cl x)) \<and>
     length p \<le> length b \<and> take (length p) b = p)"

text \<open>
  One packet read: its first byte, remaining length and body are off the front of what was on its way,
  and either the whole packet stands in the receive buffer, or it was dropped for being
  larger than the buffer may be.
\<close>

definition packet_read :: "('w \<Rightarrow> byte list) \<Rightarrow> 'w sys \<Rightarrow> byte \<Rightarrow> 'w sys \<Rightarrow> bool" where
  "packet_read inc s ty s' \<longleftrightarrow> (\<exists>i enc body. inc (world s) = i # enc @ body @ inc (world s') \<and>
     (\<forall>rest. MQTTPacket_decodeBuf (enc @ rest) = Some (int (length enc), int (length body), rest)) \<and>
     (ty = MQTT_HEADER_GET_TYPE i \<and> holds_front (i # MQTTPacket_encode (int (length body)) @ body) s' \<or>
      ty = 0 \<and> buf_size_read_max (cl s) < word_of_nat (length (i # MQTTPacket_encode (int (length body)) @ body))))"

lemma read_first_into:
  assumes "reads_truly env inc" "recv_free (cl s)"
    and "cl x = cl (snd (alloc_recv_buffer env 0 s))" "fst (alloc_recv_buffer env 0 s) \<ge> 0"
    and "inc (world x) = inc (world s)"
    and "read_into env 0 1 t x = Some (rc, y)"
  shows "rc = 0 \<and> inc (world y) = inc (world s) \<or> rc < 0 \<or> rc = 1 \<and> (\<exists>i. read_first inc s i y)"
proof -
  from read_into_took [OF assms(1,6)] obtain bs b where
    t: "took inc 1 rc bs x y" "buf_read (cl x) = Some b" "length bs \<le> length b"
      "cl y = (cl x)\<lparr>buf_read := Some (buf_write b 0 bs)\<rparr>"
    by auto
  have b: "length b = unat (buf_size_read (cl x))" "buf_size_read (cl x) = dyn_len 8 (buf_size_read_max (cl x))"
    using t(2) assms(2-4) by (auto simp: alloc_recv_buffer_def Let_def split_beta recv_free_def split: if_splits)
  have "rc = 0 \<or> rc < 0 \<or> rc = 1 \<and> (\<exists>i. bs = [i])"
    using t(1) by (cases bs) (auto simp: took_def)
  then show ?thesis
  proof (elim disjE)
    assume "rc = 0"
    with t(1) have "inc (world y) = inc (world s)" by (simp add: took_def assms(5))
    with \<open>rc = 0\<close> show ?thesis by simp
  next
    assume "rc = 1 \<and> (\<exists>i. bs = [i])"
    then obtain i where i: "rc = 1" "bs = [i]" by blast
    have "read_first inc s i y"
      using t b i by (auto simp: read_first_def took_def assms(5) buf_write_def)
    with i show ?thesis by auto
  qed simp
qed

lemma read_length_decode:
  assumes "reads_truly env inc" "read_first inc s i x" "iotx_mc_decode_packet env t y = Some (rc, v, z)" "0 \<le> rc"
    and "cl y = cl x" "inc (world y) = inc (world x)"
  shows "cl z = cl x \<and> (\<exists>enc. read_length inc s i enc v z)"
  using decode_packet_frame [OF assms(1,3,4)] assms(2,5,6)
  by (auto simp: read_first_def read_length_def)

lemma store_length:
  assumes "read_first inc s i x" "cl y = cl x" "write_read_buf 1 enc y = Some z"
  shows "holds_front (i # enc) z \<and> world z = world y \<and> buf_size_read (cl z) = dyn_len 8 (buf_size_read_max (cl z)) \<and>
    buf_size_read_max (cl z) = buf_size_read_max (cl x)"
proof -
  obtain b where b: "buf_read (cl y) = Some b" "length b = unat (buf_size_read (cl x))" "take 1 b = [i]"
    "buf_size_read (cl x) = dyn_len 8 (buf_size_read_max (cl x))"
    using assms(1,2) by (auto simp: read_first_def)
  with assms(2,3) have z: "1 + length enc \<le> length b"
    "z = upd (buf_read_update (\<lambda>_. Some (buf_write b 1 enc))) y"
    by (auto simp: write_read_buf_def split: if_splits)
  have "take (length [i] + length enc) (buf_write b (length [i]) enc) = [i] @ enc"
    using z(1) b(3) by (intro buf_write_prefix) simp_all
  with z b assms(2) show ?thesis
    by (auto simp: holds_front_def)
qed

lemma dyn_len_mono:
  assumes "0 \<le> a" "a \<le> b" "b < 2 ^ 32"
  shows "dyn_len a m \<le> dyn_len b m"
proof -
  have "(word_of_int a :: u32) \<le> word_of_int b"
    using assms by (simp add: word_le_def uint_word_of_int take_bit_int_eq_self)
  then show ?thesis by (auto simp: dyn_len_def)
qed

lemma grow_buffer:
  assumes "holds_front p x" "buf_size_read (cl x) = dyn_len 8 (buf_size_read_max (cl x))" "0 \<le> n" "n < 2 ^ 30"
    and "fst (alloc_recv_buffer env n x) \<ge> 0"
  shows "holds_front p (snd (alloc_recv_buffer env n x)) \<and>
    buf_size_read (cl (snd (alloc_recv_buffer env n x))) = dyn_len (8 + n) (buf_size_read_max (cl x)) \<and>
    buf_size_read_max (cl (snd (alloc_recv_buffer env n x))) = buf_size_read_max (cl x)"
proof -
  obtain b where b: "buf_read (cl x) = Some b" "length b = unat (buf_size_read (cl x))"
    "length p \<le> length b" "take (length p) b = p"
    using assms(1) by (auto simp: holds_front_def)
  define m where "m = dyn_len (8 + n) (buf_size_read_max (cl x))"
  have m: "buf_size_read (cl x) \<le> m"
    unfolding m_def assms(2) using assms(3,4) by (intro dyn_len_mono) auto
  then have le: "length b \<le> unat m"
    by (simp add: b(2) word_le_nat_alt)
  define b' where "b' = buf_write (replicate (unat m) 0) 0 (take (unat (if buf_size_read (cl x) < m then buf_size_read (cl x) else m)) b)"
  have "b' = b @ replicate (unat m - length b) 0"
    using m le by (auto simp: b'_def b(2) buf_write_def not_less)
  then have b': "length b' = unat m" "take (length p) b' = p"
    using b(3,4) le by simp_all
  have "cl (snd (alloc_recv_buffer env n x)) = (cl x)\<lparr>buf_read := Some b', buf_size_read := m\<rparr>"
    using assms(5) b(1) by (auto simp: alloc_recv_buffer_def m_def [symmetric] b'_def Let_def split_beta split: if_splits)
  with b' b(3) le show ?thesis
    by (auto simp: holds_front_def m_def)
qed

lemma store_body:
  assumes "holds_front p x" "write_read_buf (length p) bs x = Some y \<or>
     (\<exists>b. buf_read (cl x) = Some b \<and> length p + length bs \<le> length b \<and>
          cl y = (cl x)\<lparr>buf_read := Some (buf_write b (length p) bs)\<rparr>)"
  shows "holds_front (p @ bs) y"
proof -
  obtain b where b: "buf_read (cl x) = Some b" "length b = unat (buf_size_read (cl x))"
    "length p \<le> length b" "take (length p) b = p"
    using assms(1) by (auto simp: holds_front_def)
  with assms(2) have y: "length p + length bs \<le> length b" "cl y = (cl x)\<lparr>buf_read := Some (buf_write b (length p) bs)\<rparr>"
    by (auto simp: write_read_buf_def split: if_splits)
  with b buf_write_prefix [OF y(1) b(4)] show ?thesis
    by (auto simp: holds_front_def)
qed

lemma holds_front_prefix: "holds_front (p @ bs) x \<Longrightarrow> holds_front p x"
  by (auto simp: holds_front_def take_add)

lemma read_packet_cases:
  assumes "iotx_mc_read_packet env timer pt s = Some (STATE_SUCCESS, ty, s')"
  obtains (timeout) l where "0 \<le> fst (alloc_recv_buffer env 0 s)"
      "read_into env 0 1 l (snd (time_left1 env timer (snd (alloc_recv_buffer env 0 s)))) = Some (0, s')" "ty = 0"
    | (packet) l rc y l2 rc2 v z w where "0 \<le> fst (alloc_recv_buffer env 0 s)"
      "read_into env 0 1 l (snd (time_left1 env timer (snd (alloc_recv_buffer env 0 s)))) = Some (rc, y)" "0 < rc"
      "iotx_mc_decode_packet env l2 (snd (time_left1 env timer y)) = Some (rc2, v, z)" "0 \<le> rc2"
      "write_read_buf 1 (MQTTPacket_encode v) z = Some w"
      "let len = 1 + int (length (MQTTPacket_encode v)); (rc, s) = alloc_recv_buffer env (v + len) w
       in 0 \<le> rc \<and>
         (if v > 0 \<and> v + len > uint (buf_size_read (cl s))
          then ty = 0 \<and> (\<exists>left_t x. discard_loop env left_t v (snd (time_left1 env timer s)) = Some (True, x) \<and>
            s' = snd (handle_event_call env (handle_event (cl x))
                   \<lparr>event_type = IOTX_MQTT_EVENT_BUFFER_OVERFLOW, msg = Ev_text\<rparr> x))
          else \<exists>left_t rc x b i bs.
            read_into env (nat len) (word_of_int v) left_t (snd (time_left1 env timer s)) = Some (rc, x) \<and>
            (v > 0 \<longrightarrow> rc = v) \<and> buf_read (cl x) = Some b \<and> readChar b = Some (i, bs) \<and>
            (s' = x \<or> write_read_buf (nat (len + v)) [0] x = Some s') \<and> ty = MQTT_HEADER_GET_TYPE i)"
proof -
  define s1 where "s1 = alloc_recv_buffer env 0 s"
  define s2 where "s2 = time_left1 env timer (snd s1)"
  have a: "\<not> fst s1 < 0"
    using assms by (auto simp: iotx_mc_read_packet_def split_beta Let_def s1_def [symmetric] split: if_splits)
  obtain rc y where r: "read_into env 0 1 (fst s2) (snd s2) = Some (rc, y)"
    using assms by (auto simp: iotx_mc_read_packet_def split_beta Let_def s1_def [symmetric] s2_def [symmetric]
        Option.bind_eq_Some_conv split: if_splits)
  show thesis
  proof (cases "rc = 0")
    case True
    with assms r a have "ty = 0" "s' = y"
      by (auto simp: iotx_mc_read_packet_def split_beta Let_def s1_def [symmetric] s2_def [symmetric])
    with r a True show thesis
      by (intro timeout [of "fst s2"]) (simp_all add: s1_def s2_def not_less)
  next
    case False
    with assms r a have rc: "0 < rc"
      by (auto simp: iotx_mc_read_packet_def split_beta Let_def s1_def [symmetric] s2_def [symmetric] split: if_splits)
    define s3 where "s3 = time_left1 env timer y"
    obtain rc2 v z where d: "iotx_mc_decode_packet env (fst s3) (snd s3) = Some (rc2, v, z)"
      using assms r a rc
      by (auto simp: iotx_mc_read_packet_def split_beta Let_def s1_def [symmetric] s2_def [symmetric]
          s3_def [symmetric] Option.bind_eq_Some_conv split: if_splits)
    have rc2: "0 \<le> rc2"
      using assms r a rc d
      by (auto simp: iotx_mc_read_packet_def split_beta Let_def s1_def [symmetric] s2_def [symmetric]
          s3_def [symmetric] Option.bind_eq_Some_conv split: if_splits)
    obtain w where w: "write_read_buf 1 (MQTTPacket_encode v) z = Some w"
      using assms r a rc d rc2
      by (auto simp: iotx_mc_read_packet_def split_beta Let_def s1_def [symmetric] s2_def [symmetric]
          s3_def [symmetric] Option.bind_eq_Some_conv split: if_splits)
    define len where "len = 1 + int (length (MQTTPacket_encode v))"
    define s4 where "s4 = alloc_recv_buffer env (v + len) w"
    define s5 where "s5 = time_left1 env timer (snd s4)"
    have go: "(if fst s4 < 0 then Some (fst s4, pt, snd s4)
       else if v > 0 \<and> v + len > uint (buf_size_read (cl (snd s4)))
       then do { (ok, s) \<leftarrow> discard_loop env (fst s5) v (snd s5);
           (if \<not> ok then Some (STATE_SYS_DEPEND_NWK_READ_ERROR, 0, s)
            else Some (STATE_SUCCESS, 0, snd (handle_event_call env (handle_event (cl s))
                     \<lparr>event_type = IOTX_MQTT_EVENT_BUFFER_OVERFLOW, msg = Ev_text\<rparr> s))) }
       else do { (rc, s) \<leftarrow> read_into env (nat len) (word_of_int v) (fst s5) (snd s5);
           (if v > 0 \<and> rc < 0 then Some (STATE_SYS_DEPEND_NWK_CLOSE, pt, s)
            else if v > 0 \<and> rc \<noteq> v then Some (STATE_MQTT_PACKET_READ_ERROR, pt, s)
            else do { b \<leftarrow> buf_read (cl s); (header, _) \<leftarrow> readChar b;
               s \<leftarrow> (if len + v < uint (buf_size_read (cl s)) then write_read_buf (nat (len + v)) [0] s else Some s);
               Some (STATE_SUCCESS, MQTT_HEADER_GET_TYPE header, s) }) }) = Some (STATE_SUCCESS, ty, s')"
      using assms r a rc d rc2 w
      by (simp add: iotx_mc_read_packet_def split_beta Let_def s1_def s2_def s3_def len_def s4_def s5_def
          split del: if_split cong del: if_weak_cong)
    show thesis
    proof (rule packet [of "fst s2" rc y "fst s3" rc2 v z w])
      show "let len = 1 + int (length (MQTTPacket_encode v)); (rc, s) = alloc_recv_buffer env (v + len) w
       in 0 \<le> rc \<and>
         (if v > 0 \<and> v + len > uint (buf_size_read (cl s))
          then ty = 0 \<and> (\<exists>left_t x. discard_loop env left_t v (snd (time_left1 env timer s)) = Some (True, x) \<and>
            s' = snd (handle_event_call env (handle_event (cl x))
                   \<lparr>event_type = IOTX_MQTT_EVENT_BUFFER_OVERFLOW, msg = Ev_text\<rparr> x))
          else \<exists>left_t rc x b i bs.
            read_into env (nat len) (word_of_int v) left_t (snd (time_left1 env timer s)) = Some (rc, x) \<and>
            (v > 0 \<longrightarrow> rc = v) \<and> buf_read (cl x) = Some b \<and> readChar b = Some (i, bs) \<and>
            (s' = x \<or> write_read_buf (nat (len + v)) [0] x = Some s') \<and> ty = MQTT_HEADER_GET_TYPE i)"
        using go unfolding len_def [symmetric] s4_def [symmetric] s5_def [symmetric] split_beta Let_def
        by (auto simp: Option.bind_eq_Some_conv split: if_splits) blast+
    qed (use a r rc d rc2 w in \<open>simp_all add: s1_def s2_def s3_def\<close>)
  qed
qed

text \<open>
  C5. The client stays in step with the byte stream: over a platform that reads what is there, a call
  of \<open>iotx_mc_read_packet\<close> that reports success has taken nothing off the stream, or exactly one
  whole packet: its first byte, a remaining length that \<open>MQTTPacket_decodeBuf\<close> reads as the
  length of the body, and the body. The whole packet, its length field in shortest form, is then at
  the start of the receive buffer and the packet type is that of the first byte; only a packet larger than
  the configured buffer has been dropped, and then the whole of it.
\<close>

theorem read_packet_framing:
  assumes "reads_truly env inc" "client_ok (cl s)"
    and "iotx_mc_read_packet env timer pt s = Some (STATE_SUCCESS, ty, s')"
  shows "ty = 0 \<and> inc (world s') = inc (world s) \<or>
    (\<exists>i enc body. inc (world s) = i # enc @ body @ inc (world s') \<and>
       (\<forall>rest. MQTTPacket_decodeBuf (enc @ rest) = Some (int (length enc), int (length body), rest)) \<and>
       (let pkt = i # MQTTPacket_encode (int (length body)) @ body
        in if ty = 0 \<and> uint (buf_size_read_max (cl s)) < int (length pkt) then True
           else ty = MQTT_HEADER_GET_TYPE i \<and> (\<exists>b. buf_read (cl s') = Some b \<and> take (length pkt) b = pkt)))"
  using assms(3)
proof (cases rule: read_packet_cases)
  case (timeout l)
  have "recv_free (cl s)" using assms(2) by (simp add: client_ok_def)
  from read_first_into [OF assms(1) this _ timeout(1) _ timeout(2)] timeout(3)
  show ?thesis by (simp add: assms(1))
next
  let ?x = "\<lambda>x. snd (time_left1 env timer x)"
  case (packet l rc y l2 rc2 v z w)
  have free: "recv_free (cl s)" using assms(2) by (simp add: client_ok_def)
  from read_first_into [OF assms(1) free _ packet(1) _ packet(2)] packet(3)
  obtain i where i: "read_first inc s i y" by (auto simp: assms(1))
  from read_length_decode [OF assms(1) i packet(4,5)] obtain enc where
    enc: "read_length inc s i enc v z" and z: "cl z = cl y" by (auto simp: assms(1))
  let ?E = "MQTTPacket_encode v"
  define n where "n = v + (1 + int (length ?E))"
  have v: "0 \<le> v" "0 \<le> n" "n < 2 ^ 30"
    using enc length_encode_le4 [of v] by (auto simp: read_length_def rem_len_ok_def n_def)
  note st = store_length [OF i z packet(6)]
  define g where "g = snd (alloc_recv_buffer env n w)"
  have ok: "0 \<le> fst (alloc_recv_buffer env n w)"
    using packet(7) by (simp add: n_def Let_def split_beta)
  have front: "holds_front (i # ?E) g"
    and size: "buf_size_read (cl g) = dyn_len (8 + n) (buf_size_read_max (cl y))"
    using grow_buffer [of "i # ?E" w n env] st v ok by (simp_all add: g_def)
  have stream: "inc (world s) = i # enc @ inc (world (?x g))"
    using enc st by (simp add: read_length_def g_def assms(1))
  have dec: "\<forall>rest. MQTTPacket_decodeBuf (enc @ rest) = Some (int (length enc), v, rest)"
    using enc by (simp add: read_length_def)
  have limit: "buf_size_read_max (cl y) = buf_size_read_max (cl s)"
    using read_into_took [OF assms(1) packet(2)]
    by (auto simp: alloc_recv_buffer_def Let_def split_beta split: option.split)
  show ?thesis
  proof (cases "v > 0 \<and> n > uint (buf_size_read (cl g))")
    case True
    with packet(7) obtain left_t x where x: "discard_loop env left_t v (?x g) = Some (True, x)" "ty = 0"
      "inc (world s') = inc (world x)"
      by (auto simp: n_def [symmetric] g_def [symmetric] Let_def split_beta assms(1))
    from discard_loop_took [OF assms(1) x(1) v(1)] obtain body where
      body: "inc (world (?x g)) = body @ inc (world x)" "int (length body) = v"
      by auto
    have "uint (word_of_int (8 + n) :: u32) = 8 + n"
      using v by (simp only: uint_word_of_int) (simp add: take_bit_int_eq_self)
    then have "uint (buf_size_read_max (cl s)) < n"
      using True v unfolding size limit by (auto simp: dyn_len_def split: if_splits)
    with stream dec body x show ?thesis
      by (intro disjI2 exI [of _ i] exI [of _ enc] exI [of _ body]) (simp add: n_def)
  next
    case False
    with packet(7) obtain left_t rc x b i' bs where
      x: "read_into env (nat (1 + int (length ?E))) (word_of_int v) left_t (?x g) = Some (rc, x)" "v > 0 \<longrightarrow> rc = v"
      and b: "buf_read (cl x) = Some b" "readChar b = Some (i', bs)" "ty = MQTT_HEADER_GET_TYPE i'"
      and s': "s' = x \<or> write_read_buf (nat (1 + int (length ?E) + v)) [0] x = Some s'"
      by (auto simp: n_def [symmetric] g_def [symmetric] Let_def split_beta)
    from read_into_took [OF assms(1) x(1)] obtain body b0 where
      body: "inc (world (?x g)) = body @ inc (world x)" "length body \<le> unat (word_of_int v :: u32)" "rc < 0 \<or> rc = int (length body)"
      and b0: "buf_read (cl (?x g)) = Some b0" "nat (1 + int (length ?E)) + length body \<le> length b0"
        "cl x = (cl (?x g))\<lparr>buf_read := Some (buf_write b0 (nat (1 + int (length ?E))) body)\<rparr>"
      by (auto simp: took_def)
    have len: "int (length body) = v"
      using body(2,3) x(2) v(1) by (cases "v > 0") auto
    have off: "nat (1 + int (length ?E)) = length (i # ?E)" "nat (1 + int (length ?E) + v) = length ((i # ?E) @ body)"
      using len by simp_all
    have "holds_front ((i # ?E) @ body) x"
      using store_body [of "i # ?E" g body x] front b0 by (auto simp: off)
    moreover from this b have "i' = i"
      by (auto simp: holds_front_def readChar_def split: list.splits)
    moreover have "inc (world s') = inc (world x)"
      using s' by (auto simp: write_read_buf_def split: option.splits if_splits)
    moreover have "holds_front ((i # ?E) @ body) s'"
      using s' store_body [of "(i # ?E) @ body" x "[0]" s'] calculation(1) holds_front_prefix unfolding off by metis
    ultimately show ?thesis
      using stream dec body b len
      by (intro disjI2 exI [of _ i] exI [of _ enc] exI [of _ body]) (auto simp: holds_front_def)
  qed
qed

lemma demo_reads_truly: "reads_truly demo_env rx"
  by (simp add: reads_truly_def)

theorem read_packet_framing_witness:
  "\<exists>s' b enc body. iotx_mc_read_packet demo_env \<lparr>time = 1000\<rparr> 0
      (demo_online\<lparr>world := \<lparr>clock = 0, rx = [0x40, 2, 0, 1, 0xD0], tx = []\<rparr>\<rparr>) = Some (STATE_SUCCESS, PUBACK, s') \<and>
     [0x40, 2, 0, 1, 0xD0] = 0x40 # enc @ body @ rx (world s') \<and> buf_read (cl s') = Some b \<and>
     take (length (0x40 # MQTTPacket_encode (int (length body)) @ body)) b = 0x40 # MQTTPacket_encode (int (length body)) @ body"
proof -
  let ?s = "demo_online\<lparr>world := \<lparr>clock = 0, rx = [0x40, 2, 0, 1, 0xD0], tx = []\<rparr>\<rparr>"
  have "map_option (\<lambda>(rc, ty, _). (rc, ty)) (iotx_mc_read_packet demo_env \<lparr>time = 1000\<rparr> 0 ?s) =
      Some (STATE_SUCCESS, PUBACK)"
    by code_simp
  then obtain s' where s: "iotx_mc_read_packet demo_env \<lparr>time = 1000\<rparr> 0 ?s = Some (STATE_SUCCESS, PUBACK, s')"
    by auto
  have "client_ok (cl ?s)" "PUBACK \<noteq> 0" using demo_online_ok by (simp_all add: PUBACK_def)
  with read_packet_framing [OF demo_reads_truly _ s] obtain i enc body b where
    "[0x40, 2, 0, 1, 0xD0] = i # enc @ body @ rx (world s')" "buf_read (cl s') = Some b"
    "take (length (i # MQTTPacket_encode (int (length body)) @ body)) b = i # MQTTPacket_encode (int (length body)) @ body"
    by (auto simp: Let_def)
  with s show ?thesis by (intro exI [of _ s'] exI [of _ b] exI [of _ enc] exI [of _ body]) auto
qed

section \<open>Sending returns\<close>

text \<open>
  A platform whose clock runs: looking at it takes less than a quarter of an hour, and a write that
  sends nothing takes the time it was given, or little more. The counter the SDK reads
  wraps; \<open>clk\<close> does not.
\<close>

definition clock_runs :: "'w env \<Rightarrow> ('w \<Rightarrow> nat) \<Rightarrow> bool" where
  "clock_runs env clk \<longleftrightarrow>
     (\<forall>w. fst (HAL_UptimeMs env w) = word_of_nat (clk w) \<and> clk w \<le> clk (snd (HAL_UptimeMs env w)) \<and>
        clk (snd (HAL_UptimeMs env w)) \<le> clk w + 2 ^ 20) \<and>
     (\<forall>h bs t w. let (rc, w') = HAL_TCP_Write env h bs t w
        in rc \<le> int (length bs) \<and> (rc = 0 \<longrightarrow> clk w + unat t \<le> clk w' \<and> clk w' \<le> clk w + unat t + 2 ^ 20))"

definition past :: "nat \<Rightarrow> iotx_time \<Rightarrow> int" where
  "past c t = (int c - uint (time t)) mod 2 ^ 32"

lemma uint_since: "uint (word_of_nat c - time t) = past c t"
proof -
  have "word_of_nat c - time t = (word_of_int (int c - uint (time t)) :: u32)"
    by simp
  then show ?thesis
    by (simp only: uint_word_of_int past_def) (simp add: take_bit_eq_mod)
qed

lemma expired_past: "utils_time_is_expired (word_of_nat c) (Some t) \<longleftrightarrow> past c t < 2 ^ 31 - 1"
  by (simp add: expired_Some word_less_def uint_since)

lemma past_range: "0 \<le> past c t" "past c t < 2 ^ 32"
  by (simp_all add: past_def)

lemma past_later: "past (c + d) t = (past c t + int d) mod 2 ^ 32"
  by (simp add: past_def mod_simps algebra_simps)

lemma uint_minus_mod: "uint (- w) = (- uint w) mod 2 ^ 32" for w :: u32
  by transfer (simp add: take_bit_eq_mod mod_minus_eq)

lemma left_word:
  "uint (time t - word_of_nat c) = (if past c t = 0 then 0 else 2 ^ 32 - past c t)"
proof -
  have "time t - word_of_nat c = - (word_of_nat c - time t)" by simp
  then have "uint (time t - word_of_nat c) = (- uint (word_of_nat c - time t)) mod 2 ^ 32"
    using uint_minus_mod [of "word_of_nat c - time t"] by simp
  also have "\<dots> = (- past c t) mod 2 ^ 32"
    by (simp only: uint_since)
  also have "\<dots> = (if past c t = 0 then 0 else 2 ^ 32 - past c t)"
    using past_range [of c t] by (auto simp: zmod_zminus1_eq_if)
  finally show ?thesis .
qed

lemma wrap_once: "2 ^ 32 \<le> a \<Longrightarrow> a < 2 * 2 ^ 32 \<Longrightarrow> (a :: int) mod 2 ^ 32 = a - 2 ^ 32"
proof -
  assume a: "2 ^ 32 \<le> a" "a < 2 * 2 ^ 32"
  have "a mod 2 ^ 32 = (a - 2 ^ 32) mod 2 ^ 32" by simp
  also have "\<dots> = a - 2 ^ 32"
    by (rule mod_pos_pos_trivial) (use a in simp_all)
  finally show ?thesis .
qed

text \<open>After a write that sent nothing the timer has expired.\<close>

lemma expired_after_wait:
  assumes x: "\<not> past c t < 2 ^ 31 - 1" and d: "d1 \<le> 2 ^ 20" "d2 \<le> 2 ^ 20"
    and l: "l = (if past (c + d1) t < 2 ^ 31 - 1 then 0 else uint (time t - word_of_nat (c + d1 + d2)))"
    and d3: "(if l = 0 then 1 else l) \<le> int d3" "int d3 \<le> (if l = 0 then 1 else l) + 2 ^ 22"
  shows "past (c + d1 + d2 + d3) t < 2 ^ 31 - 1"
proof -
  define y where "y = past c t"
  have y: "2 ^ 31 - 1 \<le> y" "y < 2 ^ 32" using x past_range [of c t] by (simp_all add: y_def)
  have small: "int d1 \<le> 2 ^ 20" "int d2 \<le> 2 ^ 20" using d by simp_all
  have p1: "past (c + d1) t = (y + int d1) mod 2 ^ 32" by (simp only: past_later y_def)
  have p2: "past (c + d1 + d2) t = (y + (int d1 + int d2)) mod 2 ^ 32"
    using past_later [of c "d1 + d2" t] by (simp add: y_def add.assoc)
  have p3: "past (c + d1 + d2 + d3) t = (y + (int d1 + int d2 + int d3)) mod 2 ^ 32"
    using past_later [of c "d1 + d2 + d3" t] by (simp add: y_def add.assoc)
  consider (before) "y + (int d1 + int d2) < 2 ^ 32"
    | (between) "y + int d1 < 2 ^ 32" "2 ^ 32 \<le> y + (int d1 + int d2)" | (after) "2 ^ 32 \<le> y + int d1"
    by linarith
  then show ?thesis
  proof cases
    case before
    then have "past (c + d1) t = y + int d1" "past (c + d1 + d2) t = y + (int d1 + int d2)"
      using y unfolding p1 p2 by (simp_all add: mod_pos_pos_trivial)
    with y have "l = 2 ^ 32 - (y + (int d1 + int d2))" "l \<noteq> 0"
      using before by (simp_all add: l left_word del: of_nat_add)
    with d3 have "2 ^ 32 \<le> y + (int d1 + int d2 + int d3)" "y + (int d1 + int d2 + int d3) \<le> 2 ^ 32 + 2 ^ 22"
      by simp_all
    then show ?thesis unfolding p3 by (subst wrap_once) simp_all
  next
    case between
    define z where "z = y + (int d1 + int d2) - 2 ^ 32"
    have z: "0 \<le> z" "z \<le> 2 ^ 20" using between small by (simp_all add: z_def)
    have "past (c + d1 + d2) t = z"
      unfolding p2 using between y small by (subst wrap_once) (simp_all add: z_def)
    moreover have "past (c + d1) t = y + int d1"
      unfolding p1 using between y by (simp add: mod_pos_pos_trivial)
    ultimately have l: "l = (if z = 0 then 0 else 2 ^ 32 - z)"
      using y by (simp add: l left_word del: of_nat_add)
    have p3': "past (c + d1 + d2 + d3) t = (z + int d3) mod 2 ^ 32"
      unfolding p3 z_def by (subst mod_add_self2 [of _ "2 ^ 32", symmetric]) (simp add: algebra_simps)
    show ?thesis
    proof (cases "z = 0")
      case True
      with l d3 have "int d3 \<le> 1 + 2 ^ 22" by simp
      with True show ?thesis unfolding p3' by (simp add: mod_pos_pos_trivial)
    next
      case False
      with l z have "l = 2 ^ 32 - z" "l \<noteq> 0" by simp_all
      with d3 z have "2 ^ 32 \<le> z + int d3" "z + int d3 \<le> 2 ^ 32 + 2 ^ 22" by simp_all
      then show ?thesis unfolding p3' by (subst wrap_once) simp_all
    qed
  next
    case after
    have "past (c + d1) t = y + int d1 - 2 ^ 32"
      unfolding p1 using after y small by (subst wrap_once) simp_all
    with y small have "l = 0" by (simp add: l)
    with d3 have "int d3 \<le> 1 + 2 ^ 22" by simp
    with after y small show ?thesis unfolding p3 by (subst wrap_once) simp_all
  qed
qed

lemma wait_expires:
  assumes run: "clock_runs env clk" and e: "\<not> fst (time_expired env t s)"
    and zero: "fst (net_write env bs (fst (time_left1 env t (snd (time_expired env t s))))
      (snd (time_left1 env t (snd (time_expired env t s))))) = 0"
  shows "fst (time_expired env t (snd (net_write env bs (fst (time_left1 env t (snd (time_expired env t s))))
      (snd (time_left1 env t (snd (time_expired env t s)))))))"
proof -
  have look: "fst (uptime env s) = word_of_nat (clk (world s))" "clk (world s) \<le> clk (world (snd (uptime env s)))"
    "clk (world (snd (uptime env s))) \<le> clk (world s) + 2 ^ 20" for s
    using run by (simp_all add: clock_runs_def uptime_def split_beta)
  have expired: "fst (time_expired env t s) \<longleftrightarrow> past (clk (world s)) t < 2 ^ 31 - 1" for s
    by (simp add: time_expired_def split_beta look expired_past)
  define c where "c = clk (world s)"
  define s0 where "s0 = snd (time_expired env t s)"
  have s0: "s0 = snd (uptime env s)" by (simp add: s0_def time_expired_def split_beta)
  define d1 where "d1 = clk (world s0) - c"
  have d1: "clk (world s0) = c + d1" "d1 \<le> 2 ^ 20"
    using look(2,3) [of s] by (simp_all add: d1_def c_def s0)
  define d2 where "d2 = clk (world (snd (uptime env s0))) - (c + d1)"
  have d2: "clk (world (snd (uptime env s0))) = c + d1 + d2" "d2 \<le> 2 ^ 20"
    using look(2,3) [of s0] by (simp_all add: d2_def d1)
  define l where "l = (if past (c + d1) t < 2 ^ 31 - 1 then 0 else uint (time t - word_of_nat (c + d1 + d2)))"
  define L where "L = time_left1 env t s0"
  have L: "uint (fst L) = (if l = 0 then 1 else l)"
    by (auto simp: L_def time_left1_def time_left_def split_beta Let_def look d1 d2 expired_past l_def iotx_time_left_def
        uint_0_iff simp del: of_nat_add)
  have s1: "c + d1 + d2 \<le> clk (world (snd L))" "clk (world (snd L)) \<le> c + d1 + d2 + 2 ^ 20"
    using look(2,3) [of "snd (uptime env s0)"] d2(1)
    by (auto simp: L_def time_left1_def time_left_def split_beta Let_def)
  define s2 where "s2 = snd (net_write env bs (fst L) (snd L))"
  have s2: "clk (world (snd L)) + unat (fst L) \<le> clk (world s2)" "clk (world s2) \<le> clk (world (snd L)) + unat (fst L) + 2 ^ 20"
    using run zero unfolding s0_def [symmetric] L_def [symmetric]
    by (auto simp: clock_runs_def s2_def net_write_def utils_net_write_def split_beta Let_def)
  define d3 where "d3 = clk (world s2) - (c + d1 + d2)"
  have d3: "clk (world s2) = c + d1 + d2 + d3" "unat (fst L) \<le> d3" "d3 \<le> unat (fst L) + 2 ^ 20 + 2 ^ 20"
    using s1 s2 by (simp_all add: d3_def)
  have "uint (fst L) = int (unat (fst L))" by simp
  moreover have "int d3 \<le> int (unat (fst L)) + 2 ^ 20 + 2 ^ 20" "int (unat (fst L)) \<le> int d3"
    using of_nat_mono [OF d3(3), where 'a = int] of_nat_mono [OF d3(2), where 'a = int] by simp_all
  ultimately have "(if l = 0 then 1 else l) \<le> int d3" "int d3 \<le> (if l = 0 then 1 else l) + 2 ^ 22"
    unfolding L [symmetric] by simp_all
  from expired_after_wait [OF _ d1(2) d2(2) l_def this] e
  have "fst (time_expired env t s2)"
    by (simp add: expired d3(1) c_def)
  then show ?thesis
    by (simp add: s2_def L_def s0_def)
qed

lemma send_loop_returns:
  assumes "clock_runs env clk" "0 \<le> k" "k \<le> len" "len \<le> int (length b)"
  shows "\<exists>r. send_loop env b len t k s = Some r"
  using assms(2,3)
proof (induction "nat (len - k)" arbitrary: k s rule: less_induct)
  case less
  define s0 where "s0 = snd (time_expired env t s)"
  define s1 where "s1 = snd (time_left1 env t s0)"
  define l where "l = fst (time_left1 env t s0)"
  define bs where "bs = take (nat (len - k)) (drop (nat k) b)"
  define rc where "rc = fst (net_write env bs l s1)"
  define s2 where "s2 = snd (net_write env bs l s1)"
  have step: "send_loop env b len t k s = (if \<not> k < len then Some (k, s)
      else if fst (time_expired env t s) then Some (k, s0)
      else if rc < 0 then Some (k, s2) else send_loop env b len t (k + rc) s2)"
    by (subst send_loop.simps) (simp add: split_beta Let_def s0_def s1_def l_def bs_def rc_def s2_def)
  have rc: "rc \<le> len - k" if "k < len"
  proof -
    have "rc \<le> int (length bs)"
      using assms(1) by (auto simp: clock_runs_def rc_def net_write_def utils_net_write_def split_beta Let_def)
    with that show ?thesis by (simp add: bs_def)
  qed
  consider (finished) "\<not> k < len \<or> fst (time_expired env t s) \<or> rc < 0"
    | (some) "k < len" "0 < rc" "send_loop env b len t k s = send_loop env b len t (k + rc) s2"
    | (none) "k < len" "\<not> fst (time_expired env t s)" "rc = 0" "send_loop env b len t k s = send_loop env b len t k s2"
    using step by (cases "rc = 0") (auto split: if_splits)
  then show ?case
  proof cases
    case finished
    with step show ?thesis by auto
  next
    case some
    with less.hyps [of "k + rc" s2] less.prems rc show ?thesis by auto
  next
    case none
    have "fst (time_expired env t s2)"
      using wait_expires [OF assms(1) none(2), of bs] none(3)
      by (simp add: s0_def s1_def l_def rc_def s2_def)
    with none(4) show ?thesis
      by (subst (asm) (2) send_loop.simps) (simp add: split_beta Let_def)
  qed
qed

text \<open>
  C29. Sending a packet returns, whatever the network does: over a platform whose clock runs no packet keeps
  \<open>iotx_mc_send_packet\<close> in its loop, also when the clock passes the deadline between the two
  looks \<open>iotx_time_left\<close> takes at it and the time left comes out as almost \<open>2^32\<close> milliseconds.
\<close>

theorem send_packet_returns:
  assumes "clock_runs env clk" "0 \<le> len" "len \<le> int (length b)"
  shows "\<exists>rc s'. iotx_mc_send_packet env (Some b) len t s = Some (rc, s') \<and>
    (rc = STATE_SUCCESS \<or> rc = STATE_SYS_DEPEND_NWK_CLOSE)"
proof -
  obtain r where "send_loop env b len t 0 s = Some r"
    using send_loop_returns [OF assms(1) _ assms(2,3), where s = s and t = t] by auto
  with assms(3) show ?thesis
    by (cases r) (simp add: iotx_mc_send_packet_def)
qed

text \<open>A platform whose network takes nothing, and takes its time; its world is the clock.\<close>

definition slow_env :: "nat env" where
  "slow_env = \<lparr>HAL_UptimeMs = \<lambda>w. (word_of_nat w, w), HAL_SleepMs = \<lambda>ms w. w + unat ms,
     HAL_Malloc = \<lambda>n w. (True, w), HAL_MutexCreate = \<lambda>w. (True, w),
     HAL_TCP_Establish = \<lambda>h p w. (1, w), HAL_TCP_Destroy = \<lambda>h w. w,
     HAL_TCP_Read = \<lambda>h len t w. (0, [], w + unat t), HAL_TCP_Write = \<lambda>h bs t w. (0, w + unat t),
     app_call = \<lambda>f x m w. w, app_event = \<lambda>f x w. w, zip_topic = False, stack_junk = 0,
     sizeof_pub_info = 32, sizeof_topic_handle = 32, sizeof_sync_node = 16, sizeof_client = 512\<rparr>"

theorem send_packet_returns_witness:
  "\<exists>rc s'. iotx_mc_send_packet slow_env (Some [0xC0, 0]) 2 \<lparr>time = 1000\<rparr>
      \<lparr>cl = client_zero, world = 900, in_yield_cb = False, settings = g_sdk_impl_ctx, events = g_impl_event_map\<rparr>
    = Some (rc, s')"
proof -
  have "clock_runs slow_env (\<lambda>w. w)"
    by (simp add: clock_runs_def slow_env_def)
  from send_packet_returns [OF this, of 2 "[0xC0, 0]" "\<lparr>time = 1000\<rparr>"
      "\<lparr>cl = client_zero, world = 900, in_yield_cb = False, settings = g_sdk_impl_ctx, events = g_impl_event_map\<rparr>"]
  show ?thesis by auto
qed

end
