(* ===== verification/MqttClientSubs.thy ===== *)
theory MqttClientSubs
  imports MqttClientSpec
begin

text \<open>
  Topics at the client: to which handlers a received message goes, and what subscribing and
  unsubscribing do to the handlers. The build is the one without the zip option, where a handler keeps the filter
  itself; with it a handler keeps the hash of a filter without wildcards.
\<close>

section \<open>Delivery of a message\<close>

text \<open>The handlers a message is for, and what calling one does to the world.\<close>

definition filter_of :: "iotx_mc_topic_handle \<Rightarrow> byte list" where
  "filter_of n = butlast (topic_filter n)"

definition listens :: "byte list \<Rightarrow> iotx_mc_topic_handle \<Rightarrow> bool" where
  "listens name n \<longleftrightarrow> h_fp (handle n) \<noteq> None \<and>
     (filter_of n = name \<or> level_match (levels (filter_of n)) (levels name))"

definition call_handler :: "'w env \<Rightarrow> iotx_mqtt_topic_info \<Rightarrow> iotx_mqtt_event_handle \<Rightarrow> 'w \<Rightarrow> 'w" where
  "call_handler env m h w = (case h_fp h of None \<Rightarrow> w
     | Some f \<Rightarrow> app_call env f (pcontext h) \<lparr>event_type = IOTX_MQTT_EVENT_PUBLISH_RECEIVED, msg = Ev_topic m\<rparr> w)"

definition plain_handler :: "iotx_mc_topic_handle \<Rightarrow> bool" where
  "plain_handler n \<longleftrightarrow> (\<exists>f. topic_filter n = f @ [0] \<and> 0 \<notin> set f \<and> legal_levels (levels f))"

lemma world_handle_event:
  "world (snd (handle_event_call env h \<lparr>event_type = IOTX_MQTT_EVENT_PUBLISH_RECEIVED, msg = Ev_topic m\<rparr> s)) =
     call_handler env m h (world s)"
  by (simp add: handle_event_call_def call_handler_def Let_def split: option.split)

lemma lenstring_equals:
  assumes "0 \<notin> set f"
  shows "MQTTPacket_equals False \<lparr>cstring = None, lenstring_len = int (length name),
    lenstring_data = Some (name @ rest)\<rparr> (f @ [0]) = Some (f = name)"
proof (cases "length name = length f")
  case True
  with assms c_str_terminated [OF assms, of "[]"] show ?thesis
    by (auto simp: MQTTPacket_equals_def memcmp_eq_def Let_def)
next
  case False
  with assms c_str_terminated [OF assms, of "[]"] show ?thesis
    by (auto simp: MQTTPacket_equals_def)
qed

lemma matched_plain:
  assumes "legal_levels (levels f)"
  shows "topic_matched f name \<longleftrightarrow> level_match (levels f) (levels name)"
  using matched_levels [OF assms, of "levels name"] levels_no_slash by auto

lemma deliver_loop_calls:
  assumes "\<not> zip_topic env" "\<forall>n\<in>set nodes. plain_handler n"
  shows "\<exists>s'. deliver_loop env \<lparr>cstring = None, lenstring_len = int (length name), lenstring_data = Some (name @ rest)\<rparr>
      name m nodes flag s = Some (flag \<or> filter (listens name) nodes \<noteq> [], s') \<and>
    cl s' = cl s \<and> world s' = fold (\<lambda>n. call_handler env m (handle n)) (filter (listens name) nodes) (world s)"
  using assms(2)
proof (induction nodes arbitrary: flag s)
  case (Cons n nodes)
  then obtain f where f: "topic_filter n = f @ [0]" "0 \<notin> set f" "legal_levels (levels f)"
    by (auto simp: plain_handler_def)
  have l: "listens name n \<longleftrightarrow> h_fp (handle n) \<noteq> None \<and> (f = name \<or> topic_matched f name)"
    by (simp add: listens_def filter_of_def f(1) matched_plain [OF f(3)])
  note eq = lenstring_equals [OF f(2), of name rest] topic_matched_mem_str [OF f(2), of "[]" name]
  let ?s = "snd (handle_event_call env (handle n) \<lparr>event_type = IOTX_MQTT_EVENT_PUBLISH_RECEIVED, msg = Ev_topic m\<rparr> s)"
  from Cons.IH [of True ?s] Cons.IH [of flag s] Cons.prems show ?case
    by (auto simp: assms(1) f(1) eq l world_handle_event)
qed simp


text \<open>Two handlers on one platform that writes down who was called.\<close>

definition demo_listening :: "demo sys" where
  "demo_listening = upd (list_sub_handle_update (\<lambda>_.
     [\<lparr>topic_type = TOPIC_NAME_TYPE, handle = \<lparr>h_fp = Some 1, pcontext = 0\<rparr>, topic_filter = [0x2F, 0x61, 0]\<rparr>,
      \<lparr>topic_type = TOPIC_NAME_TYPE, handle = \<lparr>h_fp = Some 2, pcontext = 0\<rparr>, topic_filter = [0x2F, 0x62, 0]\<rparr>,
      \<lparr>topic_type = TOPIC_NAME_TYPE, handle = \<lparr>h_fp = Some 3, pcontext = 0\<rparr>, topic_filter = [0x2F, 0x2B, 0]\<rparr>]))
    demo_online"

definition demo_calls :: "demo env" where
  "demo_calls = demo_env\<lparr>app_call := \<lambda>f x m w. w\<lparr>tx := tx w @ [of_nat f]\<rparr>\<rparr>"


section \<open>Subscribing\<close>

definition handler_for :: "byte list \<Rightarrow> nat \<Rightarrow> nat \<Rightarrow> iotx_mc_topic_handle" where
  "handler_for tf f x = \<lparr>topic_type = TOPIC_NAME_TYPE, handle = \<lparr>h_fp = Some f, pcontext = x\<rparr>, topic_filter = tf @ [0]\<rparr>"

text \<open>A handler as a build without the zip option makes it.\<close>

definition made_handler :: "iotx_mc_topic_handle \<Rightarrow> bool" where
  "made_handler n \<longleftrightarrow> topic_type n = TOPIC_NAME_TYPE \<and> (\<exists>f. topic_filter n = f @ [0] \<and> 0 \<notin> set f)"

lemma identical_handler:
  assumes "made_handler n" "0 \<notin> set tf"
  shows "iotx_mc_check_handle_is_identical False n (handler_for tf f x) = Some (if n = handler_for tf f x then 0 else 1)"
proof -
  obtain g where g: "topic_filter n = g @ [0]" "0 \<notin> set g" "topic_type n = TOPIC_NAME_TYPE"
    using assms(1) by (auto simp: made_handler_def)
  show ?thesis
    using assms(2) g c_str_terminated [of g "[]"] c_str_terminated [of tf "[]"]
    by (cases n; cases "handle n")
      (auto simp: iotx_mc_check_handle_is_identical_def iotx_mc_check_handle_is_identical_ex_def
        same_c_string_def handler_for_def)
qed

lemma dup_handler_member:
  "\<forall>n\<in>set nodes. made_handler n \<Longrightarrow> 0 \<notin> set tf \<Longrightarrow>
   dup_handler False (handler_for tf f x) nodes = Some (handler_for tf f x \<in> set nodes)"
  by (induction nodes) (auto simp: identical_handler)

definition add_once :: "'a \<Rightarrow> 'a list \<Rightarrow> 'a list" where
  "add_once h l = (if h \<in> set l then l else l @ [h])"

lemma add_handler_once:
  assumes "\<not> zip_topic env" "\<forall>n\<in>set (list_sub_handle (cl s)). made_handler n" "0 \<notin> set tf"
  shows "add_handler env (handler_for tf f x) s =
    Some (upd (list_sub_handle_update (add_once (handler_for tf f x))) s)"
  using assms dup_handler_member [OF assms(2,3), of f x]
  by (cases "cl s") (simp add: add_handler_def add_once_def upd_def)

lemma make_handler_plain:
  assumes "\<not> zip_topic env" "fst (make_handler env tf s) = Inr h"
  shows "h\<lparr>handle := \<lparr>h_fp = Some f, pcontext = x\<rparr>\<rparr> = handler_for tf f x"
  using assms by (auto simp: make_handler_def handler_for_def Let_def split_beta split: if_splits)

lemma make_handler_error: "fst (make_handler env tf s) = Inl e \<Longrightarrow> e < 0"
  by (auto simp: make_handler_def Let_def split_beta iotx_mc_get_zip_topic_def split: if_splits sum.splits)

lemma alloc_send_error: "fst (alloc_send_buffer env n s) \<le> 0"
  by (simp add: alloc_send_buffer_def Let_def split_beta)

lemma send_packet_rc: "holds (iotx_mc_send_packet env b len t s) (\<lambda>(rc, s'). cl s' = cl s \<and> rc \<le> 0)"
  by (auto simp: iotx_mc_send_packet_def intro!: holds_mono [OF send_loop_holds] split: option.split)

lemma MQTTSubscribe_registers:
  assumes "\<not> zip_topic env" "\<forall>n\<in>set (list_sub_handle (cl s)). made_handler n" "0 \<notin> set tf"
  shows "holds (MQTTSubscribe env tf q i f x s) (\<lambda>(rc, s'). rc \<le> STATE_SUCCESS \<and> list_sub_handle (cl s') =
    (if rc < STATE_SUCCESS then list_sub_handle (cl s) else add_once (handler_for tf f x) (list_sub_handle (cl s))))"
proof -
  define s1 where "s1 = make_handler env tf (snd (countdown env (request_timeout_ms (cl s)) s))"
  have c: "cl (snd s1) = cl s" by (simp add: s1_def)
  have made: "h\<lparr>handle := \<lparr>h_fp = Some f, pcontext = x\<rparr>\<rparr> = handler_for tf f x" if "fst s1 = Inr h" for h
    using make_handler_plain [OF assms(1)] that by (simp add: s1_def)
  have err: "e < 0" if "fst s1 = Inl e" for e
    using make_handler_error that by (simp add: s1_def)
  show ?thesis
    unfolding MQTTSubscribe_def Let_def split_beta s1_def [symmetric]
    using assms c
    by (auto simp: send_rules made add_handler_once alloc_send_error split: sum.split dest: err
        intro!: holds_mono [OF fill_send_holds] holds_mono [OF send_packet_rc]
          holds_any [where m = "MQTTSerialize_subscribe n d i l q" for n d i l q] order.strict_implies_order [OF err])
qed



section \<open>Unsubscribing\<close>

lemma topic_matched_literal: "topic_matched g n \<Longrightarrow> Plus \<notin> set g \<Longrightarrow> Hash \<notin> set g \<Longrightarrow> g = n"
  by (induction g n rule: topic_matched.induct) (auto split: if_splits)

lemma unsub_keeps_plain:
  assumes "made_handler n" "Plus \<notin> set (topic_filter n)" "Hash \<notin> set (topic_filter n)"
  shows "MQTTPacket_equals False \<lparr>cstring = None, lenstring_len = int (length tf + 1), lenstring_data = Some (tf @ [0])\<rparr>
      (topic_filter n) = Some False"
    and "topic_matched_mem (topic_filter n) (tf @ [0]) = Some False"
proof -
  obtain g where g: "topic_filter n = g @ [0]" "0 \<notin> set g"
    using assms(1) by (auto simp: made_handler_def)
  have ne: "g \<noteq> tf @ [0]" using g(2) by auto
  show "MQTTPacket_equals False \<lparr>cstring = None, lenstring_len = int (length tf + 1), lenstring_data = Some (tf @ [0])\<rparr>
      (topic_filter n) = Some False"
  proof (cases "length g = length tf + 1")
    case True
    then have "take (length g) (tf @ [0]) = tf @ [0]" by simp
    with True ne g c_str_terminated [OF g(2), of "[]"] show ?thesis
      by (auto simp: MQTTPacket_equals_def memcmp_eq_def Let_def min_def)
  next
    case False
    then have "int (length tf + 1) \<noteq> int (length g)" by simp
    with g c_str_terminated [OF g(2), of "[]"] show ?thesis
      by (simp add: MQTTPacket_equals_def)
  qed
  show "topic_matched_mem (topic_filter n) (tf @ [0]) = Some False"
    using g assms(2,3) topic_matched_mem_str [OF g(2), of "[]"] topic_matched_literal [of g "tf @ [0]"] ne by auto
qed

lemma unsub_filter_keeps:
  assumes "unsub_filter False \<lparr>cstring = None, lenstring_len = int (length tf + 1), lenstring_data = Some (tf @ [0])\<rparr>
      (tf @ [0]) nodes = Some nodes'"
    and "n \<in> set nodes" "made_handler n" "Plus \<notin> set (topic_filter n)" "Hash \<notin> set (topic_filter n)"
  shows "n \<in> set nodes'"
  using assms(1,2)
proof (induction nodes arbitrary: nodes')
  case (Cons m nodes)
  then show ?case
    using unsub_keeps_plain [OF assms(3-5), of tf]
    by (auto simp: Option.bind_eq_Some_conv split: if_splits)
qed simp

lemma make_handler_filter:
  assumes "\<not> zip_topic env" "fst (make_handler env tf s) = Inr h"
  shows "topic_filter h = tf @ [0]"
  using assms by (auto simp: make_handler_def Let_def split_beta split: if_splits)

lemma list_sub_reset [simp]: "list_sub_handle (cl (reset_send_buffer s)) = list_sub_handle (cl s)"
  by (simp add: reset_send_buffer_def)

lemma list_sub_alloc [simp]: "list_sub_handle (cl (snd (alloc_send_buffer env n s))) = list_sub_handle (cl s)"
  by (simp add: alloc_send_buffer_def Let_def split_beta)

lemma MQTTUnsubscribe_keeps:
  assumes "\<not> zip_topic env" "0 \<notin> set tf" "n \<in> set (list_sub_handle (cl s))" "made_handler n"
    "Plus \<notin> set (topic_filter n)" "Hash \<notin> set (topic_filter n)"
  shows "holds (MQTTUnsubscribe env tf i s) (\<lambda>(_, s'). n \<in> set (list_sub_handle (cl s')))"
proof -
  define s1 where "s1 = make_handler env tf (snd (countdown env (request_timeout_ms (cl s)) s))"
  have c: "cl (snd s1) = cl s" by (simp add: s1_def)
  have h: "topic_filter h = tf @ [0]" "c_str (topic_filter h) = Some tf" if "fst s1 = Inr h" for h
    using make_handler_filter [OF assms(1)] c_str_terminated [OF assms(2), of "[]"] that by (simp_all add: s1_def)
  have keep: "holds (unsub_filter False \<lparr>cstring = None, lenstring_len = 1 + int (length tf), lenstring_data = Some (tf @ [0])\<rparr>
      (tf @ [0]) (list_sub_handle (cl s))) (\<lambda>l. n \<in> set l)"
    by (rule holdsI, rule unsub_filter_keeps [OF _ assms(3-6)]) (simp add: add.commute)
  show ?thesis
    unfolding MQTTUnsubscribe_def Let_def split_beta s1_def [symmetric]
    using assms c
    by (auto simp: h split: sum.split
        intro!: holds_mono [OF fill_send_holds] holds_mono [OF send_packet_rc] holds_mono [OF keep]
          holds_any [where m = "MQTTSerialize_unsubscribe n d i l" for n d i l])
qed

text \<open>
  C38. In a build without the zip option an unsubscription removes no handler whose filter has no wildcard,
  not even the one for the very filter it names: the length it compares counts the
  terminating NUL, the length of a registered filter does not. The handler keeps
  receiving whatever the broker still sends.
\<close>

theorem unsubscribe_keeps_plain_handlers:
  assumes "\<not> zip_topic env" "0 \<notin> set tf" "n \<in> set (list_sub_handle (cl s))" "made_handler n"
    and "Plus \<notin> set (topic_filter n)" "Hash \<notin> set (topic_filter n)"
    and "wrapper_mqtt_unsubscribe env (Some tf) s = Some (rc, s')"
  shows "n \<in> set (list_sub_handle (cl s'))"
proof -
  define s1 where "s1 = snd (iotx_mc_get_next_packetid s)"
  have l: "list_sub_handle (cl s1) = list_sub_handle (cl s)"
    by (simp add: s1_def next_packetid_cl)
  have off: "list_sub_handle (cl (offline_on_close rc y)) = list_sub_handle (cl y)" for rc y
    by (simp add: offline_on_close_def)
  have "holds (wrapper_mqtt_unsubscribe env (Some tf) s) (\<lambda>(_, s'). n \<in> set (list_sub_handle (cl s')))"
    unfolding wrapper_mqtt_unsubscribe_def Let_def split_beta s1_def [symmetric]
    using assms(1-6) l
    by (auto simp: off intro!: holds_mono [OF MQTTUnsubscribe_keeps] holds_any [where m = "iotx_mc_check_topic a b" for a b])
  from holdsD [OF this assms(7)] show ?thesis by simp
qed

theorem unsubscribe_keeps_plain_handlers_witness:
  "\<exists>rc s' n. wrapper_mqtt_unsubscribe demo_env (Some [0x2F, 0x61]) demo_listening = Some (rc, s') \<and> rc = 1 \<and>
     topic_filter n = [0x2F, 0x61, 0] \<and> n \<in> set (list_sub_handle (cl s'))"
proof -
  have "map_option fst (wrapper_mqtt_unsubscribe demo_env (Some [0x2F, 0x61]) demo_listening) = Some 1"
    by code_simp
  then obtain s' where s: "wrapper_mqtt_unsubscribe demo_env (Some [0x2F, 0x61]) demo_listening = Some (1, s')"
    by auto
  let ?n = "\<lparr>topic_type = TOPIC_NAME_TYPE, handle = \<lparr>h_fp = Some 1, pcontext = 0\<rparr>, topic_filter = [0x2F, 0x61, 0]\<rparr>"
  have "?n \<in> set (list_sub_handle (cl demo_listening))" "made_handler ?n"
    by (auto simp: demo_listening_def made_handler_def)
  from unsubscribe_keeps_plain_handlers [OF _ _ this _ _ s] s show ?thesis
    by (intro exI [of _ 1] exI [of _ s'] exI [of _ ?n]) simp
qed

end
