(* ===== verification/DevSign.thy ===== *)
theory DevSign
  imports InfraCompat Sha256
begin

text \<open>
  The credentials a device presents to the broker, \<^verbatim>\<open>src/src/dev_sign/dev_sign_mqtt.c\<close>: client
  identifier, user name, and the password, a SHA-256 over identity and secret.

  A \<^verbatim>\<open>char\<close> array is its block of memory; a pointer to a constant string is the string. A
  \<^verbatim>\<open>strlen\<close> that finds no NUL inside its block and a \<^verbatim>\<open>memcpy\<close> past the end of the
  destination are undefined and give \<open>None\<close>.
\<close>

section \<open>Building a string in an array\<close>

text \<open>\<^verbatim>\<open>memcpy(buf + strlen(buf), s, strlen(s))\<close>, which leaves the terminator to the zeros behind it.\<close>

definition str_append :: "byte list \<Rightarrow> byte list \<Rightarrow> byte list option" where
  "str_append buf s = do {
     p \<leftarrow> c_str buf;
     (if length p + length s \<le> length buf then Some (buf_write buf (length p) s) else None) }"

fun append_all :: "byte list list \<Rightarrow> byte list \<Rightarrow> byte list option" where
  "append_all [] buf = Some buf"
| "append_all (s # ss) buf = do { buf \<leftarrow> str_append buf s; append_all ss buf }"

section \<open>The client identifier\<close>

definition DEV_SIGN_SOURCE_MAXLEN :: nat where "DEV_SIGN_SOURCE_MAXLEN = 200"
definition DEV_SIGN_HOSTNAME_MAXLEN :: nat where "DEV_SIGN_HOSTNAME_MAXLEN = 64"
definition DEV_SIGN_CLIENT_ID_MAXLEN :: nat where "DEV_SIGN_CLIENT_ID_MAXLEN = 200"
definition DEV_SIGN_USERNAME_MAXLEN :: nat where "DEV_SIGN_USERNAME_MAXLEN = 100"
definition DEV_SIGN_PASSWORD_MAXLEN :: nat where "DEV_SIGN_PASSWORD_MAXLEN = 65"

lemmas sign_limits = DEV_SIGN_SOURCE_MAXLEN_def DEV_SIGN_HOSTNAME_MAXLEN_def DEV_SIGN_CLIENT_ID_MAXLEN_def
  DEV_SIGN_USERNAME_MAXLEN_def DEV_SIGN_PASSWORD_MAXLEN_def

definition TIMESTAMP_VALUE :: "byte list" where "TIMESTAMP_VALUE = ascii ''2524608000000''"

definition clientid_kv :: "(byte list \<times> byte list) list" where
  "clientid_kv = [(ascii ''securemode'', ascii ''2''), (ascii ''signmethod'', ascii ''sha256''),
     (ascii ''timestamp'', TIMESTAMP_VALUE)]"

fun clientid_kv_loop :: "(byte list \<times> byte list) list \<Rightarrow> byte list \<Rightarrow> (int \<times> byte list) option" where
  "clientid_kv_loop [] buf = Some (STATE_SUCCESS, buf)"
| "clientid_kv_loop ((k, v) # kvs) buf = do {
     p \<leftarrow> c_str buf;
     (if length p + length k + length v + 2 \<ge> DEV_SIGN_CLIENT_ID_MAXLEN
      then Some (STATE_MQTT_SIGN_CLIENTID_BUF_SHORT, buf)
      else do {
        buf \<leftarrow> append_all [k, ascii ''='', v, ascii '',''] buf;
        clientid_kv_loop kvs buf }) }"

definition sign_get_clientid ::
  "byte list \<Rightarrow> byte list \<Rightarrow> byte list option \<Rightarrow> (int \<times> byte list) option" where
  "sign_get_clientid clientid_string device_id custom_kv =
     (if length clientid_string < DEV_SIGN_CLIENT_ID_MAXLEN then None
      else do {
        let buf = buf_write clientid_string 0 (replicate DEV_SIGN_CLIENT_ID_MAXLEN 0);
        d \<leftarrow> c_str device_id;
        (if length d + 1 \<ge> DEV_SIGN_CLIENT_ID_MAXLEN then Some (STATE_MQTT_SIGN_CLIENTID_BUF_SHORT, buf)
         else do {
           buf \<leftarrow> append_all [d, ascii ''|''] buf;
           (rc, buf) \<leftarrow> clientid_kv_loop clientid_kv buf;
           (if rc \<noteq> STATE_SUCCESS then Some (rc, buf)
            else do {
              (rc, buf) \<leftarrow> (case custom_kv of
                  None \<Rightarrow> Some (STATE_SUCCESS, buf)
                | Some kv \<Rightarrow> do {
                    p \<leftarrow> c_str buf;
                    (if length p + length kv + 1 \<ge> DEV_SIGN_CLIENT_ID_MAXLEN
                     then Some (STATE_MQTT_SIGN_CLIENTID_BUF_SHORT, buf)
                     else do {
                       buf \<leftarrow> append_all [kv, ascii '',''] buf;
                       Some (STATE_SUCCESS, buf) }) });
              (if rc \<noteq> STATE_SUCCESS then Some (rc, buf)
               else do {
                 p \<leftarrow> c_str buf;
                 (if p = [] then None
                  else Some (STATE_SUCCESS, buf_write buf (length p - 1) (ascii ''|''))) }) }) }) })"

section \<open>The password\<close>

definition SIGN_FMT_LEN :: nat where "SIGN_FMT_LEN = 50"

fun sign_hex2str :: "byte list \<Rightarrow> byte list" where
  "sign_hex2str [] = []"
| "sign_hex2str (b # bs) =
     ascii ''0123456789ABCDEF'' ! unat (drop_bit 4 b AND 0xF) # ascii ''0123456789ABCDEF'' ! unat (b AND 0xF)
     # sign_hex2str bs"

text \<open>The secret is not counted in the length that is checked.\<close>

definition iotx_generate_sign_string ::
  "byte list \<Rightarrow> byte list \<Rightarrow> byte list \<Rightarrow> byte list \<Rightarrow> byte list \<Rightarrow> (int \<times> byte list) option" where
  "iotx_generate_sign_string id_mem dk_mem pk_mem ds_mem sign_string = do {
     d \<leftarrow> c_str id_mem;
     dk \<leftarrow> c_str dk_mem;
     pk \<leftarrow> c_str pk_mem;
     let signsource_len = (word_of_nat (SIGN_FMT_LEN + length d + length dk + length pk + length TIMESTAMP_VALUE) :: u16);
     (if unat signsource_len \<ge> DEV_SIGN_SOURCE_MAXLEN then Some (STATE_MQTT_SIGN_SOURCE_BUF_SHORT, sign_string)
      else do {
        ds \<leftarrow> c_str ds_mem;
        signsource \<leftarrow> append_all [ascii ''clientId'', d, ascii ''deviceKey'', dk, ascii ''productKey'', pk,
          ascii ''timestamp'', TIMESTAMP_VALUE, ds] (replicate DEV_SIGN_SOURCE_MAXLEN 0);
        src \<leftarrow> c_str signsource;
        let hex = sign_hex2str (utils_sha256 src);
        (if length hex \<le> length sign_string then Some (STATE_SUCCESS, buf_write sign_string 0 hex) else None) }) }"

section \<open>Signing\<close>

record iotx_dev_meta_info =
  meta_product_key :: "byte list"
  meta_product_secret :: "byte list"
  meta_device_key :: "byte list"
  meta_device_secret :: "byte list"

record iotx_sign_mqtt =
  hostname :: "byte list"
  sign_port :: u16
  sign_clientid :: "byte list"
  sign_username :: "byte list"
  sign_password :: "byte list"

definition sign_zero :: iotx_sign_mqtt where
  "sign_zero = \<lparr>hostname = replicate DEV_SIGN_HOSTNAME_MAXLEN 0, sign_port = 0,
     sign_clientid = replicate DEV_SIGN_CLIENT_ID_MAXLEN 0, sign_username = replicate DEV_SIGN_USERNAME_MAXLEN 0,
     sign_password = replicate DEV_SIGN_PASSWORD_MAXLEN 0\<rparr>"

text \<open>\<^verbatim>\<open>product_key "." device_key\<close> in an array of exactly that length, without room for a NUL.\<close>

definition make_device_id :: "iotx_dev_meta_info \<Rightarrow> byte list option" where
  "make_device_id meta = do {
     pk \<leftarrow> c_str (meta_product_key meta);
     let device_id = replicate (IOTX_PRODUCT_KEY_LEN + IOTX_DEVICE_KEY_LEN + 1) 0;
     device_id \<leftarrow> (if length pk \<le> length device_id then Some (buf_write device_id 0 pk) else None);
     dk \<leftarrow> c_str (meta_device_key meta);
     append_all [ascii ''.'', dk] device_id }"

definition IOT_Sign_MQTT ::
  "byte list option \<Rightarrow> iotx_dev_meta_info option \<Rightarrow> iotx_sign_mqtt \<Rightarrow> (int \<times> iotx_sign_mqtt) option" where
  "IOT_Sign_MQTT domain meta signout =
     (case meta of
        None \<Rightarrow> Some (STATE_USER_INPUT_INVALID, signout)
      | Some meta \<Rightarrow> do {
          let out = sign_zero;
          device_id \<leftarrow> make_device_id meta;
          (rc, id) \<leftarrow> sign_get_clientid (sign_clientid out) device_id None;
          let out = out\<lparr>sign_clientid := id\<rparr>;
          (if rc < STATE_SUCCESS then Some (STATE_MQTT_SIGN_CLIENTID_BUF_SHORT, out)
           else do {
             (rc, pw) \<leftarrow> iotx_generate_sign_string device_id (meta_device_key meta) (meta_product_key meta)
               (meta_device_secret meta) (sign_password out);
             let out = out\<lparr>sign_password := pw\<rparr>;
             (if rc < STATE_SUCCESS then Some (rc, out)
              else case domain of
                None \<Rightarrow> Some (STATE_USER_INPUT_MQTT_DOMAIN, out)
              | Some host \<Rightarrow>
                  if unat (word_of_nat (length host + 1) :: u16) \<ge> DEV_SIGN_HOSTNAME_MAXLEN
                  then Some (STATE_MQTT_SIGN_HOSTNAME_BUF_SHORT, out)
                  else if length host > DEV_SIGN_HOSTNAME_MAXLEN then None
                  else do {
                    let out = out\<lparr>hostname := buf_write (hostname out) 0 host\<rparr>;
                    dk \<leftarrow> c_str (meta_device_key meta);
                    pk \<leftarrow> c_str (meta_product_key meta);
                    (if unat (word_of_nat (length dk + length pk + 2) :: u16) \<ge> DEV_SIGN_USERNAME_MAXLEN
                     then Some (STATE_MQTT_SIGN_USERNAME_BUF_SHORT, out)
                     else do {
                       user \<leftarrow> append_all [dk, ascii ''&'', pk] (sign_username out);
                       Some (STATE_SUCCESS, out\<lparr>sign_username := user, sign_port := 11883\<rparr>) }) }) }) })"


section \<open>Strings in arrays\<close>

definition text_in :: "nat \<Rightarrow> byte list \<Rightarrow> byte list" where
  "text_in n p = p @ replicate (n - length p) 0"

lemma length_text_in [simp]: "length p \<le> n \<Longrightarrow> length (text_in n p) = n"
  by (simp add: text_in_def)

lemma replicate_text_in: "replicate n 0 = text_in n []"
  by (simp add: text_in_def)

lemma c_str_text_in [simp]:
  "0 \<notin> set p \<Longrightarrow> length p \<le> n \<Longrightarrow> c_str (text_in n p) = (if length p < n then Some p else None)"
  by (cases "n - length p") (auto simp: text_in_def c_str_def takeWhile_append)

lemma str_append_text_in [simp]:
  "0 \<notin> set p \<Longrightarrow> length p \<le> n \<Longrightarrow>
   str_append (text_in n p) s =
     (if length p < n \<and> length p + length s \<le> n then Some (text_in n (p @ s)) else None)"
proof -
  assume p: "0 \<notin> set p" "length p \<le> n"
  have "buf_write (text_in n p) (length p) s = text_in n (p @ s)" if "length p + length s \<le> n"
    using that by (simp add: text_in_def buf_write_fits)
  with p show ?thesis by (simp add: str_append_def)
qed

lemma str_append_text_in0 [simp]:
  "str_append (text_in n p) s = None" if "n = length p" "0 \<notin> set p"
  using that by simp

lemma sign_literals [simp]:
  "ascii ''='' = [0x3D]" "ascii '','' = [0x2C]" "ascii ''|'' = [0x7C]" "ascii ''.'' = [0x2E]" "ascii ''&'' = [0x26]"
  "0 \<notin> set (ascii ''clientId'')" "0 \<notin> set (ascii ''deviceKey'')" "0 \<notin> set (ascii ''productKey'')"
  "0 \<notin> set (ascii ''timestamp'')" "0 \<notin> set (ascii ''securemode'')" "0 \<notin> set (ascii ''signmethod'')"
  "0 \<notin> set (ascii ''2'')" "0 \<notin> set (ascii ''sha256'')" "0 \<notin> set TIMESTAMP_VALUE"
  by (simp_all add: ascii_def TIMESTAMP_VALUE_def)

lemma length_TIMESTAMP [simp]: "length TIMESTAMP_VALUE = 13"
  by (simp add: TIMESTAMP_VALUE_def)

lemma append_all_text_in:
  "0 \<notin> set p \<Longrightarrow> length p \<le> n \<Longrightarrow> \<forall>s\<in>set ss. 0 \<notin> set s \<Longrightarrow> length (p @ concat ss) < n \<Longrightarrow>
   append_all ss (text_in n p) = Some (text_in n (p @ concat ss))"
proof (induction ss arbitrary: p)
  case (Cons s ss)
  then show ?case by simp
qed simp

lemma append_all_overflow:
  "0 \<notin> set p \<Longrightarrow> length p \<le> n \<Longrightarrow> \<forall>s\<in>set ss. 0 \<notin> set s \<Longrightarrow> n < length (p @ concat ss) \<Longrightarrow>
   append_all ss (text_in n p) = None"
proof (induction ss arbitrary: p)
  case (Cons s ss)
  then show ?case by auto
qed simp

section \<open>The client identifier\<close>

lemma kv_loop_text_in:
  "0 \<notin> set p \<Longrightarrow> \<forall>(k, v)\<in>set kvs. 0 \<notin> set k \<and> 0 \<notin> set v \<Longrightarrow>
   length (p @ concat (map (\<lambda>(k, v). k @ [0x3D] @ v @ [0x2C]) kvs)) < DEV_SIGN_CLIENT_ID_MAXLEN \<Longrightarrow>
   clientid_kv_loop kvs (text_in DEV_SIGN_CLIENT_ID_MAXLEN p) = Some (STATE_SUCCESS,
     text_in DEV_SIGN_CLIENT_ID_MAXLEN (p @ concat (map (\<lambda>(k, v). k @ [0x3D] @ v @ [0x2C]) kvs)))"
proof (induction kvs arbitrary: p)
  case (Cons kv kvs)
  obtain k v where kv: "kv = (k, v)" by fastforce
  with Cons.prems Cons.IH [of "p @ k @ [0x3D] @ v @ [0x2C]"] show ?case
    by (auto simp: append_all_text_in)
qed simp

definition clientid_fixed :: "byte list" where
  "clientid_fixed = ascii ''securemode=2,signmethod=sha256,timestamp=2524608000000''"

lemma length_clientid_fixed [simp]: "length clientid_fixed = 54"
  by (simp add: clientid_fixed_def)

lemma clientid_fixed_kv: "concat (map (\<lambda>(k, v). k @ [0x3D] @ v @ [0x2C]) clientid_kv) = clientid_fixed @ [0x2C]"
  by (simp add: clientid_kv_def clientid_fixed_def TIMESTAMP_VALUE_def ascii_def)

lemma clientid_fixed_clean [simp]: "0 \<notin> set clientid_fixed"
  by (simp add: clientid_fixed_def ascii_def)

text \<open>What the broker is to see as the client identifier.\<close>

definition clientid_text :: "byte list \<Rightarrow> byte list option \<Rightarrow> byte list" where
  "clientid_text d kv = d @ [0x7C] @ clientid_fixed @ (case kv of None \<Rightarrow> [] | Some s \<Rightarrow> 0x2C # s) @ [0x7C]"

definition kv_clean :: "byte list option \<Rightarrow> bool" where
  "kv_clean kv \<longleftrightarrow> (case kv of None \<Rightarrow> True | Some s \<Rightarrow> 0 \<notin> set s)"

lemma clientid_base:
  assumes "c_str m = Some d" "0 \<notin> set d" "length d < 144"
  shows "append_all [d, [0x7C]] (text_in DEV_SIGN_CLIENT_ID_MAXLEN []) =
      Some (text_in DEV_SIGN_CLIENT_ID_MAXLEN (d @ [0x7C]))"
    "clientid_kv_loop clientid_kv (text_in DEV_SIGN_CLIENT_ID_MAXLEN (d @ [0x7C])) =
      Some (STATE_SUCCESS, text_in DEV_SIGN_CLIENT_ID_MAXLEN (d @ [0x7C] @ clientid_fixed @ [0x2C]))"
proof -
  show "append_all [d, [0x7C]] (text_in DEV_SIGN_CLIENT_ID_MAXLEN []) =
      Some (text_in DEV_SIGN_CLIENT_ID_MAXLEN (d @ [0x7C]))"
    using assms by (subst append_all_text_in) (auto simp: sign_limits)
  have kvs: "\<forall>(k, v)\<in>set clientid_kv. 0 \<notin> set k \<and> 0 \<notin> set v"
    by (simp add: clientid_kv_def)
  show "clientid_kv_loop clientid_kv (text_in DEV_SIGN_CLIENT_ID_MAXLEN (d @ [0x7C])) =
      Some (STATE_SUCCESS, text_in DEV_SIGN_CLIENT_ID_MAXLEN (d @ [0x7C] @ clientid_fixed @ [0x2C]))"
    using kv_loop_text_in [OF _ kvs, of "d @ [0x7C]"] assms unfolding clientid_fixed_kv
    by (simp add: sign_limits)
qed

lemma close_bar:
  "length p < n \<Longrightarrow> buf_write (text_in n (p @ [0x2C])) (length p) [0x7C] = text_in n (p @ [0x7C])"
  by (simp add: text_in_def buf_write_fits)

lemma sign_get_clientid_ok:
  assumes "length buf = DEV_SIGN_CLIENT_ID_MAXLEN" "c_str m = Some d" "0 \<notin> set d" "kv_clean kv"
    and "length (clientid_text d kv) < DEV_SIGN_CLIENT_ID_MAXLEN"
  shows "sign_get_clientid buf m kv = Some (STATE_SUCCESS, text_in DEV_SIGN_CLIENT_ID_MAXLEN (clientid_text d kv))"
proof -
  let ?N = DEV_SIGN_CLIENT_ID_MAXLEN
  have d: "length d < 144" using assms(5) by (simp add: clientid_text_def sign_limits)
  have z: "buf_write buf 0 (replicate ?N 0) = text_in ?N []"
    using assms(1) by (simp add: buf_write_fits text_in_def)
  note base = clientid_base [OF assms(2,3) d]
  show ?thesis
  proof (cases kv)
    case None
    have "buf_write (text_in ?N ((d @ [0x7C] @ clientid_fixed) @ [0x2C])) (length (d @ [0x7C] @ clientid_fixed)) [0x7C]
        = text_in ?N ((d @ [0x7C] @ clientid_fixed) @ [0x7C])"
      by (rule close_bar) (use d in \<open>simp add: sign_limits\<close>)
    with None base z assms(1,2,3) d show ?thesis
      by (simp add: sign_get_clientid_def clientid_text_def sign_limits add.commute [of 55] add.left_commute [of 56])
  next
    case (Some s)
    have s: "0 \<notin> set s" "length d + length s < 143"
      using assms(4,5) by (simp_all add: Some kv_clean_def clientid_text_def sign_limits)
    have a: "append_all [s, [0x2C]] (text_in ?N (d @ [0x7C] @ clientid_fixed @ [0x2C])) =
        Some (text_in ?N ((d @ [0x7C] @ clientid_fixed @ [0x2C]) @ s @ [0x2C]))"
      using s assms(3) by (subst append_all_text_in) (auto simp: sign_limits)
    have "buf_write (text_in ?N ((d @ [0x7C] @ clientid_fixed @ [0x2C] @ s) @ [0x2C]))
        (length (d @ [0x7C] @ clientid_fixed @ [0x2C] @ s)) [0x7C]
        = text_in ?N ((d @ [0x7C] @ clientid_fixed @ [0x2C] @ s) @ [0x7C])"
      by (rule close_bar) (use s in \<open>simp add: sign_limits\<close>)
    with Some base z assms(1,2,3) d s a show ?thesis
      by (simp add: sign_get_clientid_def clientid_text_def sign_limits add.commute [of 55] add.left_commute [of 56])
  qed
qed

lemma sign_get_clientid_short:
  assumes "length buf = DEV_SIGN_CLIENT_ID_MAXLEN" "c_str m = Some d" "0 \<notin> set d" "0 \<notin> set s" "length d < 144"
    and "DEV_SIGN_CLIENT_ID_MAXLEN \<le> length (clientid_text d (Some s))"
  shows "\<exists>buf'. sign_get_clientid buf m (Some s) = Some (STATE_MQTT_SIGN_CLIENTID_BUF_SHORT, buf')"
proof -
  let ?N = DEV_SIGN_CLIENT_ID_MAXLEN
  have z: "buf_write buf 0 (replicate ?N 0) = text_in ?N []"
    using assms(1) by (simp add: buf_write_fits text_in_def)
  with clientid_base [OF assms(2,3,5)] assms show ?thesis
    by (simp add: sign_get_clientid_def clientid_text_def sign_limits add.commute [of 55] add.left_commute [of 56])
qed

lemma make_device_id_eq:
  assumes "meta_product_key meta = text_in (IOTX_PRODUCT_KEY_LEN + 1) pk" "0 \<notin> set pk" "length pk \<le> IOTX_PRODUCT_KEY_LEN"
    and "meta_device_key meta = text_in (IOTX_DEVICE_KEY_LEN + 1) dk" "0 \<notin> set dk" "length dk \<le> IOTX_DEVICE_KEY_LEN"
  shows "make_device_id meta = Some (text_in (IOTX_PRODUCT_KEY_LEN + IOTX_DEVICE_KEY_LEN + 1) (pk @ [0x2E] @ dk))"
proof -
  have "buf_write (text_in 85 []) 0 pk = text_in 85 pk"
    using assms(3) by (simp add: text_in_def buf_write_fits len_limits)
  with assms show ?thesis
    by (simp add: make_device_id_def len_limits replicate_text_in)
qed

section \<open>The password\<close>

lemma u16_unat: "k < 65536 \<Longrightarrow> unat (word_of_nat k :: u16) = k"
  by (simp add: unat_of_nat)

lemma utils_sha256_fips: "length input < 2 ^ 32 \<Longrightarrow> utils_sha256 input = fips_sha256 input"
  using update_absorbed [OF absorbed_starts, of utils_sha256_init input]
  by (simp add: utils_sha256_def Let_def finish_digest utils_sha256_init_def)

lemma length_fips_sha256: "length (fips_sha256 m) = 32"
proof -
  have "length (fips_blocks fips_H0 (fips_pad m)) = 8" by simp
  then show ?thesis
    by (simp add: fips_sha256_def length_concat PUT_UINT32_BE_def comp_def sum_list_triv)
qed

lemma length_sign_hex2str [simp]: "length (sign_hex2str bs) = 2 * length bs"
  by (induction bs) simp_all

definition sign_source :: "byte list \<Rightarrow> byte list \<Rightarrow> byte list \<Rightarrow> byte list" where
  "sign_source pk dk ds = ascii ''clientId'' @ pk @ [0x2E] @ dk @ ascii ''deviceKey'' @ dk @ ascii ''productKey'' @ pk
     @ ascii ''timestamp2524608000000'' @ ds"

lemma append_then_c_str:
  "0 \<notin> set p \<Longrightarrow> length p \<le> n \<Longrightarrow> \<forall>s\<in>set ss. 0 \<notin> set s \<Longrightarrow> n \<le> length (p @ concat ss) \<Longrightarrow>
   Option.bind (append_all ss (text_in n p)) (\<lambda>b. Option.bind (c_str b) f) = None"
proof (induction ss arbitrary: p)
  case (Cons s ss)
  then show ?case by auto
qed simp

lemma timestamp_text: "ascii ''timestamp2524608000000'' = ascii ''timestamp'' @ TIMESTAMP_VALUE"
  by (simp add: TIMESTAMP_VALUE_def ascii_def)

definition sign_fits :: "byte list \<Rightarrow> byte list \<Rightarrow> byte list \<Rightarrow> bool" where
  "sign_fits pk dk ds \<longleftrightarrow> length (sign_source pk dk ds) < DEV_SIGN_SOURCE_MAXLEN"

lemma sign_source_length: "length (sign_source pk dk ds) = 50 + 2 * (length pk + length dk) + length ds"
  by (simp add: sign_source_def)

lemma generate_sign_string:
  assumes "c_str id_mem = Some (pk @ [0x2E] @ dk)" "c_str dk_mem = Some dk" "c_str pk_mem = Some pk" "c_str ds_mem = Some ds"
    and clean: "0 \<notin> set pk" "0 \<notin> set dk" "0 \<notin> set ds" and n: "length pk + length dk < 84"
    and out: "length out = DEV_SIGN_PASSWORD_MAXLEN"
  shows "iotx_generate_sign_string id_mem dk_mem pk_mem ds_mem out =
    (if 68 \<le> length pk + length dk then Some (STATE_MQTT_SIGN_SOURCE_BUF_SHORT, out)
     else if sign_fits pk dk ds
     then Some (STATE_SUCCESS, buf_write out 0 (sign_hex2str (fips_sha256 (sign_source pk dk ds))))
     else None)"
proof -
  let ?ss = "[ascii ''clientId'', pk @ [0x2E] @ dk, ascii ''deviceKey'', dk, ascii ''productKey'', pk,
          ascii ''timestamp'', TIMESTAMP_VALUE, ds]"
  have src: "concat ?ss = sign_source pk dk ds"
    by (simp add: sign_source_def timestamp_text)
  have ss: "\<forall>s\<in>set ?ss. 0 \<notin> set s" using clean by simp
  have len: "unat (word_of_nat (SIGN_FMT_LEN + length (pk @ [0x2E] @ dk) + length dk + length pk + length TIMESTAMP_VALUE) :: u16)
      = 64 + 2 * (length pk + length dk)"
    using n by (subst u16_unat) (simp_all add: SIGN_FMT_LEN_def)
  have small: "length (sign_source pk dk ds) < 2 ^ 32" if "sign_fits pk dk ds"
    using that by (simp add: sign_fits_def sign_limits)
  have clean_src: "0 \<notin> set (sign_source pk dk ds)" using ss by (simp flip: src)
  show ?thesis
  proof (cases "sign_fits pk dk ds")
    case True
    have "append_all ?ss (replicate DEV_SIGN_SOURCE_MAXLEN 0) = Some (text_in DEV_SIGN_SOURCE_MAXLEN (sign_source pk dk ds))"
      using append_all_text_in [OF _ _ ss, of "[]" DEV_SIGN_SOURCE_MAXLEN] True
      by (simp only: replicate_text_in src sign_fits_def) (simp add: src)
    moreover have "c_str (text_in DEV_SIGN_SOURCE_MAXLEN (sign_source pk dk ds)) = Some (sign_source pk dk ds)"
      using True clean_src by (simp add: sign_fits_def)
    ultimately show ?thesis
      using assms True utils_sha256_fips [OF small [OF True]]
      by (simp only: iotx_generate_sign_string_def assms(1-4) Option.bind.simps(2) Let_def len)
        (simp add: length_fips_sha256 sign_limits del: append_all.simps)
  next
    case False
    have "Option.bind (append_all ?ss (replicate DEV_SIGN_SOURCE_MAXLEN 0)) (\<lambda>b. Option.bind (c_str b) f) = None"
      for f :: "byte list \<Rightarrow> (int \<times> byte list) option"
      unfolding replicate_text_in
      by (rule append_then_c_str) (use False ss src in \<open>auto simp: sign_fits_def\<close>)
    with False show ?thesis
      by (simp only: iotx_generate_sign_string_def assms(1-4) Option.bind.simps(2) Let_def len)
        (simp add: sign_limits del: append_all.simps)
  qed
qed

section \<open>Signing\<close>

text \<open>A device identity as the SDK holds it: NUL-terminated strings in their arrays.\<close>

definition meta_of :: "byte list \<Rightarrow> byte list \<Rightarrow> byte list \<Rightarrow> iotx_dev_meta_info" where
  "meta_of pk dk ds = \<lparr>meta_product_key = text_in (IOTX_PRODUCT_KEY_LEN + 1) pk,
     meta_product_secret = text_in (IOTX_PRODUCT_SECRET_LEN + 1) [],
     meta_device_key = text_in (IOTX_DEVICE_KEY_LEN + 1) dk, meta_device_secret = text_in (IOTX_DEVICE_SECRET_LEN + 1) ds\<rparr>"

definition identity_ok :: "byte list \<Rightarrow> byte list \<Rightarrow> byte list \<Rightarrow> bool" where
  "identity_ok pk dk ds \<longleftrightarrow> 0 \<notin> set pk \<and> 0 \<notin> set dk \<and> 0 \<notin> set ds \<and> length pk \<le> IOTX_PRODUCT_KEY_LEN \<and>
     length dk \<le> IOTX_DEVICE_KEY_LEN \<and> length ds \<le> IOTX_DEVICE_SECRET_LEN"

lemma sign_zero_lengths:
  "sign_password sign_zero = text_in DEV_SIGN_PASSWORD_MAXLEN []" "hostname sign_zero = text_in DEV_SIGN_HOSTNAME_MAXLEN []"
  "sign_username sign_zero = text_in DEV_SIGN_USERNAME_MAXLEN []" "length (sign_clientid sign_zero) = DEV_SIGN_CLIENT_ID_MAXLEN"
  by (simp_all add: sign_zero_def text_in_def)

definition signed :: "byte list \<Rightarrow> byte list \<Rightarrow> byte list \<Rightarrow> byte list \<Rightarrow> iotx_sign_mqtt" where
  "signed pk dk ds host = \<lparr>hostname = text_in DEV_SIGN_HOSTNAME_MAXLEN host, sign_port = 11883,
     sign_clientid = text_in DEV_SIGN_CLIENT_ID_MAXLEN (clientid_text (pk @ [0x2E] @ dk) None),
     sign_username = text_in DEV_SIGN_USERNAME_MAXLEN (dk @ [0x26] @ pk),
     sign_password = text_in DEV_SIGN_PASSWORD_MAXLEN (sign_hex2str (fips_sha256 (sign_source pk dk ds)))\<rparr>"

lemma buf_write_text_in: "length s \<le> n \<Longrightarrow> buf_write (text_in n []) 0 s = text_in n s"
  by (simp add: text_in_def buf_write_fits)

lemma device_id_of:
  "identity_ok pk dk ds \<Longrightarrow> make_device_id (meta_of pk dk ds) = Some (text_in 85 (pk @ [0x2E] @ dk))"
  using make_device_id_eq [of "meta_of pk dk ds" pk dk] by (simp add: meta_of_def identity_ok_def len_limits)

text \<open>Keys of full length leave the identity without a terminator.\<close>

lemma sign_full_identity:
  assumes "identity_ok pk dk ds" "length pk + length dk = 84"
  shows "IOT_Sign_MQTT domain (Some (meta_of pk dk ds)) out = None"
proof -
  have "c_str (text_in 85 (pk @ [0x2E] @ dk)) = None"
    using assms by (simp add: identity_ok_def)
  with device_id_of [OF assms(1)] show ?thesis
    by (simp add: IOT_Sign_MQTT_def sign_get_clientid_def sign_zero_lengths Let_def)
qed

lemma sign_short_identity:
  assumes "identity_ok pk dk ds" "length pk + length dk < 84"
  shows "\<exists>out out'. IOT_Sign_MQTT domain (Some (meta_of pk dk ds)) signout =
    (if 68 \<le> length pk + length dk then Some (STATE_MQTT_SIGN_SOURCE_BUF_SHORT, out)
     else if \<not> sign_fits pk dk ds then None
     else case domain of
       None \<Rightarrow> Some (STATE_USER_INPUT_MQTT_DOMAIN, out)
     | Some host \<Rightarrow>
         if unat (word_of_nat (length host + 1) :: u16) \<ge> DEV_SIGN_HOSTNAME_MAXLEN
         then Some (STATE_MQTT_SIGN_HOSTNAME_BUF_SHORT, out')
         else if length host > DEV_SIGN_HOSTNAME_MAXLEN then None
         else Some (STATE_SUCCESS, signed pk dk ds host))"
proof -
  let ?m = "meta_of pk dk ds" and ?d = "pk @ [0x2E] @ dk"
  note id = device_id_of [OF assms(1)]
  have strs: "c_str (meta_product_key ?m) = Some pk" "c_str (meta_device_key ?m) = Some dk" "c_str (meta_device_secret ?m) = Some ds"
    using assms(1) by (simp_all add: meta_of_def identity_ok_def)
  have d: "c_str (text_in 85 ?d) = Some ?d" using assms by (simp add: identity_ok_def)
  have cl: "sign_get_clientid (sign_clientid sign_zero) (text_in 85 ?d) None =
      Some (STATE_SUCCESS, text_in DEV_SIGN_CLIENT_ID_MAXLEN (clientid_text ?d None))"
    by (rule sign_get_clientid_ok [OF _ d]) (use assms in \<open>auto simp: sign_zero_lengths identity_ok_def kv_clean_def
      clientid_text_def sign_limits\<close>)
  have user: "append_all [dk, ascii ''&'', pk] (text_in DEV_SIGN_USERNAME_MAXLEN []) =
      Some (text_in DEV_SIGN_USERNAME_MAXLEN (dk @ [0x26] @ pk))"
    by (subst append_all_text_in) (use assms in \<open>auto simp: identity_ok_def sign_limits\<close>)
  have ulen: "unat (word_of_nat (length dk + length pk + 2) :: u16) = length dk + length pk + 2"
    using assms(2) by (subst u16_unat) simp_all
  have out: "length (sign_password sign_zero) = DEV_SIGN_PASSWORD_MAXLEN" by (simp add: sign_zero_lengths)
  note gen = generate_sign_string [OF d strs(2,1,3) _ _ _ assms(2) out]
  show ?thesis
  proof (cases "68 \<le> length pk + length dk \<or> \<not> sign_fits pk dk ds")
    case True
    then show ?thesis
      using id cl gen assms(1) by (auto simp: IOT_Sign_MQTT_def Let_def identity_ok_def)
  next
    case False
    with assms(2) have "length dk + length pk + 2 < 100" by simp
    with False show ?thesis
      using id cl gen assms(1) user strs ulen
      by (simp add: IOT_Sign_MQTT_def Let_def identity_ok_def sign_zero_lengths buf_write_text_in length_fips_sha256
        signed_def sign_limits split: option.split)
  qed
qed

text \<open>
  C13. For an identity short enough for the signature buffer, signing gives the credentials EnOS
  specifies: the client identifier \<^verbatim>\<open>pk.dk|securemode=2,signmethod=sha256,timestamp=...|\<close>, the user
  name \<^verbatim>\<open>dk&pk\<close>, the host of the configured domain, port 11883, and as password the upper-case
  hexadecimal FIPS SHA-256 of \<^verbatim>\<open>clientId\<close>, \<^verbatim>\<open>deviceKey\<close>, \<^verbatim>\<open>productKey\<close>, \<^verbatim>\<open>timestamp\<close> and the secret.
\<close>

theorem sign_credentials:
  assumes "identity_ok pk dk ds" "length pk + length dk < 68" "2 * (length pk + length dk) + length ds < 150"
    and "length host \<le> 62"
  shows "IOT_Sign_MQTT (Some host) (Some (meta_of pk dk ds)) out =
    Some (STATE_SUCCESS, \<lparr>hostname = text_in 64 host, sign_port = 11883,
      sign_clientid = text_in 200 (pk @ ascii ''.'' @ dk @ ascii ''|securemode=2,signmethod=sha256,timestamp=2524608000000|''),
      sign_username = text_in 100 (dk @ ascii ''&'' @ pk),
      sign_password = text_in 65 (sign_hex2str (fips_sha256
        (ascii ''clientId'' @ pk @ ascii ''.'' @ dk @ ascii ''deviceKey'' @ dk @ ascii ''productKey'' @ pk
         @ ascii ''timestamp2524608000000'' @ ds)))\<rparr>)"
proof -
  have fixed: "ascii ''|securemode=2,signmethod=sha256,timestamp=2524608000000|'' = [0x7C] @ clientid_fixed @ [0x7C]"
    by (simp add: ascii_def clientid_fixed_def)
  have fits: "sign_fits pk dk ds" using assms(3) by (simp add: sign_fits_def sign_source_length sign_limits)
  have host: "unat (word_of_nat (length host + 1) :: u16) = length host + 1"
    using assms(4) by (subst u16_unat) simp_all
  from sign_short_identity [OF assms(1), of "Some host" out] assms(2,4) fits
  show ?thesis
    by (simp only: fixed host option.case) (simp add: signed_def clientid_text_def sign_source_def sign_limits)
qed

text \<open>
  C14. Signing leaves its arrays exactly when the keys fill the identity array completely, which
  then has no terminator, or when the secret, which the length check does not count, makes the
  source of the signature longer than its array. A full 64-byte secret overruns it for keys of
  43 to 67 bytes together.
\<close>

theorem sign_overruns_iff:
  assumes "identity_ok pk dk ds" "length host \<le> IOTX_DOMAIN_MAX_LEN"
  shows "IOT_Sign_MQTT (Some host) (Some (meta_of pk dk ds)) out = None \<longleftrightarrow>
    length pk + length dk = 84 \<or>
    length pk + length dk < 68 \<and> 150 \<le> 2 * (length pk + length dk) + length ds"
proof (cases "length pk + length dk = 84")
  case True
  with sign_full_identity [OF assms(1)] show ?thesis by simp
next
  case False
  with assms(1) have n: "length pk + length dk < 84" by (simp add: identity_ok_def len_limits)
  have host: "unat (word_of_nat (length host + 1) :: u16) = length host + 1"
    using assms(2) by (subst u16_unat) (simp_all add: len_limits)
  have fits: "sign_fits pk dk ds \<longleftrightarrow> 2 * (length pk + length dk) + length ds < 150"
    by (auto simp: sign_fits_def sign_source_length sign_limits)
  from sign_short_identity [OF assms(1) n, of "Some host" out] obtain o1 o2 where
    "IOT_Sign_MQTT (Some host) (Some (meta_of pk dk ds)) out =
      (if 68 \<le> length pk + length dk then Some (STATE_MQTT_SIGN_SOURCE_BUF_SHORT, o1)
       else if \<not> sign_fits pk dk ds then None
       else if length host + 1 \<ge> DEV_SIGN_HOSTNAME_MAXLEN then Some (STATE_MQTT_SIGN_HOSTNAME_BUF_SHORT, o2)
       else if length host > DEV_SIGN_HOSTNAME_MAXLEN then None
       else Some (STATE_SUCCESS, signed pk dk ds host))"
    by (auto simp only: host option.case)
  with False show ?thesis unfolding fits by (auto simp: sign_limits)
qed

theorem sign_credentials_witness:
  "fst (the (IOT_Sign_MQTT (Some (ascii ''iot.example'')) (Some (meta_of (ascii ''pk'') (ascii ''dk'') (ascii ''secret''))) sign_zero)) = STATE_SUCCESS"
proof -
  have "identity_ok (ascii ''pk'') (ascii ''dk'') (ascii ''secret'')"
    by (simp add: identity_ok_def len_limits ascii_def)
  from sign_credentials [OF this, of "ascii ''iot.example''" sign_zero] show ?thesis by simp
qed

theorem sign_overruns_iff_witness:
  "IOT_Sign_MQTT (Some []) (Some (meta_of (replicate 20 0x70) (replicate 23 0x64) (replicate 64 0x73))) sign_zero = None"
proof -
  have "identity_ok (replicate 20 0x70) (replicate 23 0x64) (replicate 64 0x73)"
    by (simp add: identity_ok_def len_limits)
  from sign_overruns_iff [OF this, of "[]" sign_zero] show ?thesis by simp
qed

end
