(* ===== verification/MqttApi.thy ===== *)
theory MqttApi
  imports MqttClientSpec DevSign
begin

text \<open>
  The public MQTT interface, \<^verbatim>\<open>src/src/mqtt/mqtt_api.c\<close>, over the client and the signature: a device
  has one client, made by \<^verbatim>\<open>IOT_MQTT_Construct\<close> with signed credentials and kept in a global.

  A client pointer is a number, the count of clients made when it was made; the only client in
  memory is the one the global points at. A call with a pointer to a client that has been
  destroyed is undefined and gives \<open>None\<close>.

  The build is the one of \<^verbatim>\<open>src/make.settings\<close>: TCP, no dynamic activation, no OTA, synchronous stack.
\<close>

section \<open>The state\<close>

record 'w mqtt_api =
  api_sys :: "'w sys"
  g_mqtt_client :: "nat option"
  clients_made :: nat
  g_default_sign :: iotx_sign_mqtt

definition CONFIG_MQTT_MESSAGE_MAXLEN :: u32 where "CONFIG_MQTT_MESSAGE_MAXLEN = 3072"
definition SUBSCRIBE_SYNC_TIMEOUT_MAX :: int where "SUBSCRIBE_SYNC_TIMEOUT_MAX = 10000"
definition ITE_MQTT_CONNECT_SUCC :: int where "ITE_MQTT_CONNECT_SUCC = 14"
definition ITE_STATE_MQTT_COMM :: int where "ITE_STATE_MQTT_COMM = 21"

abbreviation (input) MQTT_CONNECT_BLOCK :: int where "MQTT_CONNECT_BLOCK \<equiv> - 44"
abbreviation (input) IOTX_MQTT_QOS3_SUB_LOCAL :: int where "IOTX_MQTT_QOS3_SUB_LOCAL \<equiv> 3"

text \<open>\<^verbatim>\<open>handle ? handle : g_mqtt_client\<close>, and a call of a client function on it.\<close>

definition client_of :: "nat option \<Rightarrow> 'w mqtt_api \<Rightarrow> nat option" where
  "client_of hnd a = (if hnd = None then g_mqtt_client a else hnd)"

definition on_client ::
  "nat option \<Rightarrow> int \<Rightarrow> ('w sys \<Rightarrow> (int \<times> 'w sys) option) \<Rightarrow> 'w mqtt_api \<Rightarrow> (int \<times> 'w mqtt_api) option" where
  "on_client client null_result f a =
     (case client of
        None \<Rightarrow> Some (null_result, a)
      | Some n \<Rightarrow>
          if g_mqtt_client a \<noteq> Some n then None
          else do {
            (rc, s) \<leftarrow> f (api_sys a);
            Some (rc, a\<lparr>api_sys := s\<rparr>) })"

section \<open>Making the client\<close>

text \<open>The identity, from the settings, in the zeroed arrays of \<^verbatim>\<open>iotx_dev_meta_info_t\<close>.\<close>

definition read_meta_info :: "'w sys \<Rightarrow> iotx_dev_meta_info option" where
  "read_meta_info s = do {
     pk \<leftarrow> ioctl_get IOTX_IOCTL_GET_PRODUCT_KEY (replicate (IOTX_PRODUCT_KEY_LEN + 1) 0) s;
     dk \<leftarrow> ioctl_get IOTX_IOCTL_GET_DEVICE_KEY (replicate (IOTX_DEVICE_KEY_LEN + 1) 0) s;
     ds \<leftarrow> ioctl_get IOTX_IOCTL_GET_DEVICE_SECRET (replicate (IOTX_DEVICE_SECRET_LEN + 1) 0) s;
     Some \<lparr>meta_product_key = pk, meta_product_secret = replicate (IOTX_PRODUCT_SECRET_LEN + 1) 0,
       meta_device_key = dk, meta_device_secret = ds\<rparr> }"

definition terminated :: "iotx_dev_meta_info \<Rightarrow> bool" where
  "terminated meta \<longleftrightarrow> meta_product_key meta ! IOTX_PRODUCT_KEY_LEN = 0 \<and>
     meta_device_key meta ! IOTX_DEVICE_KEY_LEN = 0 \<and> meta_device_secret meta ! IOTX_DEVICE_SECRET_LEN = 0"

text \<open>A string given by the caller, unless it is null or empty, else the signed one.\<close>

definition string_or :: "byte list option \<Rightarrow> byte list \<Rightarrow> byte list option" where
  "string_or given signed_mem =
     (case given of Some (c # cs) \<Rightarrow> Some (c # cs) | _ \<Rightarrow> c_str signed_mem)"

definition default_params :: "iotx_mqtt_param" where
  "default_params = \<lparr>par_port = 0, par_host = None, par_client_id = None, par_username = None, par_password = None,
     par_customize_info = None, par_pub_key = None, par_clean_session = 0,
     par_request_timeout_ms = CONFIG_MQTT_REQUEST_TIMEOUT,
     par_keepalive_interval_ms = ucast CONFIG_MQTT_KEEPALIVE_INTERVAL * 1000,
     par_write_buf_size = CONFIG_MQTT_MESSAGE_MAXLEN, par_read_buf_size = CONFIG_MQTT_MESSAGE_MAXLEN,
     par_handle_event = \<lparr>h_fp = None, pcontext = 0\<rparr>\<rparr>"

definition mqtt_params :: "iotx_mqtt_param option \<Rightarrow> iotx_sign_mqtt \<Rightarrow> iotx_mqtt_param option" where
  "mqtt_params init sign =
     (case init of
        None \<Rightarrow> do {
          host \<leftarrow> c_str (hostname sign);
          id \<leftarrow> c_str (sign_clientid sign);
          user \<leftarrow> c_str (sign_username sign);
          pw \<leftarrow> c_str (sign_password sign);
          Some (default_params\<lparr>par_port := sign_port sign, par_host := Some host, par_client_id := Some id,
            par_username := Some user, par_password := Some pw\<rparr>) }
      | Some p \<Rightarrow> do {
          host \<leftarrow> string_or (par_host p) (hostname sign);
          id \<leftarrow> string_or (par_client_id p) (sign_clientid sign);
          user \<leftarrow> string_or (par_username p) (sign_username sign);
          pw \<leftarrow> string_or (par_password p) (sign_password sign);
          Some \<lparr>par_port = (if par_port p \<noteq> 0 then par_port p else sign_port sign),
            par_host = Some host, par_client_id = Some id, par_username = Some user, par_password = Some pw,
            par_customize_info = None, par_pub_key = None,
            par_clean_session = (if par_clean_session p = 0 \<or> par_clean_session p = 1 then par_clean_session p else 0),
            par_request_timeout_ms =
              (if par_request_timeout_ms p < CONFIG_MQTT_REQ_TIMEOUT_MIN
                  \<or> par_request_timeout_ms p > CONFIG_MQTT_REQ_TIMEOUT_MAX
               then CONFIG_MQTT_REQUEST_TIMEOUT else par_request_timeout_ms p),
            par_keepalive_interval_ms =
              (if par_keepalive_interval_ms p < ucast CONFIG_MQTT_KEEPALIVE_INTERVAL_MIN * 1000
                  \<or> par_keepalive_interval_ms p > ucast CONFIG_MQTT_KEEPALIVE_INTERVAL_MAX * 1000
               then ucast CONFIG_MQTT_KEEPALIVE_INTERVAL * 1000 else par_keepalive_interval_ms p),
            par_write_buf_size = (if par_write_buf_size p = 0 then CONFIG_MQTT_MESSAGE_MAXLEN else par_write_buf_size p),
            par_read_buf_size = (if par_read_buf_size p = 0 then CONFIG_MQTT_MESSAGE_MAXLEN else par_read_buf_size p),
            par_handle_event =
              \<lparr>h_fp = h_fp (par_handle_event p), pcontext = pcontext (par_handle_event p)\<rparr>\<rparr> })"

text \<open>
  The reports of the parameters print \<^verbatim>\<open>strstr(client_id, ",") + 1\<close>: without a comma this is the
  address 1, which is read when a handler is registered for the event.
\<close>

definition report_client_id :: "iotx_mqtt_param \<Rightarrow> 'w sys \<Rightarrow> 'w sys option" where
  "report_client_id p s =
     (if iotx_event_callback (events s) ITE_STATE_MQTT_COMM \<noteq> None \<and>
         (case par_client_id p of None \<Rightarrow> True | Some cid \<Rightarrow> 0x2C \<notin> set cid)
      then None else Some s)"

definition run_callback :: "'w env \<Rightarrow> int \<Rightarrow> 'w sys \<Rightarrow> 'w sys" where
  "run_callback env evt s =
     (case iotx_event_callback (events s) evt of
        None \<Rightarrow> s
      | Some f \<Rightarrow> s\<lparr>world := app_event env f [] (world s)\<rparr>)"

text \<open>The client started with its parameters; \<open>False\<close> when that failed and it was released.\<close>

definition start_client :: "'w env \<Rightarrow> iotx_mqtt_param \<Rightarrow> 'w sys \<Rightarrow> (bool \<times> 'w sys) option" where
  "start_client env p s =
     (let (ok, s) = wrapper_mqtt_init env p s
      in if \<not> ok then Some (False, s)
         else do {
           s \<leftarrow> report_client_id p s;
           let (_, s) = uptime env s;
           (rc, s) \<leftarrow> wrapper_mqtt_connect env s;
           (if rc < STATE_SUCCESS \<and> rc \<noteq> MQTT_CONNECT_BLOCK
            then do {
              (_, s) \<leftarrow> wrapper_mqtt_release env s;
              Some (False, s) }
            else let (_, s) = uptime env s in Some (True, s)) })"

definition IOT_MQTT_Construct ::
  "'w env \<Rightarrow> iotx_mqtt_param option \<Rightarrow> 'w mqtt_api \<Rightarrow> (nat option \<times> 'w mqtt_api) option" where
  "IOT_MQTT_Construct env init a =
     (if g_mqtt_client a \<noteq> None then Some (g_mqtt_client a, a)
      else do {
        meta \<leftarrow> read_meta_info (api_sys a);
        (if \<not> terminated meta then Some (None, a)
         else do {
           (rc, sign) \<leftarrow> IOT_Sign_MQTT (g_infra_mqtt_domain (settings (api_sys a))) (Some meta) (g_default_sign a);
           let a = a\<lparr>g_default_sign := sign\<rparr>;
           (if rc < STATE_SUCCESS then Some (None, a)
            else do {
              device_id \<leftarrow> make_device_id meta;
              (rc, id) \<leftarrow> sign_get_clientid (sign_clientid sign) device_id
                (case init of None \<Rightarrow> None | Some p \<Rightarrow> par_customize_info p);
              let sign = sign\<lparr>sign_clientid := id\<rparr>;
              let a = a\<lparr>g_default_sign := sign\<rparr>;
              (if rc < STATE_SUCCESS then Some (None, a)
               else do {
                 p \<leftarrow> mqtt_params init sign;
                 (ok, s) \<leftarrow> start_client env p (api_sys a);
                 let a = a\<lparr>api_sys := s\<rparr>;
                 (if \<not> ok then Some (None, a)
                  else let n = clients_made a in
                    Some (Some n, a\<lparr>g_mqtt_client := Some n, clients_made := n + 1,
                      api_sys := run_callback env ITE_MQTT_CONNECT_SUCC s\<rparr>)) }) }) }) })"

text \<open>\<open>phandler\<close> is what the argument points to; it is null afterwards.\<close>

definition IOT_MQTT_Destroy ::
  "'w env \<Rightarrow> nat option option \<Rightarrow> 'w mqtt_api \<Rightarrow> (int \<times> 'w mqtt_api) option" where
  "IOT_MQTT_Destroy env phandler a =
     (let client = (case phandler of None \<Rightarrow> g_mqtt_client a | Some h \<Rightarrow> h)
      in if client = None then Some (STATE_USER_INPUT_INVALID, a)
         else do {
           (_, a) \<leftarrow> on_client client 0 (wrapper_mqtt_release env) a;
           Some (STATE_SUCCESS, a\<lparr>g_mqtt_client := None\<rparr>) })"

section \<open>Using it\<close>

definition IOT_MQTT_Yield :: "'w env \<Rightarrow> nat option \<Rightarrow> int \<Rightarrow> 'w mqtt_api \<Rightarrow> (int \<times> 'w mqtt_api) option" where
  "IOT_MQTT_Yield env hnd timeout_ms a =
     on_client (client_of hnd a) STATE_USER_INPUT_INVALID (wrapper_mqtt_yield env timeout_ms) a"

definition IOT_MQTT_CheckStateNormal :: "nat option \<Rightarrow> 'w mqtt_api \<Rightarrow> (int \<times> 'w mqtt_api) option" where
  "IOT_MQTT_CheckStateNormal hnd a =
     on_client (client_of hnd a) STATE_USER_INPUT_INVALID
       (\<lambda>s. Some (if wrapper_mqtt_check_state s then 1 else 0, s)) a"

definition missing :: "byte list option \<Rightarrow> bool" where
  "missing s \<longleftrightarrow> s = None \<or> s = Some []"

definition IOT_MQTT_Subscribe ::
  "'w env \<Rightarrow> nat option \<Rightarrow> byte list option \<Rightarrow> int \<Rightarrow> nat option \<Rightarrow> nat \<Rightarrow> 'w mqtt_api \<Rightarrow>
   (int \<times> 'w mqtt_api) option" where
  "IOT_MQTT_Subscribe env hnd tfilter q fn context a =
     (if missing tfilter \<or> fn = None then Some (STATE_USER_INPUT_INVALID, a)
      else let q = (if q > IOTX_MQTT_QOS3_SUB_LOCAL then 0 else q)
           in on_client (client_of hnd a) STATE_USER_INPUT_INVALID
                (wrapper_mqtt_subscribe env tfilter q fn context) a)"

definition IOT_MQTT_Subscribe_Sync ::
  "'w env \<Rightarrow> nat option \<Rightarrow> byte list option \<Rightarrow> int \<Rightarrow> nat option \<Rightarrow> nat \<Rightarrow> int \<Rightarrow> 'w mqtt_api \<Rightarrow>
   (int \<times> 'w mqtt_api) option" where
  "IOT_MQTT_Subscribe_Sync env hnd tfilter q fn context timeout_ms a =
     (let timeout_ms = (if timeout_ms > SUBSCRIBE_SYNC_TIMEOUT_MAX then SUBSCRIBE_SYNC_TIMEOUT_MAX else timeout_ms)
      in if missing tfilter \<or> fn = None then Some (STATE_USER_INPUT_INVALID, a)
         else let q = (if q > IOTX_MQTT_QOS3_SUB_LOCAL then 0 else q)
              in on_client (client_of hnd a) STATE_USER_INPUT_INVALID
                   (wrapper_mqtt_subscribe_sync env tfilter q fn context timeout_ms) a)"

definition IOT_MQTT_Unsubscribe ::
  "'w env \<Rightarrow> nat option \<Rightarrow> byte list option \<Rightarrow> 'w mqtt_api \<Rightarrow> (int \<times> 'w mqtt_api) option" where
  "IOT_MQTT_Unsubscribe env hnd tfilter a =
     (if client_of hnd a = None \<or> missing tfilter then Some (STATE_USER_INPUT_INVALID, a)
      else on_client (client_of hnd a) STATE_USER_INPUT_INVALID (wrapper_mqtt_unsubscribe env tfilter) a)"

definition IOT_MQTT_Publish ::
  "'w env \<Rightarrow> nat option \<Rightarrow> byte list option \<Rightarrow> iotx_mqtt_topic_info option \<Rightarrow> 'w mqtt_api \<Rightarrow>
   (int \<times> 'w mqtt_api) option" where
  "IOT_MQTT_Publish env hnd topic_name topic_msg a =
     (if client_of hnd a = None \<or> missing topic_name then Some (STATE_USER_INPUT_INVALID, a)
      else on_client (client_of hnd a) STATE_USER_INPUT_INVALID (wrapper_mqtt_publish env topic_name topic_msg) a)"

definition simple_msg :: "int \<Rightarrow> byte list option \<Rightarrow> int \<Rightarrow> iotx_mqtt_topic_info" where
  "simple_msg q data len = \<lparr>ti_packet_id = 0, qos = word_of_int q, dup = 0, retain = 0, topic_len = 0,
     payload_len = word_of_int len, ptopic = None, payload = data\<rparr>"

definition IOT_MQTT_Publish_Simple ::
  "'w env \<Rightarrow> nat option \<Rightarrow> byte list option \<Rightarrow> int \<Rightarrow> byte list option \<Rightarrow> int \<Rightarrow> 'w mqtt_api \<Rightarrow>
   (int \<times> 'w mqtt_api) option" where
  "IOT_MQTT_Publish_Simple env hnd topic_name q data len a =
     (if client_of hnd a = None \<or> missing topic_name then Some (STATE_USER_INPUT_INVALID, a)
      else on_client (client_of hnd a) STATE_USER_INPUT_INVALID
             (wrapper_mqtt_publish env topic_name (Some (simple_msg q data len))) a)"


section \<open>The connection parameters stay\<close>

text \<open>No public function of the client touches what the next CONNECT will carry.\<close>

definition same_params :: "'w sys \<Rightarrow> 'w sys \<Rightarrow> bool" where
  "same_params s s' \<longleftrightarrow> connect_data (cl s') = connect_data (cl s)"

lemma same_params_trans [trans]: "same_params s s' \<Longrightarrow> same_params s' s'' \<Longrightarrow> same_params s s''"
  by (simp add: same_params_def)

lemma same_params_cycles: "cycles s s' \<Longrightarrow> same_params s s'"
  using cyclesD(1) [of s s', THEN arg_cong, of connect_data]
  by (simp add: same_params_def steady_def)

lemma same_params_net: "same_but_net s s' \<Longrightarrow> same_params s s'"
  unfolding same_params_def by (rule same_but_net_fields(3))

lemma same_params_connected:
  assumes "connected s s'"
  shows "same_params s s'"
proof -
  have e: "(cl s')\<lparr>ipstack := ipstack (cl s), keepalive_probes := keepalive_probes (cl s),
       client_state := client_state (cl s), next_ping_time := next_ping_time (cl s)\<rparr> = cl s"
    using assms by (simp only: connected_def)
  show ?thesis
    using arg_cong [OF e, of connect_data] by (simp add: same_params_def)
qed

lemma same_params_subs: "same_but_subs s s' \<Longrightarrow> same_params s s'"
  unfolding same_but_subs_def same_params_def by (drule arg_cong [of _ _ connect_data]) simp

lemma wait_identity_params:
  "client_ok (cl s) \<Longrightarrow> holds (wait_identity env n pk dk s) (\<lambda>s'. same_params s s')"
proof (induction n arbitrary: pk dk s)
  case 0
  have start: "settled (cl (upd (cycle_timeout_ms_update (\<lambda>_. 500)) s))"
    "answered (cl (upd (cycle_timeout_ms_update (\<lambda>_. 500)) s))"
    using 0 by (simp_all add: client_ok_def answered_def)
  show ?case
    by (subst wait_identity.simps)
      (auto simp: Let_def same_params_def intro!: holds_mono [OF mqtt_cycle_ok [OF start]]
        holds_any [where m = "ioctl_get a b c" for a b c] holds_any [where m = "c_str a" for a]
        dest!: same_params_cycles)
next
  case (Suc n)
  have start: "settled (cl (upd (cycle_timeout_ms_update (\<lambda>_. 500)) s))"
    "answered (cl (upd (cycle_timeout_ms_update (\<lambda>_. 500)) s))"
    using Suc(2) by (simp_all add: client_ok_def answered_def)
  show ?case
    by (subst wait_identity.simps)
      (auto simp: Let_def same_params_def intro!: holds_mono [OF mqtt_cycle_ok [OF start]]
        holds_any [where m = "ioctl_get a b c" for a b c] holds_any [where m = "c_str a" for a]
        holds_mono [OF Suc(1)] dest!: same_params_cycles)
qed

lemma connect_params:
  assumes "client_ok (cl s)"
  shows "holds (wrapper_mqtt_connect env s) (\<lambda>(rc, s'). same_params s s')"
proof -
  define s1 where "s1 = snd (mqtt_nwk_connect env s)"
  have n: "same_but_net s s1" by (simp add: s1_def)
  have ok: "client_ok (cl s1)" using same_but_net_ok [OF n] assms by simp
  have free: "send_free (cl s1)" "recv_free (cl s1)" using ok by (simp_all add: client_ok_def)
  have here: "client_ok (cl y) \<and> same_params s y" if "connected s1 y \<or> same_but_net s1 y" for y
    using that connected_ok [OF _ ok, of y] same_but_net_ok(1) [of s1 y] ok
      same_params_trans [OF same_params_net [OF n], of y] same_params_connected [of s1 y] same_params_net [of s1 y]
    by auto
  have conn: "holds (mqtt_connect env s1) (\<lambda>(rc, y). client_ok (cl y) \<and> same_params s y)"
    by (rule holds_mono [OF mqtt_connect_holds [OF free]]) (use here in \<open>auto split: if_splits\<close>)
  show ?thesis
    unfolding wrapper_mqtt_connect_def Let_def split_beta s1_def [symmetric]
    by (auto simp: same_params_net [OF n] intro!: holds_mono [OF conn] holds_mono [OF wait_identity_params]
        intro: same_params_trans)
qed

lemma attempt_params:
  assumes "settled (cl s)"
  shows "holds (iotx_mc_attempt_reconnect env s) (\<lambda>(rc, s'). same_params s s')"
proof -
  define s1 where "s1 = snd (mqtt_nwk_connect env (net_disconnect env s))"
  have n: "same_but_net s s1"
    unfolding s1_def by (rule same_but_net_trans [of _ "net_disconnect env s"]) auto
  have free: "send_free (cl s1)" "recv_free (cl s1)"
    using same_but_net_fields [OF n] assms by simp_all
  have here: "same_params s y" if "connected s1 y \<or> same_but_net s1 y" for y
    using that same_params_trans [OF same_params_net [OF n], of y] same_params_connected [of s1 y]
      same_params_net [of s1 y] by auto
  show ?thesis
    unfolding iotx_mc_attempt_reconnect_def Let_def split_beta s1_def [symmetric]
    by (rule holds_mono [OF mqtt_connect_holds [OF free]]) (use here in \<open>auto split: if_splits\<close>)
qed

lemma handle_reconnect_params:
  assumes "settled (cl s)"
  shows "holds (iotx_mc_handle_reconnect env s) (\<lambda>(rc, s'). same_params s s')"
proof -
  have free: "settled (cl (snd (time_expired env (reconnect_next_time (cl s)) s)))" using assms by simp
  show ?thesis
    unfolding iotx_mc_handle_reconnect_def
    by (auto simp: split_beta Let_def same_params_def split: if_splits
        intro!: holds_mono [OF attempt_params [OF free]])
qed

lemma keepalive_sub_params:
  assumes "settled (cl s)"
  shows "holds (iotx_mc_keepalive_sub env s) (\<lambda>(_, s'). settled (cl s') \<and> same_params s s')"
  using assms
  by (auto simp: iotx_mc_keepalive_sub_def same_params_def split_beta Let_def
      intro!: holds_mono [OF MQTTKeepalive_holds])

lemma keepalive_params:
  assumes "client_ok (cl s)"
  shows "holds (iotx_mc_keepalive env s) (\<lambda>s'. same_params s s')"
proof -
  have ok: "settled (cl s)" using assms by (simp add: client_ok_def)
  have net: "connect_data (cl (net_disconnect env x)) = connect_data (cl x)" for x :: "'a sys"
    by (simp add: net_disconnect_def split_beta)
  show ?thesis
    unfolding iotx_mc_keepalive_def
    by (auto simp: split_beta Let_def iotx_mc_reconnect_callback_def iotx_mc_disconnect_callback_def
        same_params_def net intro!: holds_mono [OF keepalive_sub_params [OF ok]]
        holds_mono [OF handle_reconnect_params] split: if_splits)
qed

lemma yield_params:
  assumes "client_ok (cl s)"
  shows "holds (wrapper_mqtt_yield env ms s) (\<lambda>(_, s'). same_params s s')"
proof -
  have start: "client_ok (cl (upd (cycle_timeout_ms_update (\<lambda>_. t)) s))" for t
    using assms by simp
  have both: "holds (iotx_mc_keepalive env x) (\<lambda>s'. settled (cl s') \<and> answered (cl s') \<and> same_params x s')"
    if "client_ok (cl x)" for x
    using keepalive_holds [OF that, of env] keepalive_params [OF that, of env] by (auto simp: holds_def)
  show ?thesis
    unfolding wrapper_mqtt_yield_def
    by (auto simp: Let_def same_params_def intro!: holds_mono [OF both [OF start]] holds_mono [OF mqtt_cycle_ok]
        dest!: same_params_cycles)
qed

lemma packetid_params: "connect_data (cl (snd (iotx_mc_get_next_packetid s))) = connect_data (cl s)"
  by (simp add: next_packetid_cl)

lemma offline_params: "connect_data (cl (offline_on_close rc s)) = connect_data (cl s)"
  by (simp add: offline_on_close_def)

lemma packetid_free: "client_ok (cl s) \<Longrightarrow> send_free (cl (snd (iotx_mc_get_next_packetid s)))"
  using next_packetid_ok [of s] by (simp add: client_ok_def)

lemma subscribe_params:
  assumes "client_ok (cl s)"
  shows "holds (wrapper_mqtt_subscribe env tf q f x s) (\<lambda>(_, s'). same_params s s')"
  unfolding wrapper_mqtt_subscribe_def Let_def split_beta
  by (auto simp: same_params_def packetid_params offline_params
      intro!: holds_mono [OF MQTTSubscribe_holds [OF packetid_free [OF assms]]]
        holds_any [where m = "iotx_mc_check_topic a b" for a b]
      dest!: same_params_subs split: option.split)

lemma unsubscribe_params:
  assumes "client_ok (cl s)"
  shows "holds (wrapper_mqtt_unsubscribe env tf s) (\<lambda>(_, s'). same_params s s')"
  unfolding wrapper_mqtt_unsubscribe_def Let_def split_beta
  by (auto simp: same_params_def packetid_params offline_params
      intro!: holds_mono [OF MQTTUnsubscribe_holds [OF packetid_free [OF assms]]]
        holds_any [where m = "iotx_mc_check_topic a b" for a b]
      dest!: same_params_subs split: option.split)

lemma publish_params:
  assumes "client_ok (cl s)"
  shows "holds (wrapper_mqtt_publish env tn tm s) (\<lambda>(_, s'). same_params s s')"
proof -
  have free: "send_free (cl s)" using assms by (simp add: client_ok_def)
  show ?thesis
    unfolding wrapper_mqtt_publish_def Let_def split_beta
    by (auto simp: same_params_def packetid_params offline_params
        intro!: holds_mono [OF MQTTPublish_holds [OF packetid_free [OF assms]]] holds_mono [OF MQTTPublish_holds [OF free]]
          holds_any [where m = "iotx_mc_check_topic a b" for a b]
        split: option.split if_splits)
qed

lemma sync_turn_params:
  assumes "client_live (cl s)"
  shows "holds (sync_turn env tf q f x ret subed s) (\<lambda>(_, s'). client_live (cl s') \<and> same_params s s')"
proof -
  have sub: "holds (wrapper_mqtt_subscribe env tf q f x y) (\<lambda>(_, z). client_live (cl z) \<and> connect_data (cl z) = connect_data (cl y))"
    if "client_live (cl y)" for y
    using subscribe_live [OF that, of env tf q f x] subscribe_params [OF client_live_ok [OF that], of env tf q f x]
    by (auto simp: holds_def same_params_def)
  have yield: "holds (wrapper_mqtt_yield env ms y) (\<lambda>(_, z). client_live (cl z) \<and> connect_data (cl z) = connect_data (cl y))"
    if "client_live (cl y)" for y ms
    using yield_live [OF that, of env ms] yield_params [OF client_live_ok [OF that], of env ms]
    by (auto simp: holds_def same_params_def)
  show ?thesis
    unfolding sync_turn_def Let_def split_beta
    by (auto simp: assms same_params_def intro!: holds_mono [OF sub] holds_mono [OF yield] split: list.split if_splits)
qed

lemma subscribe_sync_loop_params:
  assumes "subscribe_sync_loop env tf q f x t ret subed s = Some r" "client_live (cl s)"
  shows "client_live (cl (snd r)) \<and> same_params s (snd r)"
proof -
  have "client_live (cl s) \<longrightarrow> client_live (cl (snd r)) \<and> same_params s (snd r)"
  proof (rule subscribe_sync_loop.raw_induct
      [where P = "\<lambda>env tf q f x t ret subed s r. client_live (cl s) \<longrightarrow> client_live (cl (snd r)) \<and> same_params s (snd r)",
        OF _ assms(1)])
    fix g env tf q f x t ret subed s r
    assume IH: "\<And>env tf q f x t ret subed s y. g env tf q f x t ret subed s = Some y \<Longrightarrow>
        client_live (cl s) \<longrightarrow> client_live (cl (snd y)) \<and> same_params s (snd y)"
      and eq: "Option.bind (sync_turn env tf q f x ret subed s) (\<lambda>(r, s).
       case r of
         Inl ret \<Rightarrow> Some (ret, s)
       | Inr (ret, subed) \<Rightarrow>
           let (expired, s) = time_expired env t s
           in if \<not> expired then g env tf q f x t ret subed s
              else Some (STATE_MQTT_SYNC_SUB_TIMEOUT,
                     upd (list_sub_sync_ack_update (List.filter (\<lambda>n. sync_packet_id n \<noteq> ret))) s)) = Some r"
    show "client_live (cl s) \<longrightarrow> client_live (cl (snd r)) \<and> same_params s (snd r)"
    proof
      assume ok: "client_live (cl s)"
      from eq obtain r1 s1 where turn: "sync_turn env tf q f x ret subed s = Some (r1, s1)"
        by (auto simp: Option.bind_eq_Some_conv)
      with holdsD [OF sync_turn_params [OF ok]] have s1: "client_live (cl s1)" "same_params s s1" by fastforce+
      have step: "client_live (cl z) \<and> connect_data (cl z) = connect_data (cl s)"
        if "g env tf q f x t ret' subed' (snd (time_expired env t s1)) = Some (a, z)" for ret' subed' a z
        using IH [OF that] s1 by (simp add: same_params_def)
      from eq turn s1 show "client_live (cl (snd r)) \<and> same_params s (snd r)"
        by (cases r; cases r1) (auto simp: split_beta Let_def same_params_def dest: step split: if_splits)
    qed
  qed
  with assms(2) show ?thesis by blast
qed

section \<open>Calls on a client\<close>

text \<open>What the functions that use a client promise the interface: the client stays well formed and
  keeps its connection parameters.\<close>

locale client_call =
  fixes call :: "'w sys \<Rightarrow> (int \<times> 'w sys) option"
  assumes stays: "client_live (cl s) \<Longrightarrow> call s = Some (rc, s') \<Longrightarrow> client_live (cl s') \<and> same_params s s'"
begin

lemma on_client_stays:
  assumes "on_client client r call a = Some (rc, a')" "g_mqtt_client a \<noteq> None \<Longrightarrow> client_live (cl (api_sys a))"
  shows "g_mqtt_client a' = g_mqtt_client a \<and> clients_made a' = clients_made a \<and>
    (g_mqtt_client a' \<noteq> None \<longrightarrow> client_live (cl (api_sys a'))) \<and> same_params (api_sys a) (api_sys a')"
proof (cases client)
  case None
  with assms show ?thesis by (auto simp: on_client_def same_params_def)
next
  case (Some n)
  with assms(1) obtain s where s: "g_mqtt_client a = Some n" "call (api_sys a) = Some (rc, s)" "a' = a\<lparr>api_sys := s\<rparr>"
    by (auto simp: on_client_def Option.bind_eq_Some_conv split: if_splits)
  with stays [OF assms(2) s(2)] show ?thesis by simp
qed

end

interpretation use_yield: client_call "wrapper_mqtt_yield env ms" for env ms
  by unfold_locales (use holdsD [OF yield_live] holdsD [OF yield_params [OF client_live_ok]] in fastforce)

interpretation use_subscribe: client_call "wrapper_mqtt_subscribe env tf q f x" for env tf q f x
  by unfold_locales (use holdsD [OF subscribe_live] holdsD [OF subscribe_params [OF client_live_ok]] in fastforce)

interpretation use_subscribe_sync: client_call "wrapper_mqtt_subscribe_sync env tf q f x ms" for env tf q f x ms
  by unfold_locales (auto simp: wrapper_mqtt_subscribe_sync_def Let_def split_beta same_params_def
    dest!: subscribe_sync_loop_params)

interpretation use_unsubscribe: client_call "wrapper_mqtt_unsubscribe env tf" for env tf
proof
  fix s rc s'
  assume live: "client_live (cl s)" and run: "wrapper_mqtt_unsubscribe env tf s = Some (rc, s')"
  from holdsD [OF unsubscribe_holds [OF client_live_ok [OF live]] run]
    holdsD [OF unsubscribe_params [OF client_live_ok [OF live]] run] live
  show "client_live (cl s') \<and> same_params s s'" by (auto intro: live_moves)
qed

interpretation use_publish: client_call "wrapper_mqtt_publish env tn tm" for env tn tm
proof
  fix s rc s'
  assume live: "client_live (cl s)" and run: "wrapper_mqtt_publish env tn tm s = Some (rc, s')"
  from holdsD [OF publish_holds [OF client_live_ok [OF live]] run]
    holdsD [OF publish_params [OF client_live_ok [OF live]] run] live
  show "client_live (cl s') \<and> same_params s s'" by (auto intro: live_moves)
qed

interpretation use_check: client_call "\<lambda>s. Some (if wrapper_mqtt_check_state s then 1 else 0, s)"
  by unfold_locales (auto simp: same_params_def)

section \<open>What a new client carries\<close>

lemma init_connect_data:
  assumes "wrapper_mqtt_init env p s = (True, s')"
  shows "clientID (connect_data (cl s')) = c_string (par_client_id p)"
    "username (connect_data (cl s')) = c_string (par_username p)"
    "password (connect_data (cl s')) = c_string (par_password p)"
    "cleansession (connect_data (cl s')) = par_clean_session p"
proof -
  have "connect_data (cl s') = connect_data (iotx_mc_set_connect_params (init_connectdata p) c)" for c
    using assms
    by (auto simp: wrapper_mqtt_init_def iotx_mc_init_def split_beta Let_def iotx_mc_set_connect_params_def split: if_splits)
  then show "clientID (connect_data (cl s')) = c_string (par_client_id p)"
    "username (connect_data (cl s')) = c_string (par_username p)"
    "password (connect_data (cl s')) = c_string (par_password p)"
    "cleansession (connect_data (cl s')) = par_clean_session p"
    by (simp_all add: iotx_mc_set_connect_params_def init_connectdata_def)
qed

text \<open>The credentials in a client's CONNECT packet.\<close>

definition credentials :: "'w sys \<Rightarrow> byte list option \<times> byte list option \<times> byte list option" where
  "credentials s = (let d = connect_data (cl s) in (cstring (clientID d), cstring (username d), cstring (password d)))"

lemma same_params_credentials: "same_params s s' \<Longrightarrow> credentials s' = credentials s"
  by (simp add: same_params_def credentials_def)

lemma start_client_ok:
  assumes "start_client env p s = Some (True, s')"
  shows "client_live (cl s')"
    "credentials s' = (par_client_id p, par_username p, par_password p)"
proof -
  obtain s1 where i: "wrapper_mqtt_init env p s = (True, s1)"
    using assms by (cases "wrapper_mqtt_init env p s") (auto simp: start_client_def split: if_splits)
  define s2 where "s2 = snd (uptime env s1)"
  have cl2: "cl s2 = cl s1" by (simp add: s2_def)
  have s2: "s2 = s1\<lparr>world := world s2, settings := settings s1, events := events s1\<rparr>"
    by (simp add: s2_def uptime_def split_beta Let_def)
  have r2: "reached env s2"
    by (subst s2) (rule reached.outside [OF reached.init [OF i]])
  from assms i obtain rc s3 where c: "wrapper_mqtt_connect env s2 = Some (rc, s3)" and s': "cl s' = cl s3"
    by (auto simp: start_client_def Let_def split_beta s2_def Option.bind_eq_Some_conv report_client_id_def split: if_splits)
  show "client_live (cl s')"
    using reached_live [OF reached.connect [OF r2 c]] s' by simp
  have "same_params s2 s3"
    using holdsD [OF connect_params [OF client_ok_reached [OF r2]] c] by simp
  then show "credentials s' = (par_client_id p, par_username p, par_password p)"
    using init_connect_data [OF i] s' cl2
    by (simp add: credentials_def same_params_def c_string_def)
qed

text \<open>The identity in the settings.\<close>

definition device_is :: "byte list \<Rightarrow> byte list \<Rightarrow> byte list \<Rightarrow> 'w sys \<Rightarrow> bool" where
  "device_is pk dk ds s \<longleftrightarrow> identity_ok pk dk ds \<and> product_key (ctx (settings s)) = pk \<and>
     device_key (ctx (settings s)) = dk \<and> device_secret (ctx (settings s)) = ds"

lemma read_meta_of: "device_is pk dk ds s \<Longrightarrow> read_meta_info s = Some (meta_of pk dk ds)"
proof -
  assume d: "device_is pk dk ds s"
  have w: "buf_write (0 # replicate n 0) 0 x = text_in (Suc n) x" if "length x \<le> n" for n x
    using buf_write_text_in [of x "Suc n"] that by (simp add: text_in_def)
  show ?thesis
    using d by (simp add: read_meta_info_def ioctl_get_def IOT_Ioctl_def copy_out_def device_is_def identity_ok_def
      meta_of_def w text_in_def [of _ "[]"])
qed

lemma terminated_meta: "identity_ok pk dk ds \<Longrightarrow> terminated (meta_of pk dk ds)"
  by (auto simp: terminated_def meta_of_def identity_ok_def text_in_def nth_append)

definition signed_password :: "byte list \<Rightarrow> byte list \<Rightarrow> byte list \<Rightarrow> byte list" where
  "signed_password pk dk ds = sign_hex2str (fips_sha256 (sign_source pk dk ds))"

definition given_or :: "byte list option \<Rightarrow> byte list \<Rightarrow> byte list" where
  "given_or given x = (case given of Some (c # cs) \<Rightarrow> c # cs | _ \<Rightarrow> x)"

lemma string_or_given: "string_or g m = Some x \<Longrightarrow> c_str m = Some y \<Longrightarrow> x = given_or g y"
  by (auto simp: string_or_def given_or_def split: option.splits list.splits)

lemma sign_hex_clean: "0 \<notin> set (sign_hex2str bs)"
proof (induction bs)
  case (Cons b bs)
  have e: "set (ascii ''0123456789ABCDEF'') = {0x30, 0x31, 0x32, 0x33, 0x34, 0x35, 0x36, 0x37, 0x38, 0x39, 0x41, 0x42, 0x43, 0x44, 0x45, 0x46}"
    by (simp add: ascii_def)
  have "ascii ''0123456789ABCDEF'' ! unat (w AND 0xF) \<in> set (ascii ''0123456789ABCDEF'')" for w :: byte
  proof (rule nth_mem)
    have "w AND 0xF \<le> 0xF" by (rule word_and_le1)
    then show "unat (w AND 0xF) < length (ascii ''0123456789ABCDEF'')"
      by (simp add: word_le_nat_alt)
  qed
  moreover have "0 \<notin> set (ascii ''0123456789ABCDEF'')" by (simp add: e)
  ultimately have "ascii ''0123456789ABCDEF'' ! unat (w AND 0xF) \<noteq> 0" for w :: byte
    by metis
  with Cons show ?case by simp
qed simp

lemma construct_credentials:
  assumes "IOT_MQTT_Construct env (Some p) a = Some (Some n, a')" "g_mqtt_client a = None"
    and "device_is pk dk ds (api_sys a)" "kv_clean (par_customize_info p)"
  shows "g_mqtt_client a' = Some n \<and> n < clients_made a' \<and> client_live (cl (api_sys a')) \<and> credentials (api_sys a') =
    (Some (given_or (par_client_id p) (clientid_text (pk @ [0x2E] @ dk) (par_customize_info p))),
     Some (given_or (par_username p) (dk @ [0x26] @ pk)),
     Some (given_or (par_password p) (signed_password pk dk ds)))"
proof -
  let ?s = "api_sys a" and ?d = "pk @ [0x2E] @ dk" and ?kv = "par_customize_info p"
  define dom where "dom = g_infra_mqtt_domain (settings ?s)"
  have idok: "identity_ok pk dk ds" using assms(3) by (simp add: device_is_def)
  note meta = read_meta_of [OF assms(3)] and trm = terminated_meta [OF idok] and did = device_id_of [OF idok]
  from assms(1,2) meta trm did obtain rc sign rc2 cid q s1 where
    sgn: "IOT_Sign_MQTT dom (Some (meta_of pk dk ds)) (g_default_sign a) = Some (rc, sign)" "\<not> rc < 0"
    and cid: "sign_get_clientid (sign_clientid sign) (text_in 85 ?d) ?kv = Some (rc2, cid)" "\<not> rc2 < 0"
    and q: "mqtt_params (Some p) (sign\<lparr>sign_clientid := cid\<rparr>) = Some q"
    and start: "start_client env q ?s = Some (True, s1)"
    and n: "n = clients_made a"
    and a': "g_mqtt_client a' = Some n" "clients_made a' = n + 1" "api_sys a' = run_callback env ITE_MQTT_CONNECT_SUCC s1"
    by (auto simp: IOT_MQTT_Construct_def dom_def Let_def Option.bind_eq_Some_conv split: if_splits)
  have d84: "length pk + length dk < 84"
    using sign_full_identity [OF idok, of dom "g_default_sign a"] sgn(1) idok
    by (cases "length pk + length dk = 84") (auto simp: identity_ok_def len_limits)
  from sign_short_identity [OF idok d84, of dom "g_default_sign a"] sgn obtain host where
    "sign = signed pk dk ds host" "length host \<le> DEV_SIGN_HOSTNAME_MAXLEN"
    by (auto split: if_splits option.splits)
  then have sign: "sign = signed pk dk ds host" by simp
  have dk: "0 \<notin> set pk" "0 \<notin> set dk" and d: "c_str (text_in 85 ?d) = Some ?d" and len: "length (sign_clientid sign) = 200"
    using idok d84 by (simp_all add: identity_ok_def sign signed_def clientid_text_def sign_limits)
  have fits: "length (clientid_text ?d ?kv) < DEV_SIGN_CLIENT_ID_MAXLEN"
  proof (cases ?kv)
    case None
    with d84 show ?thesis by (simp add: clientid_text_def sign_limits)
  next
    case (Some kv)
    show ?thesis
    proof (rule ccontr)
      assume "\<not> ?thesis"
      with sign_get_clientid_short [OF _ d, of "sign_clientid sign" kv] cid d84 dk len assms(4) Some
      show False by (auto simp: kv_clean_def sign_limits)
    qed
  qed
  with sign_get_clientid_ok [OF _ d _ assms(4)] cid len dk
  have cid: "cid = text_in DEV_SIGN_CLIENT_ID_MAXLEN (clientid_text ?d ?kv)"
    by (simp add: sign_limits)
  have clean: "0 \<notin> set (clientid_text ?d ?kv)"
    using dk assms(4) by (cases ?kv) (auto simp: clientid_text_def kv_clean_def)
  let ?sg = "sign\<lparr>sign_clientid := cid\<rparr>"
  have mem: "c_str (sign_clientid ?sg) = Some (clientid_text ?d ?kv)"
    "c_str (sign_username ?sg) = Some (dk @ [0x26] @ pk)" "c_str (sign_password ?sg) = Some (signed_password pk dk ds)"
    using fits clean dk d84 sign_hex_clean
    by (simp_all add: cid sign signed_def signed_password_def sign_limits length_fips_sha256)
  have par: "par_client_id q = Some (given_or (par_client_id p) (clientid_text ?d ?kv))"
    "par_username q = Some (given_or (par_username p) (dk @ [0x26] @ pk))"
    "par_password q = Some (given_or (par_password p) (signed_password pk dk ds))"
    using q string_or_given [OF _ mem(1)] string_or_given [OF _ mem(2)] string_or_given [OF _ mem(3)]
    by (auto simp: mqtt_params_def Option.bind_eq_Some_conv)
  have "cl (api_sys a') = cl s1"
    by (simp add: a' run_callback_def split: option.split)
  with start_client_ok [OF start] par a' n show ?thesis
    by (simp add: credentials_def)
qed

section \<open>The life of a client\<close>

datatype 'w api_call =
    Outside 'w ioctl_state event_map
  | Construct "iotx_mqtt_param option"
  | Destroy "nat option option"
  | Yield "nat option" int
  | Check "nat option"
  | Subscribe "nat option" "byte list option" int "nat option" nat
  | Subscribe_Sync "nat option" "byte list option" int "nat option" nat int
  | Unsubscribe "nat option" "byte list option"
  | Publish "nat option" "byte list option" "iotx_mqtt_topic_info option"
  | Publish_Simple "nat option" "byte list option" int "byte list option" int

text \<open>Between calls the outside world, the settings and the callbacks may become anything.\<close>

fun api_do :: "'w env \<Rightarrow> 'w api_call \<Rightarrow> 'w mqtt_api \<Rightarrow> 'w mqtt_api option" where
  "api_do env (Outside w st ev) a = Some (a\<lparr>api_sys := (api_sys a)\<lparr>world := w, settings := st, events := ev\<rparr>\<rparr>)"
| "api_do env (Construct p) a = map_option snd (IOT_MQTT_Construct env p a)"
| "api_do env (Destroy h) a = map_option snd (IOT_MQTT_Destroy env h a)"
| "api_do env (Yield h ms) a = map_option snd (IOT_MQTT_Yield env h ms a)"
| "api_do env (Check h) a = map_option snd (IOT_MQTT_CheckStateNormal h a)"
| "api_do env (Subscribe h tf q f x) a = map_option snd (IOT_MQTT_Subscribe env h tf q f x a)"
| "api_do env (Subscribe_Sync h tf q f x ms) a = map_option snd (IOT_MQTT_Subscribe_Sync env h tf q f x ms a)"
| "api_do env (Unsubscribe h tf) a = map_option snd (IOT_MQTT_Unsubscribe env h tf a)"
| "api_do env (Publish h tn m) a = map_option snd (IOT_MQTT_Publish env h tn m a)"
| "api_do env (Publish_Simple h tn q d l) a = map_option snd (IOT_MQTT_Publish_Simple env h tn q d l a)"

fun api_run :: "'w env \<Rightarrow> 'w api_call list \<Rightarrow> 'w mqtt_api \<Rightarrow> 'w mqtt_api option" where
  "api_run env [] a = Some a"
| "api_run env (c # cs) a = Option.bind (api_do env c a) (api_run env cs)"

definition api_live :: "'w mqtt_api \<Rightarrow> bool" where
  "api_live a \<longleftrightarrow> (\<forall>n. g_mqtt_client a = Some n \<longrightarrow> n < clients_made a \<and> client_live (cl (api_sys a)))"

text \<open>What a step does to the client of a number: it goes on with its parameters, or the number is
  never used again.\<close>

definition goes_on :: "'w mqtt_api \<Rightarrow> 'w mqtt_api \<Rightarrow> bool" where
  "goes_on a a' \<longleftrightarrow> api_live a' \<and> clients_made a \<le> clients_made a' \<and>
     (\<forall>n. g_mqtt_client a' = Some n \<longrightarrow> n < clients_made a \<longrightarrow>
       g_mqtt_client a = Some n \<and> same_params (api_sys a) (api_sys a'))"

lemma goes_on_refl: "api_live a \<Longrightarrow> goes_on a a"
  by (simp add: goes_on_def same_params_def)

lemma goes_on_trans: "goes_on a b \<Longrightarrow> goes_on b c \<Longrightarrow> goes_on a c"
  unfolding goes_on_def by (meson le_trans less_le_trans same_params_trans)

lemma on_client_goes_on:
  assumes "client_call f" "on_client client r f a = Some (rc, a')" "api_live a"
  shows "goes_on a a'"
proof -
  have "client_live (cl (api_sys a))" if "g_mqtt_client a \<noteq> None"
    using assms(3) that by (auto simp: api_live_def)
  from client_call.on_client_stays [OF assms(1,2) this] assms(3) show ?thesis
    by (auto simp: goes_on_def api_live_def)
qed

lemma construct_goes_on:
  assumes "IOT_MQTT_Construct env p a = Some (h, a')" "api_live a"
  shows "goes_on a a'"
proof (cases "h = None \<or> g_mqtt_client a \<noteq> None")
  case True
  with assms show ?thesis
    by (auto simp: IOT_MQTT_Construct_def Let_def Option.bind_eq_Some_conv goes_on_refl goes_on_def api_live_def
        same_params_def split: if_splits)
next
  case False
  with assms(1) obtain q s1 where start: "start_client env q (api_sys a) = Some (True, s1)"
    and a': "g_mqtt_client a' = Some (clients_made a)" "clients_made a' = clients_made a + 1"
      "api_sys a' = run_callback env ITE_MQTT_CONNECT_SUCC s1"
    by (auto simp: IOT_MQTT_Construct_def Let_def Option.bind_eq_Some_conv split: if_splits)
  have "cl (api_sys a') = cl s1"
    by (simp add: a' run_callback_def split: option.split)
  with start_client_ok(1) [OF start] a' show ?thesis
    by (simp add: goes_on_def api_live_def)
qed

lemma destroy_goes_on:
  "IOT_MQTT_Destroy env h a = Some (rc, a') \<Longrightarrow> api_live a \<Longrightarrow> goes_on a a'"
  by (auto simp: IOT_MQTT_Destroy_def on_client_def goes_on_def api_live_def same_params_def Let_def
      Option.bind_eq_Some_conv split: if_splits option.splits)

lemma outside_goes_on:
  "api_live a \<Longrightarrow> goes_on a (a\<lparr>api_sys := (api_sys a)\<lparr>world := w, settings := st, events := ev\<rparr>\<rparr>)"
  by (simp add: goes_on_def api_live_def same_params_def)

lemma api_do_goes_on:
  assumes "api_do env c a = Some a'" "api_live a"
  shows "goes_on a a'"
proof -
  note calls = use_yield.client_call_axioms use_subscribe.client_call_axioms use_subscribe_sync.client_call_axioms
    use_unsubscribe.client_call_axioms use_publish.client_call_axioms use_check.client_call_axioms
  show ?thesis
    using assms
    by (cases c)
      (auto simp: IOT_MQTT_Yield_def IOT_MQTT_CheckStateNormal_def IOT_MQTT_Subscribe_def IOT_MQTT_Subscribe_Sync_def
        IOT_MQTT_Unsubscribe_def IOT_MQTT_Publish_def IOT_MQTT_Publish_Simple_def Let_def
        split: if_splits intro: outside_goes_on goes_on_refl construct_goes_on destroy_goes_on on_client_goes_on [OF calls(1)]
          on_client_goes_on [OF calls(2)] on_client_goes_on [OF calls(3)] on_client_goes_on [OF calls(4)]
          on_client_goes_on [OF calls(5)] on_client_goes_on [OF calls(6)])
qed

lemma api_run_goes_on: "api_run env cs a = Some a' \<Longrightarrow> api_live a \<Longrightarrow> goes_on a a'"
proof (induction cs arbitrary: a)
  case (Cons c cs)
  from Cons.prems obtain b where b: "api_do env c a = Some b" "api_run env cs b = Some a'"
    by (auto simp: Option.bind_eq_Some_conv)
  from api_do_goes_on [OF b(1) Cons.prems(2)] have ab: "goes_on a b" .
  then have "api_live b" by (simp add: goes_on_def)
  from goes_on_trans [OF ab Cons.IH [OF b(2) this]] show ?case .
qed (simp add: goes_on_refl)


text \<open>
  Whatever is called through the public interface, the client it holds is well formed, as in
  the invariant of the client.
\<close>

theorem api_invariant:
  assumes "api_run env cs a = Some a'" "g_mqtt_client a = None" "g_mqtt_client a' \<noteq> None"
  shows "client_live (cl (api_sys a'))"
  using api_run_goes_on [OF assms(1)] assms(2,3) by (auto simp: goes_on_def api_live_def)

section \<open>A run\<close>

definition api_env :: "demo env" where
  "api_env = demo_env\<lparr>HAL_UptimeMs := \<lambda>w. (clock w, w\<lparr>clock := clock w + 200\<rparr>)\<rparr>"

definition api_param :: iotx_mqtt_param where
  "api_param = \<lparr>par_port = 0, par_host = Some [104], par_client_id = Some [99], par_username = Some [117],
     par_password = Some [112], par_customize_info = None, par_pub_key = None, par_clean_session = 0,
     par_request_timeout_ms = 5000, par_keepalive_interval_ms = 60000, par_write_buf_size = 1024, par_read_buf_size = 1024,
     par_handle_event = \<lparr>h_fp = None, pcontext = 0\<rparr>\<rparr>"

definition api_settings :: ioctl_state where
  "api_settings = g_sdk_impl_ctx\<lparr>ctx := (ctx g_sdk_impl_ctx)\<lparr>cloud_custom_domain := [104, 111], product_key := [112],
     device_key := [100], device_secret := [115]\<rparr>, custom_domain_set := True\<rparr>"

definition api_begin :: "demo sys" where
  "api_begin = \<lparr>cl = client_zero, world = \<lparr>clock = 0, rx = [0x20, 2, 0, 0], tx = []\<rparr>, in_yield_cb = False,
     settings = api_settings, events = g_impl_event_map\<rparr>"

definition api_start :: "demo mqtt_api" where
  "api_start = \<lparr>api_sys = api_begin, g_mqtt_client = None, clients_made = 0, g_default_sign = sign_zero\<rparr>"

definition api_effective :: iotx_mqtt_param where
  "api_effective = api_param\<lparr>par_port := 11883\<rparr>"



definition api_s1 :: "demo sys" where
  "api_s1 = snd (uptime api_env (snd (wrapper_mqtt_init api_env api_effective api_begin)))"

definition api_s2 :: "demo sys" where
  "api_s2 = snd (mqtt_nwk_connect api_env api_s1)"

definition api_s3 :: "demo sys" where
  "api_s3 = snd (the (mqtt_connect api_env api_s2))"

definition api_online :: "demo sys" where
  "api_online = the (wait_identity api_env 8 (replicate (IOTX_PRODUCT_KEY_LEN + 1) 0)
     (replicate (IOTX_DEVICE_KEY_LEN + 1) 0) api_s3)"

lemma api_init: "fst (wrapper_mqtt_init api_env api_effective api_begin)"
  by code_simp

lemma api_events: "events (snd (wrapper_mqtt_init api_env api_effective api_begin)) = g_impl_event_map"
  by code_simp

lemma api_nwk: "fst (mqtt_nwk_connect api_env api_s1) = 0"
  by code_simp

lemma api_mqtt: "map_option fst (mqtt_connect api_env api_s2) = Some 0"
  by code_simp

lemma api_wait: "map_option (\<lambda>s. ()) (wait_identity api_env 8 (replicate (IOTX_PRODUCT_KEY_LEN + 1) 0)
     (replicate (IOTX_DEVICE_KEY_LEN + 1) 0) api_s3) = Some ()"
  by code_simp

lemma api_connects: "wrapper_mqtt_connect api_env api_s1 = Some (0, api_online)"
proof -
  have "mqtt_connect api_env api_s2 = Some (0, api_s3)"
    using api_mqtt by (cases "mqtt_connect api_env api_s2") (auto simp: api_s3_def)
  moreover have "wait_identity api_env 8 (replicate (IOTX_PRODUCT_KEY_LEN + 1) 0)
     (replicate (IOTX_DEVICE_KEY_LEN + 1) 0) api_s3 = Some api_online"
    using api_wait by (auto simp: api_online_def)
  ultimately show ?thesis
    using api_nwk by (simp add: wrapper_mqtt_connect_def split_beta Let_def api_s2_def [symmetric])
qed

lemma api_starts: "start_client api_env api_effective api_begin = Some (True, snd (uptime api_env api_online))"
  using api_init api_events api_connects
  by (simp add: start_client_def split_beta Let_def report_client_id_def g_impl_event_map_def ITE_STATE_MQTT_COMM_def
      iotx_event_callback_def ITE_COUNT_def api_s1_def [symmetric])

lemma api_device: "device_is [112] [100] [115] api_begin"
  by (simp add: device_is_def identity_ok_def api_begin_def api_settings_def len_limits)

lemma api_constructs: "\<exists>a'. IOT_MQTT_Construct api_env (Some api_param) api_start = Some (Some 0, a')"
proof -
  note meta = read_meta_of [OF api_device]
  have i: "identity_ok [112] [100] [115]" using api_device by (simp add: device_is_def)
  have dom: "g_infra_mqtt_domain (settings api_begin) = Some [104, 111]"
    by (simp add: g_infra_mqtt_domain_def api_begin_def api_settings_def)
  have "IOT_Sign_MQTT (Some [104, 111]) (Some (meta_of [112] [100] [115])) sign_zero =
      Some (0, signed [112] [100] [115] [104, 111])"
    using sign_short_identity [OF i, of "Some [104, 111]" sign_zero]
    by (simp add: sign_fits_def sign_source_length sign_limits)
  note this [unfolded dom [symmetric]]
  moreover have "sign_get_clientid (sign_clientid (signed [112] [100] [115] [104, 111])) (text_in 85 ([112] @ [0x2E] @ [100])) None
      = Some (0, text_in DEV_SIGN_CLIENT_ID_MAXLEN (clientid_text ([112] @ [0x2E] @ [100]) None))"
    by (rule sign_get_clientid_ok) (simp_all add: signed_def kv_clean_def clientid_text_def sign_limits)
  moreover have "mqtt_params (Some api_param) x = Some api_effective"
    if "sign_port x = 11883" for x
    using that by (simp add: mqtt_params_def api_param_def api_effective_def string_or_def mqtt_config)
  ultimately show ?thesis
    using meta terminated_meta [OF i] device_id_of [OF i] api_starts
    by (auto simp: IOT_MQTT_Construct_def api_start_def Let_def signed_def api_param_def)
qed


theorem api_invariant_witness:
  "\<exists>a. api_run api_env [Construct (Some api_param)] api_start = Some a \<and> client_live (cl (api_sys a))"
proof -
  obtain a1 where c: "IOT_MQTT_Construct api_env (Some api_param) api_start = Some (Some 0, a1)"
    using api_constructs by blast
  then have r: "api_run api_env [Construct (Some api_param)] api_start = Some a1" by simp
  have g: "g_mqtt_client api_start = None" "g_mqtt_client a1 \<noteq> None"
    using c by (auto simp: api_start_def IOT_MQTT_Construct_def Let_def Option.bind_eq_Some_conv split: if_splits)
  from api_invariant [OF r g] r show ?thesis by blast
qed

end
