(* ===== verification/ConnMgr.thy ===== *)
theory ConnMgr
  imports MqttApi
begin

text \<open>
  The connectivity manager, \<^verbatim>\<open>src/src/dev_model/iotx_cm.c\<close> and \<^verbatim>\<open>iotx_cm_mqtt.c\<close>: a table of three
  descriptors over the one MQTT connection, and the thread that lets it work.

  A connection object is known by a number, as clients are in \<open>MqttApi\<close>: the one in memory is
  \<open>mqtt_connection\<close>; a descriptor that holds another number points at freed memory. The outcome
  \<open>Freed\<close> is the use of a freed object; \<open>Undefined\<close> is undefined behaviour or no return of a function
  of the client.

  The build is the gateway one: \<^verbatim>\<open>DEVICE_MODEL_GATEWAY\<close>, no CoAP. The functions of the connection
  (\<^verbatim>\<open>connect_func\<close> and the others) are always the ones of \<^verbatim>\<open>_set_common_handlers\<close>.
\<close>

section \<open>The state\<close>

datatype 'a outcome = Done 'a | Freed | Undefined

datatype iotx_cm_event_type = IOTX_CM_EVENT_CLOUD_CONNECTED | IOTX_CM_EVENT_CLOUD_CONNECT_FAILED
  | IOTX_CM_EVENT_CLOUD_DISCONNECT | IOTX_CM_EVENT_SUBCRIBE_SUCCESS | IOTX_CM_EVENT_SUBCRIBE_FAILED
  | IOTX_CM_EVENT_UNSUB_SUCCESS | IOTX_CM_EVENT_UNSUB_FAILED | IOTX_CM_EVENT_PUBLISH_SUCCESS
  | IOTX_CM_EVENT_PUBLISH_FAILED

record iotx_cm_event_msg =
  cm_event_type :: iotx_cm_event_type
  cm_event_detail :: event_detail

text \<open>What the event callback gets as its context: the pointer given at opening, or the connection itself.\<close>

datatype cm_context = Cb_data nat | The_connection

datatype iotx_cm_protocol_type = IOTX_CM_PROTOCOL_TYPE_MQTT | IOTX_CM_PROTOCOL_TYPE_COAP
  | IOTX_CM_PROTOCOL_TYPE_OTHER

datatype iotx_cm_ack_type = IOTX_CM_MESSAGE_NO_ACK | IOTX_CM_MESSAGE_NEED_ACK | IOTX_CM_MESSAGE_SUB_LOCAL
  | IOTX_CM_MESSAGE_ACK_OTHER

record iotx_cm_ext_params =
  ext_ack_type :: iotx_cm_ack_type
  ext_async :: bool
  ext_sync_timeout :: u32

record iotx_cm_init_param =
  cp_request_timeout_ms :: u32
  cp_keepalive_interval_ms :: u32
  cp_write_buf_size :: u32
  cp_read_buf_size :: u32
  cp_protocol_type :: iotx_cm_protocol_type
  cp_handle_event :: "nat option"
  cp_context :: nat

text \<open>
  \<open>customized\<close>: whether \<^verbatim>\<open>customize_info\<close> of the parameters points at the string of the settings; it
  is null before.
\<close>

record iotx_cm_connection =
  conn_fd :: int
  open_params :: iotx_mqtt_param
  customized :: bool
  conn_context :: "nat option"
  event_handler :: "nat option"
  cb_data :: nat

text \<open>
  The yield thread, by the statement it is about to execute: \<open>Thread_new\<close> its first assignment,
  \<open>Thread_loop\<close> the test of its loop, \<open>Thread_slot i\<close> the turn of slot \<open>i\<close> of the table, \<open>Thread_loaded i\<close>
  the call of the function read from that slot, \<open>Thread_yielding i h\<close> the work of the client on the handle
  \<open>h\<close> it was given.
\<close>

datatype yield_thread = Thread_new | Thread_loop | Thread_slot nat | Thread_loaded nat
  | Thread_yielding nat "nat option"

record 'w cm =
  cm_api :: "'w mqtt_api"
  mqtt_connection :: "(nat \<times> iotx_cm_connection) option"
  connections_made :: nat
  cm_fd :: "nat option list"
  fd_lock :: bool
  inited_conn_num :: int
  yield_task_leave :: bool
  yield_threads :: "yield_thread list"
  g_event_monitor :: "nat option"

text \<open>Callbacks are numbers; for a data callback 0 is the null pointer.\<close>

record 'w cm_env =
  cm_base :: "'w env"
  HAL_ThreadCreate :: "'w \<Rightarrow> int \<times> 'w"
  cm_event_cb :: "nat \<Rightarrow> int \<Rightarrow> iotx_cm_event_msg \<Rightarrow> cm_context \<Rightarrow> 'w \<Rightarrow> 'w"
  cm_data_cb :: "nat \<Rightarrow> int \<Rightarrow> byte list \<Rightarrow> byte list option \<Rightarrow> u32 \<Rightarrow> 'w \<Rightarrow> 'w"
  monitor_cb :: "nat \<Rightarrow> int \<Rightarrow> 'w \<Rightarrow> 'w"
  sizeof_connection :: u32
  sizeof_mqtt_param :: u32

definition CM_MAX_FD_NUM :: nat where "CM_MAX_FD_NUM = 3"
definition CM_DEFAULT_YIELD_TIMEOUT :: int where "CM_DEFAULT_YIELD_TIMEOUT = 200"
definition IOTX_CONN_CLOUD :: int where "IOTX_CONN_CLOUD = 0x2000"
definition IOTX_CONN_CLOUD_FAIL :: int where "IOTX_CONN_CLOUD_FAIL = 0x2001"
definition IOTX_CONN_CLOUD_SUC :: int where "IOTX_CONN_CLOUD_SUC = 0x2002"
definition IOTX_MQTT_QOS0 :: int where "IOTX_MQTT_QOS0 = 0"
definition IOTX_MQTT_QOS1 :: int where "IOTX_MQTT_QOS1 = 1"

abbreviation (input) NULL_VALUE_ERROR :: int where "NULL_VALUE_ERROR \<equiv> - 2"

definition on_world :: "('w \<Rightarrow> 'w) \<Rightarrow> 'w cm \<Rightarrow> 'w cm" where
  "on_world f c = c\<lparr>cm_api := (cm_api c)\<lparr>api_sys := (api_sys (cm_api c))\<lparr>world := f (world (api_sys (cm_api c)))\<rparr>\<rparr>\<rparr>"

definition on_sys :: "('w sys \<Rightarrow> 'a \<times> 'w sys) \<Rightarrow> 'w cm \<Rightarrow> 'a \<times> 'w cm" where
  "on_sys f c = (let (r, s) = f (api_sys (cm_api c)) in (r, c\<lparr>cm_api := (cm_api c)\<lparr>api_sys := s\<rparr>\<rparr>))"

definition the_conn :: "'w cm \<Rightarrow> iotx_cm_connection option" where
  "the_conn c = map_option snd (mqtt_connection c)"

definition upd_conn :: "(iotx_cm_connection \<Rightarrow> iotx_cm_connection) \<Rightarrow> 'w cm \<Rightarrow> 'w cm" where
  "upd_conn f c = c\<lparr>mqtt_connection := map_option (map_prod (\<lambda>n. n) f) (mqtt_connection c)\<rparr>"

definition iotx_event_post :: "'w cm_env \<Rightarrow> int \<Rightarrow> 'w cm \<Rightarrow> 'w cm" where
  "iotx_event_post env event c =
     (case g_event_monitor c of None \<Rightarrow> c | Some m \<Rightarrow> on_world (monitor_cb env m event) c)"

section \<open>Events of the client\<close>

definition notify :: "'w cm_env \<Rightarrow> iotx_cm_connection \<Rightarrow> iotx_cm_event_type \<Rightarrow> event_detail \<Rightarrow> cm_context \<Rightarrow> 'w \<Rightarrow> 'w" where
  "notify env conn ty m ctxt w =
     (case event_handler conn of
        None \<Rightarrow> w
      | Some f \<Rightarrow> cm_event_cb env f (conn_fd conn) \<lparr>cm_event_type = ty, cm_event_detail = m\<rparr> ctxt w)"

text \<open>A message for a subscription: the topic is copied and terminated; the client always gives one.\<close>

definition hand_over :: "'w cm_env \<Rightarrow> iotx_cm_connection \<Rightarrow> nat \<Rightarrow> iotx_mqtt_topic_info \<Rightarrow> 'w \<Rightarrow> 'w" where
  "hand_over env conn fn ti w =
     (if fn = 0 then w
      else let (ok, w) = HAL_Malloc (cm_base env) (ucast (topic_len ti) + 1) w
        in if \<not> ok then w
           else cm_data_cb env fn (conn_fd conn)
                  (takeWhile (\<lambda>b. b \<noteq> 0) (take (unat (topic_len ti)) (the (ptopic ti)))) (payload ti) (payload_len ti) w)"

definition iotx_cloud_conn_mqtt_event_handle ::
  "'w cm_env \<Rightarrow> iotx_cm_connection option \<Rightarrow> nat \<Rightarrow> iotx_mqtt_event_msg \<Rightarrow> 'w \<Rightarrow> 'w" where
  "iotx_cloud_conn_mqtt_event_handle env connection pctx m w =
     (case connection of
        None \<Rightarrow> w
      | Some conn \<Rightarrow>
          (let tell = (\<lambda>ty d. notify env conn ty d (Cb_data (cb_data conn)) w)
           in case event_type m of
             IOTX_MQTT_EVENT_DISCONNECT \<Rightarrow> tell IOTX_CM_EVENT_CLOUD_DISCONNECT Ev_null
           | IOTX_MQTT_EVENT_RECONNECT \<Rightarrow> tell IOTX_CM_EVENT_CLOUD_CONNECTED Ev_null
           | IOTX_MQTT_EVENT_SUBCRIBE_SUCCESS \<Rightarrow> tell IOTX_CM_EVENT_SUBCRIBE_SUCCESS (msg m)
           | IOTX_MQTT_EVENT_SUBCRIBE_NACK \<Rightarrow> tell IOTX_CM_EVENT_SUBCRIBE_FAILED (msg m)
           | IOTX_MQTT_EVENT_SUBCRIBE_TIMEOUT \<Rightarrow> tell IOTX_CM_EVENT_SUBCRIBE_FAILED (msg m)
           | IOTX_MQTT_EVENT_UNSUBCRIBE_SUCCESS \<Rightarrow> tell IOTX_CM_EVENT_UNSUB_SUCCESS (msg m)
           | IOTX_MQTT_EVENT_UNSUBCRIBE_NACK \<Rightarrow> tell IOTX_CM_EVENT_UNSUB_FAILED (msg m)
           | IOTX_MQTT_EVENT_UNSUBCRIBE_TIMEOUT \<Rightarrow> tell IOTX_CM_EVENT_UNSUB_FAILED (msg m)
           | IOTX_MQTT_EVENT_PUBLISH_SUCCESS \<Rightarrow> tell IOTX_CM_EVENT_PUBLISH_SUCCESS (msg m)
           | IOTX_MQTT_EVENT_PUBLISH_NACK \<Rightarrow> tell IOTX_CM_EVENT_PUBLISH_FAILED (msg m)
           | IOTX_MQTT_EVENT_PUBLISH_TIMEOUT \<Rightarrow> tell IOTX_CM_EVENT_PUBLISH_FAILED (msg m)
           | IOTX_MQTT_EVENT_PUBLISH_RECEIVED \<Rightarrow> (case msg m of Ev_topic ti \<Rightarrow> hand_over env conn pctx ti w | _ \<Rightarrow> w)
           | _ \<Rightarrow> w))"

text \<open>The number of the handler among the callbacks of the client, and the client's environment with it.\<close>

definition CONN_EVENT_HANDLE :: nat where "CONN_EVENT_HANDLE = 0"

definition client_env :: "'w cm_env \<Rightarrow> 'w cm \<Rightarrow> 'w env" where
  "client_env env c = (cm_base env)\<lparr>app_call := \<lambda>fn pctx m w.
     if fn = CONN_EVENT_HANDLE then iotx_cloud_conn_mqtt_event_handle env (the_conn c) pctx m w
     else app_call (cm_base env) fn pctx m w\<rparr>"

text \<open>A call of the client on a handle.\<close>

definition use_client ::
  "nat option \<Rightarrow> ('w mqtt_api \<Rightarrow> (int \<times> 'w mqtt_api) option) \<Rightarrow> 'w cm \<Rightarrow> (int \<times> 'w cm) outcome" where
  "use_client h call c =
     (if h \<noteq> None \<and> g_mqtt_client (cm_api c) \<noteq> h then Freed
      else (case call (cm_api c) of None \<Rightarrow> Undefined | Some (rc, a) \<Rightarrow> Done (rc, c\<lparr>cm_api := a\<rparr>)))"

section \<open>The connection\<close>

definition new_connection :: "iotx_cm_init_param \<Rightarrow> iotx_cm_connection" where
  "new_connection p =
     \<lparr>conn_fd = 0,
      open_params = \<lparr>par_port = 0, par_host = None, par_client_id = None, par_username = None, par_password = None,
        par_customize_info = None, par_pub_key = None, par_clean_session = 0,
        par_request_timeout_ms = cp_request_timeout_ms p, par_keepalive_interval_ms = cp_keepalive_interval_ms p,
        par_write_buf_size = cp_write_buf_size p, par_read_buf_size = cp_read_buf_size p,
        par_handle_event = \<lparr>h_fp = Some CONN_EVENT_HANDLE, pcontext = 0\<rparr>\<rparr>,
      customized = False, conn_context = None, event_handler = cp_handle_event p, cb_data = cp_context p\<rparr>"

definition iotx_cm_open_mqtt :: "'w cm_env \<Rightarrow> iotx_cm_init_param \<Rightarrow> 'w cm \<Rightarrow> nat option \<times> 'w cm" where
  "iotx_cm_open_mqtt env p c =
     (if mqtt_connection c \<noteq> None then (map_option fst (mqtt_connection c), c)
      else let (ok, c) = on_sys (malloc (cm_base env) (sizeof_connection env)) c
        in if \<not> ok then (None, c)
           else let (ok, c) = on_sys (malloc (cm_base env) (sizeof_mqtt_param env)) c
             in if \<not> ok then (None, c)
                else let n = connections_made c
                  in (Some n, c\<lparr>mqtt_connection := Some (n, new_connection p), connections_made := n + 1\<rparr>))"

definition get_mqtt_qos :: "iotx_cm_ack_type \<Rightarrow> int" where
  "get_mqtt_qos ack =
     (case ack of
        IOTX_CM_MESSAGE_NO_ACK \<Rightarrow> IOTX_MQTT_QOS0 | IOTX_CM_MESSAGE_NEED_ACK \<Rightarrow> IOTX_MQTT_QOS1
      | IOTX_CM_MESSAGE_SUB_LOCAL \<Rightarrow> IOTX_MQTT_QOS3_SUB_LOCAL | IOTX_CM_MESSAGE_ACK_OTHER \<Rightarrow> IOTX_MQTT_QOS0)"

text \<open>The parameters as \<^verbatim>\<open>IOT_MQTT_Construct\<close> reads them.\<close>

definition params_now :: "iotx_cm_connection \<Rightarrow> 'w cm \<Rightarrow> iotx_mqtt_param" where
  "params_now conn c = (open_params conn)\<lparr>par_customize_info :=
     (if customized conn then Some (mqtt_customzie_info (ctx (settings (api_sys (cm_api c))))) else None)\<rparr>"

text \<open>Constructing the client until it works or the time is over; the connection is there.\<close>

partial_function (option) construct_loop ::
  "'w cm_env \<Rightarrow> iotx_cm_connection \<Rightarrow> iotx_time \<Rightarrow> 'w cm \<Rightarrow> (nat option \<times> 'w cm) option" where
  "construct_loop env conn timer c = do {
     (h, a) \<leftarrow> IOT_MQTT_Construct (client_env env c) (Some (params_now conn c)) (cm_api c);
     let c = c\<lparr>cm_api := a\<rparr>;
     (if h \<noteq> None then Some (h, c)
      else let c = on_world (HAL_SleepMs (cm_base env) 500) c;
               (over, c) = on_sys (time_expired (cm_base env) timer) c
        in if over then Some (None, c) else construct_loop env conn timer c) }"

declare construct_loop.simps [code]

definition with_settings :: "sdk_impl_ctx \<Rightarrow> iotx_cm_connection \<Rightarrow> iotx_cm_connection" where
  "with_settings st conn =
     (let conn = (if mqtt_customzie_info st \<noteq> [] then conn\<lparr>customized := True\<rparr> else conn)
      in if mqtt_port_num st \<noteq> 0 then conn\<lparr>open_params := (open_params conn)\<lparr>par_port := mqtt_port_num st\<rparr>\<rparr>
         else conn)"

definition cm_mqtt_connect :: "'w cm_env \<Rightarrow> u32 \<Rightarrow> 'w cm \<Rightarrow> (int \<times> 'w cm) outcome" where
  "cm_mqtt_connect env timeout c =
     (case the_conn c of
        None \<Rightarrow> Done (STATE_DEV_MODEL_INTERNAL_MQTT_NOT_INIT_YET, c)
      | Some conn \<Rightarrow>
          (case read_meta_info (api_sys (cm_api c)) of
             None \<Rightarrow> Undefined
           | Some meta \<Rightarrow>
               (case (c_str (meta_product_key meta), c_str (meta_device_key meta)) of
                  (Some pk, Some dk) \<Rightarrow>
                    if pk = [] then Done (STATE_USER_INPUT_PK, c)
                    else if dk = [] then Done (STATE_USER_INPUT_DN, c)
                    else let (timer, c) = on_sys (countdown (cm_base env) timeout) c;
                             conn = with_settings (ctx (settings (api_sys (cm_api c)))) conn;
                             c = upd_conn (\<lambda>_. conn) c
                      in (case construct_loop env conn timer c of
                            None \<Rightarrow> Undefined
                          | Some (None, c) \<Rightarrow>
                              Done (STATE_DEV_MODEL_MQTT_CONNECT_FAILED,
                                on_world (notify env conn IOTX_CM_EVENT_CLOUD_CONNECT_FAILED Ev_null The_connection) c)
                          | Some (Some h, c) \<Rightarrow>
                              let c = upd_conn (\<lambda>x. x\<lparr>conn_context := Some h\<rparr>) c
                              in Done (STATE_SUCCESS,
                                   on_world (notify env conn IOTX_CM_EVENT_CLOUD_CONNECTED Ev_null The_connection) c))
                | _ \<Rightarrow> Undefined)))"

definition on_connection ::
  "(iotx_cm_connection \<Rightarrow> 'w cm \<Rightarrow> (int \<times> 'w cm) outcome) \<Rightarrow> 'w cm \<Rightarrow> (int \<times> 'w cm) outcome" where
  "on_connection f c =
     (case the_conn c of
        None \<Rightarrow> Done (STATE_DEV_MODEL_INTERNAL_MQTT_NOT_INIT_YET, c) | Some conn \<Rightarrow> f conn c)"

definition cm_mqtt_publish ::
  "'w cm_env \<Rightarrow> iotx_cm_ext_params option \<Rightarrow> byte list option \<Rightarrow> byte list option \<Rightarrow> u32 \<Rightarrow> 'w cm \<Rightarrow>
   (int \<times> 'w cm) outcome" where
  "cm_mqtt_publish env ext topic data len c = on_connection (\<lambda>conn c.
     let q = (case ext of None \<Rightarrow> 0 | Some e \<Rightarrow> get_mqtt_qos (ext_ack_type e))
     in use_client (conn_context conn)
          (IOT_MQTT_Publish_Simple (client_env env c) (conn_context conn) topic q data (sint len)) c) c"

definition cm_mqtt_sub ::
  "'w cm_env \<Rightarrow> iotx_cm_ext_params option \<Rightarrow> byte list option \<Rightarrow> nat \<Rightarrow> 'w cm \<Rightarrow> (int \<times> 'w cm) outcome" where
  "cm_mqtt_sub env ext topic topic_handle_func c = on_connection (\<lambda>conn c.
     let q = (case ext of None \<Rightarrow> IOTX_MQTT_QOS0 | Some e \<Rightarrow> get_mqtt_qos (ext_ack_type e))
     in (case ext of
           Some e \<Rightarrow>
             if ext_async e
             then use_client (conn_context conn) (IOT_MQTT_Subscribe (client_env env c) (conn_context conn) topic q
                    (Some CONN_EVENT_HANDLE) topic_handle_func) c
             else use_client (conn_context conn) (IOT_MQTT_Subscribe_Sync (client_env env c) (conn_context conn) topic q
                    (Some CONN_EVENT_HANDLE) topic_handle_func (sint (ext_sync_timeout e))) c
         | None \<Rightarrow> use_client (conn_context conn) (IOT_MQTT_Subscribe (client_env env c) (conn_context conn) topic q
                    (Some CONN_EVENT_HANDLE) topic_handle_func) c)) c"

definition cm_mqtt_unsub :: "'w cm_env \<Rightarrow> byte list option \<Rightarrow> 'w cm \<Rightarrow> (int \<times> 'w cm) outcome" where
  "cm_mqtt_unsub env topic c = on_connection (\<lambda>conn c.
     use_client (conn_context conn) (IOT_MQTT_Unsubscribe (client_env env c) (conn_context conn) topic) c) c"

definition cm_mqtt_close :: "'w cm_env \<Rightarrow> 'w cm \<Rightarrow> (int \<times> 'w cm) outcome" where
  "cm_mqtt_close env c = on_connection (\<lambda>conn c.
     (case use_client (conn_context conn) (IOT_MQTT_Destroy (client_env env c) (Some (conn_context conn))) c of
        Done (_, c) \<Rightarrow> Done (STATE_SUCCESS, c\<lparr>mqtt_connection := None\<rparr>)
      | Freed \<Rightarrow> Freed | Undefined \<Rightarrow> Undefined)) c"

section \<open>Descriptors\<close>

definition fd_is_valid :: "int \<Rightarrow> 'w cm \<Rightarrow> int" where
  "fd_is_valid fd c =
     (if \<not> fd_lock c then NULL_VALUE_ERROR
      else if fd \<ge> 0 \<and> fd < int CM_MAX_FD_NUM \<and> cm_fd c ! nat fd \<noteq> None then 0 else - 1)"

definition create_lock :: "'w cm_env \<Rightarrow> 'w cm \<Rightarrow> bool \<times> 'w cm" where
  "create_lock env c =
     (if fd_lock c then (True, c)
      else let (ok, w) = HAL_MutexCreate (cm_base env) (world (api_sys (cm_api c)))
        in (ok, (on_world (\<lambda>_. w) c)\<lparr>fd_lock := ok\<rparr>))"

definition recycle_fd :: "'w cm_env \<Rightarrow> int \<Rightarrow> 'w cm \<Rightarrow> int \<times> 'w cm" where
  "recycle_fd env fd c =
     (let (ok, c) = create_lock env c
      in if \<not> ok then (- 1, c)
         else if fd < 0 \<or> fd > int CM_MAX_FD_NUM - 1 then (- 1, c)
         else (0, c\<lparr>cm_fd := (cm_fd c)[nat fd := None]\<rparr>))"

fun free_slot :: "nat \<Rightarrow> 'a option list \<Rightarrow> nat option" where
  "free_slot i [] = None"
| "free_slot i (x # xs) = (if x = None then Some i else free_slot (i + 1) xs)"

definition get_fd :: "'w cm_env \<Rightarrow> nat \<Rightarrow> 'w cm \<Rightarrow> int \<times> 'w cm" where
  "get_fd env h c =
     (let (ok, c) = create_lock env c
      in if \<not> ok then (STATE_SYS_DEPEND_MUTEX_CREATE, c)
         else (case free_slot 0 (cm_fd c) of
                 None \<Rightarrow> (STATE_DEV_MODEL_CM_FD_NOT_FOUND, c)
               | Some i \<Rightarrow> (int i, c\<lparr>cm_fd := (cm_fd c)[i := Some h]\<rparr>)))"

definition iotx_cm_open :: "'w cm_env \<Rightarrow> iotx_cm_init_param \<Rightarrow> 'w cm \<Rightarrow> (int \<times> 'w cm) outcome" where
  "iotx_cm_open env p c =
     (let (h, c) = (if cp_protocol_type p = IOTX_CM_PROTOCOL_TYPE_MQTT then iotx_cm_open_mqtt env p c else (None, c))
      in case h of
           None \<Rightarrow> Done (STATE_DEV_MODEL_CM_OPEN_FAILED, c)
         | Some n \<Rightarrow>
             let (fd, c) = get_fd env n c
             in if fd < 0
                then (case cm_mqtt_close env c of
                        Done (_, c) \<Rightarrow> Done (fd, c) | Freed \<Rightarrow> Freed | Undefined \<Rightarrow> Undefined)
                else Done (fd, upd_conn (\<lambda>x. x\<lparr>conn_fd := fd\<rparr>) c))"

text \<open>Whether the connection a slot holds is still in memory; every use of a descriptor reads it.\<close>

definition slot_alive :: "nat \<Rightarrow> 'w cm \<Rightarrow> bool" where
  "slot_alive i c \<longleftrightarrow> cm_fd c ! i = map_option fst (mqtt_connection c)"

definition on_fd :: "int \<Rightarrow> ('w cm \<Rightarrow> (int \<times> 'w cm) outcome) \<Rightarrow> 'w cm \<Rightarrow> (int \<times> 'w cm) outcome" where
  "on_fd fd f c =
     (if fd_is_valid fd c < 0 then Done (STATE_DEV_MODEL_CM_FD_ERROR, c)
      else if \<not> slot_alive (nat fd) c then Freed else f c)"

text \<open>A connection that came about: the first one starts the yield thread.\<close>

definition start_yielding :: "'w cm_env \<Rightarrow> 'w cm \<Rightarrow> int \<times> 'w cm" where
  "start_yielding env c =
     (let c = c\<lparr>inited_conn_num := inited_conn_num c + 1\<rparr>
      in if inited_conn_num c = 1
         then let (rc, w) = HAL_ThreadCreate env (world (api_sys (cm_api c)));
                  c = on_world (\<lambda>_. w) c
           in if rc < 0 then (rc, c\<lparr>inited_conn_num := inited_conn_num c - 1\<rparr>)
              else (rc, c\<lparr>yield_threads := yield_threads c @ [Thread_new]\<rparr>)
         else (0, c))"

definition iotx_cm_connect :: "'w cm_env \<Rightarrow> int \<Rightarrow> u32 \<Rightarrow> 'w cm \<Rightarrow> (int \<times> 'w cm) outcome" where
  "iotx_cm_connect env fd timeout = on_fd fd (\<lambda>c.
     (case cm_mqtt_connect env timeout (iotx_event_post env IOTX_CONN_CLOUD c) of
        Done (rc, c) \<Rightarrow>
          if rc = 0
          then let (rc, c) = start_yielding env c in Done (rc, iotx_event_post env IOTX_CONN_CLOUD_SUC c)
          else Done (rc, iotx_event_post env IOTX_CONN_CLOUD_FAIL c)
      | Freed \<Rightarrow> Freed | Undefined \<Rightarrow> Undefined))"

definition iotx_cm_yield :: "int \<Rightarrow> u32 \<Rightarrow> 'w cm \<Rightarrow> (int \<times> 'w cm) outcome" where
  "iotx_cm_yield fd timeout c = Done (STATE_SUCCESS, c)"

definition iotx_cm_sub ::
  "'w cm_env \<Rightarrow> int \<Rightarrow> iotx_cm_ext_params option \<Rightarrow> byte list option \<Rightarrow> nat \<Rightarrow> 'w cm \<Rightarrow> (int \<times> 'w cm) outcome" where
  "iotx_cm_sub env fd ext topic topic_handle_func = on_fd fd (cm_mqtt_sub env ext topic topic_handle_func)"

definition iotx_cm_unsub :: "'w cm_env \<Rightarrow> int \<Rightarrow> byte list option \<Rightarrow> 'w cm \<Rightarrow> (int \<times> 'w cm) outcome" where
  "iotx_cm_unsub env fd topic = on_fd fd (cm_mqtt_unsub env topic)"

definition iotx_cm_pub ::
  "'w cm_env \<Rightarrow> int \<Rightarrow> iotx_cm_ext_params option \<Rightarrow> byte list option \<Rightarrow> byte list option \<Rightarrow> u32 \<Rightarrow> 'w cm \<Rightarrow>
   (int \<times> 'w cm) outcome" where
  "iotx_cm_pub env fd ext topic data len = on_fd fd (cm_mqtt_publish env ext topic data len)"

text \<open>
  Closing, before the wait for the yield thread (the result when it ends there), the condition the
  wait ends on, and after it.
\<close>

definition close_enter :: "int \<Rightarrow> 'w cm \<Rightarrow> int option \<times> 'w cm" where
  "close_enter fd c =
     (if fd_is_valid fd c < 0 then (Some STATE_DEV_MODEL_CM_FD_ERROR, c)
      else (None, if inited_conn_num c > 0 then c\<lparr>inited_conn_num := inited_conn_num c - 1\<rparr> else c))"

definition close_may_go_on :: "'w cm \<Rightarrow> bool" where
  "close_may_go_on c \<longleftrightarrow> inited_conn_num c \<noteq> 0 \<or> yield_task_leave c"

definition close_rest :: "'w cm_env \<Rightarrow> int \<Rightarrow> 'w cm \<Rightarrow> (int \<times> 'w cm) outcome" where
  "close_rest env fd c =
     (if \<not> slot_alive (nat fd) c then Freed
      else (case cm_mqtt_close env c of
              Freed \<Rightarrow> Freed
            | Undefined \<Rightarrow> Undefined
            | Done (rc, c) \<Rightarrow>
                if rc \<noteq> 0 then Done (- 1, c)
                else let (rc, c) = recycle_fd env fd c
                  in if rc \<noteq> 0 then Done (- 1, c)
                     else Done (0, if inited_conn_num c = 0 then c\<lparr>fd_lock := False\<rparr> else c)))"

text \<open>
  One statement of a yield thread, and what becomes of the thread (nothing when it ends). A lock
  that has been destroyed must not be taken.
\<close>

definition yield_pass_step :: "'w cm_env \<Rightarrow> yield_thread \<Rightarrow> 'w cm \<Rightarrow> (yield_thread option \<times> 'w cm) outcome" where
  "yield_pass_step env t c =
     (case t of
        Thread_new \<Rightarrow> Done (Some Thread_loop, c\<lparr>yield_task_leave := False\<rparr>)
      | Thread_loop \<Rightarrow>
          if inited_conn_num c > 0
          then Done (Some (if fd_lock c then Thread_slot 0 else Thread_loop), c)
          else Done (None, c\<lparr>yield_task_leave := True\<rparr>)
      | Thread_slot i \<Rightarrow>
          if i \<ge> CM_MAX_FD_NUM then Done (Some Thread_loop, c)
          else if \<not> fd_lock c then Freed
          else if cm_fd c ! i = None then Done (Some (Thread_slot (i + 1)), c)
          else if \<not> slot_alive i c then Freed
          else Done (Some (Thread_loaded i), c)
      | Thread_loaded i \<Rightarrow>
          (case the_conn c of
             None \<Rightarrow> Done (Some (Thread_slot (i + 1)), c)
           | Some conn \<Rightarrow> Done (Some (Thread_yielding i (conn_context conn)), c))
      | Thread_yielding i h \<Rightarrow>
          (case use_client h (IOT_MQTT_Yield (client_env env c) h CM_DEFAULT_YIELD_TIMEOUT) c of
             Done (_, c) \<Rightarrow> Done (Some (Thread_slot (i + 1)), c)
           | Freed \<Rightarrow> Freed | Undefined \<Rightarrow> Undefined))"

section \<open>What the calls of the client leave alone\<close>

text \<open>An outcome that uses nothing freed, and satisfies \<open>P\<close> when there is a result.\<close>

definition fine :: "('a \<Rightarrow> bool) \<Rightarrow> 'a outcome \<Rightarrow> bool" where
  "fine P r \<longleftrightarrow> r \<noteq> Freed \<and> (\<forall>x. r = Done x \<longrightarrow> P x)"

lemma fine_simps [simp]:
  "fine P (Done x) \<longleftrightarrow> P x" "\<not> fine P Freed" "fine P Undefined"
  by (simp_all add: fine_def)

lemma fine_mono: "fine P r \<Longrightarrow> (\<And>x. P x \<Longrightarrow> Q x) \<Longrightarrow> fine Q r"
  by (auto simp: fine_def)

text \<open>Only the client and the world move, and the same client stays.\<close>

definition calm :: "'w cm \<Rightarrow> 'w cm \<Rightarrow> bool" where
  "calm c c' \<longleftrightarrow> (\<exists>a. c' = c\<lparr>cm_api := a\<rparr> \<and> g_mqtt_client a = g_mqtt_client (cm_api c))"

lemma calm_refl [simp]: "calm c c"
  by (auto simp: calm_def intro: exI [of _ "cm_api c"])

lemma calm_trans [trans]: "calm c c' \<Longrightarrow> calm c' c'' \<Longrightarrow> calm c c''"
  by (auto simp: calm_def)

lemma calm_on_world [simp]: "calm c (on_world f c)"
  by (auto simp: calm_def on_world_def)

lemma calm_on_sys: "on_sys f c = (r, c') \<Longrightarrow> calm c c'"
  by (auto simp: calm_def on_sys_def split: prod.splits)

lemma calm_event_post [simp]: "calm c (iotx_event_post env e c)"
  by (simp add: iotx_event_post_def split: option.split)

lemma calm_fields:
  assumes "calm c c'"
  shows "mqtt_connection c' = mqtt_connection c" "cm_fd c' = cm_fd c" "fd_lock c' = fd_lock c"
    "inited_conn_num c' = inited_conn_num c" "yield_task_leave c' = yield_task_leave c"
    "yield_threads c' = yield_threads c" "g_mqtt_client (cm_api c') = g_mqtt_client (cm_api c)"
    "the_conn c' = the_conn c"
  using assms by (auto simp: calm_def the_conn_def)

text \<open>What the manager relies on of a function of the public interface: the same client stays.\<close>

locale handle_call =
  fixes call :: "'w mqtt_api \<Rightarrow> (int \<times> 'w mqtt_api) option"
  assumes keeps: "call a = Some (rc, a') \<Longrightarrow> g_mqtt_client a' = g_mqtt_client a"
begin

lemma use_client_calm:
  "h = None \<or> g_mqtt_client (cm_api c) = h \<Longrightarrow> fine (\<lambda>(rc, c'). calm c c') (use_client h call c)"
  by (auto simp: use_client_def calm_def dest: keeps split: option.split)

end

lemma on_client_keeps: "on_client h r f a = Some (rc, a') \<Longrightarrow> g_mqtt_client a' = g_mqtt_client a"
  by (auto simp: on_client_def Option.bind_eq_Some_conv split: option.splits if_splits)

interpretation api_yield: handle_call "IOT_MQTT_Yield env h ms" for env h ms
  by unfold_locales (auto simp: IOT_MQTT_Yield_def dest: on_client_keeps)

interpretation api_subscribe: handle_call "IOT_MQTT_Subscribe env h tf q f x" for env h tf q f x
  by unfold_locales (auto simp: IOT_MQTT_Subscribe_def Let_def dest: on_client_keeps split: if_splits)

interpretation api_subscribe_sync: handle_call "IOT_MQTT_Subscribe_Sync env h tf q f x ms" for env h tf q f x ms
  by unfold_locales (auto simp: IOT_MQTT_Subscribe_Sync_def Let_def dest: on_client_keeps split: if_splits)

interpretation api_unsubscribe: handle_call "IOT_MQTT_Unsubscribe env h tf" for env h tf
  by unfold_locales (auto simp: IOT_MQTT_Unsubscribe_def dest: on_client_keeps split: if_splits)

interpretation api_publish: handle_call "IOT_MQTT_Publish_Simple env h tn q d l" for env h tn q d l
  by unfold_locales (auto simp: IOT_MQTT_Publish_Simple_def dest: on_client_keeps split: if_splits)

text \<open>A connection that was given a client still has it.\<close>

definition holds_client :: "'w cm \<Rightarrow> bool" where
  "holds_client c \<longleftrightarrow> (\<forall>conn n. the_conn c = Some conn \<longrightarrow> conn_context conn = Some n \<longrightarrow>
     g_mqtt_client (cm_api c) = Some n)"

lemma holds_clientD:
  "holds_client c \<Longrightarrow> the_conn c = Some conn \<Longrightarrow> conn_context conn = None \<or> g_mqtt_client (cm_api c) = conn_context conn"
  by (cases "conn_context conn") (auto simp: holds_client_def)

lemma publish_calm: "holds_client c \<Longrightarrow> fine (\<lambda>(rc, c'). calm c c') (cm_mqtt_publish env ext topic data len c)"
  using holds_clientD [of c]
  by (auto simp: cm_mqtt_publish_def on_connection_def Let_def intro!: api_publish.use_client_calm split: option.split)

lemma sub_calm: "holds_client c \<Longrightarrow> fine (\<lambda>(rc, c'). calm c c') (cm_mqtt_sub env ext topic f c)"
  using holds_clientD [of c]
  by (auto simp: cm_mqtt_sub_def on_connection_def Let_def intro!: api_subscribe.use_client_calm
      api_subscribe_sync.use_client_calm split: option.split)

lemma unsub_calm: "holds_client c \<Longrightarrow> fine (\<lambda>(rc, c'). calm c c') (cm_mqtt_unsub env topic c)"
  using holds_clientD [of c]
  by (auto simp: cm_mqtt_unsub_def on_connection_def intro!: api_unsubscribe.use_client_calm split: option.split)

lemma yielding_calm:
  "h = None \<or> g_mqtt_client (cm_api c) = h \<Longrightarrow>
   fine (\<lambda>(rc, c'). calm c c') (use_client h (IOT_MQTT_Yield env h ms) c)"
  by (rule api_yield.use_client_calm)

text \<open>Closing destroys the client and takes the connection off.\<close>

lemma close_fine:
  assumes "holds_client c" "the_conn c \<noteq> None"
  shows "fine (\<lambda>(rc, c'). rc = 0 \<and> (\<exists>a. c' = c\<lparr>cm_api := a, mqtt_connection := None\<rparr>)) (cm_mqtt_close env c)"
  using assms holds_clientD [of c]
  by (auto simp: cm_mqtt_close_def on_connection_def use_client_def split: option.splits outcome.splits if_splits)

text \<open>The descriptors, the counter and the threads stay; the same connection is there.\<close>

definition same_table :: "'w cm \<Rightarrow> 'w cm \<Rightarrow> bool" where
  "same_table c c' \<longleftrightarrow> map_option fst (mqtt_connection c') = map_option fst (mqtt_connection c) \<and>
     cm_fd c' = cm_fd c \<and> fd_lock c' = fd_lock c \<and> inited_conn_num c' = inited_conn_num c \<and>
     yield_task_leave c' = yield_task_leave c \<and> yield_threads c' = yield_threads c"

lemma same_table_refl [simp]: "same_table c c"
  by (simp add: same_table_def)

lemma same_table_trans [trans]: "same_table c c' \<Longrightarrow> same_table c' c'' \<Longrightarrow> same_table c c''"
  by (simp add: same_table_def)

lemma same_table_calm: "calm c c' \<Longrightarrow> same_table c c'"
  by (simp add: same_table_def calm_fields)

lemma same_table_api [simp]: "same_table c (c\<lparr>cm_api := a\<rparr>)"
  by (simp add: same_table_def)

lemma same_table_upd_conn [simp]: "same_table c (upd_conn f c)"
  by (cases "mqtt_connection c") (auto simp: same_table_def upd_conn_def)

lemma the_conn_upd [simp]: "the_conn (upd_conn f c) = map_option f (the_conn c)"
  by (cases "mqtt_connection c") (auto simp: the_conn_def upd_conn_def)

lemma cm_api_upd [simp]: "cm_api (upd_conn f c) = cm_api c"
  by (simp add: upd_conn_def)

lemma the_conn_api [simp]: "the_conn (c\<lparr>cm_api := a\<rparr>) = the_conn c"
  by (simp add: the_conn_def)

lemma holds_client_calm: "calm c c' \<Longrightarrow> holds_client c \<Longrightarrow> holds_client c'"
  by (simp add: holds_client_def calm_fields)

text \<open>\<^verbatim>\<open>IOT_MQTT_Construct\<close> gives the client of the interface, and does not replace one that is there.\<close>

lemma construct_handle:
  assumes "IOT_MQTT_Construct env p a = Some (h, a')"
  shows "g_mqtt_client a' = h"
proof (cases "g_mqtt_client a = None")
  case True
  with assms show ?thesis
    by (auto simp: IOT_MQTT_Construct_def Let_def Option.bind_eq_Some_conv split: if_splits)
next
  case False
  then have "IOT_MQTT_Construct env p a = Some (g_mqtt_client a, a)" by (simp add: IOT_MQTT_Construct_def)
  with assms have "h = g_mqtt_client a" "a' = a" by auto
  then show ?thesis by simp
qed

lemma construct_again:
  "IOT_MQTT_Construct env p a = Some (h, a') \<Longrightarrow> g_mqtt_client a \<noteq> None \<Longrightarrow> h = g_mqtt_client a"
  by (auto simp: IOT_MQTT_Construct_def)

lemma construct_loop_result:
  assumes "construct_loop env conn timer c = Some r"
  shows "(\<exists>a. snd r = c\<lparr>cm_api := a\<rparr> \<and> g_mqtt_client a = fst r) \<and>
    (g_mqtt_client (cm_api c) \<noteq> None \<longrightarrow> fst r = g_mqtt_client (cm_api c))"
proof (rule construct_loop.raw_induct
    [where P = "\<lambda>e k t c r. (\<exists>a. snd r = c\<lparr>cm_api := a\<rparr> \<and> g_mqtt_client a = fst r) \<and>
      (g_mqtt_client (cm_api c) \<noteq> None \<longrightarrow> fst r = g_mqtt_client (cm_api c))", OF _ assms])
  fix rec e k t c and r :: "nat option \<times> 'a cm"
  assume IH: "\<And>e k t c r. rec e k t c = Some r \<Longrightarrow>
      (\<exists>a. snd r = c\<lparr>cm_api := a\<rparr> \<and> g_mqtt_client a = fst r) \<and>
      (g_mqtt_client (cm_api c) \<noteq> None \<longrightarrow> fst r = g_mqtt_client (cm_api c))"
    and run: "(do {
     (h, a) \<leftarrow> IOT_MQTT_Construct (client_env e c) (Some (params_now k c)) (cm_api c);
     let c = c\<lparr>cm_api := a\<rparr>;
     (if h \<noteq> None then Some (h, c)
      else let c = on_world (HAL_SleepMs (cm_base e) 500) c;
               (over, c) = on_sys (time_expired (cm_base e) t) c
        in if over then Some (None, c) else rec e k t c) }) = Some r"
  then obtain h a where con: "IOT_MQTT_Construct (client_env e c) (Some (params_now k c)) (cm_api c) = Some (h, a)"
    by (auto simp: Option.bind_eq_Some_conv)
  note g = construct_handle [OF con] construct_again [OF con]
  show "(\<exists>a. snd r = c\<lparr>cm_api := a\<rparr> \<and> g_mqtt_client a = fst r) \<and>
      (g_mqtt_client (cm_api c) \<noteq> None \<longrightarrow> fst r = g_mqtt_client (cm_api c))"
  proof (cases "h = None")
    case True
    define c1 where "c1 = on_world (HAL_SleepMs (cm_base e) 500) (c\<lparr>cm_api := a\<rparr>)"
    obtain over c2 where tm: "on_sys (time_expired (cm_base e) t) c1 = (over, c2)" by (cases "on_sys (time_expired (cm_base e) t) c1")
    have calm: "calm (c\<lparr>cm_api := a\<rparr>) c2"
      using calm_trans [OF calm_on_world calm_on_sys [OF tm [unfolded c1_def]]] .
    from run con True tm have "(over \<and> r = (None, c2)) \<or> rec e k t c2 = Some r"
      by (auto simp: Let_def c1_def split: if_splits)
    with IH [of e k t c2 r] calm g True show ?thesis
      by (auto simp: calm_def)
  qed (use run con g in auto)
qed

lemma connect_fine:
  assumes "holds_client c"
  shows "fine (\<lambda>(rc, c'). same_table c c' \<and> holds_client c') (cm_mqtt_connect env timeout c)"
proof (cases "the_conn c")
  case (Some conn0)
  show ?thesis
  proof (cases "\<exists>meta pk dk. read_meta_info (api_sys (cm_api c)) = Some meta \<and>
      c_str (meta_product_key meta) = Some pk \<and> c_str (meta_device_key meta) = Some dk \<and> pk \<noteq> [] \<and> dk \<noteq> []")
    case True
    obtain timer c1 where t: "on_sys (countdown (cm_base env) timeout) c = (timer, c1)"
      by (cases "on_sys (countdown (cm_base env) timeout) c")
    define conn where "conn = with_settings (ctx (settings (api_sys (cm_api c1)))) conn0"
    have kept: "conn_context conn = conn_context conn0"
      by (simp add: conn_def with_settings_def Let_def)
    have calm: "calm c c1" by (rule calm_on_sys [OF t])
    define c2 where "c2 = upd_conn (\<lambda>_. conn) c1"
    have c2: "same_table c c2" "the_conn c2 = Some conn" "g_mqtt_client (cm_api c2) = g_mqtt_client (cm_api c)"
      using same_table_trans [OF same_table_calm [OF calm] same_table_upd_conn] calm_fields [OF calm] Some
      by (simp_all add: c2_def)
    have run: "cm_mqtt_connect env timeout c =
       (case construct_loop env conn timer c2 of
          None \<Rightarrow> Undefined
        | Some (None, c) \<Rightarrow> Done (STATE_DEV_MODEL_MQTT_CONNECT_FAILED,
            on_world (notify env conn IOTX_CM_EVENT_CLOUD_CONNECT_FAILED Ev_null The_connection) c)
        | Some (Some h, c) \<Rightarrow> Done (STATE_SUCCESS,
            on_world (notify env conn IOTX_CM_EVENT_CLOUD_CONNECTED Ev_null The_connection)
              (upd_conn (\<lambda>x. x\<lparr>conn_context := Some h\<rparr>) c)))"
      using True Some t by (auto simp: cm_mqtt_connect_def Let_def conn_def c2_def cong: option.case_cong)
    show ?thesis
    proof (cases "construct_loop env conn timer c2")
      case (Some r)
      obtain h c3 where r: "r = (h, c3)" by (cases r)
      from construct_loop_result [OF Some] obtain a where a: "c3 = c2\<lparr>cm_api := a\<rparr>" "g_mqtt_client a = h"
        "g_mqtt_client (cm_api c2) \<noteq> None \<Longrightarrow> h = g_mqtt_client (cm_api c2)"
        by (auto simp: r)
      have w: "same_table c (on_world f (upd_conn g c3))" "same_table c (on_world f c3)" for f g
        using same_table_trans [OF c2(1) same_table_trans [OF same_table_api [of c2 a]
            same_table_trans [OF same_table_upd_conn same_table_calm [OF calm_on_world]]]]
          same_table_trans [OF c2(1) same_table_trans [OF same_table_api [of c2 a] same_table_calm [OF calm_on_world]]]
        by (simp_all add: a)
      show ?thesis
      proof (cases h)
        case None
        have "conn_context conn = None"
          using holds_clientD [OF assms \<open>the_conn c = Some conn0\<close>] a(3) None c2(3) kept by (cases "conn_context conn0") auto
        with w(2) None Some r show ?thesis
          by (simp add: run holds_client_def calm_fields [OF calm_on_world] a c2)
      next
        case (Some h')
        with w(1) \<open>construct_loop env conn timer c2 = Some r\<close> r show ?thesis
          by (simp add: run holds_client_def calm_fields [OF calm_on_world] a c2)
      qed
    qed (simp add: run)
  qed (use Some assms in \<open>auto simp: cm_mqtt_connect_def split: option.splits\<close>)
qed (use assms in \<open>simp add: cm_mqtt_connect_def\<close>)

section \<open>The table\<close>

text \<open>
  At most one slot is in use, by the connection in memory; the lock is there when a connection is,
  and a client the connection was given is still the client of the interface.
\<close>

definition table_ok :: "'w cm \<Rightarrow> bool" where
  "table_ok c \<longleftrightarrow> length (cm_fd c) = CM_MAX_FD_NUM \<and>
     (\<forall>i < CM_MAX_FD_NUM. cm_fd c ! i \<noteq> None \<longrightarrow> slot_alive i c) \<and>
     (\<forall>i < CM_MAX_FD_NUM. \<forall>j < CM_MAX_FD_NUM. cm_fd c ! i \<noteq> None \<longrightarrow> cm_fd c ! j \<noteq> None \<longrightarrow> i = j) \<and>
     (fd_lock c \<longleftrightarrow> mqtt_connection c \<noteq> None) \<and> holds_client c"

lemma table_ok_slot: "table_ok c \<Longrightarrow> i < CM_MAX_FD_NUM \<Longrightarrow> cm_fd c ! i \<noteq> None \<Longrightarrow> slot_alive i c"
  by (simp add: table_ok_def)

lemma table_ok_one:
  "table_ok c \<Longrightarrow> i < CM_MAX_FD_NUM \<Longrightarrow> j < CM_MAX_FD_NUM \<Longrightarrow> cm_fd c ! i \<noteq> None \<Longrightarrow> cm_fd c ! j \<noteq> None \<Longrightarrow> i = j"
  unfolding table_ok_def by blast

lemma table_ok_slots_free:
  "table_ok c \<Longrightarrow> mqtt_connection c = None \<Longrightarrow> i < CM_MAX_FD_NUM \<Longrightarrow> cm_fd c ! i = None"
  using table_ok_slot [of c i] by (cases "cm_fd c ! i") (auto simp: slot_alive_def)

lemma slot_alive_same: "same_table c c' \<Longrightarrow> slot_alive i c' = slot_alive i c"
  by (simp add: slot_alive_def same_table_def)

lemma table_ok_same:
  assumes "table_ok c" "same_table c c'" "holds_client c'"
  shows "table_ok c'"
proof -
  have "(mqtt_connection c' \<noteq> None) = (mqtt_connection c \<noteq> None)"
    using assms(2) by (cases "mqtt_connection c"; cases "mqtt_connection c'") (auto simp: same_table_def)
  with assms show ?thesis
    by (simp add: table_ok_def slot_alive_same [OF assms(2)]) (simp add: same_table_def)
qed

lemma table_ok_calm: "calm c c' \<Longrightarrow> table_ok c \<Longrightarrow> table_ok c'"
  by (rule table_ok_same [OF _ same_table_calm holds_client_calm]) (auto simp: table_ok_def)

lemma table_ok_counters [simp]:
  "table_ok (c\<lparr>inited_conn_num := n\<rparr>) = table_ok c" "table_ok (c\<lparr>yield_task_leave := b\<rparr>) = table_ok c"
  "table_ok (c\<lparr>yield_threads := ts\<rparr>) = table_ok c" "table_ok (c\<lparr>g_event_monitor := m\<rparr>) = table_ok c"
  by (simp_all add: table_ok_def slot_alive_def holds_client_def the_conn_def)

lemma free_slot_bounds: "free_slot k xs = Some i \<Longrightarrow> k \<le> i \<and> i < k + length xs \<and> xs ! (i - k) = None"
proof (induction xs arbitrary: k)
  case (Cons x xs)
  then show ?case
  proof (cases x)
    case (Some y)
    with Cons.prems Cons.IH [of "k + 1"] have "k + 1 \<le> i" "i < k + 1 + length xs" "xs ! (i - (k + 1)) = None" by auto
    moreover from this have "i - k = Suc (i - (k + 1))" by simp
    ultimately show ?thesis by simp
  qed auto
qed simp

lemma free_slot_all: "free_slot k xs = None \<Longrightarrow> x \<in> set xs \<Longrightarrow> x \<noteq> None"
  by (induction xs arbitrary: k) (auto split: if_splits)

text \<open>The yield threads and their bookkeeping stay.\<close>

definition same_yield :: "'w cm \<Rightarrow> 'w cm \<Rightarrow> bool" where
  "same_yield c c' \<longleftrightarrow> inited_conn_num c' = inited_conn_num c \<and> yield_task_leave c' = yield_task_leave c \<and>
     yield_threads c' = yield_threads c"

lemma same_yield_calm: "calm c c' \<Longrightarrow> same_yield c c'"
  by (simp add: same_yield_def calm_fields)

lemma create_lock_result:
  assumes "create_lock env c = (ok, c')"
  shows "\<exists>d. calm c d \<and> c' = d\<lparr>fd_lock := ok\<rparr>" "ok \<or> \<not> fd_lock c"
proof -
  show "\<exists>d. calm c d \<and> c' = d\<lparr>fd_lock := ok\<rparr>"
  proof (cases "fd_lock c")
    case True
    then have "c' = c\<lparr>fd_lock := ok\<rparr>" using assms by (simp add: create_lock_def)
    then show ?thesis using calm_refl by blast
  next
    case False
    then have "\<exists>f. c' = (on_world f c)\<lparr>fd_lock := ok\<rparr>"
      using assms by (auto simp: create_lock_def split: prod.splits)
    then show ?thesis using calm_on_world by blast
  qed
qed (use assms in \<open>auto simp: create_lock_def split: if_splits\<close>)

lemma open_mqtt_result:
  assumes "iotx_cm_open_mqtt env p c = (h, c')" "mqtt_connection c = None"
  shows "\<exists>d. calm c d \<and> (h = None \<and> c' = d \<or>
    (\<exists>n. h = Some n \<and> c' = d\<lparr>mqtt_connection := Some (n, new_connection p), connections_made := n + 1\<rparr>))"
proof -
  obtain ok c1 where 1: "on_sys (malloc (cm_base env) (sizeof_connection env)) c = (ok, c1)"
    by (cases "on_sys (malloc (cm_base env) (sizeof_connection env)) c")
  obtain ok2 c2 where 2: "on_sys (malloc (cm_base env) (sizeof_mqtt_param env)) c1 = (ok2, c2)"
    by (cases "on_sys (malloc (cm_base env) (sizeof_mqtt_param env)) c1")
  note calms = calm_on_sys [OF 1] calm_trans [OF calm_on_sys [OF 1] calm_on_sys [OF 2]]
  have "(h = None \<and> c' = c1) \<or> (h = None \<and> c' = c2) \<or> (\<exists>n. h = Some n \<and>
      c' = c2\<lparr>mqtt_connection := Some (n, new_connection p), connections_made := n + 1\<rparr>)"
    using assms 1 2 by (auto simp: iotx_cm_open_mqtt_def Let_def split: if_splits)
  with calms show ?thesis by blast
qed

lemma open_fine:
  assumes "table_ok c" "mqtt_connection c = None"
  shows "fine (\<lambda>(fd, c'). table_ok c' \<and> same_yield c c') (iotx_cm_open env p c)"
proof (cases "cp_protocol_type p = IOTX_CM_PROTOCOL_TYPE_MQTT")
  case True
  obtain h c1 where o: "iotx_cm_open_mqtt env p c = (h, c1)" by (cases "iotx_cm_open_mqtt env p c")
  from open_mqtt_result [OF o assms(2)] obtain d where d: "calm c d" and
    cases: "h = None \<and> c1 = d \<or> (\<exists>n. h = Some n \<and>
      c1 = d\<lparr>mqtt_connection := Some (n, new_connection p), connections_made := n + 1\<rparr>)"
    by blast
  from cases show ?thesis
  proof (elim disjE exE conjE)
    assume "h = None" "c1 = d"
    with True o d assms show ?thesis
      by (simp add: iotx_cm_open_def table_ok_calm same_yield_calm)
  next
    fix n
    assume n: "h = Some n" "c1 = d\<lparr>mqtt_connection := Some (n, new_connection p), connections_made := n + 1\<rparr>"
    obtain ok c2 where l: "create_lock env c1 = (ok, c2)" by (cases "create_lock env c1")
    from create_lock_result [OF l] obtain e where e: "calm c1 e" "c2 = e\<lparr>fd_lock := ok\<rparr>" by blast
    note f = calm_fields [OF d] calm_fields [OF e(1)]
    have free: "i < CM_MAX_FD_NUM \<Longrightarrow> cm_fd c ! i = None" for i
      by (rule table_ok_slots_free [OF assms])
    have len: "length (cm_fd c) = CM_MAX_FD_NUM" using assms(1) by (auto simp: table_ok_def)
    have slot: "free_slot 0 (cm_fd c) = Some 0"
      using free [of 0] len by (cases "cm_fd c") (auto simp: CM_MAX_FD_NUM_def)
    show ?thesis
    proof (cases ok)
      case True
      let ?c = "upd_conn (\<lambda>x. x\<lparr>conn_fd := 0\<rparr>) (c2\<lparr>cm_fd := (cm_fd c2)[0 := Some n]\<rparr>)"
      have "iotx_cm_open env p c = Done (0, ?c)"
        using \<open>cp_protocol_type p = _\<close> o n(1) l True slot f n(2) e(2) by (simp add: iotx_cm_open_def get_fd_def)
      moreover have "table_ok ?c"
        using len free f n(2) e(2) True
        by (auto simp: table_ok_def slot_alive_def upd_conn_def nth_list_update holds_client_def the_conn_def
            new_connection_def)
      moreover have "same_yield c ?c"
        using f n(2) e(2) by (simp add: same_yield_def upd_conn_def)
      ultimately show ?thesis by simp
    next
      case False
      have "holds_client c2" "the_conn c2 \<noteq> None"
        using f n(2) e(2) by (auto simp: holds_client_def the_conn_def new_connection_def)
      from close_fine [OF this, of env] have
        "fine (\<lambda>(rc, c'). rc = 0 \<and> (\<exists>a. c' = c2\<lparr>cm_api := a, mqtt_connection := None\<rparr>)) (cm_mqtt_close env c2)" .
      moreover have "iotx_cm_open env p c = (case cm_mqtt_close env c2 of
          Done (_, c) \<Rightarrow> Done (STATE_SYS_DEPEND_MUTEX_CREATE, c) | Freed \<Rightarrow> Freed | Undefined \<Rightarrow> Undefined)"
        using \<open>cp_protocol_type p = _\<close> o n(1) l False by (simp add: iotx_cm_open_def get_fd_def)
      moreover have "table_ok (c2\<lparr>cm_api := a, mqtt_connection := None\<rparr>)"
        "same_yield c (c2\<lparr>cm_api := a, mqtt_connection := None\<rparr>)" for a
        using len free f n(2) e(2) False
        by (auto simp: table_ok_def slot_alive_def holds_client_def the_conn_def same_yield_def)
      ultimately show ?thesis
        by (auto simp: fine_def split: outcome.splits)
    qed
  qed
qed (use assms in \<open>simp add: iotx_cm_open_def same_yield_def\<close>)

text \<open>A call on a descriptor uses nothing freed when the function it calls does not.\<close>

lemma fd_valid:
  "\<not> fd_is_valid fd c < 0 \<Longrightarrow> 0 \<le> fd \<and> nat fd < CM_MAX_FD_NUM \<and> cm_fd c ! nat fd \<noteq> None \<and> fd_lock c"
  by (auto simp: fd_is_valid_def split: if_splits)

lemma on_fd_fine:
  assumes "table_ok c" "P (STATE_DEV_MODEL_CM_FD_ERROR, c)" "the_conn c \<noteq> None \<Longrightarrow> fine P (f c)"
  shows "fine P (on_fd fd f c)"
proof (cases "fd_is_valid fd c < 0")
  case False
  then have "slot_alive (nat fd) c" "the_conn c \<noteq> None"
    using assms(1) fd_valid [OF False] table_ok_slot by (auto simp: table_ok_def the_conn_def)
  with False assms(3) show ?thesis by (simp add: on_fd_def)
qed (use assms(2) in \<open>simp add: on_fd_def\<close>)

lemma use_fine:
  assumes "table_ok c"
  shows "fine (\<lambda>(rc, c'). calm c c') (iotx_cm_sub env fd ext topic f c)"
    "fine (\<lambda>(rc, c'). calm c c') (iotx_cm_unsub env fd topic c)"
    "fine (\<lambda>(rc, c'). calm c c') (iotx_cm_pub env fd ext topic data len c)"
proof -
  have h: "holds_client c" using assms by (auto simp: table_ok_def)
  note on_fd = on_fd_fine [OF assms, of "\<lambda>(rc, c'). calm c c'"]
  show "fine (\<lambda>(rc, c'). calm c c') (iotx_cm_sub env fd ext topic f c)"
    unfolding iotx_cm_sub_def by (rule on_fd) (simp_all add: sub_calm [OF h])
  show "fine (\<lambda>(rc, c'). calm c c') (iotx_cm_unsub env fd topic c)"
    unfolding iotx_cm_unsub_def by (rule on_fd) (simp_all add: unsub_calm [OF h])
  show "fine (\<lambda>(rc, c'). calm c c') (iotx_cm_pub env fd ext topic data len c)"
    unfolding iotx_cm_pub_def by (rule on_fd) (simp_all add: publish_calm [OF h])
qed

text \<open>Connecting with no thread about: the thread that is counted is there.\<close>

definition yields_ok :: "'w cm \<Rightarrow> bool" where
  "yields_ok c \<longleftrightarrow> inited_conn_num c \<in> {0, 1} \<and>
     (inited_conn_num c = 1 \<longrightarrow> mqtt_connection c \<noteq> None \<and> yield_threads c \<noteq> [])"

lemma start_yielding_result:
  assumes "start_yielding env c = (rc, c')" "inited_conn_num c = 0"
  shows "\<exists>d. calm c d \<and> (c' = d \<or> c' = d\<lparr>inited_conn_num := 1, yield_threads := yield_threads c @ [Thread_new]\<rparr>)"
proof -
  obtain r w where w: "HAL_ThreadCreate env (world (api_sys (cm_api c))) = (r, w)" by (cases "HAL_ThreadCreate env (world (api_sys (cm_api c)))")
  have "c' = on_world (\<lambda>_. w) c \<or>
      c' = (on_world (\<lambda>_. w) c)\<lparr>inited_conn_num := 1, yield_threads := yield_threads c @ [Thread_new]\<rparr>"
    using assms w by (auto simp: start_yielding_def Let_def on_world_def split: if_splits)
  then show ?thesis using calm_on_world by blast
qed

definition connect_kept :: "'w cm \<Rightarrow> int \<times> 'w cm \<Rightarrow> bool" where
  "connect_kept c r \<longleftrightarrow> (let c' = snd r in table_ok c' \<and> yield_task_leave c' = yield_task_leave c \<and>
     map_option fst (mqtt_connection c') = map_option fst (mqtt_connection c) \<and>
     (inited_conn_num c' = 0 \<and> yield_threads c' = [] \<or>
      inited_conn_num c' = 1 \<and> yield_threads c' = [Thread_new] \<and> mqtt_connection c' \<noteq> None))"

lemma connect_kept_calm: "connect_kept c (rc, d) \<Longrightarrow> calm d d' \<Longrightarrow> connect_kept c (rc', d')"
  using table_ok_calm [of d d'] calm_fields [of d d'] by (auto simp: connect_kept_def Let_def)

lemma connect_kept_same:
  assumes "same_table c d" "table_ok d" "inited_conn_num c = 0" "yield_threads c = []"
  shows "connect_kept c (rc, d)"
  using assms by (simp add: connect_kept_def same_table_def)

lemma connect_kept_start:
  assumes "connect_kept c (r, d)" "inited_conn_num d = 0" "mqtt_connection d \<noteq> None"
    and "start_yielding env d = (rc, d')"
  shows "connect_kept c (rc, d')"
proof -
  have none: "yield_threads d = []" using assms(1,2) by (auto simp: connect_kept_def Let_def)
  from start_yielding_result [OF assms(4,2)] none obtain e where e: "calm d e"
    "d' = e \<or> d' = e\<lparr>inited_conn_num := 1, yield_threads := [Thread_new]\<rparr>"
    by auto
  from connect_kept_calm [OF assms(1) e(1)] calm_fields [OF e(1)] e(2) assms(3) show ?thesis
    by (auto simp: connect_kept_def Let_def)
qed

lemma cm_connect_fine:
  assumes "table_ok c" "inited_conn_num c = 0" "yield_threads c = []"
  shows "fine (connect_kept c) (iotx_cm_connect env fd timeout c)"
  unfolding iotx_cm_connect_def
proof (rule on_fd_fine [OF assms(1)])
  show "connect_kept c (STATE_DEV_MODEL_CM_FD_ERROR, c)"
    by (rule connect_kept_same) (use assms in simp_all)
next
  assume conn: "the_conn c \<noteq> None"
  let ?c = "iotx_event_post env IOTX_CONN_CLOUD c"
  have post: "table_ok ?c" by (rule table_ok_calm [OF calm_event_post assms(1)])
  then have "holds_client ?c" by (auto simp: table_ok_def)
  from connect_fine [OF this] have con: "fine (\<lambda>(rc, c'). same_table ?c c' \<and> holds_client c') (cm_mqtt_connect env timeout ?c)" .
  show "fine (connect_kept c) (case cm_mqtt_connect env timeout ?c of
      Done (rc, c) \<Rightarrow> if rc = 0
        then let (rc, c) = start_yielding env c in Done (rc, iotx_event_post env IOTX_CONN_CLOUD_SUC c)
        else Done (rc, iotx_event_post env IOTX_CONN_CLOUD_FAIL c)
    | Freed \<Rightarrow> Freed | Undefined \<Rightarrow> Undefined)"
  proof (cases "cm_mqtt_connect env timeout ?c")
    case (Done r)
    obtain rc d where r: "r = (rc, d)" by (cases r)
    with con Done have d: "same_table ?c d" "holds_client d" by auto
    have cd: "same_table c d" using same_table_trans [OF same_table_calm [OF calm_event_post] d(1)] .
    have ok: "connect_kept c (rc, d)"
      by (rule connect_kept_same [OF cd table_ok_same [OF post d] assms(2,3)])
    obtain rc' d' where s: "start_yielding env d = (rc', d')" by (cases "start_yielding env d")
    have alive: "inited_conn_num d = 0" "mqtt_connection d \<noteq> None"
      using cd conn assms(2) by (auto simp: same_table_def the_conn_def)
    note started = connect_kept_start [OF ok alive s]
    show ?thesis
      using connect_kept_calm [OF started calm_event_post] connect_kept_calm [OF ok calm_event_post]
      by (simp add: Done r s)
  qed (use con in simp_all)
qed

text \<open>The end of closing: the one slot in use is emptied with the connection.\<close>

lemma close_rest_fine:
  assumes "table_ok c" "0 \<le> fd" "nat fd < CM_MAX_FD_NUM" "cm_fd c ! nat fd \<noteq> None" "inited_conn_num c = 0"
  shows "fine (\<lambda>(rc, c'). table_ok c' \<and> same_yield c c' \<and> mqtt_connection c' = None) (close_rest env fd c)"
proof -
  have alive: "slot_alive (nat fd) c" by (rule table_ok_slot [OF assms(1,3,4)])
  with assms have c: "holds_client c" "the_conn c \<noteq> None" "fd_lock c" "length (cm_fd c) = CM_MAX_FD_NUM"
    by (auto simp: table_ok_def the_conn_def slot_alive_def)
  have empty: "(cm_fd c)[nat fd := None] ! i = None" if "i < CM_MAX_FD_NUM" for i
  proof (cases "i = nat fd")
    case False
    have "cm_fd c ! i = None"
      using table_ok_one [OF assms(1) that assms(3) _ assms(4)] False by blast
    with False show ?thesis by simp
  qed (use that c(4) in simp)
  have ended: "table_ok c'" "same_yield c c'" "mqtt_connection c' = None"
    if "c' = c\<lparr>cm_api := a, mqtt_connection := None, cm_fd := (cm_fd c)[nat fd := None], fd_lock := False\<rparr>" for a c'
    using empty c(4) that by (auto simp: table_ok_def holds_client_def the_conn_def same_yield_def)
  have recycle: "recycle_fd env fd (c\<lparr>cm_api := a, mqtt_connection := None\<rparr>) =
      (0, c\<lparr>cm_api := a, mqtt_connection := None, cm_fd := (cm_fd c)[nat fd := None]\<rparr>)" for a
    using assms(2,3) c(3) by (simp add: recycle_fd_def create_lock_def)
  show ?thesis
  proof (cases "cm_mqtt_close env c")
    case (Done r)
    with close_fine [OF c(1,2), of env] obtain a where r: "r = (0, c\<lparr>cm_api := a, mqtt_connection := None\<rparr>)"
      by auto
    let ?c = "c\<lparr>cm_api := a, mqtt_connection := None, cm_fd := (cm_fd c)[nat fd := None], fd_lock := False\<rparr>"
    have "close_rest env fd c = Done (0, ?c)"
      using Done alive recycle assms(5) by (simp add: close_rest_def r)
    with ended [of ?c, OF refl] show ?thesis by simp
  qed (use alive close_fine [OF c(1,2), of env] in \<open>simp_all add: close_rest_def\<close>)
qed

end
