(* ===== verification/ConnThreads.thy ===== *)
theory ConnThreads
  imports ConnMgr
begin

text \<open>
  The connectivity manager at work: the application's thread calls it, the yield threads run their
  statements in between, also while \<^verbatim>\<open>iotx_cm_close\<close> waits. A call, and what the client does for
  one statement of a yield thread, is one step.

  The question is whether a freed connection or client is ever used. With one connection at a time,
  and one yield thread at a time, it is not; without, it can be.
\<close>

section \<open>Steps\<close>

record 'w process =
  cm :: "'w cm"
  closing :: "int option"

datatype 'w cm_call =
    Cm_open iotx_cm_init_param
  | Cm_connect int u32
  | Cm_yield int u32
  | Cm_sub int "iotx_cm_ext_params option" "byte list option" nat
  | Cm_unsub int "byte list option"
  | Cm_pub int "iotx_cm_ext_params option" "byte list option" "byte list option" u32
  | Cm_monitor "nat option"
  | Cm_outside 'w ioctl_state event_map

fun cm_do :: "'w cm_env \<Rightarrow> 'w cm_call \<Rightarrow> 'w cm \<Rightarrow> (int \<times> 'w cm) outcome" where
  "cm_do env (Cm_open p) c = iotx_cm_open env p c"
| "cm_do env (Cm_connect fd t) c = iotx_cm_connect env fd t c"
| "cm_do env (Cm_yield fd t) c = iotx_cm_yield fd t c"
| "cm_do env (Cm_sub fd ext topic f) c = iotx_cm_sub env fd ext topic f c"
| "cm_do env (Cm_unsub fd topic) c = iotx_cm_unsub env fd topic c"
| "cm_do env (Cm_pub fd ext topic data len) c = iotx_cm_pub env fd ext topic data len c"
| "cm_do env (Cm_monitor m) c = Done (0, c\<lparr>g_event_monitor := m\<rparr>)"
| "cm_do env (Cm_outside w st ev) c =
     Done (0, c\<lparr>cm_api := (cm_api c)\<lparr>api_sys := (api_sys (cm_api c))\<lparr>world := w, settings := st, events := ev\<rparr>\<rparr>\<rparr>)"

datatype 'w action = Call "'w cm_call" | Close int | Close_sleep | Close_rest | Turn nat

primrec map_outcome :: "('a \<Rightarrow> 'b) \<Rightarrow> 'a outcome \<Rightarrow> 'b outcome" where
  "map_outcome f (Done x) = Done (f x)"
| "map_outcome f Freed = Freed"
| "map_outcome f Undefined = Undefined"

text \<open>A thread after its statement; one that has ended is gone.\<close>

definition put_thread :: "nat \<Rightarrow> yield_thread option \<Rightarrow> 'w cm \<Rightarrow> 'w cm" where
  "put_thread k t c = c\<lparr>yield_threads :=
     (case t of Some t \<Rightarrow> (yield_threads c)[k := t]
      | None \<Rightarrow> take k (yield_threads c) @ drop (k + 1) (yield_threads c))\<rparr>"

inductive step :: "'w cm_env \<Rightarrow> 'w process \<Rightarrow> 'w action \<Rightarrow> 'w process outcome \<Rightarrow> bool" for env p where
  call: "closing p = None \<Longrightarrow>
    step env p (Call f) (map_outcome (\<lambda>(rc, c). p\<lparr>cm := c\<rparr>) (cm_do env f (cm p)))"
| refused: "closing p = None \<Longrightarrow> close_enter fd (cm p) = (Some rc, c) \<Longrightarrow>
    step env p (Close fd) (Done (p\<lparr>cm := c\<rparr>))"
| enter: "closing p = None \<Longrightarrow> close_enter fd (cm p) = (None, c) \<Longrightarrow>
    step env p (Close fd) (Done (p\<lparr>cm := c, closing := Some fd\<rparr>))"
| wait: "closing p = Some fd \<Longrightarrow> \<not> close_may_go_on (cm p) \<Longrightarrow>
    step env p Close_sleep (Done (p\<lparr>cm := on_world (HAL_SleepMs (cm_base env) 10) (cm p)\<rparr>))"
| rest: "closing p = Some fd \<Longrightarrow> close_may_go_on (cm p) \<Longrightarrow>
    step env p Close_rest
      (map_outcome (\<lambda>(rc, c). p\<lparr>cm := c, closing := None\<rparr>) (close_rest env fd (cm p)))"
| turn: "k < length (yield_threads (cm p)) \<Longrightarrow>
    step env p (Turn k)
      (map_outcome (\<lambda>(t, c). p\<lparr>cm := put_thread k t c\<rparr>) (yield_pass_step env (yield_threads (cm p) ! k) (cm p)))"

inductive_cases step_elims: "step env p a r"

text \<open>
  The use the manager is made for: no opening while a connection is open, and connecting only when
  no yield thread is there or counted.
\<close>

definition orderly :: "'w process \<Rightarrow> 'w action \<Rightarrow> bool" where
  "orderly p a =
     (case a of
        Call (Cm_open _) \<Rightarrow> mqtt_connection (cm p) = None
      | Call (Cm_connect _ _) \<Rightarrow> inited_conn_num (cm p) = 0 \<and> yield_threads (cm p) = []
      | _ \<Rightarrow> True)"

definition cm_start :: "'w mqtt_api \<Rightarrow> 'w process" where
  "cm_start a = \<lparr>cm = \<lparr>cm_api = a, mqtt_connection = None, connections_made = 0,
     cm_fd = replicate CM_MAX_FD_NUM None, fd_lock = False, inited_conn_num = 0, yield_task_leave = True,
     yield_threads = [], g_event_monitor = None\<rparr>, closing = None\<rparr>"

inductive orderly_run :: "'w cm_env \<Rightarrow> 'w mqtt_api \<Rightarrow> 'w process \<Rightarrow> bool" for env a where
  start: "orderly_run env a (cm_start a)"
| more: "orderly_run env a p \<Longrightarrow> orderly p act \<Longrightarrow> step env p act (Done p') \<Longrightarrow> orderly_run env a p'"

text \<open>Any use: the outcome of a schedule.\<close>

inductive steps :: "'w cm_env \<Rightarrow> 'w process \<Rightarrow> 'w action list \<Rightarrow> 'w process outcome \<Rightarrow> bool" for env where
  finished: "steps env p [] (Done p)"
| one: "step env p act (Done p') \<Longrightarrow> steps env p' acts r \<Longrightarrow> steps env p (act # acts) r"
| stop: "step env p act r \<Longrightarrow> r = Freed \<or> r = Undefined \<Longrightarrow> steps env p [act] r"

section \<open>No freed object is used\<close>

text \<open>
  A yield thread with something of the connection in hand, and the invariant: the table is in order,
  there is at most one yield thread and \<^verbatim>\<open>yield_task_leave\<close> says that none is at work, what a thread holds
  is there, and a close waits for the connection of its descriptor with nothing counted any more.
\<close>

definition thread_safe :: "'w cm \<Rightarrow> yield_thread \<Rightarrow> bool" where
  "thread_safe c t \<longleftrightarrow>
     (case t of
        Thread_new \<Rightarrow> True
      | Thread_loop \<Rightarrow> True
      | Thread_slot i \<Rightarrow> mqtt_connection c \<noteq> None
      | Thread_loaded i \<Rightarrow> mqtt_connection c \<noteq> None
      | Thread_yielding i h \<Rightarrow> mqtt_connection c \<noteq> None \<and> (h = None \<or> g_mqtt_client (cm_api c) = h))"

lemma thread_safe_update [simp]:
  "thread_safe (c\<lparr>yield_task_leave := b\<rparr>) t = thread_safe c t"
  "thread_safe (c\<lparr>yield_threads := ts\<rparr>) t = thread_safe c t"
  "thread_safe (c\<lparr>g_event_monitor := m\<rparr>) t = thread_safe c t"
  "thread_safe (c\<lparr>inited_conn_num := n\<rparr>) t = thread_safe c t"
  by (cases t; simp add: thread_safe_def)+

lemma thread_safe_closed: "thread_safe c t \<Longrightarrow> mqtt_connection c = None \<Longrightarrow> t = Thread_new \<or> t = Thread_loop"
  by (cases t) (auto simp: thread_safe_def)

definition one_thread :: "'w cm \<Rightarrow> bool" where
  "one_thread c \<longleftrightarrow> yield_threads c = [] \<and> yield_task_leave c \<or>
     (\<exists>t. yield_threads c = [t] \<and> thread_safe c t \<and> yield_task_leave c = (t = Thread_new))"

definition safe :: "'w process \<Rightarrow> bool" where
  "safe p \<longleftrightarrow> table_ok (cm p) \<and> yields_ok (cm p) \<and> one_thread (cm p) \<and>
     (\<forall>fd. closing p = Some fd \<longrightarrow> 0 \<le> fd \<and> nat fd < CM_MAX_FD_NUM \<and> cm_fd (cm p) ! nat fd \<noteq> None \<and>
        inited_conn_num (cm p) = 0)"

lemma safe_start: "safe (cm_start a)"
  by (simp add: safe_def cm_start_def table_ok_def yields_ok_def one_thread_def holds_client_def the_conn_def
      slot_alive_def)

text \<open>What leaves the table and the threads in place keeps the invariant.\<close>

lemma safe_kept:
  assumes "safe p" "table_ok c" "same_table (cm p) c" "g_mqtt_client (cm_api c) = g_mqtt_client (cm_api (cm p))"
  shows "safe (p\<lparr>cm := c\<rparr>)"
proof -
  have "(mqtt_connection c = None) = (mqtt_connection (cm p) = None)"
    using assms(3) by (cases "mqtt_connection c"; cases "mqtt_connection (cm p)") (auto simp: same_table_def)
  then have "thread_safe c t = thread_safe (cm p) t" for t
    using assms(4) by (auto simp: thread_safe_def split: yield_thread.split)
  with assms \<open>(mqtt_connection c = None) = _\<close> show ?thesis
    by (auto simp: safe_def yields_ok_def one_thread_def same_table_def)
qed

lemma safe_calm: "safe p \<Longrightarrow> calm (cm p) c \<Longrightarrow> safe (p\<lparr>cm := c\<rparr>)"
  by (rule safe_kept) (auto simp: safe_def table_ok_calm same_table_calm calm_fields)

lemma map_outcome_Freed [simp]: "map_outcome f r = Freed \<longleftrightarrow> r = Freed"
  by (cases r) auto

lemma map_outcome_Done: "map_outcome f r = Done y \<longleftrightarrow> (\<exists>x. r = Done x \<and> y = f x)"
  by (cases r) auto

lemma fine_map: "fine P (map_outcome f r) \<longleftrightarrow> fine (\<lambda>x. P (f x)) r"
  by (cases r) auto

lemma call_safe:
  assumes "safe p" "orderly p (Call f)" "closing p = None"
  shows "fine (\<lambda>(rc, c). safe (p\<lparr>cm := c\<rparr>)) (cm_do env f (cm p))"
proof -
  have tab: "table_ok (cm p)" and yo: "yields_ok (cm p)" and th: "one_thread (cm p)"
    using assms(1) by (simp_all add: safe_def)
  note use = fine_mono [OF use_fine(1) [OF tab]] fine_mono [OF use_fine(2) [OF tab]] fine_mono [OF use_fine(3) [OF tab]]
  show ?thesis
  proof (cases f)
    case (Cm_open q)
    with assms(2) have none: "mqtt_connection (cm p) = None" by (simp add: orderly_def)
    have "safe (p\<lparr>cm := c\<rparr>)" if "table_ok c" "same_yield (cm p) c" for c
    proof -
      have "yield_threads (cm p) \<in> {[], [Thread_new], [Thread_loop]}"
        using th none thread_safe_closed by (fastforce simp: one_thread_def)
      with th that(2) have "one_thread c"
        by (auto simp: one_thread_def same_yield_def thread_safe_def)
      moreover have "yields_ok c" using yo none that(2) by (auto simp: yields_ok_def same_yield_def)
      ultimately show ?thesis using that(1) assms(3) by (simp add: safe_def)
    qed
    with Cm_open show ?thesis
      using fine_mono [OF open_fine [OF tab none, of env q]] by fastforce
  next
    case (Cm_connect fd t)
    with assms(2) have none: "inited_conn_num (cm p) = 0" "yield_threads (cm p) = []" by (simp_all add: orderly_def)
    have "safe (p\<lparr>cm := c\<rparr>)" if "connect_kept (cm p) (rc, c)" for rc c
    proof -
      have "one_thread c" "yields_ok c"
        using that th none(2) by (auto simp: connect_kept_def Let_def one_thread_def yields_ok_def thread_safe_def)
      with that assms(3) show ?thesis by (simp add: safe_def connect_kept_def Let_def)
    qed
    with Cm_connect show ?thesis
      using fine_mono [OF cm_connect_fine [OF tab none, of env fd t]] by fastforce
  next
    case (Cm_outside w st ev)
    have "calm (cm p) ((cm p)\<lparr>cm_api := (cm_api (cm p))\<lparr>api_sys := x\<rparr>\<rparr>)" for x
      by (simp add: calm_def) (rule exI, rule conjI [OF refl], simp)
    with Cm_outside show ?thesis
      using safe_calm [OF assms(1)] by simp
  next
    case (Cm_monitor m)
    with assms show ?thesis
      by (auto simp: safe_def one_thread_def yields_ok_def)
  qed (use assms(1) safe_calm [OF assms(1)] in \<open>auto simp: iotx_cm_yield_def intro!: use split: prod.splits\<close>)
qed

lemma turn_safe:
  assumes "safe p" "k < length (yield_threads (cm p))"
  shows "fine (\<lambda>(t, c). safe (p\<lparr>cm := put_thread k t c\<rparr>)) (yield_pass_step env (yield_threads (cm p) ! k) (cm p))"
proof -
  have tab: "table_ok (cm p)" and yo: "yields_ok (cm p)" and th: "one_thread (cm p)"
    using assms(1) by (simp_all add: safe_def)
  from th assms(2) obtain t where t: "yield_threads (cm p) = [t]" "k = 0" "thread_safe (cm p) t"
    "yield_task_leave (cm p) = (t = Thread_new)"
    by (auto simp: one_thread_def)
  have goes: "safe (p\<lparr>cm := put_thread k (Some u) c\<rparr>)"
    if "calm (cm p) d" "c = d \<or> c = d\<lparr>yield_task_leave := False\<rparr>" "\<not> yield_task_leave c" "thread_safe d u"
      "u \<noteq> Thread_new" for c d u
  proof -
    have "put_thread k (Some u) c = c\<lparr>yield_threads := [u]\<rparr>"
      using t(1,2) that(2) calm_fields(6) [OF that(1)] by (auto simp: put_thread_def)
    with safe_calm [OF assms(1) that(1)] that(2-) t(1) show ?thesis
      by (auto simp: safe_def one_thread_def yields_ok_def)
  qed
  show ?thesis
  proof (cases t)
    case Thread_new
    then show ?thesis
      using goes [OF calm_refl disjI2, OF refl, of Thread_loop] t(1,2) by (simp add: yield_pass_step_def thread_safe_def)
  next
    case Thread_loop
    have "mqtt_connection (cm p) \<noteq> None \<and> fd_lock (cm p)" if "inited_conn_num (cm p) > 0"
      using that yo tab by (auto simp: yields_ok_def table_ok_def)
    moreover have "safe (p\<lparr>cm := put_thread 0 None (cm p\<lparr>yield_task_leave := True\<rparr>)\<rparr>)"
      if "\<not> inited_conn_num (cm p) > 0"
      using that assms(1) t(1) by (auto simp: safe_def one_thread_def put_thread_def yields_ok_def)
    ultimately show ?thesis
      using goes [OF calm_refl disjI1, OF refl, of "Thread_slot 0"] t Thread_loop
      by (simp add: yield_pass_step_def thread_safe_def)
  next
    case (Thread_slot i)
    then have "mqtt_connection (cm p) \<noteq> None" "fd_lock (cm p)" "\<not> yield_task_leave (cm p)"
      using t tab by (auto simp: thread_safe_def table_ok_def)
    with Thread_slot show ?thesis
      using goes [OF calm_refl disjI1, OF refl, of "Thread_slot (i + 1)"] goes [OF calm_refl disjI1, OF refl, of Thread_loop]
        goes [OF calm_refl disjI1, OF refl, of "Thread_loaded i"] t(1,2) table_ok_slot [OF tab, of i]
      by (simp add: yield_pass_step_def thread_safe_def)
  next
    case (Thread_loaded i)
    then have there: "mqtt_connection (cm p) \<noteq> None" "\<not> yield_task_leave (cm p)"
      using t by (auto simp: thread_safe_def)
    then obtain conn where conn: "the_conn (cm p) = Some conn" by (auto simp: the_conn_def)
    have "thread_safe (cm p) (Thread_yielding i (conn_context conn))"
      using there holds_clientD [OF _ conn] tab by (auto simp: thread_safe_def table_ok_def)
    with Thread_loaded show ?thesis
      using goes [OF calm_refl disjI1, OF refl there(2), of "Thread_yielding i (conn_context conn)"] t(1,2) conn
      by (simp add: yield_pass_step_def)
  next
    case (Thread_yielding i h)
    let ?run = "use_client h (IOT_MQTT_Yield (client_env env (cm p)) h CM_DEFAULT_YIELD_TIMEOUT) (cm p)"
    have there: "mqtt_connection (cm p) \<noteq> None" "\<not> yield_task_leave (cm p)" "h = None \<or> g_mqtt_client (cm_api (cm p)) = h"
      using Thread_yielding t by (auto simp: thread_safe_def)
    have step: "yield_pass_step env (yield_threads (cm p) ! k) (cm p) =
        (case ?run of Done (_, c) \<Rightarrow> Done (Some (Thread_slot (i + 1)), c) | Freed \<Rightarrow> Freed | Undefined \<Rightarrow> Undefined)"
      using t(1,2) Thread_yielding by (simp add: yield_pass_step_def)
    have after: "safe (p\<lparr>cm := put_thread k (Some (Thread_slot (i + 1))) d\<rparr>)" if "calm (cm p) d" for d
      using goes [OF that disjI1, OF refl, of "Thread_slot (i + 1)"] there calm_fields [OF that] by (simp add: thread_safe_def)
    from yielding_calm [OF there(3)] have "fine (\<lambda>(rc, c'). calm (cm p) c') ?run" .
    with after show ?thesis by (cases ?run) (auto simp: step)
  qed
qed

lemma step_safe:
  assumes "step env p act r" "safe p" "orderly p act"
  shows "fine safe r"
  using assms(1)
proof cases
  case (call f)
  then show ?thesis
    using call_safe [OF assms(2), of f env] assms(3) by (auto simp: fine_map split: prod.splits elim!: fine_mono)
next
  case (refused fd rc c)
  then show ?thesis
    using assms(2) by (auto simp: close_enter_def split: if_splits)
next
  case (enter fd c)
  then have "0 \<le> fd \<and> nat fd < CM_MAX_FD_NUM \<and> cm_fd (cm p) ! nat fd \<noteq> None" "inited_conn_num c = 0"
    "c = cm p \<or> c = (cm p)\<lparr>inited_conn_num := 0\<rparr>"
    using fd_valid [of fd "cm p"] assms(2) by (auto simp: close_enter_def safe_def yields_ok_def split: if_splits)
  then have "safe (p\<lparr>cm := c, closing := Some fd\<rparr>)"
    using assms(2) by (auto simp: safe_def yields_ok_def one_thread_def)
  with enter show ?thesis by simp
next
  case (wait fd)
  then show ?thesis using safe_calm [OF assms(2) calm_on_world] by simp
next
  case (rest fd)
  then have c: "table_ok (cm p)" "0 \<le> fd" "nat fd < CM_MAX_FD_NUM" "cm_fd (cm p) ! nat fd \<noteq> None" "inited_conn_num (cm p) = 0"
    using assms(2) by (auto simp: safe_def)
  have "safe (p\<lparr>cm := c, closing := None\<rparr>)" if "table_ok c" "same_yield (cm p) c" for c
  proof -
    have "yield_task_leave (cm p)" using rest(4) c(5) by (simp add: close_may_go_on_def)
    then have "one_thread c"
      using assms(2) that(2) by (auto simp: safe_def one_thread_def same_yield_def thread_safe_def)
    with that assms(2) c(5) show ?thesis by (auto simp: safe_def same_yield_def yields_ok_def)
  qed
  with close_rest_fine [OF c, of env] rest show ?thesis
    by (auto simp: fine_map elim!: fine_mono)
next
  case (turn k)
  then show ?thesis
    using turn_safe [OF assms(2), of k env] by (auto simp: fine_map split: prod.splits elim!: fine_mono)
qed

lemma orderly_run_safe: "orderly_run env a p \<Longrightarrow> safe p"
proof (induction rule: orderly_run.induct)
  case (more p act p')
  with step_safe [of env p act "Done p'"] show ?case by simp
qed (rule safe_start)

text \<open>
  C11. Used in an orderly way, the connectivity manager never uses a freed connection or client,
  however its yield thread is scheduled against the calls and the wait of \<^verbatim>\<open>iotx_cm_close\<close>, and whatever
  the platform, the network and the callbacks do.
\<close>

theorem nothing_freed_is_used:
  assumes "orderly_run env a p" "orderly p act" "step env p act r"
  shows "r \<noteq> Freed"
  using step_safe [OF assms(3) orderly_run_safe [OF assms(1)] assms(2)] by (cases r) auto

section \<open>The wait of closing ends\<close>

text \<open>How many statements of a yield thread are left until it ends, with nothing counted.\<close>

fun turns_left :: "yield_thread \<Rightarrow> nat" where
  "turns_left Thread_new = 2"
| "turns_left Thread_loop = 1"
| "turns_left (Thread_slot i) = 2 + 3 * (CM_MAX_FD_NUM - i)"
| "turns_left (Thread_loaded i) = 4 + 3 * (CM_MAX_FD_NUM - Suc i)"
| "turns_left (Thread_yielding i h) = 3 + 3 * (CM_MAX_FD_NUM - Suc i)"

lemma turn_while_closing:
  assumes "safe p" "closing p = Some fd" "\<not> close_may_go_on (cm p)"
  obtains t r where "yield_threads (cm p) = [t]" "step env p (Turn 0) r"
    "fine (\<lambda>q. safe q \<and> closing q = Some fd \<and> (close_may_go_on (cm q) \<or>
       (\<exists>u. yield_threads (cm q) = [u] \<and> turns_left u < turns_left t))) r"
proof -
  from assms have c: "inited_conn_num (cm p) = 0" "\<not> yield_task_leave (cm p)" "one_thread (cm p)"
    by (auto simp: safe_def close_may_go_on_def)
  then obtain t where t: "yield_threads (cm p) = [t]" "t \<noteq> Thread_new" by (auto simp: one_thread_def)
  define r where "r = yield_pass_step env t (cm p)"
  have step: "step env p (Turn 0) (map_outcome (\<lambda>(t, c). p\<lparr>cm := put_thread 0 t c\<rparr>) r)"
    using step.turn [of 0 p env] t(1) by (simp add: r_def)
  have left: "fine (\<lambda>(u, d). case u of None \<Rightarrow> yield_task_leave d
      | Some u \<Rightarrow> yield_threads d = [t] \<and> turns_left u < turns_left t) r"
    if "r \<noteq> Freed"
  proof (cases t)
    case (Thread_yielding i h)
    then show ?thesis
      using that t(1) yielding_calm
      by (auto simp: r_def yield_pass_step_def fine_def use_client_def split: outcome.splits option.splits if_splits)
  qed (use that t c(1) in \<open>auto simp: r_def yield_pass_step_def fine_def CM_MAX_FD_NUM_def split: if_splits option.splits\<close>)
  note ok = step_safe [OF step assms(1)]
  have "orderly p (Turn 0)" by (simp add: orderly_def)
  from ok [OF this] have "fine (\<lambda>q. safe q \<and> closing q = Some fd \<and> (close_may_go_on (cm q) \<or>
       (\<exists>u. yield_threads (cm q) = [u] \<and> turns_left u < turns_left t)))
      (map_outcome (\<lambda>(t, c). p\<lparr>cm := put_thread 0 t c\<rparr>) r)"
    using left assms(2) by (cases r) (auto simp: close_may_go_on_def put_thread_def split: option.splits)
  with that t(1) step show thesis by blast
qed

text \<open>
  C30. While \<^verbatim>\<open>iotx_cm_close\<close> waits, letting the yield thread run ends the wait: after finitely many of
  its statements (at most eleven) closing may go on, unless the client itself does not return to it.
\<close>

theorem closing_wait_ends:
  assumes "orderly_run env a p" "closing p = Some fd"
  shows "\<exists>n r. n \<le> 11 \<and> steps env p (replicate n (Turn 0)) r \<and>
    (r = Undefined \<or> (\<exists>q. r = Done q \<and> close_may_go_on (cm q)))"
proof -
  have ends: "\<exists>n r. n \<le> turns_left t \<and> steps env p (replicate n (Turn 0)) r \<and>
      (r = Undefined \<or> (\<exists>q. r = Done q \<and> close_may_go_on (cm q)))"
    if "safe p" "closing p = Some fd" "yield_threads (cm p) = [t]" for p t
    using that
  proof (induction "turns_left t" arbitrary: p t rule: less_induct)
    case less
    show ?case
    proof (cases "close_may_go_on (cm p)")
      case True
      then have "steps env p (replicate 0 (Turn 0)) (Done p)" by (simp add: steps.finished)
      with True show ?thesis by blast
    next
      case False
      obtain t' r where t': "yield_threads (cm p) = [t']" and st: "step env p (Turn 0) r" and
        ok: "fine (\<lambda>q. safe q \<and> closing q = Some fd \<and> (close_may_go_on (cm q) \<or>
          (\<exists>u. yield_threads (cm q) = [u] \<and> turns_left u < turns_left t'))) r"
        by (rule turn_while_closing [OF less.prems(1,2) False])
      have [simp]: "t' = t" using t' less.prems(3) by simp
      have pos: "1 \<le> turns_left t" by (cases t) auto
      show ?thesis
      proof (cases r)
        case (Done q)
        with ok consider "close_may_go_on (cm q)" | u where "yield_threads (cm q) = [u]" "turns_left u < turns_left t"
          by auto
        then show ?thesis
        proof cases
          case 1
          have "steps env p (replicate 1 (Turn 0)) (Done q)"
            using st Done by (auto intro: steps.intros)
          with 1 pos show ?thesis by blast
        next
          case (2 u)
          with less.hyps [OF 2(2), of q] ok Done obtain n r' where n: "n \<le> turns_left u"
            "steps env q (replicate n (Turn 0)) r'" "r' = Undefined \<or> (\<exists>q. r' = Done q \<and> close_may_go_on (cm q))"
            by auto
          have "steps env p (replicate (Suc n) (Turn 0)) r'"
            using st n(2) Done by (auto intro: steps.one)
          moreover have "Suc n \<le> turns_left t" using n(1) 2(2) by simp
          ultimately show ?thesis using n(3) by blast
        qed
      next
        case Undefined
        have "steps env p (replicate 1 (Turn 0)) Undefined"
          using st Undefined by (auto intro: steps.intros)
        with pos show ?thesis by blast
      qed (use ok in simp)
    qed
  qed
  have safe: "safe p" by (rule orderly_run_safe [OF assms(1)])
  show ?thesis
  proof (cases "close_may_go_on (cm p)")
    case True
    have "steps env p (replicate 0 (Turn 0)) (Done p)" by (simp add: steps.finished)
    with True show ?thesis by blast
  next
    case False
    from turn_while_closing [OF safe assms(2) False] obtain t where t: "yield_threads (cm p) = [t]" by blast
    have "turns_left t \<le> 11" by (cases t) (auto simp: CM_MAX_FD_NUM_def)
    obtain n r where n: "n \<le> turns_left t" and r: "steps env p (replicate n (Turn 0)) r"
      "r = Undefined \<or> (\<exists>q. r = Done q \<and> close_may_go_on (cm q))"
      using ends [OF safe assms(2) t] by blast
    show ?thesis
    proof (intro exI conjI)
      show "n \<le> 11" using n \<open>turns_left t \<le> 11\<close> by simp
    qed (rule r)+
  qed
qed

section \<open>Two descriptors for one connection\<close>

lemma on_world_api: "\<exists>a. on_world f c = c\<lparr>cm_api := a\<rparr>"
  by (simp add: on_world_def) blast

lemma on_sys_api: "on_sys f c = (r, c') \<Longrightarrow> \<exists>a. c' = c\<lparr>cm_api := a\<rparr>"
  by (auto simp: on_sys_def split: prod.splits)

lemma on_sys_malloc:
  assumes "\<forall>n w. fst (HAL_Malloc env n w)"
  obtains a where "on_sys (malloc env n) c = (True, c\<lparr>cm_api := a\<rparr>)"
proof -
  obtain ok c' where run: "on_sys (malloc env n) c = (ok, c')" by (cases "on_sys (malloc env n) c")
  moreover have ok
    using assms [rule_format, of n "world (api_sys (cm_api c))"] run
    by (auto simp: on_sys_def malloc_def split: prod.splits)
  ultimately show thesis using that on_sys_api [OF run] by auto
qed

lemma create_lock_ok:
  assumes "\<forall>w. fst (HAL_MutexCreate (cm_base env) w)"
  obtains a where "create_lock env c = (True, c\<lparr>cm_api := a, fd_lock := True\<rparr>)"
proof (cases "fd_lock c")
  case True
  then have "create_lock env c = (True, c\<lparr>cm_api := cm_api c, fd_lock := True\<rparr>)" by (simp add: create_lock_def)
  then show thesis by (rule that)
next
  case False
  obtain ok w where w: "HAL_MutexCreate (cm_base env) (world (api_sys (cm_api c))) = (ok, w)" by fastforce
  moreover have ok using assms [rule_format, of "world (api_sys (cm_api c))"] w by simp
  ultimately have "create_lock env c = (True, (on_world (\<lambda>_. w) c)\<lparr>fd_lock := True\<rparr>)"
    using False by (simp add: create_lock_def)
  with on_world_api [of "\<lambda>_. w" c] that show thesis by auto
qed

text \<open>Opening where nothing fails, without and with a connection open.\<close>

lemma open_new:
  assumes "cp_protocol_type par = IOTX_CM_PROTOCOL_TYPE_MQTT"
    and "\<forall>n w. fst (HAL_Malloc (cm_base env) n w)" "\<forall>w. fst (HAL_MutexCreate (cm_base env) w)"
    and "mqtt_connection c = None" "free_slot 0 (cm_fd c) = Some i"
  obtains a where "iotx_cm_open env par c = Done (int i, c\<lparr>cm_api := a,
    mqtt_connection := Some (connections_made c, (new_connection par)\<lparr>conn_fd := int i\<rparr>),
    connections_made := connections_made c + 1, cm_fd := (cm_fd c)[i := Some (connections_made c)], fd_lock := True\<rparr>)"
proof -
  obtain a where a: "on_sys (malloc (cm_base env) (sizeof_connection env)) c = (True, c\<lparr>cm_api := a\<rparr>)"
    by (rule on_sys_malloc [OF assms(2)])
  obtain b where b: "on_sys (malloc (cm_base env) (sizeof_mqtt_param env)) (c\<lparr>cm_api := a\<rparr>) = (True, c\<lparr>cm_api := a, cm_api := b\<rparr>)"
    by (rule on_sys_malloc [OF assms(2)])
  define d where "d = c\<lparr>cm_api := b, mqtt_connection := Some (connections_made c, new_connection par),
    connections_made := connections_made c + 1\<rparr>"
  have o: "iotx_cm_open_mqtt env par c = (Some (connections_made c), d)"
    using a b assms(4) by (simp add: iotx_cm_open_mqtt_def Let_def d_def)
  obtain x where x: "create_lock env d = (True, d\<lparr>cm_api := x, fd_lock := True\<rparr>)"
    by (rule create_lock_ok [OF assms(3)])
  have "iotx_cm_open env par c = Done (int i, upd_conn (\<lambda>k. k\<lparr>conn_fd := int i\<rparr>)
      (d\<lparr>cm_api := x, fd_lock := True, cm_fd := (cm_fd c)[i := Some (connections_made c)]\<rparr>))"
    using assms(1,5) o x by (simp add: iotx_cm_open_def get_fd_def) (simp add: d_def)
  moreover have "upd_conn (\<lambda>k. k\<lparr>conn_fd := int i\<rparr>)
      (d\<lparr>cm_api := x, fd_lock := True, cm_fd := (cm_fd c)[i := Some (connections_made c)]\<rparr>) =
    c\<lparr>cm_api := x, mqtt_connection := Some (connections_made c, (new_connection par)\<lparr>conn_fd := int i\<rparr>),
      connections_made := connections_made c + 1, cm_fd := (cm_fd c)[i := Some (connections_made c)], fd_lock := True\<rparr>"
    by (simp add: upd_conn_def d_def)
  ultimately show thesis by (intro that [of x]) simp
qed

lemma open_again:
  assumes "cp_protocol_type par = IOTX_CM_PROTOCOL_TYPE_MQTT" "fd_lock c"
    and "mqtt_connection c = Some (n, conn)" "free_slot 0 (cm_fd c) = Some i"
  shows "iotx_cm_open env par c = Done (int i, c\<lparr>mqtt_connection := Some (n, conn\<lparr>conn_fd := int i\<rparr>),
    cm_fd := (cm_fd c)[i := Some n]\<rparr>)"
  using assms by (simp add: iotx_cm_open_def iotx_cm_open_mqtt_def get_fd_def create_lock_def upd_conn_def)

lemma close_unconnected:
  assumes "mqtt_connection c = Some (n, conn)" "conn_context conn = None" "inited_conn_num c = 0" "fd_lock c"
    and "0 \<le> fd" "nat fd < CM_MAX_FD_NUM" "cm_fd c ! nat fd = Some n"
  shows "close_rest env fd c =
    Done (0, c\<lparr>mqtt_connection := None, cm_fd := (cm_fd c)[nat fd := None], fd_lock := False\<rparr>)"
  using assms
  by (simp add: close_rest_def slot_alive_def cm_mqtt_close_def on_connection_def the_conn_def use_client_def
      IOT_MQTT_Destroy_def recycle_fd_def create_lock_def)


section \<open>A run\<close>

definition cm_demo :: "demo cm_env" where
  "cm_demo = \<lparr>cm_base = api_env, HAL_ThreadCreate = \<lambda>w. (0, w), cm_event_cb = \<lambda>f fd e k w. w,
     cm_data_cb = \<lambda>f fd t b n w. w, monitor_cb = \<lambda>m e w. w, sizeof_connection = 100, sizeof_mqtt_param = 100\<rparr>"

definition cm_demo_param :: iotx_cm_init_param where
  "cm_demo_param = \<lparr>cp_request_timeout_ms = 2000, cp_keepalive_interval_ms = 60000, cp_write_buf_size = 1024,
     cp_read_buf_size = 1024, cp_protocol_type = IOTX_CM_PROTOCOL_TYPE_MQTT, cp_handle_event = Some 5, cp_context = 7\<rparr>"

text \<open>The application has made the client itself; connecting finds it.\<close>

definition cm_demo_api :: "demo mqtt_api" where
  "cm_demo_api = api_start\<lparr>g_mqtt_client := Some 0, clients_made := 1\<rparr>"

primrec state_of :: "(int \<times> 'w cm) outcome \<Rightarrow> 'w cm \<Rightarrow> 'w cm" where
  "state_of (Done r) c = snd r"
| "state_of Freed c = c"
| "state_of Undefined c = c"

definition cm_open1 :: "demo cm" where
  "cm_open1 = state_of (iotx_cm_open cm_demo cm_demo_param (cm (cm_start cm_demo_api))) (cm (cm_start cm_demo_api))"

definition cm_connected :: "demo cm" where
  "cm_connected = state_of (iotx_cm_connect cm_demo 0 10000 cm_open1) cm_open1"

definition is_done :: "(int \<times> 'w cm) outcome \<Rightarrow> bool" where
  "is_done r = (case r of Done (rc, c) \<Rightarrow> rc = 0 | _ \<Rightarrow> False)"

lemma is_doneD: "is_done r \<Longrightarrow> r = Done (0, state_of r c)"
  by (cases r) (auto simp: is_done_def)

lemma cm_opens: "iotx_cm_open cm_demo cm_demo_param (cm (cm_start cm_demo_api)) = Done (0, cm_open1)"
proof -
  have "is_done (iotx_cm_open cm_demo cm_demo_param (cm (cm_start cm_demo_api)))" by code_simp
  from is_doneD [OF this] show ?thesis by (simp only: cm_open1_def)
qed

lemma cm_connects: "iotx_cm_connect cm_demo 0 10000 cm_open1 = Done (0, cm_connected)"
proof -
  have "is_done (iotx_cm_connect cm_demo 0 10000 cm_open1)" by code_simp
  from is_doneD [OF this] show ?thesis by (simp only: cm_connected_def)
qed

lemma cm_connected_facts: "yield_threads cm_connected = [Thread_new]" "inited_conn_num cm_connected = 1"
  by code_simp+

lemma cm_connected_table: "fd_lock cm_connected" "cm_fd cm_connected = [Some 0, None, None]"
  "map_option fst (mqtt_connection cm_connected) = Some 0"
  "map_option conn_context (the_conn cm_connected) = Some (Some 0)"
  by code_simp+

text \<open>The yield thread is in the client on its first round, and the application waits in \<^verbatim>\<open>iotx_cm_close\<close>.\<close>

definition cm_waiting :: "demo process" where
  "cm_waiting = \<lparr>cm = cm_connected\<lparr>yield_task_leave := False, yield_threads := [Thread_yielding 0 (Some 0)],
     inited_conn_num := 0\<rparr>, closing = Some 0\<rparr>"

lemma cm_waiting_reached: "orderly_run cm_demo cm_demo_api cm_waiting"
proof -
  let ?p = "\<lambda>c. \<lparr>cm = c, closing = None\<rparr>"
  let ?t = "\<lambda>t. ?p (cm_connected\<lparr>yield_task_leave := False, yield_threads := [t]\<rparr>)"
  obtain m conn where conn: "mqtt_connection cm_connected = Some (m, conn)" "conn_context conn = Some 0"
    using cm_connected_table(4) by (auto simp: the_conn_def)
  have start: "cm_start cm_demo_api = ?p (cm (cm_start cm_demo_api))" by (simp add: cm_start_def)
  have 0: "orderly_run cm_demo cm_demo_api (?p (cm (cm_start cm_demo_api)))"
    using orderly_run.start [of cm_demo cm_demo_api] by (simp add: start [symmetric])
  have 1: "orderly_run cm_demo cm_demo_api (?p cm_open1)"
    by (rule orderly_run.more [OF 0, of "Call (Cm_open cm_demo_param)"])
      (use step.call [of "?p (cm (cm_start cm_demo_api))" cm_demo "Cm_open cm_demo_param"] cm_opens
       in \<open>simp_all add: orderly_def cm_start_def\<close>)
  have "inited_conn_num cm_open1 = 0" "yield_threads cm_open1 = []" by code_simp+
  then have 2: "orderly_run cm_demo cm_demo_api (?p cm_connected)"
    by (intro orderly_run.more [OF 1, of "Call (Cm_connect 0 10000)"])
      (use step.call [of "?p cm_open1" cm_demo "Cm_connect 0 10000"] cm_connects
       in \<open>simp_all add: orderly_def\<close>)
  have 3: "orderly_run cm_demo cm_demo_api (?t Thread_loop)"
    by (rule orderly_run.more [OF 2, of "Turn 0"])
      (use step.turn [of 0 "?p cm_connected" cm_demo] cm_connected_facts
       in \<open>simp_all add: orderly_def yield_pass_step_def put_thread_def\<close>)
  have 4: "orderly_run cm_demo cm_demo_api (?t (Thread_slot 0))"
    by (rule orderly_run.more [OF 3, of "Turn 0"])
      (use step.turn [of 0 "?t Thread_loop" cm_demo] cm_connected_facts cm_connected_table
       in \<open>simp_all add: orderly_def yield_pass_step_def put_thread_def\<close>)
  have 5: "orderly_run cm_demo cm_demo_api (?t (Thread_loaded 0))"
    by (rule orderly_run.more [OF 4, of "Turn 0"])
      (use step.turn [of 0 "?t (Thread_slot 0)" cm_demo] cm_connected_table
       in \<open>simp_all add: orderly_def yield_pass_step_def put_thread_def slot_alive_def CM_MAX_FD_NUM_def\<close>)
  have 6: "orderly_run cm_demo cm_demo_api (?t (Thread_yielding 0 (Some 0)))"
    by (rule orderly_run.more [OF 5, of "Turn 0"])
      (use step.turn [of 0 "?t (Thread_loaded 0)" cm_demo] conn
       in \<open>simp_all add: orderly_def yield_pass_step_def put_thread_def the_conn_def\<close>)
  show ?thesis
    by (rule orderly_run.more [OF 6, of "Close 0"])
      (use step.enter [of "?t (Thread_yielding 0 (Some 0))" 0 _ cm_demo] cm_connected_facts cm_connected_table
       in \<open>simp_all add: orderly_def cm_waiting_def close_enter_def fd_is_valid_def CM_MAX_FD_NUM_def\<close>)
qed

text \<open>
  Connecting twice counts two connections and starts one thread; closing then does not wait for it, and
  destroys the client it is in.
\<close>

definition cm_twice :: "demo cm" where
  "cm_twice = state_of (iotx_cm_connect cm_demo 0 10000
     (cm_connected\<lparr>yield_task_leave := False, yield_threads := [Thread_yielding 0 (Some 0)]\<rparr>)) cm_connected"

lemma cm_twice_connects: "iotx_cm_connect cm_demo 0 10000
    (cm_connected\<lparr>yield_task_leave := False, yield_threads := [Thread_yielding 0 (Some 0)]\<rparr>) = Done (0, cm_twice)"
proof -
  have "is_done (iotx_cm_connect cm_demo 0 10000
    (cm_connected\<lparr>yield_task_leave := False, yield_threads := [Thread_yielding 0 (Some 0)]\<rparr>))"
    by code_simp
  from is_doneD [OF this] show ?thesis by (simp only: cm_twice_def)
qed

definition cm_twice_closed :: "demo cm" where
  "cm_twice_closed = state_of (close_rest cm_demo 0 (cm_twice\<lparr>inited_conn_num := 1\<rparr>)) cm_twice"

lemma cm_twice_closes: "close_rest cm_demo 0 (cm_twice\<lparr>inited_conn_num := 1\<rparr>) = Done (0, cm_twice_closed)"
proof -
  have "is_done (close_rest cm_demo 0 (cm_twice\<lparr>inited_conn_num := 1\<rparr>))" by code_simp
  from is_doneD [OF this] show ?thesis by (simp only: cm_twice_closed_def)
qed

lemma second_connect_races:
  "steps cm_demo \<lparr>cm = cm_connected\<lparr>yield_task_leave := False, yield_threads := [Thread_yielding 0 (Some 0)]\<rparr>,
     closing = None\<rparr> [Call (Cm_connect 0 10000), Close 0, Close_rest, Turn 0] Freed"
proof -
  let ?p = "\<lparr>cm = cm_connected\<lparr>yield_task_leave := False, yield_threads := [Thread_yielding 0 (Some 0)]\<rparr>, closing = None\<rparr>"
  have facts: "inited_conn_num cm_twice = 2" "fd_lock cm_twice" "cm_fd cm_twice = [Some 0, None, None]"
    "yield_threads cm_twice_closed = [Thread_yielding 0 (Some 0)]" "g_mqtt_client (cm_api cm_twice_closed) = None"
    by code_simp+
  have 1: "step cm_demo ?p (Call (Cm_connect 0 10000)) (Done \<lparr>cm = cm_twice, closing = None\<rparr>)"
    using step.call [of ?p cm_demo "Cm_connect 0 10000"] cm_twice_connects by simp
  have 2: "step cm_demo \<lparr>cm = cm_twice, closing = None\<rparr> (Close 0)
      (Done \<lparr>cm = cm_twice\<lparr>inited_conn_num := 1\<rparr>, closing = Some 0\<rparr>)"
    using step.enter [of "\<lparr>cm = cm_twice, closing = None\<rparr>" 0 "cm_twice\<lparr>inited_conn_num := 1\<rparr>" cm_demo] facts
    by (simp add: close_enter_def fd_is_valid_def CM_MAX_FD_NUM_def)
  have 3: "step cm_demo \<lparr>cm = cm_twice\<lparr>inited_conn_num := 1\<rparr>, closing = Some 0\<rparr> Close_rest
      (Done \<lparr>cm = cm_twice_closed, closing = None\<rparr>)"
    using step.rest [of "\<lparr>cm = cm_twice\<lparr>inited_conn_num := 1\<rparr>, closing = Some 0\<rparr>" 0 cm_demo] cm_twice_closes
    by (simp add: close_may_go_on_def)
  have 4: "step cm_demo \<lparr>cm = cm_twice_closed, closing = None\<rparr> (Turn 0) Freed"
    using step.turn [of 0 "\<lparr>cm = cm_twice_closed, closing = None\<rparr>" cm_demo] facts
    by (simp add: yield_pass_step_def use_client_def)
  show ?thesis
    by (rule steps.one [OF 1 steps.one [OF 2 steps.one [OF 3 steps.stop [OF 4]]]]) simp
qed

theorem nothing_freed_is_used_witness:
  "\<exists>r. step cm_demo cm_waiting (Turn 0) r \<and> r \<noteq> Freed"
proof -
  obtain r where r: "step cm_demo cm_waiting (Turn 0) r"
    using step.turn [of 0 cm_waiting cm_demo] by (auto simp: cm_waiting_def)
  have "orderly cm_waiting (Turn 0)" by (simp add: orderly_def)
  from nothing_freed_is_used [OF cm_waiting_reached this r] r show ?thesis by blast
qed

theorem closing_wait_ends_witness:
  "\<not> close_may_go_on (cm cm_waiting) \<and> (\<exists>n r. n \<le> 11 \<and> steps cm_demo cm_waiting (replicate n (Turn 0)) r \<and>
    (r = Undefined \<or> (\<exists>q. r = Done q \<and> close_may_go_on (cm q))))"
  using closing_wait_ends [OF cm_waiting_reached, of 0] by (simp add: cm_waiting_def close_may_go_on_def)


end
