(* ===== verification/InfraList.thy ===== *)
theory InfraList
  imports EnosPrelude
begin

text \<open>
  The intrusive lists of \<^verbatim>\<open>src/src/infra/infra_list.h\<close>. The memory maps every address to the two links of
  the list node there; a node is the address of its links inside the structure it is part of. The
  circular doubly linked list with a head node is related to the list of its nodes by \<open>dlist\<close>; the
  locale \<open>node_list\<close> states what the SDK relies on of such a list, and the other theories
  model their lists as lists of nodes.
\<close>

section \<open>The doubly linked list\<close>

type_synonym addr = nat

record dlist_s =
  prev :: addr
  nxt :: addr

type_synonym dheap = "addr \<Rightarrow> dlist_s"

definition set_next :: "addr \<Rightarrow> addr \<Rightarrow> dheap \<Rightarrow> dheap" where
  "set_next a b h = h(a := (h a)\<lparr>nxt := b\<rparr>)"

definition set_prev :: "addr \<Rightarrow> addr \<Rightarrow> dheap \<Rightarrow> dheap" where
  "set_prev a b h = h(a := (h a)\<lparr>prev := b\<rparr>)"

definition dlist_add_between :: "addr \<Rightarrow> addr \<Rightarrow> addr \<Rightarrow> dheap \<Rightarrow> dheap" where
  "dlist_add_between node p n h =
     set_prev n node (set_next p node (set_prev node p (set_next node n h)))"

definition dlist_add :: "addr \<Rightarrow> addr \<Rightarrow> dheap \<Rightarrow> dheap" where
  "dlist_add node queue h = dlist_add_between node queue (nxt (h queue)) h"

definition dlist_add_tail :: "addr \<Rightarrow> addr \<Rightarrow> dheap \<Rightarrow> dheap" where
  "dlist_add_tail node queue h = dlist_add_between node (prev (h queue)) queue h"

definition dlist_del :: "addr \<Rightarrow> dheap \<Rightarrow> dheap" where
  "dlist_del node h = (let p = prev (h node); n = nxt (h node) in set_prev n p (set_next p n h))"

definition dlist_init :: "addr \<Rightarrow> dheap \<Rightarrow> dheap" where
  "dlist_init node h = set_next node node (set_prev node node h)"

definition list_del_init :: "addr \<Rightarrow> dheap \<Rightarrow> dheap" where
  "list_del_init entry h = dlist_init entry (dlist_del entry h)"

definition dlist_empty :: "addr \<Rightarrow> dheap \<Rightarrow> bool" where
  "dlist_empty head h = (nxt (h head) = head)"

definition dlist_first :: "addr \<Rightarrow> dheap \<Rightarrow> addr" where
  "dlist_first head h = nxt (h head)"

definition list_is_last :: "addr \<Rightarrow> addr \<Rightarrow> dheap \<Rightarrow> bool" where
  "list_is_last node head h = (nxt (h node) = head)"

partial_function (option) entry_number_loop :: "addr \<Rightarrow> nat \<Rightarrow> addr \<Rightarrow> dheap \<Rightarrow> nat option" where
  "entry_number_loop cur num queue h =
     (if nxt (h cur) = queue then Some num
      else entry_number_loop (nxt (h cur)) (num + 1) queue h)"

declare entry_number_loop.simps [code]

definition dlist_entry_number :: "addr \<Rightarrow> dheap \<Rightarrow> nat option" where
  "dlist_entry_number queue h = entry_number_loop queue 0 queue h"

text \<open>
  \<^verbatim>\<open>list_for_each_entry_safe\<close>: the next node is read before the body runs. The body is a function on the memory
  and a state of its own.
\<close>

partial_function (option) for_each_safe ::
  "(addr \<Rightarrow> dheap \<times> 's \<Rightarrow> dheap \<times> 's) \<Rightarrow> addr \<Rightarrow> addr \<Rightarrow> addr \<Rightarrow> dheap \<times> 's \<Rightarrow> (dheap \<times> 's) option" where
  "for_each_safe body head pos n s =
     (if pos = head then Some s
      else let s = body pos s in for_each_safe body head n (nxt (fst s n)) s)"

declare for_each_safe.simps [code]

definition list_for_each_entry_safe ::
  "(addr \<Rightarrow> dheap \<times> 's \<Rightarrow> dheap \<times> 's) \<Rightarrow> addr \<Rightarrow> dheap \<times> 's \<Rightarrow> (dheap \<times> 's) option" where
  "list_for_each_entry_safe body head s =
     (let pos = nxt (fst s head) in for_each_safe body head pos (nxt (fst s pos)) s)"

section \<open>The list of its nodes\<close>

fun links :: "dheap \<Rightarrow> addr \<Rightarrow> addr list \<Rightarrow> addr \<Rightarrow> bool" where
  "links h a [] b \<longleftrightarrow> nxt (h a) = b \<and> prev (h b) = a"
| "links h a (x # xs) b \<longleftrightarrow> nxt (h a) = x \<and> prev (h x) = a \<and> links h x xs b"

definition dlist :: "addr \<Rightarrow> dheap \<Rightarrow> addr list \<Rightarrow> bool" where
  "dlist head h xs \<longleftrightarrow> distinct (head # xs) \<and> links h head xs head"

lemma links_append: "links h a (xs @ x # ys) b \<longleftrightarrow> links h a xs x \<and> links h x ys b"
  by (induction xs arbitrary: a) auto

text \<open>Only the links between the two ends matter.\<close>

lemma links_cong:
  assumes "\<And>x. x \<in> set (a # xs) \<Longrightarrow> nxt (h' x) = nxt (h x)"
    and "\<And>x. x \<in> set (xs @ [b]) \<Longrightarrow> prev (h' x) = prev (h x)"
  shows "links h' a xs b = links h a xs b"
  using assms by (induction xs arbitrary: a) auto

lemma link_updates [simp]:
  "nxt (set_next a b h x) = (if x = a then b else nxt (h x))" "prev (set_next a b h x) = prev (h x)"
  "prev (set_prev a b h x) = (if x = a then b else prev (h x))" "nxt (set_prev a b h x) = nxt (h x)"
  by (simp_all add: set_next_def set_prev_def)

lemma links_last: "links h a xs b \<Longrightarrow> prev (h b) = last (a # xs)"
  by (induction xs arbitrary: a) auto

lemma links_first: "links h a xs b \<Longrightarrow> nxt (h a) = hd (xs @ [b])"
  by (cases xs) auto

lemma dlist_nil: "dlist head (dlist_init head h) []"
  by (simp add: dlist_def dlist_init_def)


lemma dlist_add_tail_ok:
  assumes "dlist head h xs" "node \<notin> set (head # xs)"
  shows "dlist head (dlist_add_tail node head h) (xs @ [node])"
proof (cases xs rule: rev_cases)
  case Nil
  with assms show ?thesis
    by (auto simp: dlist_def dlist_add_tail_def dlist_add_between_def)
next
  case (snoc ys y)
  have d: "distinct (head # ys @ [y])" "node \<notin> set (head # ys @ [y])" and l: "links h head ys y" "links h y [] head"
    using assms by (auto simp: dlist_def snoc links_append)
  then have p: "prev (h head) = y" "nxt (h y) = head" by simp_all
  have "links (dlist_add_tail node head h) head ys y \<longleftrightarrow> links h head ys y"
    using d by (intro links_cong) (auto simp: dlist_add_tail_def dlist_add_between_def p)
  moreover have "links (dlist_add_tail node head h) y [node] head"
    using d by (auto simp: dlist_add_tail_def dlist_add_between_def p)
  ultimately show ?thesis
    using assms l by (auto simp: dlist_def snoc links_append)
qed

lemma dlist_add_ok:
  assumes "dlist head h xs" "node \<notin> set (head # xs)"
  shows "dlist head (dlist_add node head h) (node # xs)"
proof (cases xs)
  case Nil
  with assms show ?thesis
    by (auto simp: dlist_def dlist_add_def dlist_add_between_def)
next
  case (Cons y ys)
  have d: "distinct (head # y # ys)" "node \<notin> set (head # y # ys)" and l: "nxt (h head) = y" "links h y ys head"
    using assms by (auto simp: dlist_def Cons)
  have "links (dlist_add node head h) y ys head \<longleftrightarrow> links h y ys head"
    using d by (intro links_cong) (auto simp: dlist_add_def dlist_add_between_def l)
  with d l show ?thesis
    using assms by (auto simp: dlist_def Cons dlist_add_def dlist_add_between_def)
qed

lemma dlist_del_links:
  assumes d: "distinct (head # ys @ node # zs)" and l: "links h head ys node" "links h node zs head"
  shows "links (dlist_del node h) head (ys @ zs) head"
proof -
  define p where "p = last (head # ys)"
  define n where "n = hd (zs @ [head])"
  have del: "dlist_del node h = set_prev n p (set_next p n h)"
    using links_last [OF l(1)] links_first [OF l(2)] by (simp add: dlist_del_def p_def n_def Let_def)
  have front: "links h' head ys x" if "nxt (h' p) = x" "prev (h' x) = p"
    "\<And>y. y \<in> set (head # ys) \<Longrightarrow> y \<noteq> p \<Longrightarrow> nxt (h' y) = nxt (h y)"
    "\<And>y. y \<in> set ys \<Longrightarrow> prev (h' y) = prev (h y)" for h' x
  proof (cases ys rule: rev_cases)
    case (snoc ys' a)
    have "links h' head ys' a \<longleftrightarrow> links h head ys' a"
      using d that(3,4) by (intro links_cong) (auto simp: p_def snoc)
    with l(1) that(1,2) show ?thesis by (simp add: links_append snoc p_def)
  qed (use that in \<open>simp add: p_def\<close>)
  have pn: "p \<in> set (head # ys)" "n \<in> set (zs @ [head])"
    by (auto simp: p_def n_def hd_append)
  have ys: "links (dlist_del node h) head ys n"
    using pn d by (intro front) (auto simp: del)
  show ?thesis
  proof (cases zs)
    case Nil
    with ys show ?thesis by (simp add: n_def)
  next
    case (Cons z zs')
    have "links (dlist_del node h) z zs' head \<longleftrightarrow> links h z zs' head"
      using d pn(1) by (intro links_cong) (auto simp: del n_def Cons)
    with ys l(2) show ?thesis by (simp add: links_append Cons n_def)
  qed
qed

lemma dlist_del_ok:
  assumes "dlist head h xs" "node \<in> set xs"
  shows "dlist head (dlist_del node h) (remove1 node xs)"
proof -
  obtain ys zs where xs: "xs = ys @ node # zs" "node \<notin> set ys"
    using split_list_first [OF assms(2)] by blast
  have d: "distinct (head # ys @ node # zs)" and l: "links h head ys node" "links h node zs head"
    using assms(1) by (auto simp: dlist_def xs links_append)
  from dlist_del_links [OF this] d xs show ?thesis
    by (auto simp: dlist_def remove1_append)
qed

lemma dlist_empty_ok: "dlist head h xs \<Longrightarrow> dlist_empty head h \<longleftrightarrow> xs = []"
  by (cases xs) (auto simp: dlist_def dlist_empty_def)

lemma dlist_first_ok: "dlist head h (x # xs) \<Longrightarrow> dlist_first head h = x"
  by (simp add: dlist_def dlist_first_def)

lemma entry_number_links:
  "links h cur xs queue \<Longrightarrow> queue \<notin> set xs \<Longrightarrow> entry_number_loop cur num queue h = Some (num + length xs)"
  by (induction xs arbitrary: cur num) (subst entry_number_loop.simps; simp)+

lemma entry_number_ok: "dlist head h xs \<Longrightarrow> dlist_entry_number head h = Some (length xs)"
  using entry_number_links [of h head xs head 0] by (simp add: dlist_def dlist_entry_number_def)

section \<open>Iterating while nodes are taken out and freed\<close>

text \<open>
  A body that looks at its node, and takes it out of the list and frees it when \<open>P\<close> holds of it; what a freed
  node holds is whatever \<open>junk\<close> says.
\<close>

definition removing_body ::
  "(addr \<Rightarrow> bool) \<Rightarrow> (addr \<Rightarrow> 's \<Rightarrow> 's) \<Rightarrow> (addr \<Rightarrow> dlist_s) \<Rightarrow> addr \<Rightarrow> dheap \<times> 's \<Rightarrow> dheap \<times> 's" where
  "removing_body P f junk x s =
     ((if P x then (dlist_del x (fst s))(x := junk x) else fst s), f x (snd s))"

lemma dlist_outside:
  assumes "dlist head h xs" "x \<notin> set (head # xs)"
  shows "dlist head (h(x := y)) xs"
proof -
  have "links (h(x := y)) head xs head = links h head xs head"
    using assms(2) by (intro links_cong) auto
  with assms(1) show ?thesis by (simp add: dlist_def)
qed

lemma dlist_split_next: "dlist head h (kept @ x # rest) \<Longrightarrow> nxt (h x) = hd (rest @ [head])"
  by (auto simp: dlist_def links_append dest: links_first)

lemma for_each_removing:
  assumes "dlist head h (kept @ rest)"
  shows "\<exists>h'. for_each_safe (removing_body P f junk) head (hd (rest @ [head])) (nxt (h (hd (rest @ [head])))) (h, s) =
      Some (h', fold f rest s) \<and> dlist head h' (kept @ filter (\<lambda>x. \<not> P x) rest)"
  using assms
proof (induction rest arbitrary: h s kept)
  case Nil
  then show ?case by (subst for_each_safe.simps) simp
next
  case (Cons x rest)
  let ?h = "fst (removing_body P f junk x (h, s))"
  have x: "x \<noteq> head" "x \<notin> set kept" "x \<notin> set rest" using Cons.prems by (auto simp: dlist_def)
  note n = dlist_split_next [OF Cons.prems]
  have "dlist head ?h (kept @ rest)" if "P x"
  proof -
    have "dlist head (dlist_del x h) (kept @ rest)"
      using dlist_del_ok [OF Cons.prems, of x] x by (simp add: remove1_append)
    then show ?thesis
      using that x by (simp add: removing_body_def) (rule dlist_outside, auto)
  qed
  moreover have "dlist head ?h ((kept @ [x]) @ rest)" if "\<not> P x"
    using that Cons.prems by (simp add: removing_body_def)
  moreover have step: "for_each_safe (removing_body P f junk) head x (hd (rest @ [head])) (h, s) =
      for_each_safe (removing_body P f junk) head (hd (rest @ [head])) (nxt (?h (hd (rest @ [head])))) (?h, f x s)"
    using x(1) by (subst for_each_safe.simps) (simp add: Let_def removing_body_def)
  ultimately show ?case
    using Cons.IH [of ?h kept "f x s"] Cons.IH [of ?h "kept @ [x]" "f x s"] n by (cases "P x") auto
qed

text \<open>
  A loop of \<^verbatim>\<open>list_for_each_entry_safe\<close> whose body takes some of the nodes out and frees them visits
  every node of the list exactly once and in order, ends, and leaves the list of the others: it never
  follows the links of a node it has freed.
\<close>

theorem for_each_safe_visits_all:
  assumes "dlist head h xs"
  shows "\<exists>h'. list_for_each_entry_safe (removing_body P f junk) head (h, s) = Some (h', fold f xs s) \<and>
    dlist head h' (filter (\<lambda>x. \<not> P x) xs)"
proof -
  have "nxt (h head) = hd (xs @ [head])"
    using assms by (auto simp: dlist_def dest: links_first)
  then show ?thesis
    using for_each_removing [of head h "[]" xs P f junk s] assms
    by (simp add: list_for_each_entry_safe_def Let_def)
qed

definition demo_ring :: dheap where
  "demo_ring = dlist_add_tail 3 1 (dlist_add_tail 2 1 (dlist_init 1 (\<lambda>_. \<lparr>prev = 0, nxt = 0\<rparr>)))"

lemma demo_ring_list: "dlist 1 demo_ring [2, 3]"
  using dlist_add_tail_ok [OF dlist_add_tail_ok [OF dlist_nil, of 2 1], of 3] by (simp add: demo_ring_def)

theorem for_each_safe_visits_all_witness:
  "\<exists>h'. list_for_each_entry_safe (removing_body (\<lambda>x. x = 2) (#) (\<lambda>_. \<lparr>prev = 9, nxt = 9\<rparr>)) 1 (demo_ring, []) =
     Some (h', [3, 2]) \<and> dlist 1 h' [3]"
  using for_each_safe_visits_all [OF demo_ring_list, of "\<lambda>x. x = 2" "(#)" "\<lambda>_. \<lparr>prev = 9, nxt = 9\<rparr>" "[]"] by simp

section \<open>What the SDK relies on\<close>

text \<open>
  A list of nodes in memory as the queues of the SDK use it, and what a program of insertions at
  its end and removals at its front gives.
\<close>

datatype 'a queue_op = Put 'a | Get

fun mem_queue ::
  "('a \<Rightarrow> 'h \<Rightarrow> 'h) \<Rightarrow> ('a \<Rightarrow> 'h \<Rightarrow> 'h) \<Rightarrow> ('h \<Rightarrow> bool) \<Rightarrow> ('h \<Rightarrow> 'a) \<Rightarrow> 'a queue_op list \<Rightarrow> 'h \<Rightarrow> 'a option list \<times> 'h"
  where
  "mem_queue add del emp first [] h = ([], h)"
| "mem_queue add del emp first (Put x # ops) h = mem_queue add del emp first ops (add x h)"
| "mem_queue add del emp first (Get # ops) h =
     (if emp h then map_prod ((#) None) id (mem_queue add del emp first ops h)
      else let x = first h in map_prod ((#) (Some x)) id (mem_queue add del emp first ops (del x h)))"

fun list_queue :: "'a queue_op list \<Rightarrow> 'a list \<Rightarrow> 'a option list \<times> 'a list" where
  "list_queue [] q = ([], q)"
| "list_queue (Put x # ops) q = list_queue ops (q @ [x])"
| "list_queue (Get # ops) q =
     (case q of [] \<Rightarrow> map_prod ((#) None) id (list_queue ops q)
      | x # q \<Rightarrow> map_prod ((#) (Some x)) id (list_queue ops q))"

text \<open>A node is put into the list only while it is not in it.\<close>

fun fresh_puts :: "('a \<Rightarrow> bool) \<Rightarrow> 'a queue_op list \<Rightarrow> 'a list \<Rightarrow> bool" where
  "fresh_puts ok [] q = True"
| "fresh_puts ok (Put x # ops) q = (ok x \<and> x \<notin> set q \<and> fresh_puts ok ops (q @ [x]))"
| "fresh_puts ok (Get # ops) q = fresh_puts ok ops (tl q)"

locale node_list =
  fixes rep :: "'h \<Rightarrow> 'a list \<Rightarrow> bool"
    and ok :: "'a \<Rightarrow> bool"
    and add_tail :: "'a \<Rightarrow> 'h \<Rightarrow> 'h"
    and del :: "'a \<Rightarrow> 'h \<Rightarrow> 'h"
    and is_empty :: "'h \<Rightarrow> bool"
    and first :: "'h \<Rightarrow> 'a"
  assumes rep_add: "rep h xs \<Longrightarrow> ok x \<Longrightarrow> x \<notin> set xs \<Longrightarrow> rep (add_tail x h) (xs @ [x])"
    and rep_del: "rep h (x # xs) \<Longrightarrow> rep (del x h) xs"
    and rep_empty: "rep h xs \<Longrightarrow> is_empty h \<longleftrightarrow> xs = []"
    and rep_first: "rep h (x # xs) \<Longrightarrow> first h = x"
begin

lemma queue_refines:
  "rep h q \<Longrightarrow> fresh_puts ok ops q \<Longrightarrow>
   \<exists>h'. mem_queue add_tail del is_empty first ops h = (fst (list_queue ops q), h') \<and> rep h' (snd (list_queue ops q))"
proof (induction ops q arbitrary: h rule: list_queue.induct)
  case (1 q)
  then show ?case by simp
next
  case (2 x ops q)
  from 2(1) [of "add_tail x h"] rep_add [OF 2(2)] 2(3) show ?case by simp
next
  case (3 ops q)
  show ?case
  proof (cases q)
    case Nil
    with 3(1) [of h] 3(3,4) show ?thesis by (auto simp: rep_empty)
  next
    case (Cons x q')
    with 3(2) [OF Cons, of "del x h"] 3(3,4) show ?thesis
      by (auto simp: rep_empty rep_first rep_del)
  qed
qed

end

interpretation ring: node_list "dlist head" "\<lambda>x. x \<noteq> head" "\<lambda>x. dlist_add_tail x head" dlist_del "dlist_empty head" "dlist_first head"
  for head
proof
  show "dlist head (dlist_del x h) xs" if "dlist head h (x # xs)" for h x xs
    using dlist_del_ok [OF that, of x] by simp
qed (auto simp: dlist_add_tail_ok dlist_empty_ok dlist_first_ok)

text \<open>
  C37. The intrusive doubly linked list is a queue: any program of \<^verbatim>\<open>list_add_tail\<close> of new nodes and of
  taking out \<^verbatim>\<open>list_first_entry\<close> gives, on the linked memory, the results it gives on a list of
  the nodes, and leaves the memory linked as the list it leaves.
\<close>

theorem dlist_refines_queue:
  assumes "dlist head h q" "fresh_puts (\<lambda>x. x \<noteq> head) ops q"
  shows "\<exists>h'. mem_queue (\<lambda>x. dlist_add_tail x head) dlist_del (dlist_empty head) (dlist_first head) ops h =
      (fst (list_queue ops q), h') \<and> dlist head h' (snd (list_queue ops q))"
  using assms by (rule ring.queue_refines)

theorem dlist_refines_queue_witness:
  "\<exists>h'. mem_queue (\<lambda>x. dlist_add_tail x 1) dlist_del (dlist_empty 1) (dlist_first 1)
      [Put 4, Get, Get, Put 2, Get] demo_ring = ([Some 2, Some 3, Some 4], h') \<and> dlist 1 h' [2]"
  using dlist_refines_queue [OF demo_ring_list, of "[Put 4, Get, Get, Put 2, Get]"] by simp

end
