(* ===== verification/DmQueue.thy ===== *)
theory DmQueue
  imports InfraNet InfraList
begin

text \<open>
  The message queue to the user (\<^verbatim>\<open>src/src/dev_model/dm_ipc.c\<close>), the cache of requests waiting for their
  reply (\<^verbatim>\<open>dm_message_cache.c\<close>), the functions of \<^verbatim>\<open>dm_message.c\<close> that put a message or a timeout into the
  queue, and the dispatch loop of \<^verbatim>\<open>dm_api.c\<close> that takes them out.

  The lists are lists of their nodes; \<^verbatim>\<open>InfraList\<close> shows that the linked memory is such a list. Static
  contexts are passed as states. The clock the cache reads has 64 bits. The user's callback acts on the
  outside world. Allocation can fail; freeing has no effect in the model.
\<close>

record 'w dm_env = "'w hal" +
  uptime64 :: "'w \<Rightarrow> 64 word \<times> 'w"
  event_callback :: "(int \<Rightarrow> byte list option \<Rightarrow> 'w \<Rightarrow> 'w) option"
  sizeof_ipc_msg :: u32
  sizeof_ipc_node :: u32
  sizeof_cache_node :: u32

section \<open>Decimal text\<close>

text \<open>What \<^verbatim>\<open>HAL_Snprintf\<close> writes for \<^verbatim>\<open>%d\<close>, and its cut at the size of the buffer.\<close>

fun dec_digits :: "nat \<Rightarrow> byte list" where
  "dec_digits n = (if n < 10 then [of_nat (0x30 + n)] else dec_digits (n div 10) @ [of_nat (0x30 + n mod 10)])"

declare dec_digits.simps [simp del]

definition fmt_d :: "int \<Rightarrow> byte list" where
  "fmt_d i = (if i < 0 then 0x2D # dec_digits (nat (- i)) else dec_digits (nat i))"

definition snprintf :: "nat \<Rightarrow> byte list \<Rightarrow> byte list" where
  "snprintf n s = take (n - 1) s"

section \<open>The message queue\<close>

record ipc_msg =
  ipc_type :: int
  ipc_data :: "byte list option"

record dm_ipc =
  ipc_mutex :: bool
  ipc_max_size :: int
  ipc_size :: int
  message_list :: "ipc_msg list"

definition dm_ipc_zero :: dm_ipc where
  "dm_ipc_zero = \<lparr>ipc_mutex = False, ipc_max_size = 0, ipc_size = 0, message_list = []\<rparr>"

definition dm_ipc_init :: "('w, 'e) hal_scheme \<Rightarrow> int \<Rightarrow> 'w \<Rightarrow> int \<times> dm_ipc \<times> 'w" where
  "dm_ipc_init env max_size w =
     (let (ok, w) = HAL_MutexCreate env w
      in if \<not> ok then (STATE_SYS_DEPEND_MUTEX_CREATE, dm_ipc_zero, w)
         else (STATE_SUCCESS, dm_ipc_zero\<lparr>ipc_mutex := True, ipc_max_size := max_size\<rparr>, w))"

text \<open>The list is emptied; the size and the mutex pointer stay as they were.\<close>

definition dm_ipc_deinit :: "dm_ipc \<Rightarrow> dm_ipc" where
  "dm_ipc_deinit q = q\<lparr>message_list := []\<rparr>"

definition dm_ipc_msg_insert :: "'w dm_env \<Rightarrow> ipc_msg option \<Rightarrow> dm_ipc \<Rightarrow> 'w \<Rightarrow> int \<times> dm_ipc \<times> 'w" where
  "dm_ipc_msg_insert env data q w =
     (case data of
        None \<Rightarrow> (STATE_USER_INPUT_INVALID, q, w)
      | Some d \<Rightarrow>
          if ipc_size q \<ge> ipc_max_size q then (STATE_DEV_MODEL_MSGQ_FULL, q, w)
          else let (ok, w) = HAL_Malloc env (sizeof_ipc_node env) w
               in if \<not> ok then (STATE_SYS_DEPEND_MALLOC, q, w)
                  else (STATE_SUCCESS, q\<lparr>ipc_size := ipc_size q + 1, message_list := message_list q @ [d]\<rparr>, w))"

text \<open>The caller's \<^verbatim>\<open>data\<close> is a pointer to a null pointer.\<close>

definition dm_ipc_msg_next :: "dm_ipc \<Rightarrow> int \<times> ipc_msg option \<times> dm_ipc" where
  "dm_ipc_msg_next q =
     (case message_list q of
        [] \<Rightarrow> (STATE_DEV_MODEL_MSGQ_EMPTY, None, q)
      | d # rest \<Rightarrow> (STATE_SUCCESS, Some d, q\<lparr>message_list := rest, ipc_size := ipc_size q - 1\<rparr>))"

definition dm_msg_send_to_user :: "'w dm_env \<Rightarrow> int \<Rightarrow> byte list option \<Rightarrow> dm_ipc \<Rightarrow> 'w \<Rightarrow> int \<times> dm_ipc \<times> 'w" where
  "dm_msg_send_to_user env type message q w =
     (let (ok, w) = HAL_Malloc env (sizeof_ipc_msg env) w
      in if \<not> ok then (STATE_SYS_DEPEND_MALLOC, q, w)
         else dm_ipc_msg_insert env (Some \<lparr>ipc_type = type, ipc_data = message\<rparr>) q w)"

abbreviation (input) IOTX_DM_ERR_CODE_TIMEOUT :: int where "IOTX_DM_ERR_CODE_TIMEOUT \<equiv> 100000"

definition timeout_message :: "int \<Rightarrow> int \<Rightarrow> byte list" where
  "timeout_message msg_id devid =
     ascii ''{\"id\":'' @ fmt_d msg_id @ ascii '',\"code\":'' @ fmt_d IOTX_DM_ERR_CODE_TIMEOUT @
     ascii '',\"devid\":'' @ fmt_d devid @ ascii ''}''"

definition timeout_message_len :: nat where
  "timeout_message_len = length ''{\"id\":%d,\"code\":%d,\"devid\":%d}'' + 10 * 3 + 1"

definition dm_msg_send_msg_timeout_to_user ::
  "'w dm_env \<Rightarrow> int \<Rightarrow> int \<Rightarrow> int \<Rightarrow> dm_ipc \<Rightarrow> 'w \<Rightarrow> int \<times> dm_ipc \<times> 'w" where
  "dm_msg_send_msg_timeout_to_user env msg_id devid type q w =
     (let (ok, w) = HAL_Malloc env (of_nat (timeout_message_len + 1)) w
      in if \<not> ok then (STATE_SYS_DEPEND_MALLOC, q, w)
         else dm_msg_send_to_user env type (Some (snprintf timeout_message_len (timeout_message msg_id devid))) q w)"

section \<open>The cache of pending requests\<close>

definition CONFIG_MSGCACHE_QUEUE_MAXLEN :: int where "CONFIG_MSGCACHE_QUEUE_MAXLEN = 50"
definition DM_MSG_CACHE_TIMEOUT_MS_DEFAULT :: "64 word" where "DM_MSG_CACHE_TIMEOUT_MS_DEFAULT = 10000"

record cache_node =
  cn_msgid :: int
  cn_devid :: int
  cn_type :: int
  cn_data :: "byte list option"
  cn_ctime :: "64 word"

record msg_cache =
  cache_mutex :: bool
  dmc_list_size :: int
  dmc_list :: "cache_node list"

definition dm_msg_cache_init :: "('w, 'e) hal_scheme \<Rightarrow> 'w \<Rightarrow> int \<times> msg_cache \<times> 'w" where
  "dm_msg_cache_init env w =
     (let (ok, w) = HAL_MutexCreate env w
      in (if ok then STATE_SUCCESS else STATE_SYS_DEPEND_MUTEX_CREATE,
          \<lparr>cache_mutex = ok, dmc_list_size = 0, dmc_list = []\<rparr>, w))"

definition dm_msg_cache_deinit :: "msg_cache \<Rightarrow> int \<times> msg_cache" where
  "dm_msg_cache_deinit c = (STATE_SUCCESS, c\<lparr>dmc_list := []\<rparr>)"

definition dm_msg_cache_insert ::
  "'w dm_env \<Rightarrow> int \<Rightarrow> int \<Rightarrow> int \<Rightarrow> byte list option \<Rightarrow> msg_cache \<Rightarrow> 'w \<Rightarrow> int \<times> msg_cache \<times> 'w" where
  "dm_msg_cache_insert env msgid devid type data c w =
     (if dmc_list_size c \<ge> CONFIG_MSGCACHE_QUEUE_MAXLEN then (STATE_DEV_MODEL_CTX_LIST_FULL, c, w)
      else let (ok, w) = HAL_Malloc env (sizeof_cache_node env) w
           in if \<not> ok then (STATE_SYS_DEPEND_MALLOC, c, w)
              else let (now, w) = uptime64 env w;
                       node = \<lparr>cn_msgid = msgid, cn_devid = devid, cn_type = type, cn_data = data, cn_ctime = now\<rparr>
                   in (STATE_SUCCESS, c\<lparr>dmc_list := dmc_list c @ [node], dmc_list_size := dmc_list_size c + 1\<rparr>, w))"

definition dm_msg_cache_search :: "int \<Rightarrow> msg_cache \<Rightarrow> int \<times> cache_node option" where
  "dm_msg_cache_search msgid c =
     (if msgid < 0 then (STATE_USER_INPUT_INVALID, None)
      else case find (\<lambda>n. cn_msgid n = msgid) (dmc_list c) of
             None \<Rightarrow> (STATE_DEV_MODEL_CTX_LIST_EMPTY, None)
           | Some n \<Rightarrow> (STATE_SUCCESS, Some n))"

fun remove_first :: "int \<Rightarrow> cache_node list \<Rightarrow> cache_node list option" where
  "remove_first msgid [] = None"
| "remove_first msgid (n # ns) =
     (if cn_msgid n = msgid then Some ns else map_option ((#) n) (remove_first msgid ns))"

definition dm_msg_cache_remove :: "int \<Rightarrow> msg_cache \<Rightarrow> int \<times> msg_cache" where
  "dm_msg_cache_remove msgid c =
     (case remove_first msgid (dmc_list c) of
        None \<Rightarrow> (STATE_DEV_MODEL_CTX_LIST_EMPTY, c)
      | Some ns \<Rightarrow> (STATE_SUCCESS, c\<lparr>dmc_list := ns, dmc_list_size := dmc_list_size c - 1\<rparr>))"

text \<open>The loop over the nodes: the nodes that stay, and the queue the timeouts went into.\<close>

fun tick_loop ::
  "'w dm_env \<Rightarrow> 64 word \<Rightarrow> cache_node list \<Rightarrow> dm_ipc \<Rightarrow> 'w \<Rightarrow> cache_node list \<times> dm_ipc \<times> 'w" where
  "tick_loop env now [] q w = ([], q, w)"
| "tick_loop env now (n # ns) q w =
     (let n = (if now < cn_ctime n then n\<lparr>cn_ctime := now\<rparr> else n)
      in if now - cn_ctime n \<ge> DM_MSG_CACHE_TIMEOUT_MS_DEFAULT
         then let (_, q, w) = dm_msg_send_msg_timeout_to_user env (cn_msgid n) (cn_devid n) (cn_type n) q w
              in tick_loop env now ns q w
         else let (ns, q, w) = tick_loop env now ns q w in (n # ns, q, w))"

definition dm_msg_cache_tick :: "'w dm_env \<Rightarrow> msg_cache \<Rightarrow> dm_ipc \<Rightarrow> 'w \<Rightarrow> msg_cache \<times> dm_ipc \<times> 'w" where
  "dm_msg_cache_tick env c q w =
     (let (now, w) = uptime64 env w;
          (ns, q, w) = tick_loop env now (dmc_list c) q w
      in (c\<lparr>dmc_list := ns\<rparr>, q, w))"

section \<open>Dispatch\<close>

definition CONFIG_DISPATCH_QUEUE_MAXLEN :: nat where "CONFIG_DISPATCH_QUEUE_MAXLEN = 50"

fun dispatch_loop :: "'w dm_env \<Rightarrow> nat \<Rightarrow> dm_ipc \<Rightarrow> 'w \<Rightarrow> dm_ipc \<times> 'w" where
  "dispatch_loop env 0 q w = (q, w)"
| "dispatch_loop env (Suc count) q w =
     (case dm_ipc_msg_next q of
        (rc, Some m, q) \<Rightarrow>
          let w = (case event_callback env of None \<Rightarrow> w | Some f \<Rightarrow> f (ipc_type m) (ipc_data m) w)
          in dispatch_loop env count q w
      | (rc, None, q) \<Rightarrow> (q, w))"

text \<open>The loop of \<^verbatim>\<open>iotx_dm_dispatch\<close> after the cache and the services have been looked at for timeouts.\<close>

definition iotx_dm_dispatch_queue :: "'w dm_env \<Rightarrow> dm_ipc \<Rightarrow> 'w \<Rightarrow> dm_ipc \<times> 'w" where
  "iotx_dm_dispatch_queue env q w = dispatch_loop env CONFIG_DISPATCH_QUEUE_MAXLEN q w"


section \<open>The queue keeps every message, in order\<close>

datatype ipc_op = Insert "ipc_msg option" | Next

text \<open>A program of calls, with the messages accepted and the messages handed out.\<close>

fun ipc_run :: "'w dm_env \<Rightarrow> ipc_op list \<Rightarrow> dm_ipc \<Rightarrow> 'w \<Rightarrow> ipc_msg list \<times> ipc_msg list \<times> dm_ipc \<times> 'w" where
  "ipc_run env [] q w = ([], [], q, w)"
| "ipc_run env (Insert d # ops) q w =
     (let (rc, q, w) = dm_ipc_msg_insert env d q w; (acc, del, r) = ipc_run env ops q w
      in (if rc = STATE_SUCCESS then the d # acc else acc, del, r))"
| "ipc_run env (Next # ops) q w =
     (let (rc, d, q) = dm_ipc_msg_next q; (acc, del, r) = ipc_run env ops q w
      in (acc, (case d of None \<Rightarrow> del | Some m \<Rightarrow> m # del), r))"

definition ipc_ok :: "dm_ipc \<Rightarrow> bool" where
  "ipc_ok q \<longleftrightarrow> ipc_size q = int (length (message_list q)) \<and> ipc_size q \<le> ipc_max_size q"

lemma ipc_insert_cases:
  "\<exists>rc w'. rc \<noteq> STATE_SUCCESS \<and> dm_ipc_msg_insert env d q w = (rc, q, w') \<or>
     (\<exists>m. d = Some m \<and> ipc_size q < ipc_max_size q \<and> dm_ipc_msg_insert env d q w =
      (STATE_SUCCESS, q\<lparr>ipc_size := ipc_size q + 1, message_list := message_list q @ [m]\<rparr>, w'))"
  by (cases d; cases "fst (HAL_Malloc env (sizeof_ipc_node env) w)")
    (auto simp: dm_ipc_msg_insert_def Let_def split_beta not_le)

lemma ipc_run_ok:
  "ipc_ok q \<Longrightarrow> ipc_run env ops q w = (acc, del, q', w') \<Longrightarrow>
   message_list q @ acc = del @ message_list q' \<and> ipc_ok q' \<and> ipc_max_size q' = ipc_max_size q"
proof (induction ops arbitrary: q w acc del)
  case (Cons op ops)
  show ?case
  proof (cases op)
    case (Insert d)
    define q1 where "q1 = fst (snd (dm_ipc_msg_insert env d q w))"
    define w1 where "w1 = snd (snd (dm_ipc_msg_insert env d q w))"
    obtain a' d' r where run: "ipc_run env ops q1 w1 = (a', d', r)" by (metis prod_cases3)
    from Cons.prems(2) run have r: "r = (q', w')" "del = d'"
      "acc = (if fst (dm_ipc_msg_insert env d q w) = 0 then the d # a' else a')"
      by (auto simp: Insert q1_def w1_def split_beta Let_def)
    from ipc_insert_cases [of env d q w] Cons.prems(1)
    have "ipc_ok q1" "ipc_max_size q1 = ipc_max_size q"
      "message_list q @ acc = message_list q1 @ a'"
      by (auto simp: q1_def r ipc_ok_def)
    with Cons.IH [OF _ run [unfolded r]] r show ?thesis by simp
  next
    case Next
    define q1 where "q1 = snd (snd (dm_ipc_msg_next q))"
    obtain a' d' r where run: "ipc_run env ops q1 w = (a', d', r)" by (metis prod_cases3)
    have q1: "ipc_ok q1" "ipc_max_size q1 = ipc_max_size q"
      using Cons.prems(1) by (auto simp: q1_def dm_ipc_msg_next_def ipc_ok_def split: list.split)
    from Cons.prems(2) run have r: "r = (q', w')" "acc = a'"
      "del @ message_list q' = (case message_list q of [] \<Rightarrow> d' | m # _ \<Rightarrow> m # d') @ message_list q'"
      "message_list q = (case message_list q of [] \<Rightarrow> [] | m # _ \<Rightarrow> m # message_list q1)"
      "message_list q = [] \<Longrightarrow> message_list q1 = []"
      by (auto simp: Next q1_def split_beta Let_def dm_ipc_msg_next_def split: list.splits)
    from Cons.IH [OF q1(1) run [unfolded r(1)]] q1 r show ?thesis
      by (cases "message_list q") auto
  qed
qed auto

text \<open>
  C35. The message queue is a bounded first-in-first-out queue: whatever is called after its
  initialisation, the messages accepted are those handed out followed by those still in it, in the
  same order; none is lost, changed or handed out twice. Its size is the number of messages in
  it and never exceeds the limit.
\<close>

theorem ipc_fifo:
  assumes "dm_ipc_init env m w = (STATE_SUCCESS, q, w1)" "0 \<le> m"
    and "ipc_run env ops q w1 = (acc, del, q', w')"
  shows "acc = del @ message_list q' \<and> ipc_size q' = int (length (message_list q')) \<and> ipc_size q' \<le> m"
proof -
  have q: "ipc_ok q" "message_list q = []" "ipc_max_size q = m"
    using assms(1,2) by (auto simp: dm_ipc_init_def dm_ipc_zero_def ipc_ok_def split: prod.splits if_splits)
  from ipc_run_ok [OF q(1) assms(3)] q show ?thesis
    by (auto simp: ipc_ok_def)
qed

definition demo_dm :: "nat dm_env" where
  "demo_dm = \<lparr>HAL_UptimeMs = \<lambda>w. (of_nat w, w), HAL_SleepMs = \<lambda>ms w. w, HAL_Malloc = \<lambda>n w. (True, w),
     HAL_MutexCreate = \<lambda>w. (True, w), HAL_TCP_Establish = \<lambda>h p w. (1, w), HAL_TCP_Destroy = \<lambda>h w. w,
     HAL_TCP_Read = \<lambda>h len t w. (0, [], w), HAL_TCP_Write = \<lambda>h bs t w. (0, w),
     uptime64 = \<lambda>w. (of_nat w, w), event_callback = Some (\<lambda>t d w. w * 10 + nat t),
     sizeof_ipc_msg = 16, sizeof_ipc_node = 24, sizeof_cache_node = 48\<rparr>"

theorem ipc_fifo_witness:
  "\<exists>q' w'. ipc_run demo_dm [Insert (Some \<lparr>ipc_type = 4, ipc_data = None\<rparr>), Insert (Some \<lparr>ipc_type = 5, ipc_data = None\<rparr>),
        Insert (Some \<lparr>ipc_type = 6, ipc_data = None\<rparr>), Next]
      (fst (snd (dm_ipc_init demo_dm 2 0))) 0 =
      ([\<lparr>ipc_type = 4, ipc_data = None\<rparr>, \<lparr>ipc_type = 5, ipc_data = None\<rparr>], [\<lparr>ipc_type = 4, ipc_data = None\<rparr>], q', w') \<and>
     message_list q' = [\<lparr>ipc_type = 5, ipc_data = None\<rparr>] \<and> ipc_size q' \<le> 2"
proof -
  let ?ops = "[Insert (Some \<lparr>ipc_type = 4, ipc_data = None\<rparr>), Insert (Some \<lparr>ipc_type = 5, ipc_data = None\<rparr>),
        Insert (Some \<lparr>ipc_type = 6, ipc_data = None\<rparr>), Next]"
  have init: "dm_ipc_init demo_dm 2 0 = (STATE_SUCCESS, \<lparr>ipc_mutex = True, ipc_max_size = 2, ipc_size = 0, message_list = []\<rparr>, 0)"
    by (simp add: dm_ipc_init_def demo_dm_def dm_ipc_zero_def)
  obtain q' w' where run: "ipc_run demo_dm ?ops \<lparr>ipc_mutex = True, ipc_max_size = 2, ipc_size = 0, message_list = []\<rparr> 0 =
      ([\<lparr>ipc_type = 4, ipc_data = None\<rparr>, \<lparr>ipc_type = 5, ipc_data = None\<rparr>], [\<lparr>ipc_type = 4, ipc_data = None\<rparr>], q', w')"
    by (simp add: dm_ipc_msg_insert_def dm_ipc_msg_next_def demo_dm_def)
  from ipc_fifo [OF init _ run] run show ?thesis by (simp add: init)
qed

section \<open>The cache\<close>

definition expired_at :: "64 word \<Rightarrow> cache_node \<Rightarrow> bool" where
  "expired_at now n \<longleftrightarrow> cn_ctime n \<le> now \<and> now - cn_ctime n \<ge> DM_MSG_CACHE_TIMEOUT_MS_DEFAULT"

definition not_later :: "64 word \<Rightarrow> cache_node \<Rightarrow> cache_node" where
  "not_later now n = (if now < cn_ctime n then n\<lparr>cn_ctime := now\<rparr> else n)"

definition timeout_of :: "cache_node \<Rightarrow> ipc_msg" where
  "timeout_of n = \<lparr>ipc_type = cn_type n, ipc_data = Some (timeout_message (cn_msgid n) (cn_devid n))\<rparr>"

lemma length_dec_digits: "n < 10 ^ Suc k \<Longrightarrow> length (dec_digits n) \<le> Suc k"
proof (induction k arbitrary: n)
  case 0
  then show ?case by (subst dec_digits.simps) simp
next
  case (Suc k)
  have "length (dec_digits (n div 10)) \<le> Suc k" by (rule Suc.IH) (use Suc.prems in auto)
  then show ?case by (subst dec_digits.simps) simp
qed

definition c_int :: "int \<Rightarrow> bool" where
  "c_int i \<longleftrightarrow> - (2 ^ 31) \<le> i \<and> i < 2 ^ 31"

lemma length_fmt_d: "c_int i \<Longrightarrow> length (fmt_d i) \<le> 11"
proof -
  assume i: "c_int i"
  have "length (dec_digits (nat \<bar>i\<bar>)) \<le> Suc 9"
    by (rule length_dec_digits) (use i in \<open>auto simp: c_int_def\<close>)
  then show ?thesis by (auto simp: fmt_d_def split: if_splits)
qed

lemma timeout_message_fits:
  assumes "c_int i" "c_int j"
  shows "snprintf timeout_message_len (timeout_message i j) = timeout_message i j"
proof -
  have "length (fmt_d 100000) \<le> 11" by (rule length_fmt_d) (simp add: c_int_def)
  with length_fmt_d [OF assms(1)] length_fmt_d [OF assms(2)] show ?thesis
    by (simp add: snprintf_def timeout_message_len_def timeout_message_def)
qed

lemma send_timeout_ok:
  assumes "\<forall>n w. fst (HAL_Malloc env n w)" "ipc_size q < ipc_max_size q" "c_int (cn_msgid n)" "c_int (cn_devid n)"
  shows "\<exists>rc w'. dm_msg_send_msg_timeout_to_user env (cn_msgid n) (cn_devid n) (cn_type n) q w =
    (rc, q\<lparr>ipc_size := ipc_size q + 1, message_list := message_list q @ [timeout_of n]\<rparr>, w')"
  using assms
  by (simp add: dm_msg_send_msg_timeout_to_user_def dm_msg_send_to_user_def dm_ipc_msg_insert_def split_beta Let_def
      timeout_message_fits timeout_of_def)

definition room :: "dm_ipc \<Rightarrow> nat" where
  "room q = nat (ipc_max_size q - ipc_size q)"

definition queued :: "ipc_msg list \<Rightarrow> dm_ipc \<Rightarrow> dm_ipc" where
  "queued ms q = (let ms = take (room q) ms
     in q\<lparr>ipc_size := ipc_size q + int (length ms), message_list := message_list q @ ms\<rparr>)"

lemma queued_nil [simp]: "queued [] q = q"
  by (simp add: queued_def)

lemma queued_full: "\<not> ipc_size q < ipc_max_size q \<Longrightarrow> queued ms q = q"
  by (simp add: queued_def room_def)

lemma queued_Cons:
  assumes "ipc_size q < ipc_max_size q"
  shows "queued (m # ms) q = queued ms (queued [m] q)"
proof -
  obtain k where k: "room q = Suc k"
    using assms by (cases "room q") (auto simp: room_def)
  moreover have "room (q\<lparr>ipc_size := ipc_size q + 1, message_list := message_list q @ [m]\<rparr>) = k"
    using k by (simp add: room_def)
  ultimately show ?thesis by (simp add: queued_def Let_def)
qed

lemma send_timeout_queues:
  assumes "\<forall>n w. fst (HAL_Malloc env n w)" "c_int (cn_msgid n)" "c_int (cn_devid n)"
  shows "\<exists>rc w'. dm_msg_send_msg_timeout_to_user env (cn_msgid n) (cn_devid n) (cn_type n) q w =
    (rc, queued [timeout_of n] q, w')"
proof (cases "ipc_size q < ipc_max_size q")
  case True
  with send_timeout_ok [of env q n w] assms show ?thesis
    by (auto simp: queued_def room_def take_Cons')
next
  case False
  with assms(1) show ?thesis
    by (simp add: queued_full dm_msg_send_msg_timeout_to_user_def dm_msg_send_to_user_def dm_ipc_msg_insert_def
      split_beta Let_def)
qed

lemma not_later_fields [simp]:
  "cn_msgid (not_later now n) = cn_msgid n" "cn_devid (not_later now n) = cn_devid n"
  "cn_type (not_later now n) = cn_type n" "timeout_of (not_later now n) = timeout_of n"
  by (simp_all add: not_later_def timeout_of_def)

lemma tick_loop_Cons:
  "tick_loop env now (n # ns) q w =
     (if expired_at now n
      then let (_, q, w) = dm_msg_send_msg_timeout_to_user env (cn_msgid n) (cn_devid n) (cn_type n) q w
           in tick_loop env now ns q w
      else let (ns, q, w) = tick_loop env now ns q w in (not_later now n # ns, q, w))"
proof (cases "now < cn_ctime n")
  case True
  then have "\<not> cn_ctime n \<le> now" by simp
  with True show ?thesis
    by (simp add: expired_at_def not_later_def DM_MSG_CACHE_TIMEOUT_MS_DEFAULT_def)
next
  case False
  then have "cn_ctime n \<le> now" by simp
  with False show ?thesis
    by (simp add: expired_at_def not_later_def)
qed

declare tick_loop.simps(2) [simp del]

text \<open>Which nodes stay does not depend on the queue.\<close>

lemma tick_loop_keeps:
  "fst (tick_loop env now ns q w) = map (not_later now) (filter (\<lambda>n. \<not> expired_at now n) ns)"
  by (induction ns arbitrary: q w) (simp_all add: tick_loop_Cons split_beta Let_def)

lemma queued_queued:
  "queued ms (queued [m] q) = queued (m # ms) q"
proof (cases "ipc_size q < ipc_max_size q")
  case True
  from queued_Cons [OF this, of m ms] show ?thesis by simp
qed (simp add: queued_full)

lemma tick_loop_queues:
  "\<forall>n w. fst (HAL_Malloc env n w) \<Longrightarrow> list_all (\<lambda>n. c_int (cn_msgid n) \<and> c_int (cn_devid n)) ns \<Longrightarrow>
   fst (snd (tick_loop env now ns q w)) = queued (map timeout_of (filter (expired_at now) ns)) q"
proof (induction ns arbitrary: q w)
  case (Cons n ns)
  obtain rc w' where "dm_msg_send_msg_timeout_to_user env (cn_msgid n) (cn_devid n) (cn_type n) q w =
      (rc, queued [timeout_of n] q, w')"
    using send_timeout_queues [of env n q w] Cons.prems by auto
  with Cons show ?case
    by (auto simp: tick_loop_Cons split_beta Let_def queued_queued)
qed simp

text \<open>
  C36. A tick of the request cache at time \<^verbatim>\<open>now\<close> removes exactly the requests that have waited for
  ten seconds or more and keeps the others in order (a request stamped in the future is
  stamped again with the present); and, while memory lasts, it puts one timeout message per
  removed request into the queue to the user, in order, as far as the queue has room.
\<close>

theorem tick_times_out:
  assumes "uptime64 env w = (now, w1)" "\<forall>n w. fst (HAL_Malloc env n w)"
    and "list_all (\<lambda>n. c_int (cn_msgid n) \<and> c_int (cn_devid n)) (dmc_list c)"
  shows "\<exists>w'. dm_msg_cache_tick env c q w =
    (c\<lparr>dmc_list := map (not_later now) (filter (\<lambda>n. \<not> expired_at now n) (dmc_list c))\<rparr>,
     queued (map timeout_of (filter (expired_at now) (dmc_list c))) q, w')"
proof -
  obtain ns q' w' where t: "tick_loop env now (dmc_list c) q w1 = (ns, q', w')" by (metis prod_cases3)
  with tick_loop_keeps [of env now "dmc_list c" q w1] tick_loop_queues [OF assms(2,3), of now q w1] assms(1)
  show ?thesis by (simp add: dm_msg_cache_tick_def)
qed

theorem tick_times_out_witness:
  "\<exists>w'. dm_msg_cache_tick demo_dm \<lparr>cache_mutex = True, dmc_list_size = 3, dmc_list =
      [\<lparr>cn_msgid = 7, cn_devid = 1, cn_type = 4, cn_data = None, cn_ctime = 0\<rparr>,
       \<lparr>cn_msgid = 8, cn_devid = 1, cn_type = 4, cn_data = None, cn_ctime = 3000\<rparr>,
       \<lparr>cn_msgid = 9, cn_devid = 1, cn_type = 4, cn_data = None, cn_ctime = 20000\<rparr>]\<rparr>
      \<lparr>ipc_mutex = True, ipc_max_size = 2, ipc_size = 0, message_list = []\<rparr> 10000 =
    (\<lparr>cache_mutex = True, dmc_list_size = 3, dmc_list =
      [\<lparr>cn_msgid = 8, cn_devid = 1, cn_type = 4, cn_data = None, cn_ctime = 3000\<rparr>,
       \<lparr>cn_msgid = 9, cn_devid = 1, cn_type = 4, cn_data = None, cn_ctime = 10000\<rparr>]\<rparr>,
     \<lparr>ipc_mutex = True, ipc_max_size = 2, ipc_size = 1,
      message_list = [\<lparr>ipc_type = 4, ipc_data = Some (timeout_message 7 1)\<rparr>]\<rparr>, w')"
proof -
  have up: "uptime64 demo_dm 10000 = (10000, 10000)" by (simp add: demo_dm_def)
  have mem: "\<forall>n w. fst (HAL_Malloc demo_dm n w)" by (simp add: demo_dm_def)
  show ?thesis
    using tick_times_out [OF up mem, of "\<lparr>cache_mutex = True, dmc_list_size = 3, dmc_list =
      [\<lparr>cn_msgid = 7, cn_devid = 1, cn_type = 4, cn_data = None, cn_ctime = 0\<rparr>,
       \<lparr>cn_msgid = 8, cn_devid = 1, cn_type = 4, cn_data = None, cn_ctime = 3000\<rparr>,
       \<lparr>cn_msgid = 9, cn_devid = 1, cn_type = 4, cn_data = None, cn_ctime = 20000\<rparr>]\<rparr>"
      "\<lparr>ipc_mutex = True, ipc_max_size = 2, ipc_size = 0, message_list = []\<rparr>"]
    by (simp add: c_int_def expired_at_def not_later_def DM_MSG_CACHE_TIMEOUT_MS_DEFAULT_def queued_def room_def
      timeout_of_def take_Cons')
qed

text \<open>A program of calls to the cache, with the number of requests that timed out.\<close>

datatype cache_op = CacheInsert int int int "byte list option" | CacheRemove int | CacheTick

fun cache_step :: "'w dm_env \<Rightarrow> cache_op \<Rightarrow> msg_cache \<Rightarrow> dm_ipc \<Rightarrow> 'w \<Rightarrow> msg_cache \<times> dm_ipc \<times> 'w" where
  "cache_step env (CacheInsert i d t x) c q w = (let (rc, c, w) = dm_msg_cache_insert env i d t x c w in (c, q, w))"
| "cache_step env (CacheRemove i) c q w = (snd (dm_msg_cache_remove i c), q, w)"
| "cache_step env CacheTick c q w = dm_msg_cache_tick env c q w"

fun cache_run :: "'w dm_env \<Rightarrow> cache_op list \<Rightarrow> msg_cache \<Rightarrow> dm_ipc \<Rightarrow> 'w \<Rightarrow> nat \<times> msg_cache \<times> dm_ipc \<times> 'w" where
  "cache_run env [] c q w = (0, c, q, w)"
| "cache_run env (op # ops) c q w =
     (let (c', q, w) = cache_step env op c q w;
          timed_out = (if op = CacheTick then length (dmc_list c) - length (dmc_list c') else 0);
          (n, r) = cache_run env ops c' q w
      in (timed_out + n, r))"

lemma remove_first_length: "remove_first i ns = Some ns' \<Longrightarrow> length ns = Suc (length ns')"
  by (induction ns arbitrary: ns') (auto split: if_splits)

lemma tick_fields:
  "length (dmc_list (fst (dm_msg_cache_tick env c q w))) \<le> length (dmc_list c)"
  "dmc_list_size (fst (dm_msg_cache_tick env c q w)) = dmc_list_size c"
proof -
  obtain now w1 where up: "uptime64 env w = (now, w1)" by fastforce
  obtain ns r where t: "tick_loop env now (dmc_list c) q w1 = (ns, r)" by (metis prod.exhaust)
  with tick_loop_keeps [of env now "dmc_list c" q w1] up
  show "length (dmc_list (fst (dm_msg_cache_tick env c q w))) \<le> length (dmc_list c)"
    "dmc_list_size (fst (dm_msg_cache_tick env c q w)) = dmc_list_size c"
    by (simp_all add: dm_msg_cache_tick_def split_beta Let_def)
qed

definition size_gap :: "msg_cache \<Rightarrow> int" where
  "size_gap c = dmc_list_size c - int (length (dmc_list c))"

lemma cache_step_gap:
  "size_gap (fst (cache_step env op c q w)) = size_gap c +
     int (if op = CacheTick then length (dmc_list c) - length (dmc_list (fst (cache_step env op c q w))) else 0)"
proof (cases op)
  case CacheInsert
  then show ?thesis
    by (simp add: dm_msg_cache_insert_def size_gap_def split_beta Let_def)
next
  case CacheRemove
  then show ?thesis
    by (auto simp: dm_msg_cache_remove_def size_gap_def dest: remove_first_length split: option.split)
next
  case CacheTick
  with tick_fields [where env = env and c = c and q = q and w = w] show ?thesis
    by (simp add: size_gap_def of_nat_diff)
qed

lemma cache_run_gap:
  "cache_run env ops c q w = (n, c', q', w') \<Longrightarrow> size_gap c' = size_gap c + int n"
proof (induction ops arbitrary: c q w n)
  case (Cons op ops)
  obtain c1 q1 w1 where s: "cache_step env op c q w = (c1, q1, w1)" by (metis prod_cases3)
  obtain n1 r where r: "cache_run env ops c1 q1 w1 = (n1, r)" by (metis prod.exhaust)
  with Cons.prems s have "r = (c', q', w')"
    "n = (if op = CacheTick then length (dmc_list c) - length (dmc_list c1) else 0) + n1"
    by (simp_all add: Let_def)
  with Cons.IH [of c1 q1 w1 n1] r cache_step_gap [of env op c q w, unfolded s fst_conv]
  show ?case by simp
qed simp

text \<open>
  The counter of the request cache counts a request that timed out for ever: after any calls,
  it is the number of requests in the cache plus the number that ever timed out.
\<close>

theorem cache_size_counts_timeouts:
  assumes "dm_msg_cache_init env w = (rc, c, w1)"
    and "cache_run env ops c q w1 = (n, c', q', w')"
  shows "dmc_list_size c' = int (length (dmc_list c')) + int n"
  using cache_run_gap [OF assms(2)] assms(1)
  by (auto simp: size_gap_def dm_msg_cache_init_def split_beta Let_def)

theorem cache_size_counts_timeouts_witness:
  "\<exists>n c' q' w'. cache_run demo_dm [CacheInsert 7 1 4 None, CacheTick, CacheInsert 8 1 4 None, CacheRemove 8]
      (fst (snd (dm_msg_cache_init demo_dm 0))) dm_ipc_zero 0 = (n, c', q', w') \<and>
     dmc_list_size c' = int (length (dmc_list c')) + int n"
proof -
  obtain rc c w1 where i: "dm_msg_cache_init demo_dm 0 = (rc, c, w1)" by (metis prod_cases3)
  then have w1: "w1 = 0" by (simp add: dm_msg_cache_init_def demo_dm_def)
  obtain n c' q' w' where r: "cache_run demo_dm
      [CacheInsert 7 1 4 None, CacheTick, CacheInsert 8 1 4 None, CacheRemove 8] c dm_ipc_zero w1 = (n, c', q', w')"
    by (metis prod_cases4)
  from cache_size_counts_timeouts [OF i r] r show ?thesis by (auto simp: i w1)
qed

text \<open>So fifty timeouts close the cache, though it may be empty.\<close>

lemma cache_closed_by_timeouts:
  assumes "dm_msg_cache_init env w = (rc, c, w1)"
    and "cache_run env ops c q w1 = (n, c', q', w')" "50 \<le> n"
  shows "dm_msg_cache_insert env i d t x c' w' = (STATE_DEV_MODEL_CTX_LIST_FULL, c', w')"
  using cache_run_gap [OF assms(2)] assms(1,3)
  by (auto simp: size_gap_def dm_msg_cache_init_def dm_msg_cache_insert_def CONFIG_MSGCACHE_QUEUE_MAXLEN_def
    split_beta Let_def)

lemma remove_first_append:
  "\<forall>n\<in>set ns. cn_msgid n \<noteq> cn_msgid m \<Longrightarrow> remove_first (cn_msgid m) (ns @ [m]) = Some ns"
  by (induction ns) auto

lemma find_append:
  "\<forall>x\<in>set xs. \<not> P x \<Longrightarrow> find P (xs @ ys) = find P ys"
  by (induction xs) auto

text \<open>
  A request inserted under a fresh message id is found by a search for that id, with what was
  inserted, and removing it gives back the cache as it was.
\<close>

theorem cache_insert_search_remove:
  assumes "dm_msg_cache_insert env i d t x c w = (STATE_SUCCESS, c', w')"
    and "0 \<le> i" "\<forall>n\<in>set (dmc_list c). cn_msgid n \<noteq> i"
  shows "\<exists>now. dm_msg_cache_search i c' =
      (STATE_SUCCESS, Some \<lparr>cn_msgid = i, cn_devid = d, cn_type = t, cn_data = x, cn_ctime = now\<rparr>) \<and>
    dm_msg_cache_remove i c' = (STATE_SUCCESS, c)"
proof -
  obtain now where c': "c' = c\<lparr>dmc_list := dmc_list c @
      [\<lparr>cn_msgid = i, cn_devid = d, cn_type = t, cn_data = x, cn_ctime = now\<rparr>], dmc_list_size := dmc_list_size c + 1\<rparr>"
    using assms(1) by (auto simp: dm_msg_cache_insert_def split_beta Let_def split: if_splits)
  let ?n = "\<lparr>cn_msgid = i, cn_devid = d, cn_type = t, cn_data = x, cn_ctime = now\<rparr>"
  show ?thesis
    using remove_first_append [of "dmc_list c" ?n] assms(2,3)
    by (auto simp: c' dm_msg_cache_search_def dm_msg_cache_remove_def find_append)
qed

theorem cache_insert_search_remove_witness:
  "\<exists>c' now. dm_msg_cache_insert demo_dm 8 1 4 None \<lparr>cache_mutex = True, dmc_list_size = 1, dmc_list =
      [\<lparr>cn_msgid = 7, cn_devid = 1, cn_type = 4, cn_data = None, cn_ctime = 0\<rparr>]\<rparr> 5 = (STATE_SUCCESS, c', 5) \<and>
     dm_msg_cache_search 8 c' =
      (STATE_SUCCESS, Some \<lparr>cn_msgid = 8, cn_devid = 1, cn_type = 4, cn_data = None, cn_ctime = now\<rparr>)"
proof -
  let ?c = "\<lparr>cache_mutex = True, dmc_list_size = 1, dmc_list =
      [\<lparr>cn_msgid = 7, cn_devid = 1, cn_type = 4, cn_data = None, cn_ctime = 0\<rparr>]\<rparr>"
  obtain c' where i: "dm_msg_cache_insert demo_dm 8 1 4 None ?c 5 = (STATE_SUCCESS, c', 5)"
    by (simp add: dm_msg_cache_insert_def demo_dm_def CONFIG_MSGCACHE_QUEUE_MAXLEN_def)
  from cache_insert_search_remove [OF i] i show ?thesis by auto
qed

section \<open>Dispatch hands the queue to the user\<close>

definition handed :: "('w, 'e) dm_env_scheme \<Rightarrow> ipc_msg list \<Rightarrow> 'w \<Rightarrow> 'w" where
  "handed env ms w = fold (\<lambda>m. case event_callback env of None \<Rightarrow> id | Some f \<Rightarrow> f (ipc_type m) (ipc_data m)) ms w"

lemma dispatch_loop_eq:
  "dispatch_loop env k q w =
    (q\<lparr>message_list := drop k (message_list q), ipc_size := ipc_size q - int (min k (length (message_list q)))\<rparr>,
     handed env (take k (message_list q)) w)"
proof (induction k arbitrary: q w)
  case (Suc k)
  show ?case
  proof (cases "message_list q")
    case Nil
    then show ?thesis by (simp add: dm_ipc_msg_next_def handed_def)
  next
    case (Cons m ms)
    then show ?thesis
      by (simp add: dm_ipc_msg_next_def handed_def Suc.IH split: option.split)
  qed
qed (simp add: handed_def)

text \<open>
  One dispatch gives the callback the first fifty messages of the queue, in order, and leaves the
  rest; with fewer it empties the queue.
\<close>

theorem dispatch_hands_fifty:
  "iotx_dm_dispatch_queue env q w =
    (q\<lparr>message_list := drop 50 (message_list q), ipc_size := ipc_size q - int (min 50 (length (message_list q)))\<rparr>,
     handed env (take 50 (message_list q)) w)"
  by (simp add: iotx_dm_dispatch_queue_def CONFIG_DISPATCH_QUEUE_MAXLEN_def dispatch_loop_eq)

end
