(* ===== verification/InfraCjson.thy ===== *)
theory InfraCjson
  imports Complex_Main EnosPrelude "HOL-Library.Monad_Syntax"
begin

text \<open>
  The JSON reader, \<^verbatim>\<open>src/src/infra/infra_cjson.c\<close>: parsing, and looking up the items of a parsed
  array or object by parsing it again.

  The input is a block of memory and a length. A pointer into it is the memory from there on; the
  offset of the parse buffer is an \<open>int\<close>, since stepping back can leave the block. A read outside
  the block gives \<open>None\<close>. The content and length of a parse buffer never change and are arguments.

  \<^verbatim>\<open>strtod\<close> is the C function on the characters the reader collects; \<open>fl\<close> rounds its exact value to
  a \<^verbatim>\<open>double\<close>.
\<close>

section \<open>Items and reads\<close>

record lite_cjson =
  cj_type :: int
  cj_value :: "byte list option"
  cj_value_length :: int
  cj_size :: int
  cj_value_double :: rat
  cj_value_int :: int

definition cjson_zero :: lite_cjson where
  "cjson_zero = \<lparr>cj_type = 0, cj_value = None, cj_value_length = 0, cj_size = 0, cj_value_double = 0, cj_value_int = 0\<rparr>"

definition cJSON_Invalid :: int where "cJSON_Invalid = 0"
definition cJSON_False :: int where "cJSON_False = 1"
definition cJSON_True :: int where "cJSON_True = 2"
definition cJSON_NULL :: int where "cJSON_NULL = 4"
definition cJSON_Number :: int where "cJSON_Number = 8"
definition cJSON_String :: int where "cJSON_String = 16"
definition cJSON_Array :: int where "cJSON_Array = 32"
definition cJSON_Object :: int where "cJSON_Object = 64"

definition LITE_CJSON_NESTING_LIMIT :: int where "LITE_CJSON_NESTING_LIMIT = 1000"

lemmas cjson_types = cJSON_Invalid_def cJSON_False_def cJSON_True_def cJSON_NULL_def cJSON_Number_def
  cJSON_String_def cJSON_Array_def cJSON_Object_def

definition byte_at :: "byte list \<Rightarrow> int \<Rightarrow> byte option" where
  "byte_at mem off = (if 0 \<le> off \<and> nat off < length mem then Some (mem ! nat off) else None)"

definition from_at :: "byte list \<Rightarrow> int \<Rightarrow> byte list option" where
  "from_at mem off = (if 0 \<le> off \<and> nat off \<le> length mem then Some (drop (nat off) mem) else None)"

text \<open>The byte at the offset when it can be accessed.\<close>

definition peek :: "byte list \<Rightarrow> int \<Rightarrow> int \<Rightarrow> byte option option" where
  "peek mem len off = (if off < len then map_option Some (byte_at mem off) else Some None)"

function skip_loop :: "byte list \<Rightarrow> int \<Rightarrow> int \<Rightarrow> int option" where
  "skip_loop mem len off =
     (if off < len
      then (case byte_at mem off of
              None \<Rightarrow> None
            | Some c \<Rightarrow> if c \<le> 32 then skip_loop mem len (off + 1) else Some off)
      else Some off)"
  by pat_completeness auto
termination by (relation "measure (\<lambda>(mem, len, off). nat (len - off))") auto

declare skip_loop.simps [simp del]

definition buffer_skip_whitespace :: "byte list \<Rightarrow> int \<Rightarrow> int \<Rightarrow> int option" where
  "buffer_skip_whitespace mem len off = do {
     off \<leftarrow> skip_loop mem len off;
     Some (if off = len then off - 1 else off) }"

definition text_at :: "byte list \<Rightarrow> int \<Rightarrow> byte list \<Rightarrow> bool option" where
  "text_at mem off s = do { m \<leftarrow> from_at mem off; memcmp_eq m s (length s) }"

definition skip_utf8_bom :: "byte list \<Rightarrow> int \<Rightarrow> int \<Rightarrow> int option" where
  "skip_utf8_bom mem len off =
     (if off + 4 < len
      then do { e \<leftarrow> text_at mem off [0xEF, 0xBB, 0xBF]; Some (if e then off + 3 else off) }
      else Some off)"

section \<open>Numbers\<close>

definition is_digit :: "byte \<Rightarrow> bool" where "is_digit c \<longleftrightarrow> 0x30 \<le> c \<and> c \<le> 0x39"

definition number_char :: "byte \<Rightarrow> bool" where
  "number_char c \<longleftrightarrow> is_digit c \<or> c \<in> {0x2B, 0x2D, 0x65, 0x45, 0x2E}"

text \<open>At most 63 characters are collected.\<close>

fun number_loop :: "nat \<Rightarrow> byte list \<Rightarrow> int \<Rightarrow> int \<Rightarrow> byte list option" where
  "number_loop 0 mem len off = Some []"
| "number_loop (Suc n) mem len off = do {
     c \<leftarrow> peek mem len off;
     (case c of
        None \<Rightarrow> Some []
      | Some c \<Rightarrow>
          if number_char c then map_option (\<lambda>cs. c # cs) (number_loop n mem len (off + 1)) else Some []) }"

definition digits_value :: "byte list \<Rightarrow> int" where
  "digits_value cs = foldl (\<lambda>n c. 10 * n + (uint c - 0x30)) 0 cs"

definition sign_len :: "byte list \<Rightarrow> nat" where
  "sign_len cs = (case cs of c # _ \<Rightarrow> if c = 0x2B \<or> c = 0x2D then 1 else 0 | [] \<Rightarrow> 0)"

definition is_neg :: "byte list \<Rightarrow> bool" where
  "is_neg cs \<longleftrightarrow> (case cs of c # _ \<Rightarrow> c = 0x2D | [] \<Rightarrow> False)"

text \<open>An exponent counts only with a digit in it.\<close>

definition exponent :: "byte list \<Rightarrow> nat \<times> int" where
  "exponent cs =
     (case cs of
        [] \<Rightarrow> (0, 0)
      | c # r \<Rightarrow>
          let ds = takeWhile is_digit (drop (sign_len r) r)
          in if (c = 0x65 \<or> c = 0x45) \<and> ds \<noteq> []
             then (1 + sign_len r + length ds, if is_neg r then - digits_value ds else digits_value ds)
             else (0, 0))"

definition ten_to :: "int \<Rightarrow> rat" where
  "ten_to e = (if e \<ge> 0 then 10 ^ nat e else 1 / 10 ^ nat (- e))"

text \<open>How many characters \<^verbatim>\<open>strtod\<close> takes and their exact value.\<close>

definition strtod :: "byte list \<Rightarrow> nat \<times> rat" where
  "strtod cs =
     (let s = sign_len cs;
          ip = takeWhile is_digit (drop s cs);
          r = drop (s + length ip) cs;
          fp = (case r of c # r' \<Rightarrow> if c = 0x2E then takeWhile is_digit r' else [] | [] \<Rightarrow> []);
          dot = (case r of c # r' \<Rightarrow> if c = 0x2E then 1 else 0 | [] \<Rightarrow> 0);
          n = s + length ip + dot + length fp;
          (k, e) = exponent (drop n cs);
          v = of_int (digits_value (ip @ fp)) * ten_to (e - int (length fp))
      in if ip = [] \<and> fp = [] then (0, 0) else (n + k, if is_neg cs then - v else v))"

definition INT_MAX :: int where "INT_MAX = 2147483647"
definition INT_MIN :: int where "INT_MIN = - 2147483648"

definition saturate :: "rat \<Rightarrow> int" where
  "saturate x =
     (if x \<ge> of_int INT_MAX then INT_MAX else if x \<le> of_int INT_MIN then INT_MIN
      else if x \<ge> 0 then floor x else ceiling x)"

definition parse_number ::
  "(rat \<Rightarrow> rat) \<Rightarrow> byte list \<Rightarrow> int \<Rightarrow> lite_cjson \<Rightarrow> int \<Rightarrow> (bool \<times> lite_cjson \<times> int) option" where
  "parse_number fl mem len item off = do {
     cs \<leftarrow> number_loop 63 mem len off;
     v \<leftarrow> from_at mem off;
     let (n, x) = strtod cs;
     Some (if n = 0 then (False, item, off)
           else (True, item\<lparr>cj_type := cJSON_Number, cj_value := Some v, cj_value_length := int n,
             cj_value_double := fl x, cj_value_int := saturate (fl x)\<rparr>, off + int n)) }"

section \<open>Strings\<close>

text \<open>The offset of the closing quote, \<open>Some None\<close> when the string does not end.\<close>

function string_end :: "byte list \<Rightarrow> int \<Rightarrow> int \<Rightarrow> int option option" where
  "string_end mem len e =
     (if e < len
      then (case byte_at mem e of
              None \<Rightarrow> None
            | Some c \<Rightarrow>
                if c = 0x22 then Some (Some e)
                else if c = 0x5C then (if e + 1 \<ge> len then Some None else string_end mem len (e + 2))
                else string_end mem len (e + 1))
      else Some None)"
  by pat_completeness auto
termination by (relation "measure (\<lambda>(mem, len, e). nat (len - e))") auto

declare string_end.simps [simp del]

definition parse_string :: "byte list \<Rightarrow> int \<Rightarrow> lite_cjson \<Rightarrow> int \<Rightarrow> (bool \<times> lite_cjson \<times> int) option" where
  "parse_string mem len item off = do {
     c \<leftarrow> byte_at mem off;
     (if c \<noteq> 0x22 then Some (False, item, off + 1)
      else do {
        e \<leftarrow> string_end mem len (off + 1);
        (case e of
           None \<Rightarrow> Some (False, item, off + 1)
         | Some e \<Rightarrow> do {
             v \<leftarrow> from_at mem (off + 1);
             Some (True, item\<lparr>cj_type := cJSON_String, cj_value := Some v, cj_value_length := e - (off + 1)\<rparr>, e + 1) }) }) }"

section \<open>Values\<close>

definition literal :: "byte list \<Rightarrow> int \<Rightarrow> int \<Rightarrow> byte list \<Rightarrow> bool option" where
  "literal mem len off s = (if off + int (length s) \<le> len then text_at mem off s else Some False)"

definition keyword :: "byte list \<Rightarrow> int \<Rightarrow> int \<Rightarrow> (int \<times> int) option option" where
  "keyword mem len off = do {
     n \<leftarrow> literal mem len off (ascii ''null'');
     (if n then Some (Some (cJSON_NULL, 4))
      else do {
        f \<leftarrow> literal mem len off (ascii ''false'');
        (if f then Some (Some (cJSON_False, 5))
         else do {
           t \<leftarrow> literal mem len off (ascii ''true'');
           Some (if t then Some (cJSON_True, 4) else None) }) }) }"

text \<open>
  Behind an opening bracket: nothing before the closing one, nothing at all, or a first element, the
  offset stepped back to the character in front of it.
\<close>

datatype opened = Opened_empty int | Opened_nothing int | Opened_first int

definition open_container :: "byte list \<Rightarrow> int \<Rightarrow> byte \<Rightarrow> int \<Rightarrow> opened option" where
  "open_container mem len close off = do {
     off \<leftarrow> buffer_skip_whitespace mem len (off + 1);
     c \<leftarrow> peek mem len off;
     Some (if c = Some close then Opened_empty off
           else if c = None then Opened_nothing (off - 1)
           else Opened_first (off - 1)) }"

definition close_container ::
  "byte list \<Rightarrow> int \<Rightarrow> int \<Rightarrow> lite_cjson \<Rightarrow> int \<Rightarrow> int \<Rightarrow> (bool \<times> lite_cjson \<times> int \<times> int) option" where
  "close_container mem ty start item off depth = do {
     v \<leftarrow> from_at mem start;
     Some (True, item\<lparr>cj_type := ty, cj_value := Some v, cj_value_length := off - start + 1\<rparr>, off + 1, depth - 1) }"

datatype task = Value | Elements int | Members int

text \<open>
  \<^verbatim>\<open>parse_value\<close> with \<^verbatim>\<open>parse_array\<close> and \<^verbatim>\<open>parse_object\<close>, whose loops are the tasks \<open>Elements\<close> and
  \<open>Members\<close> (of the container that starts at the offset given).
\<close>

partial_function (option) parse_run ::
  "(rat \<Rightarrow> rat) \<Rightarrow> byte list \<Rightarrow> int \<Rightarrow> task \<Rightarrow> lite_cjson \<Rightarrow> int \<Rightarrow> int \<Rightarrow> (bool \<times> lite_cjson \<times> int \<times> int) option" where
  "parse_run fl mem len task item off depth =
     (case task of
        Value \<Rightarrow> do {
          kw \<leftarrow> keyword mem len off;
          (case kw of
             Some (ty, n) \<Rightarrow> do {
               v \<leftarrow> from_at mem off;
               Some (True, item\<lparr>cj_type := ty, cj_value := Some v, cj_value_length := n\<rparr>, off + n, depth) }
           | None \<Rightarrow> do {
               c \<leftarrow> peek mem len off;
               (case c of
                  None \<Rightarrow> Some (False, item, off, depth)
                | Some c \<Rightarrow>
                    if c = 0x22 then do {
                      (ok, item, off) \<leftarrow> parse_string mem len item off;
                      Some (ok, item, off, depth) }
                    else if c = 0x2D \<or> is_digit c then do {
                      (ok, item, off) \<leftarrow> parse_number fl mem len item off;
                      Some (ok, item, off, depth) }
                    else if c = 0x5B then
                      (let item = item\<lparr>cj_size := 0\<rparr>
                       in if depth \<ge> LITE_CJSON_NESTING_LIMIT then Some (False, item, off, depth)
                          else do {
                            r \<leftarrow> open_container mem len 0x5D off;
                            (case r of
                               Opened_empty off' \<Rightarrow> close_container mem cJSON_Array off item off' (depth + 1)
                             | Opened_nothing off' \<Rightarrow> Some (False, item, off', depth + 1)
                             | Opened_first off' \<Rightarrow> parse_run fl mem len (Elements off) item off' (depth + 1)) })
                    else if c = 0x7B then
                      (let item = item\<lparr>cj_size := 0\<rparr>
                       in if depth \<ge> LITE_CJSON_NESTING_LIMIT then Some (False, item, off, depth)
                          else do {
                            r \<leftarrow> open_container mem len 0x7D off;
                            (case r of
                               Opened_empty off' \<Rightarrow> close_container mem cJSON_Object off item off' (depth + 1)
                             | Opened_nothing off' \<Rightarrow> Some (False, item, off', depth + 1)
                             | Opened_first off' \<Rightarrow> parse_run fl mem len (Members off) item off' (depth + 1)) })
                    else Some (False, item, off, depth)) }) }
      | Elements start \<Rightarrow> do {
          off \<leftarrow> buffer_skip_whitespace mem len (off + 1);
          (ok, cur, off, depth) \<leftarrow> parse_run fl mem len Value cjson_zero off depth;
          (if \<not> ok then Some (False, item, off, depth)
           else do {
             off \<leftarrow> buffer_skip_whitespace mem len off;
             let item = item\<lparr>cj_size := cj_size item + 1\<rparr>;
             c \<leftarrow> peek mem len off;
             (if c = Some 0x2C then parse_run fl mem len (Elements start) item off depth
              else if c = Some 0x5D then close_container mem cJSON_Array start item off depth
              else Some (False, item, off, depth)) }) }
      | Members start \<Rightarrow> do {
          off \<leftarrow> buffer_skip_whitespace mem len (off + 1);
          (ok, cur, off) \<leftarrow> parse_string mem len cjson_zero off;
          (if \<not> ok then Some (False, item, off, depth)
           else do {
             off \<leftarrow> buffer_skip_whitespace mem len off;
             c \<leftarrow> peek mem len off;
             (if c \<noteq> Some 0x3A then Some (False, item, off, depth)
              else do {
                off \<leftarrow> buffer_skip_whitespace mem len (off + 1);
                (ok, cur, off, depth) \<leftarrow> parse_run fl mem len Value cjson_zero off depth;
                (if \<not> ok then Some (False, item, off, depth)
                 else do {
                   off \<leftarrow> buffer_skip_whitespace mem len off;
                   let item = item\<lparr>cj_size := cj_size item + 1\<rparr>;
                   c \<leftarrow> peek mem len off;
                   (if c = Some 0x2C then parse_run fl mem len (Members start) item off depth
                    else if c = Some 0x7D then close_container mem cJSON_Object start item off depth
                    else Some (False, item, off, depth)) }) }) }) })"

declare parse_run.simps [code]

definition parse_value ::
  "(rat \<Rightarrow> rat) \<Rightarrow> byte list \<Rightarrow> int \<Rightarrow> lite_cjson \<Rightarrow> int \<Rightarrow> int \<Rightarrow> (bool \<times> lite_cjson \<times> int \<times> int) option" where
  "parse_value fl mem len = parse_run fl mem len Value"

definition lite_cjson_parse ::
  "(rat \<Rightarrow> rat) \<Rightarrow> byte list option \<Rightarrow> int \<Rightarrow> lite_cjson \<Rightarrow> (int \<times> lite_cjson) option" where
  "lite_cjson_parse fl src src_len lite =
     (case src of
        None \<Rightarrow> Some (- 1, lite)
      | Some mem \<Rightarrow>
          if src_len \<le> 0 then Some (- 1, lite)
          else do {
            off \<leftarrow> skip_utf8_bom mem src_len 0;
            off \<leftarrow> buffer_skip_whitespace mem src_len off;
            (ok, lite, off, depth) \<leftarrow> parse_value fl mem src_len lite off 0;
            Some (if ok then (0, lite)
                  else (- 1, lite\<lparr>cj_type := cJSON_Invalid, cj_value := None, cj_value_length := 0\<rparr>)) })"

section \<open>Types of items\<close>

definition is_type :: "int \<Rightarrow> lite_cjson option \<Rightarrow> int" where
  "is_type ty lite = (case lite of None \<Rightarrow> - 1 | Some l \<Rightarrow> of_bool (cj_type l AND 0xFF = ty))"

definition lite_cjson_is_number :: "lite_cjson option \<Rightarrow> int" where
  "lite_cjson_is_number lite = is_type cJSON_Number lite"

definition lite_cjson_is_string :: "lite_cjson option \<Rightarrow> int" where
  "lite_cjson_is_string lite = is_type cJSON_String lite"

definition lite_cjson_is_array :: "lite_cjson option \<Rightarrow> int" where
  "lite_cjson_is_array lite = is_type cJSON_Array lite"

definition lite_cjson_is_object :: "lite_cjson option \<Rightarrow> int" where
  "lite_cjson_is_object lite = is_type cJSON_Object lite"

section \<open>Looking items up\<close>

text \<open>
  One round of the loops over elements and members: whether it parsed, what, and the offset behind it.
\<close>

definition next_element ::
  "(rat \<Rightarrow> rat) \<Rightarrow> byte list \<Rightarrow> int \<Rightarrow> int \<Rightarrow> int \<Rightarrow> (bool \<times> lite_cjson \<times> int \<times> int) option" where
  "next_element fl mem len off depth = do {
     off \<leftarrow> buffer_skip_whitespace mem len (off + 1);
     (ok, cur, off, depth) \<leftarrow> parse_value fl mem len cjson_zero off depth;
     (if \<not> ok then Some (False, cur, off, depth)
      else do {
        off \<leftarrow> buffer_skip_whitespace mem len off;
        Some (True, cur, off, depth) }) }"

definition next_member ::
  "(rat \<Rightarrow> rat) \<Rightarrow> byte list \<Rightarrow> int \<Rightarrow> int \<Rightarrow> int \<Rightarrow> (bool \<times> lite_cjson \<times> lite_cjson \<times> int \<times> int) option" where
  "next_member fl mem len off depth = do {
     off \<leftarrow> buffer_skip_whitespace mem len (off + 1);
     (ok, key, off) \<leftarrow> parse_string mem len cjson_zero off;
     (if \<not> ok then Some (False, key, cjson_zero, off, depth)
      else do {
        off \<leftarrow> buffer_skip_whitespace mem len off;
        c \<leftarrow> peek mem len off;
        (if c \<noteq> Some 0x3A then Some (False, key, cjson_zero, off, depth)
         else do {
           (ok, val, off, depth) \<leftarrow> next_element fl mem len off depth;
           Some (ok, key, val, off, depth) }) }) }"

partial_function (option) array_item_loop ::
  "(rat \<Rightarrow> rat) \<Rightarrow> byte list \<Rightarrow> int \<Rightarrow> int \<Rightarrow> int \<Rightarrow> int \<Rightarrow> int \<Rightarrow> lite_cjson option option" where
  "array_item_loop fl mem len index iter off depth = do {
     (ok, cur, off, depth) \<leftarrow> next_element fl mem len off depth;
     (if \<not> ok then Some None
      else if iter = index then Some (Some cur)
      else do {
        c \<leftarrow> peek mem len off;
        (if c = Some 0x2C then array_item_loop fl mem len index (iter + 1) off depth else Some None) }) }"

declare array_item_loop.simps [code]

text \<open>The return code and the item the caller passes.\<close>

definition give :: "lite_cjson \<Rightarrow> lite_cjson option \<Rightarrow> int \<times> lite_cjson option" where
  "give out found = (case found of None \<Rightarrow> (- 1, Some out) | Some item \<Rightarrow> (0, Some item))"

definition lite_cjson_array_item ::
  "(rat \<Rightarrow> rat) \<Rightarrow> lite_cjson option \<Rightarrow> int \<Rightarrow> lite_cjson option \<Rightarrow> (int \<times> lite_cjson option) option" where
  "lite_cjson_array_item fl lite index lite_item =
     (case (lite, lite_item) of
        (Some l, Some out) \<Rightarrow>
          (case cj_value l of
             None \<Rightarrow> Some (- 1, lite_item)
           | Some mem \<Rightarrow>
               if cj_type l \<noteq> cJSON_Array \<or> index < 0 \<or> index \<ge> cj_size l then Some (- 1, lite_item)
               else do {
                 c \<leftarrow> byte_at mem 0;
                 (if c \<noteq> 0x5B then Some (- 1, lite_item)
                  else do {
                    r \<leftarrow> open_container mem (cj_value_length l) 0x5D 0;
                    (case r of
                       Opened_first off \<Rightarrow>
                         map_option (give out) (array_item_loop fl mem (cj_value_length l) index 0 off 0)
                     | _ \<Rightarrow> Some (- 1, lite_item)) }) })
      | _ \<Rightarrow> Some (- 1, lite_item))"

definition key_is :: "lite_cjson \<Rightarrow> byte list \<Rightarrow> int \<Rightarrow> bool option" where
  "key_is item key key_len =
     (if cj_value_length item = key_len then do { v \<leftarrow> cj_value item; memcmp_eq v key (nat key_len) }
      else Some False)"

partial_function (option) object_item_loop ::
  "(rat \<Rightarrow> rat) \<Rightarrow> byte list \<Rightarrow> int \<Rightarrow> byte list \<Rightarrow> int \<Rightarrow> int \<Rightarrow> int \<Rightarrow> lite_cjson option option" where
  "object_item_loop fl mem len key key_len off depth = do {
     (ok, k, v, off, depth) \<leftarrow> next_member fl mem len off depth;
     (if \<not> ok then Some None
      else do {
        e \<leftarrow> key_is k key key_len;
        (if e then Some (Some v)
         else do {
           c \<leftarrow> peek mem len off;
           (if c = Some 0x2C then object_item_loop fl mem len key key_len off depth else Some None) }) }) }"

declare object_item_loop.simps [code]

definition object_item ::
  "(rat \<Rightarrow> rat) \<Rightarrow> lite_cjson \<Rightarrow> byte list \<Rightarrow> int \<Rightarrow> lite_cjson option option" where
  "object_item fl l key key_len =
     (case cj_value l of
        None \<Rightarrow> Some None
      | Some mem \<Rightarrow>
          if cj_type l \<noteq> cJSON_Object \<or> cj_size l = 0 \<or> key_len \<le> 0 then Some None
          else do {
            c \<leftarrow> peek mem (cj_value_length l) 0;
            (if c \<noteq> Some 0x7B then Some None
             else do {
               r \<leftarrow> open_container mem (cj_value_length l) 0x7D 0;
               (case r of
                  Opened_first off \<Rightarrow> object_item_loop fl mem (cj_value_length l) key key_len off 0
                | _ \<Rightarrow> Some None) }) })"

section \<open>Keys with array indices\<close>

text \<open>The offsets of the first \<^verbatim>\<open>[\<close> and the first \<^verbatim>\<open>]\<close>; \<open>Some None\<close> for brackets that nest or do not match.\<close>

fun bracket_loop ::
  "byte list \<Rightarrow> nat \<Rightarrow> nat \<Rightarrow> int \<Rightarrow> int option \<Rightarrow> int option \<Rightarrow> (int option \<times> int option) option option" where
  "bracket_loop key 0 i deep pre suf = Some (Some (pre, suf))"
| "bracket_loop key (Suc n) i deep pre suf = do {
     c \<leftarrow> byte_at key (int i);
     (if c = 0x5B then
        (if deep \<noteq> 0 then Some None
         else bracket_loop key n (i + 1) (deep + 1) (if pre = None then Some (int i) else pre) suf)
      else if c = 0x5D then
        (if deep \<noteq> 1 then Some None
         else do {
           d \<leftarrow> byte_at key (int i - 1);
           (if d = 0x5B then Some None
            else bracket_loop key n (i + 1) (deep - 1) pre (if suf = None then Some (int i) else suf)) })
      else bracket_loop key n (i + 1) deep pre suf) }"

definition is_space :: "byte \<Rightarrow> bool" where "is_space c \<longleftrightarrow> c = 0x20 \<or> 9 \<le> c \<and> c \<le> 13"

text \<open>\<^verbatim>\<open>atoi\<close>; a value that is no \<^verbatim>\<open>int\<close> is undefined.\<close>

definition atoi :: "byte list \<Rightarrow> int option" where
  "atoi s =
     (let s = dropWhile is_space s;
          n = digits_value (takeWhile is_digit (drop (sign_len s) s));
          n = (if is_neg s then - n else n)
      in if INT_MIN \<le> n \<and> n \<le> INT_MAX then Some n else None)"

text \<open>\<open>Some (Some (partial_key_len, array_key_len, array_index))\<close>, or \<open>Some None\<close> for \<^verbatim>\<open>-1\<close>.\<close>

definition lite_cjson_key_array_index :: "byte list \<Rightarrow> int \<Rightarrow> (int \<times> int \<times> int) option option" where
  "lite_cjson_key_array_index key key_len = do {
     r \<leftarrow> bracket_loop key (nat key_len) 0 0 None None;
     (case r of
        Some (Some pre, Some suf) \<Rightarrow>
          if suf + 1 \<noteq> key_len then Some None
          else if suf - pre - 1 > 10 then Some None
          else do {
            i \<leftarrow> atoi (take (nat (suf - pre - 1)) (drop (nat (pre + 1)) key));
            Some (Some (pre, suf + 1, i)) }
      | _ \<Rightarrow> Some None) }"

text \<open>\<^verbatim>\<open>strchr\<close>: the offset of the character, \<open>Some None\<close> when the string has none.\<close>

definition strchr :: "byte list \<Rightarrow> byte \<Rightarrow> int option option" where
  "strchr m c =
     (let n = length (takeWhile (\<lambda>x. x \<noteq> c \<and> x \<noteq> 0) m)
      in if n = length m then None else Some (if m ! n = c then Some (int n) else None))"

partial_function (option) path_loop ::
  "(rat \<Rightarrow> rat) \<Rightarrow> byte list \<Rightarrow> int \<Rightarrow> int \<Rightarrow> lite_cjson \<Rightarrow> lite_cjson option option" where
  "path_loop fl key key_len key_iter lite = do {
     k \<leftarrow> from_at key key_iter;
     delim \<leftarrow> strchr k 0x2E;
     let key_iter_len = (case delim of Some d \<Rightarrow> d | None \<Rightarrow> key_len - key_iter);
     a \<leftarrow> lite_cjson_key_array_index k key_iter_len;
     (case a of
        Some (partial_key_len, array_key_len, array_index) \<Rightarrow> do {
          prev \<leftarrow> object_item fl lite k partial_key_len;
          (case prev of
             None \<Rightarrow> Some None
           | Some prev \<Rightarrow>
               if cj_type prev \<noteq> cJSON_Array then Some None
               else do {
                 (res, item) \<leftarrow> lite_cjson_array_item fl (Some prev) array_index (Some cjson_zero);
                 (case item of
                    None \<Rightarrow> Some None
                  | Some item \<Rightarrow>
                      if res \<noteq> 0 then Some None
                      else if delim = None then Some (Some item)
                      else path_loop fl key key_len (key_iter + array_key_len + 1) item) }) }
      | None \<Rightarrow> do {
          prev \<leftarrow> object_item fl lite k key_iter_len;
          (case prev of
             None \<Rightarrow> Some None
           | Some prev \<Rightarrow>
               (case delim of
                  None \<Rightarrow> Some (Some prev)
                | Some d \<Rightarrow> path_loop fl key key_len (key_iter + d + 1) prev)) }) }"

declare path_loop.simps [code]

definition lite_cjson_object_item ::
  "(rat \<Rightarrow> rat) \<Rightarrow> lite_cjson option \<Rightarrow> byte list option \<Rightarrow> int \<Rightarrow> lite_cjson option \<Rightarrow>
   (int \<times> lite_cjson option) option" where
  "lite_cjson_object_item fl lite key key_len lite_item =
     (case (lite, key, lite_item) of
        (Some l, Some k, Some out) \<Rightarrow>
          if cj_type l \<noteq> cJSON_Object \<or> cj_value l = None \<or> cj_size l = 0 \<or> key_len \<le> 0 then Some (- 1, lite_item)
          else map_option (give out) (path_loop fl k key_len 0 l)
      | _ \<Rightarrow> Some (- 1, lite_item))"

partial_function (option) by_index_loop ::
  "(rat \<Rightarrow> rat) \<Rightarrow> byte list \<Rightarrow> int \<Rightarrow> int \<Rightarrow> int \<Rightarrow> int \<Rightarrow> int \<Rightarrow> (lite_cjson \<times> lite_cjson) option option" where
  "by_index_loop fl mem len index iter off depth = do {
     (ok, k, v, off, depth) \<leftarrow> next_member fl mem len off depth;
     (if \<not> ok then Some None
      else if iter = index then Some (Some (k, v))
      else do {
        c \<leftarrow> peek mem len off;
        (if c = Some 0x2C then by_index_loop fl mem len index (iter + 1) off depth else Some None) }) }"

declare by_index_loop.simps [code]

text \<open>The items for the key and the value are optional.\<close>

definition lite_cjson_object_item_by_index ::
  "(rat \<Rightarrow> rat) \<Rightarrow> lite_cjson option \<Rightarrow> int \<Rightarrow> lite_cjson option \<Rightarrow> lite_cjson option \<Rightarrow>
   (int \<times> lite_cjson option \<times> lite_cjson option) option" where
  "lite_cjson_object_item_by_index fl lite index item_key item_value =
     (let fail = Some (- 1, item_key, item_value) in
      case lite of
        None \<Rightarrow> fail
      | Some l \<Rightarrow>
          (case cj_value l of
             None \<Rightarrow> fail
           | Some mem \<Rightarrow>
               if cj_type l \<noteq> cJSON_Object \<or> cj_size l = 0 \<or> index < 0 \<or> index \<ge> cj_size l then fail
               else do {
                 c \<leftarrow> peek mem (cj_value_length l) 0;
                 (if c \<noteq> Some 0x7B then fail
                  else do {
                    r \<leftarrow> open_container mem (cj_value_length l) 0x7D 0;
                    (case r of
                       Opened_first off \<Rightarrow> do {
                         f \<leftarrow> by_index_loop fl mem (cj_value_length l) index 0 off 0;
                         (case f of
                            None \<Rightarrow> fail
                          | Some (k, v) \<Rightarrow>
                              Some (0, map_option (\<lambda>_. k) item_key, map_option (\<lambda>_. v) item_value)) }
                     | _ \<Rightarrow> fail) }) }))"

end
