(* ===== verification/CjsonProofs.thy ===== *)
theory CjsonProofs
  imports InfraCjson
begin

text \<open>
  The JSON reader of \<^verbatim>\<open>src/src/infra/infra_cjson.c\<close> on any input: it returns, reads nothing outside the input, and
  what it gives back is well formed (\<open>item_fits\<close>).
\<close>

section \<open>Reads\<close>

lemma byte_at_Some [simp]: "0 \<le> off \<Longrightarrow> off < int (length mem) \<Longrightarrow> byte_at mem off = Some (mem ! nat off)"
  by (simp add: byte_at_def)

lemma from_at_Some [simp]: "0 \<le> off \<Longrightarrow> off \<le> int (length mem) \<Longrightarrow> from_at mem off = Some (drop (nat off) mem)"
  by (simp add: from_at_def)

lemma peek_Some [simp]:
  "0 \<le> off \<Longrightarrow> off < len \<Longrightarrow> len \<le> int (length mem) \<Longrightarrow> peek mem len off = Some (Some (mem ! nat off))"
  by (simp add: peek_def)

lemma peek_end [simp]: "len \<le> off \<Longrightarrow> peek mem len off = Some None"
  by (simp add: peek_def)

lemma memcmp_eq_fits [simp]:
  "length s \<le> length m \<Longrightarrow> memcmp_eq m s (length s) = Some (take (length s) m = s)"
  by (simp add: memcmp_eq_def Let_def)

lemma text_at_Some [simp]:
  "0 \<le> off \<Longrightarrow> off + int (length s) \<le> int (length mem) \<Longrightarrow>
   text_at mem off s = Some (take (length s) (drop (nat off) mem) = s)"
  by (simp add: text_at_def)

lemma literal_Some:
  "0 \<le> off \<Longrightarrow> len \<le> int (length mem) \<Longrightarrow>
   literal mem len off s = Some (off + int (length s) \<le> len \<and> take (length s) (drop (nat off) mem) = s)"
  by (auto simp: literal_def)

lemma skip_loop_Some:
  assumes "0 \<le> off" "off \<le> len" "len \<le> int (length mem)"
  shows "\<exists>o'. skip_loop mem len off = Some o' \<and> off \<le> o' \<and> o' \<le> len
    \<and> (\<forall>i. off \<le> i \<and> i < o' \<longrightarrow> mem ! nat i \<le> 32) \<and> (o' < len \<longrightarrow> \<not> mem ! nat o' \<le> 32)"
  using assms
proof (induction mem len off rule: skip_loop.induct)
  case (1 mem len off)
  show ?case
  proof (cases "off < len \<and> mem ! nat off \<le> 32")
    case True
    with 1 obtain o' where o: "skip_loop mem len (off + 1) = Some o'" "off + 1 \<le> o'" "o' \<le> len"
      "\<forall>i. off + 1 \<le> i \<and> i < o' \<longrightarrow> mem ! nat i \<le> 32" "o' < len \<longrightarrow> \<not> mem ! nat o' \<le> 32"
      by fastforce
    have "\<forall>i. off \<le> i \<and> i < o' \<longrightarrow> mem ! nat i \<le> 32"
    proof (intro allI impI)
      fix i
      assume "off \<le> i \<and> i < o'"
      then show "mem ! nat i \<le> 32" using o(4) True by (cases "i = off") auto
    qed
    then show ?thesis using o True 1 by (auto simp: skip_loop.simps [of mem len off])
  next
    case False
    then show ?thesis using 1(2-) by (auto simp: skip_loop.simps [of mem len off])
  qed
qed

text \<open>
  Skipping never leaves the block; it steps back over the end of the input, so only white space or
  the end puts it in front of where it started.
\<close>

lemma skip_whitespace_Some:
  assumes "0 \<le> off" "off \<le> len" "len \<le> int (length mem)" "0 < len"
  shows "\<exists>o'. buffer_skip_whitespace mem len off = Some o' \<and> 0 \<le> o' \<and> o' < len \<and> off - 1 \<le> o' \<and> (off < len \<longrightarrow> off \<le> o')
    \<and> (\<not> mem ! nat o' \<le> 32 \<and> off < len \<longrightarrow> off \<le> o')"
  using skip_loop_Some [OF assms(1-3)] assms
  by (auto simp: buffer_skip_whitespace_def)

lemma skip_after_value:
  assumes "1 \<le> off" "off \<le> len" "len \<le> int (length mem)" "mem ! nat (off - 1) \<noteq> 0x2C"
  shows "\<exists>o'. buffer_skip_whitespace mem len off = Some o' \<and> 0 \<le> o' \<and> o' < len \<and> off - 1 \<le> o'
    \<and> (mem ! nat o' = 0x2C \<longrightarrow> off \<le> o')"
proof -
  obtain o' where o: "buffer_skip_whitespace mem len off = Some o'" "0 \<le> o'" "o' < len" "off - 1 \<le> o'"
    "off < len \<longrightarrow> off \<le> o'"
    using skip_whitespace_Some [of off len mem] assms by auto
  have "off \<le> o'" if "mem ! nat o' = 0x2C"
  proof (rule ccontr)
    assume "\<not> off \<le> o'"
    then have "o' = off - 1" using o(4) by simp
    then show False using that assms(4) by simp
  qed
  with o show ?thesis by blast
qed

section \<open>Leaves\<close>

lemma number_loop_Some:
  assumes "0 \<le> off" "len \<le> int (length mem)"
  shows "\<exists>cs. number_loop n mem len off = Some cs \<and> off + int (length cs) \<le> max off len
    \<and> (\<forall>i < length cs. number_char (cs ! i) \<and> cs ! i = mem ! nat (off + int i))"
  using assms
proof (induction n arbitrary: off)
  case 0
  then show ?case by simp
next
  case (Suc n)
  show ?case
  proof (cases "off < len \<and> number_char (mem ! nat off)")
    case True
    obtain cs where cs: "number_loop n mem len (off + 1) = Some cs" "off + 1 + int (length cs) \<le> max (off + 1) len"
      "\<forall>i < length cs. number_char (cs ! i) \<and> cs ! i = mem ! nat (off + 1 + int i)"
      using Suc.IH [of "off + 1"] Suc.prems by auto
    have "\<forall>i < length (mem ! nat off # cs). number_char ((mem ! nat off # cs) ! i)
      \<and> (mem ! nat off # cs) ! i = mem ! nat (off + int i)"
      using cs(3) True by (auto simp: nth_Cons algebra_simps split: nat.splits)
    then show ?thesis using cs(1,2) True Suc.prems by auto
  next
    case False
    then show ?thesis using Suc.prems by (cases "off < len") auto
  qed
qed

lemma exponent_le: "fst (exponent cs) \<le> length cs"
proof (cases cs)
  case (Cons c r)
  have "length (takeWhile is_digit (drop (sign_len r) r)) \<le> length r - sign_len r"
    using length_takeWhile_le [of is_digit "drop (sign_len r) r"] by simp
  moreover have "sign_len r \<le> length r"
    by (simp add: sign_len_def split: list.splits)
  ultimately show ?thesis using Cons by (auto simp: exponent_def Let_def)
qed (simp add: exponent_def)

lemma strtod_le: "fst (strtod cs) \<le> length cs"
proof -
  define s ip where "s = sign_len cs" and "ip = takeWhile is_digit (drop s cs)"
  define r where "r = drop (s + length ip) cs"
  define fp where "fp = (case r of c # r' \<Rightarrow> if c = 0x2E then takeWhile is_digit r' else [] | [] \<Rightarrow> [])"
  define dot :: nat where "dot = (case r of c # r' \<Rightarrow> if c = 0x2E then 1 else 0 | [] \<Rightarrow> 0)"
  define n where "n = s + length ip + dot + length fp"
  have s: "s \<le> length cs"
    by (simp add: s_def sign_len_def split: list.splits)
  have "length ip \<le> length cs - s"
    using length_takeWhile_le [of is_digit "drop s cs"] by (simp add: ip_def)
  moreover have "dot + length fp \<le> length r"
    using length_takeWhile_le [of is_digit] by (auto simp: dot_def fp_def Suc_le_mono split: list.splits)
  ultimately have "n \<le> length cs" using s by (simp add: n_def r_def)
  moreover have "fst (exponent (drop n cs)) \<le> length cs - n"
    using exponent_le [of "drop n cs"] by simp
  moreover have "fst (strtod cs) = (if ip = [] \<and> fp = [] then 0 else n + fst (exponent (drop n cs)))"
    unfolding strtod_def Let_def s_def [symmetric] ip_def [symmetric] r_def [symmetric] fp_def [symmetric]
      dot_def [symmetric] n_def [symmetric]
    by (simp split: prod.splits)
  ultimately show ?thesis by auto
qed

lemma string_end_Some:
  assumes "0 \<le> e" "len \<le> int (length mem)"
  shows "string_end mem len e = Some None
    \<or> (\<exists>e'. string_end mem len e = Some (Some e') \<and> e \<le> e' \<and> e' < len \<and> mem ! nat e' = 0x22)"
  using assms
proof (induction mem len e rule: string_end.induct)
  case (1 mem len e)
  show ?case
    using 1(1) [of "mem ! nat e"] 1(2) [of "mem ! nat e"] 1(3,4)
    by (subst (1 2) string_end.simps) (auto split: if_splits)
qed

text \<open>What a successful parse leaves: a span inside the block that does not end in a comma.\<close>

definition item_in :: "byte list \<Rightarrow> int \<Rightarrow> int \<Rightarrow> lite_cjson \<Rightarrow> bool" where
  "item_in mem off off' item \<longleftrightarrow>
     (\<exists>k. off \<le> k \<and> cj_value item = Some (drop (nat k) mem) \<and> 0 \<le> cj_value_length item
        \<and> k + cj_value_length item \<le> off') \<and> (cj_value_length item = 0 \<longrightarrow> cj_type item = cJSON_String)"

definition parsed :: "byte list \<Rightarrow> int \<Rightarrow> int \<Rightarrow> int \<Rightarrow> lite_cjson \<Rightarrow> bool" where
  "parsed mem len off off' item \<longleftrightarrow>
     off < off' \<and> off' \<le> len \<and> mem ! nat (off' - 1) \<noteq> 0x2C \<and> item_in mem off off' item"

lemma parse_string_Some:
  assumes "0 \<le> off" "off < len" "len \<le> int (length mem)"
  shows "\<exists>ok item' off'. parse_string mem len item off = Some (ok, item', off') \<and> (ok \<longrightarrow> parsed mem len off off' item')"
proof (cases "mem ! nat off = 0x22")
  case True
  from string_end_Some [of "off + 1" len mem] assms
  consider "string_end mem len (off + 1) = Some None"
    | e where "string_end mem len (off + 1) = Some (Some e)" "off + 1 \<le> e" "e < len" "mem ! nat e = 0x22"
    by auto
  then show ?thesis
  proof cases
    case 1
    with True assms show ?thesis by (auto simp: parse_string_def)
  next
    case 2
    then have "item_in mem off (e + 1)
      (item\<lparr>cj_type := cJSON_String, cj_value := Some (drop (nat (off + 1)) mem), cj_value_length := e - (off + 1)\<rparr>)"
      unfolding item_in_def by (intro conjI exI [of _ "off + 1"]) auto
    with 2 True assms show ?thesis by (auto simp: parse_string_def parsed_def)
  qed
next
  case False
  then show ?thesis using assms by (auto simp: parse_string_def)
qed

lemma parse_number_Some:
  assumes "0 \<le> off" "off < len" "len \<le> int (length mem)"
  shows "\<exists>ok item' off'. parse_number fl mem len item off = Some (ok, item', off')
    \<and> (ok \<longrightarrow> parsed mem len off off' item')"
proof -
  obtain cs where cs: "number_loop 63 mem len off = Some cs" "off + int (length cs) \<le> len"
    "\<forall>i < length cs. number_char (cs ! i) \<and> cs ! i = mem ! nat (off + int i)"
    using number_loop_Some [of off len mem 63] assms by auto
  obtain n x where nx: "strtod cs = (n, x)" by fastforce
  then have n: "n \<le> length cs" using strtod_le [of cs] by simp
  have "mem ! nat (off + int n - 1) \<noteq> 0x2C" if "n \<noteq> 0"
  proof -
    have "n - 1 < length cs" using that n by simp
    then have "number_char (cs ! (n - 1))" "cs ! (n - 1) = mem ! nat (off + int (n - 1))"
      using cs(3) by blast+
    moreover have "off + int (n - 1) = off + int n - 1" using that by simp
    ultimately have "number_char (mem ! nat (off + int n - 1))" by metis
    then show ?thesis by (auto simp: number_char_def is_digit_def)
  qed
  then show ?thesis
    using cs(1,2) nx n assms
    by (auto simp: parse_number_def parsed_def item_in_def intro!: exI [of _ off])
qed

lemma keyword_Some:
  assumes "0 \<le> off" "len \<le> int (length mem)"
  shows "keyword mem len off = Some None
    \<or> (\<exists>ty n. keyword mem len off = Some (Some (ty, n)) \<and> 4 \<le> n \<and> off + n \<le> len \<and> mem ! nat (off + n - 1) \<noteq> 0x2C)"
proof -
  have last: "mem ! nat (off + int (length s) - 1) = last s"
    if "off + int (length s) \<le> len \<and> take (length s) (drop (nat off) mem) = s" "s \<noteq> []" for s
  proof -
    have "last s = take (length s) (drop (nat off) mem) ! (length s - 1)"
      using that by (simp add: last_conv_nth)
    also have "\<dots> = mem ! (nat off + (length s - 1))"
      using that assms by (subst nth_take, simp, subst nth_drop) auto
    also have "nat off + (length s - 1) = nat (off + int (length s) - 1)"
      using that(2) assms(1) by (cases s) auto
    finally show ?thesis by simp
  qed
  show ?thesis
    using last [of "ascii ''null''"] last [of "ascii ''true''"] last [of "ascii ''false''"]
    by (auto simp: keyword_def literal_Some [OF assms] ascii_def)
qed

section \<open>The recursion\<close>

text \<open>The rounds of the loops are the rounds of the lookups.\<close>

lemma parse_run_Elements:
  "parse_run fl mem len (Elements start) item off depth =
   (next_element fl mem len off depth \<bind> (\<lambda>(ok, cur, off, depth).
      if \<not> ok then Some (False, item, off, depth)
      else peek mem len off \<bind> (\<lambda>c.
        if c = Some 0x2C then parse_run fl mem len (Elements start) (item\<lparr>cj_size := cj_size item + 1\<rparr>) off depth
        else if c = Some 0x5D
        then close_container mem cJSON_Array start (item\<lparr>cj_size := cj_size item + 1\<rparr>) off depth
        else Some (False, item\<lparr>cj_size := cj_size item + 1\<rparr>, off, depth))))"
  by (subst parse_run.simps)
    (auto simp: next_element_def parse_value_def Let_def split: bind_splits prod.splits if_splits)

lemma parse_run_Members:
  "parse_run fl mem len (Members start) item off depth =
   (next_member fl mem len off depth \<bind> (\<lambda>(ok, key, cur, off, depth).
      if \<not> ok then Some (False, item, off, depth)
      else peek mem len off \<bind> (\<lambda>c.
        if c = Some 0x2C then parse_run fl mem len (Members start) (item\<lparr>cj_size := cj_size item + 1\<rparr>) off depth
        else if c = Some 0x7D
        then close_container mem cJSON_Object start (item\<lparr>cj_size := cj_size item + 1\<rparr>) off depth
        else Some (False, item\<lparr>cj_size := cj_size item + 1\<rparr>, off, depth))))"
  by (subst parse_run.simps)
    (auto simp: next_member_def next_element_def parse_value_def Let_def split: bind_splits prod.splits if_splits)

section \<open>Parsing stays inside its input and returns\<close>

definition value_total :: "(rat \<Rightarrow> rat) \<Rightarrow> byte list \<Rightarrow> int \<Rightarrow> int \<Rightarrow> bool" where
  "value_total fl mem len d \<longleftrightarrow>
     (\<forall>off item. 0 \<le> off \<and> off < len \<longrightarrow>
        (\<exists>ok item' off' d'. parse_run fl mem len Value item off d = Some (ok, item', off', d')
           \<and> (ok \<longrightarrow> d' = d \<and> parsed mem len off off' item')))"

text \<open>
  A round that started behind \<open>off\<close> read its first value from \<open>vo\<close> and ended at \<open>off'\<close>; it advanced when
  it ended at a comma.
\<close>

definition round_ok :: "byte list \<Rightarrow> int \<Rightarrow> int \<Rightarrow> int \<Rightarrow> bool" where
  "round_ok mem len off off' \<longleftrightarrow>
     0 \<le> off' \<and> off' < len \<and> off \<le> off' \<and> (off + 1 < len \<longrightarrow> off < off') \<and> (mem ! nat off' = 0x2C \<longrightarrow> off < off')"

lemma item_in_mono: "item_in mem a b item \<Longrightarrow> a' \<le> a \<Longrightarrow> b \<le> b' \<Longrightarrow> item_in mem a' b' item"
  unfolding item_in_def by (blast intro: order.trans)

lemma next_element_Some:
  assumes "value_total fl mem len d" "- 1 \<le> off" "off < len" "len \<le> int (length mem)" "0 < len"
  shows "\<exists>ok cur off' d'. next_element fl mem len off d = Some (ok, cur, off', d')
    \<and> (ok \<longrightarrow> d' = d \<and> round_ok mem len off off' \<and> item_in mem 0 len cur)"
proof -
  obtain vo where vo: "buffer_skip_whitespace mem len (off + 1) = Some vo" "0 \<le> vo" "vo < len" "off \<le> vo"
    "off + 1 < len \<longrightarrow> off + 1 \<le> vo"
    using skip_whitespace_Some [of "off + 1" len mem] assms by auto
  obtain ok cur o1 d1 where v: "parse_run fl mem len Value cjson_zero vo d = Some (ok, cur, o1, d1)"
    "ok \<longrightarrow> d1 = d \<and> parsed mem len vo o1 cur"
    using assms(1) vo(2,3) unfolding value_total_def by blast
  show ?thesis
  proof (cases ok)
    case True
    with v have p: "d1 = d" "vo < o1" "o1 \<le> len" "mem ! nat (o1 - 1) \<noteq> 0x2C" "item_in mem vo o1 cur"
      by (auto simp: parsed_def)
    obtain o2 where o2: "buffer_skip_whitespace mem len o1 = Some o2" "0 \<le> o2" "o2 < len" "o1 - 1 \<le> o2"
      "mem ! nat o2 = 0x2C \<longrightarrow> o1 \<le> o2"
      using skip_after_value [of o1 len mem] p vo assms(4) by auto
    have "item_in mem 0 len cur"
      using p(3,5) vo(2) by (blast intro: item_in_mono)
    moreover have "round_ok mem len off o2"
      using o2 p vo by (auto simp: round_ok_def)
    ultimately show ?thesis
      using True vo(1) v(1) p(1) o2(1) by (auto simp: next_element_def parse_value_def)
  next
    case False
    then show ?thesis using vo(1) v(1) by (auto simp: next_element_def parse_value_def)
  qed
qed

lemma next_member_Some:
  assumes "value_total fl mem len d" "- 1 \<le> off" "off < len" "len \<le> int (length mem)" "0 < len"
  shows "\<exists>ok key cur off' d'. next_member fl mem len off d = Some (ok, key, cur, off', d')
    \<and> (ok \<longrightarrow> d' = d \<and> round_ok mem len off off' \<and> item_in mem 0 len key \<and> item_in mem 0 len cur)"
proof -
  obtain so where so: "buffer_skip_whitespace mem len (off + 1) = Some so" "0 \<le> so" "so < len" "off \<le> so"
    "off + 1 < len \<longrightarrow> off + 1 \<le> so"
    using skip_whitespace_Some [of "off + 1" len mem] assms by auto
  obtain ok key o1 where k: "parse_string mem len cjson_zero so = Some (ok, key, o1)"
    "ok \<longrightarrow> parsed mem len so o1 key"
    using parse_string_Some [of so len mem cjson_zero] so(2,3) assms(4) by blast
  show ?thesis
  proof (cases ok)
    case True
    with k have p: "so < o1" "o1 \<le> len" "mem ! nat (o1 - 1) \<noteq> 0x2C" "item_in mem so o1 key"
      by (auto simp: parsed_def)
    then have key: "item_in mem 0 len key"
      using so(2) by (blast intro: item_in_mono)
    obtain o2 where o2: "buffer_skip_whitespace mem len o1 = Some o2" "0 \<le> o2" "o2 < len" "o1 - 1 \<le> o2"
      using skip_after_value [of o1 len mem] p so assms(4) by auto
    obtain ok2 cur o3 d3 where e: "next_element fl mem len o2 d = Some (ok2, cur, o3, d3)"
      "ok2 \<longrightarrow> d3 = d \<and> round_ok mem len o2 o3 \<and> item_in mem 0 len cur"
      using next_element_Some [of fl mem len d o2] assms o2 by auto
    have "round_ok mem len off o3" if "round_ok mem len o2 o3"
      using that o2 p so by (auto simp: round_ok_def)
    with e key show ?thesis
      using True k(1) so(1) o2 assms(4) by (simp add: next_member_def) (cases "mem ! nat o2 = 0x3A"; auto)
  next
    case False
    then show ?thesis using so(1) k(1) by (auto simp: next_member_def)
  qed
qed

lemma close_container_Some:
  assumes "0 \<le> start" "start \<le> off" "off < len" "len \<le> int (length mem)" "mem ! nat off \<noteq> 0x2C"
  shows "\<exists>item'. close_container mem ty start item off d = Some (True, item', off + 1, d - 1)
    \<and> parsed mem len start (off + 1) item'"
  using assms by (auto simp: close_container_def parsed_def item_in_def intro!: exI [of _ start])

lemma elements_total:
  assumes "value_total fl mem len d" "- 1 \<le> off" "off < len" "len \<le> int (length mem)" "0 < len"
    "0 \<le> start" "start \<le> off + 1" "off + 1 < len \<or> start \<le> off"
  shows "\<exists>ok item' off' d'. parse_run fl mem len (Elements start) item off d = Some (ok, item', off', d')
    \<and> (ok \<longrightarrow> d' = d - 1 \<and> parsed mem len start off' item')"
  using assms(2,3,7,8)
proof (induction "nat (len - off)" arbitrary: off item rule: less_induct)
  case less
  obtain ok cur o1 d1 where e: "next_element fl mem len off d = Some (ok, cur, o1, d1)"
    "ok \<longrightarrow> d1 = d \<and> round_ok mem len off o1"
    using next_element_Some [OF assms(1) less.prems(1,2) assms(4,5)] by auto
  show ?case
  proof (cases ok)
    case True
    with e have o1: "d1 = d" "0 \<le> o1" "o1 < len" "start \<le> o1" "mem ! nat o1 = 0x2C \<longrightarrow> off < o1"
      using less.prems by (auto simp: round_ok_def)
    consider "mem ! nat o1 = 0x2C" | "mem ! nat o1 = 0x5D" | "mem ! nat o1 \<noteq> 0x2C" "mem ! nat o1 \<noteq> 0x5D"
      by blast
    then show ?thesis
    proof cases
      case 1
      with o1 have "nat (len - o1) < nat (len - off)" by auto
      from less.hyps [OF this] 1 o1 True e(1) assms(4) show ?thesis by (simp add: parse_run_Elements)
    next
      case 2
      with close_container_Some [of start o1 len mem cJSON_Array "item\<lparr>cj_size := cj_size item + 1\<rparr>" d]
        o1 True e(1) assms(4,6) show ?thesis by (auto simp: parse_run_Elements [where off = off])
    next
      case 3
      with o1 True e(1) assms(4) show ?thesis by (auto simp: parse_run_Elements [where off = off])
    qed
  next
    case False
    with e(1) show ?thesis by (auto simp: parse_run_Elements [where off = off])
  qed
qed

lemma members_total:
  assumes "value_total fl mem len d" "- 1 \<le> off" "off < len" "len \<le> int (length mem)" "0 < len"
    "0 \<le> start" "start \<le> off + 1" "off + 1 < len \<or> start \<le> off"
  shows "\<exists>ok item' off' d'. parse_run fl mem len (Members start) item off d = Some (ok, item', off', d')
    \<and> (ok \<longrightarrow> d' = d - 1 \<and> parsed mem len start off' item')"
  using assms(2,3,7,8)
proof (induction "nat (len - off)" arbitrary: off item rule: less_induct)
  case less
  obtain ok key cur o1 d1 where e: "next_member fl mem len off d = Some (ok, key, cur, o1, d1)"
    "ok \<longrightarrow> d1 = d \<and> round_ok mem len off o1"
    using next_member_Some [OF assms(1) less.prems(1,2) assms(4,5)] by auto
  show ?case
  proof (cases ok)
    case True
    with e have o1: "d1 = d" "0 \<le> o1" "o1 < len" "start \<le> o1" "mem ! nat o1 = 0x2C \<longrightarrow> off < o1"
      using less.prems by (auto simp: round_ok_def)
    consider "mem ! nat o1 = 0x2C" | "mem ! nat o1 = 0x7D" | "mem ! nat o1 \<noteq> 0x2C" "mem ! nat o1 \<noteq> 0x7D"
      by blast
    then show ?thesis
    proof cases
      case 1
      with o1 have "nat (len - o1) < nat (len - off)" by auto
      from less.hyps [OF this] 1 o1 True e(1) assms(4) show ?thesis by (simp add: parse_run_Members)
    next
      case 2
      with close_container_Some [of start o1 len mem cJSON_Object "item\<lparr>cj_size := cj_size item + 1\<rparr>" d]
        o1 True e(1) assms(4,6) show ?thesis by (auto simp: parse_run_Members [where off = off])
    next
      case 3
      with o1 True e(1) assms(4) show ?thesis by (auto simp: parse_run_Members [where off = off])
    qed
  next
    case False
    with e(1) show ?thesis by (auto simp: parse_run_Members [where off = off])
  qed
qed

lemma open_container_Some:
  assumes "0 \<le> off" "off < len" "len \<le> int (length mem)"
  shows "(\<exists>o'. open_container mem len close off = Some (Opened_empty o') \<and> off \<le> o' \<and> o' < len \<and> mem ! nat o' = close)
    \<or> (\<exists>o'. open_container mem len close off = Some (Opened_first o') \<and> - 1 \<le> o' \<and> off \<le> o' + 1 \<and> o' + 1 < len)"
proof -
  obtain o' where "buffer_skip_whitespace mem len (off + 1) = Some o'" "0 \<le> o'" "o' < len" "off \<le> o'"
    using skip_whitespace_Some [of "off + 1" len mem] assms by auto
  then show ?thesis
    using assms by (cases "mem ! nat o' = close") (auto simp: open_container_def)
qed

lemma parse_container_Some:
  assumes "value_total fl mem len (d + 1)" "0 \<le> off" "off < len" "len \<le> int (length mem)"
    and ty: "close = 0x5D \<and> task = Elements off \<and> ty = cJSON_Array
      \<or> close = 0x7D \<and> task = Members off \<and> ty = cJSON_Object"
  shows "\<exists>ok item' off' d'.
    (open_container mem len close off \<bind> (\<lambda>r. case r of
        Opened_empty off' \<Rightarrow> close_container mem ty off item off' (d + 1)
      | Opened_nothing off' \<Rightarrow> Some (False, item, off', d + 1)
      | Opened_first off' \<Rightarrow> parse_run fl mem len task item off' (d + 1))) = Some (ok, item', off', d')
    \<and> (ok \<longrightarrow> d' = d \<and> parsed mem len off off' item')"
  using open_container_Some [OF assms(2-4), of close]
proof (elim disjE exE conjE)
  fix o'
  assume "open_container mem len close off = Some (Opened_empty o')" "off \<le> o'" "o' < len" "mem ! nat o' = close"
  then show ?thesis
    using close_container_Some [of off o' len mem ty item "d + 1"] assms by (auto simp: ex_bool_eq)
next
  fix o'
  assume o: "open_container mem len close off = Some (Opened_first o')" "- 1 \<le> o'" "off \<le> o' + 1" "o' + 1 < len"
  then have "0 < len" "o' < len" by auto
  then show ?thesis
    using elements_total [OF assms(1) o(2) _ assms(4) _ assms(2) o(3), of item]
      members_total [OF assms(1) o(2) _ assms(4) _ assms(2) o(3), of item] o ty by auto
qed

lemma value_total: "len \<le> int (length mem) \<Longrightarrow> value_total fl mem len d"
proof (induction "nat (LITE_CJSON_NESTING_LIMIT - d)" arbitrary: d rule: less_induct)
  case less
  show ?case
    unfolding value_total_def
  proof (intro allI impI)
    fix off item
    assume "0 \<le> off \<and> off < len"
    then have off: "0 \<le> off" "off < len" by auto
    let ?goal = "\<exists>ok item' off' d'. parse_run fl mem len Value item off d = Some (ok, item', off', d')
      \<and> (ok \<longrightarrow> d' = d \<and> parsed mem len off off' item')"
    have vt: "value_total fl mem len (d + 1)" if "\<not> LITE_CJSON_NESTING_LIMIT \<le> d"
      by (rule less.hyps) (use that less.prems in auto)
    note rec = parse_container_Some [OF vt off less.prems]
    from keyword_Some [OF off(1) less.prems] show ?goal
    proof (elim disjE exE conjE)
      fix ty n
      assume "keyword mem len off = Some (Some (ty, n))" "4 \<le> n" "off + n \<le> len" "mem ! nat (off + n - 1) \<noteq> 0x2C"
      then show ?goal
        using off less.prems
        by (subst parse_run.simps) (auto simp: parsed_def item_in_def intro!: exI [of _ off])
    next
      assume kw: "keyword mem len off = Some None"
      consider "mem ! nat off = 0x22" | "mem ! nat off = 0x2D \<or> is_digit (mem ! nat off)" "mem ! nat off \<noteq> 0x22"
        | "mem ! nat off = 0x5B" | "mem ! nat off = 0x7B"
        | "mem ! nat off \<noteq> 0x22" "\<not> (mem ! nat off = 0x2D \<or> is_digit (mem ! nat off))" "mem ! nat off \<noteq> 0x5B"
          "mem ! nat off \<noteq> 0x7B" by blast
      then show ?goal
      proof cases
        case 1
        then show ?thesis
          using parse_string_Some [OF off less.prems, of item] kw off less.prems by (subst parse_run.simps) auto
      next
        case 2
        then show ?thesis
          using parse_number_Some [OF off less.prems, of fl item] kw off less.prems by (subst parse_run.simps) auto
      next
        case 3
        show ?thesis
        proof (cases "LITE_CJSON_NESTING_LIMIT \<le> d")
          case False
          then show ?thesis
            using rec [OF False, where close = "0x5D" and task = "Elements off" and ty = cJSON_Array and item = "item\<lparr>cj_size := 0\<rparr>"] 3 kw off less.prems
            by (subst parse_run.simps) (simp add: is_digit_def Let_def)
        qed (use 3 kw off less.prems in \<open>subst parse_run.simps, auto simp: is_digit_def Let_def\<close>)
      next
        case 4
        show ?thesis
        proof (cases "LITE_CJSON_NESTING_LIMIT \<le> d")
          case False
          then show ?thesis
            using rec [OF False, where close = "0x7D" and task = "Members off" and ty = cJSON_Object and item = "item\<lparr>cj_size := 0\<rparr>"] 4 kw off less.prems
            by (subst parse_run.simps) (simp add: is_digit_def Let_def)
        qed (use 4 kw off less.prems in \<open>subst parse_run.simps, auto simp: is_digit_def Let_def\<close>)
      next
        case 5
        then show ?thesis using kw off less.prems by (subst parse_run.simps) auto
      qed
    qed
  qed
qed

section \<open>The functions of the interface\<close>

text \<open>An item a parse gave: its value is a block, and the length of the value fits in it.\<close>

definition item_fits :: "lite_cjson \<Rightarrow> bool" where
  "item_fits item \<longleftrightarrow>
     (\<exists>v. cj_value item = Some v \<and> 0 \<le> cj_value_length item \<and> cj_value_length item \<le> int (length v))
     \<and> (cj_value_length item = 0 \<longrightarrow> cj_type item = cJSON_String)"

lemma item_in_fits: "item_in mem a b item \<Longrightarrow> 0 \<le> a \<Longrightarrow> b \<le> int (length mem) \<Longrightarrow> item_fits item"
  by (auto simp: item_in_def item_fits_def)

lemma lite_cjson_parse_total:
  assumes "src_len \<le> int (length mem)"
  shows "\<exists>rc item'. lite_cjson_parse fl (Some mem) src_len item = Some (rc, item') \<and> (rc = 0 \<longrightarrow> item_fits item')"
proof (cases "src_len \<le> 0")
  case False
  have "text_at mem 0 [0xEF, 0xBB, 0xBF] = Some (take 3 mem = [0xEF, 0xBB, 0xBF])" if "4 < src_len"
    using assms that text_at_Some [of 0 "[0xEF, 0xBB, 0xBF]" mem] by (simp add: numeral_3_eq_3)
  then have "\<exists>o0. skip_utf8_bom mem src_len 0 = Some o0 \<and> 0 \<le> o0 \<and> o0 \<le> src_len"
    using False by (auto simp: skip_utf8_bom_def)
  then obtain o0 where o0: "skip_utf8_bom mem src_len 0 = Some o0" "0 \<le> o0" "o0 \<le> src_len"
    by blast
  obtain o1 where o1: "buffer_skip_whitespace mem src_len o0 = Some o1" "0 \<le> o1" "o1 < src_len"
    using skip_whitespace_Some [of o0 src_len mem] o0 assms False by auto
  obtain ok item' o2 d where "parse_run fl mem src_len Value item o1 0 = Some (ok, item', o2, d)"
    "ok \<longrightarrow> parsed mem src_len o1 o2 item'"
    using value_total [OF assms, of fl 0] o1(2,3) unfolding value_total_def by blast
  then show ?thesis
    using False o0(1) o1 assms by (auto simp: lite_cjson_parse_def parse_value_def parsed_def intro: item_in_fits)
qed (simp add: lite_cjson_parse_def)

lemma array_item_loop_total:
  assumes "- 1 \<le> off" "off < len" "len \<le> int (length mem)" "0 < len"
  shows "\<exists>r. array_item_loop fl mem len index iter off d = Some r \<and> (\<forall>item. r = Some item \<longrightarrow> item_fits item)"
  using assms(1,2)
proof (induction "nat (len - off)" arbitrary: off iter rule: less_induct)
  case less
  obtain ok cur o1 d1 where e: "next_element fl mem len off d = Some (ok, cur, o1, d1)"
    "ok \<longrightarrow> d1 = d \<and> round_ok mem len off o1 \<and> item_in mem 0 len cur"
    using next_element_Some [OF value_total less.prems assms(3,4)] assms(3) by blast
  have rec: ?case if "ok" "iter \<noteq> index" "mem ! nat o1 = 0x2C"
    using less.hyps [of o1 "iter + 1"] that e assms(3)
    by (auto simp: array_item_loop.simps [of fl mem len index iter off] round_ok_def)
  show ?case
    using rec e assms(3)
    by (cases "ok \<and> iter \<noteq> index \<and> mem ! nat o1 = 0x2C")
      (auto simp: array_item_loop.simps [of fl mem len index iter off] round_ok_def intro: item_in_fits)
qed

lemma by_index_loop_total:
  assumes "- 1 \<le> off" "off < len" "len \<le> int (length mem)" "0 < len"
  shows "\<exists>r. by_index_loop fl mem len index iter off d = Some r
    \<and> (\<forall>k v. r = Some (k, v) \<longrightarrow> item_fits k \<and> item_fits v)"
  using assms(1,2)
proof (induction "nat (len - off)" arbitrary: off iter rule: less_induct)
  case less
  obtain ok key cur o1 d1 where e: "next_member fl mem len off d = Some (ok, key, cur, o1, d1)"
    "ok \<longrightarrow> d1 = d \<and> round_ok mem len off o1 \<and> item_in mem 0 len key \<and> item_in mem 0 len cur"
    using next_member_Some [OF value_total less.prems assms(3,4)] assms(3) by blast
  have rec: ?case if "ok" "iter \<noteq> index" "mem ! nat o1 = 0x2C"
    using less.hyps [of o1 "iter + 1"] that e assms(3)
    by (auto simp: by_index_loop.simps [of fl mem len index iter off] round_ok_def)
  show ?case
    using rec e assms(3)
    by (cases "ok \<and> iter \<noteq> index \<and> mem ! nat o1 = 0x2C")
      (auto simp: by_index_loop.simps [of fl mem len index iter off] round_ok_def intro: item_in_fits)
qed

lemma key_is_Some:
  assumes "item_fits item" "key_len \<le> int (length key)"
  shows "\<exists>e. key_is item key key_len = Some e"
  using assms by (auto simp: key_is_def item_fits_def memcmp_eq_def Let_def)

lemma object_item_loop_total:
  assumes "- 1 \<le> off" "off < len" "len \<le> int (length mem)" "0 < len" "key_len \<le> int (length key)"
  shows "\<exists>r. object_item_loop fl mem len key key_len off d = Some r \<and> (\<forall>item. r = Some item \<longrightarrow> item_fits item)"
  using assms(1,2)
proof (induction "nat (len - off)" arbitrary: off rule: less_induct)
  case less
  obtain ok k cur o1 d1 where e: "next_member fl mem len off d = Some (ok, k, cur, o1, d1)"
    "ok \<longrightarrow> d1 = d \<and> round_ok mem len off o1 \<and> item_in mem 0 len k \<and> item_in mem 0 len cur"
    using next_member_Some [OF value_total less.prems assms(3,4)] assms(3) by blast
  show ?case
  proof (cases ok)
    case True
    then have "item_fits k" "item_fits cur" using e(2) assms(3) by (auto intro: item_in_fits)
    with key_is_Some [of k key_len key] assms(5) obtain b where b: "key_is k key key_len = Some b" by auto
    have rec: ?thesis if "\<not> b" "mem ! nat o1 = 0x2C"
      using less.hyps [of o1] that e b True assms(3)
      by (auto simp: object_item_loop.simps [of fl mem len key key_len off] round_ok_def)
    show ?thesis
      using rec e b True assms(3) \<open>item_fits cur\<close>
      by (cases "\<not> b \<and> mem ! nat o1 = 0x2C")
        (auto simp: object_item_loop.simps [of fl mem len key key_len off] round_ok_def)
  next
    case False
    then show ?thesis using e by (auto simp: object_item_loop.simps [of fl mem len key key_len off])
  qed
qed

lemma object_item_total:
  assumes "item_fits l" "key_len \<le> int (length key)"
  shows "\<exists>r. object_item fl l key key_len = Some r \<and> (\<forall>item. r = Some item \<longrightarrow> item_fits item)"
proof -
  obtain mem where mem: "cj_value l = Some mem" "cj_value_length l \<le> int (length mem)"
    using assms(1) by (auto simp: item_fits_def)
  show ?thesis
  proof (cases "cj_type l = cJSON_Object \<and> cj_size l \<noteq> 0 \<and> 0 < key_len \<and> mem ! 0 = 0x7B")
    case True
    then have len: "0 < cj_value_length l"
      using assms(1) by (auto simp: item_fits_def cjson_types)
    from open_container_Some [of 0 "cj_value_length l" mem "0x7D"] len mem(2) show ?thesis
      using object_item_loop_total [OF _ _ mem(2) len assms(2)] True mem(1,2) len
      by (auto simp: object_item_def cong: if_cong)
  next
    case False
    then show ?thesis
      using mem by (cases "0 < cj_value_length l") (auto simp: object_item_def)
  qed
qed

lemma array_item_total:
  assumes "item_fits l"
  shows "\<exists>rc item'. lite_cjson_array_item fl (Some l) index (Some out) = Some (rc, Some item')
    \<and> (rc = 0 \<longrightarrow> item_fits item')"
proof -
  obtain mem where mem: "cj_value l = Some mem" "cj_value_length l \<le> int (length mem)"
    using assms(1) by (auto simp: item_fits_def)
  show ?thesis
  proof (cases "cj_type l \<noteq> cJSON_Array \<or> index < 0 \<or> index \<ge> cj_size l")
    case False
    then have len: "0 < cj_value_length l"
      using assms(1) by (auto simp: item_fits_def cjson_types)
    then have byte0: "byte_at mem 0 = Some (mem ! 0)" using mem(2) by (auto simp: byte_at_def)
    show ?thesis
    proof (cases "mem ! 0 = 0x5B")
      case True
      from open_container_Some [of 0 "cj_value_length l" mem "0x5D"] len mem(2)
      consider o' where "open_container mem (cj_value_length l) 0x5D 0 = Some (Opened_empty o')"
        | o' where "open_container mem (cj_value_length l) 0x5D 0 = Some (Opened_first o')" "- 1 \<le> o'" "o' < cj_value_length l"
        by force
      then show ?thesis
      proof cases
        case 2
        from array_item_loop_total [OF 2(2,3) mem(2) len, of fl index 0 0]
        obtain r where "array_item_loop fl mem (cj_value_length l) index 0 o' 0 = Some r"
          "\<forall>item. r = Some item \<longrightarrow> item_fits item" by blast
        with 2(1) show ?thesis using mem len False True byte0
          by (cases r) (auto simp: lite_cjson_array_item_def give_def)
      qed (use mem len False True byte0 in \<open>auto simp: lite_cjson_array_item_def\<close>)
    qed (use mem len False byte0 in \<open>auto simp: lite_cjson_array_item_def\<close>)
  qed (use mem in \<open>auto simp: lite_cjson_array_item_def\<close>)
qed

lemma object_item_by_index_total:
  assumes "item_fits l"
  shows "\<exists>rc k' v'. lite_cjson_object_item_by_index fl (Some l) index (Some k) (Some v) = Some (rc, Some k', Some v')
    \<and> (rc = 0 \<longrightarrow> item_fits k' \<and> item_fits v')"
proof -
  obtain mem where mem: "cj_value l = Some mem" "cj_value_length l \<le> int (length mem)"
    using assms(1) by (auto simp: item_fits_def)
  show ?thesis
  proof (cases "cj_type l = cJSON_Object \<and> cj_size l \<noteq> 0 \<and> 0 \<le> index \<and> index < cj_size l")
    case True
    then have len: "0 < cj_value_length l"
      using assms(1) by (auto simp: item_fits_def cjson_types)
    then have c0: "peek mem (cj_value_length l) 0 = Some (Some (mem ! 0))" using mem(2) by simp
    from open_container_Some [of 0 "cj_value_length l" mem "0x7D"] len mem(2)
    consider o' where "open_container mem (cj_value_length l) 0x7D 0 = Some (Opened_empty o')"
      | o' where "open_container mem (cj_value_length l) 0x7D 0 = Some (Opened_first o')" "- 1 \<le> o'" "o' < cj_value_length l"
      by force
    then show ?thesis
    proof cases
      case 2
      from by_index_loop_total [OF 2(2,3) mem(2) len, of fl index 0 0]
      obtain r where "by_index_loop fl mem (cj_value_length l) index 0 o' 0 = Some r"
        "\<forall>k v. r = Some (k, v) \<longrightarrow> item_fits k \<and> item_fits v" by blast
      with 2(1) show ?thesis using mem len True c0
        by (cases r) (auto simp: lite_cjson_object_item_by_index_def Let_def)
    qed (use mem len True c0 in \<open>auto simp: lite_cjson_object_item_by_index_def Let_def\<close>)
  qed (use mem in \<open>auto simp: lite_cjson_object_item_by_index_def Let_def\<close>)
qed

text \<open>
  A key without brackets, ended by a NUL, with the length given not beyond it. With brackets the index
  may be no \<^verbatim>\<open>int\<close>.
\<close>

lemma no_bracket_loop:
  assumes "0x5B \<notin> set key" "i + n \<le> length key"
  shows "bracket_loop key n i 0 None None = Some (Some (None, None)) \<or> bracket_loop key n i 0 None None = Some None"
  using assms
proof (induction n arbitrary: i)
  case (Suc n)
  then have "key ! i \<in> set key" by simp
  then have "key ! i \<noteq> 0x5B" using Suc.prems(1) by metis
  then show ?case using Suc by (cases "key ! i = 0x5D") auto
qed simp

lemma no_bracket_index:
  assumes "0x5B \<notin> set key" "key_len \<le> int (length key)"
  shows "lite_cjson_key_array_index key key_len = Some None"
  using no_bracket_loop [of key 0 "nat key_len"] assms by (auto simp: lite_cjson_key_array_index_def nat_le_iff)

lemma strchr_Some:
  assumes "0 \<in> set m"
  shows "strchr m c = Some None \<or> (\<exists>d. strchr m c = Some (Some d) \<and> 0 \<le> d \<and> d < int (length m) \<and> m ! nat d = c
    \<and> (c \<noteq> 0 \<longrightarrow> 0 \<in> set (drop (nat d + 1) m)))"
proof -
  let ?p = "takeWhile (\<lambda>x. x \<noteq> c \<and> x \<noteq> 0) m"
  have lt: "length ?p < length m"
  proof (rule ccontr)
    assume "\<not> length ?p < length m"
    then have "?p = m" using takeWhile_eq_take [of "\<lambda>x. x \<noteq> c \<and> x \<noteq> 0" m] by simp
    then have "0 \<in> set ?p" using assms by metis
    then show False by (auto dest: set_takeWhileD)
  qed
  have "0 \<in> set (drop (length ?p + 1) m)" if "m ! length ?p = c" "c \<noteq> 0"
  proof -
    have "m = take (length ?p) m @ m ! length ?p # drop (length ?p + 1) m"
      using lt by (simp add: id_take_nth_drop)
    then have "m = ?p @ m ! length ?p # drop (length ?p + 1) m"
      using takeWhile_eq_take [of "\<lambda>x. x \<noteq> c \<and> x \<noteq> 0" m] by simp
    then have "0 \<in> set (?p @ m ! length ?p # drop (length ?p + 1) m)" using assms by simp
    moreover have "0 \<notin> set ?p" by (auto dest: set_takeWhileD)
    ultimately show ?thesis using that by auto
  qed
  with lt show ?thesis by (auto simp: strchr_def Let_def)
qed

lemma path_loop_total:
  assumes "item_fits lite" "0 \<in> set (drop (nat i) key)" "0x5B \<notin> set key" "0 \<le> i" "key_len \<le> int (length key)"
  shows "\<exists>r. path_loop fl key key_len i lite = Some r \<and> (\<forall>item. r = Some item \<longrightarrow> item_fits item)"
  using assms(1,2,4)
proof (induction "nat (int (length key) - i)" arbitrary: i lite rule: less_induct)
  case less
  let ?k = "drop (nat i) key"
  have i: "i < int (length key)" using less.prems(2,3) by (cases "nat i < length key") auto
  have lk: "int (length ?k) = int (length key) - i" using i less.prems(3) by auto
  have k: "from_at key i = Some ?k" "0x5B \<notin> set ?k"
    using i less.prems(3) assms(3) by (auto dest: in_set_dropD)
  from strchr_Some [OF less.prems(2), of "0x2E"]
  consider "strchr ?k 0x2E = Some None"
    | d where "strchr ?k 0x2E = Some (Some d)" "0 \<le> d" "d < int (length ?k)" "0 \<in> set (drop (nat d + 1) ?k)"
    by auto
  then show ?case
  proof cases
    case 1
    have "lite_cjson_key_array_index ?k (key_len - i) = Some None"
      by (rule no_bracket_index [OF k(2)]) (use assms(5) lk in simp)
    moreover have "key_len - i \<le> int (length ?k)" using assms(5) lk by simp
    then obtain r where "object_item fl lite ?k (key_len - i) = Some r" "\<forall>item. r = Some item \<longrightarrow> item_fits item"
      using object_item_total [OF less.prems(1)] by blast
    ultimately show ?thesis
      using 1 k(1) by (cases r) (auto simp: path_loop.simps [of fl key key_len i])
  next
    case 2
    have a: "lite_cjson_key_array_index ?k d = Some None"
      by (rule no_bracket_index [OF k(2)]) (use 2(3) in simp)
    obtain r where r: "object_item fl lite ?k d = Some r" "\<forall>item. r = Some item \<longrightarrow> item_fits item"
      using object_item_total [OF less.prems(1), of d ?k fl] 2(3) by auto
    show ?thesis
    proof (cases r)
      case (Some prev)
      have "drop (nat (i + d + 1)) key = drop (nat d + 1) ?k"
        using 2(2) less.prems(3) by (simp add: nat_add_distrib add.commute)
      then have "\<exists>r. path_loop fl key key_len (i + d + 1) prev = Some r \<and> (\<forall>item. r = Some item \<longrightarrow> item_fits item)"
        using less.hyps [of "i + d + 1" prev] 2 i r(2) Some less.prems(3) by auto
      then show ?thesis
        using 2(1) k(1) a r Some by (auto simp: path_loop.simps [of fl key key_len i])
    qed (use 2(1) k(1) a r in \<open>auto simp: path_loop.simps [of fl key key_len i]\<close>)
  qed
qed

lemma lite_cjson_object_item_total:
  assumes "item_fits l" "0 \<in> set key" "0x5B \<notin> set key" "key_len \<le> int (length key)"
  shows "\<exists>rc item'. lite_cjson_object_item fl (Some l) (Some key) key_len (Some out) = Some (rc, Some item')
    \<and> (rc = 0 \<longrightarrow> item_fits item')"
proof -
  obtain r where "path_loop fl key key_len 0 l = Some r" "\<forall>item. r = Some item \<longrightarrow> item_fits item"
    using path_loop_total [of l 0 key key_len fl] assms by auto
  then show ?thesis by (cases r) (auto simp: lite_cjson_object_item_def give_def)
qed
end
