(* ===== verification/CjsonText.thy ===== *)
theory CjsonText
  imports CjsonProofs
begin

text \<open>
  What the reader of \<^verbatim>\<open>src/src/infra/infra_cjson.c\<close> computes: a text of a JSON value, with white space
  anywhere JSON allows it, parses to an item that spans it, and looking items up follows the value.
\<close>

section \<open>JSON values and their texts\<close>

text \<open>Numbers and strings keep their characters: the reader does not decode escapes.\<close>

datatype json =
    JNull | JFalse | JTrue
  | JNum "byte list" | JStr "byte list"
  | JArr "json list" | JObj "(byte list \<times> json) list"

definition blank :: "byte list \<Rightarrow> bool" where
  "blank w \<longleftrightarrow> (\<forall>c \<in> set w. c \<le> 32)"

definition number_text :: "byte list \<Rightarrow> bool" where
  "number_text s \<longleftrightarrow> (case s of [] \<Rightarrow> False | c # _ \<Rightarrow> c = 0x2D \<or> is_digit c) \<and> length s \<le> 63
     \<and> (\<forall>c \<in> set s. number_char c) \<and> fst (strtod s) = length s"

lemma number_text_iff:
  "number_text s \<longleftrightarrow> (\<exists>c r. s = c # r \<and> (c = 0x2D \<or> is_digit c)) \<and> length s \<le> 63 \<and> (\<forall>c \<in> set s. number_char c)
     \<and> fst (strtod s) = length s"
  by (cases s) (auto simp: number_text_def)

text \<open>A backslash takes the next character with it; no other quote occurs.\<close>

fun string_text :: "byte list \<Rightarrow> bool" where
  "string_text [] = True"
| "string_text (c # cs) =
     (if c = 0x22 then False
      else if c = 0x5C then (case cs of [] \<Rightarrow> False | _ # cs' \<Rightarrow> string_text cs')
      else string_text cs)"

text \<open>\<open>n\<close> bounds how deep arrays and objects nest.\<close>

inductive value_text :: "nat \<Rightarrow> json \<Rightarrow> byte list \<Rightarrow> bool"
  and elements_text :: "nat \<Rightarrow> json list \<Rightarrow> byte list \<Rightarrow> bool"
  and members_text :: "nat \<Rightarrow> (byte list \<times> json) list \<Rightarrow> byte list \<Rightarrow> bool" where
  null: "value_text n JNull (ascii ''null'')"
| false: "value_text n JFalse (ascii ''false'')"
| true: "value_text n JTrue (ascii ''true'')"
| number: "number_text s \<Longrightarrow> value_text n (JNum s) s"
| str: "string_text s \<Longrightarrow> value_text n (JStr s) (0x22 # s @ [0x22])"
| empty_array: "blank w \<Longrightarrow> value_text (Suc n) (JArr []) (0x5B # w @ [0x5D])"
| array: "elements_text n js t \<Longrightarrow> value_text (Suc n) (JArr js) (0x5B # t @ [0x5D])"
| empty_object: "blank w \<Longrightarrow> value_text (Suc n) (JObj []) (0x7B # w @ [0x7D])"
| object: "members_text n ms t \<Longrightarrow> value_text (Suc n) (JObj ms) (0x7B # t @ [0x7D])"
| one_element: "blank w1 \<Longrightarrow> value_text n j v \<Longrightarrow> blank w2 \<Longrightarrow> elements_text n [j] (w1 @ v @ w2)"
| more_elements: "blank w1 \<Longrightarrow> value_text n j v \<Longrightarrow> blank w2 \<Longrightarrow> elements_text n js t \<Longrightarrow>
    elements_text n (j # js) (w1 @ v @ w2 @ 0x2C # t)"
| one_member: "blank w1 \<Longrightarrow> string_text k \<Longrightarrow> blank w2 \<Longrightarrow> blank w3 \<Longrightarrow> value_text n j v \<Longrightarrow> blank w4 \<Longrightarrow>
    members_text n [(k, j)] (w1 @ 0x22 # k @ 0x22 # w2 @ 0x3A # w3 @ v @ w4)"
| more_members: "blank w1 \<Longrightarrow> string_text k \<Longrightarrow> blank w2 \<Longrightarrow> blank w3 \<Longrightarrow> value_text n j v \<Longrightarrow> blank w4 \<Longrightarrow>
    members_text n ms t \<Longrightarrow> members_text n ((k, j) # ms) (w1 @ 0x22 # k @ 0x22 # w2 @ 0x3A # w3 @ v @ w4 @ 0x2C # t)"

text \<open>The item for the text \<open>s\<close> of a value, with \<open>m\<close> the memory from it on.\<close>

fun item_for :: "(rat \<Rightarrow> rat) \<Rightarrow> json \<Rightarrow> byte list \<Rightarrow> byte list \<Rightarrow> lite_cjson \<Rightarrow> lite_cjson" where
  "item_for fl JNull s m item = item\<lparr>cj_type := cJSON_NULL, cj_value := Some m, cj_value_length := 4\<rparr>"
| "item_for fl JFalse s m item = item\<lparr>cj_type := cJSON_False, cj_value := Some m, cj_value_length := 5\<rparr>"
| "item_for fl JTrue s m item = item\<lparr>cj_type := cJSON_True, cj_value := Some m, cj_value_length := 4\<rparr>"
| "item_for fl (JNum _) s m item =
     item\<lparr>cj_type := cJSON_Number, cj_value := Some m, cj_value_length := int (length s),
       cj_value_double := fl (snd (strtod s)), cj_value_int := saturate (fl (snd (strtod s)))\<rparr>"
| "item_for fl (JStr k) s m item =
     item\<lparr>cj_type := cJSON_String, cj_value := Some (drop 1 m), cj_value_length := int (length k)\<rparr>"
| "item_for fl (JArr js) s m item =
     item\<lparr>cj_size := int (length js), cj_type := cJSON_Array, cj_value := Some m, cj_value_length := int (length s)\<rparr>"
| "item_for fl (JObj ms) s m item =
     item\<lparr>cj_size := int (length ms), cj_type := cJSON_Object, cj_value := Some m, cj_value_length := int (length s)\<rparr>"

section \<open>Texts in memory\<close>

definition placed :: "byte list \<Rightarrow> int \<Rightarrow> int \<Rightarrow> byte list \<Rightarrow> bool" where
  "placed mem len off s \<longleftrightarrow>
     0 \<le> off \<and> off + int (length s) \<le> len \<and> len \<le> int (length mem) \<and> take (length s) (drop (nat off) mem) = s"

lemma placed_Nil: "placed mem len off [] \<longleftrightarrow> 0 \<le> off \<and> off \<le> len \<and> len \<le> int (length mem)"
  by (auto simp: placed_def)

lemma placed_Cons:
  "placed mem len off (c # s) \<longleftrightarrow>
   0 \<le> off \<and> off < len \<and> len \<le> int (length mem) \<and> mem ! nat off = c \<and> placed mem len (off + 1) s"
proof (cases "0 \<le> off \<and> off < len \<and> len \<le> int (length mem)")
  case True
  then have "nat off < length mem" "nat (off + 1) = Suc (nat off)" by auto
  then have "drop (nat off) mem = mem ! nat off # drop (nat (off + 1)) mem"
    by (simp add: Cons_nth_drop_Suc [symmetric])
  with True show ?thesis by (auto simp: placed_def)
qed (auto simp: placed_def)

lemma placed_append:
  "placed mem len off (s @ t) \<longleftrightarrow> placed mem len off s \<and> placed mem len (off + int (length s)) t"
proof (induction s arbitrary: off)
  case Nil
  then show ?case by (auto simp: placed_def)
next
  case (Cons c s)
  then show ?case by (auto simp: placed_Cons algebra_simps)
qed

lemma placed_len: "placed mem len off s \<Longrightarrow> 0 \<le> off \<and> off + int (length s) \<le> len \<and> len \<le> int (length mem)"
  by (simp add: placed_def)

lemma skip_blank:
  assumes "blank w" "placed mem len off (w @ [c])" "\<not> c \<le> 32"
  shows "buffer_skip_whitespace mem len off = Some (off + int (length w))"
proof -
  have "skip_loop mem len off = Some (off + int (length w)) \<and> off + int (length w) < len"
    using assms
  proof (induction w arbitrary: off)
    case Nil
    then show ?case by (subst skip_loop.simps) (auto simp: placed_Cons)
  next
    case (Cons b w)
    then have "b \<le> 32" "blank w" "placed mem len (off + 1) (w @ [c])" by (auto simp: blank_def placed_Cons)
    with Cons.IH [of "off + 1"] Cons.prems show ?case
      by (subst skip_loop.simps) (auto simp: placed_Cons)
  qed
  then show ?thesis by (simp add: buffer_skip_whitespace_def)
qed

section \<open>Leaves\<close>

text \<open>Where a number ends.\<close>

definition stops :: "byte list \<Rightarrow> int \<Rightarrow> int \<Rightarrow> bool" where
  "stops mem len off \<longleftrightarrow> (off < len \<longrightarrow> \<not> number_char (mem ! nat off))"

lemma number_loop_text:
  assumes "placed mem len off s" "\<forall>c \<in> set s. number_char c" "length s \<le> n" "stops mem len (off + int (length s))"
  shows "number_loop n mem len off = Some s"
  using assms
proof (induction n arbitrary: off s)
  case (Suc n)
  show ?case
  proof (cases s)
    case Nil
    with Suc.prems show ?thesis
      by (cases "off < len") (auto simp: stops_def placed_def)
  next
    case (Cons c s')
    with Suc.prems have "number_loop n mem len (off + 1) = Some s'"
      by (intro Suc.IH) (auto simp: placed_Cons algebra_simps)
    with Cons Suc.prems show ?thesis by (auto simp: placed_Cons)
  qed
qed simp

lemma string_end_text:
  assumes "placed mem len off (s @ [0x22])" "string_text s"
  shows "string_end mem len off = Some (Some (off + int (length s)))"
  using assms
proof (induction s arbitrary: off rule: string_text.induct)
  case 1
  then show ?case by (subst string_end.simps) (auto simp: placed_Cons)
next
  case (2 c cs)
  show ?case
  proof (cases "c = 0x5C")
    case True
    with 2(4) obtain d cs' where cs: "cs = d # cs'" "string_text cs'"
      by (cases cs) auto
    from 2(3) cs True have p: "off + 1 < len" "0 \<le> off" "mem ! nat off = 0x5C" "len \<le> int (length mem)"
      "placed mem len (off + 1 + 1) (cs' @ [0x22])"
      by (auto simp: placed_Cons)
    have "string_end mem len (off + 1 + 1) = Some (Some (off + 1 + 1 + int (length cs')))"
      using 2(1) [OF _ True cs(1) p(5) cs(2)] True by simp
    then show ?thesis
      using p cs True by (subst string_end.simps) (simp add: add.assoc)
  next
    case False
    with 2(3,4) have p: "off < len" "0 \<le> off" "mem ! nat off = c" "len \<le> int (length mem)" "c \<noteq> 0x22"
      "placed mem len (off + 1) (cs @ [0x22])" "string_text cs"
      by (auto simp: placed_Cons split: if_splits)
    have "string_end mem len (off + 1) = Some (Some (off + 1 + int (length cs)))"
      using 2(2) [OF p(5) False p(6,7)] .
    then show ?thesis
      using p False by (subst string_end.simps) (simp add: add.assoc)
  qed
qed

lemma parse_string_text:
  assumes "placed mem len off (0x22 # k @ [0x22])" "string_text k"
  shows "parse_string mem len item off =
    Some (True, item_for fl (JStr k) s (drop (nat off) mem) item, off + int (length k) + 2)"
proof -
  have p: "0 \<le> off" "off < len" "len \<le> int (length mem)" "mem ! nat off = 0x22" "placed mem len (off + 1) (k @ [0x22])"
    using assms(1) by (auto simp: placed_Cons)
  then have "nat (off + 1) = nat off + 1" by simp
  with string_end_text [OF p(5) assms(2)] p show ?thesis
    by (simp add: parse_string_def algebra_simps)
qed

lemma parse_number_text:
  assumes "placed mem len off s" "number_text s" "stops mem len (off + int (length s))"
  shows "parse_number fl mem len item off =
    Some (True, item_for fl (JNum s) s (drop (nat off) mem) item, off + int (length s))"
proof -
  have "number_loop 63 mem len off = Some s"
    using assms by (intro number_loop_text) (auto simp: number_text_iff)
  moreover have "from_at mem off = Some (drop (nat off) mem)"
    using placed_len [OF assms(1)] by simp
  moreover obtain x where "strtod s = (length s, x)" "length s \<noteq> 0"
    using assms(2) by (cases "strtod s") (auto simp: number_text_iff)
  ultimately show ?thesis by (simp add: parse_number_def)
qed

section \<open>A text parses to its value\<close>

text \<open>The value with text \<open>v\<close> is read wherever the text stands, with \<open>n\<close> levels to go.\<close>

definition reads_value :: "(rat \<Rightarrow> rat) \<Rightarrow> nat \<Rightarrow> json \<Rightarrow> byte list \<Rightarrow> bool" where
  "reads_value fl n j v \<longleftrightarrow>
     (\<forall>mem len off item d. placed mem len off v \<and> stops mem len (off + int (length v)) \<and> d + int n \<le> LITE_CJSON_NESTING_LIMIT \<longrightarrow>
        parse_run fl mem len Value item off d =
        Some (True, item_for fl j v (drop (nat off) mem) item, off + int (length v), d))"

lemma reads_valueD:
  "reads_value fl n j v \<Longrightarrow> placed mem len off v \<Longrightarrow> stops mem len (off + int (length v)) \<Longrightarrow>
   d + int n \<le> LITE_CJSON_NESTING_LIMIT \<Longrightarrow>
   parse_run fl mem len Value item off d =
   Some (True, item_for fl j v (drop (nat off) mem) item, off + int (length v), d)"
  by (simp add: reads_value_def)

lemma value_text_hd: "value_text n j v \<Longrightarrow> \<exists>c r. v = c # r \<and> \<not> c \<le> 32 \<and> c \<noteq> 0x5D"
  by (cases rule: value_text.cases) (auto simp: ascii_def number_text_iff is_digit_def word_le_nat_alt)

lemma stops_at:
  "placed mem len off (c # s) \<Longrightarrow> c \<le> 32 \<or> c \<in> {0x2C, 0x5D, 0x7D} \<Longrightarrow> stops mem len off"
  by (auto simp: placed_Cons stops_def number_char_def is_digit_def word_le_nat_alt)

lemma stops_blank:
  assumes "placed mem len off (w @ [c])" "blank w" "c \<in> {0x2C, 0x5D, 0x7D}"
  shows "stops mem len off"
  using assms stops_at [of mem len off "hd (w @ [c])" "tl (w @ [c])"]
  by (cases w) (auto simp: blank_def)

text \<open>One round of a loop, up to the separator or the closing bracket \<open>c\<close>.\<close>

lemma next_element_text:
  assumes rd: "reads_value fl n j v" "value_text n j v" and bl: "blank w1" "blank w2"
    and p: "placed mem len (off + 1) (w1 @ v @ w2 @ [c])" and c: "c \<in> {0x2C, 0x5D, 0x7D}"
    and d: "d + int n \<le> LITE_CJSON_NESTING_LIMIT"
    and vo: "vo = off + 1 + int (length w1)" and o': "o' = vo + int (length v) + int (length w2)"
  shows "next_element fl mem len off d = Some (True, item_for fl j v (drop (nat vo) mem) cjson_zero, o', d)"
proof -
  obtain b r where v: "v = b # r" "\<not> b \<le> 32" using value_text_hd [OF rd(2)] by blast
  have pl: "placed mem len vo v" "placed mem len (vo + int (length v)) (w2 @ [c])" "placed mem len (off + 1) (w1 @ [b])"
    using p v(1) unfolding vo by (simp_all add: placed_append placed_Cons placed_Nil algebra_simps)
  have "buffer_skip_whitespace mem len (off + 1) = Some vo"
    unfolding vo by (rule skip_blank [OF bl(1) pl(3) v(2)])
  moreover have "parse_run fl mem len Value cjson_zero vo d =
      Some (True, item_for fl j v (drop (nat vo) mem) cjson_zero, vo + int (length v), d)"
    by (rule reads_valueD [OF rd(1) pl(1) stops_blank [OF pl(2) bl(2) c] d])
  moreover have "buffer_skip_whitespace mem len (vo + int (length v)) = Some o'"
    unfolding o' by (rule skip_blank [OF bl(2) pl(2)]) (use c in auto)
  ultimately show ?thesis
    by (simp add: next_element_def parse_value_def)
qed

lemma next_member_text:
  assumes rd: "reads_value fl n j v" "value_text n j v" and bl: "blank w1" "blank w2" "blank w3" "blank w4"
    and k: "string_text k"
    and p: "placed mem len (off + 1) (w1 @ 0x22 # k @ 0x22 # w2 @ 0x3A # w3 @ v @ w4 @ [c])" and c: "c \<in> {0x2C, 0x5D, 0x7D}"
    and d: "d + int n \<le> LITE_CJSON_NESTING_LIMIT"
    and ko: "ko = off + 1 + int (length w1)"
    and vo: "vo = ko + int (length k) + int (length w2) + int (length w3) + 3"
    and o': "o' = vo + int (length v) + int (length w4)"
  shows "next_member fl mem len off d =
    Some (True, item_for fl (JStr k) [] (drop (nat ko) mem) cjson_zero, item_for fl j v (drop (nat vo) mem) cjson_zero, o', d)"
proof -
  define q where "q = ko + int (length k) + 2 + int (length w2)"
  have pl: "placed mem len ko (0x22 # k @ [0x22])" "placed mem len (off + 1) (w1 @ [0x22])"
    "placed mem len (ko + int (length k) + 2) (w2 @ [0x3A])" "placed mem len (q + 1) (w3 @ v @ w4 @ [c])"
    using p unfolding ko q_def by (simp_all add: placed_append placed_Cons placed_Nil algebra_simps)
  have "buffer_skip_whitespace mem len (off + 1) = Some ko"
    unfolding ko by (rule skip_blank [OF bl(1) pl(2)]) simp
  moreover have "parse_string mem len cjson_zero ko =
      Some (True, item_for fl (JStr k) [] (drop (nat ko) mem) cjson_zero, ko + int (length k) + 2)"
    by (rule parse_string_text [OF pl(1) k])
  moreover have "buffer_skip_whitespace mem len (ko + int (length k) + 2) = Some q"
    unfolding q_def by (rule skip_blank [OF bl(2) pl(3)]) simp
  moreover have "peek mem len q = Some (Some 0x3A)"
    using pl(3) unfolding q_def by (auto simp: placed_append placed_Cons)
  moreover have "next_element fl mem len q d = Some (True, item_for fl j v (drop (nat vo) mem) cjson_zero, o', d)"
    by (rule next_element_text [OF rd bl(3,4) pl(4) c d]) (auto simp: vo o' q_def)
  ultimately show ?thesis
    by (simp add: next_member_def)
qed

lemma close_container_text:
  assumes "0 \<le> start" "start \<le> len" "len \<le> int (length mem)"
  shows "close_container mem ty start item off d =
    Some (True, item\<lparr>cj_type := ty, cj_value := Some (drop (nat start) mem), cj_value_length := off - start + 1\<rparr>, off + 1, d - 1)"
  using assms by (simp add: close_container_def)

text \<open>The loops, from the character in front of the text.\<close>

definition reads_elements :: "(rat \<Rightarrow> rat) \<Rightarrow> nat \<Rightarrow> json list \<Rightarrow> byte list \<Rightarrow> bool" where
  "reads_elements fl n js t \<longleftrightarrow>
     (\<forall>mem len off item d start. placed mem len (off + 1) (t @ [0x5D]) \<and> 0 \<le> start \<and> start \<le> off + 1
        \<and> d + int n \<le> LITE_CJSON_NESTING_LIMIT \<longrightarrow>
        parse_run fl mem len (Elements start) item off d =
        Some (True, item\<lparr>cj_size := cj_size item + int (length js), cj_type := cJSON_Array,
          cj_value := Some (drop (nat start) mem), cj_value_length := off + int (length t) + 2 - start\<rparr>,
          off + int (length t) + 2, d - 1))"

definition reads_members :: "(rat \<Rightarrow> rat) \<Rightarrow> nat \<Rightarrow> (byte list \<times> json) list \<Rightarrow> byte list \<Rightarrow> bool" where
  "reads_members fl n ms t \<longleftrightarrow>
     (\<forall>mem len off item d start. placed mem len (off + 1) (t @ [0x7D]) \<and> 0 \<le> start \<and> start \<le> off + 1
        \<and> d + int n \<le> LITE_CJSON_NESTING_LIMIT \<longrightarrow>
        parse_run fl mem len (Members start) item off d =
        Some (True, item\<lparr>cj_size := cj_size item + int (length ms), cj_type := cJSON_Object,
          cj_value := Some (drop (nat start) mem), cj_value_length := off + int (length t) + 2 - start\<rparr>,
          off + int (length t) + 2, d - 1))"

lemma reads_one_element:
  assumes "reads_value fl n j v" "value_text n j v" "blank w1" "blank w2"
  shows "reads_elements fl n [j] (w1 @ v @ w2)"
  unfolding reads_elements_def
proof (intro allI impI, elim conjE)
  fix mem len off item d start
  assume p: "placed mem len (off + 1) ((w1 @ v @ w2) @ [0x5D])" and st: "0 \<le> start" "start \<le> off + 1"
    and d: "d + int n \<le> LITE_CJSON_NESTING_LIMIT"
  define vo where "vo = off + 1 + int (length w1)"
  define o' where "o' = vo + int (length v) + int (length w2)"
  have "next_element fl mem len off d = Some (True, item_for fl j v (drop (nat vo) mem) cjson_zero, o', d)"
    by (rule next_element_text [OF assms, where c = "0x5D"]) (use p d vo_def o'_def in auto)
  moreover have "peek mem len o' = Some (Some 0x5D)"
    using p unfolding o'_def vo_def by (auto simp: placed_append placed_Cons algebra_simps)
  ultimately show "parse_run fl mem len (Elements start) item off d =
      Some (True, item\<lparr>cj_size := cj_size item + int (length [j]), cj_type := cJSON_Array,
        cj_value := Some (drop (nat start) mem), cj_value_length := off + int (length (w1 @ v @ w2)) + 2 - start\<rparr>,
        off + int (length (w1 @ v @ w2)) + 2, d - 1)"
    using st placed_len [OF p]
    by (simp add: parse_run_Elements [where off = off] close_container_text) (simp add: o'_def vo_def ac_simps)
qed

lemma reads_more_elements:
  assumes "reads_value fl n j v" "value_text n j v" "blank w1" "blank w2" and rec: "reads_elements fl n js t"
  shows "reads_elements fl n (j # js) (w1 @ v @ w2 @ 0x2C # t)"
  unfolding reads_elements_def
proof (intro allI impI, elim conjE)
  fix mem len off item d start
  assume p: "placed mem len (off + 1) ((w1 @ v @ w2 @ 0x2C # t) @ [0x5D])" and st: "0 \<le> start" "start \<le> off + 1"
    and d: "d + int n \<le> LITE_CJSON_NESTING_LIMIT"
  define vo where "vo = off + 1 + int (length w1)"
  define o' where "o' = vo + int (length v) + int (length w2)"
  have pl: "placed mem len (off + 1) (w1 @ v @ w2 @ [0x2C])" "peek mem len o' = Some (Some 0x2C)"
    "placed mem len (o' + 1) (t @ [0x5D])"
    using p unfolding o'_def vo_def by (auto simp: placed_append placed_Cons placed_Nil algebra_simps)
  have "next_element fl mem len off d = Some (True, item_for fl j v (drop (nat vo) mem) cjson_zero, o', d)"
    by (rule next_element_text [OF assms(1-4) pl(1) _ d vo_def o'_def]) simp
  moreover have "parse_run fl mem len (Elements start) (item\<lparr>cj_size := cj_size item + 1\<rparr>) o' d =
      Some (True, item\<lparr>cj_size := cj_size item + 1 + int (length js), cj_type := cJSON_Array,
          cj_value := Some (drop (nat start) mem), cj_value_length := o' + int (length t) + 2 - start\<rparr>,
          o' + int (length t) + 2, d - 1)"
    using rec pl(3) st d unfolding reads_elements_def by (simp add: o'_def vo_def)
  ultimately show "parse_run fl mem len (Elements start) item off d =
      Some (True, item\<lparr>cj_size := cj_size item + int (length (j # js)), cj_type := cJSON_Array,
        cj_value := Some (drop (nat start) mem), cj_value_length := off + int (length (w1 @ v @ w2 @ 0x2C # t)) + 2 - start\<rparr>,
        off + int (length (w1 @ v @ w2 @ 0x2C # t)) + 2, d - 1)"
    using pl(2) by (simp add: parse_run_Elements [where off = off]) (simp add: o'_def vo_def ac_simps)
qed

lemma reads_one_member:
  assumes "reads_value fl n j v" "value_text n j v" "blank w1" "blank w2" "blank w3" "blank w4" "string_text k"
  shows "reads_members fl n [(k, j)] (w1 @ 0x22 # k @ 0x22 # w2 @ 0x3A # w3 @ v @ w4)"
  unfolding reads_members_def
proof (intro allI impI, elim conjE)
  fix mem len off item d start
  let ?t = "w1 @ 0x22 # k @ 0x22 # w2 @ 0x3A # w3 @ v @ w4"
  assume p: "placed mem len (off + 1) (?t @ [0x7D])" and st: "0 \<le> start" "start \<le> off + 1"
    and d: "d + int n \<le> LITE_CJSON_NESTING_LIMIT"
  define ko where "ko = off + 1 + int (length w1)"
  define vo where "vo = ko + int (length k) + int (length w2) + int (length w3) + 3"
  define o' where "o' = vo + int (length v) + int (length w4)"
  have pl: "placed mem len (off + 1) (w1 @ 0x22 # k @ 0x22 # w2 @ 0x3A # w3 @ v @ w4 @ [0x7D])"
    "peek mem len o' = Some (Some 0x7D)"
    using p unfolding o'_def vo_def ko_def by (auto simp: placed_append placed_Cons placed_Nil algebra_simps)
  have "next_member fl mem len off d = Some (True, item_for fl (JStr k) [] (drop (nat ko) mem) cjson_zero,
      item_for fl j v (drop (nat vo) mem) cjson_zero, o', d)"
    by (rule next_member_text [OF assms pl(1) _ d ko_def vo_def o'_def]) simp
  then show "parse_run fl mem len (Members start) item off d =
      Some (True, item\<lparr>cj_size := cj_size item + int (length [(k, j)]), cj_type := cJSON_Object,
        cj_value := Some (drop (nat start) mem), cj_value_length := off + int (length ?t) + 2 - start\<rparr>,
        off + int (length ?t) + 2, d - 1)"
    using pl(2) st placed_len [OF p]
    by (simp add: parse_run_Members [where off = off] close_container_text) (simp add: o'_def vo_def ko_def ac_simps)
qed

lemma reads_more_members:
  assumes "reads_value fl n j v" "value_text n j v" "blank w1" "blank w2" "blank w3" "blank w4" "string_text k"
    and rec: "reads_members fl n ms t"
  shows "reads_members fl n ((k, j) # ms) (w1 @ 0x22 # k @ 0x22 # w2 @ 0x3A # w3 @ v @ w4 @ 0x2C # t)"
  unfolding reads_members_def
proof (intro allI impI, elim conjE)
  fix mem len off item d start
  let ?t = "w1 @ 0x22 # k @ 0x22 # w2 @ 0x3A # w3 @ v @ w4 @ 0x2C # t"
  assume p: "placed mem len (off + 1) (?t @ [0x7D])" and st: "0 \<le> start" "start \<le> off + 1"
    and d: "d + int n \<le> LITE_CJSON_NESTING_LIMIT"
  define ko where "ko = off + 1 + int (length w1)"
  define vo where "vo = ko + int (length k) + int (length w2) + int (length w3) + 3"
  define o' where "o' = vo + int (length v) + int (length w4)"
  have pl: "placed mem len (off + 1) (w1 @ 0x22 # k @ 0x22 # w2 @ 0x3A # w3 @ v @ w4 @ [0x2C])"
    "peek mem len o' = Some (Some 0x2C)" "placed mem len (o' + 1) (t @ [0x7D])"
    using p unfolding o'_def vo_def ko_def by (auto simp: placed_append placed_Cons placed_Nil algebra_simps)
  have "next_member fl mem len off d = Some (True, item_for fl (JStr k) [] (drop (nat ko) mem) cjson_zero,
      item_for fl j v (drop (nat vo) mem) cjson_zero, o', d)"
    by (rule next_member_text [OF assms(1-7) pl(1) _ d ko_def vo_def o'_def]) simp
  moreover have "parse_run fl mem len (Members start) (item\<lparr>cj_size := cj_size item + 1\<rparr>) o' d =
      Some (True, item\<lparr>cj_size := cj_size item + 1 + int (length ms), cj_type := cJSON_Object,
          cj_value := Some (drop (nat start) mem), cj_value_length := o' + int (length t) + 2 - start\<rparr>,
          o' + int (length t) + 2, d - 1)"
    using rec pl(3) st d unfolding reads_members_def by (simp add: o'_def vo_def ko_def)
  ultimately show "parse_run fl mem len (Members start) item off d =
      Some (True, item\<lparr>cj_size := cj_size item + int (length ((k, j) # ms)), cj_type := cJSON_Object,
        cj_value := Some (drop (nat start) mem), cj_value_length := off + int (length ?t) + 2 - start\<rparr>,
        off + int (length ?t) + 2, d - 1)"
    using pl(2) by (simp add: parse_run_Members [where off = off]) (simp add: o'_def vo_def ko_def ac_simps)
qed

lemma parse_value_leaf:
  assumes "placed mem len off v" "value_text n j v"
  shows "keyword mem len off =
    Some (case j of JNull \<Rightarrow> Some (cJSON_NULL, 4) | JFalse \<Rightarrow> Some (cJSON_False, 5) | JTrue \<Rightarrow> Some (cJSON_True, 4) | _ \<Rightarrow> None)"
proof -
  note p = placed_len [OF assms(1)]
  obtain c r where v: "v = c # r" using value_text_hd [OF assms(2)] by blast
  have hd: "mem ! nat off = c" using assms(1) v by (simp add: placed_Cons)
  have lit: "literal mem len off (b # s) = Some False" if "b \<noteq> c" for b s
  proof -
    have "off + int (length (b # s)) \<le> len \<Longrightarrow> take (length (b # s)) (drop (nat off) mem) \<noteq> b # s"
      using p hd that by (auto simp: take_Suc_conv_app_nth Cons_nth_drop_Suc [symmetric] dest!: arg_cong [of _ _ hd])
    then show ?thesis using p by (auto simp: literal_Some)
  qed
  have same: "literal mem len off v = Some True"
    using assms(1) p by (auto simp: literal_Some placed_def)
  from assms(2) show ?thesis
  proof cases
    case null
    then show ?thesis using same by (simp add: keyword_def)
  next
    case false
    then show ?thesis using same lit v by (simp add: keyword_def ascii_def)
  next
    case true
    then show ?thesis using same lit v by (simp add: keyword_def ascii_def)
  next
    case number
    have "c = 0x2D \<or> is_digit c" using number v by (auto simp: number_text_iff)
    then have "c \<noteq> 0x6E" "c \<noteq> 0x66" "c \<noteq> 0x74" by (auto simp: is_digit_def)
    then show ?thesis using number lit by (simp add: keyword_def ascii_def)
  qed (use lit v in \<open>auto simp: keyword_def ascii_def\<close>)
qed

section \<open>The main theorem of the reader\<close>

lemma reads_empty:
  assumes "blank w" "close = 0x5D \<or> close = 0x7D"
    and "placed mem len off (b # w @ [close])"
  shows "open_container mem len close off = Some (Opened_empty (off + 1 + int (length w)))"
proof -
  have "placed mem len (off + 1) (w @ [close])" using assms(3) by (simp add: placed_Cons)
  moreover have "buffer_skip_whitespace mem len (off + 1) = Some (off + 1 + int (length w))"
    by (rule skip_blank [OF assms(1) calculation]) (use assms(2) in auto)
  ultimately show ?thesis by (auto simp: open_container_def placed_append placed_Cons)
qed

lemma opens_first:
  assumes "placed mem len off (b # w @ c # t)" "blank w" "\<not> c \<le> 32" "c \<noteq> close"
  shows "open_container mem len close off = Some (Opened_first (off + int (length w)))"
proof -
  have p: "placed mem len (off + 1) (w @ [c])" "mem ! nat (off + 1 + int (length w)) = c"
    "0 \<le> off + 1 + int (length w)" "off + 1 + int (length w) < len" "len \<le> int (length mem)"
    using assms(1) by (auto simp: placed_append placed_Cons placed_Nil)
  have "buffer_skip_whitespace mem len (off + 1) = Some (off + 1 + int (length w))"
    by (rule skip_blank [OF assms(2) p(1) assms(3)])
  moreover have "peek mem len (off + 1 + int (length w)) = Some (Some c)"
    using p by simp
  ultimately show ?thesis using assms(4) by (simp add: open_container_def)
qed

text \<open>The text of the elements behind the white space in front of the first one.\<close>

definition reads_list :: "(byte list \<Rightarrow> bool) \<Rightarrow> byte list \<Rightarrow> byte \<Rightarrow> bool" where
  "reads_list rd t close \<longleftrightarrow> rd t \<and> (\<exists>w c r. t = w @ c # r \<and> blank w \<and> \<not> c \<le> 32 \<and> c \<noteq> close \<and> rd (c # r))"

lemma reads_listI:
  "(\<And>w. blank w \<Longrightarrow> rd (w @ c # r)) \<Longrightarrow> blank w \<Longrightarrow> \<not> c \<le> 32 \<Longrightarrow> c \<noteq> close \<Longrightarrow> reads_list rd (w @ c # r) close"
  unfolding reads_list_def by (metis append_Nil blank_def empty_iff list.set(1))

lemma container_text:
  assumes p: "placed mem len off (b # t @ [close])" and "reads_list rd t close"
    and rd: "\<And>t off'. rd t \<Longrightarrow> placed mem len (off' + 1) (t @ [close]) \<Longrightarrow> off \<le> off' + 1 \<Longrightarrow>
      run off' = Some (True, f (off' + int (length t)), off' + int (length t) + 2, d)"
  shows "\<exists>off'. open_container mem len close off = Some (Opened_first off')
    \<and> run off' = Some (True, f (off + int (length t)), off + int (length t) + 2, d)"
proof -
  obtain w c r where t: "t = w @ c # r" "blank w" "\<not> c \<le> 32" "c \<noteq> close" "rd (c # r)"
    using assms(2) by (auto simp: reads_list_def)
  have "open_container mem len close off = Some (Opened_first (off + int (length w)))"
    by (rule opens_first [of mem len off b w c "r @ [close]"]) (use p t in auto)
  moreover have "placed mem len (off + int (length w) + 1) ((c # r) @ [close])"
    using p t(1) by (auto simp: placed_append placed_Cons placed_Nil algebra_simps)
  from rd [OF t(5) this]
  have "run (off + int (length w)) = Some (True, f (off + int (length t)), off + int (length t) + 2, d)"
    by (simp add: t(1) ac_simps)
  ultimately show ?thesis by blast
qed

lemma container_byte:
  assumes "placed mem len off (b # t)" "keyword mem len off = Some None" "d + int (Suc n) \<le> LITE_CJSON_NESTING_LIMIT"
  shows "b = 0x5B \<Longrightarrow> parse_run fl mem len Value item off d =
      (open_container mem len 0x5D off \<bind> (\<lambda>r. case r of
         Opened_empty off' \<Rightarrow> close_container mem cJSON_Array off (item\<lparr>cj_size := 0\<rparr>) off' (d + 1)
       | Opened_nothing off' \<Rightarrow> Some (False, item\<lparr>cj_size := 0\<rparr>, off', d + 1)
       | Opened_first off' \<Rightarrow> parse_run fl mem len (Elements off) (item\<lparr>cj_size := 0\<rparr>) off' (d + 1)))"
    and "b = 0x7B \<Longrightarrow> parse_run fl mem len Value item off d =
      (open_container mem len 0x7D off \<bind> (\<lambda>r. case r of
         Opened_empty off' \<Rightarrow> close_container mem cJSON_Object off (item\<lparr>cj_size := 0\<rparr>) off' (d + 1)
       | Opened_nothing off' \<Rightarrow> Some (False, item\<lparr>cj_size := 0\<rparr>, off', d + 1)
       | Opened_first off' \<Rightarrow> parse_run fl mem len (Members off) (item\<lparr>cj_size := 0\<rparr>) off' (d + 1)))"
  using assms by (subst parse_run.simps; simp add: placed_Cons is_digit_def Let_def)+

lemma reads_empty_container:
  assumes "blank w" "b = 0x5B \<and> close = 0x5D \<and> j = JArr [] \<or> b = 0x7B \<and> close = 0x7D \<and> j = JObj []"
    and kw: "value_text (Suc n) j (b # w @ [close])"
  shows "reads_value fl (Suc n) j (b # w @ [close])"
  unfolding reads_value_def
proof (intro allI impI, elim conjE)
  fix mem len off item d
  assume p: "placed mem len off (b # w @ [close])" and d: "d + int (Suc n) \<le> LITE_CJSON_NESTING_LIMIT"
  have "keyword mem len off = Some None"
    using parse_value_leaf [OF p kw] assms(2) by auto
  note c = container_byte [OF p this d, of fl item]
  have "open_container mem len close off = Some (Opened_empty (off + 1 + int (length w)))"
    using reads_empty [OF assms(1) _ p] assms(2) by auto
  then show "parse_run fl mem len Value item off d =
    Some (True, item_for fl j (b # w @ [close]) (drop (nat off) mem) item, off + int (length (b # w @ [close])), d)"
    using c assms(2) placed_len [OF p] by (auto simp: close_container_text [where len = len] close_container_def)
qed

lemma reads_full_array:
  assumes "reads_list (reads_elements fl n js) t 0x5D" "value_text (Suc n) (JArr js) (0x5B # t @ [0x5D])"
  shows "reads_value fl (Suc n) (JArr js) (0x5B # t @ [0x5D])"
  unfolding reads_value_def
proof (intro allI impI, elim conjE)
  fix mem len off item d
  assume p: "placed mem len off (0x5B # t @ [0x5D])" and d: "d + int (Suc n) \<le> LITE_CJSON_NESTING_LIMIT"
  have "keyword mem len off = Some None"
    using parse_value_leaf [OF p assms(2)] by auto
  note c = container_byte(1) [OF p this d refl, of fl item]
  obtain off' where "open_container mem len 0x5D off = Some (Opened_first off')"
    "parse_run fl mem len (Elements off) (item\<lparr>cj_size := 0\<rparr>) off' (d + 1) =
     Some (True, item\<lparr>cj_size := int (length js), cj_type := cJSON_Array, cj_value := Some (drop (nat off) mem),
       cj_value_length := off + int (length t) + 2 - off\<rparr>, off + int (length t) + 2, d)"
    using container_text [OF p assms(1), where run = "\<lambda>o'. parse_run fl mem len (Elements off) (item\<lparr>cj_size := 0\<rparr>) o' (d + 1)"
        and f = "\<lambda>x. item\<lparr>cj_size := int (length js), cj_type := cJSON_Array, cj_value := Some (drop (nat off) mem),
          cj_value_length := x + 2 - off\<rparr>" and d = d] d placed_len [OF p]
    unfolding reads_elements_def by force
  with c show "parse_run fl mem len Value item off d =
    Some (True, item_for fl (JArr js) (0x5B # t @ [0x5D]) (drop (nat off) mem) item, off + int (length (0x5B # t @ [0x5D])), d)"
    by simp
qed

lemma reads_full_object:
  assumes "reads_list (reads_members fl n ms) t 0x7D" "value_text (Suc n) (JObj ms) (0x7B # t @ [0x7D])"
  shows "reads_value fl (Suc n) (JObj ms) (0x7B # t @ [0x7D])"
  unfolding reads_value_def
proof (intro allI impI, elim conjE)
  fix mem len off item d
  assume p: "placed mem len off (0x7B # t @ [0x7D])" and d: "d + int (Suc n) \<le> LITE_CJSON_NESTING_LIMIT"
  have "keyword mem len off = Some None"
    using parse_value_leaf [OF p assms(2)] by auto
  note c = container_byte(2) [OF p this d refl, of fl item]
  obtain off' where "open_container mem len 0x7D off = Some (Opened_first off')"
    "parse_run fl mem len (Members off) (item\<lparr>cj_size := 0\<rparr>) off' (d + 1) =
     Some (True, item\<lparr>cj_size := int (length ms), cj_type := cJSON_Object, cj_value := Some (drop (nat off) mem),
       cj_value_length := off + int (length t) + 2 - off\<rparr>, off + int (length t) + 2, d)"
    using container_text [OF p assms(1), where run = "\<lambda>o'. parse_run fl mem len (Members off) (item\<lparr>cj_size := 0\<rparr>) o' (d + 1)"
        and f = "\<lambda>x. item\<lparr>cj_size := int (length ms), cj_type := cJSON_Object, cj_value := Some (drop (nat off) mem),
          cj_value_length := x + 2 - off\<rparr>" and d = d] d placed_len [OF p]
    unfolding reads_members_def by force
  with c show "parse_run fl mem len Value item off d =
    Some (True, item_for fl (JObj ms) (0x7B # t @ [0x7D]) (drop (nat off) mem) item, off + int (length (0x7B # t @ [0x7D])), d)"
    by simp
qed

lemma texts_read:
  "value_text n j v \<Longrightarrow> reads_value fl n j v"
  "elements_text n js t \<Longrightarrow> reads_list (reads_elements fl n js) t 0x5D"
  "members_text n ms t' \<Longrightarrow> reads_list (reads_members fl n ms) t' 0x7D"
proof (induction rule: value_text_elements_text_members_text.inducts)
  case (null n)
  show ?case unfolding reads_value_def
    by (subst parse_run.simps) (auto simp: parse_value_leaf [OF _ value_text_elements_text_members_text.null] dest: placed_len)
next
  case (false n)
  show ?case unfolding reads_value_def
    by (subst parse_run.simps) (auto simp: parse_value_leaf [OF _ value_text_elements_text_members_text.false] dest: placed_len)
next
  case (true n)
  show ?case unfolding reads_value_def
    by (subst parse_run.simps) (auto simp: parse_value_leaf [OF _ value_text_elements_text_members_text.true] dest: placed_len)
next
  case (number s n)
  then have "value_text n (JNum s) s" by (rule value_text_elements_text_members_text.number)
  from number obtain c r where cr: "s = c # r" "c = 0x2D \<or> is_digit c" by (auto simp: number_text_iff)
  then have c: "s = c # r" "c = 0x2D \<or> is_digit c" "c \<noteq> 0x22" by (auto simp: is_digit_def)
  show ?case unfolding reads_value_def
  proof (intro allI impI, elim conjE)
    fix mem len off item d
    assume p: "placed mem len off s" "stops mem len (off + int (length s))"
    then have "peek mem len off = Some (Some c)" using c(1) by (simp add: placed_Cons)
    moreover have "keyword mem len off = Some None"
      using parse_value_leaf [OF p(1) \<open>value_text n (JNum s) s\<close>] by simp
    ultimately show "parse_run fl mem len Value item off d =
        Some (True, item_for fl (JNum s) s (drop (nat off) mem) item, off + int (length s), d)"
      using parse_number_text [OF p(1) number p(2), of fl item] c(2,3) by (subst parse_run.simps) auto
  qed
next
  case (str s n)
  then have v: "value_text n (JStr s) (0x22 # s @ [0x22])" by (rule value_text_elements_text_members_text.str)
  show ?case unfolding reads_value_def
  proof (intro allI impI, elim conjE)
    fix mem len off item d
    assume p: "placed mem len off (0x22 # s @ [0x22])"
    then have "peek mem len off = Some (Some 0x22)" by (simp add: placed_Cons)
    moreover have "keyword mem len off = Some None" using parse_value_leaf [OF p v] by simp
    ultimately show "parse_run fl mem len Value item off d =
        Some (True, item_for fl (JStr s) (0x22 # s @ [0x22]) (drop (nat off) mem) item, off + int (length (0x22 # s @ [0x22])), d)"
      using parse_string_text [OF p str, of item fl "0x22 # s @ [0x22]"] by (subst parse_run.simps) auto
  qed
next
  case (empty_array w n)
  then show ?case by (intro reads_empty_container) (auto intro: value_text_elements_text_members_text.empty_array)
next
  case (array n js t)
  then show ?case by (intro reads_full_array) (auto intro: value_text_elements_text_members_text.array)
next
  case (empty_object w n)
  then show ?case by (intro reads_empty_container) (auto intro: value_text_elements_text_members_text.empty_object)
next
  case (object n ms t)
  then show ?case by (intro reads_full_object) (auto intro: value_text_elements_text_members_text.object)
next
  case (one_element w1 n j v w2)
  obtain c r where "v = c # r" "\<not> c \<le> 32" "c \<noteq> 0x5D" using value_text_hd [OF one_element(2)] by blast
  then show ?case
    using reads_listI [of "reads_elements fl n [j]" c "r @ w2" w1 "0x5D"] reads_one_element [OF one_element(4,2) _ one_element(3)]
      one_element(1) by auto
next
  case (more_elements w1 n j v w2 js t)
  obtain c r where "v = c # r" "\<not> c \<le> 32" "c \<noteq> 0x5D" using value_text_hd [OF more_elements(2)] by blast
  moreover have "reads_elements fl n js t" using more_elements by (simp add: reads_list_def)
  ultimately show ?case
    using reads_listI [of "reads_elements fl n (j # js)" c "r @ w2 @ 0x2C # t" w1 "0x5D"]
      reads_more_elements [OF more_elements(5,2) _ more_elements(3)] more_elements(1) by auto
next
  case (one_member w1 k w2 w3 n j v w4)
  show ?case
    by (rule reads_listI) (use reads_one_member [OF one_member(7,5) _ one_member(3,4,6,2)] one_member(1) in auto)
next
  case (more_members w1 k w2 w3 n j v w4 ms t)
  have "reads_members fl n ms t" using more_members by (simp add: reads_list_def)
  then show ?case
    by (intro reads_listI) (use reads_more_members [OF more_members(8,5) _ more_members(3,4,6,2)] more_members(1) in auto)
qed

section \<open>Parsing a text\<close>

lemma no_bom: "\<not> c \<le> 32 \<Longrightarrow> c \<noteq> 0xEF \<Longrightarrow> blank w \<Longrightarrow> take 3 (w @ c # r) \<noteq> [0xEF, 0xBB, 0xBF]"
  by (cases w) (auto simp: blank_def numeral_3_eq_3)

lemma value_text_no_bom: "value_text n j (c # r) \<Longrightarrow> c \<noteq> 0xEF"
  by (cases rule: value_text.cases) (auto simp: ascii_def number_text_iff is_digit_def word_le_nat_alt)

lemma skip_bom_text:
  assumes "blank w" "\<not> c \<le> 32" "c \<noteq> 0xEF" "len \<le> int (length (w @ c # r))"
  shows "skip_utf8_bom (w @ c # r) len 0 = Some 0"
proof (cases "4 < len")
  case True
  have "text_at (w @ c # r) 0 [0xEF, 0xBB, 0xBF] = Some (take 3 (w @ c # r) = [0xEF, 0xBB, 0xBF])"
    using True assms(4) text_at_Some [of 0 "[0xEF, 0xBB, 0xBF]" "w @ c # r"] by (simp add: numeral_3_eq_3)
  then show ?thesis
    using True no_bom [OF assms(2,3,1)] by (simp add: skip_utf8_bom_def)
qed (simp add: skip_utf8_bom_def)

lemma parse_text_lemma:
  assumes v: "value_text n j s" "int n \<le> LITE_CJSON_NESTING_LIMIT" and w: "blank w" "blank w'"
  shows "lite_cjson_parse fl (Some (w @ s @ w' @ rest)) (int (length (w @ s @ w'))) item =
    Some (0, item_for fl j s (s @ w' @ rest) item)"
proof -
  obtain c r where c: "s = c # r" "\<not> c \<le> 32" "c \<noteq> 0xEF"
    using value_text_hd [OF v(1)] value_text_no_bom v(1) by blast
  let ?mem = "w @ s @ w' @ rest" and ?len = "int (length (w @ s @ w'))"
  have p: "placed ?mem ?len (int (length w)) s" "placed ?mem ?len 0 (w @ [c])" "placed ?mem ?len 0 w"
    using c(1) by (auto simp: placed_def)
  have "skip_utf8_bom ?mem ?len 0 = Some 0"
    using skip_bom_text [OF w(1) c(2,3), of ?len "r @ w' @ rest"] c(1) by simp
  moreover have "buffer_skip_whitespace ?mem ?len 0 = Some (int (length w))"
    using skip_blank [OF w(1) p(2) c(2)] by simp
  moreover have "stops ?mem ?len (int (length w) + int (length s))"
  proof (cases w')
    case (Cons b w'')
    then have "?mem ! nat (int (length w) + int (length s)) = b" by (simp add: nth_append nat_add_distrib)
    then show ?thesis using Cons w(2) by (auto simp: stops_def blank_def number_char_def is_digit_def word_le_nat_alt)
  qed (simp add: stops_def)
  with reads_valueD [OF texts_read(1) [OF v(1)] p(1), of 0 fl item] v(2)
  have "parse_run fl ?mem ?len Value item (int (length w)) 0 =
      Some (True, item_for fl j s (s @ w' @ rest) item, int (length w) + int (length s), 0)" by simp
  ultimately show ?thesis
    using c(1) by (simp add: lite_cjson_parse_def parse_value_def)
qed

lemma unclosed_lemma:
  assumes v: "value_text n (JArr js) s" "int n < LITE_CJSON_NESTING_LIMIT"
  shows "lite_cjson_parse fl (Some (0x5B # s)) (int (length s) + 1) item =
    Some (0, item\<lparr>cj_size := 1, cj_type := cJSON_Array, cj_value := Some (0x5B # s), cj_value_length := int (length s) + 1\<rparr>)"
proof -
  let ?mem = "0x5B # s" and ?len = "int (length s) + 1"
  from v(1) obtain t where s: "s = 0x5B # t @ [0x5D]" by cases auto
  have p: "placed ?mem ?len 0 (0x5B # [] @ 0x5B # t @ [0x5D])" "placed ?mem ?len 1 s" "placed ?mem ?len 0 [0x5B]"
    by (auto simp: placed_def s)
  have leaf: "keyword ?mem ?len 0 = Some None"
    using p(3) by (auto simp: keyword_def literal_Some ascii_def s)
  have o: "open_container ?mem ?len 0x5D 0 = Some (Opened_first 0)"
    using opens_first [OF p(1), of "0x5D"] by (simp add: blank_def)
  have skip: "buffer_skip_whitespace ?mem ?len 1 = Some 1"
    using skip_blank [of "[]" ?mem ?len 1 "0x5B"] p(2) by (simp add: blank_def placed_Cons s placed_append placed_Nil)
  have inner: "parse_run fl ?mem ?len Value cjson_zero 1 1 =
      Some (True, item_for fl (JArr js) s s cjson_zero, ?len, 1)"
    using reads_valueD [OF texts_read(1) [OF v(1)] p(2), of 1 fl cjson_zero] v(2)
    by (simp add: stops_def add.commute)
  have stepped: "buffer_skip_whitespace ?mem ?len ?len = Some (int (length s))"
    by (simp add: buffer_skip_whitespace_def skip_loop.simps)
  have "?mem ! length s = 0x5D" by (simp add: s nth_append)
  then have lastc: "peek ?mem ?len (int (length s)) = Some (Some 0x5D)"
    by (simp only: peek_def byte_at_def nat_int) simp
  have "next_element fl ?mem ?len 0 1 = Some (True, item_for fl (JArr js) s s cjson_zero, int (length s), 1)"
    using skip inner stepped by (simp add: next_element_def parse_value_def)
  with lastc have "parse_run fl ?mem ?len (Elements 0) (item\<lparr>cj_size := 0\<rparr>) 0 1 =
      Some (True, item\<lparr>cj_size := 1, cj_type := cJSON_Array, cj_value := Some ?mem, cj_value_length := ?len\<rparr>, ?len, 0)"
    by (simp add: parse_run_Elements close_container_def)
  with container_byte(1) [OF p(3) leaf, of 0 0 fl item] o
  have "parse_run fl ?mem ?len Value item 0 0 =
      Some (True, item\<lparr>cj_size := 1, cj_type := cJSON_Array, cj_value := Some ?mem, cj_value_length := ?len\<rparr>, ?len, 0)"
    by (simp add: LITE_CJSON_NESTING_LIMIT_def)
  moreover have "skip_utf8_bom ?mem ?len 0 = Some 0"
    using skip_bom_text [of "[]" "0x5B" ?len s] by (simp add: blank_def)
  moreover have "buffer_skip_whitespace ?mem ?len 0 = Some 0"
    using skip_blank [of "[]" ?mem ?len 0 "0x5B"] p(3) by (simp add: blank_def)
  ultimately show ?thesis
    by (simp add: lite_cjson_parse_def parse_value_def)
qed

section \<open>Looking items up\<close>

text \<open>An item that spans a text of a value, as parsing and looking up give it.\<close>

definition spans :: "(rat \<Rightarrow> rat) \<Rightarrow> json \<Rightarrow> lite_cjson \<Rightarrow> bool" where
  "spans fl j item \<longleftrightarrow>
     (\<exists>n s rest item'. int n \<le> LITE_CJSON_NESTING_LIMIT \<and> value_text n j s \<and> item = item_for fl j s (s @ rest) item')"

text \<open>A lookup finds the value, or nothing.\<close>

definition finds :: "(rat \<Rightarrow> rat) \<Rightarrow> json option \<Rightarrow> lite_cjson option \<Rightarrow> bool" where
  "finds fl jo r \<longleftrightarrow> (case jo of None \<Rightarrow> r = None | Some j \<Rightarrow> \<exists>item. r = Some item \<and> spans fl j item)"

lemma spans_placed:
  assumes "value_text n j v" "placed mem len vo v" "int n \<le> LITE_CJSON_NESTING_LIMIT"
  shows "spans fl j (item_for fl j v (drop (nat vo) mem) item)"
proof -
  obtain rest where m: "drop (nat vo) mem = v @ rest"
    using assms(2) by (metis append_take_drop_id placed_def)
  show ?thesis unfolding m spans_def using assms(1,3) by blast
qed

inductive_cases elements_textE: "elements_text n js t"
inductive_cases members_textE: "members_text n ms t"

text \<open>Both forms of a list: what follows the first entry is empty, or a comma and the text of the others.\<close>

definition more :: "('a list \<Rightarrow> byte list \<Rightarrow> bool) \<Rightarrow> 'a list \<Rightarrow> byte list \<Rightarrow> bool" where
  "more txt xs u \<longleftrightarrow> u = [] \<and> xs = [] \<or> (\<exists>t. u = 0x2C # t \<and> txt xs t)"

lemma elements_text_split:
  assumes "elements_text n js t"
  obtains w1 j v w2 js' u where "js = j # js'" "t = w1 @ v @ w2 @ u" "blank w1" "value_text n j v" "blank w2"
    "more (elements_text n) js' u"
proof -
  from assms show thesis
  proof (rule elements_textE)
    fix w1 j' v w2
    assume "js = [j']" "t = w1 @ v @ w2" "blank w1" "value_text n j' v" "blank w2"
    then show thesis using that [of j' "[]" w1 v w2 "[]"] by (simp add: more_def)
  next
    fix w1 j' v w2 js' t'
    assume "js = j' # js'" "t = w1 @ v @ w2 @ 0x2C # t'" "blank w1" "value_text n j' v" "blank w2" "elements_text n js' t'"
    then show thesis using that [of j' js' w1 v w2 "0x2C # t'"] by (simp add: more_def)
  qed
qed

lemma elements_text_build:
  "blank w1 \<Longrightarrow> value_text n j v \<Longrightarrow> blank w2 \<Longrightarrow> more (elements_text n) js u \<Longrightarrow> elements_text n (j # js) (w1 @ v @ w2 @ u)"
  using value_text_elements_text_members_text.one_element [of w1 n j v w2]
    value_text_elements_text_members_text.more_elements [of w1 n j v w2 js "tl u"]
  by (auto simp: more_def)

lemma members_text_split:
  assumes "members_text n ms t"
  obtains w1 k w2 w3 j v w4 ms' u where "ms = (k, j) # ms'"
    "t = w1 @ 0x22 # k @ 0x22 # w2 @ 0x3A # w3 @ v @ w4 @ u"
    "blank w1" "string_text k" "blank w2" "blank w3" "value_text n j v" "blank w4" "more (members_text n) ms' u"
proof -
  from assms show thesis
  proof (rule members_textE)
    fix w1 k w2 w3 j v w4
    assume "ms = [(k, j)]" "t = w1 @ 0x22 # k @ 0x22 # w2 @ 0x3A # w3 @ v @ w4" "blank w1" "string_text k" "blank w2"
      "blank w3" "value_text n j v" "blank w4"
    then show thesis using that [of k j "[]" w1 w2 w3 v w4 "[]"] by (simp add: more_def)
  next
    fix w1 k w2 w3 j v w4 ms' t'
    assume "ms = (k, j) # ms'" "t = w1 @ 0x22 # k @ 0x22 # w2 @ 0x3A # w3 @ v @ w4 @ 0x2C # t'" "blank w1" "string_text k"
      "blank w2" "blank w3" "value_text n j v" "blank w4" "members_text n ms' t'"
    then show thesis using that [of k j ms' w1 w2 w3 v w4 "0x2C # t'"] by (simp add: more_def)
  qed
qed

lemma members_text_build:
  "blank w1 \<Longrightarrow> string_text k \<Longrightarrow> blank w2 \<Longrightarrow> blank w3 \<Longrightarrow> value_text n j v \<Longrightarrow> blank w4 \<Longrightarrow>
   more (members_text n) ms u \<Longrightarrow> members_text n ((k, j) # ms) (w1 @ 0x22 # k @ 0x22 # w2 @ 0x3A # w3 @ v @ w4 @ u)"
  using value_text_elements_text_members_text.one_member [of w1 k w2 w3 n j v w4]
    value_text_elements_text_members_text.more_members [of w1 k w2 w3 n j v w4 ms "tl u"]
  by (auto simp: more_def)

lemma elements_text_first:
  assumes "elements_text n js t"
  shows "\<exists>w c r. t = w @ c # r \<and> blank w \<and> \<not> c \<le> 32 \<and> c \<noteq> 0x5D \<and> elements_text n js (c # r)"
proof -
  obtain w1 j v w2 js' u where t: "js = j # js'" "t = w1 @ v @ w2 @ u" "blank w1" "value_text n j v" "blank w2"
    "more (elements_text n) js' u"
    using assms by (rule elements_text_split)
  obtain c r where v: "v = c # r" "\<not> c \<le> 32" "c \<noteq> 0x5D" using value_text_hd [OF t(4)] by blast
  have "elements_text n js ([] @ v @ w2 @ u)"
    unfolding t(1) by (rule elements_text_build) (use t in \<open>auto simp: blank_def\<close>)
  then show ?thesis using v t(2,3) by auto
qed

lemma members_text_first:
  assumes "members_text n ms t"
  shows "\<exists>w c r. t = w @ c # r \<and> blank w \<and> \<not> c \<le> 32 \<and> c \<noteq> 0x7D \<and> members_text n ms (c # r)"
proof -
  obtain w1 k w2 w3 j v w4 ms' u where t: "ms = (k, j) # ms'"
    "t = w1 @ 0x22 # k @ 0x22 # w2 @ 0x3A # w3 @ v @ w4 @ u" "blank w1" "string_text k" "blank w2" "blank w3"
    "value_text n j v" "blank w4" "more (members_text n) ms' u"
    using assms by (rule members_text_split)
  have "members_text n ms ([] @ 0x22 # k @ 0x22 # w2 @ 0x3A # w3 @ v @ w4 @ u)"
    unfolding t(1) by (rule members_text_build) (use t in \<open>auto simp: blank_def\<close>)
  moreover have "\<not> (0x22 :: byte) \<le> 32" "(0x22 :: byte) \<noteq> 0x7D" by simp_all
  ultimately show ?thesis
    unfolding t(2) append_Nil using t(3) by blast
qed

lemma array_item_loop_text:
  assumes "elements_text n js t" "placed mem len (off + 1) (t @ [0x5D])" "int n \<le> LITE_CJSON_NESTING_LIMIT" "iter \<le> index"
  shows "\<exists>r. array_item_loop fl mem len index iter off 0 = Some r
    \<and> finds fl (if index - iter < int (length js) then Some (js ! nat (index - iter)) else None) r"
  using assms
proof (induction js arbitrary: t off iter)
  case Nil
  then show ?case by (auto elim: elements_text_split)
next
  case (Cons j js)
  note d = Cons.prems(3)
  from Cons.prems(1) obtain w1 v w2 u where t: "t = w1 @ v @ w2 @ u" "blank w1" "blank w2" "value_text n j v"
    and u: "more (elements_text n) js u"
    by (rule elements_text_split) auto
  define c where "c = (if u = [] then 0x5D else 0x2C :: byte)"
  obtain u' where u': "u @ [0x5D] = c # u'" using u by (auto simp: c_def more_def)
  define vo where "vo = off + 1 + int (length w1)"
  define o' where "o' = vo + int (length v) + int (length w2)"
  have p: "placed mem len (off + 1) (w1 @ v @ w2 @ [c])" "peek mem len o' = Some (Some c)" "placed mem len vo v"
    using Cons.prems(2) unfolding t(1) append_assoc u' o'_def vo_def
    by (simp_all add: placed_append placed_Cons placed_Nil algebra_simps)
  have e: "next_element fl mem len off 0 = Some (True, item_for fl j v (drop (nat vo) mem) cjson_zero, o', 0)"
    by (rule next_element_text [OF texts_read(1) [OF t(4)] t(4) t(2,3) p(1) _ _ vo_def o'_def]) (use d c_def in auto)
  show ?case
  proof (cases "iter = index")
    case True
    then show ?thesis
      using e spans_placed [OF t(4) p(3) d] by (auto simp: array_item_loop.simps [where off = off] finds_def)
  next
    case False
    with Cons.prems(4) have idx: "nat (index - iter) = Suc (nat (index - (iter + 1)))" by auto
    show ?thesis
    proof (cases u)
      case Nil
      with False e p(2) u Cons.prems(4) show ?thesis
        by (auto simp: more_def array_item_loop.simps [where off = off] finds_def c_def)
    next
      case (Cons b t')
      with u have t': "u = 0x2C # t'" "elements_text n js t'" by (auto simp: more_def)
      have "placed mem len (o' + 1) (t' @ [0x5D])"
        using Cons.prems(2) unfolding t(1) t'(1) o'_def vo_def by (auto simp: placed_append placed_Cons placed_Nil algebra_simps)
      from Cons.IH [OF t'(2) this d, of "iter + 1"] False Cons.prems(4) e p(2) t'(1) show ?thesis
        by (auto simp: array_item_loop.simps [where off = off] c_def idx)
    qed
  qed
qed

lemma key_is_text:
  assumes "placed mem len ko (0x22 # k)" "length kk \<le> length key"
  shows "key_is (item_for fl (JStr k) s (drop (nat ko) mem) item) key (int (length kk)) = Some (length k = length kk \<and> take (length kk) key = k)"
proof -
  have "placed mem len (ko + 1) k" "0 \<le> ko" using assms(1) by (auto simp: placed_Cons)
  then have "take (length k) (drop 1 (drop (nat ko) mem)) = k" "length k \<le> length (drop 1 (drop (nat ko) mem))"
    by (auto simp: placed_def nat_add_distrib)
  then show ?thesis
    using assms(2) by (auto simp: key_is_def memcmp_eq_def Let_def)
qed

lemma object_item_loop_text:
  assumes "members_text n ms t" "placed mem len (off + 1) (t @ [0x7D])" "int n \<le> LITE_CJSON_NESTING_LIMIT"
    and key: "take (length kk) key = kk"
  shows "\<exists>r. object_item_loop fl mem len key (int (length kk)) off 0 = Some r \<and> finds fl (map_of ms kk) r"
  using assms(1,2)
proof (induction ms arbitrary: t off)
  case Nil
  then show ?case by (auto elim: members_text_split)
next
  case (Cons m ms)
  note d = assms(3)
  from Cons.prems(1) obtain w1 k w2 w3 j v w4 u where t: "m = (k, j)"
    "t = w1 @ 0x22 # k @ 0x22 # w2 @ 0x3A # w3 @ v @ w4 @ u" "blank w1" "string_text k" "blank w2" "blank w3"
    "value_text n j v" "blank w4" and u: "more (members_text n) ms u"
    by (rule members_text_split) auto
  define c where "c = (if u = [] then 0x7D else 0x2C :: byte)"
  obtain u' where u': "u @ [0x7D] = c # u'" using u by (auto simp: c_def more_def)
  define ko where "ko = off + 1 + int (length w1)"
  define vo where "vo = ko + int (length k) + int (length w2) + int (length w3) + 3"
  define o' where "o' = vo + int (length v) + int (length w4)"
  have p: "placed mem len (off + 1) (w1 @ 0x22 # k @ 0x22 # w2 @ 0x3A # w3 @ v @ w4 @ [c])"
    "peek mem len o' = Some (Some c)" "placed mem len vo v" "placed mem len ko (0x22 # k)"
    using Cons.prems(2) unfolding t(2) append_assoc append_Cons u' o'_def vo_def ko_def
    by (simp_all add: placed_append placed_Cons placed_Nil algebra_simps)
  have e: "next_member fl mem len off 0 = Some (True, item_for fl (JStr k) [] (drop (nat ko) mem) cjson_zero,
      item_for fl j v (drop (nat vo) mem) cjson_zero, o', 0)"
    by (rule next_member_text [OF texts_read(1) [OF t(7)] t(7,3,5,6,8,4) p(1) _ _ ko_def vo_def o'_def]) (use d c_def in auto)
  have "length kk \<le> length key" using key by (metis length_take min.cobounded1)
  from key_is_text [OF p(4) this, of fl "[]" cjson_zero]
  have ki: "key_is (item_for fl (JStr k) [] (drop (nat ko) mem) cjson_zero) key (int (length kk)) = Some (k = kk)"
    using key by auto
  show ?case
  proof (cases "k = kk")
    case True
    then show ?thesis
      using e ki spans_placed [OF t(7) p(3) d, of fl cjson_zero] t(1)
      by (auto simp: object_item_loop.simps [where off = off] finds_def)
  next
    case False
    show ?thesis
    proof (cases u)
      case Nil
      with False e ki p(2) u t(1) show ?thesis
        by (auto simp: more_def object_item_loop.simps [where off = off] finds_def c_def)
    next
      case (Cons b t')
      with u have t': "u = 0x2C # t'" "members_text n ms t'" by (auto simp: more_def)
      have "placed mem len (o' + 1) (t' @ [0x7D])"
        using Cons.prems(2) unfolding t(2) t'(1) o'_def vo_def ko_def
        by (auto simp: placed_append placed_Cons placed_Nil algebra_simps)
      from Cons.IH [OF t'(2) this] False e ki p(2) t'(1) t(1) show ?thesis
        by (auto simp: object_item_loop.simps [where off = off] c_def)
    qed
  qed
qed


lemma by_index_loop_text:
  assumes "members_text n ms t" "placed mem len (off + 1) (t @ [0x7D])" "int n \<le> LITE_CJSON_NESTING_LIMIT" "iter \<le> index"
    "index - iter < int (length ms)"
  shows "\<exists>k v. by_index_loop fl mem len index iter off 0 = Some (Some (k, v))
    \<and> cj_value_length k = int (length (fst (ms ! nat (index - iter))))
    \<and> (\<exists>m. cj_value k = Some m \<and> take (length (fst (ms ! nat (index - iter)))) m = fst (ms ! nat (index - iter)))
    \<and> spans fl (snd (ms ! nat (index - iter))) v"
  using assms(1,2,4,5)
proof (induction ms arbitrary: t off iter)
  case Nil
  then show ?case by auto
next
  case (Cons m ms)
  note d = assms(3)
  from Cons.prems(1) obtain w1 k w2 w3 j v w4 u where t: "m = (k, j)"
    "t = w1 @ 0x22 # k @ 0x22 # w2 @ 0x3A # w3 @ v @ w4 @ u" "blank w1" "string_text k" "blank w2" "blank w3"
    "value_text n j v" "blank w4" and u: "more (members_text n) ms u"
    by (rule members_text_split) auto
  define c where "c = (if u = [] then 0x7D else 0x2C :: byte)"
  obtain u' where u': "u @ [0x7D] = c # u'" using u by (auto simp: c_def more_def)
  define ko where "ko = off + 1 + int (length w1)"
  define vo where "vo = ko + int (length k) + int (length w2) + int (length w3) + 3"
  define o' where "o' = vo + int (length v) + int (length w4)"
  have p: "placed mem len (off + 1) (w1 @ 0x22 # k @ 0x22 # w2 @ 0x3A # w3 @ v @ w4 @ [c])"
    "peek mem len o' = Some (Some c)" "placed mem len vo v" "placed mem len (ko + 1) k" "0 \<le> ko"
    using Cons.prems(2) unfolding t(2) append_assoc append_Cons u' o'_def vo_def ko_def
    by (simp_all add: placed_append placed_Cons placed_Nil algebra_simps)
  have e: "next_member fl mem len off 0 = Some (True, item_for fl (JStr k) [] (drop (nat ko) mem) cjson_zero,
      item_for fl j v (drop (nat vo) mem) cjson_zero, o', 0)"
    by (rule next_member_text [OF texts_read(1) [OF t(7)] t(7,3,5,6,8,4) p(1) _ _ ko_def vo_def o'_def]) (use d c_def in auto)
  show ?case
  proof (cases "iter = index")
    case True
    then show ?thesis
      using e spans_placed [OF t(7) p(3) d, of fl cjson_zero] t(1) p(4,5)
      by (auto simp: by_index_loop.simps [where off = off] placed_def nat_add_distrib)
  next
    case False
    with Cons.prems(3) have idx: "nat (index - iter) = Suc (nat (index - (iter + 1)))" by auto
    then obtain t' where t': "u = 0x2C # t'" "members_text n ms t'"
      using u Cons.prems(4) False by (auto simp: more_def)
    have "placed mem len (o' + 1) (t' @ [0x7D])"
      using Cons.prems(2) unfolding t(2) t'(1) o'_def vo_def ko_def
      by (auto simp: placed_append placed_Cons placed_Nil algebra_simps)
    from Cons.IH [OF t'(2) this, of "iter + 1"] False Cons.prems(3,4) e p(2) t'(1) show ?thesis
      by (auto simp: by_index_loop.simps [where off = off] c_def idx)
  qed
qed

text \<open>The items of arrays and objects that span a text.\<close>

lemma spans_array:
  assumes "spans fl (JArr js) l"
  obtains s m where "cj_type l = cJSON_Array" "cj_size l = int (length js)" "cj_value l = Some m"
    "cj_value_length l = int (length s)" "placed m (int (length s)) 0 s"
    "js = [] \<or> (\<exists>w c r n. s = 0x5B # w @ c # r @ [0x5D] \<and> blank w \<and> \<not> c \<le> 32 \<and> c \<noteq> 0x5D
       \<and> elements_text n js (c # r) \<and> int n \<le> LITE_CJSON_NESTING_LIMIT)"
proof -
  from assms obtain n s rest item' where s: "int n \<le> LITE_CJSON_NESTING_LIMIT" "value_text n (JArr js) s"
    "l = item_for fl (JArr js) s (s @ rest) item'"
    unfolding spans_def by blast
  have "js = [] \<or> (\<exists>w c r n. s = 0x5B # w @ c # r @ [0x5D] \<and> blank w \<and> \<not> c \<le> 32 \<and> c \<noteq> 0x5D
       \<and> elements_text n js (c # r) \<and> int n \<le> LITE_CJSON_NESTING_LIMIT)"
    using s(2)
  proof cases
    case (array n' t)
    then obtain w c r where t: "t = w @ c # r" "blank w" "\<not> c \<le> 32" "c \<noteq> 0x5D" "elements_text n' js (c # r)"
      using elements_text_first by blast
    moreover have "s = 0x5B # w @ c # r @ [0x5D]" "int n' \<le> LITE_CJSON_NESTING_LIMIT"
      using array s(1) t(1) by auto
    ultimately show ?thesis by blast
  qed simp
  then show thesis
    by (intro that [where s = s and m = "s @ rest"]) (simp_all add: s(3) placed_def)
qed

lemma spans_object:
  assumes "spans fl (JObj ms) l"
  obtains s m where "cj_type l = cJSON_Object" "cj_size l = int (length ms)" "cj_value l = Some m"
    "cj_value_length l = int (length s)" "placed m (int (length s)) 0 s"
    "ms = [] \<or> (\<exists>w c r n. s = 0x7B # w @ c # r @ [0x7D] \<and> blank w \<and> \<not> c \<le> 32 \<and> c \<noteq> 0x7D
       \<and> members_text n ms (c # r) \<and> int n \<le> LITE_CJSON_NESTING_LIMIT)"
proof -
  from assms obtain n s rest item' where s: "int n \<le> LITE_CJSON_NESTING_LIMIT" "value_text n (JObj ms) s"
    "l = item_for fl (JObj ms) s (s @ rest) item'"
    unfolding spans_def by blast
  have "ms = [] \<or> (\<exists>w c r n. s = 0x7B # w @ c # r @ [0x7D] \<and> blank w \<and> \<not> c \<le> 32 \<and> c \<noteq> 0x7D
       \<and> members_text n ms (c # r) \<and> int n \<le> LITE_CJSON_NESTING_LIMIT)"
    using s(2)
  proof cases
    case (object n' t)
    then obtain w c r where t: "t = w @ c # r" "blank w" "\<not> c \<le> 32" "c \<noteq> 0x7D" "members_text n' ms (c # r)"
      using members_text_first by blast
    moreover have "s = 0x7B # w @ c # r @ [0x7D]" "int n' \<le> LITE_CJSON_NESTING_LIMIT"
      using object s(1) t(1) by auto
    ultimately show ?thesis by blast
  qed simp
  then show thesis
    by (intro that [where s = s and m = "s @ rest"]) (simp_all add: s(3) placed_def)
qed

definition element :: "json list \<Rightarrow> int \<Rightarrow> json option" where
  "element js i = (if 0 \<le> i \<and> i < int (length js) then Some (js ! nat i) else None)"

fun member :: "json \<Rightarrow> byte list \<Rightarrow> json option" where
  "member (JObj ms) k = map_of ms k"
| "member _ k = None"

lemma array_item_text:
  assumes "spans fl (JArr js) l"
  shows "\<exists>r. lite_cjson_array_item fl (Some l) index (Some out) = Some (give out r) \<and> finds fl (element js index) r"
proof -
  obtain s m where l: "cj_type l = cJSON_Array" "cj_size l = int (length js)" "cj_value l = Some m"
    "cj_value_length l = int (length s)" "placed m (int (length s)) 0 s"
    "js = [] \<or> (\<exists>w c r n. s = 0x5B # w @ c # r @ [0x5D] \<and> blank w \<and> \<not> c \<le> 32 \<and> c \<noteq> 0x5D
       \<and> elements_text n js (c # r) \<and> int n \<le> LITE_CJSON_NESTING_LIMIT)"
    using spans_array [OF assms] by metis
  show ?thesis
  proof (cases "0 \<le> index \<and> index < int (length js)")
    case True
    then obtain w c r n where s: "s = 0x5B # w @ c # r @ [0x5D]" "blank w" "\<not> c \<le> 32" "c \<noteq> 0x5D"
      "elements_text n js (c # r)" "int n \<le> LITE_CJSON_NESTING_LIMIT"
      using l(6) by auto
    have p: "placed m (int (length s)) 0 (0x5B # w @ c # r @ [0x5D])" using l(5) s(1) by simp
    have "open_container m (int (length s)) 0x5D 0 = Some (Opened_first (int (length w)))"
      using opens_first [OF p s(2,3,4)] by simp
    moreover have "byte_at m 0 = Some 0x5B"
      using p by (auto simp: placed_Cons byte_at_def)
    moreover have "placed m (int (length s)) (int (length w) + 1) ((c # r) @ [0x5D])"
      using p by (auto simp: placed_append placed_Cons placed_Nil algebra_simps)
    from array_item_loop_text [OF s(5) this s(6), of 0 index fl] True
    obtain r where "array_item_loop fl m (int (length s)) index 0 (int (length w)) 0 = Some r"
      "finds fl (element js index) r" by (auto simp: element_def)
    ultimately show ?thesis
      using True l(1-4) by (auto simp: lite_cjson_array_item_def)
  next
    case False
    then show ?thesis
      using l by (auto simp: lite_cjson_array_item_def give_def finds_def element_def)
  qed
qed

lemma spans_type: "spans fl j l \<Longrightarrow> (cj_type l = cJSON_Object) = (\<exists>ms. j = JObj ms)"
  "spans fl j l \<Longrightarrow> (cj_type l = cJSON_Array) = (\<exists>js. j = JArr js)" "spans fl j l \<Longrightarrow> \<exists>v. cj_value l = Some v"
  unfolding spans_def by (auto simp: cjson_types; cases j; auto simp: cjson_types)+

lemma object_item_text:
  assumes "spans fl j l" "kk \<noteq> []" "take (length kk) key = kk"
  shows "\<exists>r. object_item fl l key (int (length kk)) = Some r \<and> finds fl (member j kk) r"
proof (cases "\<exists>ms. j = JObj ms \<and> ms \<noteq> []")
  case True
  then obtain ms where j: "j = JObj ms" "ms \<noteq> []" by blast
  then obtain s m where l: "cj_type l = cJSON_Object" "cj_size l = int (length ms)" "cj_value l = Some m"
    "cj_value_length l = int (length s)" "placed m (int (length s)) 0 s"
    "\<exists>w c r n. s = 0x7B # w @ c # r @ [0x7D] \<and> blank w \<and> \<not> c \<le> 32 \<and> c \<noteq> 0x7D
       \<and> members_text n ms (c # r) \<and> int n \<le> LITE_CJSON_NESTING_LIMIT"
    using spans_object [of fl ms l] assms(1) by metis
  then obtain w c r n where s: "s = 0x7B # w @ c # r @ [0x7D]" "blank w" "\<not> c \<le> 32" "c \<noteq> 0x7D"
    "members_text n ms (c # r)" "int n \<le> LITE_CJSON_NESTING_LIMIT" by blast
  have p: "placed m (int (length s)) 0 (0x7B # w @ c # r @ [0x7D])" using l(5) s(1) by simp
  have "open_container m (int (length s)) 0x7D 0 = Some (Opened_first (int (length w)))"
    using opens_first [OF p s(2,3,4)] by simp
  moreover have "peek m (int (length s)) 0 = Some (Some 0x7B)"
    using p by (auto simp: placed_Cons)
  moreover have "placed m (int (length s)) (int (length w) + 1) ((c # r) @ [0x7D])"
    using p by (auto simp: placed_append placed_Cons placed_Nil algebra_simps)
  from object_item_loop_text [OF s(5) this s(6) assms(3), of fl]
  obtain r where "object_item_loop fl m (int (length s)) key (int (length kk)) (int (length w)) 0 = Some r"
    "finds fl (map_of ms kk) r" by blast
  ultimately show ?thesis
    using assms(2) l(1-4) j by (auto simp: object_item_def)
next
  case False
  have "object_item fl l key (int (length kk)) = Some None"
  proof (cases "\<exists>ms. j = JObj ms")
    case True
    with False have "spans fl (JObj []) l" using assms(1) by auto
    then obtain m where "cj_value l = Some m" "cj_size l = 0" by (rule spans_object) auto
    then show ?thesis by (simp add: object_item_def)
  next
    case False
    then show ?thesis using spans_type [OF assms(1)] by (auto simp: object_item_def)
  qed
  with False show ?thesis by (cases j) (auto simp: finds_def)
qed

section \<open>Paths\<close>

text \<open>A step names a member, and an element of it when it ends in an index.\<close>

type_synonym path_step = "byte list \<times> byte list option"

definition plain :: "byte list \<Rightarrow> bool" where
  "plain k \<longleftrightarrow> k \<noteq> [] \<and> (\<forall>c \<in> set k. c \<noteq> 0 \<and> c \<noteq> 0x2E \<and> c \<noteq> 0x5B \<and> c \<noteq> 0x5D)"

definition index_text :: "byte list \<Rightarrow> bool" where
  "index_text ds \<longleftrightarrow> ds \<noteq> [] \<and> (\<forall>c \<in> set ds. is_digit c) \<and> length ds \<le> 10 \<and> digits_value ds \<le> INT_MAX"

fun step_ok :: "path_step \<Rightarrow> bool" where
  "step_ok (k, None) = plain k"
| "step_ok (k, Some ds) = (plain k \<and> index_text ds)"

fun step_text :: "path_step \<Rightarrow> byte list" where
  "step_text (k, None) = k"
| "step_text (k, Some ds) = k @ 0x5B # ds @ [0x5D]"

fun path_text :: "path_step list \<Rightarrow> byte list" where
  "path_text [] = []"
| "path_text [s] = step_text s"
| "path_text (s # p) = step_text s @ 0x2E # path_text p"

fun go_step :: "json \<Rightarrow> path_step \<Rightarrow> json option" where
  "go_step j (k, None) = member j k"
| "go_step j (k, Some ds) = (case member j k of Some (JArr js) \<Rightarrow> element js (digits_value ds) | _ \<Rightarrow> None)"

fun resolve :: "json \<Rightarrow> path_step list \<Rightarrow> json option" where
  "resolve j [] = Some j"
| "resolve j (s # p) = (case go_step j s of None \<Rightarrow> None | Some v \<Rightarrow> resolve v p)"

lemma digit_plain: "is_digit c \<Longrightarrow> c \<noteq> 0 \<and> c \<noteq> 0x2E \<and> c \<noteq> 0x5B \<and> c \<noteq> 0x5D \<and> c \<noteq> 0x2B \<and> c \<noteq> 0x2D \<and> \<not> is_space c"
  by (auto simp: is_digit_def is_space_def word_le_nat_alt)

lemma bracket_loop_plain:
  assumes "i + n \<le> length key" "\<forall>x < n. key ! (i + x) \<noteq> 0x5B \<and> key ! (i + x) \<noteq> 0x5D"
  shows "bracket_loop key (n + m) i deep pre suf = bracket_loop key m (i + n) deep pre suf"
  using assms
proof (induction n arbitrary: i)
  case (Suc n)
  from Suc.prems(2) have "key ! i \<noteq> 0x5B \<and> key ! i \<noteq> 0x5D" by (metis add_0_right zero_less_Suc)
  moreover have "\<forall>x < n. key ! (Suc i + x) \<noteq> 0x5B \<and> key ! (Suc i + x) \<noteq> 0x5D"
    using Suc.prems(2) by (metis Suc_mono add_Suc_shift)
  then have "bracket_loop key (n + m) (Suc i) deep pre suf = bracket_loop key m (Suc i + n) deep pre suf"
    using Suc.prems(1) by (intro Suc.IH) auto
  ultimately show ?case using Suc.prems(1) by simp
qed simp

lemma index_none:
  assumes "plain k"
  shows "lite_cjson_key_array_index (k @ rest) (int (length k)) = Some None"
proof -
  have "bracket_loop (k @ rest) (length k + 0) 0 0 None None = bracket_loop (k @ rest) 0 (0 + length k) 0 None None"
    by (rule bracket_loop_plain) (use assms in \<open>auto simp: plain_def nth_append\<close>)
  then show ?thesis by (simp add: lite_cjson_key_array_index_def)
qed

lemma digits_value_nonneg: "\<forall>c \<in> set cs. is_digit c \<Longrightarrow> 0 \<le> digits_value cs"
proof (induction cs rule: rev_induct)
  case (snoc c cs)
  then have "uint c \<ge> 48" by (auto simp: is_digit_def word_le_def)
  with snoc show ?case by (simp add: digits_value_def)
qed (simp add: digits_value_def)

lemma atoi_index:
  assumes "index_text ds"
  shows "atoi ds = Some (digits_value ds)"
proof -
  obtain c r where c: "ds = c # r" "is_digit c" using assms by (cases ds) (auto simp: index_text_def)
  have hd: "dropWhile is_space ds = ds" "sign_len ds = 0" "\<not> is_neg ds"
    using c digit_plain [of c] by (auto simp: sign_len_def is_neg_def)
  have tw: "takeWhile is_digit ds = ds"
    using assms by (simp add: index_text_def takeWhile_eq_all_conv)
  have "0 \<le> digits_value ds" "digits_value ds \<le> INT_MAX"
    using assms digits_value_nonneg [of ds] by (auto simp: index_text_def)
  then show ?thesis by (simp add: atoi_def INT_MIN_def Let_def tw hd)
qed

lemma index_some:
  assumes "plain k" "index_text ds"
  shows "lite_cjson_key_array_index (k @ 0x5B # ds @ 0x5D # rest) (int (length k + length ds + 2)) =
    Some (Some (int (length k), int (length k + length ds + 2), digits_value ds))"
proof -
  let ?m = "k @ 0x5B # ds @ 0x5D # rest"
  have ds: "\<forall>c \<in> set ds. c \<noteq> 0x5B \<and> c \<noteq> 0x5D" "ds \<noteq> []" "length ds \<le> 10"
    using assms(2) digit_plain by (auto simp: index_text_def)
  have at: "?m ! (length k + 1 + x) = ds ! x" if "x < length ds" for x
    using that by (simp add: nth_append)
  have "bracket_loop ?m (length k + Suc (length ds + 1)) 0 0 None None = bracket_loop ?m (Suc (length ds + 1)) (0 + length k) 0 None None"
    by (rule bracket_loop_plain) (use assms in \<open>auto simp: plain_def nth_append\<close>)
  also have "\<dots> = bracket_loop ?m (length ds + 1) (length k + 1) 1 (Some (int (length k))) None"
    by (simp add: nth_append)
  also have "\<dots> = bracket_loop ?m 1 (length k + 1 + length ds) 1 (Some (int (length k))) None"
    by (rule bracket_loop_plain) (use ds(1) at in auto)
  also have "\<dots> = Some (Some (Some (int (length k)), Some (int (length k + 1 + length ds))))"
  proof -
    have "byte_at ?m (int (length k + 1 + length ds)) = Some 0x5D"
      unfolding byte_at_def nat_int by (simp add: nth_append)
    moreover have "byte_at ?m (int (length k + 1 + length ds) - 1) = Some (ds ! (length ds - 1))"
      using at [of "length ds - 1"] ds(2) by (cases ds) (auto simp: byte_at_def nat_add_distrib add.commute)
    moreover have "ds ! (length ds - 1) \<noteq> 0x5B" using ds by (metis last_conv_nth last_in_set)
    ultimately show ?thesis by (simp only: One_nat_def bracket_loop.simps Option.bind.simps) simp
  qed
  finally have b0: "bracket_loop ?m (length k + Suc (length ds + 1)) 0 0 None None =
      Some (Some (Some (int (length k)), Some (int (length k + 1 + length ds))))" .
  have "nat (int (length k + length ds + 2)) = length k + Suc (length ds + 1)" by simp
  with b0 have b: "bracket_loop ?m (nat (int (length k + length ds + 2))) 0 0 None None =
      Some (Some (Some (int (length k)), Some (int (length k + 1 + length ds))))" by (simp only:)
  have "take (length ds) (drop (length k + 1) ?m) = ds" by simp
  moreover have "nat (int (length k + 1 + length ds) - int (length k) - 1) = length ds"
    "nat (int (length k) + 1) = length k + 1" by auto
  ultimately show ?thesis
    unfolding lite_cjson_key_array_index_def b using ds(3) atoi_index [OF assms(2)] by simp
qed

lemma strchr_hit: "\<forall>x \<in> set s. x \<noteq> c \<and> x \<noteq> 0 \<Longrightarrow> strchr (s @ c # rest) c = Some (Some (int (length s)))"
  by (simp add: strchr_def takeWhile_append Let_def)

lemma strchr_miss: "\<forall>x \<in> set s. x \<noteq> c \<and> x \<noteq> 0 \<Longrightarrow> c \<noteq> 0 \<Longrightarrow> strchr (s @ 0 # rest) c = Some None"
  by (simp add: strchr_def takeWhile_append Let_def)

lemma step_text_chars: "step_ok s \<Longrightarrow> \<forall>x \<in> set (step_text s). x \<noteq> 0x2E \<and> x \<noteq> 0"
  using digit_plain by (cases s rule: step_text.cases) (auto simp: plain_def index_text_def)

lemma path_step_text:
  assumes "step_ok s" "from_at key i = Some (step_text s @ rest)" "spans fl j lite"
    and delim: "strchr (step_text s @ rest) 0x2E = Some delim"
    and klen: "(case delim of Some d \<Rightarrow> d | None \<Rightarrow> key_len - i) = int (length (step_text s))"
  shows "\<exists>r. finds fl (go_step j s) r \<and> path_loop fl key key_len i lite =
    (case r of None \<Rightarrow> Some None
     | Some item \<Rightarrow> if delim = None then Some (Some item) else path_loop fl key key_len (i + int (length (step_text s)) + 1) item)"
proof (cases s rule: step_text.cases)
  case (1 k)
  with assms(1) have k: "plain k" "k \<noteq> []" by (auto simp: plain_def)
  obtain r where r: "object_item fl lite (k @ rest) (int (length k)) = Some r" "finds fl (member j k) r"
    using object_item_text [OF assms(3) k(2), of "k @ rest"] by auto
  show ?thesis
    using 1 r assms(2) delim klen index_none [OF k(1), of rest]
    by (intro exI [of _ r]) (cases delim; auto simp: path_loop.simps [where key_iter = i] split: option.split)
next
  case (2 k ds)
  with assms(1) have k: "plain k" "k \<noteq> []" "index_text ds" by (auto simp: plain_def)
  let ?m = "k @ 0x5B # ds @ 0x5D # rest"
  have st: "step_text s @ rest = ?m" "length (step_text s) = length k + length ds + 2" using 2 by auto
  note m = assms(2) [unfolded st] delim [unfolded st] klen [unfolded st] index_some [OF k(1,3), of rest]
  obtain r where r: "object_item fl lite ?m (int (length k)) = Some r" "finds fl (member j k) r"
    using object_item_text [OF assms(3) k(2), of ?m] by auto
  show ?thesis
  proof (cases r)
    case None
    with r 2 have "finds fl (go_step j s) None" by (auto simp: finds_def split: option.splits)
    with None r m show ?thesis
      by (intro exI [of _ None]) (cases delim; simp add: path_loop.simps [where key_iter = i])
  next
    case (Some prev)
    with r obtain v where v: "member j k = Some v" "spans fl v prev" by (auto simp: finds_def split: option.splits)
    show ?thesis
    proof (cases "\<exists>js. v = JArr js")
      case True
      then obtain js where js: "v = JArr js" by blast
      obtain r' where r': "lite_cjson_array_item fl (Some prev) (digits_value ds) (Some cjson_zero) = Some (give cjson_zero r')"
        "finds fl (element js (digits_value ds)) r'"
        using array_item_text [of fl js prev] v(2) js by blast
      have "cj_type prev = cJSON_Array" using spans_type(2) [OF v(2)] js by blast
      moreover have "finds fl (go_step j s) r'" using r'(2) 2 v(1) js by simp
      ultimately show ?thesis
        using m r(1) r'(1) Some st(2)
        by (intro exI [of _ r']) (cases delim; cases r'; simp add: path_loop.simps [where key_iter = i] give_def)
    next
      case False
      then have "cj_type prev \<noteq> cJSON_Array" using spans_type(2) [OF v(2)] by blast
      moreover have "finds fl (go_step j s) None" using 2 v(1) False by (cases v) (auto simp: finds_def)
      ultimately show ?thesis
        using m r(1) Some by (intro exI [of _ None]) (cases delim; simp add: path_loop.simps [where key_iter = i])
    qed
  qed
qed

lemma path_loop_text:
  assumes "p \<noteq> []" "\<forall>s \<in> set p. step_ok s" "0 \<le> i" "i \<le> int (length key)"
    "drop (nat i) key = path_text p @ 0 # junk" "key_len - i = int (length (path_text p))" "spans fl j lite"
  shows "\<exists>r. path_loop fl key key_len i lite = Some r \<and> finds fl (resolve j p) r"
  using assms
proof (induction p arbitrary: i j lite rule: path_text.induct)
  case (2 s)
  have "strchr (step_text s @ 0 # junk) 0x2E = Some None"
    by (rule strchr_miss) (use step_text_chars [of s] 2 in auto)
  then obtain r where "finds fl (go_step j s) r" "path_loop fl key key_len i lite =
    (case r of None \<Rightarrow> Some None
     | Some item \<Rightarrow> if (None :: int option) = None then Some (Some item)
         else path_loop fl key key_len (i + int (length (step_text s)) + 1) item)"
    using path_step_text [of s key i "0 # junk" fl j lite None key_len] 2 by (metis (no_types, lifting) from_at_Some list.set_intros(1) option.simps(4) path_text.simps(2))
  then show ?case by (cases r) (auto simp: finds_def split: option.splits)
next
  case (3 s s' p')
  let ?p = "s' # p'"
  let ?rest = "0x2E # path_text ?p @ 0 # junk"
  have "strchr (step_text s @ ?rest) 0x2E = Some (Some (int (length (step_text s))))"
    by (rule strchr_hit) (use step_text_chars [of s] 3 in auto)
  moreover have "from_at key i = Some (step_text s @ ?rest)" using 3(4-6) by simp
  ultimately obtain r where r: "finds fl (go_step j s) r" "path_loop fl key key_len i lite =
    (case r of None \<Rightarrow> Some None
     | Some item \<Rightarrow> if Some (int (length (step_text s))) = None then Some (Some item)
         else path_loop fl key key_len (i + int (length (step_text s)) + 1) item)"
    using path_step_text [of s key i ?rest fl j lite "Some (int (length (step_text s)))" key_len] 3(3,8) by auto
  show ?case
  proof (cases r)
    case None
    with r show ?thesis by (auto simp: finds_def split: option.splits)
  next
    case (Some item)
    with r(1) obtain v where v: "go_step j s = Some v" "spans fl v item" by (auto simp: finds_def split: option.splits)
    define i' where "i' = i + int (length (step_text s)) + 1"
    have d: "drop (nat i') key = path_text ?p @ 0 # junk"
    proof -
      have "nat i' = (length (step_text s) + 1) + nat i" using 3(4) by (simp add: i'_def nat_add_distrib)
      then have "drop (nat i') key = drop (length (step_text s) + 1) (drop (nat i) key)" by simp
      also have "\<dots> = path_text ?p @ 0 # junk" unfolding 3(6) by simp
      finally show ?thesis .
    qed
    then have "nat i' < length key" by (metis append_is_Nil_conv drop_eq_Nil list.distinct(1) not_less)
    then have "i' \<le> int (length key)" "0 \<le> i'" "key_len - i' = int (length (path_text ?p))"
      using 3(4,7) by (auto simp: i'_def)
    with 3(1) [of i' v item] 3(3) d v(2) r(2) Some show ?thesis
      by (simp add: v(1) i'_def)
  qed
qed simp

lemma path_lemma:
  assumes "spans fl j lite" "p \<noteq> []" "\<forall>s \<in> set p. step_ok s"
  shows "\<exists>r. lite_cjson_object_item fl (Some lite) (Some (path_text p @ 0 # junk)) (int (length (path_text p))) (Some out) =
    Some (give out r) \<and> finds fl (resolve j p) r"
proof -
  obtain r where r: "path_loop fl (path_text p @ 0 # junk) (int (length (path_text p))) 0 lite = Some r" "finds fl (resolve j p) r"
    using path_loop_text [of p 0 "path_text p @ 0 # junk" junk "int (length (path_text p))" fl j lite] assms by auto
  have len: "0 < length (path_text p)"
    using assms(2,3) by (cases p rule: path_text.cases; auto simp: plain_def elim: step_text.elims)
  obtain v where v: "cj_value lite = Some v" using spans_type(3) [OF assms(1)] by blast
  show ?thesis
  proof (cases "cj_type lite = cJSON_Object \<and> cj_size lite \<noteq> 0")
    case True
    with r len v show ?thesis by (auto simp: lite_cjson_object_item_def)
  next
    case False
    have "member j k = None" for k
    proof (cases "\<exists>ms. j = JObj ms")
      case True
      then obtain ms where j: "j = JObj ms" by blast
      then obtain m where "cj_type lite = cJSON_Object" "cj_size lite = int (length ms)"
        using assms(1) by (metis spans_object)
      with False j show ?thesis by simp
    next
      case False
      then show ?thesis by (cases j) auto
    qed
    then have "go_step j s = None" for s by (cases "(j, s)" rule: go_step.cases) auto
    then have "resolve j p = None" using assms(2) by (cases p) auto
    with False v show ?thesis
      by (auto simp: lite_cjson_object_item_def give_def finds_def intro!: exI [of _ None])
  qed
qed

section \<open>The properties\<close>

text \<open>A sample: an object with an array and a number, white space and all.\<close>

definition sample_json :: json where
  "sample_json = JObj [(ascii ''ab'', JArr [JNum (ascii ''-12''), JStr (ascii ''x'')]), (ascii ''c'', JObj [(ascii ''d'', JTrue)])]"

definition sample_array :: "byte list" where
  "sample_array = 0x5B # ([] @ ascii ''-12'' @ [0x20] @ 0x2C # ([0x20] @ (0x22 # ascii ''x'' @ [0x22]) @ [])) @ [0x5D]"

definition sample_object :: "byte list" where
  "sample_object = 0x7B # ([] @ 0x22 # ascii ''d'' @ 0x22 # [] @ 0x3A # [] @ ascii ''true'' @ []) @ [0x7D]"

definition sample_text :: "byte list" where
  "sample_text = 0x7B # ([] @ 0x22 # ascii ''ab'' @ 0x22 # [] @ 0x3A # [0x20] @ sample_array @ [0x0A] @
     0x2C # ([] @ 0x22 # ascii ''c'' @ 0x22 # [] @ 0x3A # [] @ sample_object @ [])) @ [0x7D]"

lemma sample_value: "value_text 2 sample_json sample_text"
proof -
  have num: "number_text (ascii ''-12'')" by code_simp
  have str: "string_text (ascii ''ab'')" "string_text (ascii ''c'')" "string_text (ascii ''d'')" "string_text (ascii ''x'')"
    by (simp_all add: ascii_def)
  have bl: "blank []" "blank [0x20]" "blank [0x0A]" by (simp_all add: blank_def)
  note intros = value_text_elements_text_members_text.intros
  have e: "elements_text 0 [JStr (ascii ''x'')] ([0x20] @ (0x22 # ascii ''x'' @ [0x22]) @ [])"
    by (rule one_element) (simp_all only: bl str intros)
  have "value_text (Suc 0) (JArr [JNum (ascii ''-12''), JStr (ascii ''x'')]) sample_array"
    unfolding sample_array_def by (rule array, rule more_elements) (simp_all only: bl num intros e)
  moreover have "value_text (Suc 0) (JObj [(ascii ''d'', JTrue)]) sample_object"
    unfolding sample_object_def by (rule object, rule one_member) (simp_all only: bl str intros)
  ultimately have "value_text (Suc (Suc 0)) sample_json sample_text"
    unfolding sample_json_def sample_text_def
    by (intro object more_members one_member) (simp_all only: bl str)
  then show ?thesis by (simp add: numeral_2_eq_2)
qed



text \<open>
  C23. Looking a path up in a parsed text follows the value: \<^verbatim>\<open>a.b[1].c\<close> takes the first member with each
  name and the element with each index, and gives the item that spans it; a step that does not exist
  gives \<^verbatim>\<open>-1\<close> and leaves the item of the caller alone.
\<close>

theorem json_path_follows_value:
  assumes "value_text n j s" "int n \<le> LITE_CJSON_NESTING_LIMIT" "blank w" "blank w'" "p \<noteq> []" "\<forall>st \<in> set p. step_ok st"
  shows "\<exists>lite r. lite_cjson_parse fl (Some (w @ s @ w' @ rest)) (int (length (w @ s @ w'))) item = Some (0, lite)
    \<and> lite_cjson_object_item fl (Some lite) (Some (path_text p @ 0 # junk)) (int (length (path_text p))) (Some out)
        = Some (give out r)
    \<and> finds fl (resolve j p) r"
proof -
  have "spans fl j (item_for fl j s (s @ w' @ rest) item)"
    unfolding spans_def using assms(1,2) by blast
  from path_lemma [OF this assms(5,6)] parse_text_lemma [OF assms(1-4)] show ?thesis by blast
qed

lemma json_path_follows_value_witness:
  "\<exists>lite r. lite_cjson_parse (\<lambda>x. x) (Some ([] @ sample_text @ [] @ [])) (int (length ([] @ sample_text @ []))) cjson_zero = Some (0, lite)
    \<and> lite_cjson_object_item (\<lambda>x. x) (Some lite) (Some (path_text [(ascii ''ab'', Some (ascii ''0''))] @ 0 # []))
        (int (length (path_text [(ascii ''ab'', Some (ascii ''0''))]))) (Some cjson_zero) = Some (give cjson_zero r)
    \<and> finds (\<lambda>x. x) (resolve sample_json [(ascii ''ab'', Some (ascii ''0''))]) r"
  by (rule json_path_follows_value [OF sample_value])
    (simp_all add: LITE_CJSON_NESTING_LIMIT_def blank_def plain_def index_text_def ascii_def is_digit_def digits_value_def INT_MAX_def)

lemma sample_path: "resolve sample_json [(ascii ''ab'', Some (ascii ''0''))] = Some (JNum (ascii ''-12''))"
  by code_simp

text \<open>
  An array whose last element is an array and whose own closing bracket is missing is accepted: skipping
  white space steps back from the end of the input onto the bracket of the element.
\<close>

theorem json_unclosed_accepted:
  assumes "value_text n (JArr js) s" "int n < LITE_CJSON_NESTING_LIMIT"
  shows "lite_cjson_parse fl (Some (0x5B # s)) (int (length s) + 1) item =
    Some (0, item\<lparr>cj_size := 1, cj_type := cJSON_Array, cj_value := Some (0x5B # s), cj_value_length := int (length s) + 1\<rparr>)"
  by (rule unclosed_lemma [OF assms])

lemma json_unclosed_accepted_witness:
  "lite_cjson_parse (\<lambda>x. x) (Some (0x5B # (0x5B # [] @ [0x5D]))) (int (length (0x5B # [] @ [0x5D :: byte])) + 1) cjson_zero =
    Some (0, cjson_zero\<lparr>cj_size := 1, cj_type := cJSON_Array, cj_value := Some (0x5B # (0x5B # [] @ [0x5D])),
      cj_value_length := int (length (0x5B # [] @ [0x5D :: byte])) + 1\<rparr>)"
  by (rule json_unclosed_accepted [OF empty_array [of "[]" 0]]) (simp_all add: LITE_CJSON_NESTING_LIMIT_def blank_def)

text \<open>
  C25. Parsing any input and looking up any key without brackets in the result returns, and reads nothing outside the
  input or the key.
\<close>

theorem json_reading_total:
  assumes "src_len \<le> int (length mem)" "0 \<in> set key" "0x5B \<notin> set key" "key_len \<le> int (length key)"
  shows "\<exists>rc lite. lite_cjson_parse fl (Some mem) src_len item = Some (rc, lite)
    \<and> (rc = 0 \<longrightarrow> (\<exists>rc' found. lite_cjson_object_item fl (Some lite) (Some key) key_len (Some out) = Some (rc', Some found)
        \<and> (rc' = 0 \<longrightarrow> item_fits found)))"
proof -
  obtain rc lite where p: "lite_cjson_parse fl (Some mem) src_len item = Some (rc, lite)" "rc = 0 \<longrightarrow> item_fits lite"
    using lite_cjson_parse_total [OF assms(1)] by blast
  show ?thesis
    using p(1) lite_cjson_object_item_total [OF _ assms(2-4), of lite fl out] p(2) by blast
qed

lemma json_reading_total_witness:
  "\<exists>rc lite. lite_cjson_parse (\<lambda>x. x) (Some [0x7B, 0x22]) 2 cjson_zero = Some (rc, lite)
    \<and> (rc = 0 \<longrightarrow> (\<exists>rc' found. lite_cjson_object_item (\<lambda>x. x) (Some lite) (Some [0x61, 0]) 1 (Some cjson_zero) = Some (rc', Some found)
        \<and> (rc' = 0 \<longrightarrow> item_fits found)))"
  by (rule json_reading_total) simp_all
end
