(* ===== verification/DmTable.thy ===== *)
theory DmTable
  imports DmQueue InfraCompat
begin

text \<open>
  The table of devices, the first half of \<^verbatim>\<open>src/src/dev_model/dm_manager.c\<close>: the gateway itself under
  identifier 0 and its sub-devices. The intrusive list is the list of its nodes (theory \<open>InfraList\<close>); the arrays
  of a node hold strings, and are the strings. \<^verbatim>\<open>dm_mgr_device_destroy\<close> without the unsubscribing is here, the
  requests to the cloud are in \<open>DmMessage\<close>.
\<close>

abbreviation (input) STATE_USER_INPUT_DEVID :: int where "STATE_USER_INPUT_DEVID \<equiv> - 0x110"
abbreviation (input) STATE_DEV_MODEL_DEVICE_ALREADY_EXIST :: int where "STATE_DEV_MODEL_DEVICE_ALREADY_EXIST \<equiv> - 0x905"
abbreviation (input) STATE_DEV_MODEL_DEVICE_NOT_FOUND :: int where "STATE_DEV_MODEL_DEVICE_NOT_FOUND \<equiv> - 0x906"
abbreviation (input) STATE_DEV_MODEL_SUBD_NOT_DELETEABLE :: int where "STATE_DEV_MODEL_SUBD_NOT_DELETEABLE \<equiv> - 0x907"

definition IOTX_DM_LOCAL_NODE_DEVID :: int where "IOTX_DM_LOCAL_NODE_DEVID = 0"
definition IOTX_DM_DEVICE_SUBDEV :: int where "IOTX_DM_DEVICE_SUBDEV = 2"
definition IOTX_DM_DEVICE_GATEWAY :: int where "IOTX_DM_DEVICE_GATEWAY = 4"
definition IOTX_DM_DEVICE_TYPE :: int where "IOTX_DM_DEVICE_TYPE = IOTX_DM_DEVICE_GATEWAY"

datatype dev_avail = IOTX_DM_DEV_AVAIL_ENABLE | IOTX_DM_DEV_AVAIL_DISABLE

datatype dev_status = IOTX_DM_DEV_STATUS_UNAUTHORIZED | IOTX_DM_DEV_STATUS_AUTHORIZED | IOTX_DM_DEV_STATUS_REGISTERED
  | IOTX_DM_DEV_STATUS_ATTACHED | IOTX_DM_DEV_STATUS_LOGINED | IOTX_DM_DEV_STATUS_ONLINE

text \<open>The order of the states is the one of the enumeration.\<close>

fun status_code :: "dev_status \<Rightarrow> nat" where
  "status_code IOTX_DM_DEV_STATUS_UNAUTHORIZED = 0"
| "status_code IOTX_DM_DEV_STATUS_AUTHORIZED = 1"
| "status_code IOTX_DM_DEV_STATUS_REGISTERED = 2"
| "status_code IOTX_DM_DEV_STATUS_ATTACHED = 3"
| "status_code IOTX_DM_DEV_STATUS_LOGINED = 4"
| "status_code IOTX_DM_DEV_STATUS_ONLINE = 5"

lemma status_code_inj [simp]: "status_code a = status_code b \<longleftrightarrow> a = b"
  by (cases a; cases b) auto

instantiation dev_status :: linorder
begin

definition less_eq_dev_status :: "dev_status \<Rightarrow> dev_status \<Rightarrow> bool" where "a \<le> b \<longleftrightarrow> status_code a \<le> status_code b"

definition less_dev_status :: "dev_status \<Rightarrow> dev_status \<Rightarrow> bool" where "a < b \<longleftrightarrow> status_code a < status_code b"

instance by standard (auto simp: less_eq_dev_status_def less_dev_status_def)

end

record dm_dev_node =
  dn_devid :: int
  dn_dev_type :: int
  dn_product_key :: "byte list"
  dn_product_secret :: "byte list"
  dn_device_key :: "byte list"
  dn_device_secret :: "byte list"
  dn_avail :: dev_avail
  dn_dev_status :: dev_status

record dm_mgr_ctx =
  mgr_mutex :: bool
  global_devid :: int
  dev_list :: "dm_dev_node list"

definition dm_mgr_zero :: dm_mgr_ctx where
  "dm_mgr_zero = \<lparr>mgr_mutex = False, global_devid = 0, dev_list = []\<rparr>"

definition dm_mgr_next_devid :: "dm_mgr_ctx \<Rightarrow> int \<times> dm_mgr_ctx" where
  "dm_mgr_next_devid m = (global_devid m, m\<lparr>global_devid := global_devid m + 1\<rparr>)"

section \<open>Searching\<close>

definition search_dev_by_devid :: "int \<Rightarrow> dm_mgr_ctx \<Rightarrow> dm_dev_node option" where
  "search_dev_by_devid devid m = find (\<lambda>n. dn_devid n = devid) (dev_list m)"

definition has_keys :: "byte list \<Rightarrow> byte list \<Rightarrow> dm_dev_node \<Rightarrow> bool" where
  "has_keys pk dk n \<longleftrightarrow> dn_product_key n = pk \<and> dn_device_key n = dk"

definition search_dev_by_pkdk :: "byte list \<Rightarrow> byte list \<Rightarrow> dm_mgr_ctx \<Rightarrow> dm_dev_node option" where
  "search_dev_by_pkdk pk dk m = find (has_keys pk dk) (dev_list m)"

definition insert_dev ::
  "('w, 'e) hal_scheme \<Rightarrow> u32 \<Rightarrow> int \<Rightarrow> int \<Rightarrow> byte list \<Rightarrow> byte list \<Rightarrow> dm_mgr_ctx \<Rightarrow> 'w \<Rightarrow> int \<times> dm_mgr_ctx \<times> 'w" where
  "insert_dev env sz devid dev_type pk dk m w =
     (if length pk \<ge> IOTX_PRODUCT_KEY_LEN + 1 then (STATE_USER_INPUT_PK, m, w)
      else if length dk \<ge> IOTX_DEVICE_KEY_LEN + 1 then (STATE_USER_INPUT_DN, m, w)
      else if search_dev_by_devid devid m \<noteq> None then (STATE_DEV_MODEL_DEVICE_ALREADY_EXIST, m, w)
      else let (ok, w) = HAL_Malloc env sz w
           in if \<not> ok then (STATE_SYS_DEPEND_MALLOC, m, w)
              else (STATE_SUCCESS,
                m\<lparr>dev_list := dev_list m @ [\<lparr>dn_devid = devid, dn_dev_type = dev_type, dn_product_key = pk,
                  dn_product_secret = [], dn_device_key = dk, dn_device_secret = [],
                  dn_avail = IOTX_DM_DEV_AVAIL_ENABLE, dn_dev_status = IOTX_DM_DEV_STATUS_UNAUTHORIZED\<rparr>]\<rparr>, w))"

section \<open>Life of the table\<close>

text \<open>The keys of the settings are read into arrays of zeros. \<open>sz\<close> is the size of a node.\<close>

definition dm_mgr_init ::
  "('w, 'e) hal_scheme \<Rightarrow> u32 \<Rightarrow> byte list \<Rightarrow> byte list \<Rightarrow> 'w \<Rightarrow> int \<times> dm_mgr_ctx \<times> 'w" where
  "dm_mgr_init env sz pk dk w =
     (let (ok, w) = HAL_MutexCreate env w
      in if \<not> ok then (STATE_SYS_DEPEND_MUTEX_CREATE, dm_mgr_zero, w)
         else let m = dm_mgr_zero\<lparr>mgr_mutex := True, global_devid := IOTX_DM_LOCAL_NODE_DEVID + 1\<rparr>;
                  (res, m, w) = insert_dev env sz IOTX_DM_LOCAL_NODE_DEVID IOTX_DM_DEVICE_TYPE pk dk m w
              in if res \<noteq> STATE_SUCCESS then (res, dm_mgr_zero, w) else (STATE_SUCCESS, m, w))"

definition dm_mgr_deinit :: "dm_mgr_ctx \<Rightarrow> int \<times> dm_mgr_ctx" where
  "dm_mgr_deinit m = (STATE_SUCCESS, m\<lparr>dev_list := []\<rparr>)"

text \<open>Answers through a pointer that may be null.\<close>

definition dm_mgr_device_query :: "byte list \<Rightarrow> byte list \<Rightarrow> int option \<Rightarrow> dm_mgr_ctx \<Rightarrow> int \<times> int option" where
  "dm_mgr_device_query pk dk devid m =
     (case search_dev_by_pkdk pk dk m of
        None \<Rightarrow> (STATE_DEV_MODEL_DEVICE_NOT_FOUND, devid)
      | Some n \<Rightarrow> (STATE_SUCCESS, map_option (\<lambda>_. dn_devid n) devid))"

definition dm_mgr_device_create ::
  "('w, 'e) hal_scheme \<Rightarrow> u32 \<Rightarrow> int \<Rightarrow> byte list option \<Rightarrow> byte list option \<Rightarrow> byte list option \<Rightarrow> byte list option \<Rightarrow>
   int option \<Rightarrow> dm_mgr_ctx \<Rightarrow> 'w \<Rightarrow> int \<times> int option \<times> dm_mgr_ctx \<times> 'w" where
  "dm_mgr_device_create env sz dev_type pkp psp dkp dsp devid m w =
     (case (pkp, psp, dkp) of
        (Some pk, Some ps, Some dk) \<Rightarrow>
          if length pk \<ge> IOTX_PRODUCT_KEY_LEN + 1 \<or> length ps \<ge> IOTX_PRODUCT_SECRET_LEN + 1 \<or>
             length dk \<ge> IOTX_DEVICE_KEY_LEN + 1
          then (STATE_USER_INPUT_INVALID, devid, m, w)
          else if (case dsp of None \<Rightarrow> False | Some ds \<Rightarrow> length ds \<ge> IOTX_DEVICE_SECRET_LEN + 1)
          then (STATE_USER_INPUT_INVALID, devid, m, w)
          else (case search_dev_by_pkdk pk dk m of
                  Some n \<Rightarrow> (STATE_DEV_MODEL_DEVICE_ALREADY_EXIST, map_option (\<lambda>_. dn_devid n) devid, m, w)
                | None \<Rightarrow>
                    let (ok, w) = HAL_Malloc env sz w
                    in if \<not> ok then (STATE_SYS_DEPEND_MALLOC, devid, m, w)
                       else let (d, m) = dm_mgr_next_devid m;
                                n = \<lparr>dn_devid = d, dn_dev_type = dev_type, dn_product_key = pk, dn_product_secret = ps,
                                  dn_device_key = dk, dn_device_secret = (case dsp of None \<Rightarrow> [] | Some ds \<Rightarrow> ds),
                                  dn_avail = IOTX_DM_DEV_AVAIL_ENABLE, dn_dev_status = IOTX_DM_DEV_STATUS_AUTHORIZED\<rparr>
                            in (STATE_SUCCESS, map_option (\<lambda>_. d) devid, m\<lparr>dev_list := dev_list m @ [n]\<rparr>, w))
      | _ \<Rightarrow> (STATE_USER_INPUT_INVALID, devid, m, w))"

text \<open>Destroying, up to the unsubscribing of the topics of the node, which is given back.\<close>

fun remove_dev :: "int \<Rightarrow> dm_dev_node list \<Rightarrow> dm_dev_node list" where
  "remove_dev devid [] = []"
| "remove_dev devid (n # ns) = (if dn_devid n = devid then ns else n # remove_dev devid ns)"

definition device_take_out :: "int \<Rightarrow> dm_mgr_ctx \<Rightarrow> int \<times> dm_dev_node option \<times> dm_mgr_ctx" where
  "device_take_out devid m =
     (if devid < 0 then (STATE_USER_INPUT_DEVID, None, m)
      else case search_dev_by_devid devid m of
             None \<Rightarrow> (STATE_DEV_MODEL_DEVICE_NOT_FOUND, None, m)
           | Some n \<Rightarrow>
               if dn_devid n = IOTX_DM_LOCAL_NODE_DEVID then (STATE_DEV_MODEL_SUBD_NOT_DELETEABLE, None, m)
               else (STATE_SUCCESS, Some n, m\<lparr>dev_list := remove_dev devid (dev_list m)\<rparr>))"

section \<open>Going through the table\<close>

definition dm_mgr_device_number :: "dm_mgr_ctx \<Rightarrow> int" where
  "dm_mgr_device_number m = int (length (dev_list m))"

definition dm_mgr_get_devid_by_index :: "int \<Rightarrow> int option \<Rightarrow> dm_mgr_ctx \<Rightarrow> int \<times> int option" where
  "dm_mgr_get_devid_by_index index devid m =
     (if index < 0 \<or> devid = None then (STATE_USER_INPUT_INVALID, devid)
      else if index < int (length (dev_list m)) then (STATE_SUCCESS, Some (dn_devid (dev_list m ! nat index)))
      else (STATE_DEV_MODEL_DEVICE_NOT_FOUND, devid))"

text \<open>\<open>found\<close>: whether the node of the identifier has been passed.\<close>

fun next_devid_loop :: "int \<Rightarrow> bool \<Rightarrow> dm_dev_node list \<Rightarrow> int option" where
  "next_devid_loop devid found [] = None"
| "next_devid_loop devid found (n # ns) =
     (if found then Some (dn_devid n) else next_devid_loop devid (dn_devid n = devid) ns)"

definition dm_mgr_get_next_devid :: "int \<Rightarrow> int option \<Rightarrow> dm_mgr_ctx \<Rightarrow> int \<times> int option" where
  "dm_mgr_get_next_devid devid devid_next m =
     (if devid < 0 \<or> devid_next = None then (STATE_USER_INPUT_INVALID, devid_next)
      else case next_devid_loop devid False (dev_list m) of
             None \<Rightarrow> (STATE_DEV_MODEL_DEVICE_NOT_FOUND, devid_next)
           | Some d \<Rightarrow> (STATE_SUCCESS, Some d))"

text \<open>The characters are copied without the NUL, over the start of the caller's arrays.\<close>

definition copy_over :: "byte list \<Rightarrow> byte list \<Rightarrow> byte list option" where
  "copy_over s block = (if length s \<le> length block then Some (buf_write block 0 s) else None)"

definition dm_mgr_search_device_by_devid ::
  "int \<Rightarrow> byte list option \<Rightarrow> byte list option \<Rightarrow> byte list option \<Rightarrow> dm_mgr_ctx \<Rightarrow>
   (int \<times> byte list option \<times> byte list option \<times> byte list option) option" where
  "dm_mgr_search_device_by_devid devid pkp dkp dsp m =
     (case (pkp, dkp, dsp) of
        (Some pk, Some dk, Some ds) \<Rightarrow>
          (case search_dev_by_devid devid m of
             None \<Rightarrow> Some (STATE_DEV_MODEL_DEVICE_NOT_FOUND, pkp, dkp, dsp)
           | Some n \<Rightarrow>
               (case (copy_over (dn_product_key n) pk, copy_over (dn_device_key n) dk, copy_over (dn_device_secret n) ds) of
                  (Some a, Some b, Some c) \<Rightarrow> Some (STATE_SUCCESS, Some a, Some b, Some c)
                | _ \<Rightarrow> None))
      | _ \<Rightarrow> Some (STATE_USER_INPUT_INVALID, pkp, dkp, dsp))"

definition dm_mgr_search_device_by_pkdk :: "byte list option \<Rightarrow> byte list option \<Rightarrow> int option \<Rightarrow> dm_mgr_ctx \<Rightarrow> int \<times> int option" where
  "dm_mgr_search_device_by_pkdk pkp dkp devid m =
     (case (pkp, dkp) of
        (Some pk, Some dk) \<Rightarrow>
          (case search_dev_by_pkdk pk dk m of
             None \<Rightarrow> (STATE_DEV_MODEL_DEVICE_NOT_FOUND, devid)
           | Some n \<Rightarrow> (STATE_SUCCESS, map_option (\<lambda>_. dn_devid n) devid))
      | _ \<Rightarrow> (STATE_USER_INPUT_INVALID, devid))"

definition dm_mgr_search_device_node_by_devid :: "int \<Rightarrow> dm_mgr_ctx \<Rightarrow> int \<times> dm_dev_node option" where
  "dm_mgr_search_device_node_by_devid devid m =
     (case search_dev_by_devid devid m of
        None \<Rightarrow> (STATE_DEV_MODEL_DEVICE_NOT_FOUND, None) | Some n \<Rightarrow> (STATE_SUCCESS, Some n))"

section \<open>Attributes of a device\<close>

definition get_attr :: "(dm_dev_node \<Rightarrow> 'a) \<Rightarrow> int \<Rightarrow> 'a option \<Rightarrow> dm_mgr_ctx \<Rightarrow> int \<times> 'a option" where
  "get_attr f devid out m =
     (if devid < 0 \<or> Option.is_none out then (STATE_USER_INPUT_INVALID, out)
      else case search_dev_by_devid devid m of
             None \<Rightarrow> (STATE_DEV_MODEL_DEVICE_NOT_FOUND, out) | Some n \<Rightarrow> (STATE_SUCCESS, Some (f n)))"

fun update_dev :: "(dm_dev_node \<Rightarrow> dm_dev_node) \<Rightarrow> int \<Rightarrow> dm_dev_node list \<Rightarrow> dm_dev_node list" where
  "update_dev f devid [] = []"
| "update_dev f devid (n # ns) = (if dn_devid n = devid then f n # ns else n # update_dev f devid ns)"

definition set_attr :: "(dm_dev_node \<Rightarrow> dm_dev_node) \<Rightarrow> int \<Rightarrow> dm_mgr_ctx \<Rightarrow> int \<times> dm_mgr_ctx" where
  "set_attr f devid m =
     (if devid < 0 then (STATE_USER_INPUT_INVALID, m)
      else if search_dev_by_devid devid m = None then (STATE_DEV_MODEL_DEVICE_NOT_FOUND, m)
      else (STATE_SUCCESS, m\<lparr>dev_list := update_dev f devid (dev_list m)\<rparr>))"

definition dm_mgr_get_dev_type :: "int \<Rightarrow> int option \<Rightarrow> dm_mgr_ctx \<Rightarrow> int \<times> int option" where
  "dm_mgr_get_dev_type = get_attr dn_dev_type"

definition dm_mgr_set_dev_enable :: "int \<Rightarrow> dm_mgr_ctx \<Rightarrow> int \<times> dm_mgr_ctx" where
  "dm_mgr_set_dev_enable = set_attr (\<lambda>n. n\<lparr>dn_avail := IOTX_DM_DEV_AVAIL_ENABLE\<rparr>)"

definition dm_mgr_set_dev_disable :: "int \<Rightarrow> dm_mgr_ctx \<Rightarrow> int \<times> dm_mgr_ctx" where
  "dm_mgr_set_dev_disable = set_attr (\<lambda>n. n\<lparr>dn_avail := IOTX_DM_DEV_AVAIL_DISABLE\<rparr>)"

definition dm_mgr_get_dev_avail :: "byte list option \<Rightarrow> byte list option \<Rightarrow> dev_avail option \<Rightarrow> dm_mgr_ctx \<Rightarrow> int \<times> dev_avail option" where
  "dm_mgr_get_dev_avail pkp dkp status m =
     (case (pkp, dkp, status) of
        (Some pk, Some dk, Some _) \<Rightarrow>
          if length pk \<ge> IOTX_PRODUCT_KEY_LEN + 1 \<or> length dk \<ge> IOTX_DEVICE_KEY_LEN + 1 then (STATE_USER_INPUT_INVALID, status)
          else (case search_dev_by_pkdk pk dk m of
                  None \<Rightarrow> (STATE_DEV_MODEL_DEVICE_NOT_FOUND, status) | Some n \<Rightarrow> (STATE_SUCCESS, Some (dn_avail n)))
      | _ \<Rightarrow> (STATE_USER_INPUT_INVALID, status))"

definition dm_mgr_set_dev_status :: "int \<Rightarrow> dev_status \<Rightarrow> dm_mgr_ctx \<Rightarrow> int \<times> dm_mgr_ctx" where
  "dm_mgr_set_dev_status devid status = set_attr (\<lambda>n. n\<lparr>dn_dev_status := status\<rparr>) devid"

definition dm_mgr_get_dev_status :: "int \<Rightarrow> dev_status option \<Rightarrow> dm_mgr_ctx \<Rightarrow> int \<times> dev_status option" where
  "dm_mgr_get_dev_status = get_attr dn_dev_status"

definition dm_mgr_set_device_secret :: "int \<Rightarrow> byte list option \<Rightarrow> dm_mgr_ctx \<Rightarrow> int \<times> dm_mgr_ctx" where
  "dm_mgr_set_device_secret devid dsp m =
     (case dsp of
        None \<Rightarrow> (STATE_USER_INPUT_INVALID, m)
      | Some ds \<Rightarrow>
          if length ds \<ge> IOTX_DEVICE_SECRET_LEN + 1 then (STATE_USER_INPUT_INVALID, m)
          else set_attr (\<lambda>n. n\<lparr>dn_device_secret := ds\<rparr>) devid m)"

section \<open>The table keeps its order\<close>

text \<open>The programs of calls that change the table, and what becomes of the devices.\<close>

datatype table_op =
    Create int "byte list option" "byte list option" "byte list option" "byte list option" "int option"
  | Destroy int | Enable int | Disable int | Status int dev_status | Secret int "byte list option"

datatype table_event = Created "byte list" "byte list" int | Destroyed int

fun table_do ::
  "('w, 'e) hal_scheme \<Rightarrow> u32 \<Rightarrow> table_op \<Rightarrow> dm_mgr_ctx \<Rightarrow> 'w \<Rightarrow> table_event list \<times> dm_mgr_ctx \<times> 'w" where
  "table_do env sz (Create ty pk ps dk ds out) m w =
     (let (rc, d, m', w) = dm_mgr_device_create env sz ty pk ps dk ds out m w
      in (if rc = STATE_SUCCESS then [Created (the pk) (the dk) (global_devid m)] else [], m', w))"
| "table_do env sz (Destroy d) m w =
     (let (rc, n, m) = device_take_out d m in (if rc = STATE_SUCCESS then [Destroyed d] else [], m, w))"
| "table_do env sz (Enable d) m w = ([], snd (dm_mgr_set_dev_enable d m), w)"
| "table_do env sz (Disable d) m w = ([], snd (dm_mgr_set_dev_disable d m), w)"
| "table_do env sz (Status d st) m w = ([], snd (dm_mgr_set_dev_status d st m), w)"
| "table_do env sz (Secret d ds) m w = ([], snd (dm_mgr_set_device_secret d ds m), w)"

fun table_run ::
  "('w, 'e) hal_scheme \<Rightarrow> u32 \<Rightarrow> table_op list \<Rightarrow> dm_mgr_ctx \<Rightarrow> 'w \<Rightarrow> table_event list \<times> dm_mgr_ctx \<times> 'w" where
  "table_run env sz [] m w = ([], m, w)"
| "table_run env sz (op # ops) m w =
     (let (es, m, w) = table_do env sz op m w; (es', m, w) = table_run env sz ops m w in (es @ es', m, w))"

definition keys :: "dm_dev_node \<Rightarrow> byte list \<times> byte list" where
  "keys n = (dn_product_key n, dn_device_key n)"

definition node_ok :: "dm_mgr_ctx \<Rightarrow> dm_dev_node \<Rightarrow> bool" where
  "node_ok m n \<longleftrightarrow> 0 \<le> dn_devid n \<and> dn_devid n < global_devid m \<and> length (dn_product_key n) \<le> IOTX_PRODUCT_KEY_LEN
     \<and> length (dn_device_key n) \<le> IOTX_DEVICE_KEY_LEN \<and> length (dn_product_secret n) \<le> IOTX_PRODUCT_SECRET_LEN
     \<and> length (dn_device_secret n) \<le> IOTX_DEVICE_SECRET_LEN"

text \<open>The local node stands first.\<close>

definition mgr_ok :: "dm_mgr_ctx \<Rightarrow> bool" where
  "mgr_ok m \<longleftrightarrow> distinct (map dn_devid (dev_list m)) \<and> distinct (map keys (dev_list m)) \<and> (\<forall>n \<in> set (dev_list m). node_ok m n)
     \<and> (\<exists>n ns. dev_list m = n # ns \<and> dn_devid n = IOTX_DM_LOCAL_NODE_DEVID)"

text \<open>Which device has which identifier.\<close>

definition devices :: "dm_mgr_ctx \<Rightarrow> byte list \<times> byte list \<Rightarrow> int option" where
  "devices m = map_of (map (\<lambda>n. (keys n, dn_devid n)) (dev_list m))"

fun happens :: "table_event \<Rightarrow> (byte list \<times> byte list \<Rightarrow> int option) \<Rightarrow> byte list \<times> byte list \<Rightarrow> int option" where
  "happens (Created pk dk d) M = M((pk, dk) \<mapsto> d)"
| "happens (Destroyed d) M = (\<lambda>k. if M k = Some d then None else M k)"

text \<open>The identifiers that were given out.\<close>

fun given :: "table_event list \<Rightarrow> int list" where
  "given [] = []"
| "given (Created pk dk d # es) = d # given es"
| "given (Destroyed d # es) = given es"

lemma find_None_iff_set: "find P xs = None \<longleftrightarrow> (\<forall>x \<in> set xs. \<not> P x)"
  by (induction xs) auto

lemma find_SomeD: "find P xs = Some x \<Longrightarrow> x \<in> set xs \<and> P x"
  by (induction xs) (auto split: if_splits)

lemma update_dev_map:
  assumes "\<And>n. g (f n) = g n"
  shows "map g (update_dev f d ns) = map g ns"
  by (induction ns) (auto simp: assms)

lemma set_update_dev: "n \<in> set (update_dev f d ns) \<Longrightarrow> n \<in> set ns \<or> (\<exists>n' \<in> set ns. n = f n')"
  by (induction ns) (auto split: if_splits)

lemma remove_dev_eq: "distinct (map dn_devid ns) \<Longrightarrow> remove_dev d ns = filter (\<lambda>n. dn_devid n \<noteq> d) ns"
proof (induction ns)
  case (Cons n ns)
  then have "dn_devid n \<notin> set (map dn_devid ns)" by simp
  then have "filter (\<lambda>n'. dn_devid n' \<noteq> dn_devid n) ns = ns" by (intro filter_True) (metis image_eqI image_set)
  with Cons show ?case by auto
qed simp

lemma set_attr_ok:
  assumes "mgr_ok m" and f: "\<And>n. dn_devid (f n) = dn_devid n" "\<And>n. keys (f n) = keys n"
    "\<And>n. dn_product_secret (f n) = dn_product_secret n"
    "\<And>n. length (dn_device_secret n) \<le> IOTX_DEVICE_SECRET_LEN \<Longrightarrow> length (dn_device_secret (f n)) \<le> IOTX_DEVICE_SECRET_LEN"
  shows "mgr_ok (snd (set_attr f d m))" "devices (snd (set_attr f d m)) = devices m"
    "global_devid (snd (set_attr f d m)) = global_devid m"
proof -
  have ok: "node_ok m (f n)" if "node_ok m n" for n
    using that f [of n] by (auto simp: node_ok_def keys_def)
  obtain n ns where l: "dev_list m = n # ns" "dn_devid n = IOTX_DM_LOCAL_NODE_DEVID"
    using assms(1) by (auto simp: mgr_ok_def)
  have "\<exists>n' ns'. update_dev f d (dev_list m) = n' # ns' \<and> dn_devid n' = IOTX_DM_LOCAL_NODE_DEVID"
    using l f(1) [of n] by auto
  moreover have "map (\<lambda>n. (keys n, dn_devid n)) (update_dev f d (dev_list m)) = map (\<lambda>n. (keys n, dn_devid n)) (dev_list m)"
    by (rule update_dev_map) (simp add: f)
  ultimately show "mgr_ok (snd (set_attr f d m))" "devices (snd (set_attr f d m)) = devices m"
    "global_devid (snd (set_attr f d m)) = global_devid m"
    using assms(1) ok f(1,2)
    by (auto simp: set_attr_def mgr_ok_def devices_def update_dev_map node_ok_def dest!: set_update_dev)
qed

lemma setters_ok:
  assumes "mgr_ok m"
  shows "mgr_ok (snd (dm_mgr_set_dev_enable d m)) \<and> devices (snd (dm_mgr_set_dev_enable d m)) = devices m
      \<and> global_devid (snd (dm_mgr_set_dev_enable d m)) = global_devid m"
    and "mgr_ok (snd (dm_mgr_set_dev_disable d m)) \<and> devices (snd (dm_mgr_set_dev_disable d m)) = devices m
      \<and> global_devid (snd (dm_mgr_set_dev_disable d m)) = global_devid m"
    and "mgr_ok (snd (dm_mgr_set_dev_status d st m)) \<and> devices (snd (dm_mgr_set_dev_status d st m)) = devices m
      \<and> global_devid (snd (dm_mgr_set_dev_status d st m)) = global_devid m"
    and "mgr_ok (snd (dm_mgr_set_device_secret d ds m)) \<and> devices (snd (dm_mgr_set_device_secret d ds m)) = devices m
      \<and> global_devid (snd (dm_mgr_set_device_secret d ds m)) = global_devid m"
  unfolding dm_mgr_set_dev_enable_def dm_mgr_set_dev_disable_def dm_mgr_set_dev_status_def dm_mgr_set_device_secret_def
  by ((intro conjI set_attr_ok assms; simp add: keys_def) |
      (cases ds; simp add: assms; intro impI conjI set_attr_ok assms; simp add: keys_def))+

lemma create_cases:
  "(\<exists>rc w'. rc \<noteq> STATE_SUCCESS \<and> (\<exists>out'. dm_mgr_device_create env sz ty pk ps dk ds out m w = (rc, out', m, w'))) \<or>
   (\<exists>n w'. dm_mgr_device_create env sz ty pk ps dk ds out m w =
      (STATE_SUCCESS, map_option (\<lambda>_. global_devid m) out, m\<lparr>global_devid := global_devid m + 1, dev_list := dev_list m @ [n]\<rparr>, w')
      \<and> dn_devid n = global_devid m \<and> pk = Some (dn_product_key n) \<and> dk = Some (dn_device_key n)
      \<and> search_dev_by_pkdk (dn_product_key n) (dn_device_key n) m = None
      \<and> length (dn_product_key n) \<le> IOTX_PRODUCT_KEY_LEN \<and> length (dn_device_key n) \<le> IOTX_DEVICE_KEY_LEN
      \<and> length (dn_product_secret n) \<le> IOTX_PRODUCT_SECRET_LEN \<and> length (dn_device_secret n) \<le> IOTX_DEVICE_SECRET_LEN)"
  by (auto simp: dm_mgr_device_create_def dm_mgr_next_devid_def split_beta Let_def split: option.splits)

lemma table_do_ok:
  assumes "mgr_ok m" "table_do env sz op m w = (es, m', w')"
  shows "mgr_ok m' \<and> devices m' = fold happens es (devices m) \<and> global_devid m \<le> global_devid m'
    \<and> (\<forall>d \<in> set (given es). global_devid m \<le> d \<and> d < global_devid m') \<and> distinct (given es)"
proof (cases op)
  case (Create ty pk ps dk ds out)
  from create_cases [of env sz ty pk ps dk ds out m w] show ?thesis
  proof (elim disjE exE conjE)
    fix rc w1 out'
    assume "rc \<noteq> STATE_SUCCESS" "dm_mgr_device_create env sz ty pk ps dk ds out m w = (rc, out', m, w1)"
    then show ?thesis using assms Create by auto
  next
    fix n w1
    assume c: "dm_mgr_device_create env sz ty pk ps dk ds out m w =
        (STATE_SUCCESS, map_option (\<lambda>_. global_devid m) out, m\<lparr>global_devid := global_devid m + 1, dev_list := dev_list m @ [n]\<rparr>, w1)"
      and n: "dn_devid n = global_devid m" "pk = Some (dn_product_key n)" "dk = Some (dn_device_key n)"
        "search_dev_by_pkdk (dn_product_key n) (dn_device_key n) m = None"
        "length (dn_product_key n) \<le> IOTX_PRODUCT_KEY_LEN" "length (dn_device_key n) \<le> IOTX_DEVICE_KEY_LEN"
        "length (dn_product_secret n) \<le> IOTX_PRODUCT_SECRET_LEN" "length (dn_device_secret n) \<le> IOTX_DEVICE_SECRET_LEN"
    have r: "es = [Created (dn_product_key n) (dn_device_key n) (global_devid m)]"
      "m' = m\<lparr>global_devid := global_devid m + 1, dev_list := dev_list m @ [n]\<rparr>"
      using assms(2) Create c n(2,3) by auto
    have new: "keys n \<notin> keys ` set (dev_list m)" "global_devid m \<notin> dn_devid ` set (dev_list m)" "0 < global_devid m"
      using n(4) assms(1) by (auto simp: search_dev_by_pkdk_def find_None_iff_set has_keys_def keys_def mgr_ok_def node_ok_def)
    then have "devices m (keys n) = None" by (force simp: devices_def map_of_eq_None_iff)
    then have "devices m' = (devices m)(keys n \<mapsto> global_devid m)"
      by (auto simp: r(2) devices_def n(1) fun_eq_iff map_add_def split: option.split)
    moreover have "mgr_ok m'"
      using assms(1) new n by (auto simp: r(2) mgr_ok_def node_ok_def)
    ultimately show ?thesis by (simp add: r keys_def)
  qed
next
  case (Destroy d)
  show ?thesis
  proof (cases "fst (device_take_out d m) = STATE_SUCCESS")
    case True
    then have d: "m' = m\<lparr>dev_list := filter (\<lambda>n. dn_devid n \<noteq> d) (dev_list m)\<rparr>" "es = [Destroyed d]" "d \<noteq> IOTX_DM_LOCAL_NODE_DEVID"
      using assms Destroy
      by (auto simp: device_take_out_def mgr_ok_def search_dev_by_devid_def remove_dev_eq split: option.splits if_splits dest!: find_SomeD)
    have "map_of (map (\<lambda>n. (keys n, dn_devid n)) (filter (\<lambda>n. dn_devid n \<noteq> d) ns)) k =
        (if map_of (map (\<lambda>n. (keys n, dn_devid n)) ns) k = Some d then None else map_of (map (\<lambda>n. (keys n, dn_devid n)) ns) k)"
      if "distinct (map keys ns)" for ns k
      using that by (induction ns) (auto simp: map_of_eq_None_iff image_iff dest: map_of_SomeD)
    then have "devices m' = happens (Destroyed d) (devices m)"
      using assms(1) by (auto simp: d(1) devices_def mgr_ok_def fun_eq_iff)
    moreover have "mgr_ok m'"
      using assms(1) d(3) by (auto simp: d(1) mgr_ok_def node_ok_def distinct_map intro: inj_on_subset)
    ultimately show ?thesis by (simp add: d(1,2))
  next
    case False
    then have "m' = m \<and> es = []"
      using assms(2) Destroy by (auto simp: device_take_out_def split: option.splits if_splits)
    then show ?thesis using assms(1) by simp
  qed
qed (use assms setters_ok [OF assms(1)] in auto)

lemma table_run_ok:
  "mgr_ok m \<Longrightarrow> table_run env sz ops m w = (es, m', w') \<Longrightarrow>
   mgr_ok m' \<and> devices m' = fold happens es (devices m) \<and> global_devid m \<le> global_devid m'
    \<and> (\<forall>d \<in> set (given es). global_devid m \<le> d \<and> d < global_devid m') \<and> distinct (given es)"
proof (induction ops arbitrary: m w es)
  case (Cons op ops)
  obtain es1 m1 w1 where one: "table_do env sz op m w = (es1, m1, w1)" by (metis prod_cases3)
  obtain es2 where rest: "table_run env sz ops m1 w1 = (es2, m', w')" "es = es1 @ es2"
    using Cons.prems(2) one by (auto split: prod.splits)
  have "given (es1 @ es2) = given es1 @ given es2" by (induction es1 rule: given.induct) auto
  with table_do_ok [OF Cons.prems(1) one] Cons.IH [OF _ rest(1)] rest(2) show ?case by force
qed simp

lemma dm_mgr_init_ok:
  assumes "dm_mgr_init env sz pk dk w = (STATE_SUCCESS, m, w')"
  shows "mgr_ok m \<and> devices m = [(pk, dk) \<mapsto> IOTX_DM_LOCAL_NODE_DEVID] \<and> global_devid m = 1"
  using assms
  by (auto simp: dm_mgr_init_def insert_dev_def split_beta Let_def dm_mgr_zero_def mgr_ok_def node_ok_def devices_def keys_def
      IOTX_DM_LOCAL_NODE_DEVID_def fun_eq_iff split: if_splits)


lemma walk_lemma:
  assumes "distinct (map dn_devid ns)" "i < length ns"
  shows "next_devid_loop (dn_devid (ns ! i)) False ns = (if Suc i < length ns then Some (dn_devid (ns ! Suc i)) else None)"
  using assms
proof (induction ns arbitrary: i)
  case (Cons n ns)
  have skip: "next_devid_loop d True ns = (case ns of [] \<Rightarrow> None | n' # _ \<Rightarrow> Some (dn_devid n'))" for d
    by (cases ns) auto
  show ?case
  proof (cases i)
    case 0
    then show ?thesis by (auto simp: skip split: list.split)
  next
    case (Suc i')
    then have "dn_devid (ns ! i') \<in> dn_devid ` set ns" using Cons.prems by simp
    moreover have "dn_devid n \<notin> dn_devid ` set ns" using Cons.prems by simp
    ultimately have "dn_devid n \<noteq> dn_devid (ns ! i')" by metis
    with Suc Cons show ?thesis by auto
  qed
qed simp

lemma keys_unique:
  assumes "mgr_ok m"
  shows "devices m (pk, dk) = map_option dn_devid (search_dev_by_pkdk pk dk m)"
proof -
  have "map_of (map (\<lambda>n. (keys n, dn_devid n)) ns) (pk, dk) = map_option dn_devid (find (has_keys pk dk) ns)" for ns
    by (induction ns) (auto simp: keys_def has_keys_def)
  then show ?thesis by (simp add: devices_def search_dev_by_pkdk_def)
qed

text \<open>
  C19. Whatever devices are created and destroyed, enabled, moved through their states and given secrets, the table stays
  well formed: identifiers and pairs of keys are distinct, identifiers are below the counter, keys and secrets fit
  their arrays, and the gateway stays first under identifier 0.
\<close>

theorem device_table_invariant:
  assumes "dm_mgr_init env sz pk dk w = (STATE_SUCCESS, m, w1)" "table_run env sz ops m w1 = (es, m', w')"
  shows "mgr_ok m'"
  using dm_mgr_init_ok [OF assms(1)] table_run_ok [OF _ assms(2)] by blast

text \<open>
  C4. Looking a device up by its keys gives the identifier under which it was last created and not destroyed since,
  and an identifier is never given out twice.
\<close>

theorem device_table_history:
  assumes "dm_mgr_init env sz pk dk w = (STATE_SUCCESS, m, w1)" "table_run env sz ops m w1 = (es, m', w')"
  shows "(\<forall>pk' dk' x. dm_mgr_device_query pk' dk' (Some x) m' =
      (case fold happens es [(pk, dk) \<mapsto> IOTX_DM_LOCAL_NODE_DEVID] (pk', dk') of
         None \<Rightarrow> (STATE_DEV_MODEL_DEVICE_NOT_FOUND, Some x) | Some d \<Rightarrow> (STATE_SUCCESS, Some d)))
    \<and> distinct (IOTX_DM_LOCAL_NODE_DEVID # given es)"
proof -
  note i = dm_mgr_init_ok [OF assms(1)]
  with table_run_ok [OF _ assms(2)] have r: "mgr_ok m'" "devices m' = fold happens es [(pk, dk) \<mapsto> IOTX_DM_LOCAL_NODE_DEVID]"
    "\<forall>d \<in> set (given es). 1 \<le> d" "distinct (given es)" by auto
  have "dm_mgr_device_query pk' dk' (Some x) m' =
      (case devices m' (pk', dk') of None \<Rightarrow> (STATE_DEV_MODEL_DEVICE_NOT_FOUND, Some x) | Some d \<Rightarrow> (STATE_SUCCESS, Some d))" for pk' dk' x
    by (simp add: dm_mgr_device_query_def keys_unique [OF r(1)] split: option.split)
  with r(2-4) show ?thesis by (auto simp: IOTX_DM_LOCAL_NODE_DEVID_def)
qed

text \<open>
  Going through a well-formed table with \<^verbatim>\<open>dm_mgr_get_next_devid\<close> from the gateway visits every device once, in order, and
  ends with \<^verbatim>\<open>STATE_DEV_MODEL_DEVICE_NOT_FOUND\<close>.
\<close>

theorem next_devid_walks:
  assumes "mgr_ok m" "i < length (dev_list m)"
  shows "dm_mgr_get_next_devid (dn_devid (dev_list m ! i)) (Some x) m =
    (if Suc i < length (dev_list m) then (STATE_SUCCESS, Some (dn_devid (dev_list m ! Suc i)))
     else (STATE_DEV_MODEL_DEVICE_NOT_FOUND, Some x))"
proof -
  have "0 \<le> dn_devid (dev_list m ! i)" "distinct (map dn_devid (dev_list m))"
    using assms nth_mem [of i "dev_list m"] by (auto simp: mgr_ok_def node_ok_def)
  then show ?thesis using walk_lemma [OF _ assms(2)] by (simp add: dm_mgr_get_next_devid_def)
qed

section \<open>A table at work\<close>

definition demo_ops :: "table_op list" where
  "demo_ops = [Create IOTX_DM_DEVICE_SUBDEV (Some (ascii ''pk'')) (Some []) (Some (ascii ''d1'')) None (Some 0),
     Create IOTX_DM_DEVICE_SUBDEV (Some (ascii ''pk'')) (Some []) (Some (ascii ''d2'')) None (Some 0),
     Create IOTX_DM_DEVICE_SUBDEV (Some (ascii ''pk'')) (Some []) (Some (ascii ''d1'')) None (Some 0), Destroy 1,
     Create IOTX_DM_DEVICE_SUBDEV (Some (ascii ''pk'')) (Some []) (Some (ascii ''d1'')) None (Some 0)]"

definition demo_table :: dm_mgr_ctx where
  "demo_table = fst (snd (dm_mgr_init demo_dm 400 (ascii ''pk'') (ascii ''gw'') 0))"

lemma demo_table_init: "dm_mgr_init demo_dm 400 (ascii ''pk'') (ascii ''gw'') 0 = (STATE_SUCCESS, demo_table, 0)"
  by (simp add: demo_table_def dm_mgr_init_def insert_dev_def demo_dm_def dm_mgr_zero_def search_dev_by_devid_def
      IOTX_PRODUCT_KEY_LEN_def IOTX_DEVICE_KEY_LEN_def)

lemma demo_table_run:
  "\<exists>es m' w'. table_run demo_dm 400 demo_ops demo_table 0 = (es, m', w')"
  by (metis prod_cases3)

theorem device_table_invariant_witness: "mgr_ok (fst (snd (table_run demo_dm 400 demo_ops demo_table 0)))"
  by (rule device_table_invariant [OF demo_table_init, where es = "fst (table_run demo_dm 400 demo_ops demo_table 0)"
      and w' = "snd (snd (table_run demo_dm 400 demo_ops demo_table 0))"]) simp

theorem device_table_history_witness:
  "(\<forall>pk' dk' x. dm_mgr_device_query pk' dk' (Some x) (fst (snd (table_run demo_dm 400 demo_ops demo_table 0))) =
      (case fold happens (fst (table_run demo_dm 400 demo_ops demo_table 0))
          [(ascii ''pk'', ascii ''gw'') \<mapsto> IOTX_DM_LOCAL_NODE_DEVID] (pk', dk') of
         None \<Rightarrow> (STATE_DEV_MODEL_DEVICE_NOT_FOUND, Some x) | Some d \<Rightarrow> (STATE_SUCCESS, Some d)))
    \<and> distinct (IOTX_DM_LOCAL_NODE_DEVID # given (fst (table_run demo_dm 400 demo_ops demo_table 0)))"
  by (rule device_table_history [OF demo_table_init, where w' = "snd (snd (table_run demo_dm 400 demo_ops demo_table 0))"]) simp

theorem next_devid_walks_witness:
  "dm_mgr_get_next_devid (dn_devid (dev_list demo_table ! 0)) (Some 7) demo_table =
    (if Suc 0 < length (dev_list demo_table) then (STATE_SUCCESS, Some (dn_devid (dev_list demo_table ! Suc 0)))
     else (STATE_DEV_MODEL_DEVICE_NOT_FOUND, Some 7))"
proof (rule next_devid_walks)
  show "mgr_ok demo_table" using dm_mgr_init_ok [OF demo_table_init] by blast
  then show "0 < length (dev_list demo_table)" by (auto simp: mgr_ok_def)
qed

end
