(* ===== verification/DmUtils.thy ===== *)
theory DmUtils
  imports DmQueue InfraCjson
begin

text \<open>
  The utilities of the device model, \<^verbatim>\<open>src/src/dev_model/dm_utils.c\<close>. A pointer to an output pointer is
  \<open>byte list option option\<close>: the outer \<open>None\<close> is a null argument, the inner one the null pointer the
  functions ask for. A C string is its characters. \<open>None\<close> as a result is undefined behaviour. \<^verbatim>\<open>HAL_Snprintf\<close> never fails.
\<close>

abbreviation (input) FAIL_RETURN :: int where "FAIL_RETURN \<equiv> - 1"
abbreviation (input) STATE_DEV_MODEL_WRONG_JSON_FORMAT :: int where "STATE_DEV_MODEL_WRONG_JSON_FORMAT \<equiv> - 0x911"
abbreviation (input) STATE_DEV_MODEL_GET_JSON_ITEM_FAILED :: int where "STATE_DEV_MODEL_GET_JSON_ITEM_FAILED \<equiv> - 0x912"
abbreviation (input) STATE_DEV_MODEL_URL_SPLIT_FAILED :: int where "STATE_DEV_MODEL_URL_SPLIT_FAILED \<equiv> - 0x923"

text \<open>The test of the output pointer, the allocation of \<open>n\<close> bytes, and what is stored in them.\<close>

definition into_new ::
  "('w, 'e) hal_scheme \<Rightarrow> bool \<Rightarrow> int \<Rightarrow> (byte list \<Rightarrow> byte list option) \<Rightarrow> byte list option option \<Rightarrow> 'w \<Rightarrow>
   (int \<times> byte list option option \<times> 'w) option" where
  "into_new env valid n fill output w =
     (if \<not> valid \<or> output \<noteq> Some None then Some (STATE_USER_INPUT_INVALID, output, w)
      else let (ok, w) = HAL_Malloc env (word_of_int n) w
           in if \<not> ok then Some (STATE_SYS_DEPEND_MALLOC, output, w)
              else do {
                block \<leftarrow> fill (replicate (nat n) 0);
                Some (STATE_SUCCESS, Some (Some block), w) })"

definition mem_copy :: "byte list \<Rightarrow> int \<Rightarrow> byte list \<Rightarrow> byte list option" where
  "mem_copy src n block =
     (if 0 \<le> n \<and> nat n \<le> length src \<and> nat n \<le> length block then Some (buf_write block 0 (take (nat n) src)) else None)"

definition dm_utils_copy ::
  "('w, 'e) hal_scheme \<Rightarrow> byte list option \<Rightarrow> int \<Rightarrow> byte list option option \<Rightarrow> int \<Rightarrow> 'w \<Rightarrow>
   (int \<times> byte list option option \<times> 'w) option" where
  "dm_utils_copy env input input_len output output_len w =
     into_new env (input \<noteq> None) output_len (mem_copy (case input of Some i \<Rightarrow> i | None \<Rightarrow> []) input_len) output w"

definition dm_utils_copy_direct ::
  "('w, 'e) hal_scheme \<Rightarrow> byte list option \<Rightarrow> int \<Rightarrow> byte list option option \<Rightarrow> int \<Rightarrow> 'w \<Rightarrow>
   (int \<times> byte list option option \<times> 'w) option" where
  "dm_utils_copy_direct env input input_len output output_len w =
     into_new env (input \<noteq> None) output_len (mem_copy (case input of Some i \<Rightarrow> i | None \<Rightarrow> []) input_len) output w"

section \<open>Text\<close>

text \<open>The lengths go to the caller as soon as the brackets are found, the index after its length is checked.\<close>

definition dm_utils_strarr_index ::
  "byte list option \<Rightarrow> int \<Rightarrow> int option \<Rightarrow> int option \<Rightarrow> int option \<Rightarrow> (int \<times> int option \<times> int option \<times> int option) option" where
  "dm_utils_strarr_index input input_len partial_input_len array_input_len array_index =
     (case input of
        None \<Rightarrow> Some (STATE_USER_INPUT_INVALID, partial_input_len, array_input_len, array_index)
      | Some i \<Rightarrow>
          if input_len \<le> 1 \<or> array_index = None
          then Some (STATE_USER_INPUT_INVALID, partial_input_len, array_input_len, array_index)
          else do {
            r \<leftarrow> bracket_loop i (nat input_len) 0 0 None None;
            (case r of
               Some (Some pre, Some suf) \<Rightarrow>
                 if suf + 1 \<noteq> input_len then Some (FAIL_RETURN, partial_input_len, array_input_len, array_index)
                 else let p = map_option (\<lambda>_. pre) partial_input_len; a = map_option (\<lambda>_. suf + 1) array_input_len
                      in if suf - pre - 1 > 10 then Some (FAIL_RETURN, p, a, array_index)
                         else do {
                           n \<leftarrow> atoi (take (nat (suf - pre - 1)) (drop (nat (pre + 1)) i));
                           Some (STATE_SUCCESS, p, a, Some n) }
             | _ \<Rightarrow> Some (FAIL_RETURN, partial_input_len, array_input_len, array_index)) })"

text \<open>Nine characters of the number at most.\<close>

definition dm_utils_itoa ::
  "('w, 'e) hal_scheme \<Rightarrow> int \<Rightarrow> byte list option option \<Rightarrow> 'w \<Rightarrow> (int \<times> byte list option option \<times> 'w) option" where
  "dm_utils_itoa env input output w =
     (let text = snprintf 10 (fmt_d input)
      in into_new env True (int (length text) + 1) (mem_copy text (int (length text))) output w)"

definition dm_utils_itoa_direct ::
  "('w, 'e) hal_scheme \<Rightarrow> int \<Rightarrow> byte list option option \<Rightarrow> 'w \<Rightarrow> (int \<times> byte list option option \<times> 'w) option" where
  "dm_utils_itoa_direct env input output w =
     (let text = snprintf 10 (fmt_d input)
      in into_new env True (int (length text) + 1) (mem_copy text (int (length text))) output w)"

definition nibble_char :: "byte \<Rightarrow> byte" where
  "nibble_char c = (if c \<le> 9 then c + 0x30 else if 0xA \<le> c \<and> c \<le> 0xF then c + (0x41 - 0xA) else c)"

definition hex_of :: "byte \<Rightarrow> byte list" where
  "hex_of b = [nibble_char (drop_bit 4 b AND 0xF), nibble_char (b AND 0xF)]"

definition dm_utils_hex_to_str ::
  "('w, 'e) hal_scheme \<Rightarrow> byte list option \<Rightarrow> int \<Rightarrow> byte list option option \<Rightarrow> 'w \<Rightarrow> (int \<times> byte list option option \<times> 'w) option" where
  "dm_utils_hex_to_str env input input_len output w =
     into_new env (input \<noteq> None \<and> 0 < input_len) (input_len * 2 + 1)
       (\<lambda>block. case input of
          None \<Rightarrow> None
        | Some i \<Rightarrow> if nat input_len \<le> length i then Some (buf_write block 0 (concat (map hex_of (take (nat input_len) i)))) else None)
       output w"

text \<open>A character that is no digit leaves the value of the one before.\<close>

definition nibble_of :: "byte \<Rightarrow> byte \<Rightarrow> byte" where
  "nibble_of before c =
     (if 0x30 \<le> c \<and> c \<le> 0x39 then c - 0x30 else if 0x41 \<le> c \<and> c \<le> 0x46 then c - 0x41 + 0xA else before)"

fun str_to_hex_loop :: "byte \<Rightarrow> byte list \<Rightarrow> byte list" where
  "str_to_hex_loop before (a # b # cs) =
     (let x = nibble_of before a; y = nibble_of x b
      in (push_bit 4 x AND 0xF0 OR y AND 0xF) # str_to_hex_loop y cs)"
| "str_to_hex_loop before _ = []"

definition dm_utils_str_to_hex ::
  "('w, 'e) hal_scheme \<Rightarrow> byte list option \<Rightarrow> int \<Rightarrow> byte list option option \<Rightarrow> int option \<Rightarrow> 'w \<Rightarrow>
   (int \<times> byte list option option \<times> int option \<times> 'w) option" where
  "dm_utils_str_to_hex env input input_len output output_len w =
     (let valid = (input \<noteq> None \<and> 0 < input_len \<and> input_len smod 2 = 0 \<and> output_len \<noteq> None) in
      do {
        (rc, out, w) \<leftarrow> into_new env valid (input_len sdiv 2)
          (\<lambda>block. case input of
             None \<Rightarrow> None
           | Some i \<Rightarrow> if nat input_len \<le> length i then Some (str_to_hex_loop 0 (take (nat input_len) i)) else None)
          output w;
        Some (rc, out, if valid \<and> output = Some None then Some (input_len sdiv 2) else output_len, w) })"

fun memtok_loop :: "byte list \<Rightarrow> int \<Rightarrow> byte \<Rightarrow> int \<Rightarrow> nat \<Rightarrow> nat \<Rightarrow> int \<Rightarrow> nat option option" where
  "memtok_loop input input_len delimiter index 0 i count = Some None"
| "memtok_loop input input_len delimiter index (Suc n) i count = do {
     c \<leftarrow> byte_at input (int i);
     (if c = delimiter \<and> int i + 1 < input_len
      then (if count + 1 = index then Some (Some i)
            else memtok_loop input input_len delimiter index n (i + 1) (count + 1))
      else memtok_loop input input_len delimiter index n (i + 1) count) }"

definition dm_utils_memtok :: "byte list option \<Rightarrow> int \<Rightarrow> byte \<Rightarrow> int \<Rightarrow> int option \<Rightarrow> (int \<times> int option) option" where
  "dm_utils_memtok input input_len delimiter index offset =
     (case input of
        None \<Rightarrow> Some (STATE_USER_INPUT_INVALID, offset)
      | Some i \<Rightarrow>
          if input_len \<le> 0 \<or> offset = None then Some (STATE_USER_INPUT_INVALID, offset)
          else do {
            r \<leftarrow> memtok_loop i input_len delimiter index (nat input_len) 0 0;
            Some (case r of None \<Rightarrow> (STATE_DEV_MODEL_URL_SPLIT_FAILED, offset)
                  | Some o' \<Rightarrow> (STATE_SUCCESS, Some (int o'))) })"

definition dm_utils_replace_char :: "byte list option \<Rightarrow> int \<Rightarrow> byte \<Rightarrow> byte \<Rightarrow> (int \<times> byte list option) option" where
  "dm_utils_replace_char input input_len src dest =
     (case input of
        None \<Rightarrow> Some (STATE_USER_INPUT_INVALID, input)
      | Some i \<Rightarrow>
          if input_len \<le> 0 then Some (STATE_USER_INPUT_INVALID, input)
          else if nat input_len > length i then None
          else Some (STATE_SUCCESS,
            Some (map (\<lambda>c. if c = src then dest else c) (take (nat input_len) i) @ drop (nat input_len) i)))"

section \<open>URIs\<close>

text \<open>
  The conversions the device model prints with: \<^verbatim>\<open>%d\<close>, \<^verbatim>\<open>%s\<close>, \<^verbatim>\<open>%.*s\<close> and \<^verbatim>\<open>%llu\<close>. \<open>None\<close>: another conversion, an
  argument that does not fit, or a read outside the memory of a string. \<open>ArgAtoi\<close> is the number \<^verbatim>\<open>atoi\<close>
  makes of a string, \<open>ArgS\<close> the characters of a string, \<open>ArgStr\<close> memory that should hold one. A null string under precision 0 prints nothing.
\<close>

datatype fmt_arg = ArgD int | ArgAtoi "byte list" | ArgS "byte list" | ArgStr "byte list" | ArgN int "byte list option" | ArgU "64 word"

definition str_prec :: "int \<Rightarrow> byte list option \<Rightarrow> byte list option" where
  "str_prec n mem =
     (case mem of
        None \<Rightarrow> if n = 0 then Some [] else None
      | Some m \<Rightarrow>
          if n < 0 then c_str m
          else if nat n \<le> length m \<or> 0 \<in> set m then Some (takeWhile (\<lambda>c. c \<noteq> 0) (take (nat n) m)) else None)"

function c_format :: "byte list \<Rightarrow> fmt_arg list \<Rightarrow> byte list option" where
  "c_format [] args = Some []"
| "c_format (c # cs) args =
     (if c \<noteq> 0x25 then map_option ((#) c) (c_format cs args)
      else if take 1 cs = ascii ''d''
      then (case args of
              ArgD i # args \<Rightarrow> map_option ((@) (fmt_d i)) (c_format (drop 1 cs) args)
            | ArgAtoi s # args \<Rightarrow> do { i \<leftarrow> atoi s; map_option ((@) (fmt_d i)) (c_format (drop 1 cs) args) }
            | _ \<Rightarrow> None)
      else if take 1 cs = ascii ''s''
      then (case args of
              ArgS s # args \<Rightarrow> map_option ((@) s) (c_format (drop 1 cs) args)
            | ArgStr m # args \<Rightarrow> do { s \<leftarrow> c_str m; map_option ((@) s) (c_format (drop 1 cs) args) }
            | _ \<Rightarrow> None)
      else if take 3 cs = ascii ''.*s''
      then (case args of
              ArgN n m # args \<Rightarrow> do { s \<leftarrow> str_prec n m; map_option ((@) s) (c_format (drop 3 cs) args) }
            | _ \<Rightarrow> None)
      else if take 3 cs = ascii ''llu''
      then (case args of ArgU u # args \<Rightarrow> map_option ((@) (dec_digits (unat u))) (c_format (drop 3 cs) args) | _ \<Rightarrow> None)
      else None)"
  by pat_completeness auto
termination by (relation "measure (length \<circ> fst)") auto

text \<open>The prefix, the name and the keys are strings or null.\<close>

definition dm_utils_service_name ::
  "('w, 'e) hal_scheme \<Rightarrow> byte list option \<Rightarrow> byte list option \<Rightarrow> byte list option \<Rightarrow> byte list option \<Rightarrow>
   byte list option option \<Rightarrow> 'w \<Rightarrow> (int \<times> byte list option option \<times> 'w) option" where
  "dm_utils_service_name env prefix name product_key device_key service_name w =
     (case (product_key, device_key) of
        (Some pk, Some dk) \<Rightarrow>
          let prefix_len = (case prefix of None \<Rightarrow> 0 | Some p \<Rightarrow> length p);
              name_len = (case name of None \<Rightarrow> 0 | Some n \<Rightarrow> length n);
              service_name_len = prefix_len + name_len + length pk + length dk + 1
          in into_new env (prefix \<noteq> None \<or> name \<noteq> None) (int service_name_len)
               (\<lambda>block. do {
                  text \<leftarrow> (case prefix of None \<Rightarrow> Some [] | Some p \<Rightarrow> c_format p [ArgS pk, ArgS dk]);
                  let text = snprintf service_name_len text;
                  let block = buf_write block 0 text;
                  (case name of
                     None \<Rightarrow> Some block
                   | Some n \<Rightarrow> if length text + name_len \<le> length block then Some (buf_write block (length text) n) else None) })
               service_name w
      | _ \<Rightarrow> Some (STATE_USER_INPUT_INVALID, service_name, w))"

definition dm_utils_uri_add_prefix ::
  "('w, 'e) hal_scheme \<Rightarrow> byte list option \<Rightarrow> byte list option \<Rightarrow> byte list option option \<Rightarrow> 'w \<Rightarrow>
   (int \<times> byte list option option \<times> 'w) option" where
  "dm_utils_uri_add_prefix env prefix uri new_uri w =
     (case (prefix, uri) of
        (Some p, Some u) \<Rightarrow>
          into_new env True (int (length p + length u + 1)) (\<lambda>block. Some (buf_write (buf_write block 0 p) (length p) u)) new_uri w
      | _ \<Rightarrow> Some (STATE_USER_INPUT_INVALID, new_uri, w))"

section \<open>JSON\<close>

definition dm_utils_json_parse ::
  "(rat \<Rightarrow> rat) \<Rightarrow> byte list option \<Rightarrow> int \<Rightarrow> int \<Rightarrow> lite_cjson option \<Rightarrow> (int \<times> lite_cjson option) option" where
  "dm_utils_json_parse fl payload payload_len type lite =
     (if payload = None \<or> payload_len \<le> 0 \<or> type < 0 \<or> lite = None then Some (STATE_USER_INPUT_INVALID, lite)
      else do {
        (res, l) \<leftarrow> lite_cjson_parse fl payload payload_len cjson_zero;
        Some (if res \<noteq> STATE_SUCCESS \<or> type \<noteq> cJSON_Invalid \<and> cj_type l \<noteq> type
              then (STATE_DEV_MODEL_WRONG_JSON_FORMAT, Some cjson_zero)
              else (STATE_SUCCESS, Some l)) })"

definition dm_utils_json_object_item ::
  "(rat \<Rightarrow> rat) \<Rightarrow> lite_cjson option \<Rightarrow> byte list option \<Rightarrow> int \<Rightarrow> int \<Rightarrow> lite_cjson option \<Rightarrow> (int \<times> lite_cjson option) option" where
  "dm_utils_json_object_item fl lite key key_len type lite_item =
     (case lite of
        None \<Rightarrow> Some (STATE_USER_INPUT_INVALID, lite_item)
      | Some l \<Rightarrow>
          if cj_type l \<noteq> cJSON_Object \<or> key = None \<or> key_len \<le> 0 \<or> type < 0 \<or> lite_item = None
          then Some (STATE_USER_INPUT_INVALID, lite_item)
          else do {
            (res, item) \<leftarrow> lite_cjson_object_item fl lite key key_len (Some cjson_zero);
            Some (if res \<noteq> STATE_SUCCESS \<or> type \<noteq> cJSON_Invalid \<and> map_option cj_type item \<noteq> Some type
                  then (STATE_DEV_MODEL_GET_JSON_ITEM_FAILED, Some cjson_zero)
                  else (STATE_SUCCESS, item)) })"

end
