(* ===== verification/DmClient.thy ===== *)
theory DmClient
  imports DmTable DmUtils ConnMgr
begin

text \<open>
  The device model's side of the connection: \<^verbatim>\<open>src/src/dev_model/client/dm_client_adapter.c\<close>, and of
  \<^verbatim>\<open>dm_client.c\<close> the table of topics with subscribing to all of them and unsubscribing a sub-device. The handlers of
  incoming messages are in \<open>DmProcess\<close>.

  The state \<open>'w dm\<close> of the device model gathers the static contexts of its files: the table of devices, the queue to the
  user, the cache of requests, the number of the next request, the descriptor of the client, the callback
  for the user's own topics, and the connectivity manager, in which the settings and the outside world are. A result
  \<open>None\<close> is undefined behaviour, the use of a freed connection included, or a loop that does not end.
\<close>

record 'w dmodel_env =
  dmq :: "'w dm_env"
  dmc :: "'w cm_env"
  dm_double :: "rat \<Rightarrow> rat"
  user_topic_cb :: "nat \<Rightarrow> int \<Rightarrow> byte list \<Rightarrow> int \<Rightarrow> 'w \<Rightarrow> 'w"
  sizeof_dev_node :: u32
  sizeof_pointer :: nat

record 'w dm =
  dm_table :: dm_mgr_ctx
  dm_queue :: dm_ipc
  dm_cache :: msg_cache
  g_report_id :: u32
  client_fd :: int
  g_user_topic_callback :: "nat option"
  dm_cm :: "'w cm"

abbreviation (input) FAIL :: int where "FAIL \<equiv> FAIL_RETURN"

section \<open>Reaching the parts of the state\<close>

definition dm_world :: "'w dm \<Rightarrow> 'w" where
  "dm_world d = world (api_sys (cm_api (dm_cm d)))"

definition set_dm_world :: "'w \<Rightarrow> 'w dm \<Rightarrow> 'w dm" where
  "set_dm_world w d = d\<lparr>dm_cm := on_world (\<lambda>_. w) (dm_cm d)\<rparr>"

definition dm_malloc :: "'w dmodel_env \<Rightarrow> int \<Rightarrow> 'w dm \<Rightarrow> bool \<times> 'w dm" where
  "dm_malloc env n d = (let (ok, w) = HAL_Malloc (dmq env) (word_of_int n) (dm_world d) in (ok, set_dm_world w d))"

definition the_dm_opt :: "dm_opt_t \<Rightarrow> 'w dm \<Rightarrow> int \<times> int option" where
  "the_dm_opt opt d = dm_opt_get opt (Some 0) (g_dm_opt (settings (api_sys (cm_api (dm_cm d)))))"

definition on_cm :: "('w cm \<Rightarrow> (int \<times> 'w cm) outcome) \<Rightarrow> 'w dm \<Rightarrow> (int \<times> 'w dm) option" where
  "on_cm f d = (case f (dm_cm d) of Done (rc, c) \<Rightarrow> Some (rc, d\<lparr>dm_cm := c\<rparr>) | Freed \<Rightarrow> None | Undefined \<Rightarrow> None)"

text \<open>A URI in a new block, as its string.\<close>

definition service_uri ::
  "'w dmodel_env \<Rightarrow> byte list option \<Rightarrow> byte list option \<Rightarrow> byte list \<Rightarrow> byte list \<Rightarrow> 'w dm \<Rightarrow> (int \<times> byte list \<times> 'w dm) option" where
  "service_uri env prefix name pk dk d = do {
     (rc, out, w) \<leftarrow> dm_utils_service_name (dmq env) prefix name (Some pk) (Some dk) (Some None) (dm_world d);
     let d = set_dm_world w d;
     (case out of
        Some (Some block) \<Rightarrow> do { uri \<leftarrow> c_str block; Some (rc, uri, d) }
      | _ \<Rightarrow> Some (rc, [], d)) }"

definition iotx_report_id :: "'w dm \<Rightarrow> int \<times> 'w dm" where
  "iotx_report_id d = (sint (g_report_id d), d\<lparr>g_report_id := g_report_id d + 1\<rparr>)"

section \<open>The adapter\<close>

definition IOTX_DM_CLIENT_REQUEST_TIMEOUT_MS :: u32 where "IOTX_DM_CLIENT_REQUEST_TIMEOUT_MS = 5000"
definition IOTX_DM_CLIENT_KEEPALIVE_INTERVAL_MS :: u32 where "IOTX_DM_CLIENT_KEEPALIVE_INTERVAL_MS = 30000"
definition IOTX_DM_CLIENT_SUB_TIMEOUT_MS :: u32 where "IOTX_DM_CLIENT_SUB_TIMEOUT_MS = 5000"
definition IOTX_DM_CLIENT_SUB_RETRY_MAX_COUNTS :: nat where "IOTX_DM_CLIENT_SUB_RETRY_MAX_COUNTS = 3"
definition CONFIG_MQTT_TX_MAXLEN :: u32 where "CONFIG_MQTT_TX_MAXLEN = 2048"
definition CONFIG_MQTT_RX_MAXLEN :: u32 where "CONFIG_MQTT_RX_MAXLEN = 2048"

text \<open>The number of \<^verbatim>\<open>dm_client_event_handle\<close> among the callbacks of the connectivity manager.\<close>

definition DM_CLIENT_EVENT_HANDLE :: nat where "DM_CLIENT_EVENT_HANDLE = 1"

definition dm_client_open :: "'w dmodel_env \<Rightarrow> 'w dm \<Rightarrow> (int \<times> 'w dm) option" where
  "dm_client_open env d = do {
     let d = d\<lparr>client_fd := 0\<rparr>;
     (res, d) \<leftarrow> on_cm (iotx_cm_open (dmc env)
        \<lparr>cp_request_timeout_ms = IOTX_DM_CLIENT_REQUEST_TIMEOUT_MS,
         cp_keepalive_interval_ms = IOTX_DM_CLIENT_KEEPALIVE_INTERVAL_MS,
         cp_write_buf_size = CONFIG_MQTT_TX_MAXLEN, cp_read_buf_size = CONFIG_MQTT_RX_MAXLEN,
         cp_protocol_type = IOTX_CM_PROTOCOL_TYPE_MQTT, cp_handle_event = Some DM_CLIENT_EVENT_HANDLE, cp_context = 0\<rparr>) d;
     Some (if res < STATE_SUCCESS then (res, d) else (STATE_SUCCESS, d\<lparr>client_fd := res\<rparr>)) }"

definition dm_client_connect :: "'w dmodel_env \<Rightarrow> int \<Rightarrow> 'w dm \<Rightarrow> (int \<times> 'w dm) option" where
  "dm_client_connect env timeout_ms d = on_cm (iotx_cm_connect (dmc env) (client_fd d) (word_of_int timeout_ms)) d"

text \<open>\<open>local_sub\<close> is what the context points to, when it is not null.\<close>

definition dm_client_subscribe ::
  "'w dmodel_env \<Rightarrow> byte list \<Rightarrow> nat \<Rightarrow> byte option \<Rightarrow> 'w dm \<Rightarrow> (int \<times> 'w dm) option" where
  "dm_client_subscribe env uri callback local_sub d =
     (let ext = (if local_sub = Some 1
            then \<lparr>ext_ack_type = IOTX_CM_MESSAGE_SUB_LOCAL, ext_async = True, ext_sync_timeout = IOTX_DM_CLIENT_SUB_TIMEOUT_MS\<rparr>
            else \<lparr>ext_ack_type = IOTX_CM_MESSAGE_NO_ACK, ext_async = False, ext_sync_timeout = IOTX_DM_CLIENT_SUB_TIMEOUT_MS\<rparr>)
      in on_cm (iotx_cm_sub (dmc env) (client_fd d) (Some ext) (Some uri) callback) d)"

definition dm_client_unsubscribe :: "'w dmodel_env \<Rightarrow> byte list \<Rightarrow> 'w dm \<Rightarrow> (int \<times> 'w dm) option" where
  "dm_client_unsubscribe env uri d = on_cm (iotx_cm_unsub (dmc env) (client_fd d) (Some uri)) d"

definition dm_client_publish :: "'w dmodel_env \<Rightarrow> byte list \<Rightarrow> byte list \<Rightarrow> int \<Rightarrow> 'w dm \<Rightarrow> (int \<times> 'w dm) option" where
  "dm_client_publish env uri pl pl_len d =
     on_cm (iotx_cm_pub (dmc env) (client_fd d)
       (Some \<lparr>ext_ack_type = IOTX_CM_MESSAGE_NO_ACK, ext_async = True, ext_sync_timeout = 0\<rparr>)
       (Some uri) (Some pl) (word_of_int pl_len)) d"

definition dm_client_yield :: "u32 \<Rightarrow> 'w dm \<Rightarrow> (int \<times> 'w dm) option" where
  "dm_client_yield timeout d = on_cm (iotx_cm_yield (client_fd d) timeout) d"

section \<open>The topics\<close>

definition DM_URI_SYS_PREFIX :: "byte list" where "DM_URI_SYS_PREFIX = ascii ''/sys/%s/%s/''"
definition DM_URI_EXT_SESSION_PREFIX :: "byte list" where "DM_URI_EXT_SESSION_PREFIX = ascii ''/ext/session/%s/%s/''"

definition IOTX_DM_DEVICE_SINGLE :: int where "IOTX_DM_DEVICE_SINGLE = 1"

definition IOTX_DM_DEVICE_ALL :: int where
  "IOTX_DM_DEVICE_ALL = IOTX_DM_DEVICE_SINGLE OR IOTX_DM_DEVICE_SUBDEV OR IOTX_DM_DEVICE_GATEWAY"

text \<open>The functions the topics are handled by, and their numbers.\<close>

datatype dm_handler = Thing_measurepoint_set | Thing_service_invoke | Thing_reply | Thing_model_down_raw
  | Thing_model_up_raw_reply | Thing_device_register_reply | Thing_topo_add_reply | Thing_topo_delete_reply
  | Thing_topo_get_reply | Combine_login_reply | Combine_login_batch_reply | Combine_logout_reply | Thing_disable
  | Thing_enable | Thing_delete | Combine_disable | Combine_enable | Combine_delete | User_sub_request

fun handler_number :: "dm_handler \<Rightarrow> nat" where
  "handler_number Thing_measurepoint_set = 1"
| "handler_number Thing_service_invoke = 2"
| "handler_number Thing_reply = 3"
| "handler_number Thing_model_down_raw = 4"
| "handler_number Thing_model_up_raw_reply = 5"
| "handler_number Thing_device_register_reply = 6"
| "handler_number Thing_topo_add_reply = 7"
| "handler_number Thing_topo_delete_reply = 8"
| "handler_number Thing_topo_get_reply = 9"
| "handler_number Combine_login_reply = 10"
| "handler_number Combine_login_batch_reply = 11"
| "handler_number Combine_logout_reply = 12"
| "handler_number Thing_disable = 13"
| "handler_number Thing_enable = 14"
| "handler_number Thing_delete = 15"
| "handler_number Combine_disable = 16"
| "handler_number Combine_enable = 17"
| "handler_number Combine_delete = 18"
| "handler_number User_sub_request = 19"

record uri_map =
  uri_name :: "byte list"
  uri_prefix :: "byte list"
  uri_dev_type :: int
  uri_callback :: dm_handler

definition sys_all :: "string \<Rightarrow> dm_handler \<Rightarrow> uri_map" where
  "sys_all name h = \<lparr>uri_name = ascii name, uri_prefix = DM_URI_SYS_PREFIX, uri_dev_type = IOTX_DM_DEVICE_ALL, uri_callback = h\<rparr>"

definition sys_gateway :: "string \<Rightarrow> dm_handler \<Rightarrow> uri_map" where
  "sys_gateway name h =
     \<lparr>uri_name = ascii name, uri_prefix = DM_URI_SYS_PREFIX, uri_dev_type = IOTX_DM_DEVICE_GATEWAY, uri_callback = h\<rparr>"

definition session_gateway :: "string \<Rightarrow> dm_handler \<Rightarrow> uri_map" where
  "session_gateway name h =
     \<lparr>uri_name = ascii name, uri_prefix = DM_URI_EXT_SESSION_PREFIX, uri_dev_type = IOTX_DM_DEVICE_GATEWAY, uri_callback = h\<rparr>"

definition g_dm_client_uri_map :: "uri_map list" where
  "g_dm_client_uri_map =
     [sys_all ''thing/service/measurepoint/set'' Thing_measurepoint_set, sys_all ''thing/service/+'' Thing_service_invoke,
      sys_all ''thing/tag/query_reply'' Thing_reply, sys_all ''thing/tag/update_reply'' Thing_reply,
      sys_all ''thing/tag/delete_reply'' Thing_reply, sys_all ''thing/attribute/query_reply'' Thing_reply,
      sys_all ''thing/attribute/update_reply'' Thing_reply, sys_all ''thing/attribute/delete_reply'' Thing_reply,
      sys_all ''thing/measurepoint/post_reply'' Thing_reply, sys_all ''thing/measurepoint/post/batch_reply'' Thing_reply,
      sys_all ''thing/measurepoint/resume_reply'' Thing_reply, sys_all ''thing/measurepoint/resume/batch_reply'' Thing_reply,
      sys_all ''thing/event/+/post_reply'' Thing_reply, sys_all ''thing/model/down_raw'' Thing_model_down_raw,
      sys_all ''thing/model/up_raw_reply'' Thing_model_up_raw_reply,
      sys_gateway ''thing/device/register_reply'' Thing_device_register_reply,
      sys_gateway ''thing/topo/add_reply'' Thing_topo_add_reply, sys_gateway ''thing/topo/delete_reply'' Thing_topo_delete_reply,
      sys_gateway ''thing/topo/get_reply'' Thing_topo_get_reply, session_gateway ''combine/login_reply'' Combine_login_reply,
      session_gateway ''combine/login/batch_reply'' Combine_login_batch_reply,
      session_gateway ''combine/logout_reply'' Combine_logout_reply, sys_gateway ''thing/disable'' Thing_disable,
      sys_gateway ''thing/enable'' Thing_enable, sys_gateway ''thing/delete'' Thing_delete,
      session_gateway ''combine/disable'' Combine_disable, session_gateway ''combine/enable'' Combine_enable,
      session_gateway ''combine/delete'' Combine_delete]"

text \<open>At most three attempts.\<close>

fun sub_retry ::
  "'w dmodel_env \<Rightarrow> nat \<Rightarrow> byte list \<Rightarrow> nat \<Rightarrow> byte option \<Rightarrow> int \<Rightarrow> 'w dm \<Rightarrow> (int \<times> 'w dm) option" where
  "sub_retry env 0 uri cb local_sub res d = Some (res, d)"
| "sub_retry env (Suc retry_cnt) uri cb local_sub res d =
     (if res < STATE_SUCCESS
      then do { (res, d) \<leftarrow> dm_client_subscribe env uri cb local_sub d; sub_retry env retry_cnt uri cb local_sub res d }
      else Some (res, d))"

definition dm_client_subscribe_filter :: "'w dmodel_env \<Rightarrow> byte list \<Rightarrow> nat \<Rightarrow> 'w dm \<Rightarrow> (int \<times> 'w dm) option" where
  "dm_client_subscribe_filter env uri cb d =
     (let (res, opt) = the_dm_opt DM_OPT_DOWNSTREAM_THING_REPLY d
      in if res \<noteq> STATE_SUCCESS then Some (res, d)
         else if opt = Some 0 then dm_client_unsubscribe env uri d
         else sub_retry env IOTX_DM_CLIENT_SUB_RETRY_MAX_COUNTS uri cb None (- 1) d)"

fun subscribe_entries ::
  "'w dmodel_env \<Rightarrow> byte list \<Rightarrow> byte list \<Rightarrow> int \<Rightarrow> uri_map list \<Rightarrow> 'w dm \<Rightarrow> 'w dm option" where
  "subscribe_entries env pk dk dev_type [] d = Some d"
| "subscribe_entries env pk dk dev_type (e # es) d =
     (if uri_dev_type e AND dev_type = 0 then subscribe_entries env pk dk dev_type es d
      else do {
        (res, uri, d) \<leftarrow> service_uri env (Some (uri_prefix e)) (Some (uri_name e)) pk dk d;
        (if res < STATE_SUCCESS then subscribe_entries env pk dk dev_type es d
         else do {
           (_, d) \<leftarrow> sub_retry env IOTX_DM_CLIENT_SUB_RETRY_MAX_COUNTS uri (handler_number (uri_callback e)) (Some 0) (- 1) d;
           subscribe_entries env pk dk dev_type es d }) })"

definition dm_client_subscribe_all ::
  "'w dmodel_env \<Rightarrow> int \<Rightarrow> byte list \<Rightarrow> byte list \<Rightarrow> int \<Rightarrow> 'w dm \<Rightarrow> (int \<times> 'w dm) option" where
  "dm_client_subscribe_all env devid pk dk dev_type d =
     (let e = g_dm_client_uri_map ! 0 in do {
        (res, uri, d) \<leftarrow> service_uri env (Some (uri_prefix e)) (Some (uri_name e)) pk dk d;
        (_, d) \<leftarrow> (if res = STATE_SUCCESS
           then dm_client_subscribe_filter env uri (handler_number (uri_callback e)) d else Some (res, d));
        d \<leftarrow> subscribe_entries env pk dk dev_type (drop 1 g_dm_client_uri_map) d;
        Some (STATE_SUCCESS, d) })"

text \<open>An entry whose URI cannot be made is tried again.\<close>

partial_function (option) unsubscribe_loop ::
  "'w dmodel_env \<Rightarrow> byte list \<Rightarrow> byte list \<Rightarrow> uri_map list \<Rightarrow> 'w dm \<Rightarrow> 'w dm option" where
  "unsubscribe_loop env pk dk es d =
     (case es of
        [] \<Rightarrow> Some d
      | e # es' \<Rightarrow>
          if uri_dev_type e AND IOTX_DM_DEVICE_SUBDEV = 0 then unsubscribe_loop env pk dk es' d
          else do {
            (res, uri, d) \<leftarrow> service_uri env (Some (uri_prefix e)) (Some (uri_name e)) pk dk d;
            (if res < STATE_SUCCESS then unsubscribe_loop env pk dk es d
             else do {
               (_, d) \<leftarrow> dm_client_unsubscribe env uri d;
               unsubscribe_loop env pk dk es' d }) })"

declare unsubscribe_loop.simps [code]

definition dm_client_subdev_unsubscribe ::
  "'w dmodel_env \<Rightarrow> byte list \<Rightarrow> byte list \<Rightarrow> 'w dm \<Rightarrow> (int \<times> 'w dm) option" where
  "dm_client_subdev_unsubscribe env pk dk d = do {
     d \<leftarrow> unsubscribe_loop env pk dk g_dm_client_uri_map d;
     Some (STATE_SUCCESS, d) }"

definition dm_mgr_device_destroy :: "'w dmodel_env \<Rightarrow> int \<Rightarrow> 'w dm \<Rightarrow> (int \<times> 'w dm) option" where
  "dm_mgr_device_destroy env devid d =
     (let (res, n, m) = device_take_out devid (dm_table d)
      in case n of
           None \<Rightarrow> Some (res, d)
         | Some n \<Rightarrow> do {
             (_, d) \<leftarrow> dm_client_subdev_unsubscribe env (dn_product_key n) (dn_device_key n) (d\<lparr>dm_table := m\<rparr>);
             Some (STATE_SUCCESS, d) })"

end
