(* ===== verification/DmMessage.thy ===== *)
theory DmMessage
  imports DmClient InfraString Sha256
begin

text \<open>
  The messages of the device model, \<^verbatim>\<open>src/src/dev_model/dm_message.c\<close>: building and reading the JSON text of requests and
  responses, telling the user what happened, and carrying out what the cloud asks for. Functions the C file
  has several times under different names (enabling, disabling and deleting by \<^verbatim>\<open>thing\<close> or \<^verbatim>\<open>combine\<close>, the
  replies that carry one device) are one definition with the type of the event as argument.

  A pointer that is never null (the address of a local, a parsed pl) is the value itself. What a function stores
  through a pointer before it fails is dropped where every caller drops it. \<^verbatim>\<open>iotx_state_event\<close> and logging are not modelled.
\<close>

section \<open>Codes and keys\<close>

abbreviation (input) STATE_DEV_MODEL_ENOS_MSG_PARSE_FAILED :: int where "STATE_DEV_MODEL_ENOS_MSG_PARSE_FAILED \<equiv> - 0x924"
abbreviation (input) DM_JSON_PARSE_FAILED :: int where "DM_JSON_PARSE_FAILED \<equiv> - 4"

definition IOTX_DM_ERR_CODE_SUCCESS :: int where "IOTX_DM_ERR_CODE_SUCCESS = 200"
definition IOTX_DM_ERR_CODE_REQUEST_ERROR :: int where "IOTX_DM_ERR_CODE_REQUEST_ERROR = 400"

abbreviation (input) IOTX_DM_EVENT_CLOUD_CONNECTED :: int where "IOTX_DM_EVENT_CLOUD_CONNECTED \<equiv> 0"
abbreviation (input) IOTX_DM_EVENT_CLOUD_DISCONNECT :: int where "IOTX_DM_EVENT_CLOUD_DISCONNECT \<equiv> 1"
abbreviation (input) IOTX_DM_EVENT_CLOUD_RECONNECT :: int where "IOTX_DM_EVENT_CLOUD_RECONNECT \<equiv> 2"
abbreviation (input) IOTX_DM_EVENT_INITIALIZED :: int where "IOTX_DM_EVENT_INITIALIZED \<equiv> 10"
abbreviation (input) IOTX_DM_EVENT_MEASUREPOINT_SET :: int where "IOTX_DM_EVENT_MEASUREPOINT_SET \<equiv> 15"
abbreviation (input) IOTX_DM_EVENT_THING_SERVICE_INVOKE :: int where "IOTX_DM_EVENT_THING_SERVICE_INVOKE \<equiv> 17"
abbreviation (input) IOTX_DM_EVENT_THING_DISABLE :: int where "IOTX_DM_EVENT_THING_DISABLE \<equiv> 18"
abbreviation (input) IOTX_DM_EVENT_THING_ENABLE :: int where "IOTX_DM_EVENT_THING_ENABLE \<equiv> 19"
abbreviation (input) IOTX_DM_EVENT_THING_DELETE :: int where "IOTX_DM_EVENT_THING_DELETE \<equiv> 20"
abbreviation (input) IOTX_DM_EVENT_MODEL_DOWN_RAW :: int where "IOTX_DM_EVENT_MODEL_DOWN_RAW \<equiv> 21"
abbreviation (input) IOTX_DM_EVENT_SUBDEV_REGISTER_REPLY :: int where "IOTX_DM_EVENT_SUBDEV_REGISTER_REPLY \<equiv> 23"
abbreviation (input) IOTX_DM_EVENT_SUBDEV_UNREGISTER_REPLY :: int where "IOTX_DM_EVENT_SUBDEV_UNREGISTER_REPLY \<equiv> 25"
abbreviation (input) IOTX_DM_EVENT_TOPO_ADD_REPLY :: int where "IOTX_DM_EVENT_TOPO_ADD_REPLY \<equiv> 26"
abbreviation (input) IOTX_DM_EVENT_TOPO_DELETE_REPLY :: int where "IOTX_DM_EVENT_TOPO_DELETE_REPLY \<equiv> 27"
abbreviation (input) IOTX_DM_EVENT_TOPO_GET_REPLY :: int where "IOTX_DM_EVENT_TOPO_GET_REPLY \<equiv> 28"
abbreviation (input) IOTX_DM_EVENT_THING_REPLY :: int where "IOTX_DM_EVENT_THING_REPLY \<equiv> 30"
abbreviation (input) IOTX_DM_EVENT_COMBINE_LOGIN_REPLY :: int where "IOTX_DM_EVENT_COMBINE_LOGIN_REPLY \<equiv> 31"
abbreviation (input) IOTX_DM_EVENT_COMBINE_LOGIN_BATCH_REPLY :: int where "IOTX_DM_EVENT_COMBINE_LOGIN_BATCH_REPLY \<equiv> 32"
abbreviation (input) IOTX_DM_EVENT_COMBINE_LOGOUT_REPLY :: int where "IOTX_DM_EVENT_COMBINE_LOGOUT_REPLY \<equiv> 33"
abbreviation (input) IOTX_DM_EVENT_COMBINE_DISABLE :: int where "IOTX_DM_EVENT_COMBINE_DISABLE \<equiv> 34"
abbreviation (input) IOTX_DM_EVENT_COMBINE_ENABLE :: int where "IOTX_DM_EVENT_COMBINE_ENABLE \<equiv> 35"
abbreviation (input) IOTX_DM_EVENT_COMBINE_DELETE :: int where "IOTX_DM_EVENT_COMBINE_DELETE \<equiv> 36"
abbreviation (input) IOTX_DM_EVENT_MODEL_UP_RAW_REPLY :: int where "IOTX_DM_EVENT_MODEL_UP_RAW_REPLY \<equiv> 37"

definition DM_UTILS_UINT32_STRLEN :: int where "DM_UTILS_UINT32_STRLEN = 10"
definition DM_UTILS_UINT64_STRLEN :: nat where "DM_UTILS_UINT64_STRLEN = 20"
definition DM_MSG_VERSION :: "byte list" where "DM_MSG_VERSION = ascii ''1.0''"
definition DM_MSG_KEY_ID :: "byte list" where "DM_MSG_KEY_ID = ascii ''id''"
definition DM_MSG_KEY_VERSION :: "byte list" where "DM_MSG_KEY_VERSION = ascii ''version''"
definition DM_MSG_KEY_METHOD :: "byte list" where "DM_MSG_KEY_METHOD = ascii ''method''"
definition DM_MSG_KEY_PARAMS :: "byte list" where "DM_MSG_KEY_PARAMS = ascii ''params''"
definition DM_MSG_KEY_CODE :: "byte list" where "DM_MSG_KEY_CODE = ascii ''code''"
definition DM_MSG_KEY_DATA :: "byte list" where "DM_MSG_KEY_DATA = ascii ''data''"
definition DM_MSG_KEY_MESSAGE :: "byte list" where "DM_MSG_KEY_MESSAGE = ascii ''message''"
definition DM_MSG_KEY_PRODUCT_KEY :: "byte list" where "DM_MSG_KEY_PRODUCT_KEY = ascii ''productKey''"
definition DM_MSG_KEY_DEVICE_KEY :: "byte list" where "DM_MSG_KEY_DEVICE_KEY = ascii ''deviceKey''"
definition DM_MSG_KEY_DEVICE_SECRET :: "byte list" where "DM_MSG_KEY_DEVICE_SECRET = ascii ''deviceSecret''"
definition DM_MSG_SIGN_METHOD_SHA256 :: "byte list" where "DM_MSG_SIGN_METHOD_SHA256 = ascii ''Sha256''"
definition DM_MSG_SIGN_METHOD_HMACSHA256 :: "byte list" where "DM_MSG_SIGN_METHOD_HMACSHA256 = ascii ''hmacSha256''"
definition DM_URI_SERVICE_DELIMITER :: byte where "DM_URI_SERVICE_DELIMITER = 0x2F"
definition DM_ENOS_METHOD_DELIMITER :: byte where "DM_ENOS_METHOD_DELIMITER = 0x2E"

section \<open>Messages to the user\<close>

definition send_to_user :: "'w dmodel_env \<Rightarrow> int \<Rightarrow> byte list option \<Rightarrow> 'w dm \<Rightarrow> int \<times> 'w dm" where
  "send_to_user env type m d =
     (let (res, q, w) = dm_msg_send_to_user (dmq env) type m (dm_queue d) (dm_world d)
      in (res, set_dm_world w (d\<lparr>dm_queue := q\<rparr>)))"

text \<open>
  A message printed after the format into a block with \<open>extra\<close> bytes for what it prints, the format's own length and a NUL.
  \<open>no_memory\<close>, \<open>on_fail\<close>: what the caller returns when there is no block, and what it makes of an error of the queue.
\<close>

definition tell_user ::
  "'w dmodel_env \<Rightarrow> int \<Rightarrow> (int \<Rightarrow> int) \<Rightarrow> int \<Rightarrow> byte list \<Rightarrow> int \<Rightarrow> fmt_arg list \<Rightarrow> 'w dm \<Rightarrow> (int \<times> 'w dm) option" where
  "tell_user env no_memory on_fail type fmt extra args d =
     (let message_len = int (length fmt) + extra + 1;
          (ok, d) = dm_malloc env message_len d
      in if \<not> ok then Some (no_memory, d)
         else do {
           text \<leftarrow> c_format fmt args;
           let (res, d) = send_to_user env type (Some (snprintf (nat message_len) text)) d;
           Some (if res \<noteq> STATE_SUCCESS then on_fail res else STATE_SUCCESS, d) })"

abbreviation (input) tell :: "'w dmodel_env \<Rightarrow> int \<Rightarrow> byte list \<Rightarrow> int \<Rightarrow> fmt_arg list \<Rightarrow> 'w dm \<Rightarrow> (int \<times> 'w dm) option" where
  "tell env \<equiv> tell_user env STATE_SYS_DEPEND_MALLOC (\<lambda>_. FAIL_RETURN)"

section \<open>Reading JSON\<close>

definition json_item :: "'w dmodel_env \<Rightarrow> lite_cjson \<Rightarrow> byte list \<Rightarrow> (int \<times> lite_cjson) option" where
  "json_item env lite key = do {
     (res, out) \<leftarrow> lite_cjson_object_item (dm_double env) (Some lite) (Some (key @ [0])) (int (length key)) (Some cjson_zero);
     Some (res, case out of Some item \<Rightarrow> item | None \<Rightarrow> cjson_zero) }"

definition json_element :: "'w dmodel_env \<Rightarrow> lite_cjson \<Rightarrow> int \<Rightarrow> (int \<times> lite_cjson) option" where
  "json_element env lite index = do {
     (res, out) \<leftarrow> lite_cjson_array_item (dm_double env) (Some lite) index (Some cjson_zero);
     Some (res, case out of Some item \<Rightarrow> item | None \<Rightarrow> cjson_zero) }"

text \<open>Members of an object with the types they must have, read up to the first that fails.\<close>

fun json_members :: "'w dmodel_env \<Rightarrow> lite_cjson \<Rightarrow> (byte list \<times> int) list \<Rightarrow> lite_cjson list option option" where
  "json_members env lite [] = Some (Some [])"
| "json_members env lite ((key, type) # ks) = do {
     (res, out) \<leftarrow> dm_utils_json_object_item (dm_double env) (Some lite) (Some (key @ [0])) (int (length key)) type (Some cjson_zero);
     (case out of
        Some item \<Rightarrow>
          if res \<noteq> STATE_SUCCESS then Some None
          else do { items \<leftarrow> json_members env lite ks; Some (map_option ((#) item) items) }
      | None \<Rightarrow> Some None) }"

text \<open>The C string in \<open>n\<close> bytes of zeros an item is copied over.\<close>

definition item_string :: "nat \<Rightarrow> lite_cjson \<Rightarrow> byte list option" where
  "item_string n item = do {
     mem \<leftarrow> cj_value item;
     block \<leftarrow> mem_copy mem (cj_value_length item) (replicate n 0);
     c_str block }"

definition item_number :: "nat \<Rightarrow> lite_cjson \<Rightarrow> int option" where
  "item_number n item = do { s \<leftarrow> item_string n item; atoi s }"

definition dm_msg_uri_parse_pkdk ::
  "byte list option \<Rightarrow> int \<Rightarrow> int \<Rightarrow> int \<Rightarrow> byte list option \<Rightarrow> byte list option \<Rightarrow>
   (int \<times> byte list option \<times> byte list option) option" where
  "dm_msg_uri_parse_pkdk uri uri_len start_deli end_deli pkb dkb =
     (case (uri, pkb, dkb) of
        (Some u, Some pk, Some dk) \<Rightarrow>
          if uri_len \<le> 0 then Some (STATE_USER_INPUT_INVALID, pkb, dkb)
          else do {
            pks \<leftarrow> c_str pk;
            dks \<leftarrow> c_str dk;
            (if length pks \<ge> IOTX_PRODUCT_KEY_LEN + 1 \<or> length dks \<ge> IOTX_DEVICE_KEY_LEN + 1
             then Some (STATE_USER_INPUT_INVALID, pkb, dkb)
             else do {
               (res, start) \<leftarrow> dm_utils_memtok uri uri_len DM_URI_SERVICE_DELIMITER start_deli (Some 0);
               (if res \<noteq> STATE_SUCCESS then Some (res, pkb, dkb) else do {
               (res, slice) \<leftarrow> dm_utils_memtok uri uri_len DM_URI_SERVICE_DELIMITER (start_deli + 1) (Some 0);
               (if res \<noteq> STATE_SUCCESS then Some (res, pkb, dkb) else do {
               (res, end') \<leftarrow> dm_utils_memtok uri uri_len DM_URI_SERVICE_DELIMITER end_deli (Some 0);
               (if res \<noteq> STATE_SUCCESS then Some (res, pkb, dkb) else do {
                  s \<leftarrow> start; m \<leftarrow> slice; e \<leftarrow> end';
                  pk \<leftarrow> mem_copy (drop (nat (s + 1)) u) (m - s - 1) pk;
                  dk \<leftarrow> mem_copy (drop (nat (m + 1)) u) (e - m - 1) dk;
                  Some (STATE_SUCCESS, Some pk, Some dk) }) }) }) }) }
      | _ \<Rightarrow> Some (STATE_USER_INPUT_INVALID, pkb, dkb))"

record dm_msg_request_payload =
  rq_id :: lite_cjson
  rq_version :: lite_cjson
  rq_method :: lite_cjson
  rq_params :: lite_cjson

record dm_msg_response_payload =
  rs_id :: lite_cjson
  rs_code :: lite_cjson
  rs_data :: lite_cjson
  rs_message :: lite_cjson

definition dm_msg_request_parse ::
  "'w dmodel_env \<Rightarrow> byte list option \<Rightarrow> int \<Rightarrow> (int + dm_msg_request_payload) option" where
  "dm_msg_request_parse env pl pl_len =
     (if pl = None \<or> pl_len \<le> 0 then Some (Inl STATE_USER_INPUT_INVALID)
      else do {
        (res, lite) \<leftarrow> dm_utils_json_parse (dm_double env) pl pl_len cJSON_Object (Some cjson_zero);
        lite \<leftarrow> lite;
        (if res \<noteq> STATE_SUCCESS then Some (Inl STATE_DEV_MODEL_ENOS_MSG_PARSE_FAILED)
         else do {
           items \<leftarrow> json_members env lite [(DM_MSG_KEY_ID, cJSON_String), (DM_MSG_KEY_VERSION, cJSON_String),
             (DM_MSG_KEY_METHOD, cJSON_String), (DM_MSG_KEY_PARAMS, cJSON_Invalid)];
           Some (case items of
               Some [i, v, m, p] \<Rightarrow> Inr \<lparr>rq_id = i, rq_version = v, rq_method = m, rq_params = p\<rparr>
             | _ \<Rightarrow> Inl STATE_DEV_MODEL_ENOS_MSG_PARSE_FAILED) }) })"

definition dm_msg_response_parse ::
  "'w dmodel_env \<Rightarrow> byte list option \<Rightarrow> int \<Rightarrow> (int + dm_msg_response_payload) option" where
  "dm_msg_response_parse env pl pl_len =
     (if pl = None \<or> pl_len \<le> 0 then Some (Inl STATE_USER_INPUT_INVALID)
      else do {
        (res, lite) \<leftarrow> dm_utils_json_parse (dm_double env) pl pl_len cJSON_Object (Some cjson_zero);
        lite \<leftarrow> lite;
        (if res \<noteq> STATE_SUCCESS then Some (Inl STATE_DEV_MODEL_ENOS_MSG_PARSE_FAILED)
         else do {
           items \<leftarrow> json_members env lite
             [(DM_MSG_KEY_ID, cJSON_String), (DM_MSG_KEY_CODE, cJSON_Number), (DM_MSG_KEY_DATA, cJSON_Invalid)];
           (case items of
              Some [i, c, x] \<Rightarrow> do {
                (_, m) \<leftarrow> dm_utils_json_object_item (dm_double env) (Some lite) (Some (DM_MSG_KEY_MESSAGE @ [0]))
                  (int (length DM_MSG_KEY_MESSAGE)) cJSON_Invalid (Some cjson_zero);
                m \<leftarrow> m;
                Some (Inr \<lparr>rs_id = i, rs_code = c, rs_data = x, rs_message = m\<rparr>) }
            | _ \<Rightarrow> Some (Inl STATE_DEV_MODEL_ENOS_MSG_PARSE_FAILED)) }) })"

section \<open>Requests and responses to the cloud\<close>

abbreviation (input) DM_MSG_DEST_CLOUD :: int where "DM_MSG_DEST_CLOUD \<equiv> 1"
abbreviation (input) DM_MSG_DEST_LOCAL :: int where "DM_MSG_DEST_LOCAL \<equiv> 2"
abbreviation (input) DM_MSG_DEST_ALL :: int where "DM_MSG_DEST_ALL \<equiv> 3"

text \<open>The callback of a request is not used over MQTT and left out. \<^verbatim>\<open>params\<close> is memory, the other strings are strings.\<close>

record dm_msg_request =
  rm_msgid :: int
  rm_devid :: int
  rm_service_prefix :: "byte list option"
  rm_service_name :: "byte list option"
  rm_product_key :: "byte list"
  rm_device_key :: "byte list"
  rm_params :: "byte list option"
  rm_params_len :: int
  rm_method :: "byte list option"

record dm_msg_response =
  rp_prefix :: "byte list option"
  rp_name :: "byte list option"
  rp_product_key :: "byte list"
  rp_device_key :: "byte list"
  rp_code :: int

text \<open>A printed payload: the block it is in, when it is a JSON text.\<close>

definition json_payload :: "'w dmodel_env \<Rightarrow> int \<Rightarrow> byte list \<Rightarrow> fmt_arg list \<Rightarrow> (bool \<times> byte list) option" where
  "json_payload env pl_len fmt args = do {
     text \<leftarrow> c_format fmt args;
     let pl = buf_write (replicate (nat pl_len) 0) 0 (snprintf (nat pl_len) text @ [0]);
     (res, _) \<leftarrow> lite_cjson_parse (dm_double env) (Some pl) pl_len cjson_zero;
     Some (\<not> res < STATE_SUCCESS, pl) }"

definition DM_MSG_REQUEST :: "byte list" where
  "DM_MSG_REQUEST = ascii ''{\"id\":\"%d\",\"version\":\"%s\",\"params\":%.*s,\"method\":\"%s\"}''"

definition dm_msg_request :: "'w dmodel_env \<Rightarrow> int \<Rightarrow> dm_msg_request \<Rightarrow> 'w dm \<Rightarrow> (int \<times> 'w dm) option" where
  "dm_msg_request env type r d =
     (case (rm_params r, rm_method r) of
        (Some params, Some method) \<Rightarrow> do {
          (res, uri, d) \<leftarrow> service_uri env (rm_service_prefix r) (rm_service_name r) (rm_product_key r) (rm_device_key r) d;
          (if res \<noteq> STATE_SUCCESS then Some (res, d)
           else let pl_len = int (length DM_MSG_REQUEST + 10 + length DM_MSG_VERSION) + rm_params_len r + int (length method) + 1;
                    (ok, d) = dm_malloc env pl_len d
             in if \<not> ok then Some (STATE_SYS_DEPEND_MALLOC, d)
                else do {
                  (good, pl) \<leftarrow> json_payload env pl_len DM_MSG_REQUEST
                    [ArgD (rm_msgid r), ArgS DM_MSG_VERSION, ArgN (rm_params_len r) (Some params), ArgS method];
                  (if \<not> good then Some (STATE_DEV_MODEL_WRONG_JSON_FORMAT, d)
                   else if type AND DM_MSG_DEST_CLOUD \<noteq> 0
                   then do { text \<leftarrow> c_str pl; dm_client_publish env uri pl (int (length text)) d }
                   else Some (0, d)) }) }
      | _ \<Rightarrow> Some (STATE_USER_INPUT_INVALID, d))"

definition DM_MSG_RESPONSE_WITH_DATA :: "byte list" where
  "DM_MSG_RESPONSE_WITH_DATA = ascii ''{\"id\":\"%.*s\",\"code\":%d,\"data\":%.*s}''"

definition dm_msg_response ::
  "'w dmodel_env \<Rightarrow> int \<Rightarrow> lite_cjson \<Rightarrow> dm_msg_response \<Rightarrow> byte list option \<Rightarrow> int \<Rightarrow> 'w dm \<Rightarrow> (int \<times> 'w dm) option" where
  "dm_msg_response env type reqid r data data_len d =
     (if data = None \<or> data_len \<le> 0 then Some (STATE_USER_INPUT_INVALID, d)
      else do {
        (res, uri, d) \<leftarrow> service_uri env (rp_prefix r) (rp_name r) (rp_product_key r) (rp_device_key r) d;
        (if res \<noteq> STATE_SUCCESS then Some (FAIL_RETURN, d)
         else let pl_len = int (length DM_MSG_RESPONSE_WITH_DATA) + cj_value_length reqid + DM_UTILS_UINT32_STRLEN + data_len + 1;
                  (ok, d) = dm_malloc env pl_len d
           in if \<not> ok then Some (STATE_SYS_DEPEND_MALLOC, d)
              else do {
                (good, pl) \<leftarrow> json_payload env pl_len DM_MSG_RESPONSE_WITH_DATA
                  [ArgN (cj_value_length reqid) (cj_value reqid), ArgD (rp_code r), ArgN data_len data];
                (if \<not> good then Some (FAIL_RETURN, d)
                 else if type AND DM_MSG_DEST_CLOUD \<noteq> 0
                 then do {
                   text \<leftarrow> c_str pl;
                   (_, d) \<leftarrow> dm_client_publish env uri pl (int (length text)) d;
                   Some (STATE_SUCCESS, d) }
                 else Some (STATE_SUCCESS, d)) }) })"

section \<open>What the cloud asks for\<close>

definition find_devid :: "byte list \<Rightarrow> byte list \<Rightarrow> 'w dm \<Rightarrow> int \<times> int" where
  "find_devid pk dk d =
     (let (res, out) = dm_mgr_search_device_by_pkdk (Some pk) (Some dk) (Some 0) (dm_table d)
      in (res, case out of Some i \<Rightarrow> i | None \<Rightarrow> 0))"

definition keys_too_long :: "byte list \<Rightarrow> byte list \<Rightarrow> bool" where
  "keys_too_long pk dk \<longleftrightarrow> length pk \<ge> IOTX_PRODUCT_KEY_LEN + 1 \<or> length dk \<ge> IOTX_DEVICE_KEY_LEN + 1"

definition on_table :: "(dm_mgr_ctx \<Rightarrow> int \<times> dm_mgr_ctx) \<Rightarrow> 'w dm \<Rightarrow> int \<times> 'w dm" where
  "on_table f d = (let (res, m) = f (dm_table d) in (res, d\<lparr>dm_table := m\<rparr>))"

definition dm_msg_thing_model_user_sub ::
  "'w dmodel_env \<Rightarrow> byte list \<Rightarrow> byte list \<Rightarrow> byte list option \<Rightarrow> int \<Rightarrow> 'w dm \<Rightarrow> (int \<times> 'w dm) option" where
  "dm_msg_thing_model_user_sub env pk dk pl pl_len d =
     (case pl of
        None \<Rightarrow> Some (STATE_USER_INPUT_INVALID, d)
      | Some mem \<Rightarrow>
          if length pk \<ge> IOTX_PRODUCT_KEY_LEN \<or> length dk \<ge> IOTX_DEVICE_KEY_LEN \<or> pl_len \<le> 0
          then Some (STATE_USER_INPUT_INVALID, d)
          else let (res, devid) = find_devid pk dk d in
            if res \<noteq> STATE_SUCCESS then Some (res, d)
            else let (ok, d) = dm_malloc env (pl_len + 1) d
              in if \<not> ok then Some (STATE_SYS_DEPEND_MALLOC, d)
                 else do {
                   request \<leftarrow> mem_copy mem pl_len (replicate (nat pl_len + 1) 0);
                   Some (STATE_SUCCESS,
                     case g_user_topic_callback d of
                       None \<Rightarrow> d
                     | Some f \<Rightarrow> set_dm_world (user_topic_cb env f devid request pl_len (dm_world d)) d) })"

definition DM_MSG_THING_MODEL_DOWN_FMT :: "byte list" where
  "DM_MSG_THING_MODEL_DOWN_FMT = ascii ''{\"devid\":%d,\"payload\":\"%.*s\"}''"

text \<open>Raw data, shown to the user in hexadecimal: what the cloud sends down, and its reply to what was sent up.\<close>

definition raw_to_user ::
  "'w dmodel_env \<Rightarrow> int \<Rightarrow> byte list \<Rightarrow> byte list \<Rightarrow> byte list option \<Rightarrow> int \<Rightarrow> 'w dm \<Rightarrow> (int \<times> 'w dm) option" where
  "raw_to_user env type pk dk pl pl_len d =
     (if keys_too_long pk dk \<or> pl = None \<or> pl_len \<le> 0 then Some (STATE_USER_INPUT_INVALID, d)
      else let (res, devid) = find_devid pk dk d in
        if res \<noteq> STATE_SUCCESS then Some (FAIL_RETURN, d)
        else do {
          (res, out, w) \<leftarrow> dm_utils_hex_to_str (dmq env) pl pl_len (Some None) (dm_world d);
          let d = set_dm_world w d;
          (if res \<noteq> STATE_SUCCESS then Some (FAIL_RETURN, d)
           else do {
             block \<leftarrow> (case out of Some b \<Rightarrow> b | None \<Rightarrow> None);
             hexstr \<leftarrow> c_str block;
             tell env type DM_MSG_THING_MODEL_DOWN_FMT (DM_UTILS_UINT32_STRLEN + int (length hexstr))
               [ArgD devid, ArgN (int (length hexstr)) (Some (hexstr @ [0]))] d }) })"

definition dm_msg_thing_model_down_raw ::
  "'w dmodel_env \<Rightarrow> byte list \<Rightarrow> byte list \<Rightarrow> byte list option \<Rightarrow> int \<Rightarrow> 'w dm \<Rightarrow> (int \<times> 'w dm) option" where
  "dm_msg_thing_model_down_raw env = raw_to_user env IOTX_DM_EVENT_MODEL_DOWN_RAW"

definition dm_msg_thing_model_up_raw_reply ::
  "'w dmodel_env \<Rightarrow> byte list \<Rightarrow> byte list \<Rightarrow> byte list option \<Rightarrow> int \<Rightarrow> 'w dm \<Rightarrow> (int \<times> 'w dm) option" where
  "dm_msg_thing_model_up_raw_reply env = raw_to_user env IOTX_DM_EVENT_MODEL_UP_RAW_REPLY"

definition item_arg :: "lite_cjson \<Rightarrow> fmt_arg" where
  "item_arg item = ArgN (cj_value_length item) (cj_value item)"

definition DM_MSG_MEASUREPOINT_SET_FMT :: "byte list" where
  "DM_MSG_MEASUREPOINT_SET_FMT = ascii ''{\"devid\":%d,\"id\":%.*s,\"payload\":%.*s}''"

definition dm_msg_measurepoint_set ::
  "'w dmodel_env \<Rightarrow> int \<Rightarrow> dm_msg_request_payload \<Rightarrow> 'w dm \<Rightarrow> (int \<times> 'w dm) option" where
  "dm_msg_measurepoint_set env devid r =
     tell env IOTX_DM_EVENT_MEASUREPOINT_SET DM_MSG_MEASUREPOINT_SET_FMT
       (DM_UTILS_UINT32_STRLEN + cj_value_length (rq_params r)) [ArgD devid, item_arg (rq_id r), item_arg (rq_params r)]"

definition DM_MSG_SERVICE_INVOKE_FMT :: "byte list" where
  "DM_MSG_SERVICE_INVOKE_FMT =
     ascii ''{\"id\":\"%.*s\",\"devid\":%d,\"serviceid\":\"%.*s\",\"payload\":%.*s,\"ctx\":\"%s\"}''"

text \<open>\<open>ctxt\<close> is the representation of the pointer; it is always the null pointer.\<close>

definition dm_msg_thing_service_invoke ::
  "'w dmodel_env \<Rightarrow> byte list \<Rightarrow> byte list \<Rightarrow> byte list \<Rightarrow> int \<Rightarrow> dm_msg_request_payload \<Rightarrow> byte list \<Rightarrow> 'w dm \<Rightarrow>
   (int \<times> 'w dm) option" where
  "dm_msg_thing_service_invoke env pk dk identifier identifier_len r ctxt d =
     (let (res, devid) = find_devid pk dk d in
      if res \<noteq> STATE_SUCCESS then Some (FAIL_RETURN, d)
      else let (ok, d) = dm_malloc env (int (sizeof_pointer env) * 2 + 1) d
        in if \<not> ok then Some (STATE_SYS_DEPEND_MALLOC, d)
           else let ctx_addr_str = infra_hex2str ctxt in
             tell env IOTX_DM_EVENT_THING_SERVICE_INVOKE DM_MSG_SERVICE_INVOKE_FMT
               (cj_value_length (rq_id r) + DM_UTILS_UINT32_STRLEN + identifier_len + cj_value_length (rq_params r)
                  + int (length ctx_addr_str))
               [item_arg (rq_id r), ArgD devid, ArgN identifier_len (Some (identifier @ [0])), item_arg (rq_params r),
                ArgS ctx_addr_str] d)"

text \<open>The request a response answers: its identifier and the device it was for.\<close>

definition asked_for :: "dm_msg_response_payload \<Rightarrow> 'w dm \<Rightarrow> (int \<times> int) option option" where
  "asked_for r d =
     (if cj_value_length (rs_id r) > DM_UTILS_UINT32_STRLEN then Some None
      else do {
        mid \<leftarrow> item_number (nat DM_UTILS_UINT32_STRLEN + 1) (rs_id r);
        (case dm_msg_cache_search mid (dm_cache d) of
           (res, Some n) \<Rightarrow> Some (if res \<noteq> STATE_SUCCESS then None else Some (mid, cn_devid n))
         | (res, None) \<Rightarrow> Some None) })"

definition DM_MSG_THING_REPLY_FMT :: "byte list" where
  "DM_MSG_THING_REPLY_FMT =
     ascii ''{\"id\":%d,\"code\":%d,\"devid\":%d,\"eventid\":\"%.*s\",\"payload\":\"%.*s\",\"message\":\"%.*s\"}''"

definition dm_msg_thing_reply ::
  "'w dmodel_env \<Rightarrow> byte list \<Rightarrow> int \<Rightarrow> dm_msg_response_payload \<Rightarrow> 'w dm \<Rightarrow> (int \<times> 'w dm) option" where
  "dm_msg_thing_reply env identifier identifier_len r d = do {
     asked \<leftarrow> asked_for r d;
     (case asked of
        None \<Rightarrow> Some (FAIL_RETURN, d)
      | Some (mid, devid) \<Rightarrow>
          tell env IOTX_DM_EVENT_THING_REPLY DM_MSG_THING_REPLY_FMT
            (DM_UTILS_UINT32_STRLEN * 3 + int (length identifier) + cj_value_length (rs_message r))
            [ArgD mid, ArgD (cj_value_int (rs_code r)), ArgD devid, ArgN identifier_len (Some (identifier @ [0])),
             item_arg (rs_data r), item_arg (rs_message r)] d) }"

section \<open>Enabling, disabling, deleting\<close>

definition DM_MSG_EVENT_THING_DISABLE_FMT :: "byte list" where "DM_MSG_EVENT_THING_DISABLE_FMT = ascii ''{\"devid\":%d}''"

definition disable_device :: "'w dmodel_env \<Rightarrow> int \<Rightarrow> byte list \<Rightarrow> byte list \<Rightarrow> 'w dm \<Rightarrow> (int \<times> 'w dm) option" where
  "disable_device env type pk dk d =
     (if keys_too_long pk dk then Some (STATE_USER_INPUT_INVALID, d)
      else let (res, devid) = find_devid pk dk d in
        if res \<noteq> STATE_SUCCESS then Some (FAIL_RETURN, d)
        else let (_, d) = on_table (dm_mgr_set_dev_disable devid) d
          in tell env type DM_MSG_EVENT_THING_DISABLE_FMT DM_UTILS_UINT32_STRLEN [ArgD devid] d)"

definition enable_device :: "'w dmodel_env \<Rightarrow> int \<Rightarrow> byte list \<Rightarrow> byte list \<Rightarrow> 'w dm \<Rightarrow> (int \<times> 'w dm) option" where
  "enable_device env type pk dk d =
     (if keys_too_long pk dk then Some (STATE_USER_INPUT_INVALID, d)
      else let (res, devid) = find_devid pk dk d in
        if res \<noteq> STATE_SUCCESS then Some (FAIL_RETURN, d)
        else let (res, d) = on_table (dm_mgr_set_dev_enable devid) d
          in if res \<noteq> STATE_SUCCESS then Some (FAIL_RETURN, d)
             else tell env type DM_MSG_EVENT_THING_DISABLE_FMT DM_UTILS_UINT32_STRLEN [ArgD devid] d)"

definition DM_MSG_EVENT_THING_DELETE_FMT :: "byte list" where
  "DM_MSG_EVENT_THING_DELETE_FMT = ascii ''{\"res\":%d,\"productKey\":\"%s\",\"deviceKey\":\"%s\",\"devid\":%d}''"

definition delete_device :: "'w dmodel_env \<Rightarrow> int \<Rightarrow> byte list \<Rightarrow> byte list \<Rightarrow> 'w dm \<Rightarrow> (int \<times> 'w dm) option" where
  "delete_device env type pk dk d =
     (if keys_too_long pk dk then Some (STATE_USER_INPUT_INVALID, d)
      else let (res, devid) = find_devid pk dk d in
        if res \<noteq> STATE_SUCCESS then Some (FAIL_RETURN, d)
        else do {
          (res, d) \<leftarrow> dm_mgr_device_destroy env devid d;
          (if res \<noteq> STATE_SUCCESS then Some (FAIL_RETURN, d)
           else tell env type DM_MSG_EVENT_THING_DELETE_FMT (int (length pk + length dk))
                  [ArgD res, ArgS pk, ArgS dk, ArgD devid] d) })"

definition dm_msg_thing_disable :: "'w dmodel_env \<Rightarrow> byte list \<Rightarrow> byte list \<Rightarrow> 'w dm \<Rightarrow> (int \<times> 'w dm) option" where
  "dm_msg_thing_disable env = disable_device env IOTX_DM_EVENT_THING_DISABLE"

definition dm_msg_thing_enable :: "'w dmodel_env \<Rightarrow> byte list \<Rightarrow> byte list \<Rightarrow> 'w dm \<Rightarrow> (int \<times> 'w dm) option" where
  "dm_msg_thing_enable env = enable_device env IOTX_DM_EVENT_THING_ENABLE"

definition dm_msg_thing_delete :: "'w dmodel_env \<Rightarrow> byte list \<Rightarrow> byte list \<Rightarrow> 'w dm \<Rightarrow> (int \<times> 'w dm) option" where
  "dm_msg_thing_delete env = delete_device env IOTX_DM_EVENT_THING_DELETE"

definition dm_msg_combine_disable :: "'w dmodel_env \<Rightarrow> byte list \<Rightarrow> byte list \<Rightarrow> 'w dm \<Rightarrow> (int \<times> 'w dm) option" where
  "dm_msg_combine_disable env = disable_device env IOTX_DM_EVENT_COMBINE_DISABLE"

definition dm_msg_combine_enable :: "'w dmodel_env \<Rightarrow> byte list \<Rightarrow> byte list \<Rightarrow> 'w dm \<Rightarrow> (int \<times> 'w dm) option" where
  "dm_msg_combine_enable env = enable_device env IOTX_DM_EVENT_COMBINE_ENABLE"

definition dm_msg_combine_delete :: "'w dmodel_env \<Rightarrow> byte list \<Rightarrow> byte list \<Rightarrow> 'w dm \<Rightarrow> (int \<times> 'w dm) option" where
  "dm_msg_combine_delete env = delete_device env IOTX_DM_EVENT_COMBINE_DELETE"

section \<open>Replies to requests of the device\<close>

definition DM_MSG_EVENT_REPLY_FMT :: "byte list" where
  "DM_MSG_EVENT_REPLY_FMT = ascii ''{\"id\":%d,\"code\":%d,\"devid\":%d}''"

text \<open>
  One device of a registration: it is created under the keys and secret of the item. The array of the secret is not
  cleared between items and is passed on. A skipped item changes nothing else.
\<close>

definition register_item ::
  "'w dmodel_env \<Rightarrow> dm_msg_response_payload \<Rightarrow> lite_cjson \<Rightarrow> int \<Rightarrow> byte list \<Rightarrow> 'w dm \<Rightarrow> (byte list \<times> 'w dm) option" where
  "register_item env r lite index secret d = do {
     (res, item) \<leftarrow> json_element env lite index;
     (if res \<noteq> STATE_SUCCESS \<or> lite_cjson_is_object (Some item) = 0 then Some (secret, d) else do {
     (res, pk) \<leftarrow> json_item env item DM_MSG_KEY_PRODUCT_KEY;
     (if res \<noteq> STATE_SUCCESS \<or> lite_cjson_is_string (Some pk) = 0 then Some (secret, d) else do {
     (res, dk) \<leftarrow> json_item env item DM_MSG_KEY_DEVICE_KEY;
     (if res \<noteq> STATE_SUCCESS \<or> lite_cjson_is_string (Some dk) = 0 then Some (secret, d) else do {
     (res, ds) \<leftarrow> json_item env item DM_MSG_KEY_DEVICE_SECRET;
     (if res \<noteq> STATE_SUCCESS \<or> lite_cjson_is_string (Some ds) = 0 then Some (secret, d) else do {
       product_key \<leftarrow> item_string (IOTX_PRODUCT_KEY_LEN + 1) pk;
       device_key \<leftarrow> item_string (IOTX_DEVICE_KEY_LEN + 1) dk;
       mem \<leftarrow> cj_value ds;
       secret \<leftarrow> mem_copy mem (cj_value_length ds) secret;
       device_secret \<leftarrow> c_str secret;
       let (res, devid, m, w) = dm_mgr_device_create (dmq env) (sizeof_dev_node env) IOTX_DM_DEVICE_SUBDEV (Some product_key)
             (Some []) (Some device_key) (Some device_secret) (Some 0) (dm_table d) (dm_world d);
       let d = set_dm_world w (d\<lparr>dm_table := m\<rparr>);
       devid \<leftarrow> devid;
       (if res \<noteq> STATE_SUCCESS then Some (secret, d)
        else let d = (if cj_value_int (rs_code r) = IOTX_DM_ERR_CODE_SUCCESS
                then snd (on_table (dm_mgr_set_dev_status devid IOTX_DM_DEV_STATUS_REGISTERED) d) else d);
              (res, d) = on_table (dm_mgr_set_device_secret devid (Some device_secret)) d
          in if res \<noteq> STATE_SUCCESS then Some (secret, d)
             else do {
               temp_id \<leftarrow> item_string (nat DM_UTILS_UINT32_STRLEN) (rs_id r);
               (_, d) \<leftarrow> tell env IOTX_DM_EVENT_SUBDEV_REGISTER_REPLY DM_MSG_EVENT_REPLY_FMT (DM_UTILS_UINT32_STRLEN * 2)
                 [ArgAtoi temp_id, ArgD (cj_value_int (rs_code r)), ArgD devid] d;
               Some (secret, d) }) }) }) }) }) }"

fun register_items ::
  "'w dmodel_env \<Rightarrow> dm_msg_response_payload \<Rightarrow> lite_cjson \<Rightarrow> nat \<Rightarrow> int \<Rightarrow> byte list \<Rightarrow> 'w dm \<Rightarrow> 'w dm option" where
  "register_items env r lite 0 index secret d = Some d"
| "register_items env r lite (Suc n) index secret d = do {
     (secret, d) \<leftarrow> register_item env r lite index secret d;
     register_items env r lite n (index + 1) secret d }"

definition dm_msg_thing_device_register_reply ::
  "'w dmodel_env \<Rightarrow> dm_msg_response_payload \<Rightarrow> 'w dm \<Rightarrow> (int \<times> 'w dm) option" where
  "dm_msg_thing_device_register_reply env r d =
     (if cj_value_int (rs_code r) \<noteq> IOTX_DM_ERR_CODE_SUCCESS
      then do {
        temp_id \<leftarrow> item_string (nat DM_UTILS_UINT32_STRLEN) (rs_id r);
        tell_user env FAIL_RETURN (\<lambda>res. res) IOTX_DM_EVENT_SUBDEV_REGISTER_REPLY DM_MSG_EVENT_REPLY_FMT
          (DM_UTILS_UINT32_STRLEN * 2) [ArgAtoi temp_id, ArgD (cj_value_int (rs_code r)), ArgD 0] d }
      else do {
        (res, lite) \<leftarrow> lite_cjson_parse (dm_double env) (cj_value (rs_data r)) (cj_value_length (rs_data r)) cjson_zero;
        (if res \<noteq> STATE_SUCCESS \<or> lite_cjson_is_array (Some lite) = 0 then Some (DM_JSON_PARSE_FAILED, d)
         else do {
           d \<leftarrow> register_items env r lite (nat (cj_size lite)) 0 (replicate (IOTX_DEVICE_SECRET_LEN + 1) 0) d;
           Some (STATE_SUCCESS, d) }) })"

definition dm_msg_thing_sub_unregister_reply ::
  "'w dmodel_env \<Rightarrow> dm_msg_response_payload \<Rightarrow> 'w dm \<Rightarrow> (int \<times> 'w dm) option" where
  "dm_msg_thing_sub_unregister_reply env r d = do {
     asked \<leftarrow> asked_for r d;
     (case asked of
        None \<Rightarrow> Some (FAIL_RETURN, d)
      | Some (mid, devid) \<Rightarrow>
          tell_user env STATE_SYS_DEPEND_MALLOC (\<lambda>_. STATE_SUCCESS) IOTX_DM_EVENT_SUBDEV_UNREGISTER_REPLY DM_MSG_EVENT_REPLY_FMT
            (DM_UTILS_UINT32_STRLEN * 3) [ArgD mid, ArgD (cj_value_int (rs_code r)), ArgD devid] d) }"

definition topo_reply :: "'w dmodel_env \<Rightarrow> int \<Rightarrow> dm_msg_response_payload \<Rightarrow> 'w dm \<Rightarrow> (int \<times> 'w dm) option" where
  "topo_reply env type r d = do {
     asked \<leftarrow> asked_for r d;
     (case asked of
        None \<Rightarrow> Some (FAIL_RETURN, d)
      | Some (mid, devid) \<Rightarrow>
          let d = (if cj_value_int (rs_code r) = IOTX_DM_ERR_CODE_SUCCESS
                   then snd (on_table (dm_mgr_set_dev_status devid IOTX_DM_DEV_STATUS_ATTACHED) d) else d)
          in tell env type DM_MSG_EVENT_REPLY_FMT (DM_UTILS_UINT32_STRLEN * 3)
               [ArgD mid, ArgD (cj_value_int (rs_code r)), ArgD devid] d) }"

definition dm_msg_thing_topo_add_reply :: "'w dmodel_env \<Rightarrow> dm_msg_response_payload \<Rightarrow> 'w dm \<Rightarrow> (int \<times> 'w dm) option" where
  "dm_msg_thing_topo_add_reply env = topo_reply env IOTX_DM_EVENT_TOPO_ADD_REPLY"

definition dm_msg_thing_topo_delete_reply :: "'w dmodel_env \<Rightarrow> dm_msg_response_payload \<Rightarrow> 'w dm \<Rightarrow> (int \<times> 'w dm) option" where
  "dm_msg_thing_topo_delete_reply env = topo_reply env IOTX_DM_EVENT_TOPO_DELETE_REPLY"

definition DM_MSG_TOPO_GET_REPLY_FMT :: "byte list" where
  "DM_MSG_TOPO_GET_REPLY_FMT = ascii ''{\"id\":%d,\"code\":%d,\"devid\":%d,\"topo\":%.*s}''"

definition dm_msg_topo_get_reply :: "'w dmodel_env \<Rightarrow> dm_msg_response_payload \<Rightarrow> 'w dm \<Rightarrow> (int \<times> 'w dm) option" where
  "dm_msg_topo_get_reply env r d =
     (if cj_value_length (rs_id r) > DM_UTILS_UINT32_STRLEN then Some (FAIL_RETURN, d)
      else do {
        mid \<leftarrow> item_number (nat DM_UTILS_UINT32_STRLEN + 1) (rs_id r);
        tell env IOTX_DM_EVENT_TOPO_GET_REPLY DM_MSG_TOPO_GET_REPLY_FMT
          (DM_UTILS_UINT32_STRLEN * 3 + cj_value_length (rs_data r))
          [ArgD mid, ArgD (cj_value_int (rs_code r)), ArgD IOTX_DM_LOCAL_NODE_DEVID, item_arg (rs_data r)] d })"

text \<open>The device an object names by its two keys: the keys fit their arrays, and the device is in the table.\<close>

definition named_device :: "'w dmodel_env \<Rightarrow> lite_cjson \<Rightarrow> 'w dm \<Rightarrow> (int + int) option" where
  "named_device env lite d = do {
     (res, pk) \<leftarrow> json_item env lite DM_MSG_KEY_PRODUCT_KEY;
     (if res \<noteq> STATE_SUCCESS \<or> lite_cjson_is_string (Some pk) = 0 \<or> cj_value_length pk \<ge> int IOTX_PRODUCT_KEY_LEN + 1
      then Some (Inl DM_JSON_PARSE_FAILED)
      else do {
        (res, dk) \<leftarrow> json_item env lite DM_MSG_KEY_DEVICE_KEY;
        (if res \<noteq> STATE_SUCCESS \<or> lite_cjson_is_string (Some dk) = 0 \<or> cj_value_length dk \<ge> int IOTX_DEVICE_KEY_LEN + 1
         then Some (Inl DM_JSON_PARSE_FAILED)
         else do {
           product_key \<leftarrow> item_string (IOTX_PRODUCT_KEY_LEN + 1) pk;
           device_key \<leftarrow> item_string (IOTX_DEVICE_KEY_LEN + 1) dk;
           let (res, devid) = find_devid product_key device_key d;
           Some (if res \<noteq> STATE_SUCCESS then Inl FAIL_RETURN else Inr devid) }) }) }"

definition combine_reply :: "'w dmodel_env \<Rightarrow> dev_status \<Rightarrow> int \<Rightarrow> dm_msg_response_payload \<Rightarrow> 'w dm \<Rightarrow> (int \<times> 'w dm) option" where
  "combine_reply env status type r d = do {
     (res, lite) \<leftarrow> lite_cjson_parse (dm_double env) (cj_value (rs_data r)) (cj_value_length (rs_data r)) cjson_zero;
     (if res \<noteq> STATE_SUCCESS then Some (DM_JSON_PARSE_FAILED, d)
      else do {
        named \<leftarrow> named_device env lite d;
        (case named of
           Inl err \<Rightarrow> Some (err, d)
         | Inr devid \<Rightarrow> do {
             let d = (if cj_value_int (rs_code r) = IOTX_DM_ERR_CODE_SUCCESS
                      then snd (on_table (dm_mgr_set_dev_status devid status) d) else d);
             temp_id \<leftarrow> item_string (nat DM_UTILS_UINT32_STRLEN) (rs_id r);
             tell env type DM_MSG_EVENT_REPLY_FMT (DM_UTILS_UINT32_STRLEN * 3)
               [ArgAtoi temp_id, ArgD (cj_value_int (rs_code r)), ArgD devid] d }) }) }"

definition dm_msg_combine_login_reply :: "'w dmodel_env \<Rightarrow> dm_msg_response_payload \<Rightarrow> 'w dm \<Rightarrow> (int \<times> 'w dm) option" where
  "dm_msg_combine_login_reply env = combine_reply env IOTX_DM_DEV_STATUS_LOGINED IOTX_DM_EVENT_COMBINE_LOGIN_REPLY"

definition dm_msg_combine_logout_reply :: "'w dmodel_env \<Rightarrow> dm_msg_response_payload \<Rightarrow> 'w dm \<Rightarrow> (int \<times> 'w dm) option" where
  "dm_msg_combine_logout_reply env = combine_reply env IOTX_DM_DEV_STATUS_ATTACHED IOTX_DM_EVENT_COMBINE_LOGOUT_REPLY"

text \<open>Where the C string of a block ends, more is printed, or a byte is put; \<open>None\<close> beyond the block.\<close>

definition put_at_end :: "byte list \<Rightarrow> byte list \<Rightarrow> byte list option" where
  "put_at_end bs block = do {
     s \<leftarrow> c_str block;
     (if length s + length bs \<le> length block then Some (buf_write block (length s) bs) else None) }"

text \<open>
  The identifiers of the devices of an array, printed with commas into \<open>block\<close>, of which \<open>n\<close> is the size given to
  \<^verbatim>\<open>HAL_Snprintf\<close> each time; \<open>found\<close> is what happens to each device.
\<close>

fun list_devids ::
  "'w dmodel_env \<Rightarrow> (int \<Rightarrow> 'w dm \<Rightarrow> 'w dm) \<Rightarrow> lite_cjson \<Rightarrow> int \<Rightarrow> nat \<Rightarrow> int \<Rightarrow> byte list \<Rightarrow> 'w dm \<Rightarrow> ((int + byte list) \<times> 'w dm) option" where
  "list_devids env found lite n 0 index block d = Some (Inr block, d)"
| "list_devids env found lite n (Suc k) index block d = do {
     (res, sub) \<leftarrow> json_element env lite index;
     (if res \<noteq> STATE_SUCCESS \<or> lite_cjson_is_object (Some sub) = 0 then Some (Inl DM_JSON_PARSE_FAILED, d)
      else do {
        named \<leftarrow> named_device env sub d;
        (case named of
           Inl err \<Rightarrow> Some (Inl err, d)
         | Inr devid \<Rightarrow> do {
             let d = found devid d;
             block \<leftarrow> put_at_end (snprintf (nat n) (fmt_d devid) @ [0]) block;
             block \<leftarrow> (if index < cj_size lite - 1 then put_at_end (ascii '','') block else Some block);
             list_devids env found lite n k (index + 1) block d }) }) }"

text \<open>
  The length of an array of identifiers is a \<^verbatim>\<open>char\<close>, signed as on the usual platforms. Clearing a block that was not
  allocated, or with a length below zero, is undefined.
\<close>

definition devids_len :: "lite_cjson \<Rightarrow> int" where
  "devids_len lite = sint (word_of_int (cj_size lite * (4 + 1)) :: byte)"

definition devids_block :: "'w dmodel_env \<Rightarrow> lite_cjson \<Rightarrow> 'w dm \<Rightarrow> (byte list \<times> 'w dm) option" where
  "devids_block env lite d =
     (let (ok, d) = dm_malloc env (devids_len lite) d
      in if devids_len lite < 0 \<or> \<not> ok then None else Some (replicate (nat (devids_len lite)) 0, d))"

definition DM_MSG_EVENT_COMBINE_LOGIN_BATCH_REPLY_FMT :: "byte list" where
  "DM_MSG_EVENT_COMBINE_LOGIN_BATCH_REPLY_FMT = ascii ''{\"id\":%d,\"code\":%d,\"logined_devids\":[%s],\"failed_devids\":[%s]}''"

definition dm_msg_combine_login_batch_reply :: "'w dmodel_env \<Rightarrow> dm_msg_response_payload \<Rightarrow> 'w dm \<Rightarrow> (int \<times> 'w dm) option" where
  "dm_msg_combine_login_batch_reply env r d = do {
     (res, lite) \<leftarrow> lite_cjson_parse (dm_double env) (cj_value (rs_data r)) (cj_value_length (rs_data r)) cjson_zero;
     (if res \<noteq> STATE_SUCCESS then Some (DM_JSON_PARSE_FAILED, d) else do {
     (res, logined) \<leftarrow> json_item env lite (ascii ''loginedSubDevices'');
     (if res \<noteq> STATE_SUCCESS \<or> lite_cjson_is_array (Some logined) = 0 then Some (DM_JSON_PARSE_FAILED, d) else do {
     (block, d) \<leftarrow> devids_block env logined d;
     (l, d) \<leftarrow> list_devids env (\<lambda>devid d.
         if cj_value_int (rs_code r) = IOTX_DM_ERR_CODE_SUCCESS
         then snd (on_table (dm_mgr_set_dev_status devid IOTX_DM_DEV_STATUS_LOGINED) d) else d)
       logined (devids_len logined) (nat (cj_size logined)) 0 block d;
     (case l of Inl err \<Rightarrow> Some (err, d) | Inr logined_devids \<Rightarrow> do {
     (res, failed) \<leftarrow> json_item env lite (ascii ''failedSubDevices'');
     (if res \<noteq> STATE_SUCCESS \<or> lite_cjson_is_array (Some failed) = 0 then Some (DM_JSON_PARSE_FAILED, d) else do {
     (block, d) \<leftarrow> devids_block env failed d;
     (f, d) \<leftarrow> list_devids env (\<lambda>_ d. d) failed (devids_len failed) (nat (cj_size failed)) 0 block d;
     (case f of Inl err \<Rightarrow> Some (err, d) | Inr failed_devids \<Rightarrow> do {
       temp_id \<leftarrow> item_string (nat DM_UTILS_UINT32_STRLEN) (rs_id r);
       tell env IOTX_DM_EVENT_COMBINE_LOGIN_BATCH_REPLY DM_MSG_EVENT_COMBINE_LOGIN_BATCH_REPLY_FMT (DM_UTILS_UINT32_STRLEN * 3)
         [ArgAtoi temp_id, ArgD (cj_value_int (rs_code r)), ArgStr logined_devids, ArgStr failed_devids] d }) }) }) }) }) }"

section \<open>The connection comes and goes\<close>

definition dm_msg_cloud_connected :: "'w dmodel_env \<Rightarrow> 'w dm \<Rightarrow> int \<times> 'w dm" where
  "dm_msg_cloud_connected env = send_to_user env IOTX_DM_EVENT_CLOUD_CONNECTED None"

definition dm_msg_cloud_disconnect :: "'w dmodel_env \<Rightarrow> 'w dm \<Rightarrow> int \<times> 'w dm" where
  "dm_msg_cloud_disconnect env = send_to_user env IOTX_DM_EVENT_CLOUD_DISCONNECT None"

definition dm_msg_cloud_reconnect :: "'w dmodel_env \<Rightarrow> 'w dm \<Rightarrow> int \<times> 'w dm" where
  "dm_msg_cloud_reconnect env = send_to_user env IOTX_DM_EVENT_CLOUD_RECONNECT None"

section \<open>Requests of the gateway for its devices\<close>

text \<open>The parameters, printed into a new block, and the method of a request.\<close>

definition with_params ::
  "'w dmodel_env \<Rightarrow> byte list \<Rightarrow> byte list \<Rightarrow> int \<Rightarrow> fmt_arg list \<Rightarrow> dm_msg_request \<Rightarrow> 'w dm \<Rightarrow> (int \<times> dm_msg_request \<times> 'w dm) option" where
  "with_params env method fmt extra args r d =
     (let params_len = int (length fmt) + extra + 1;
          (ok, d) = dm_malloc env params_len d
      in if \<not> ok then Some (STATE_SYS_DEPEND_MALLOC, r, d)
         else do {
           text \<leftarrow> c_format fmt args;
           let params = snprintf (nat params_len) text;
           Some (STATE_SUCCESS,
             r\<lparr>rm_params := Some (params @ [0]), rm_params_len := int (length params), rm_method := Some method\<rparr>, d) })"

definition request_keys_too_long :: "dm_msg_request \<Rightarrow> bool" where
  "request_keys_too_long r \<longleftrightarrow> keys_too_long (rm_product_key r) (rm_device_key r)"

definition two_keys_fmt :: "byte list" where
  "two_keys_fmt = ascii ''{\"productKey\":\"%s\",\"deviceKey\":\"%s\"}''"

definition DM_MSG_THING_SUB_REGISTER_PARAMS :: "byte list" where
  "DM_MSG_THING_SUB_REGISTER_PARAMS = ascii ''['' @ two_keys_fmt @ ascii '']''"

definition dm_msg_thing_device_register ::
  "'w dmodel_env \<Rightarrow> byte list \<Rightarrow> byte list \<Rightarrow> dm_msg_request \<Rightarrow> 'w dm \<Rightarrow> (int \<times> dm_msg_request \<times> 'w dm) option" where
  "dm_msg_thing_device_register env pk dk r d =
     (if keys_too_long pk dk \<or> request_keys_too_long r then Some (STATE_USER_INPUT_INVALID, r, d)
      else with_params env (ascii ''thing.device.register'') DM_MSG_THING_SUB_REGISTER_PARAMS (int (length pk + length dk))
             [ArgS pk, ArgS dk] r d)"

text \<open>The time as text, and the signature of a device: SHA-256 of its identity, in hexadecimal.\<close>

definition timestamp_now :: "'w dmodel_env \<Rightarrow> 'w dm \<Rightarrow> byte list \<times> 'w dm" where
  "timestamp_now env d =
     (let (now, w) = uptime64 (dmq env) (dm_world d)
      in (snprintf DM_UTILS_UINT64_STRLEN (dec_digits (unat now)), set_dm_world w d))"

definition DM_MSG_SIGN_SOURCE :: "byte list" where
  "DM_MSG_SIGN_SOURCE = ascii ''clientId%sdeviceKey%sproductKey%stimestamp%s%s''"

text \<open>\<open>None\<close> as signature: no memory.\<close>

definition device_sign ::
  "'w dmodel_env \<Rightarrow> byte list \<Rightarrow> byte list \<Rightarrow> byte list \<Rightarrow> byte list \<Rightarrow> byte list \<Rightarrow> 'w dm \<Rightarrow> (byte list option \<times> 'w dm) option" where
  "device_sign env client_id pk dk ds timestamp d =
     (let len = length DM_MSG_SIGN_SOURCE + length client_id + length dk + length pk + length timestamp + length ds + 1;
          (ok, d) = dm_malloc env (int len) d
      in if \<not> ok then Some (None, d)
         else do {
           source \<leftarrow> c_format DM_MSG_SIGN_SOURCE [ArgS client_id, ArgS dk, ArgS pk, ArgS timestamp, ArgS ds];
           Some (Some (infra_hex2str (utils_sha256 (snprintf len source))), d) })"

definition DM_MSG_THING_TOPO_ADD_PARAMS :: "byte list" where
  "DM_MSG_THING_TOPO_ADD_PARAMS = ascii
     ''[{\"productKey\":\"%s\",\"deviceKey\":\"%s\",\"signmethod\":\"%s\",\"sign\":\"%s\",\"timestamp\":\"%s\",\"clientId\":\"%s\"}]''"

definition dm_msg_thing_topo_add ::
  "'w dmodel_env \<Rightarrow> byte list \<Rightarrow> byte list \<Rightarrow> byte list \<Rightarrow> dm_msg_request \<Rightarrow> 'w dm \<Rightarrow> (int \<times> dm_msg_request \<times> 'w dm) option" where
  "dm_msg_thing_topo_add env pk dk ds r d =
     (if keys_too_long pk dk \<or> length ds \<ge> IOTX_DEVICE_SECRET_LEN + 1 \<or> request_keys_too_long r
      then Some (STATE_USER_INPUT_INVALID, r, d)
      else let (timestamp, d) = timestamp_now env d;
               client_id = snprintf (IOTX_PRODUCT_KEY_LEN + 1 + IOTX_DEVICE_KEY_LEN + 1 + 1) (pk @ ascii ''.'' @ dk);
               sign_method = DM_MSG_SIGN_METHOD_HMACSHA256
        in do {
          (sign, d) \<leftarrow> device_sign env client_id pk dk ds timestamp d;
          (case sign of
             None \<Rightarrow> Some (STATE_SYS_DEPEND_MALLOC, r, d)
           | Some sign_str \<Rightarrow>
               with_params env (ascii ''thing.topo.add'') DM_MSG_THING_TOPO_ADD_PARAMS
                 (int (length pk + length dk + length sign_method + length sign_str + length timestamp + length client_id))
                 [ArgS pk, ArgS dk, ArgS sign_method, ArgS sign_str, ArgS timestamp, ArgS client_id] r d) })"

definition dm_msg_thing_topo_delete ::
  "'w dmodel_env \<Rightarrow> byte list \<Rightarrow> byte list \<Rightarrow> dm_msg_request \<Rightarrow> 'w dm \<Rightarrow> (int \<times> dm_msg_request \<times> 'w dm) option" where
  "dm_msg_thing_topo_delete env pk dk r d =
     (if keys_too_long pk dk \<or> request_keys_too_long r then Some (STATE_USER_INPUT_INVALID, r, d)
      else with_params env (ascii ''thing.topo.delete'') DM_MSG_THING_SUB_REGISTER_PARAMS (int (length pk + length dk))
             [ArgS pk, ArgS dk] r d)"

definition dm_msg_thing_topo_get :: "'w dmodel_env \<Rightarrow> dm_msg_request \<Rightarrow> 'w dm \<Rightarrow> (int \<times> dm_msg_request \<times> 'w dm) option" where
  "dm_msg_thing_topo_get env r d = with_params env (ascii ''thing.topo.get'') (ascii ''{}'') 0 [] r d"

definition DM_MSG_COMBINE_LOGIN_PARAMS :: "byte list" where
  "DM_MSG_COMBINE_LOGIN_PARAMS = ascii
     ''{\"productKey\":\"%s\",\"deviceKey\":\"%s\",\"clientId\":\"%s\",\"timestamp\":\"%s\",\"signMethod\":\"%s\",\"sign\":\"%s\",\"cleanSession\":\"%s\"}''"

definition dm_msg_combine_login ::
  "'w dmodel_env \<Rightarrow> byte list \<Rightarrow> byte list \<Rightarrow> byte list \<Rightarrow> dm_msg_request \<Rightarrow> 'w dm \<Rightarrow> (int \<times> dm_msg_request \<times> 'w dm) option" where
  "dm_msg_combine_login env pk dk ds r d =
     (if keys_too_long pk dk \<or> length ds \<ge> IOTX_DEVICE_SECRET_LEN + 1 \<or> request_keys_too_long r
      then Some (STATE_USER_INPUT_INVALID, r, d)
      else let (timestamp, d) = timestamp_now env d;
               client_id = snprintf (IOTX_PRODUCT_KEY_LEN + 1 + IOTX_DEVICE_KEY_LEN + 25) (pk @ dk);
               sign_method = DM_MSG_SIGN_METHOD_SHA256
        in do {
          (sign, d) \<leftarrow> device_sign env client_id pk dk ds timestamp d;
          (case sign of
             None \<Rightarrow> Some (STATE_SYS_DEPEND_MALLOC, r, d)
           | Some sign_str \<Rightarrow>
               with_params env (ascii ''combine.login'') DM_MSG_COMBINE_LOGIN_PARAMS
                 (int (length pk + length dk + length sign_method + length sign_str + length timestamp + length client_id))
                 [ArgS pk, ArgS dk, ArgS client_id, ArgS timestamp, ArgS sign_method, ArgS sign_str, ArgS (ascii ''true'')] r d) })"

text \<open>\<^verbatim>\<open>dm_msg_device_credential_t\<close>: three arrays, the strings of which are read.\<close>

record device_credential =
  cred_product_key :: "byte list"
  cred_device_key :: "byte list"
  cred_device_secret :: "byte list"

definition SUB_DEVICE_PARAM_LEN :: nat where
  "SUB_DEVICE_PARAM_LEN = 15 + IOTX_PRODUCT_KEY_LEN + 14 + IOTX_DEVICE_KEY_LEN + 9 + 65 + 4 + 1"

definition DM_MSG_SUB_DEVICE_PARAM :: "byte list" where
  "DM_MSG_SUB_DEVICE_PARAM = ascii ''{\"productKey\":\"%s\", \"deviceKey\":\"%s\", \"sign\":\"%s\"}''"

text \<open>The objects for the devices, one after the other; on an error the code is the result.\<close>

fun batch_params ::
  "'w dmodel_env \<Rightarrow> byte list \<Rightarrow> byte list \<Rightarrow> device_credential list \<Rightarrow> byte list \<Rightarrow> 'w dm \<Rightarrow> ((int + byte list) \<times> 'w dm) option" where
  "batch_params env client_id timestamp [] block d = Some (Inr block, d)"
| "batch_params env client_id timestamp (c # cs) block d = do {
     pk \<leftarrow> c_str (cred_product_key c);
     dk \<leftarrow> c_str (cred_device_key c);
     ds \<leftarrow> c_str (cred_device_secret c);
     (if keys_too_long pk dk \<or> length ds \<ge> IOTX_DEVICE_SECRET_LEN + 1 then Some (Inl STATE_USER_INPUT_INVALID, d)
      else do {
        (sign, d) \<leftarrow> device_sign env client_id pk dk ds timestamp d;
        (case sign of
           None \<Rightarrow> Some (Inl STATE_SYS_DEPEND_MALLOC, d)
         | Some sign_str \<Rightarrow> do {
             text \<leftarrow> c_format DM_MSG_SUB_DEVICE_PARAM [ArgS pk, ArgS dk, ArgS sign_str];
             block \<leftarrow> put_at_end (snprintf SUB_DEVICE_PARAM_LEN text) block;
             block \<leftarrow> (if cs \<noteq> [] then put_at_end (ascii '','') block else Some block);
             batch_params env client_id timestamp cs block d }) }) }"

definition DM_MSG_COMBINE_LOGIN_BATCH_PARAMS :: "byte list" where
  "DM_MSG_COMBINE_LOGIN_BATCH_PARAMS = ascii
     ''{\"clientId\":\"%s\", \"signMethod\":\"%s\", \"timestamp\":\"%s\", \"subDevices\":[%s]}''"

definition dm_msg_combine_login_batch ::
  "'w dmodel_env \<Rightarrow> device_credential list \<Rightarrow> dm_msg_request \<Rightarrow> 'w dm \<Rightarrow> (int \<times> dm_msg_request \<times> 'w dm) option" where
  "dm_msg_combine_login_batch env creds r d =
     (if creds = [] \<or> request_keys_too_long r then Some (STATE_USER_INPUT_INVALID, r, d)
      else let (timestamp, d) = timestamp_now env d;
               client_id = snprintf (IOTX_PRODUCT_KEY_LEN + 1) (rm_product_key r);
               sign_method = DM_MSG_SIGN_METHOD_SHA256;
               len = length creds * SUB_DEVICE_PARAM_LEN + 1;
               (ok, d) = dm_malloc env (int len) d
        in if \<not> ok then None
           else do {
             (p, d) \<leftarrow> batch_params env client_id timestamp creds (replicate len 0) d;
             (case p of
                Inl err \<Rightarrow> Some (err, r, d)
              | Inr block \<Rightarrow> do {
                  subs \<leftarrow> c_str block;
                  with_params env (ascii ''combine.login.batch'') DM_MSG_COMBINE_LOGIN_BATCH_PARAMS
                    (int (length client_id + length sign_method + length timestamp + length subs))
                    [ArgS client_id, ArgS sign_method, ArgS timestamp, ArgS subs] r d }) })"

definition dm_msg_combine_logout ::
  "'w dmodel_env \<Rightarrow> byte list \<Rightarrow> byte list \<Rightarrow> dm_msg_request \<Rightarrow> 'w dm \<Rightarrow> (int \<times> dm_msg_request \<times> 'w dm) option" where
  "dm_msg_combine_logout env pk dk r d =
     (if keys_too_long pk dk then Some (STATE_USER_INPUT_INVALID, r, d)
      else with_params env (ascii ''combine.logout'') two_keys_fmt (int (length pk + length dk)) [ArgS pk, ArgS dk] r d)"

end
