(* ===== verification/DmProcess.thy ===== *)
theory DmProcess
  imports DmMessage
begin

text \<open>
  What happens to a message of the cloud: \<^verbatim>\<open>src/src/dev_model/dm_msg_process.c\<close> and the handlers of
  \<^verbatim>\<open>client/dm_client.c\<close>, by the topic it came on. A handler gets the topic as a string, and the payload as memory with a length.
  A reply to the cloud is published from within the handler.
\<close>

abbreviation (input) SYS_KEYS_FROM :: int where "SYS_KEYS_FROM \<equiv> 2"
abbreviation (input) SYS_KEYS_TO :: int where "SYS_KEYS_TO \<equiv> 4"

text \<open>The two keys behind the second and third \<^verbatim>\<open>/\<close> of a topic, read into arrays of zeros.\<close>

definition topic_keys :: "nat \<Rightarrow> nat \<Rightarrow> byte list \<Rightarrow> (int + (byte list \<times> byte list)) option" where
  "topic_keys n m topic = do {
     (res, pkb, dkb) \<leftarrow> dm_msg_uri_parse_pkdk (Some (topic @ [0])) (int (length topic)) SYS_KEYS_FROM SYS_KEYS_TO
       (Some (replicate n 0)) (Some (replicate m 0));
     (if res \<noteq> STATE_SUCCESS then Some (Inl res)
      else do { pkb \<leftarrow> pkb; dkb \<leftarrow> dkb; pk \<leftarrow> c_str pkb; dk \<leftarrow> c_str dkb; Some (Inr (pk, dk)) }) }"

definition source_keys :: "byte list \<Rightarrow> (int + (byte list \<times> byte list)) option" where
  "source_keys = topic_keys (IOTX_PRODUCT_KEY_LEN + 1) (IOTX_DEVICE_KEY_LEN + 1)"

section \<open>Requests of the cloud\<close>

text \<open>Raw data, and messages on topics of the user.\<close>

definition dm_msg_proc_thing_model_down_raw ::
  "'w dmodel_env \<Rightarrow> byte list \<Rightarrow> byte list option \<Rightarrow> int \<Rightarrow> 'w dm \<Rightarrow> (int \<times> 'w dm) option" where
  "dm_msg_proc_thing_model_down_raw env topic pl pl_len d = do {
     k \<leftarrow> source_keys topic;
     (case k of Inl res \<Rightarrow> Some (res, d) | Inr (pk, dk) \<Rightarrow> dm_msg_thing_model_down_raw env pk dk pl pl_len d) }"

definition dm_msg_proc_thing_model_up_raw_reply ::
  "'w dmodel_env \<Rightarrow> byte list \<Rightarrow> byte list option \<Rightarrow> int \<Rightarrow> 'w dm \<Rightarrow> (int \<times> 'w dm) option" where
  "dm_msg_proc_thing_model_up_raw_reply env topic pl pl_len d = do {
     k \<leftarrow> source_keys topic;
     (case k of Inl res \<Rightarrow> Some (res, d) | Inr (pk, dk) \<Rightarrow> dm_msg_thing_model_up_raw_reply env pk dk pl pl_len d) }"

text \<open>The arrays are one byte shorter here.\<close>

definition dm_msg_proc_thing_model_user_sub ::
  "'w dmodel_env \<Rightarrow> byte list \<Rightarrow> byte list option \<Rightarrow> int \<Rightarrow> 'w dm \<Rightarrow> (int \<times> 'w dm) option" where
  "dm_msg_proc_thing_model_user_sub env topic pl pl_len d = do {
     k \<leftarrow> topic_keys IOTX_PRODUCT_KEY_LEN IOTX_DEVICE_KEY_LEN topic;
     (case k of Inl res \<Rightarrow> Some (res, d) | Inr (pk, dk) \<Rightarrow> dm_msg_thing_model_user_sub env pk dk pl pl_len d) }"

definition response_to :: "byte list \<Rightarrow> byte list \<Rightarrow> byte list \<Rightarrow> byte list \<Rightarrow> int \<Rightarrow> dm_msg_response" where
  "response_to prefix reply_name pk dk res =
     \<lparr>rp_prefix = Some prefix, rp_name = Some reply_name, rp_product_key = pk, rp_device_key = dk,
      rp_code = (if res = STATE_SUCCESS then IOTX_DM_ERR_CODE_SUCCESS else IOTX_DM_ERR_CODE_REQUEST_ERROR)\<rparr>"

text \<open>A request that was carried out gives its identifier and the response to send.\<close>

definition dm_msg_proc_thing_measurepoint_set ::
  "'w dmodel_env \<Rightarrow> byte list \<Rightarrow> byte list \<Rightarrow> byte list option \<Rightarrow> int \<Rightarrow> 'w dm \<Rightarrow>
   ((int + (lite_cjson \<times> dm_msg_response)) \<times> 'w dm) option" where
  "dm_msg_proc_thing_measurepoint_set env reply_name topic pl pl_len d = do {
     k \<leftarrow> source_keys topic;
     (case k of
        Inl res \<Rightarrow> Some (Inl res, d)
      | Inr (pk, dk) \<Rightarrow>
          let (res, devid) = find_devid pk dk d in
          if res < STATE_SUCCESS then Some (Inl res, d)
          else do {
            rq \<leftarrow> dm_msg_request_parse env pl pl_len;
            (case rq of
               Inl res \<Rightarrow> Some (Inl res, d)
             | Inr r \<Rightarrow> do {
                 (res, d) \<leftarrow> dm_msg_measurepoint_set env devid r d;
                 Some (Inr (rq_id r, response_to DM_URI_SYS_PREFIX reply_name pk dk res), d) }) }) }"

definition dm_msg_proc_thing_service_invoke ::
  "'w dmodel_env \<Rightarrow> byte list \<Rightarrow> byte list option \<Rightarrow> int \<Rightarrow> 'w dm \<Rightarrow> (int \<times> 'w dm) option" where
  "dm_msg_proc_thing_service_invoke env topic pl pl_len d = do {
     (res, pos) \<leftarrow> dm_utils_memtok (Some topic) (int (length topic)) DM_URI_SERVICE_DELIMITER 6 (Some 0);
     (if res \<noteq> STATE_SUCCESS then Some (res, d) else do {
        pos \<leftarrow> pos;
        k \<leftarrow> source_keys topic;
        (case k of
           Inl res \<Rightarrow> Some (res, d)
         | Inr (pk, dk) \<Rightarrow> do {
             rq \<leftarrow> dm_msg_request_parse env pl pl_len;
             (case rq of
                Inl res \<Rightarrow> Some (res, d)
              | Inr r \<Rightarrow>
                  dm_msg_thing_service_invoke env pk dk (drop (nat pos + 1) topic) (int (length topic) - pos - 1) r
                    (replicate (sizeof_pointer env) 0) d) }) }) }"

text \<open>A request on a topic that carries the keys of the device; \<open>operate\<close> is what it asks for.\<close>

definition proc_thing ::
  "('w dmodel_env \<Rightarrow> byte list \<Rightarrow> byte list \<Rightarrow> 'w dm \<Rightarrow> (int \<times> 'w dm) option) \<Rightarrow>
   'w dmodel_env \<Rightarrow> byte list \<Rightarrow> byte list \<Rightarrow> byte list option \<Rightarrow> int \<Rightarrow> 'w dm \<Rightarrow>
   ((int + (lite_cjson \<times> dm_msg_response)) \<times> 'w dm) option" where
  "proc_thing operate env reply_name topic pl pl_len d = do {
     k \<leftarrow> source_keys topic;
     (case k of
        Inl res \<Rightarrow> Some (Inl res, d)
      | Inr (pk, dk) \<Rightarrow> do {
          rq \<leftarrow> dm_msg_request_parse env pl pl_len;
          (case rq of
             Inl res \<Rightarrow> Some (Inl res, d)
           | Inr r \<Rightarrow> do {
               (res, d) \<leftarrow> operate env pk dk d;
               Some (Inr (rq_id r, response_to DM_URI_SYS_PREFIX reply_name pk dk res), d) }) }) }"

text \<open>
  A request whose parameters carry the keys of the device. They are copied unchecked. The result of the operation is
  overwritten by the one of parsing the topic.
\<close>

definition proc_combine ::
  "('w dmodel_env \<Rightarrow> byte list \<Rightarrow> byte list \<Rightarrow> 'w dm \<Rightarrow> (int \<times> 'w dm) option) \<Rightarrow>
   'w dmodel_env \<Rightarrow> byte list \<Rightarrow> byte list \<Rightarrow> byte list option \<Rightarrow> int \<Rightarrow> 'w dm \<Rightarrow>
   ((int + (lite_cjson \<times> dm_msg_response)) \<times> 'w dm) option" where
  "proc_combine operate env reply_name topic pl pl_len d = do {
     rq \<leftarrow> dm_msg_request_parse env pl pl_len;
     (case rq of
        Inl res \<Rightarrow> Some (Inl res, d)
      | Inr r \<Rightarrow> do {
          (res, pk) \<leftarrow> json_item env (rq_params r) DM_MSG_KEY_PRODUCT_KEY;
          (if res \<noteq> STATE_SUCCESS then Some (Inl res, d) else do {
          (res, dk) \<leftarrow> json_item env (rq_params r) DM_MSG_KEY_DEVICE_KEY;
          (if res \<noteq> STATE_SUCCESS then Some (Inl res, d) else do {
             pk \<leftarrow> item_string (IOTX_PRODUCT_KEY_LEN + 1) pk;
             dk \<leftarrow> item_string (IOTX_DEVICE_KEY_LEN + 1) dk;
             (_, d) \<leftarrow> operate env pk dk d;
             k \<leftarrow> source_keys topic;
             (case k of
                Inl res \<Rightarrow> Some (Inl res, d)
              | Inr (pk, dk) \<Rightarrow>
                  Some (Inr (rq_id r, response_to DM_URI_EXT_SESSION_PREFIX reply_name pk dk STATE_SUCCESS), d)) }) }) }) }"

definition dm_msg_proc_thing_disable ::
  "'w dmodel_env \<Rightarrow> byte list \<Rightarrow> byte list \<Rightarrow> byte list option \<Rightarrow> int \<Rightarrow> 'w dm \<Rightarrow>
   ((int + (lite_cjson \<times> dm_msg_response)) \<times> 'w dm) option" where
  "dm_msg_proc_thing_disable = proc_thing dm_msg_thing_disable"

definition dm_msg_proc_thing_enable ::
  "'w dmodel_env \<Rightarrow> byte list \<Rightarrow> byte list \<Rightarrow> byte list option \<Rightarrow> int \<Rightarrow> 'w dm \<Rightarrow>
   ((int + (lite_cjson \<times> dm_msg_response)) \<times> 'w dm) option" where
  "dm_msg_proc_thing_enable = proc_thing dm_msg_thing_enable"

definition dm_msg_proc_thing_delete ::
  "'w dmodel_env \<Rightarrow> byte list \<Rightarrow> byte list \<Rightarrow> byte list option \<Rightarrow> int \<Rightarrow> 'w dm \<Rightarrow>
   ((int + (lite_cjson \<times> dm_msg_response)) \<times> 'w dm) option" where
  "dm_msg_proc_thing_delete = proc_thing dm_msg_thing_delete"

definition dm_msg_proc_combine_disable ::
  "'w dmodel_env \<Rightarrow> byte list \<Rightarrow> byte list \<Rightarrow> byte list option \<Rightarrow> int \<Rightarrow> 'w dm \<Rightarrow>
   ((int + (lite_cjson \<times> dm_msg_response)) \<times> 'w dm) option" where
  "dm_msg_proc_combine_disable = proc_combine dm_msg_combine_disable"

definition dm_msg_proc_combine_enable ::
  "'w dmodel_env \<Rightarrow> byte list \<Rightarrow> byte list \<Rightarrow> byte list option \<Rightarrow> int \<Rightarrow> 'w dm \<Rightarrow>
   ((int + (lite_cjson \<times> dm_msg_response)) \<times> 'w dm) option" where
  "dm_msg_proc_combine_enable = proc_combine dm_msg_combine_enable"

definition dm_msg_proc_combine_delete ::
  "'w dmodel_env \<Rightarrow> byte list \<Rightarrow> byte list \<Rightarrow> byte list option \<Rightarrow> int \<Rightarrow> 'w dm \<Rightarrow>
   ((int + (lite_cjson \<times> dm_msg_response)) \<times> 'w dm) option" where
  "dm_msg_proc_combine_delete = proc_combine dm_msg_combine_delete"

section \<open>Replies of the cloud\<close>

text \<open>The request a response answers leaves the cache.\<close>

definition forget_request :: "dm_msg_response_payload \<Rightarrow> 'w dm \<Rightarrow> (int \<times> 'w dm) option" where
  "forget_request r d =
     (if cj_value_length (rs_id r) > DM_UTILS_UINT32_STRLEN then Some (STATE_DEV_MODEL_WRONG_JSON_FORMAT, d)
      else do {
        mid \<leftarrow> item_number (nat DM_UTILS_UINT32_STRLEN + 1) (rs_id r);
        Some (STATE_SUCCESS, d\<lparr>dm_cache := snd (dm_msg_cache_remove mid (dm_cache d))\<rparr>) })"

definition proc_reply ::
  "('w dmodel_env \<Rightarrow> dm_msg_response_payload \<Rightarrow> 'w dm \<Rightarrow> (int \<times> 'w dm) option) \<Rightarrow>
   'w dmodel_env \<Rightarrow> byte list option \<Rightarrow> int \<Rightarrow> 'w dm \<Rightarrow> (int \<times> 'w dm) option" where
  "proc_reply operate env pl pl_len d = do {
     rs \<leftarrow> dm_msg_response_parse env pl pl_len;
     (case rs of
        Inl res \<Rightarrow> Some (res, d)
      | Inr r \<Rightarrow> do { (_, d) \<leftarrow> operate env r d; forget_request r d }) }"

text \<open>Every \<^verbatim>\<open>/\<close> of the topic becomes a dot, in the caller's string; the method is what is behind the fourth.\<close>

definition dm_msg_proc_thing_reply ::
  "'w dmodel_env \<Rightarrow> byte list \<Rightarrow> byte list option \<Rightarrow> int \<Rightarrow> 'w dm \<Rightarrow> (int \<times> 'w dm) option" where
  "dm_msg_proc_thing_reply env topic pl pl_len d = do {
     (res, pos) \<leftarrow> dm_utils_memtok (Some topic) (int (length topic)) DM_URI_SERVICE_DELIMITER 4 (Some 0);
     (if res \<noteq> STATE_SUCCESS then Some (STATE_DEV_MODEL_URL_SPLIT_FAILED, d)
      else do {
        pos \<leftarrow> pos;
        let topic = map (\<lambda>c. if c = DM_URI_SERVICE_DELIMITER then DM_ENOS_METHOD_DELIMITER else c) topic;
        proc_reply (\<lambda>env. dm_msg_thing_reply env (drop (nat pos + 1) topic) (int (length topic) - pos - 1)) env pl pl_len d }) }"

definition dm_msg_proc_thing_device_register_reply ::
  "'w dmodel_env \<Rightarrow> byte list option \<Rightarrow> int \<Rightarrow> 'w dm \<Rightarrow> (int \<times> 'w dm) option" where
  "dm_msg_proc_thing_device_register_reply = proc_reply dm_msg_thing_device_register_reply"

definition dm_msg_proc_thing_topo_add_reply ::
  "'w dmodel_env \<Rightarrow> byte list option \<Rightarrow> int \<Rightarrow> 'w dm \<Rightarrow> (int \<times> 'w dm) option" where
  "dm_msg_proc_thing_topo_add_reply = proc_reply dm_msg_thing_topo_add_reply"

definition dm_msg_proc_thing_topo_delete_reply ::
  "'w dmodel_env \<Rightarrow> byte list option \<Rightarrow> int \<Rightarrow> 'w dm \<Rightarrow> (int \<times> 'w dm) option" where
  "dm_msg_proc_thing_topo_delete_reply = proc_reply dm_msg_thing_topo_delete_reply"

definition dm_msg_proc_thing_topo_get_reply ::
  "'w dmodel_env \<Rightarrow> byte list option \<Rightarrow> int \<Rightarrow> 'w dm \<Rightarrow> (int \<times> 'w dm) option" where
  "dm_msg_proc_thing_topo_get_reply = proc_reply dm_msg_topo_get_reply"

definition dm_msg_proc_combine_login_reply ::
  "'w dmodel_env \<Rightarrow> byte list option \<Rightarrow> int \<Rightarrow> 'w dm \<Rightarrow> (int \<times> 'w dm) option" where
  "dm_msg_proc_combine_login_reply = proc_reply dm_msg_combine_login_reply"

definition dm_msg_proc_combine_login_batch_reply ::
  "'w dmodel_env \<Rightarrow> byte list option \<Rightarrow> int \<Rightarrow> 'w dm \<Rightarrow> (int \<times> 'w dm) option" where
  "dm_msg_proc_combine_login_batch_reply = proc_reply dm_msg_combine_login_batch_reply"

definition dm_msg_proc_combine_logout_reply ::
  "'w dmodel_env \<Rightarrow> byte list option \<Rightarrow> int \<Rightarrow> 'w dm \<Rightarrow> (int \<times> 'w dm) option" where
  "dm_msg_proc_combine_logout_reply = proc_reply dm_msg_combine_logout_reply"

section \<open>The handlers\<close>

text \<open>The answer to a request that was carried out, with empty data.\<close>

definition respond ::
  "'w dmodel_env \<Rightarrow> (int + (lite_cjson \<times> dm_msg_response)) \<times> 'w dm \<Rightarrow> 'w dm option" where
  "respond env r =
     (case r of
        (Inl res, d) \<Rightarrow> Some d
      | (Inr (reqid, rp), d) \<Rightarrow> do {
          (_, d) \<leftarrow> dm_msg_response env DM_MSG_DEST_CLOUD reqid rp (Some (ascii ''{}'' @ [0])) 2 d;
          Some d })"

definition dm_client_thing_measurepoint_set ::
  "'w dmodel_env \<Rightarrow> byte list \<Rightarrow> byte list option \<Rightarrow> int \<Rightarrow> 'w dm \<Rightarrow> 'w dm option" where
  "dm_client_thing_measurepoint_set env topic pl pl_len d = do {
     (r, d) \<leftarrow> dm_msg_proc_thing_measurepoint_set env (ascii ''thing/service/measurepoint/set_reply'') topic pl pl_len d;
     (let (res, opt) = the_dm_opt DM_OPT_UPSTREAM_MEASUREPOINT_SET_AUTO_REPLY d
      in if res = STATE_SUCCESS \<and> opt \<noteq> Some 0 then respond env (r, d) else Some d) }"

definition dm_client_thing_disable :: "'w dmodel_env \<Rightarrow> byte list \<Rightarrow> byte list option \<Rightarrow> int \<Rightarrow> 'w dm \<Rightarrow> 'w dm option" where
  "dm_client_thing_disable env topic pl pl_len d = do {
     r \<leftarrow> dm_msg_proc_thing_disable env (ascii ''thing/disable_reply'') topic pl pl_len d;
     respond env r }"

definition dm_client_thing_enable :: "'w dmodel_env \<Rightarrow> byte list \<Rightarrow> byte list option \<Rightarrow> int \<Rightarrow> 'w dm \<Rightarrow> 'w dm option" where
  "dm_client_thing_enable env topic pl pl_len d = do {
     r \<leftarrow> dm_msg_proc_thing_enable env (ascii ''thing/enable_reply'') topic pl pl_len d;
     respond env r }"

definition dm_client_thing_delete :: "'w dmodel_env \<Rightarrow> byte list \<Rightarrow> byte list option \<Rightarrow> int \<Rightarrow> 'w dm \<Rightarrow> 'w dm option" where
  "dm_client_thing_delete env topic pl pl_len d = do {
     r \<leftarrow> dm_msg_proc_thing_delete env (ascii ''thing/delete_reply'') topic pl pl_len d;
     respond env r }"

definition dm_client_combine_disable :: "'w dmodel_env \<Rightarrow> byte list \<Rightarrow> byte list option \<Rightarrow> int \<Rightarrow> 'w dm \<Rightarrow> 'w dm option" where
  "dm_client_combine_disable env topic pl pl_len d = do {
     r \<leftarrow> dm_msg_proc_combine_disable env (ascii ''combine/disable_reply'') topic pl pl_len d;
     respond env r }"

definition dm_client_combine_enable :: "'w dmodel_env \<Rightarrow> byte list \<Rightarrow> byte list option \<Rightarrow> int \<Rightarrow> 'w dm \<Rightarrow> 'w dm option" where
  "dm_client_combine_enable env topic pl pl_len d = do {
     r \<leftarrow> dm_msg_proc_combine_enable env (ascii ''combine/enable_reply'') topic pl pl_len d;
     respond env r }"

definition dm_client_combine_delete :: "'w dmodel_env \<Rightarrow> byte list \<Rightarrow> byte list option \<Rightarrow> int \<Rightarrow> 'w dm \<Rightarrow> 'w dm option" where
  "dm_client_combine_delete env topic pl pl_len d = do {
     r \<leftarrow> dm_msg_proc_combine_delete env (ascii ''combine/delete_reply'') topic pl pl_len d;
     respond env r }"

text \<open>The function behind the callback of a topic; the other handlers only call the processing of their message.\<close>

fun dm_client_handle :: "'w dmodel_env \<Rightarrow> dm_handler \<Rightarrow> byte list \<Rightarrow> byte list option \<Rightarrow> int \<Rightarrow> 'w dm \<Rightarrow> 'w dm option" where
  "dm_client_handle env Thing_measurepoint_set topic pl n d = dm_client_thing_measurepoint_set env topic pl n d"
| "dm_client_handle env Thing_service_invoke topic pl n d = map_option snd (dm_msg_proc_thing_service_invoke env topic pl n d)"
| "dm_client_handle env Thing_reply topic pl n d = map_option snd (dm_msg_proc_thing_reply env topic pl n d)"
| "dm_client_handle env Thing_model_down_raw topic pl n d = map_option snd (dm_msg_proc_thing_model_down_raw env topic pl n d)"
| "dm_client_handle env Thing_model_up_raw_reply topic pl n d =
     map_option snd (dm_msg_proc_thing_model_up_raw_reply env topic pl n d)"
| "dm_client_handle env Thing_device_register_reply topic pl n d =
     map_option snd (dm_msg_proc_thing_device_register_reply env pl n d)"
| "dm_client_handle env Thing_topo_add_reply topic pl n d = map_option snd (dm_msg_proc_thing_topo_add_reply env pl n d)"
| "dm_client_handle env Thing_topo_delete_reply topic pl n d = map_option snd (dm_msg_proc_thing_topo_delete_reply env pl n d)"
| "dm_client_handle env Thing_topo_get_reply topic pl n d = map_option snd (dm_msg_proc_thing_topo_get_reply env pl n d)"
| "dm_client_handle env Combine_login_reply topic pl n d = map_option snd (dm_msg_proc_combine_login_reply env pl n d)"
| "dm_client_handle env Combine_login_batch_reply topic pl n d =
     map_option snd (dm_msg_proc_combine_login_batch_reply env pl n d)"
| "dm_client_handle env Combine_logout_reply topic pl n d = map_option snd (dm_msg_proc_combine_logout_reply env pl n d)"
| "dm_client_handle env Thing_disable topic pl n d = dm_client_thing_disable env topic pl n d"
| "dm_client_handle env Thing_enable topic pl n d = dm_client_thing_enable env topic pl n d"
| "dm_client_handle env Thing_delete topic pl n d = dm_client_thing_delete env topic pl n d"
| "dm_client_handle env Combine_disable topic pl n d = dm_client_combine_disable env topic pl n d"
| "dm_client_handle env Combine_enable topic pl n d = dm_client_combine_enable env topic pl n d"
| "dm_client_handle env Combine_delete topic pl n d = dm_client_combine_delete env topic pl n d"
| "dm_client_handle env User_sub_request topic pl n d = map_option snd (dm_msg_proc_thing_model_user_sub env topic pl n d)"

definition dm_client_event_handle :: "'w dmodel_env \<Rightarrow> iotx_cm_event_type \<Rightarrow> 'w dm \<Rightarrow> 'w dm" where
  "dm_client_event_handle env event d =
     (case event of
        IOTX_CM_EVENT_CLOUD_CONNECTED \<Rightarrow> snd (dm_msg_cloud_connected env d)
      | IOTX_CM_EVENT_CLOUD_DISCONNECT \<Rightarrow> snd (dm_msg_cloud_disconnect env d)
      | _ \<Rightarrow> d)"

end
