(* ===== verification/DmUpstream.thy ===== *)
theory DmUpstream
  imports DmProcess
begin

text \<open>
  What the device sends: the second half of \<^verbatim>\<open>src/src/dev_model/dm_manager.c\<close>. A request gets the next number, goes
  into the cache of requests, is published, and leaves the cache again when that fails. The requests of the gateway
  carry its own keys, which are read from the settings; the others carry those of the device.
\<close>

abbreviation (input) STATE_DEV_MODEL_SUBD_NOT_LOGIN :: int where "STATE_DEV_MODEL_SUBD_NOT_LOGIN \<equiv> - 0x908"

definition dm_mgr_dev_initialized :: "'w dmodel_env \<Rightarrow> int \<Rightarrow> 'w dm \<Rightarrow> (int \<times> 'w dm) option" where
  "dm_mgr_dev_initialized env devid d =
     tell_user env STATE_SYS_DEPEND_MALLOC (\<lambda>res. res) IOTX_DM_EVENT_INITIALIZED (ascii ''{\"devid\":%d}'') DM_UTILS_UINT32_STRLEN
       [ArgD devid] d"

definition request_zero :: dm_msg_request where
  "request_zero = \<lparr>rm_msgid = 0, rm_devid = 0, rm_service_prefix = None, rm_service_name = None, rm_product_key = [],
     rm_device_key = [], rm_params = None, rm_params_len = 0, rm_method = None\<rparr>"

text \<open>The two keys of the settings, read into arrays of zeros.\<close>

definition own_keys :: "'w dm \<Rightarrow> (byte list \<times> byte list) option" where
  "own_keys d = do {
     pk \<leftarrow> ioctl_get IOTX_IOCTL_GET_PRODUCT_KEY (replicate (IOTX_PRODUCT_KEY_LEN + 1) 0) (api_sys (cm_api (dm_cm d)));
     dk \<leftarrow> ioctl_get IOTX_IOCTL_GET_DEVICE_KEY (replicate (IOTX_DEVICE_KEY_LEN + 1) 0) (api_sys (cm_api (dm_cm d)));
     pk \<leftarrow> c_str pk;
     dk \<leftarrow> c_str dk;
     Some (pk, dk) }"

text \<open>A request into the cache and to the cloud. The errors of the cache are ignored.\<close>

definition remember_request :: "'w dmodel_env \<Rightarrow> int \<Rightarrow> dm_msg_request \<Rightarrow> 'w dm \<Rightarrow> 'w dm" where
  "remember_request env type r d =
     (let (_, c, w) = dm_msg_cache_insert (dmq env) (rm_msgid r) (rm_devid r) type None (dm_cache d) (dm_world d)
      in set_dm_world w (d\<lparr>dm_cache := c\<rparr>))"

definition send_request :: "'w dmodel_env \<Rightarrow> int \<Rightarrow> dm_msg_request \<Rightarrow> 'w dm \<Rightarrow> (int \<times> 'w dm) option" where
  "send_request env dest r d = do {
     (res, d) \<leftarrow> dm_msg_request env dest r d;
     Some (if res \<noteq> STATE_SUCCESS then (res, d\<lparr>dm_cache := snd (dm_msg_cache_remove (rm_msgid r) (dm_cache d))\<rparr>)
           else (rm_msgid r, d)) }"

section \<open>Requests of the gateway\<close>

text \<open>
  The common part of the requests of the gateway: \<open>fill\<close> puts the parameters and the method into a request that has the
  topic and the keys.
\<close>

definition gateway_request ::
  "'w dmodel_env \<Rightarrow> byte list \<Rightarrow> byte list \<Rightarrow> int \<Rightarrow> int \<Rightarrow>
   (dm_msg_request \<Rightarrow> 'w dm \<Rightarrow> (int \<times> dm_msg_request \<times> 'w dm) option) \<Rightarrow> 'w dm \<Rightarrow> (int \<times> 'w dm) option" where
  "gateway_request env prefix name devid type fill d = do {
     (pk, dk) \<leftarrow> own_keys d;
     (res, r, d) \<leftarrow> fill (request_zero\<lparr>rm_service_prefix := Some prefix, rm_service_name := Some name,
         rm_product_key := pk, rm_device_key := dk\<rparr>) d;
     (if res \<noteq> STATE_SUCCESS then Some (res, d)
      else let (mid, d) = iotx_report_id d;
               r = r\<lparr>rm_msgid := mid, rm_devid := devid\<rparr>
        in send_request env DM_MSG_DEST_CLOUD r (remember_request env type r d)) }"

definition for_device ::
  "int \<Rightarrow> int \<Rightarrow> (dm_dev_node \<Rightarrow> 'w dm \<Rightarrow> (int \<times> 'w dm) option) \<Rightarrow> 'w dm \<Rightarrow> (int \<times> 'w dm) option" where
  "for_device bad devid f d =
     (if devid < 0 then Some (bad, d)
      else case search_dev_by_devid devid (dm_table d) of
             None \<Rightarrow> Some (STATE_DEV_MODEL_DEVICE_NOT_FOUND, d) | Some n \<Rightarrow> f n d)"

definition dm_mgr_upstream_thing_device_register :: "'w dmodel_env \<Rightarrow> int \<Rightarrow> 'w dm \<Rightarrow> (int \<times> 'w dm) option" where
  "dm_mgr_upstream_thing_device_register env devid = for_device STATE_USER_INPUT_INVALID devid (\<lambda>n.
     gateway_request env DM_URI_SYS_PREFIX (ascii ''thing/device/register'') devid IOTX_DM_EVENT_SUBDEV_REGISTER_REPLY
       (dm_msg_thing_device_register env (dn_product_key n) (dn_device_key n)))"

definition dm_mgr_upstream_thing_topo_add :: "'w dmodel_env \<Rightarrow> int \<Rightarrow> 'w dm \<Rightarrow> (int \<times> 'w dm) option" where
  "dm_mgr_upstream_thing_topo_add env devid = for_device STATE_USER_INPUT_INVALID devid (\<lambda>n.
     gateway_request env DM_URI_SYS_PREFIX (ascii ''thing/topo/add'') devid IOTX_DM_EVENT_TOPO_ADD_REPLY
       (dm_msg_thing_topo_add env (dn_product_key n) (dn_device_key n) (dn_device_secret n)))"

definition dm_mgr_upstream_thing_topo_delete :: "'w dmodel_env \<Rightarrow> int \<Rightarrow> 'w dm \<Rightarrow> (int \<times> 'w dm) option" where
  "dm_mgr_upstream_thing_topo_delete env devid = for_device STATE_USER_INPUT_INVALID devid (\<lambda>n.
     gateway_request env DM_URI_SYS_PREFIX (ascii ''thing/topo/delete'') devid IOTX_DM_EVENT_TOPO_DELETE_REPLY
       (dm_msg_thing_topo_delete env (dn_product_key n) (dn_device_key n)))"

definition dm_mgr_upstream_thing_topo_get :: "'w dmodel_env \<Rightarrow> 'w dm \<Rightarrow> (int \<times> 'w dm) option" where
  "dm_mgr_upstream_thing_topo_get env d = do {
     (pk, dk) \<leftarrow> own_keys d;
     (case search_dev_by_pkdk pk dk (dm_table d) of
        None \<Rightarrow> Some (STATE_DEV_MODEL_DEVICE_NOT_FOUND, d)
      | Some n \<Rightarrow>
          gateway_request env DM_URI_SYS_PREFIX (ascii ''thing/topo/get'') (dn_devid n) IOTX_DM_EVENT_TOPO_GET_REPLY
            (dm_msg_thing_topo_get env) d) }"

definition dm_mgr_upstream_combine_login :: "'w dmodel_env \<Rightarrow> int \<Rightarrow> 'w dm \<Rightarrow> (int \<times> 'w dm) option" where
  "dm_mgr_upstream_combine_login env devid = for_device STATE_USER_INPUT_INVALID devid (\<lambda>n.
     gateway_request env DM_URI_EXT_SESSION_PREFIX (ascii ''combine/login'') devid IOTX_DM_EVENT_COMBINE_LOGIN_REPLY
       (dm_msg_combine_login env (dn_product_key n) (dn_device_key n) (dn_device_secret n)))"

text \<open>
  The credentials of the devices, copied without their NUL over the arrays of a block that holds \<open>junk\<close>;
  \<open>None\<close> for a device that is not there.
\<close>

fun credentials :: "int list \<Rightarrow> device_credential \<Rightarrow> dm_mgr_ctx \<Rightarrow> device_credential list option option" where
  "credentials [] junk m = Some (Some [])"
| "credentials (devid # devids) junk m =
     (case search_dev_by_devid devid m of
        None \<Rightarrow> Some None
      | Some n \<Rightarrow> do {
          pk \<leftarrow> copy_over (dn_product_key n) (cred_product_key junk);
          dk \<leftarrow> copy_over (dn_device_key n) (cred_device_key junk);
          ds \<leftarrow> copy_over (dn_device_secret n) (cred_device_secret junk);
          cs \<leftarrow> credentials devids junk m;
          Some (map_option ((#) \<lparr>cred_product_key = pk, cred_device_key = dk, cred_device_secret = ds\<rparr>) cs) })"

text \<open>A failed allocation is not noticed; it matters when there is a device.\<close>

definition dm_mgr_upstream_combine_login_batch ::
  "'w dmodel_env \<Rightarrow> device_credential \<Rightarrow> int \<Rightarrow> int list \<Rightarrow> 'w dm \<Rightarrow> (int \<times> 'w dm) option" where
  "dm_mgr_upstream_combine_login_batch env junk devid sub_devids =
     for_device STATE_USER_INPUT_INVALID devid (\<lambda>_ d. do {
       _ \<leftarrow> own_keys d;
       let (ok, d) = dm_malloc env (int (length sub_devids * (IOTX_PRODUCT_KEY_LEN + 1 + (IOTX_DEVICE_KEY_LEN + 1) + (IOTX_DEVICE_SECRET_LEN + 1)))) d;
       cs \<leftarrow> (if ok \<or> sub_devids = [] then credentials sub_devids junk (dm_table d) else None);
       (case cs of
          None \<Rightarrow> Some (STATE_DEV_MODEL_DEVICE_NOT_FOUND, d)
        | Some cs \<Rightarrow>
            gateway_request env DM_URI_EXT_SESSION_PREFIX (ascii ''combine/login/batch'') devid
              IOTX_DM_EVENT_COMBINE_LOGIN_BATCH_REPLY (dm_msg_combine_login_batch env cs) d) })"

definition dm_mgr_upstream_combine_logout :: "'w dmodel_env \<Rightarrow> int \<Rightarrow> 'w dm \<Rightarrow> (int \<times> 'w dm) option" where
  "dm_mgr_upstream_combine_logout env devid = for_device STATE_USER_INPUT_DEVID devid (\<lambda>n d.
     if dn_dev_status n < IOTX_DM_DEV_STATUS_LOGINED then Some (STATE_DEV_MODEL_SUBD_NOT_LOGIN, d)
     else gateway_request env DM_URI_EXT_SESSION_PREFIX (ascii ''combine/logout'') devid IOTX_DM_EVENT_COMBINE_LOGOUT_REPLY
            (dm_msg_combine_logout env (dn_product_key n) (dn_device_key n)) d)"

section \<open>Requests of a device\<close>

definition dm_mgr_upstream_thing_model_up_raw ::
  "'w dmodel_env \<Rightarrow> int \<Rightarrow> byte list option \<Rightarrow> int \<Rightarrow> 'w dm \<Rightarrow> (int \<times> 'w dm) option" where
  "dm_mgr_upstream_thing_model_up_raw env devid pl pl_len d =
     (case pl of
        None \<Rightarrow> Some (STATE_USER_INPUT_INVALID, d)
      | Some mem \<Rightarrow>
          if pl_len \<le> 0 then Some (STATE_USER_INPUT_INVALID, d)
          else for_device STATE_USER_INPUT_INVALID devid (\<lambda>n d. do {
            (res, uri, d) \<leftarrow> service_uri env (Some DM_URI_SYS_PREFIX) (Some (ascii ''thing/model/up_raw''))
              (dn_product_key n) (dn_device_key n) d;
            (if res \<noteq> STATE_SUCCESS then Some (res, d) else dm_client_publish env uri mem pl_len d) }) d)"

definition upstream_request_assemble ::
  "int \<Rightarrow> int \<Rightarrow> byte list \<Rightarrow> byte list \<Rightarrow> byte list \<Rightarrow> int \<Rightarrow> byte list \<Rightarrow> dm_mgr_ctx \<Rightarrow> dm_msg_request option" where
  "upstream_request_assemble mid devid prefix name params params_len method m =
     map_option (\<lambda>n. \<lparr>rm_msgid = mid, rm_devid = devid, rm_service_prefix = Some prefix, rm_service_name = Some name,
         rm_product_key = dn_product_key n, rm_device_key = dn_device_key n, rm_params = Some params,
         rm_params_len = params_len, rm_method = Some method\<rparr>)
       (search_dev_by_devid devid m)"

text \<open>The request is remembered when the option for replies is set.\<close>

definition device_request ::
  "'w dmodel_env \<Rightarrow> int \<Rightarrow> byte list \<Rightarrow> byte list \<Rightarrow> int \<Rightarrow> byte list \<Rightarrow> 'w dm \<Rightarrow> (int \<times> 'w dm) option" where
  "device_request env devid name params params_len method d =
     (let (mid, d) = iotx_report_id d in
      case upstream_request_assemble mid devid DM_URI_SYS_PREFIX name params params_len method (dm_table d) of
        None \<Rightarrow> Some (STATE_DEV_MODEL_DEVICE_NOT_FOUND, d)
      | Some r \<Rightarrow>
          let (res, opt) = the_dm_opt DM_OPT_DOWNSTREAM_THING_REPLY d;
              d = (if res = STATE_SUCCESS \<and> opt \<noteq> Some 0 then remember_request env IOTX_DM_EVENT_THING_REPLY r d else d)
          in send_request env DM_MSG_DEST_ALL r d)"

text \<open>The topic of the request is its method with the dots replaced. The memory for it is not checked.\<close>

definition dm_mgr_upstream_common ::
  "'w dmodel_env \<Rightarrow> int \<Rightarrow> byte list option \<Rightarrow> int \<Rightarrow> byte list option \<Rightarrow> 'w dm \<Rightarrow> (int \<times> 'w dm) option" where
  "dm_mgr_upstream_common env devid pl pl_len method d = do {
     method \<leftarrow> method;
     (case pl of
        None \<Rightarrow> Some (STATE_USER_INPUT_INVALID, d)
      | Some params \<Rightarrow>
          if devid < 0 \<or> pl_len \<le> 0 then Some (STATE_USER_INPUT_INVALID, d)
          else let (ok, d) = dm_malloc env (int (length method) + 1) d
            in if \<not> ok then None
               else device_request env devid (infra_str_replace method DM_ENOS_METHOD_DELIMITER DM_URI_SERVICE_DELIMITER)
                      params pl_len method d) }"

definition dm_mgr_upstream_thing_measurepoint_resume ::
  "'w dmodel_env \<Rightarrow> int \<Rightarrow> byte list option \<Rightarrow> int \<Rightarrow> 'w dm \<Rightarrow> (int \<times> 'w dm) option" where
  "dm_mgr_upstream_thing_measurepoint_resume env devid pl pl_len d =
     (case pl of
        None \<Rightarrow> Some (STATE_USER_INPUT_INVALID, d)
      | Some params \<Rightarrow>
          if devid < 0 \<or> pl_len \<le> 0 then Some (STATE_USER_INPUT_INVALID, d)
          else let (mid, d) = iotx_report_id d in
            (case upstream_request_assemble mid devid DM_URI_SYS_PREFIX (ascii ''thing/measurepoint/resume'') params pl_len
                    (ascii ''thing.measurepoint.resume'') (dm_table d) of
               None \<Rightarrow> Some (STATE_DEV_MODEL_DEVICE_NOT_FOUND, d)
             | Some r \<Rightarrow> send_request env DM_MSG_DEST_ALL r (remember_request env IOTX_DM_EVENT_THING_REPLY r d)))"

definition DM_URI_THING_EVENT_POST :: "byte list" where "DM_URI_THING_EVENT_POST = ascii ''thing/event/%.*s/post''"

definition dm_mgr_upstream_thing_event_post ::
  "'w dmodel_env \<Rightarrow> int \<Rightarrow> byte list option \<Rightarrow> int \<Rightarrow> byte list option \<Rightarrow> byte list option \<Rightarrow> int \<Rightarrow> 'w dm \<Rightarrow> (int \<times> 'w dm) option" where
  "dm_mgr_upstream_thing_event_post env devid identifier identifier_len method pl pl_len d =
     (case (method, pl) of
        (Some method, Some params) \<Rightarrow>
          if devid < 0 \<or> identifier = None \<or> identifier_len \<le> 0 \<or> pl_len \<le> 0 then Some (STATE_USER_INPUT_INVALID, d)
          else let len = int (length DM_URI_THING_EVENT_POST) + identifier_len + 1;
                   (ok, d) = dm_malloc env len d
            in if \<not> ok then Some (STATE_SYS_DEPEND_MALLOC, d)
               else do {
                 name \<leftarrow> c_format DM_URI_THING_EVENT_POST [ArgN identifier_len identifier];
                 device_request env devid (snprintf (nat len) name) params pl_len method d }
      | _ \<Rightarrow> Some (STATE_USER_INPUT_INVALID, d))"

section \<open>Responses of a device\<close>

text \<open>The identifier is memory with a length, as an item is.\<close>

definition upstream_response_assemble ::
  "int \<Rightarrow> byte list \<Rightarrow> int \<Rightarrow> byte list \<Rightarrow> int \<Rightarrow> dm_mgr_ctx \<Rightarrow> (lite_cjson \<times> dm_msg_response) option" where
  "upstream_response_assemble devid mid mid_len reply_name code m =
     map_option (\<lambda>n. (cjson_zero\<lparr>cj_value := Some mid, cj_value_length := mid_len\<rparr>,
         \<lparr>rp_prefix = Some DM_URI_SYS_PREFIX, rp_name = Some reply_name, rp_product_key = dn_product_key n,
          rp_device_key = dn_device_key n, rp_code = code\<rparr>))
       (search_dev_by_devid devid m)"

text \<open>With a context the response is for this device only, and not sent.\<close>

definition upstream_response ::
  "'w dmodel_env \<Rightarrow> int \<Rightarrow> byte list \<Rightarrow> int \<Rightarrow> byte list \<Rightarrow> int \<Rightarrow> byte list \<Rightarrow> int \<Rightarrow> bool \<Rightarrow> 'w dm \<Rightarrow> (int \<times> 'w dm) option" where
  "upstream_response env devid mid mid_len reply_name code pl pl_len has_ctx d =
     (case upstream_response_assemble devid mid mid_len reply_name code (dm_table d) of
        None \<Rightarrow> Some (STATE_DEV_MODEL_DEVICE_NOT_FOUND, d)
      | Some (reqid, rp) \<Rightarrow> do {
          (_, d) \<leftarrow> dm_msg_response env (if has_ctx then DM_MSG_DEST_LOCAL else DM_MSG_DEST_CLOUD) reqid rp (Some pl) pl_len d;
          Some (STATE_SUCCESS, d) })"

definition DM_URI_THING_MEASUREPOINT_SET_REPLY :: "byte list" where
  "DM_URI_THING_MEASUREPOINT_SET_REPLY = ascii ''thing/service/measurepoint/set_reply''"

definition dm_mgr_upstream_thing_measurepoint_set_response ::
  "'w dmodel_env \<Rightarrow> int \<Rightarrow> byte list option \<Rightarrow> int \<Rightarrow> int \<Rightarrow> byte list option \<Rightarrow> int \<Rightarrow> bool \<Rightarrow> 'w dm \<Rightarrow> (int \<times> 'w dm) option" where
  "dm_mgr_upstream_thing_measurepoint_set_response env devid mid mid_len code pl pl_len has_ctx d =
     (case (mid, pl) of
        (Some mid, Some pl) \<Rightarrow>
          if devid < 0 \<or> mid_len \<le> 0 \<or> pl_len \<le> 0 then Some (STATE_USER_INPUT_INVALID, d)
          else let (ok, d) = dm_malloc env (int (length DM_URI_THING_MEASUREPOINT_SET_REPLY) + 1) d
            in if \<not> ok then Some (STATE_SYS_DEPEND_MALLOC, d)
               else do {
                 name \<leftarrow> c_format DM_URI_THING_MEASUREPOINT_SET_REPLY [];
                 upstream_response env devid mid mid_len name code pl pl_len has_ctx d }
      | _ \<Rightarrow> Some (STATE_USER_INPUT_INVALID, d))"

definition DM_URI_THING_SERVICE_INVOKE_REPLY :: "byte list" where
  "DM_URI_THING_SERVICE_INVOKE_REPLY = ascii ''thing/service/%.*s_reply''"

definition dm_mgr_upstream_thing_service_invoke_response ::
  "'w dmodel_env \<Rightarrow> int \<Rightarrow> byte list option \<Rightarrow> int \<Rightarrow> int \<Rightarrow> byte list option \<Rightarrow> int \<Rightarrow> byte list option \<Rightarrow> int \<Rightarrow> bool \<Rightarrow>
   'w dm \<Rightarrow> (int \<times> 'w dm) option" where
  "dm_mgr_upstream_thing_service_invoke_response env devid mid mid_len code identifier identifier_len pl pl_len has_ctx d =
     (case (mid, pl) of
        (Some mid, Some pl) \<Rightarrow>
          if devid < 0 \<or> mid_len \<le> 0 \<or> identifier = None \<or> identifier_len \<le> 0 \<or> pl_len \<le> 0
          then Some (STATE_USER_INPUT_INVALID, d)
          else let len = int (length DM_URI_THING_SERVICE_INVOKE_REPLY) + identifier_len + 1;
                   (ok, d) = dm_malloc env len d
            in if \<not> ok then Some (STATE_SYS_DEPEND_MALLOC, d)
               else do {
                 name \<leftarrow> c_format DM_URI_THING_SERVICE_INVOKE_REPLY [ArgN identifier_len identifier];
                 upstream_response env devid mid mid_len (snprintf (nat len) name) code pl pl_len has_ctx d }
      | _ \<Rightarrow> Some (STATE_USER_INPUT_INVALID, d))"

end
