(* ===== verification/DmText.thy ===== *)
theory DmText
  imports CjsonText ConnThreads DmUpstream
begin

text \<open>
  The texts the device model exchanges: the JSON text of a request it sends is one from which the reader of
  \<^verbatim>\<open>dm_message.c\<close> gets everything back, reading any request follows its JSON value, and the keys of the
  device are recovered from the topics that are subscribed for it. The properties rest on the parser properties of
  \<open>CjsonText\<close>.
\<close>

section \<open>Looking members up\<close>

text \<open>The type an item for a value has.\<close>

fun json_type :: "json \<Rightarrow> int" where
  "json_type JNull = cJSON_NULL"
| "json_type JFalse = cJSON_False"
| "json_type JTrue = cJSON_True"
| "json_type (JNum _) = cJSON_Number"
| "json_type (JStr _) = cJSON_String"
| "json_type (JArr _) = cJSON_Array"
| "json_type (JObj _) = cJSON_Object"

lemma spans_json_type: "spans fl j l \<Longrightarrow> cj_type l = json_type j"
  unfolding spans_def by (cases j) auto

lemma is_type_spans [simp]:
  assumes "spans fl j l"
  shows "lite_cjson_is_object (Some l) = of_bool (json_type j = cJSON_Object)"
    "lite_cjson_is_string (Some l) = of_bool (json_type j = cJSON_String)"
    "lite_cjson_is_array (Some l) = of_bool (json_type j = cJSON_Array)"
  using spans_json_type [OF assms]
  by (cases j; simp add: lite_cjson_is_object_def lite_cjson_is_string_def lite_cjson_is_array_def is_type_def cjson_types)+

lemma json_type_iff [simp]:
  "json_type j = cJSON_String \<longleftrightarrow> (\<exists>s. j = JStr s)" "json_type j = cJSON_Number \<longleftrightarrow>
      (\<exists>s. j = JNum s)"
  "json_type j = cJSON_Object \<longleftrightarrow> (\<exists>ms. j = JObj ms)" "json_type j = cJSON_Array \<longleftrightarrow>
      (\<exists>js. j = JArr js)"
  by (cases j; simp add: cjson_types)+

text \<open>A lookup of one plain key.\<close>

lemma object_item_spans:
  assumes "spans fl j l" "plain k"
  obtains "member j k = None" "lite_cjson_object_item fl (Some l) (Some (k @ [0])) (int (length k)) (Some out) = Some (- 1, Some out)"
  | v item where "member j k = Some v" "spans fl v item"
      "lite_cjson_object_item fl (Some l) (Some (k @ [0])) (int (length k)) (Some out) = Some (0, Some item)"
proof -
  obtain r where r: "lite_cjson_object_item fl (Some l) (Some (k @ [0])) (int (length k)) (Some out) = Some (give out r)"
    "finds fl (resolve j [(k, None)]) r"
    using path_lemma [OF assms(1), of "[(k, None)]" "[]" out] assms(2) by auto
  show thesis
  proof (cases "member j k")
    case None
    with r show thesis by (intro that(1)) (auto simp: finds_def give_def)
  next
    case (Some v)
    with r obtain item where "r = Some item" "spans fl v item" by (auto simp: finds_def)
    with Some r(1) show thesis by (intro that(2)) (auto simp: give_def)
  qed
qed

lemma json_item_spans:
  assumes "spans (dm_double env) j l" "plain k"
  obtains "member j k = None" "json_item env l k = Some (- 1, cjson_zero)"
  | v item where "member j k = Some v" "spans (dm_double env) v item" "json_item env l k = Some (0, item)"
proof (rule object_item_spans [OF assms, where out = cjson_zero])
  assume "member j k = None"
    "lite_cjson_object_item (dm_double env) (Some l) (Some (k @ [0])) (int (length k)) (Some cjson_zero) = Some (- 1, Some cjson_zero)"
  then show thesis by (intro that(1)) (auto simp: json_item_def)
next
  fix v item
  assume "member j k = Some v" "spans (dm_double env) v item"
    "lite_cjson_object_item (dm_double env) (Some l) (Some (k @ [0])) (int (length k)) (Some cjson_zero) = Some (0, Some item)"
  then show thesis by (intro that(2)) (auto simp: json_item_def)
qed

lemma json_element_spans:
  assumes "spans (dm_double env) (JArr js) l"
  obtains "element js i = None" "json_element env l i = Some (- 1, cjson_zero)"
  | v item where "element js i = Some v" "spans (dm_double env) v item" "json_element env l i = Some (0, item)"
proof -
  obtain r where r: "lite_cjson_array_item (dm_double env) (Some l) i (Some cjson_zero) = Some (give cjson_zero r)"
    "finds (dm_double env) (element js i) r"
    using array_item_text [OF assms] by blast
  show thesis
  proof (cases "element js i")
    case None
    with r show thesis by (intro that(1)) (auto simp: finds_def give_def json_element_def)
  next
    case (Some v)
    with r obtain item where "r = Some item" "spans (dm_double env) v item" by (auto simp: finds_def)
    with Some r(1) show thesis by (intro that(2)) (auto simp: give_def json_element_def)
  qed
qed

text \<open>The same through the device model, which asks for a type.\<close>

definition of_type :: "int \<Rightarrow> json \<Rightarrow> bool" where
  "of_type type j \<longleftrightarrow> type = cJSON_Invalid \<or> json_type j = type"

lemma dm_object_item_spans:
  assumes "spans fl (JObj ms) l" "plain k" "0 \<le> type"
  obtains v item where "map_of ms k = Some v" "of_type type v" "spans fl v item"
      "dm_utils_json_object_item fl (Some l) (Some (k @ [0])) (int (length k)) type (Some cjson_zero) = Some (STATE_SUCCESS, Some item)"
  | "\<forall>v. map_of ms k = Some v \<longrightarrow> \<not> of_type type v"
      "\<exists>out. dm_utils_json_object_item fl (Some l) (Some (k @ [0])) (int (length k)) type (Some cjson_zero)
        = Some (STATE_DEV_MODEL_GET_JSON_ITEM_FAILED, Some out)"
proof -
  have g: "cj_type l = cJSON_Object" "\<not> int (length k) \<le> 0"
    using spans_json_type [OF assms(1)] assms(2) by (auto simp: plain_def)
  show thesis
  proof (rule object_item_spans [OF assms(1,2), where out = cjson_zero])
    assume "member (JObj ms) k = None"
      "lite_cjson_object_item fl (Some l) (Some (k @ [0])) (int (length k)) (Some cjson_zero) = Some (- 1, Some cjson_zero)"
    with g assms(3) show thesis by (intro that(2)) (auto simp: dm_utils_json_object_item_def cjson_types)
  next
    fix v item
    assume m: "member (JObj ms) k = Some v" and v: "spans fl v item"
      and r: "lite_cjson_object_item fl (Some l) (Some (k @ [0])) (int (length k)) (Some cjson_zero) = Some (0, Some item)"
    note t = spans_json_type [OF v]
    show thesis
    proof (cases "of_type type v")
      case True
      with g assms(3) m r t v show thesis by (intro that(1) [of v item]) (auto simp: dm_utils_json_object_item_def of_type_def)
    next
      case False
      with g assms(3) m r t show thesis by (intro that(2)) (auto simp: dm_utils_json_object_item_def of_type_def)
    qed
  qed
qed

text \<open>The members of an object with these types, if they are all there.\<close>

fun read_members :: "(byte list \<times> json) list \<Rightarrow> (byte list \<times> int) list \<Rightarrow> json list option" where
  "read_members ms [] = Some []"
| "read_members ms ((k, type) # ks) =
     (case map_of ms k of
        None \<Rightarrow> None
      | Some v \<Rightarrow> if of_type type v then map_option ((#) v) (read_members ms ks) else None)"

lemma json_members_spans:
  assumes "spans (dm_double env) (JObj ms) l" "\<forall>(k, type) \<in> set ks. plain k \<and> 0 \<le> type"
  shows "\<exists>items. json_members env l ks = Some items \<and> rel_option (list_all2 (spans (dm_double env))) (read_members ms ks)
      items"
  using assms(2)
proof (induction ks)
  case (Cons kt ks)
  obtain k type where kt: "kt = (k, type)" by force
  have k: "plain k" "0 \<le> type" using Cons.prems kt by auto
  obtain items where IH: "json_members env l ks = Some items"
    "rel_option (list_all2 (spans (dm_double env))) (read_members ms ks) items"
    using Cons by auto
  from assms(1) k show ?case
    by (rule dm_object_item_spans) (use IH in \<open>auto simp: kt rel_option_iff split: option.splits\<close>)
qed simp

section \<open>Requests and responses of the cloud\<close>

lemma parse_object_text:
  assumes "value_text n j s" "int n \<le> LITE_CJSON_NESTING_LIMIT" "blank w" "blank w'"
  shows "\<exists>l. spans (dm_double env) j l \<and> dm_utils_json_parse (dm_double env) (Some (w @ s @ w' @ rest)) (int (length (w @ s
      @ w'))) cJSON_Object (Some cjson_zero) =
    Some (if json_type j = cJSON_Object then (STATE_SUCCESS, Some l) else (STATE_DEV_MODEL_WRONG_JSON_FORMAT, Some cjson_zero))"
proof -
  let ?l = "item_for (dm_double env) j s (s @ w' @ rest) cjson_zero"
  have l: "spans (dm_double env) j ?l" using assms(1,2) unfolding spans_def by blast
  define len where "len = int (length (w @ s @ w'))"
  have "0 < len" using value_text_hd [OF assms(1)] by (auto simp: len_def)
  then show ?thesis
    using spans_json_type [OF l] l parse_text_lemma [OF assms, of "dm_double env" rest cjson_zero]
    unfolding len_def [symmetric]
    by (intro exI [of _ ?l]) (simp add: dm_utils_json_parse_def cjson_types)
qed

lemma keys_plain [simp]:
  "plain DM_MSG_KEY_ID" "plain DM_MSG_KEY_VERSION" "plain DM_MSG_KEY_METHOD" "plain DM_MSG_KEY_PARAMS" "plain DM_MSG_KEY_CODE"
  "plain DM_MSG_KEY_DATA" "plain DM_MSG_KEY_MESSAGE" "plain DM_MSG_KEY_PRODUCT_KEY" "plain DM_MSG_KEY_DEVICE_KEY"
  by (simp_all add: plain_def ascii_def DM_MSG_KEY_ID_def DM_MSG_KEY_VERSION_def DM_MSG_KEY_METHOD_def DM_MSG_KEY_PARAMS_def
      DM_MSG_KEY_CODE_def DM_MSG_KEY_DATA_def DM_MSG_KEY_MESSAGE_def DM_MSG_KEY_PRODUCT_KEY_def DM_MSG_KEY_DEVICE_KEY_def)

text \<open>The members a request must have.\<close>

definition request_members :: "(byte list \<times> int) list" where
  "request_members = [(DM_MSG_KEY_ID, cJSON_String), (DM_MSG_KEY_VERSION, cJSON_String),
     (DM_MSG_KEY_METHOD, cJSON_String), (DM_MSG_KEY_PARAMS, cJSON_Invalid)]"

fun members_of :: "json \<Rightarrow> (byte list \<times> json) list" where
  "members_of (JObj ms) = ms"
| "members_of _ = []"

definition reads_request :: "(rat \<Rightarrow> rat) \<Rightarrow> json list option \<Rightarrow> int + dm_msg_request_payload
    \<Rightarrow> bool" where
  "reads_request fl vs r \<longleftrightarrow>
     (case r of
        Inl res \<Rightarrow> vs = None \<and> res = STATE_DEV_MODEL_ENOS_MSG_PARSE_FAILED
      | Inr q \<Rightarrow> \<exists>i v m p. vs = Some [i, v, m, p] \<and> spans fl i (rq_id q) \<and> spans fl v (rq_version q)
          \<and> spans fl m (rq_method q) \<and> spans fl p (rq_params q))"

lemma request_parse_lemma:
  assumes "value_text n j s" "int n \<le> LITE_CJSON_NESTING_LIMIT" "blank w" "blank w'"
  shows "\<exists>r. dm_msg_request_parse env (Some (w @ s @ w' @ rest)) (int (length (w @ s @ w'))) = Some r
    \<and> reads_request (dm_double env) (read_members (members_of j) request_members) r"
proof -
  define len where "len = int (length (w @ s @ w'))"
  obtain l where l: "spans (dm_double env) j l"
    "dm_utils_json_parse (dm_double env) (Some (w @ s @ w' @ rest)) len cJSON_Object (Some cjson_zero) =
      Some (if json_type j = cJSON_Object then (STATE_SUCCESS, Some l) else (STATE_DEV_MODEL_WRONG_JSON_FORMAT, Some cjson_zero))"
    using parse_object_text [OF assms] unfolding len_def by blast
  have ne: "0 < len" using value_text_hd [OF assms(1)] by (auto simp: len_def)
  show ?thesis
  proof (cases "\<exists>ms. j = JObj ms")
    case True
    then obtain ms where ms: "j = JObj ms" by blast
    obtain items where items: "json_members env l request_members = Some items"
      "rel_option (list_all2 (spans (dm_double env))) (read_members ms request_members) items"
      using json_members_spans [OF l(1) [unfolded ms], of request_members] by (auto simp: request_members_def cjson_types)
    have len: "read_members ms request_members = Some vs \<Longrightarrow> length vs = 4" for vs
      by (auto simp: request_members_def split: option.splits if_splits)
    show ?thesis
    proof (cases items)
      case None
      with items l ne ms show ?thesis
        unfolding len_def [symmetric]
        by (intro exI [of _ "Inl STATE_DEV_MODEL_ENOS_MSG_PARSE_FAILED"])
          (auto simp: dm_msg_request_parse_def request_members_def [symmetric] reads_request_def rel_option_iff split: option.splits)
    next
      case (Some its)
      then obtain vs where vs: "read_members ms request_members = Some vs" "list_all2 (spans (dm_double env)) vs its"
        using items(2) by (auto simp: rel_option_iff split: option.splits)
      with len have "length vs = 4" "length its = 4" by (auto dest: list_all2_lengthD)
      then obtain i v m p i' v' m' p' where "vs = [i, v, m, p]" "its = [i', v', m', p']"
        by (auto simp: length_Suc_conv numeral_eq_Suc)
      with vs Some items l ne ms show ?thesis
        unfolding len_def [symmetric]
        by (intro exI [of _ "Inr \<lparr>rq_id = i', rq_version = v', rq_method = m', rq_params = p'\<rparr>"])
          (auto simp: dm_msg_request_parse_def request_members_def [symmetric] reads_request_def)
    qed
  next
    case False
    then have "read_members (members_of j) request_members = None" by (cases j) (auto simp: request_members_def)
    with False l(2) ne show ?thesis
      unfolding len_def [symmetric]
      by (intro exI [of _ "Inl STATE_DEV_MODEL_ENOS_MSG_PARSE_FAILED"]) (simp add: dm_msg_request_parse_def reads_request_def)
  qed
qed

section \<open>Printing\<close>

text \<open>Characters of printed numbers.\<close>

lemma dec_digits_chars: "c \<in> set (dec_digits n) \<Longrightarrow> is_digit c"
proof (induction n rule: dec_digits.induct)
  case (1 n)
  have digit: "is_digit (0x30 + of_nat k)" if "k < 10" for k
  proof -
    have "k \<in> {0,1,2,3,4,5,6,7,8,9}" using that by auto
    then show ?thesis by (auto simp: is_digit_def)
  qed
  from 1 show ?case
    by (subst (asm) (2) dec_digits.simps) (auto split: if_splits intro: digit)
qed

lemma fmt_d_chars: "c \<in> set (fmt_d i) \<Longrightarrow> is_digit c \<or> c = 0x2D"
  by (auto simp: fmt_d_def split: if_splits dest: dec_digits_chars)

definition clean :: "byte list \<Rightarrow> bool" where
  "clean s \<longleftrightarrow> (\<forall>c \<in> set s. c \<noteq> 0 \<and> c \<noteq> 0x22 \<and> c \<noteq> 0x5C)"

lemma clean_string_text: "clean s \<Longrightarrow> string_text s"
  by (induction s) (auto simp: clean_def)

lemma clean_nonzero: "clean s \<Longrightarrow> 0 \<notin> set s"
  by (auto simp: clean_def)

lemma clean_fmt_d: "clean (fmt_d i)"
  by (auto simp: clean_def is_digit_def dest!: fmt_d_chars)

text \<open>A text that fits is printed in full, and the rest of the block is zeros.\<close>

lemma printed_block:
  assumes "length text < n"
  shows "buf_write (replicate n 0) 0 (snprintf n text @ [0]) = text @ replicate (n - length text) 0"
proof -
  have "snprintf n text = text" using assms by (simp add: snprintf_def)
  moreover obtain k where k: "n = Suc (length text + k)" using assms by (metis add_Suc_right less_iff_Suc_add)
  ultimately show ?thesis by (simp add: buf_write_fits)
qed

lemma str_prec_text: "0 \<notin> set s \<Longrightarrow> str_prec (int (length s)) (Some (s @ rest)) = Some s"
  by (auto simp: str_prec_def)

lemma zeros_blank [simp]: "blank (replicate n 0)"
  by (simp add: blank_def)

lemma json_payload_text:
  assumes "c_format fmt args = Some text" "int (length text) < pl_len" "value_text n j text" "int n \<le> LITE_CJSON_NESTING_LIMIT"
  shows "json_payload env pl_len fmt args = Some (True, text @ replicate (nat pl_len - length text) 0)"
proof -
  let ?zeros = "replicate (nat pl_len - length text) (0 :: byte)"
  have len: "pl_len = int (length ([] @ text @ ?zeros))" using assms(2) by simp
  have "lite_cjson_parse (dm_double env) (Some ([] @ text @ ?zeros @ [])) (int (length ([] @ text @ ?zeros))) cjson_zero =
      Some (0, item_for (dm_double env) j text (text @ ?zeros @ []) cjson_zero)"
    by (rule parse_text_lemma [OF assms(3,4)]) (simp_all add: blank_def)
  then have "lite_cjson_parse (dm_double env) (Some (text @ ?zeros)) pl_len cjson_zero =
      Some (0, item_for (dm_double env) j text (text @ ?zeros) cjson_zero)"
    using len by simp
  moreover have "length text < nat pl_len" using assms(2) by linarith
  ultimately show ?thesis by (simp add: json_payload_def assms(1) printed_block)
qed

text \<open>The text of a request.\<close>

definition request_text :: "byte list \<Rightarrow> byte list \<Rightarrow> byte list \<Rightarrow> byte list" where
  "request_text mid params method =
     ascii ''{\"id\":\"'' @ mid @ ascii ''\",\"version\":\"1.0\",\"params\":'' @ params @ ascii '',\"method\":\"'' @ method @ ascii ''\"}''"

definition request_json :: "byte list \<Rightarrow> json \<Rightarrow> byte list \<Rightarrow> json" where
  "request_json mid j method =
     JObj [(DM_MSG_KEY_ID, JStr mid), (DM_MSG_KEY_VERSION, JStr DM_MSG_VERSION), (DM_MSG_KEY_PARAMS, j), (DM_MSG_KEY_METHOD, JStr method)]"

lemma request_value_text:
  assumes "value_text n j p" "string_text mid" "string_text m"
  shows "value_text (Suc n) (request_json mid j m) (request_text mid p m)"
proof -
  have nil: "blank []" by (simp add: blank_def)
  have s: "string_text DM_MSG_KEY_ID" "string_text DM_MSG_KEY_VERSION" "string_text DM_MSG_KEY_PARAMS" "string_text DM_MSG_KEY_METHOD"
    "string_text DM_MSG_VERSION"
    by (simp_all add: ascii_def DM_MSG_KEY_ID_def DM_MSG_KEY_VERSION_def DM_MSG_KEY_PARAMS_def DM_MSG_KEY_METHOD_def DM_MSG_VERSION_def)
  note m4 = one_member [OF nil s(4) nil nil str [OF assms(3)] nil, of n]
  note m3 = more_members [OF nil s(3) nil nil assms(1) nil m4]
  note m2 = more_members [OF nil s(2) nil nil str [OF s(5)] nil m3]
  note m1 = more_members [OF nil s(1) nil nil str [OF assms(2)] nil m2]
  from object [OF m1] show ?thesis
    by (simp add: request_text_def request_json_def ascii_def DM_MSG_KEY_ID_def DM_MSG_KEY_VERSION_def DM_MSG_KEY_PARAMS_def
        DM_MSG_KEY_METHOD_def DM_MSG_VERSION_def)
qed

lemma request_format:
  assumes "0 \<notin> set p"
  shows "c_format DM_MSG_REQUEST [ArgD mid, ArgS DM_MSG_VERSION, ArgN (int (length p)) (Some (p @ junk)), ArgS m] =
    Some (request_text (fmt_d mid) p m)"
  by (simp add: DM_MSG_REQUEST_def DM_MSG_VERSION_def request_text_def ascii_def str_prec_text [OF assms])

lemma request_fits:
  assumes "c_int mid"
  shows "length (request_text (fmt_d mid) p m) < length DM_MSG_REQUEST + 10 + length DM_MSG_VERSION + length p + length m + 1"
  using length_fmt_d [OF assms] by (simp add: request_text_def DM_MSG_REQUEST_def DM_MSG_VERSION_def ascii_def)

lemma request_reads:
  assumes "value_text n j p" "int (Suc n) \<le> LITE_CJSON_NESTING_LIMIT" "string_text mid" "string_text m"
  obtains q where "dm_msg_request_parse env (Some (request_text mid p m @ rest)) (int (length (request_text mid p m))) = Some (Inr q)"
    "spans (dm_double env) (JStr mid) (rq_id q)" "spans (dm_double env) (JStr DM_MSG_VERSION) (rq_version q)"
    "spans (dm_double env) (JStr m) (rq_method q)" "spans (dm_double env) j (rq_params q)"
proof -
  have r: "read_members (members_of (request_json mid j m)) request_members = Some [JStr mid, JStr DM_MSG_VERSION, JStr m, j]"
    by (simp add: request_json_def request_members_def of_type_def cjson_types ascii_def DM_MSG_KEY_ID_def DM_MSG_KEY_VERSION_def
        DM_MSG_KEY_PARAMS_def DM_MSG_KEY_METHOD_def)
  have nil: "blank []" by (simp add: blank_def)
  obtain q where "dm_msg_request_parse env (Some (request_text mid p m @ rest)) (int (length (request_text mid p m))) = Some q"
    "reads_request (dm_double env) (read_members (members_of (request_json mid j m)) request_members) q"
    using request_parse_lemma [OF request_value_text [OF assms(1,3,4)] assms(2) nil nil, of env rest] by auto
  with r that show thesis by (cases q) (auto simp: reads_request_def)
qed

text \<open>What a request does once it has a text: its topic, the block, and publishing the text up to its NUL.\<close>

definition publishes :: "'w dmodel_env \<Rightarrow> dm_msg_request \<Rightarrow> byte list \<Rightarrow> nat \<Rightarrow> 'w dm
    \<Rightarrow> (int \<times> 'w dm) option" where
  "publishes env r text k d = do {
     (res, uri, d) \<leftarrow> service_uri env (rm_service_prefix r) (rm_service_name r) (rm_product_key r) (rm_device_key r) d;
     (if res \<noteq> STATE_SUCCESS then Some (res, d)
      else let (ok, d) = dm_malloc env (int (length text + k)) d
        in if \<not> ok then Some (STATE_SYS_DEPEND_MALLOC, d)
           else dm_client_publish env uri (text @ replicate k 0) (int (length text)) d) }"

lemma request_publishes:
  assumes "rm_params r = Some (p @ junk)" "rm_params_len r = int (length p)" "rm_method r = Some m" "c_int (rm_msgid r)"
    "value_text n j p" "int (Suc n) \<le> LITE_CJSON_NESTING_LIMIT" "clean m" "0 \<notin> set p"
  shows "dm_msg_request env DM_MSG_DEST_CLOUD r d = publishes env r (request_text (fmt_d (rm_msgid r)) p m)
    (length DM_MSG_REQUEST + 10 + length DM_MSG_VERSION + length p + length m + 1 - length (request_text (fmt_d (rm_msgid r)) p m)) d"
proof -
  let ?text = "request_text (fmt_d (rm_msgid r)) p m"
  define L where "L = length DM_MSG_REQUEST + 10 + length DM_MSG_VERSION + length p + length m + 1"
  have L: "int (length DM_MSG_REQUEST + 10 + length DM_MSG_VERSION) + int (length p) + int (length m) + 1 = int L"
    by (simp add: L_def)
  have short: "length ?text < L" unfolding L_def by (rule request_fits [OF assms(4)])
  have v: "value_text (Suc n) (request_json (fmt_d (rm_msgid r)) j m) ?text"
    using request_value_text [OF assms(5) clean_string_text clean_string_text] clean_fmt_d assms(7) by blast
  have pay: "json_payload env (int L) DM_MSG_REQUEST
      [ArgD (rm_msgid r), ArgS DM_MSG_VERSION, ArgN (int (length p)) (Some (p @ junk)), ArgS m] =
      Some (True, ?text @ replicate (L - length ?text) 0)"
    using json_payload_text [OF request_format [OF assms(8), of "rm_msgid r" junk m] _ v assms(6), of "int L" env] short by simp
  have "0 \<notin> set ?text"
    using clean_nonzero [OF clean_fmt_d] clean_nonzero [OF assms(7)] assms(8) by (simp add: request_text_def ascii_def)
  then have c: "c_str (?text @ replicate (L - length ?text) 0) = Some ?text"
    using short by (cases "L - length ?text") auto
  have "length ?text + (L - length ?text) = L" using short by simp
  then have "dm_msg_request env DM_MSG_DEST_CLOUD r d = publishes env r ?text (L - length ?text) d"
    by (auto simp del: of_nat_add simp: publishes_def dm_msg_request_def assms(1-3) L pay c Let_def intro!: Option.bind_cong
        split: prod.splits)
  then show ?thesis unfolding L_def .
qed



section \<open>Topics\<close>

lemma memtok_loop_hit:
  assumes "int (length pre + length p) + 1 < len" "length p < n" "count + int (count_list p c) + 1 = index"
  shows "memtok_loop (pre @ p @ c # q) len c index n (length pre) count = Some (Some (length pre + length p))"
  using assms
proof (induction p arbitrary: pre n count)
  case Nil
  then obtain n' where "n = Suc n'" by (cases n) auto
  then show ?case using Nil by (simp add: byte_at_def)
next
  case (Cons x p)
  then obtain n' where n: "n = Suc n'" by (cases n) auto
  have "memtok_loop ((pre @ [x]) @ p @ c # q) len c index n' (length (pre @ [x])) (if x = c then count + 1 else count) =
      Some (Some (length (pre @ [x]) + length p))"
    by (rule Cons.IH) (use Cons.prems n in auto)
  then show ?case using Cons.prems n by (auto simp: byte_at_def)
qed

lemma memtok_hit:
  assumes "q \<noteq> []" "index = int (count_list p c) + 1"
  shows "dm_utils_memtok (Some (p @ c # q @ junk)) (int (length (p @ c # q))) c index (Some x) = Some (STATE_SUCCESS, Some (int (length
      p)))"
  using memtok_loop_hit [of "[]" p "int (length (p @ c # q))" "length (p @ c # q)" 0 c index "q @ junk"] assms
  by (simp add: dm_utils_memtok_def nat_add_distrib)

text \<open>Three parts behind three slashes, and something behind a fourth.\<close>

lemma count_free: "c \<notin> set s \<Longrightarrow> count_list s c = 0"
  by (simp add: count_list_0_iff)

definition key_text :: "nat \<Rightarrow> byte list \<Rightarrow> bool" where
  "key_text n k \<longleftrightarrow> length k \<le> n \<and> (\<forall>c \<in> set k. c \<noteq> 0 \<and> c \<noteq> 0x2F)"

lemma copy_into_zeros:
  assumes "length k < n"
  shows "mem_copy (k @ rest) (int (length k)) (replicate n 0) = Some (k @ replicate (n - length k) 0)"
  using assms by (simp add: mem_copy_def buf_write_fits)

lemma zeros_end: "0 \<notin> set k \<Longrightarrow> length k < n \<Longrightarrow> c_str (k @ replicate (n - length k) 0) = Some k"
  by (cases "n - length k") auto

lemma drop_past: "drop (nat (int (length p) + 1)) (p @ x # r) = r"
  by (simp add: nat_add_distrib)

lemma topic_keys_parts:
  assumes "0x2F \<notin> set a" "key_text IOTX_PRODUCT_KEY_LEN b" "key_text IOTX_DEVICE_KEY_LEN c" "length b < n" "length c < m" "q
      \<noteq> []"
    "n \<le> IOTX_PRODUCT_KEY_LEN + 1" "m \<le> IOTX_DEVICE_KEY_LEN + 1"
  shows "topic_keys n m (0x2F # a @ 0x2F # b @ 0x2F # c @ 0x2F # q) = Some (Inr (b, c))"
proof -
  let ?u = "0x2F # a @ 0x2F # b @ 0x2F # c @ 0x2F # q"
  have free: "0x2F \<notin> set b" "0x2F \<notin> set c" "0 \<notin> set b" "0 \<notin> set c" using assms(2,3) by (auto simp: key_text_def)
  have s: "dm_utils_memtok (Some (?u @ [0])) (int (length ?u)) 0x2F 2 (Some 0) = Some (STATE_SUCCESS, Some (int (length (0x2F # a))))"
    using memtok_hit [of "b @ 0x2F # c @ 0x2F # q" 2 "0x2F # a" "0x2F" "[0]" 0] assms(1) by (simp add: count_free)
  have t: "dm_utils_memtok (Some (?u @ [0])) (int (length ?u)) 0x2F 3 (Some 0) =
      Some (STATE_SUCCESS, Some (int (length (0x2F # a @ 0x2F # b))))"
    using memtok_hit [of "c @ 0x2F # q" 3 "0x2F # a @ 0x2F # b" "0x2F" "[0]" 0] assms(1) free by (simp add: count_free)
  have e: "dm_utils_memtok (Some (?u @ [0])) (int (length ?u)) 0x2F 4 (Some 0) =
      Some (STATE_SUCCESS, Some (int (length (0x2F # a @ 0x2F # b @ 0x2F # c))))"
    using memtok_hit [of q 4 "0x2F # a @ 0x2F # b @ 0x2F # c" "0x2F" "[0]" 0] assms(1,6) free by (simp add: count_free)
  have z: "c_str (replicate n 0) = Some []" "c_str (replicate m 0) = Some []"
    using assms(4,5) by (cases n; simp add: c_str_def; cases m; simp add: c_str_def)+
  have d: "drop (nat (int (length (0x2F # a)) + 1)) (?u @ [0]) = b @ 0x2F # c @ 0x2F # q @ [0]"
    "drop (nat (int (length (0x2F # a @ 0x2F # b)) + 1)) (?u @ [0]) = c @ 0x2F # q @ [0]"
    using drop_past [of "0x2F # a" "0x2F" "b @ 0x2F # c @ 0x2F # q @ [0]"] drop_past [of "0x2F # a @ 0x2F # b" "0x2F" "c @ 0x2F # q @ [0]"]
    by simp_all
  have n: "int (length (0x2F # a @ 0x2F # b)) - int (length (0x2F # a)) - 1 = int (length b)"
    "int (length (0x2F # a @ 0x2F # b @ 0x2F # c)) - int (length (0x2F # a @ 0x2F # b)) - 1 = int (length c)"
    by simp_all
  have cp: "mem_copy (drop (nat (int (length (0x2F # a)) + 1)) (?u @ [0]))
      (int (length (0x2F # a @ 0x2F # b)) - int (length (0x2F # a)) - 1) (replicate n 0) = Some (b @ replicate (n - length b) 0)"
    "mem_copy (drop (nat (int (length (0x2F # a @ 0x2F # b)) + 1)) (?u @ [0]))
      (int (length (0x2F # a @ 0x2F # b @ 0x2F # c)) - int (length (0x2F # a @ 0x2F # b)) - 1) (replicate m 0)
     = Some (c @ replicate (m - length c) 0)"
    unfolding d n by (rule copy_into_zeros [OF assms(4)], rule copy_into_zeros [OF assms(5)])
  define len mem where "len = int (length ?u)" and "mem = ?u @ [0]"
  have "0 < len" by (simp add: len_def)
  then have "dm_msg_uri_parse_pkdk (Some mem) len 2 4 (Some (replicate n 0)) (Some (replicate m 0)) =
      Some (STATE_SUCCESS, Some (b @ replicate (n - length b) 0), Some (c @ replicate (m - length c) 0))"
    using s t e cp unfolding len_def [symmetric] mem_def [symmetric]
    by (simp add: dm_msg_uri_parse_pkdk_def z DM_URI_SERVICE_DELIMITER_def)
  then show ?thesis unfolding len_def mem_def using free assms(4,5) by (simp add: topic_keys_def zeros_end)
qed

text \<open>The URI of a topic.\<close>

definition topic_text :: "byte list \<Rightarrow> byte list \<Rightarrow> byte list \<Rightarrow> byte list \<Rightarrow> byte list" where
  "topic_text prefix name pk dk =
     (if prefix = DM_URI_SYS_PREFIX then ascii ''/sys/'' else ascii ''/ext/session/'') @ pk @ 0x2F # dk @ 0x2F # name"

lemma prefix_format:
  assumes "prefix \<in> {DM_URI_SYS_PREFIX, DM_URI_EXT_SESSION_PREFIX}"
  shows "c_format prefix [ArgS pk, ArgS dk] = Some (topic_text prefix [] pk dk)"
    "length (topic_text prefix [] pk dk) + 4 = length prefix + length pk + length dk" "0 \<notin> set prefix"
  using assms
  by (auto simp: topic_text_def DM_URI_SYS_PREFIX_def DM_URI_EXT_SESSION_PREFIX_def ascii_def)

lemma topic_text_name: "topic_text prefix name pk dk = topic_text prefix [] pk dk @ name"
  by (simp add: topic_text_def)

lemma print_then_append:
  "length t + length s \<le> n \<Longrightarrow>
   buf_write (buf_write (replicate n 0) 0 t) (length t) s = (t @ s) @ replicate (n - length (t @ s)) 0"
  by (simp add: buf_write_fits)

lemma service_uri_text:
  assumes "prefix \<in> {DM_URI_SYS_PREFIX, DM_URI_EXT_SESSION_PREFIX}" "0 \<notin> set name" "0 \<notin> set pk" "0 \<notin> set dk"
  shows "service_uri env (Some prefix) (Some name) pk dk d =
    (let (ok, w) = HAL_Malloc (dmq env) (word_of_int (int (length prefix + length name + length pk + length dk + 1))) (dm_world d)
     in Some (if ok then (STATE_SUCCESS, topic_text prefix name pk dk, set_dm_world w d)
              else (STATE_SYS_DEPEND_MALLOC, [], set_dm_world w d)))"
proof -
  define t where "t = topic_text prefix [] pk dk"
  define n where "n = length prefix + length name + length pk + length dk + 1"
  obtain ok w where m: "HAL_Malloc (dmq env) (word_of_int (int n)) (dm_world d) = (ok, w)"
    by (cases "HAL_Malloc (dmq env) (word_of_int (int n)) (dm_world d)")
  have fit: "length t + length name < n" using prefix_format(2) [OF assms(1), of pk dk] by (simp add: n_def t_def)
  then have s: "snprintf n t = t" by (simp add: snprintf_def)
  have "0 \<notin> set (t @ name)" using assms(2-4) by (simp add: t_def topic_text_def ascii_def)
  then have "c_str ((t @ name) @ replicate (n - length (t @ name)) 0) = Some (t @ name)"
    by (rule zeros_end) (use fit in simp)
  then have c: "c_str (buf_write (buf_write (replicate n 0) 0 t) (length t) name) = Some (t @ name)"
    using print_then_append [of t name n] fit by simp
  show ?thesis
    unfolding service_uri_def dm_utils_service_name_def into_new_def Let_def option.case prod.case prefix_format(1) [OF assms(1)]
      topic_text_name [of prefix name]
    unfolding n_def [symmetric] t_def [symmetric]
    using m s c fit by (cases ok) simp_all
qed

lemma uri_map_names:
  assumes "e \<in> set g_dm_client_uri_map"
  shows "uri_prefix e \<in> {DM_URI_SYS_PREFIX, DM_URI_EXT_SESSION_PREFIX}" "0 \<notin> set (uri_name e)" "uri_name e \<noteq> []"
  using assms
  by (auto simp: g_dm_client_uri_map_def sys_all_def sys_gateway_def session_gateway_def ascii_def)

lemma prefixes_differ [simp]: "DM_URI_EXT_SESSION_PREFIX \<noteq> DM_URI_SYS_PREFIX"
  by (simp add: DM_URI_SYS_PREFIX_def DM_URI_EXT_SESSION_PREFIX_def ascii_def)

lemma session_key: "key_text IOTX_PRODUCT_KEY_LEN (ascii ''session'')"
  by (simp add: key_text_def ascii_def IOTX_PRODUCT_KEY_LEN_def)

text \<open>
  C18. The device an incoming message is taken for: on every topic under \<^verbatim>\<open>/sys\<close> that is subscribed for a device,
      the keys
  read from the topic are the keys of the device. On the topics of the session, under
  \<^verbatim>\<open>/ext/session\<close>, the product key read is the word \<^verbatim>\<open>session\<close> and the device key read is
      the
  product key, because the same positions are used.
\<close>

theorem topic_names_device:
  assumes "e \<in> set g_dm_client_uri_map" "key_text IOTX_PRODUCT_KEY_LEN pk" "key_text IOTX_DEVICE_KEY_LEN dk"
    "service_uri env (Some (uri_prefix e)) (Some (uri_name e)) pk dk d = Some (STATE_SUCCESS, uri, d')"
  shows "source_keys uri = Some (Inr (if uri_prefix e = DM_URI_SYS_PREFIX then (pk, dk) else (ascii ''session'', pk)))"
proof -
  note names = uri_map_names [OF assms(1)]
  have nz: "0 \<notin> set pk" "0 \<notin> set dk" using assms(2,3) by (auto simp: key_text_def)
  have uri: "uri = topic_text (uri_prefix e) (uri_name e) pk dk"
    using assms(4) unfolding service_uri_text [OF names(1,2) nz] by (auto split: prod.splits if_splits)
  show ?thesis
  proof (cases "uri_prefix e = DM_URI_SYS_PREFIX")
    case True
    then have "uri = 0x2F # ascii ''sys'' @ 0x2F # pk @ 0x2F # dk @ 0x2F # uri_name e"
      unfolding uri by (simp add: topic_text_def ascii_def)
    moreover have "0x2F \<notin> set (ascii ''sys'')" by (simp add: ascii_def)
    ultimately show ?thesis
      unfolding source_keys_def using topic_keys_parts [OF _ assms(2,3) _ _ names(3)] assms(2,3) True by (simp add: key_text_def)
  next
    case False
    then have "uri = 0x2F # ascii ''ext'' @ 0x2F # ascii ''session'' @ 0x2F # pk @ 0x2F # (dk @ 0x2F # uri_name e)"
      unfolding uri by (simp add: topic_text_def ascii_def)
    moreover have "0x2F \<notin> set (ascii ''ext'')" by (simp add: ascii_def)
    moreover have "key_text IOTX_DEVICE_KEY_LEN pk"
      using assms(2) by (simp add: key_text_def IOTX_PRODUCT_KEY_LEN_def IOTX_DEVICE_KEY_LEN_def)
    ultimately show ?thesis
      unfolding source_keys_def using topic_keys_parts [OF _ session_key, of "ascii ''ext''" pk] False
      by (simp add: key_text_def ascii_def IOTX_PRODUCT_KEY_LEN_def)
  qed
qed

section \<open>A device\<close>

text \<open>A gateway with an open connection and a client online, no devices but itself, and empty lists.\<close>

definition demo_device_env :: "demo dmodel_env" where
  "demo_device_env = \<lparr>dmq = hal.extend (hal.truncate api_env) (dm_env.fields (\<lambda>w. (ucast (clock w), w)) None 16 24 48),
     dmc = cm_demo, dm_double = \<lambda>x. x, user_topic_cb = \<lambda>f n b k w. w, sizeof_dev_node = 400, sizeof_pointer = 8\<rparr>"

definition demo_client :: iotx_mc_client where
  "demo_client = client_zero\<lparr>client_state := IOTX_MC_STATE_CONNECTED, request_timeout_ms := 2000, buf_size_send_max := 1024,
     buf_size_read_max := 1024, ipstack := \<lparr>pHostAddress = Some [97], net_port = 1883, ca_crt_len = 0, ca_crt = None, net_handle =
         1\<rparr>\<rparr>"

definition demo_link :: "demo cm" where
  "demo_link = \<lparr>cm_api = api_start\<lparr>api_sys := api_begin\<lparr>cl := demo_client\<rparr>, g_mqtt_client := Some 0,
      clients_made := 1\<rparr>,
     mqtt_connection = Some (0, \<lparr>conn_fd = 0, open_params = api_param, customized = False, conn_context = Some 0, event_handler =
         Some 1,
       cb_data = 0\<rparr>),
     connections_made = 1, cm_fd = [Some 0, None, None], fd_lock = True, inited_conn_num = 1, yield_task_leave = False,
     yield_threads = [Thread_loop], g_event_monitor = None\<rparr>"

definition demo_device :: "demo dm" where
  "demo_device = \<lparr>dm_table = fst (snd (dm_mgr_init demo_dm 400 [112] [100] 0)), dm_queue = dm_ipc_zero\<lparr>ipc_mutex := True,
      ipc_max_size := 50\<rparr>,
     dm_cache = fst (snd (dm_msg_cache_init demo_dm 0)), g_report_id = 0, client_fd = 0, g_user_topic_callback = None, dm_cm =
         demo_link\<rparr>"

definition demo_request :: dm_msg_request where
  "demo_request = request_zero\<lparr>rm_msgid := 7, rm_service_prefix := Some DM_URI_SYS_PREFIX,
     rm_service_name := Some (ascii ''thing/measurepoint/post''), rm_product_key := [112], rm_device_key := [100],
     rm_params := Some (sample_text @ []), rm_params_len := int (length sample_text), rm_method := Some (ascii
         ''thing.measurepoint.post'')\<rparr>"



theorem topic_names_device_witness:
  "source_keys (topic_text DM_URI_SYS_PREFIX (uri_name (g_dm_client_uri_map ! 0)) (ascii ''pk1'') (ascii ''dk1'')) =
     Some (Inr (if uri_prefix (g_dm_client_uri_map ! 0) = DM_URI_SYS_PREFIX then (ascii ''pk1'', ascii ''dk1'')
       else (ascii ''session'', ascii ''pk1'')))"
proof (rule topic_names_device)
  show "g_dm_client_uri_map ! 0 \<in> set g_dm_client_uri_map" by (simp add: g_dm_client_uri_map_def sys_all_def)
  show "key_text IOTX_PRODUCT_KEY_LEN (ascii ''pk1'')" "key_text IOTX_DEVICE_KEY_LEN (ascii ''dk1'')"
    by (simp_all add: key_text_def ascii_def IOTX_PRODUCT_KEY_LEN_def IOTX_DEVICE_KEY_LEN_def)
  have name: "uri_prefix (g_dm_client_uri_map ! 0) = DM_URI_SYS_PREFIX" "0 \<notin> set (uri_name (g_dm_client_uri_map ! 0))"
    by (simp_all add: g_dm_client_uri_map_def sys_all_def ascii_def)
  have "HAL_Malloc (dmq demo_device_env) n v = (True, v)" for n v
    by (simp add: demo_device_env_def api_env_def demo_env_def hal.defs dm_env.defs)
  then show "service_uri demo_device_env (Some (uri_prefix (g_dm_client_uri_map ! 0))) (Some (uri_name (g_dm_client_uri_map ! 0)))
      (ascii ''pk1'') (ascii ''dk1'') demo_device = Some (STATE_SUCCESS,
      topic_text DM_URI_SYS_PREFIX (uri_name (g_dm_client_uri_map ! 0)) (ascii ''pk1'') (ascii ''dk1''), set_dm_world (dm_world
          demo_device) demo_device)"
    unfolding name(1) by (subst service_uri_text) (simp_all add: name(2) ascii_def)
qed

end
