(* ===== verification/DmApi.thy ===== *)
theory DmApi
  imports DmUpstream
begin

text \<open>
  The interface of the device model, \<^verbatim>\<open>src/src/dev_model/dm_api.c\<close>, without the firmware updates, which are not
  part of the configuration: opening, connecting and closing, subscribing, and the requests under a lock. The dispatch of the
  messages is in \<open>DmQueue\<close> and, with the callback it calls, in \<open>EnosApi\<close>.
\<close>

section \<open>Closing the connection\<close>

text \<open>
  \<^verbatim>\<open>iotx_cm_close\<close> as one call. \<open>others\<close> is what the yield threads do while the call waits for them
      to leave (theory
  \<open>ConnThreads\<close> has their steps); a call that goes on waiting does not return.
\<close>

definition iotx_cm_close :: "'w cm_env \<Rightarrow> ('w cm \<Rightarrow> 'w cm) \<Rightarrow> int \<Rightarrow> 'w cm \<Rightarrow> (int
    \<times> 'w cm) outcome" where
  "iotx_cm_close env others fd c =
     (case close_enter fd c of
        (Some rc, c) \<Rightarrow> Done (rc, c)
      | (None, c) \<Rightarrow> let c = (if close_may_go_on c then c else others c)
          in if close_may_go_on c then close_rest env fd c else Undefined)"

definition dm_client_close :: "'w dmodel_env \<Rightarrow> ('w cm \<Rightarrow> 'w cm) \<Rightarrow> 'w dm \<Rightarrow> (int \<times> 'w
    dm) option" where
  "dm_client_close env others d = on_cm (iotx_cm_close (dmc env) others (client_fd d)) d"

section \<open>Opening and closing\<close>

definition IOTX_DM_CLIENT_CONNECT_TIMEOUT_MS :: int where "IOTX_DM_CLIENT_CONNECT_TIMEOUT_MS = 10000"

definition iotx_dm_close :: "'w dmodel_env \<Rightarrow> ('w cm \<Rightarrow> 'w cm) \<Rightarrow> 'w dm \<Rightarrow> (int \<times> 'w
    dm) option" where
  "iotx_dm_close env others d = do {
     (_, d) \<leftarrow> dm_client_close env others d;
     Some (STATE_SUCCESS, d\<lparr>dm_table := snd (dm_mgr_deinit (dm_table d)), dm_queue := dm_ipc_deinit (dm_queue d),
       dm_cache := snd (dm_msg_cache_deinit (dm_cache d))\<rparr>) }"

text \<open>
  When a step fails before the table is there, the cleaning up goes through the list of the table, the head of which is
  zero or whose mutex is destroyed: undefined. A failure of the connection is cleaned up as by closing.
\<close>

definition iotx_dm_open :: "'w dmodel_env \<Rightarrow> ('w cm \<Rightarrow> 'w cm) \<Rightarrow> 'w dm \<Rightarrow> (int \<times> 'w
    dm) option" where
  "iotx_dm_open env others d =
     (let (ok, w) = HAL_MutexCreate (dmq env) (dm_world d)
      in if \<not> ok then Some (STATE_SYS_DEPEND_MUTEX_CREATE, set_dm_world w d)
         else let (res, c, w) = dm_msg_cache_init (dmq env) w
           in if res \<noteq> STATE_SUCCESS then None
              else let (res, q, w) = dm_ipc_init (dmq env) (int CONFIG_DISPATCH_QUEUE_MAXLEN) w
                in if res \<noteq> STATE_SUCCESS then None
                   else do {
                     (pk, dk) \<leftarrow> own_keys d;
                     let (res, m, w) = dm_mgr_init (dmq env) (sizeof_dev_node env) pk dk w;
                     (if res \<noteq> STATE_SUCCESS then None
                      else do {
                        (res, d) \<leftarrow> dm_client_open env (set_dm_world w (d\<lparr>dm_cache := c, dm_queue := q, dm_table :=
                            m\<rparr>));
                        (if res < STATE_SUCCESS then do { (_, d) \<leftarrow> iotx_dm_close env others d; Some (res, d) }
                         else Some (STATE_SUCCESS, d)) }) })"

text \<open>
  The callback of the context is code of the caller; the state of it is whether it is set. Opening clears it.
\<close>

definition iotx_dm_connect :: "'w dmodel_env \<Rightarrow> bool \<Rightarrow> bool \<times> 'w dm \<Rightarrow> (int \<times> bool
    \<times> 'w dm) option" where
  "iotx_dm_connect env init_cb = (\<lambda>(cb, d). do {
     let cb = (if init_cb then True else cb);
     (res, d) \<leftarrow> dm_client_connect env IOTX_DM_CLIENT_CONNECT_TIMEOUT_MS d;
     Some (if res \<noteq> STATE_SUCCESS then res else STATE_SUCCESS, cb, d) })"

section \<open>Topics\<close>

definition iotx_dm_subscribe :: "'w dmodel_env \<Rightarrow> int \<Rightarrow> 'w dm \<Rightarrow> (int \<times> 'w dm) option" where
  "iotx_dm_subscribe env devid d =
     (if devid < 0 then Some (STATE_USER_INPUT_INVALID, d)
      else do {
        (res, pkb, dkb, dsb) \<leftarrow> dm_mgr_search_device_by_devid devid (Some (replicate (IOTX_PRODUCT_KEY_LEN + 1) 0))
          (Some (replicate (IOTX_DEVICE_KEY_LEN + 1) 0)) (Some (replicate (IOTX_DEVICE_SECRET_LEN + 1) 0)) (dm_table d);
        (if res < STATE_SUCCESS then Some (res, d)
         else let (res, ty) = dm_mgr_get_dev_type devid (Some 0) (dm_table d)
           in if res < STATE_SUCCESS then Some (res, d)
              else do {
                pkb \<leftarrow> pkb; dkb \<leftarrow> dkb; ty \<leftarrow> ty;
                pk \<leftarrow> c_str pkb;
                dk \<leftarrow> c_str dkb;
                (res, d) \<leftarrow> dm_client_subscribe_all env devid pk dk ty d;
                Some (if res < STATE_SUCCESS then (res, d) else (STATE_SUCCESS, d)) }) })"

text \<open>The callback is set even when there is no topic. Three attempts, as \<open>sub_retry\<close>.\<close>

definition iotx_dm_subscribe_user_topic ::
  "'w dmodel_env \<Rightarrow> byte list option \<Rightarrow> nat option \<Rightarrow> 'w dm \<Rightarrow> (int \<times> 'w dm) option"
      where
  "iotx_dm_subscribe_user_topic env topic user_callback d = do {
     (pk, dk) \<leftarrow> own_keys d;
     (res, uri, d) \<leftarrow> service_uri env (Some DM_URI_SYS_PREFIX) topic pk dk d;
     let d = d\<lparr>g_user_topic_callback := user_callback\<rparr>;
     (if res < STATE_SUCCESS then Some (res, d)
      else sub_retry env IOTX_DM_CLIENT_SUB_RETRY_MAX_COUNTS uri (handler_number User_sub_request) (Some 0) (- 1) d) }"

section \<open>Work\<close>

definition iotx_dm_yield :: "int \<Rightarrow> 'w dm \<Rightarrow> (int \<times> 'w dm) option" where
  "iotx_dm_yield timeout_ms d =
     (if timeout_ms \<le> 0 then Some (STATE_USER_INPUT_INVALID, d)
      else do { (_, d) \<leftarrow> dm_client_yield (word_of_int timeout_ms) d; Some (STATE_SUCCESS, d) })"

definition iotx_dm_set_opt :: "dm_opt_t \<Rightarrow> int option \<Rightarrow> dm_opt_ctx \<Rightarrow> int \<times> dm_opt_ctx" where
  "iotx_dm_set_opt opt data g = dm_opt_set opt data g"

abbreviation (input) STATE_USER_INPUT_NULL_POINTER :: int where "STATE_USER_INPUT_NULL_POINTER \<equiv> - 0x101"

definition iotx_dm_get_opt :: "dm_opt_t \<Rightarrow> int option \<Rightarrow> dm_opt_ctx \<Rightarrow> int \<times> int option" where
  "iotx_dm_get_opt opt data g = (if data = None then (STATE_USER_INPUT_NULL_POINTER, data) else dm_opt_get opt data g)"

section \<open>Data of a device\<close>

definition iotx_dm_post_rawdata :: "'w dmodel_env \<Rightarrow> int \<Rightarrow> byte list option \<Rightarrow> int \<Rightarrow> 'w dm
    \<Rightarrow> (int \<times> 'w dm) option" where
  "iotx_dm_post_rawdata env devid pl pl_len d = dm_mgr_upstream_thing_model_up_raw env devid pl pl_len d"

definition iotx_dm_upstream_common ::
  "'w dmodel_env \<Rightarrow> int \<Rightarrow> byte list option \<Rightarrow> int \<Rightarrow> byte list option \<Rightarrow> 'w dm
      \<Rightarrow> (int \<times> 'w dm) option" where
  "iotx_dm_upstream_common env devid pl pl_len method d = dm_mgr_upstream_common env devid pl pl_len method d"

definition iotx_dm_resume_measurepoint ::
  "'w dmodel_env \<Rightarrow> int \<Rightarrow> byte list option \<Rightarrow> int \<Rightarrow> 'w dm \<Rightarrow> (int \<times> 'w
      dm) option" where
  "iotx_dm_resume_measurepoint env devid pl pl_len d = dm_mgr_upstream_thing_measurepoint_resume env devid pl pl_len d"

definition method_fmt :: "byte list" where "method_fmt = ascii ''thing.event.%.*s.post''"

text \<open>The identifier is memory; its string sizes the block, its length cuts what is printed.\<close>

definition iotx_dm_post_event ::
  "'w dmodel_env \<Rightarrow> int \<Rightarrow> byte list option \<Rightarrow> int \<Rightarrow> byte list option \<Rightarrow> int
      \<Rightarrow> 'w dm \<Rightarrow> (int \<times> 'w dm) option" where
  "iotx_dm_post_event env devid identifier identifier_len pl pl_len d =
     (case identifier of
        None \<Rightarrow> Some (STATE_USER_INPUT_INVALID, d)
      | Some mem \<Rightarrow>
          if devid < 0 \<or> identifier_len = 0 \<or> pl = None \<or> pl_len \<le> 0 then Some (STATE_USER_INPUT_INVALID, d)
          else do {
            ident \<leftarrow> c_str mem;
            let method_len = length method_fmt + length ident + 1;
            let (ok, d) = dm_malloc env (int method_len) d;
            (if \<not> ok then Some (STATE_SYS_DEPEND_MALLOC, d)
             else do {
               text \<leftarrow> c_format method_fmt [ArgN identifier_len identifier];
               dm_mgr_upstream_thing_event_post env devid identifier identifier_len (Some (snprintf method_len text)) pl pl_len d }) })"

definition iotx_dm_send_measurepoint_set_response ::
  "'w dmodel_env \<Rightarrow> int \<Rightarrow> byte list option \<Rightarrow> int \<Rightarrow> int \<Rightarrow> byte list option
      \<Rightarrow> int \<Rightarrow> bool \<Rightarrow> 'w dm \<Rightarrow> (int \<times> 'w dm) option" where
  "iotx_dm_send_measurepoint_set_response = dm_mgr_upstream_thing_measurepoint_set_response"

definition iotx_dm_send_service_invoke_response ::
  "'w dmodel_env \<Rightarrow> int \<Rightarrow> byte list option \<Rightarrow> int \<Rightarrow> int \<Rightarrow> byte list option
      \<Rightarrow> int \<Rightarrow> byte list option \<Rightarrow> int \<Rightarrow> bool \<Rightarrow>
   'w dm \<Rightarrow> (int \<times> 'w dm) option" where
  "iotx_dm_send_service_invoke_response = dm_mgr_upstream_thing_service_invoke_response"

section \<open>Sub-devices\<close>

definition iotx_dm_subdev_query :: "byte list \<Rightarrow> byte list \<Rightarrow> int option \<Rightarrow> 'w dm \<Rightarrow> int
    \<times> int option" where
  "iotx_dm_subdev_query pk dk devid d = dm_mgr_device_query pk dk devid (dm_table d)"

definition iotx_dm_subdev_create ::
  "'w dmodel_env \<Rightarrow> byte list option \<Rightarrow> byte list option \<Rightarrow> byte list option \<Rightarrow> byte list
      option \<Rightarrow> int option \<Rightarrow> 'w dm \<Rightarrow>
   int \<times> int option \<times> 'w dm" where
  "iotx_dm_subdev_create env pk ps dk ds devid d =
     (let (res, out, m, w) = dm_mgr_device_create (dmq env) (sizeof_dev_node env) IOTX_DM_DEVICE_SUBDEV pk ps dk ds devid
            (dm_table d) (dm_world d)
      in (res, out, set_dm_world w (d\<lparr>dm_table := m\<rparr>)))"

text \<open>The result of the destruction is dropped.\<close>

definition iotx_dm_subdev_destroy :: "'w dmodel_env \<Rightarrow> int \<Rightarrow> 'w dm \<Rightarrow> (int \<times> 'w dm) option" where
  "iotx_dm_subdev_destroy env devid d = do { (_, d) \<leftarrow> dm_mgr_device_destroy env devid d; Some (STATE_SUCCESS, d) }"

definition iotx_dm_subdev_number :: "'w dm \<Rightarrow> int" where
  "iotx_dm_subdev_number d = dm_mgr_device_number (dm_table d)"

text \<open>A device that has a secret is not registered again.\<close>

definition iotx_dm_subdev_register :: "'w dmodel_env \<Rightarrow> int \<Rightarrow> 'w dm \<Rightarrow> (int \<times> 'w dm) option" where
  "iotx_dm_subdev_register env devid d =
     (case dm_mgr_search_device_node_by_devid devid (dm_table d) of
        (res, None) \<Rightarrow> Some (res, d)
      | (res, Some n) \<Rightarrow>
          if length (dn_device_secret n) > 0 \<and> length (dn_device_secret n) < IOTX_DEVICE_SECRET_LEN + 1
          then Some (STATE_SUCCESS, d)
          else dm_mgr_upstream_thing_device_register env devid d)"

definition checked_devid :: "int \<Rightarrow> ('w dm \<Rightarrow> (int \<times> 'w dm) option) \<Rightarrow> 'w dm \<Rightarrow> (int
    \<times> 'w dm) option" where
  "checked_devid devid f d = (if devid < 0 then Some (STATE_USER_INPUT_INVALID, d) else f d)"

definition iotx_dm_subdev_topo_add :: "'w dmodel_env \<Rightarrow> int \<Rightarrow> 'w dm \<Rightarrow> (int \<times> 'w dm) option" where
  "iotx_dm_subdev_topo_add env devid = checked_devid devid (dm_mgr_upstream_thing_topo_add env devid)"

definition iotx_dm_subdev_topo_del :: "'w dmodel_env \<Rightarrow> int \<Rightarrow> 'w dm \<Rightarrow> (int \<times> 'w dm) option" where
  "iotx_dm_subdev_topo_del env devid = checked_devid devid (dm_mgr_upstream_thing_topo_delete env devid)"

definition iotx_dm_topo_get :: "'w dmodel_env \<Rightarrow> 'w dm \<Rightarrow> (int \<times> 'w dm) option" where
  "iotx_dm_topo_get env d = dm_mgr_upstream_thing_topo_get env d"

definition iotx_dm_subdev_login :: "'w dmodel_env \<Rightarrow> int \<Rightarrow> 'w dm \<Rightarrow> (int \<times> 'w dm) option" where
  "iotx_dm_subdev_login env devid = checked_devid devid (dm_mgr_upstream_combine_login env devid)"

definition iotx_dm_subdev_login_batch ::
  "'w dmodel_env \<Rightarrow> device_credential \<Rightarrow> int \<Rightarrow> int list \<Rightarrow> 'w dm \<Rightarrow> (int \<times>
      'w dm) option" where
  "iotx_dm_subdev_login_batch env junk devid sub_devids =
     checked_devid devid (dm_mgr_upstream_combine_login_batch env junk devid sub_devids)"

definition iotx_dm_subdev_logout :: "'w dmodel_env \<Rightarrow> int \<Rightarrow> 'w dm \<Rightarrow> (int \<times> 'w dm) option" where
  "iotx_dm_subdev_logout env devid = checked_devid devid (dm_mgr_upstream_combine_logout env devid)"

definition iotx_dm_get_device_type :: "int \<Rightarrow> int option \<Rightarrow> 'w dm \<Rightarrow> int \<times> int option" where
  "iotx_dm_get_device_type devid type d =
     (if devid < 0 \<or> type = None then (STATE_USER_INPUT_INVALID, type) else dm_mgr_get_dev_type devid type (dm_table d))"

definition iotx_dm_get_device_avail_status :: "int \<Rightarrow> dev_avail option \<Rightarrow> 'w dm \<Rightarrow> (int \<times>
    dev_avail option) option" where
  "iotx_dm_get_device_avail_status devid status d =
     (if devid < 0 \<or> status = None then Some (STATE_USER_INPUT_INVALID, status)
      else do {
        (res, pkb, dkb, dsb) \<leftarrow> dm_mgr_search_device_by_devid devid (Some (replicate (IOTX_PRODUCT_KEY_LEN + 1) 0))
          (Some (replicate (IOTX_DEVICE_KEY_LEN + 1) 0)) (Some (replicate (IOTX_DEVICE_SECRET_LEN + 1) 0)) (dm_table d);
        (if res \<noteq> STATE_SUCCESS then Some (res, status)
         else do {
           pkb \<leftarrow> pkb; dkb \<leftarrow> dkb;
           pk \<leftarrow> c_str pkb;
           dk \<leftarrow> c_str dkb;
           Some (dm_mgr_get_dev_avail (Some pk) (Some dk) status (dm_table d)) }) })"

definition iotx_dm_get_device_status :: "int \<Rightarrow> dev_status option \<Rightarrow> 'w dm \<Rightarrow> int \<times> dev_status
    option" where
  "iotx_dm_get_device_status devid status d =
     (if devid < 0 \<or> status = None then (STATE_USER_INPUT_INVALID, status) else dm_mgr_get_dev_status devid status (dm_table d))"

end
