(* ===== verification/DmKept.thy ===== *)
theory DmKept
  imports DmApi DmText "HOL-Library.Sublist"
begin

text \<open>
  The device model stays well formed (\<^verbatim>\<open>src/src/dev_model/\<close>): every handler of a message from the cloud and
  every function of the interface keeps the invariants of the device table, of the queue to the user and of the
  connectivity manager. The lemmas in the collection \<open>moves\<close> go through the operations one by one.
\<close>

section \<open>What a step may do\<close>

text \<open>The table, the queue and the connectivity manager are well formed.\<close>

definition dm_ok :: "'w dm \<Rightarrow> bool" where
  "dm_ok d \<longleftrightarrow> mgr_ok (dm_table d) \<and> ipc_ok (dm_queue d) \<and> table_ok (dm_cm d)"

text \<open>
  From \<open>d\<close> to \<open>d'\<close>, when \<open>d\<close> is well formed, so is \<open>d'\<close>; the connection and its
      client stay, identifiers of devices are not reused,
  and messages to the user are only added behind the others.
\<close>

definition dm_moves :: "'w dm \<Rightarrow> 'w dm \<Rightarrow> bool" where
  "dm_moves d d' \<longleftrightarrow> (dm_ok d \<longrightarrow>
     dm_ok d' \<and> calm (dm_cm d) (dm_cm d') \<and> client_fd d' = client_fd d
     \<and> global_devid (dm_table d) \<le> global_devid (dm_table d')
     \<and> prefix (message_list (dm_queue d)) (message_list (dm_queue d')) \<and> ipc_max_size (dm_queue d') = ipc_max_size (dm_queue d))"

lemma dm_moves_refl: "dm_moves d d"
  by (simp add: dm_moves_def)

lemma dm_moves_trans: "dm_moves d d' \<Longrightarrow> dm_moves d' d'' \<Longrightarrow> dm_moves d d''"
  by (auto simp: dm_moves_def intro: calm_trans)

named_theorems moves

lemma moves_world [moves]: "dm_moves d0 d \<Longrightarrow> dm_moves d0 (set_dm_world w d)"
  by (rule dm_moves_trans) (auto simp: dm_moves_def set_dm_world_def dm_ok_def intro: table_ok_calm [OF calm_on_world])

lemma moves_cache [moves]: "dm_moves d0 d \<Longrightarrow> dm_moves d0 (d\<lparr>dm_cache := c\<rparr>)"
  by (simp add: dm_moves_def dm_ok_def)

lemma moves_number [moves]: "dm_moves d0 d \<Longrightarrow> (\<And>mid d'. dm_moves d0 d' \<Longrightarrow> Q mid d') \<Longrightarrow>
    case iotx_report_id d of (mid, d') \<Rightarrow> Q mid d'"
  by (simp add: dm_moves_def dm_ok_def iotx_report_id_def)

lemma moves_malloc [moves]: "dm_moves d0 d \<Longrightarrow> (\<And>ok d'. dm_moves d0 d' \<Longrightarrow> Q ok d') \<Longrightarrow>
    case dm_malloc env n d of (ok, d') \<Rightarrow> Q ok d'"
  by (auto simp: dm_malloc_def Let_def split: prod.split intro: moves_world)

lemma moves_timestamp [moves]:
  "dm_moves d0 d \<Longrightarrow> (\<And>t d'. dm_moves d0 d' \<Longrightarrow> Q t d') \<Longrightarrow> case timestamp_now env d of
      (t, d') \<Rightarrow> Q t d'"
  by (auto simp: timestamp_now_def Let_def split: prod.split intro: moves_world)

text \<open>The table.\<close>

lemma moves_table:
  assumes "dm_moves d0 d" "mgr_ok (dm_table d) \<Longrightarrow> mgr_ok m \<and> global_devid (dm_table d) \<le> global_devid m"
  shows "dm_moves d0 (d\<lparr>dm_table := m\<rparr>)"
  by (rule dm_moves_trans [OF assms(1)]) (use assms(2) in \<open>auto simp: dm_moves_def dm_ok_def\<close>)

lemma moves_create [moves]:
  assumes "dm_moves d0 d" "\<And>res out m w. dm_moves d0 (d\<lparr>dm_table := m\<rparr>) \<Longrightarrow> Q res out m w"
  shows "case dm_mgr_device_create hal sz ty pk ps dk ds out (dm_table d) w of (res, out, m, w) \<Rightarrow> Q res out m w"
proof -
  obtain res out' m w' where c: "dm_mgr_device_create hal sz ty pk ps dk ds out (dm_table d) w = (res, out', m, w')" by (metis prod_cases4)
  have "dm_moves d0 (d\<lparr>dm_table := m\<rparr>)"
    by (rule moves_table [OF assms(1)]) (use table_do_ok [of "dm_table d" hal sz "table_op.Create ty pk ps dk ds out" w] c in auto)
  then show ?thesis using assms(2) c by simp
qed

lemma moves_take_out [moves]:
  assumes "dm_moves d0 d" "\<And>res n m. dm_moves d0 (d\<lparr>dm_table := m\<rparr>) \<Longrightarrow> Q res n m"
  shows "case device_take_out devid (dm_table d) of (res, n, m) \<Rightarrow> Q res n m"
proof -
  obtain res n m where c: "device_take_out devid (dm_table d) = (res, n, m)" by (metis prod_cases3)
  have "dm_moves d0 (d\<lparr>dm_table := m\<rparr>)"
    by (rule moves_table [OF assms(1)]) (use table_do_ok [of "dm_table d" _ _ "table_op.Destroy devid"] c in force)
  then show ?thesis using assms(2) c by simp
qed

lemma moves_setters [moves]:
  assumes "dm_moves d0 d"
  shows "dm_moves d0 (snd (on_table (dm_mgr_set_dev_enable devid) d))" "dm_moves d0 (snd (on_table (dm_mgr_set_dev_disable devid) d))"
    "dm_moves d0 (snd (on_table (dm_mgr_set_dev_status devid st) d))" "dm_moves d0 (snd (on_table (dm_mgr_set_device_secret devid ds) d))"
  using assms setters_ok
  by (auto simp: on_table_def split_beta Let_def intro!: moves_table)

text \<open>The queue.\<close>

lemma moves_queue:
  assumes "dm_moves d0 d" "ipc_ok (dm_queue d) \<Longrightarrow> ipc_ok q \<and> prefix (message_list (dm_queue d)) (message_list q)
      \<and> ipc_max_size q = ipc_max_size (dm_queue d)"
  shows "dm_moves d0 (d\<lparr>dm_queue := q\<rparr>)"
  by (rule dm_moves_trans [OF assms(1)]) (use assms(2) in \<open>auto simp: dm_moves_def dm_ok_def\<close>)

lemma send_keeps:
  assumes "dm_msg_send_to_user hal ty text q w = (res, q', w')" "ipc_ok q"
  shows "ipc_ok q' \<and> prefix (message_list q) (message_list q') \<and> ipc_max_size q' = ipc_max_size q"
proof -
  have "ipc_ok q1 \<and> prefix (message_list q) (message_list q1) \<and> ipc_max_size q1 = ipc_max_size q"
    if "dm_ipc_msg_insert hal x q v = (r, q1, v')" for x v r q1 v'
    using ipc_insert_cases [of hal x q v] that assms(2) by (auto simp: ipc_ok_def prefix_def)
  with assms show ?thesis by (auto simp: dm_msg_send_to_user_def Let_def split: prod.splits if_splits)
qed

lemma moves_send [moves]:
  assumes "dm_moves d0 d" "\<And>res d'. dm_moves d0 d' \<Longrightarrow> Q res d'"
  shows "case send_to_user env ty text d of (res, d') \<Rightarrow> Q res d'"
proof -
  obtain res q w where s: "dm_msg_send_to_user (dmq env) ty text (dm_queue d) (dm_world d) = (res, q, w)" by (metis prod_cases3)
  have "dm_moves d0 (set_dm_world w (d\<lparr>dm_queue := q\<rparr>))"
    by (intro moves_world moves_queue [OF assms(1)] send_keeps [OF s])
  then show ?thesis using assms(2) by (simp add: send_to_user_def s)
qed

text \<open>The connectivity manager.\<close>

lemma moves_cm:
  assumes "dm_moves d0 d" "table_ok (dm_cm d) \<Longrightarrow> fine (\<lambda>(rc, c'). calm (dm_cm d) c') (f (dm_cm d))"
  shows "holds (on_cm f d) (\<lambda>x. dm_moves d0 (snd x))"
proof (rule holdsI)
  fix x assume "on_cm f d = Some x"
  then obtain rc c where c: "f (dm_cm d) = Done (rc, c)" "snd x = d\<lparr>dm_cm := c\<rparr>"
    by (auto simp: on_cm_def split: outcome.splits)
  have "dm_moves d (snd x)"
    using assms(2) c table_ok_calm [of "dm_cm d" c] by (auto simp: dm_moves_def dm_ok_def fine_def)
  with assms(1) show "dm_moves d0 (snd x)" by (rule dm_moves_trans)
qed

lemma moves_client [THEN holds_mono, moves]:
  assumes "dm_moves d0 d"
  shows "holds (dm_client_publish env uri pl n d) (\<lambda>x. dm_moves d0 (snd x))"
    "holds (dm_client_subscribe env uri cb ls d) (\<lambda>x. dm_moves d0 (snd x))"
    "holds (dm_client_unsubscribe env uri d) (\<lambda>x. dm_moves d0 (snd x))"
  unfolding dm_client_publish_def dm_client_subscribe_def dm_client_unsubscribe_def Let_def
  by (rule moves_cm [OF assms]; erule use_fine)+

section \<open>Every operation\<close>

lemma holds_sum [simp]:
  "holds (case z of Inl a \<Rightarrow> f a | Inr b \<Rightarrow> g b) P = (case z of Inl a \<Rightarrow> holds (f a) P | Inr b
      \<Rightarrow> holds (g b) P)"
  by (cases z) simp_all

text \<open>What only reads.\<close>

lemmas readers [moves] = holds_any [where m = "c_format f a" for f a] holds_any [where m = "c_str b" for b]
  holds_any [where m = "atoi b" for b] holds_any [where m = "mem_copy a n b" for a n b]
  holds_any [where m = "item_string n i" for n i] holds_any [where m = "item_number n i" for n i]
  holds_any [where m = "json_item e l k" for e l k] holds_any [where m = "json_element e l k" for e l k]
  holds_any [where m = "lite_cjson_parse fl p n l" for fl p n l] holds_any [where m = "cj_value l" for l]
  holds_any [where m = "json_payload e n f a" for e n f a] holds_any [where m = "put_at_end a b" for a b]
  holds_any [where m = "named_device e l d" for e l d] holds_any [where m = "asked_for r d" for r d]
  holds_any [where m = "source_keys t" for t] holds_any [where m = "topic_keys n m t" for n m t]
  holds_any [where m = "dm_utils_memtok a n c i z" for a n c i z]
  holds_any [where m = "dm_msg_request_parse e p n" for e p n] holds_any [where m = "dm_msg_response_parse e p n" for e p n]
  holds_any [where m = "own_keys d" for d] holds_any [where m = "credentials ds j m" for ds j m]

lemmas readers' [moves] = holds_any [where m = "dm_utils_service_name h p n pk dk u w" for h p n pk dk u w]

lemma moves_uri [THEN holds_mono, moves]:
  assumes "dm_moves d0 d"
  shows "holds (service_uri env pfx name pk dk d) (\<lambda>x. dm_moves d0 (snd (snd x)))"
  using assms by (auto simp: service_uri_def Let_def split: option.split intro!: moves)

lemma moves_tell [THEN holds_mono, moves]:
  assumes "dm_moves d0 d"
  shows "holds (tell_user env no_memory on_fail type fmt extra args d) (\<lambda>x. dm_moves d0 (snd x))"
  using assms by (auto simp: tell_user_def Let_def intro!: moves del: case_prodI2)

lemma moves_request [THEN holds_mono, moves]:
  assumes "dm_moves d0 d"
  shows "holds (dm_msg_request env type r d) (\<lambda>x. dm_moves d0 (snd x))"
  using assms by (auto simp: dm_msg_request_def Let_def split: option.split intro!: moves del: case_prodI2)

lemma moves_response [THEN holds_mono, moves]:
  assumes "dm_moves d0 d"
  shows "holds (dm_msg_response env type reqid r data n d) (\<lambda>x. dm_moves d0 (snd x))"
  using assms by (auto simp: dm_msg_response_def Let_def intro!: moves del: case_prodI2)

lemma pair_readers [moves]:
  "(\<And>res x. Q res x) \<Longrightarrow> case find_devid pk dk d of (res, x) \<Rightarrow> Q res x"
  "(\<And>res x. R res x) \<Longrightarrow> case the_dm_opt opt d of (res, x) \<Rightarrow> R res x"
  by (auto split: prod.split)

lemmas readers'' [moves] = holds_any [where m = "dm_utils_hex_to_str h p n u w" for h p n u w]

lemma moves_user_sub [THEN holds_mono, moves]:
  assumes "dm_moves d0 d"
  shows "holds (dm_msg_thing_model_user_sub env pk dk pl n d) (\<lambda>x. dm_moves d0 (snd x))"
  using assms by (auto simp: dm_msg_thing_model_user_sub_def Let_def split: option.split intro!: moves del: case_prodI2)

lemma moves_raw [THEN holds_mono, moves]:
  assumes "dm_moves d0 d"
  shows "holds (raw_to_user env type pk dk pl n d) (\<lambda>x. dm_moves d0 (snd x))"
  using assms by (auto simp: raw_to_user_def Let_def split: option.split intro: holds_any intro!: moves del: case_prodI2)

lemma moves_requests [THEN holds_mono, moves]:
  assumes "dm_moves d0 d"
  shows "holds (dm_msg_measurepoint_set env devid rq d) (\<lambda>x. dm_moves d0 (snd x))"
    "holds (dm_msg_thing_service_invoke env pk dk ident n rq ctxt d) (\<lambda>x. dm_moves d0 (snd x))"
  using assms by (auto simp: dm_msg_measurepoint_set_def dm_msg_thing_service_invoke_def Let_def intro!: moves del: case_prodI2)

lemma moves_thing_reply [THEN holds_mono, moves]:
  assumes "dm_moves d0 d"
  shows "holds (dm_msg_thing_reply env ident n rs d) (\<lambda>x. dm_moves d0 (snd x))"
    "holds (dm_msg_thing_sub_unregister_reply env rs d) (\<lambda>x. dm_moves d0 (snd x))"
    "holds (topo_reply env type rs d) (\<lambda>x. dm_moves d0 (snd x))"
    "holds (dm_msg_topo_get_reply env rs d) (\<lambda>x. dm_moves d0 (snd x))"
  using assms by (auto simp: dm_msg_thing_reply_def dm_msg_thing_sub_unregister_reply_def topo_reply_def dm_msg_topo_get_reply_def
      Let_def split: option.split intro!: moves del: case_prodI2)

lemma moves_combine_reply [THEN holds_mono, moves]:
  assumes "dm_moves d0 d"
  shows "holds (combine_reply env st type rs d) (\<lambda>x. dm_moves d0 (snd x))"
  using assms by (auto simp: combine_reply_def Let_def split: sum.split intro!: moves del: case_prodI2)

lemma moves_setter_pairs [moves]:
  assumes "dm_moves d0 d" "\<And>res d'. dm_moves d0 d' \<Longrightarrow> Q res d'"
  shows "case on_table (dm_mgr_set_dev_enable devid) d of (res, d') \<Rightarrow> Q res d'"
    "case on_table (dm_mgr_set_dev_disable devid) d of (res, d') \<Rightarrow> Q res d'"
    "case on_table (dm_mgr_set_device_secret devid ds) d of (res, d') \<Rightarrow> Q res d'"
  using assms(2) moves_setters [OF assms(1)] by (auto simp: split_beta)

lemma moves_sub_retry [THEN holds_mono, moves]:
  assumes "dm_moves d0 d"
  shows "holds (sub_retry env k uri cb ls res d) (\<lambda>x. dm_moves d0 (snd x))"
  using assms by (induction k arbitrary: res d) (auto intro!: moves del: case_prodI2)

lemma moves_entries [THEN holds_mono, moves]:
  assumes "dm_moves d0 d"
  shows "holds (subscribe_entries env pk dk ty es d) (\<lambda>x. dm_moves d0 x)"
  using assms by (induction es arbitrary: d) (auto intro!: moves del: case_prodI2)

lemma moves_unsubscribe_loop [THEN holds_mono, moves]:
  assumes "dm_moves d0 d"
  shows "holds (unsubscribe_loop env pk dk es d) (\<lambda>x. dm_moves d0 x)"
proof (rule holdsI)
  fix d' assume run: "unsubscribe_loop env pk dk es d = Some d'"
  have "dm_moves d0 d \<longrightarrow> dm_moves d0 d'"
  proof (rule unsubscribe_loop.raw_induct [where P = "\<lambda>env pk dk es d d'. dm_moves d0 d \<longrightarrow> dm_moves d0 d'", OF _
      run])
    fix loop env pk dk es d d'
    assume IH: "\<And>env pk dk es d d'. loop env pk dk es d = Some d' \<Longrightarrow> dm_moves d0 d \<longrightarrow> dm_moves d0 d'"
      and step: "(case es of [] \<Rightarrow> Some d
        | e # es' \<Rightarrow>
          if uri_dev_type e AND IOTX_DM_DEVICE_SUBDEV = 0 then loop env pk dk es' d
          else do {
            (res, uri, d) \<leftarrow> service_uri env (Some (uri_prefix e)) (Some (uri_name e)) pk dk d;
            (if res < STATE_SUCCESS then loop env pk dk es d
             else do {
               (_, d) \<leftarrow> dm_client_unsubscribe env uri d;
               loop env pk dk es' d }) }) = Some d'"
    have loop [moves]: "dm_moves d0 d \<Longrightarrow> (\<And>x. dm_moves d0 x \<Longrightarrow> Q x) \<Longrightarrow> holds (loop env
        pk dk es d) Q" for env pk dk es d Q
      using IH by (auto simp: holds_def)
    have "dm_moves d0 d \<Longrightarrow> holds (case es of [] \<Rightarrow> Some d
        | e # es' \<Rightarrow>
          if uri_dev_type e AND IOTX_DM_DEVICE_SUBDEV = 0 then loop env pk dk es' d
          else do {
            (res, uri, d) \<leftarrow> service_uri env (Some (uri_prefix e)) (Some (uri_name e)) pk dk d;
            (if res < STATE_SUCCESS then loop env pk dk es d
             else do {
               (_, d) \<leftarrow> dm_client_unsubscribe env uri d;
               loop env pk dk es' d }) }) (dm_moves d0)"
      by (cases es) (auto intro!: moves loop del: case_prodI2)
    with step show "dm_moves d0 d \<longrightarrow> dm_moves d0 d'" by (auto simp: holds_def)
  qed
  with assms show "dm_moves d0 d'" by simp
qed

lemma moves_subscribe_filter [THEN holds_mono, moves]:
  assumes "dm_moves d0 d"
  shows "holds (dm_client_subscribe_filter env uri cb d) (\<lambda>x. dm_moves d0 (snd x))"
  using assms by (auto simp: dm_client_subscribe_filter_def Let_def intro!: moves del: case_prodI2)

lemma moves_subscribe_all [THEN holds_mono, moves]:
  assumes "dm_moves d0 d"
  shows "holds (dm_client_subscribe_all env devid pk dk ty d) (\<lambda>x. dm_moves d0 (snd x))"
  using assms by (auto simp: dm_client_subscribe_all_def Let_def intro!: moves del: case_prodI2)

lemma moves_destroy [THEN holds_mono, moves]:
  assumes "dm_moves d0 d"
  shows "holds (dm_mgr_device_destroy env devid d) (\<lambda>x. dm_moves d0 (snd x))"
  using assms by (auto simp: dm_mgr_device_destroy_def dm_client_subdev_unsubscribe_def Let_def split: option.split intro!: moves del:
      case_prodI2)

lemma moves_devices [THEN holds_mono, moves]:
  assumes "dm_moves d0 d"
  shows "holds (disable_device env type pk dk d) (\<lambda>x. dm_moves d0 (snd x))"
    "holds (enable_device env type pk dk d) (\<lambda>x. dm_moves d0 (snd x))"
    "holds (delete_device env type pk dk d) (\<lambda>x. dm_moves d0 (snd x))"
  using assms by (auto simp: disable_device_def enable_device_def delete_device_def Let_def intro!: moves del: case_prodI2)

lemma moves_register_item [THEN holds_mono, moves]:
  assumes "dm_moves d0 d"
  shows "holds (register_item env rs lite i secret d) (\<lambda>x. dm_moves d0 (snd x))"
  using assms by (auto simp: register_item_def Let_def intro!: holds_any [where ?'a = int] intro!: moves del: case_prodI2)

lemma moves_register_items [THEN holds_mono, moves]:
  assumes "dm_moves d0 d"
  shows "holds (register_items env rs lite k i secret d) (\<lambda>x. dm_moves d0 x)"
  using assms by (induction k arbitrary: i secret d) (auto intro!: moves del: case_prodI2)

lemma moves_list_devids:
  assumes "dm_moves d0 d" "\<And>devid d. dm_moves d0 d \<Longrightarrow> dm_moves d0 (found devid d)"
  shows "holds (list_devids env found lite n k i block d) (\<lambda>x. dm_moves d0 (snd x))"
  using assms(1)
proof (induction k arbitrary: i block d)
  case (Suc k)
  note IH [moves] = Suc.IH [THEN holds_mono]
  from Suc.prems show ?case
    by (auto simp: Let_def split: sum.split intro!: moves IH assms(2) del: case_prodI2)
qed simp

lemma moves_devids_block [THEN holds_mono, moves]:
  assumes "dm_moves d0 d"
  shows "holds (devids_block env lite d) (\<lambda>x. dm_moves d0 (snd x))"
  using assms by (auto simp: devids_block_def intro!: moves del: case_prodI2)

lemma moves_list [THEN holds_mono, moves]:
  assumes "dm_moves d0 d"
  shows "holds (list_devids env (\<lambda>devid d. if c then snd (on_table (dm_mgr_set_dev_status devid st) d) else d) lite n k i block d)
      (\<lambda>x. dm_moves d0 (snd x))"
    "holds (list_devids env (\<lambda>_ d. d) lite n k i block d) (\<lambda>x. dm_moves d0 (snd x))"
  by (rule moves_list_devids [OF assms]; simp add: moves)+

lemma moves_register_reply [THEN holds_mono, moves]:
  assumes "dm_moves d0 d"
  shows "holds (dm_msg_thing_device_register_reply env rs d) (\<lambda>x. dm_moves d0 (snd x))"
    "holds (dm_msg_combine_login_batch_reply env rs d) (\<lambda>x. dm_moves d0 (snd x))"
  using assms by (auto simp: dm_msg_thing_device_register_reply_def dm_msg_combine_login_batch_reply_def Let_def split: sum.split intro!:
      moves del: case_prodI2)

lemma moves_with_params [THEN holds_mono, moves]:
  assumes "dm_moves d0 d"
  shows "holds (with_params env method fmt extra args r d) (\<lambda>x. dm_moves d0 (snd (snd x)))"
  using assms by (auto simp: with_params_def Let_def intro!: moves del: case_prodI2)

lemma moves_sign [THEN holds_mono, moves]:
  assumes "dm_moves d0 d"
  shows "holds (device_sign env cid pk dk ds ts d) (\<lambda>x. dm_moves d0 (snd x))"
  using assms by (auto simp: device_sign_def Let_def intro!: moves del: case_prodI2)

lemma moves_params [THEN holds_mono, moves]:
  assumes "dm_moves d0 d"
  shows "holds (dm_msg_thing_device_register env pk dk r d) (\<lambda>x. dm_moves d0 (snd (snd x)))"
    "holds (dm_msg_thing_topo_add env pk dk ds r d) (\<lambda>x. dm_moves d0 (snd (snd x)))"
    "holds (dm_msg_thing_topo_delete env pk dk r d) (\<lambda>x. dm_moves d0 (snd (snd x)))"
    "holds (dm_msg_thing_topo_get env r d) (\<lambda>x. dm_moves d0 (snd (snd x)))"
    "holds (dm_msg_combine_login env pk dk ds r d) (\<lambda>x. dm_moves d0 (snd (snd x)))"
    "holds (dm_msg_combine_logout env pk dk r d) (\<lambda>x. dm_moves d0 (snd (snd x)))"
  using assms by (auto simp: dm_msg_thing_device_register_def dm_msg_thing_topo_add_def dm_msg_thing_topo_delete_def
      dm_msg_thing_topo_get_def dm_msg_combine_login_def dm_msg_combine_logout_def Let_def split: option.split intro!: moves del:
      case_prodI2)

lemma moves_batch_params [THEN holds_mono, moves]:
  assumes "dm_moves d0 d"
  shows "holds (batch_params env cid ts cs block d) (\<lambda>x. dm_moves d0 (snd x))"
  using assms by (induction cs arbitrary: block d) (auto split: option.split intro!: moves del: case_prodI2)

lemma moves_batch [THEN holds_mono, moves]:
  assumes "dm_moves d0 d"
  shows "holds (dm_msg_combine_login_batch env cs r d) (\<lambda>x. dm_moves d0 (snd (snd x)))"
  using assms by (auto simp: dm_msg_combine_login_batch_def Let_def split: sum.split intro!: moves del: case_prodI2)

lemma moves_incoming [THEN holds_mono, moves]:
  assumes "dm_moves d0 d"
  shows "holds (dm_msg_proc_thing_model_down_raw env topic pl n d) (\<lambda>x. dm_moves d0 (snd x))"
    "holds (dm_msg_proc_thing_model_up_raw_reply env topic pl n d) (\<lambda>x. dm_moves d0 (snd x))"
    "holds (dm_msg_proc_thing_model_user_sub env topic pl n d) (\<lambda>x. dm_moves d0 (snd x))"
    "holds (dm_msg_proc_thing_measurepoint_set env name topic pl n d) (\<lambda>x. dm_moves d0 (snd x))"
    "holds (dm_msg_proc_thing_service_invoke env topic pl n d) (\<lambda>x. dm_moves d0 (snd x))"
  using assms by (auto simp: dm_msg_proc_thing_model_down_raw_def dm_msg_proc_thing_model_up_raw_reply_def
      dm_msg_proc_thing_model_user_sub_def dm_msg_proc_thing_measurepoint_set_def dm_msg_proc_thing_service_invoke_def
      dm_msg_thing_model_down_raw_def dm_msg_thing_model_up_raw_reply_def Let_def split: sum.split intro!: holds_any [where ?'a = int]
      intro!: moves del: case_prodI2)

lemma moves_forget [THEN holds_mono, moves]:
  assumes "dm_moves d0 d"
  shows "holds (forget_request rs d) (\<lambda>x. dm_moves d0 (snd x))"
  using assms by (auto simp: forget_request_def intro!: moves del: case_prodI2)

lemma moves_proc:
  assumes "dm_moves d0 d"
  shows "(\<And>pk dk d. dm_moves d0 d \<Longrightarrow> holds (act env pk dk d) (\<lambda>x. dm_moves d0 (snd x))) \<Longrightarrow>
      holds (proc_thing act env name topic pl n d) (\<lambda>x. dm_moves d0 (snd x))"
    "(\<And>pk dk d. dm_moves d0 d \<Longrightarrow> holds (act env pk dk d) (\<lambda>x. dm_moves d0 (snd x))) \<Longrightarrow>
      holds (proc_combine act env name topic pl n d) (\<lambda>x. dm_moves d0 (snd x))"
    "(\<And>rs d. dm_moves d0 d \<Longrightarrow> holds (reply env rs d) (\<lambda>x. dm_moves d0 (snd x))) \<Longrightarrow>
      holds (proc_reply reply env pl n d) (\<lambda>x. dm_moves d0 (snd x))"
proof -
  assume act: "\<And>pk dk d. dm_moves d0 d \<Longrightarrow> holds (act env pk dk d) (\<lambda>x. dm_moves d0 (snd x))"
  show "holds (proc_thing act env name topic pl n d) (\<lambda>x. dm_moves d0 (snd x))"
    "holds (proc_combine act env name topic pl n d) (\<lambda>x. dm_moves d0 (snd x))"
    using assms by (auto simp: proc_thing_def proc_combine_def split: sum.split intro!: moves act [THEN holds_mono] del: case_prodI2)
next
  assume reply: "\<And>rs d. dm_moves d0 d \<Longrightarrow> holds (reply env rs d) (\<lambda>x. dm_moves d0 (snd x))"
  show "holds (proc_reply reply env pl n d) (\<lambda>x. dm_moves d0 (snd x))"
    using assms by (auto simp: proc_reply_def split: sum.split intro!: moves reply [THEN holds_mono] del: case_prodI2)
qed

lemmas moves_procs [moves] = moves_proc [THEN holds_mono]

lemmas device_ops =
  dm_msg_thing_disable_def dm_msg_proc_thing_disable_def dm_msg_thing_enable_def dm_msg_proc_thing_enable_def dm_msg_thing_delete_def
      dm_msg_proc_thing_delete_def dm_msg_combine_disable_def dm_msg_proc_combine_disable_def dm_msg_combine_enable_def
      dm_msg_proc_combine_enable_def dm_msg_combine_delete_def dm_msg_proc_combine_delete_def

lemmas reply_ops =
  dm_msg_proc_thing_reply_def dm_msg_proc_thing_device_register_reply_def dm_msg_proc_thing_topo_add_reply_def
      dm_msg_proc_thing_topo_delete_reply_def dm_msg_proc_thing_topo_get_reply_def dm_msg_proc_combine_login_reply_def
      dm_msg_proc_combine_login_batch_reply_def dm_msg_proc_combine_logout_reply_def dm_msg_thing_topo_add_reply_def
      dm_msg_thing_topo_delete_reply_def
  dm_msg_combine_login_reply_def dm_msg_combine_logout_reply_def

lemma moves_procs2 [THEN holds_mono, moves]:
  assumes "dm_moves d0 d"
  shows "holds (dm_msg_proc_thing_disable env name topic pl n d) (\<lambda>x. dm_moves d0 (snd x))"
    "holds (dm_msg_proc_thing_enable env name topic pl n d) (\<lambda>x. dm_moves d0 (snd x))"
    "holds (dm_msg_proc_thing_delete env name topic pl n d) (\<lambda>x. dm_moves d0 (snd x))"
    "holds (dm_msg_proc_combine_disable env name topic pl n d) (\<lambda>x. dm_moves d0 (snd x))"
    "holds (dm_msg_proc_combine_enable env name topic pl n d) (\<lambda>x. dm_moves d0 (snd x))"
    "holds (dm_msg_proc_combine_delete env name topic pl n d) (\<lambda>x. dm_moves d0 (snd x))"
  using assms by (auto simp:  Let_def device_ops intro!: moves del: case_prodI2)

lemma moves_replies [THEN holds_mono, moves]:
  assumes "dm_moves d0 d"
  shows "holds (dm_msg_proc_thing_reply env topic pl n d) (\<lambda>x. dm_moves d0 (snd x))"
    "holds (dm_msg_proc_thing_device_register_reply env pl n d) (\<lambda>x. dm_moves d0 (snd x))"
    "holds (dm_msg_proc_thing_topo_add_reply env pl n d) (\<lambda>x. dm_moves d0 (snd x))"
    "holds (dm_msg_proc_thing_topo_delete_reply env pl n d) (\<lambda>x. dm_moves d0 (snd x))"
    "holds (dm_msg_proc_thing_topo_get_reply env pl n d) (\<lambda>x. dm_moves d0 (snd x))"
    "holds (dm_msg_proc_combine_login_reply env pl n d) (\<lambda>x. dm_moves d0 (snd x))"
    "holds (dm_msg_proc_combine_login_batch_reply env pl n d) (\<lambda>x. dm_moves d0 (snd x))"
    "holds (dm_msg_proc_combine_logout_reply env pl n d) (\<lambda>x. dm_moves d0 (snd x))"
  using assms by (auto simp:  Let_def reply_ops intro!: holds_any [where ?'a = int] intro!: moves del: case_prodI2)

lemma moves_respond [THEN holds_mono, moves]:
  assumes "dm_moves d0 (snd r)"
  shows "holds (respond env r) (\<lambda>x. dm_moves d0 x)"
  using assms by (auto simp: respond_def split: prod.splits sum.splits intro!: moves del: case_prodI2)

lemma moves_handlers [THEN holds_mono, moves]:
  assumes "dm_moves d0 d"
  shows "holds (dm_client_thing_measurepoint_set env topic pl n d) (\<lambda>x. dm_moves d0 (x))"
    "holds (dm_client_thing_disable env topic pl n d) (\<lambda>x. dm_moves d0 (x))"
    "holds (dm_client_thing_enable env topic pl n d) (\<lambda>x. dm_moves d0 (x))"
    "holds (dm_client_thing_delete env topic pl n d) (\<lambda>x. dm_moves d0 (x))"
    "holds (dm_client_combine_disable env topic pl n d) (\<lambda>x. dm_moves d0 (x))"
    "holds (dm_client_combine_enable env topic pl n d) (\<lambda>x. dm_moves d0 (x))"
    "holds (dm_client_combine_delete env topic pl n d) (\<lambda>x. dm_moves d0 (x))"
  using assms by (auto simp: dm_client_thing_measurepoint_set_def dm_client_thing_disable_def dm_client_thing_enable_def
      dm_client_thing_delete_def dm_client_combine_disable_def dm_client_combine_enable_def dm_client_combine_delete_def Let_def intro!:
      moves del: case_prodI2)

lemma moves_handle [THEN holds_mono, moves]:
  assumes "dm_moves d0 d"
  shows "holds (dm_client_handle env h topic pl n d) (\<lambda>x. dm_moves d0 x)"
  using assms by (cases h) (auto intro!: moves del: case_prodI2)

lemma moves_remember [moves]: "dm_moves d0 d \<Longrightarrow> dm_moves d0 (remember_request env type r d)"
  by (auto simp: remember_request_def split: prod.split intro!: moves)

lemma moves_send_request [THEN holds_mono, moves]:
  assumes "dm_moves d0 d"
  shows "holds (send_request env dest r d) (\<lambda>x. dm_moves d0 (snd x))"
  using assms by (auto simp: send_request_def Let_def intro!: moves del: case_prodI2)

lemma moves_gateway:
  assumes "dm_moves d0 d" "\<And>r d. dm_moves d0 d \<Longrightarrow> holds (fill r d) (\<lambda>x. dm_moves d0 (snd (snd x)))"
  shows "holds (gateway_request env pfx name devid type fill d) (\<lambda>x. dm_moves d0 (snd x))"
  using assms(1) by (auto simp: gateway_request_def Let_def intro!: moves assms(2) [THEN holds_mono] del: case_prodI2)

lemmas moves_gateways [moves] = moves_gateway [THEN holds_mono]

lemma for_device_holds:
  "holds (for_device bad devid f d) P \<longleftrightarrow>
   (if devid < 0 then P (bad, d)
    else case search_dev_by_devid devid (dm_table d) of
           None \<Rightarrow> P (STATE_DEV_MODEL_DEVICE_NOT_FOUND, d) | Some n \<Rightarrow> holds (f n d) P)"
  by (simp add: for_device_def split: option.split)

lemma moves_upstream [THEN holds_mono, moves]:
  assumes "dm_moves d0 d"
  shows "holds (dm_mgr_upstream_thing_device_register env devid d) (\<lambda>x. dm_moves d0 (snd x))"
    "holds (dm_mgr_upstream_thing_topo_add env devid d) (\<lambda>x. dm_moves d0 (snd x))"
    "holds (dm_mgr_upstream_thing_topo_delete env devid d) (\<lambda>x. dm_moves d0 (snd x))"
    "holds (dm_mgr_upstream_combine_login env devid d) (\<lambda>x. dm_moves d0 (snd x))"
    "holds (dm_mgr_upstream_combine_logout env devid d) (\<lambda>x. dm_moves d0 (snd x))"
    "holds (dm_mgr_upstream_thing_topo_get env d) (\<lambda>x. dm_moves d0 (snd x))"
    "holds (dm_mgr_upstream_combine_login_batch env junk devid ids d) (\<lambda>x. dm_moves d0 (snd x))"
    "holds (dm_mgr_dev_initialized env devid d) (\<lambda>x. dm_moves d0 (snd x))"
    "holds (dm_mgr_upstream_thing_model_up_raw env devid pl n d) (\<lambda>x. dm_moves d0 (snd x))"
  using assms by (auto simp: dm_mgr_upstream_thing_device_register_def dm_mgr_upstream_thing_topo_add_def
      dm_mgr_upstream_thing_topo_delete_def dm_mgr_upstream_combine_login_def dm_mgr_upstream_combine_logout_def
      dm_mgr_upstream_thing_topo_get_def dm_mgr_upstream_combine_login_batch_def dm_mgr_dev_initialized_def
      dm_mgr_upstream_thing_model_up_raw_def Let_def for_device_holds split: option.split intro!: moves del: case_prodI2)

lemma moves_device_request [THEN holds_mono, moves]:
  assumes "dm_moves d0 d"
  shows "holds (device_request env devid name params n method d) (\<lambda>x. dm_moves d0 (snd x))"
    "holds (upstream_response env devid mid k name code pl n ctxt d) (\<lambda>x. dm_moves d0 (snd x))"
  using assms by (auto simp: device_request_def upstream_response_def Let_def split: option.split intro!: moves del: case_prodI2)

lemma moves_device [THEN holds_mono, moves]:
  assumes "dm_moves d0 d"
  shows "holds (dm_mgr_upstream_common env devid plo n mo d) (\<lambda>x. dm_moves d0 (snd x))"
    "holds (dm_mgr_upstream_thing_measurepoint_resume env devid plo n d) (\<lambda>x. dm_moves d0 (snd x))"
    "holds (dm_mgr_upstream_thing_event_post env devid ident k mo plo n d) (\<lambda>x. dm_moves d0 (snd x))"
    "holds (dm_mgr_upstream_thing_measurepoint_set_response env devid mido k code plo n ctxt d) (\<lambda>x. dm_moves d0 (snd x))"
    "holds (dm_mgr_upstream_thing_service_invoke_response env devid mido k code ident l plo n ctxt d) (\<lambda>x. dm_moves d0 (snd x))"
  using assms by (auto simp: dm_mgr_upstream_common_def dm_mgr_upstream_thing_measurepoint_resume_def
      dm_mgr_upstream_thing_event_post_def dm_mgr_upstream_thing_measurepoint_set_response_def
      dm_mgr_upstream_thing_service_invoke_response_def Let_def split: option.split intro!: holds_any [where ?'a = "byte list"] intro!:
      moves del: case_prodI2)

lemma moves_event: "dm_moves d0 d \<Longrightarrow> dm_moves d0 (dm_client_event_handle env ev d)"
  using moves_send [of d0 d "\<lambda>_ d'. dm_moves d0 d'" env]
  by (auto simp: dm_client_event_handle_def dm_msg_cloud_connected_def dm_msg_cloud_disconnect_def split_beta
      split: iotx_cm_event_type.split)

section \<open>The interface\<close>

lemma moves_tick:
  assumes "dm_moves d0 d" "dm_msg_cache_tick hal (dm_cache d) (dm_queue d) (dm_world d) = (c, q, w)"
  shows "dm_moves d0 (set_dm_world w (d\<lparr>dm_cache := c, dm_queue := q\<rparr>))"
proof -
  have loop: "ipc_ok q' \<and> prefix (message_list q) (message_list q') \<and> ipc_max_size q' = ipc_max_size q"
    if "tick_loop hal now ns q v = (ns', q', v')" "ipc_ok q" for now ns q v ns' q' v'
    using that
  proof (induction ns arbitrary: q v ns' q' v')
    case (Cons n ns)
    obtain r q1 v1 where t: "dm_msg_send_msg_timeout_to_user hal (cn_msgid n) (cn_devid n) (cn_type n) q v = (r, q1, v1)" by (metis
        prod_cases3)
    have s: "ipc_ok q1 \<and> prefix (message_list q) (message_list q1) \<and> ipc_max_size q1 = ipc_max_size q"
      using t send_keeps Cons.prems(2) by (fastforce simp: dm_msg_send_msg_timeout_to_user_def Let_def split: prod.splits if_splits)
    show ?case
      using Cons.prems Cons.IH s t by (fastforce simp: tick_loop_Cons not_later_def Let_def split: if_splits prod.splits)
  qed simp
  have "dm_moves d0 (d\<lparr>dm_cache := c, dm_queue := q\<rparr>)"
    by (rule moves_queue [OF moves_cache [OF assms(1)]])
      (use assms(2) loop in \<open>auto simp: dm_msg_cache_tick_def Let_def split: prod.splits\<close>)
  then show ?thesis by (rule moves_world)
qed

lemma moves_checked [THEN holds_mono, moves]:
  assumes "dm_moves d0 d" "\<And>d. dm_moves d0 d \<Longrightarrow> holds (f d) (\<lambda>x. dm_moves d0 (snd x))"
  shows "holds (checked_devid devid f d) (\<lambda>x. dm_moves d0 (snd x))"
  using assms by (simp add: checked_devid_def)

lemma moves_subdevs [THEN holds_mono, moves]:
  assumes "dm_moves d0 d"
  shows "holds (iotx_dm_subscribe env devid d) (\<lambda>x. dm_moves d0 (snd x))"
    "holds (iotx_dm_subdev_destroy env devid d) (\<lambda>x. dm_moves d0 (snd x))"
    "holds (iotx_dm_subdev_register env devid d) (\<lambda>x. dm_moves d0 (snd x))"
    "holds (iotx_dm_subdev_topo_add env devid d) (\<lambda>x. dm_moves d0 (snd x))"
    "holds (iotx_dm_subdev_topo_del env devid d) (\<lambda>x. dm_moves d0 (snd x))"
    "holds (iotx_dm_topo_get env d) (\<lambda>x. dm_moves d0 (snd x))"
    "holds (iotx_dm_subdev_login env devid d) (\<lambda>x. dm_moves d0 (snd x))"
    "holds (iotx_dm_subdev_login_batch env junk devid ids d) (\<lambda>x. dm_moves d0 (snd x))"
    "holds (iotx_dm_subdev_logout env devid d) (\<lambda>x. dm_moves d0 (snd x))"
  using assms
  by (auto simp: iotx_dm_subscribe_def iotx_dm_subdev_destroy_def iotx_dm_subdev_register_def iotx_dm_subdev_topo_add_def
      iotx_dm_subdev_topo_del_def iotx_dm_topo_get_def iotx_dm_subdev_login_def iotx_dm_subdev_login_batch_def iotx_dm_subdev_logout_def
      Let_def split: option.split prod.split intro!: holds_any [where m = "dm_mgr_search_device_by_devid devid a b c t" for a b c t]
      holds_any [where m = "c_str b" for b] holds_any [where ?'a = "byte list"] holds_any [where ?'a = int] moves del: case_prodI2)

text \<open>
  What can happen to the device model once it is open: messages and connection events from the cloud, the calls of the
  interface, and the timeouts of the requests.
\<close>

datatype dm_call =
    Incoming dm_handler "byte list" "byte list option" int
  | Connection_event iotx_cm_event_type
  | Subscribe int
  | Subscribe_user "byte list option" "nat option"
  | Post_raw int "byte list option" int
  | Post_common int "byte list option" int "byte list option"
  | Resume int "byte list option" int
  | Post_event int "byte list option" int "byte list option" int
  | Answer_set int "byte list option" int int "byte list option" int bool
  | Answer_service int "byte list option" int int "byte list option" int "byte list option" int bool
  | Subdev_create "byte list option" "byte list option" "byte list option" "byte list option"
  | Subdev_destroy int
  | Register int
  | Topo_add int
  | Topo_delete int
  | Topo_get
  | Login int
  | Login_batch device_credential int "int list"
  | Logout int
  | Timeouts

fun dm_do :: "'w dmodel_env \<Rightarrow> dm_call \<Rightarrow> 'w dm \<Rightarrow> 'w dm option" where
  "dm_do env (Incoming h topic pl n) d = dm_client_handle env h topic pl n d"
| "dm_do env (Connection_event ev) d = Some (dm_client_event_handle env ev d)"
| "dm_do env (Subscribe devid) d = map_option snd (iotx_dm_subscribe env devid d)"
| "dm_do env (Subscribe_user topic cb) d = map_option snd (iotx_dm_subscribe_user_topic env topic cb d)"
| "dm_do env (Post_raw devid pl n) d = map_option snd (iotx_dm_post_rawdata env devid pl n d)"
| "dm_do env (Post_common devid pl n method) d = map_option snd (iotx_dm_upstream_common env devid pl n method d)"
| "dm_do env (Resume devid pl n) d = map_option snd (iotx_dm_resume_measurepoint env devid pl n d)"
| "dm_do env (Post_event devid ident k pl n) d = map_option snd (iotx_dm_post_event env devid ident k pl n d)"
| "dm_do env (Answer_set devid mid k code pl n x) d =
     map_option snd (iotx_dm_send_measurepoint_set_response env devid mid k code pl n x d)"
| "dm_do env (Answer_service devid mid k code ident l pl n x) d =
     map_option snd (iotx_dm_send_service_invoke_response env devid mid k code ident l pl n x d)"
| "dm_do env (Subdev_create pk ps dk ds) d = Some (snd (snd (iotx_dm_subdev_create env pk ps dk ds None d)))"
| "dm_do env (Subdev_destroy devid) d = map_option snd (iotx_dm_subdev_destroy env devid d)"
| "dm_do env (Register devid) d = map_option snd (iotx_dm_subdev_register env devid d)"
| "dm_do env (Topo_add devid) d = map_option snd (iotx_dm_subdev_topo_add env devid d)"
| "dm_do env (Topo_delete devid) d = map_option snd (iotx_dm_subdev_topo_del env devid d)"
| "dm_do env Topo_get d = map_option snd (iotx_dm_topo_get env d)"
| "dm_do env (Login devid) d = map_option snd (iotx_dm_subdev_login env devid d)"
| "dm_do env (Login_batch junk devid ids) d = map_option snd (iotx_dm_subdev_login_batch env junk devid ids d)"
| "dm_do env (Logout devid) d = map_option snd (iotx_dm_subdev_logout env devid d)"
| "dm_do env Timeouts d =
     (let (c, q, w) = dm_msg_cache_tick (dmq env) (dm_cache d) (dm_queue d) (dm_world d)
      in Some (set_dm_world w (d\<lparr>dm_cache := c, dm_queue := q\<rparr>)))"

fun dm_run :: "'w dmodel_env \<Rightarrow> dm_call list \<Rightarrow> 'w dm \<Rightarrow> 'w dm option" where
  "dm_run env [] d = Some d"
| "dm_run env (c # cs) d = Option.bind (dm_do env c d) (dm_run env cs)"

lemma moves_posts [THEN holds_mono, moves]:
  assumes "dm_moves d0 d"
  shows "holds (iotx_dm_subscribe_user_topic env topic cb d) (\<lambda>x. dm_moves d0 (snd x))"
    "holds (iotx_dm_post_event env devid ident k pl n d) (\<lambda>x. dm_moves d0 (snd x))"
proof -
  have "dm_moves d0 (d\<lparr>g_user_topic_callback := f\<rparr>)" if "dm_moves d0 d" for f d
    using that by (simp add: dm_moves_def dm_ok_def)
  then show "holds (iotx_dm_subscribe_user_topic env topic cb d) (\<lambda>x. dm_moves d0 (snd x))"
    "holds (iotx_dm_post_event env devid ident k pl n d) (\<lambda>x. dm_moves d0 (snd x))"
    using assms
    by (auto simp: iotx_dm_subscribe_user_topic_def iotx_dm_post_event_def Let_def split: option.split
        intro!: holds_any [where ?'a = "byte list"] moves del: case_prodI2)
qed

lemma dm_do_moves: "dm_moves d0 d \<Longrightarrow> holds (dm_do env c d) (dm_moves d0)"
proof (cases c)
  case Timeouts
  then show "dm_moves d0 d \<Longrightarrow> ?thesis" by (auto split: prod.split intro: moves_tick)
next
  case (Subdev_create pk ps dk ds)
  assume d: "dm_moves d0 d"
  obtain res out m w where r: "dm_mgr_device_create (dmq env) (sizeof_dev_node env) IOTX_DM_DEVICE_SUBDEV pk ps dk ds None (dm_table d)
      (dm_world d) = (res, out, m, w)" by (metis prod_cases4)
  have "dm_moves d0 (d\<lparr>dm_table := m\<rparr>)"
    using moves_create [OF d, of "\<lambda>_ _ m _. dm_moves d0 (d\<lparr>dm_table := m\<rparr>)" "dmq env" "sizeof_dev_node env"
      IOTX_DM_DEVICE_SUBDEV pk ps dk ds None "dm_world d"] r by simp
  then show ?thesis using Subdev_create by (simp add: iotx_dm_subdev_create_def r moves_world)
qed (auto simp: iotx_dm_post_rawdata_def iotx_dm_upstream_common_def iotx_dm_resume_measurepoint_def
    iotx_dm_send_measurepoint_set_response_def iotx_dm_send_service_invoke_response_def
    intro!: moves moves_event del: case_prodI2)

lemma dm_run_moves: "dm_moves d0 d \<Longrightarrow> holds (dm_run env cs d) (dm_moves d0)"
proof (induction cs arbitrary: d)
  case (Cons c cs)
  from holds_mono [OF dm_do_moves [OF Cons.prems] Cons.IH] show ?case by simp
qed simp



end
