(* ===== verification/EnosLists.thy ===== *)
theory EnosLists
  imports DmUpstream
begin

text \<open>
  The two lists of \<^verbatim>\<open>src/src/dev_model/impl_enos.c\<close>: the commands of the cloud that wait for the answer of the
  user, at most thirty and for at most twenty seconds, and the requests of the user that wait for the answer of the cloud.
\<close>

abbreviation (input) STATE_DEV_MODEL_SERVICE_CTX_NOT_EXIST :: int where "STATE_DEV_MODEL_SERVICE_CTX_NOT_EXIST \<equiv> - 0x913"
abbreviation (input) STATE_DEV_MODEL_DUP_UPSTREAM_MSG :: int where "STATE_DEV_MODEL_DUP_UPSTREAM_MSG \<equiv> - 0x91F"
abbreviation (input) STATE_DEV_MODEL_UPSTREAM_REC_NOT_FOUND :: int where "STATE_DEV_MODEL_UPSTREAM_REC_NOT_FOUND \<equiv> - 0x920"
abbreviation (input) STATE_DEV_MODEL_REFUSED_BY_CLOUD :: int where "STATE_DEV_MODEL_REFUSED_BY_CLOUD \<equiv> - 0x921"

definition CONFIG_COMMAND_LIST_MAXLEN :: int where "CONFIG_COMMAND_LIST_MAXLEN = 30"
definition CONFIG_SERVICE_REQUEST_TIMEOUT :: "64 word" where "CONFIG_SERVICE_REQUEST_TIMEOUT = 20000"

record 'w sync_env =
  HAL_SemaphoreCreate :: "'w \<Rightarrow> bool \<times> 'w"
  sizeof_command_node :: u32
  sizeof_sync_node :: u32

section \<open>Commands waiting for the answer of the user\<close>

text \<open>The only type of command is the general one. A node is known to the user by its address.\<close>

record command_node =
  cmd_addr :: nat
  cmd_msgid :: "byte list"
  cmd_service_ctx :: bool
  cmd_ctime :: "64 word"

record command_list =
  command_list_num :: int
  downstream_command_list :: "command_node list"
  commands_made :: nat

text \<open>The digits at the start of a text that is followed by something else.\<close>

fun leading_digits :: "byte list \<Rightarrow> byte list option" where
  "leading_digits [] = None"
| "leading_digits (c # cs) = (if is_digit c then map_option ((#) c) (leading_digits cs) else Some [])"

text \<open>
  The second block has no check: without it a number is copied to nowhere. Blocks are numbered; a number is not used
  again, unlike an address.
\<close>

definition enos_command_list_insert ::
  "'w dm_env \<Rightarrow> 'w sync_env \<Rightarrow> byte list \<Rightarrow> bool \<Rightarrow> command_list \<Rightarrow> 'w
      \<Rightarrow> (int \<times> nat option \<times> command_list \<times> 'w) option" where
  "enos_command_list_insert env se msgid command_ctx l w =
     (if command_list_num l \<ge> CONFIG_COMMAND_LIST_MAXLEN then Some (STATE_DEV_MODEL_INTERNAL_ERROR, None, l, w)
      else let (ok, w) = HAL_Malloc env (sizeof_command_node se) w
        in if \<not> ok then Some (STATE_SYS_DEPEND_MALLOC, None, l, w)
           else do {
             ds \<leftarrow> leading_digits msgid;
             let (ok, w) = HAL_Malloc env (of_nat (length ds)) w;
             (if \<not> ok \<and> ds \<noteq> [] then None
              else let (now, w) = uptime64 env w;
                       n = \<lparr>cmd_addr = commands_made l, cmd_msgid = ds, cmd_service_ctx = command_ctx, cmd_ctime = now\<rparr>
                in Some (STATE_SUCCESS, Some (cmd_addr n), l\<lparr>downstream_command_list := n # downstream_command_list l,
                     command_list_num := command_list_num l + 1, commands_made := commands_made l + 1\<rparr>, w)) })"

definition enos_command_list_search :: "nat \<Rightarrow> command_list \<Rightarrow> int" where
  "enos_command_list_search node l =
     (if node \<in> cmd_addr ` set (downstream_command_list l) then STATE_SUCCESS else STATE_DEV_MODEL_SERVICE_CTX_NOT_EXIST)"

definition enos_command_list_delete :: "nat \<Rightarrow> command_list \<Rightarrow> int \<times> command_list" where
  "enos_command_list_delete node l =
     (STATE_SUCCESS, l\<lparr>downstream_command_list := filter (\<lambda>n. cmd_addr n \<noteq> node) (downstream_command_list l),
        command_list_num := (if command_list_num l > 0 then command_list_num l - 1 else command_list_num l)\<rparr>)"

definition enos_service_list_destroy :: "command_list \<Rightarrow> command_list" where
  "enos_service_list_destroy l = l\<lparr>downstream_command_list := [], command_list_num := 0\<rparr>"

text \<open>A clock that has gone back starts the wait again.\<close>

definition seen_at :: "64 word \<Rightarrow> command_node \<Rightarrow> command_node" where
  "seen_at now n = (if now < cmd_ctime n then n\<lparr>cmd_ctime := now\<rparr> else n)"

definition overdue :: "64 word \<Rightarrow> command_node \<Rightarrow> bool" where
  "overdue now n \<longleftrightarrow> now - cmd_ctime n \<ge> CONFIG_SERVICE_REQUEST_TIMEOUT"

fun overtime_loop :: "64 word \<Rightarrow> command_node list \<Rightarrow> int \<Rightarrow> command_node list \<times> int" where
  "overtime_loop now [] num = ([], num)"
| "overtime_loop now (n # ns) num =
     (let n = seen_at now n
      in if overdue now n then overtime_loop now ns (if num > 0 then num - 1 else num)
         else let (ns, num) = overtime_loop now ns num in (n # ns, num))"

definition iotx_enos_service_list_overtime_handle :: "'w dm_env \<Rightarrow> command_list \<Rightarrow> 'w \<Rightarrow> command_list
    \<times> 'w" where
  "iotx_enos_service_list_overtime_handle env l w =
     (let (now, w) = uptime64 env w;
          (ns, num) = overtime_loop now (downstream_command_list l) (command_list_num l)
      in (l\<lparr>downstream_command_list := ns, command_list_num := num\<rparr>, w))"

section \<open>Requests waiting for the answer of the cloud\<close>

text \<open>
  The semaphores of the platform are counters; they are numbered as they are made. Using one that has been destroyed is
  undefined.
\<close>

record sync_node =
  sy_addr :: nat
  sy_msgid :: int
  sy_semaphore :: nat
  sy_code :: int

record sync_list =
  upstream_sync_callback_list :: "sync_node list"
  syncs_made :: nat
  semaphores :: "nat \<Rightarrow> nat option"
  semaphores_made :: nat

definition semaphore_create :: "'w sync_env \<Rightarrow> sync_list \<Rightarrow> 'w \<Rightarrow> nat option \<times> sync_list \<times>
    'w" where
  "semaphore_create se l w =
     (let (ok, w) = HAL_SemaphoreCreate se w
      in if \<not> ok then (None, l, w)
         else (Some (semaphores_made l), l\<lparr>semaphores := (semaphores l)(semaphores_made l := Some 0),
                 semaphores_made := semaphores_made l + 1\<rparr>, w))"

definition semaphore_destroy :: "nat \<Rightarrow> sync_list \<Rightarrow> sync_list option" where
  "semaphore_destroy s l = map_option (\<lambda>_. l\<lparr>semaphores := (semaphores l)(s := None)\<rparr>) (semaphores l s)"

definition semaphore_post :: "nat \<Rightarrow> sync_list \<Rightarrow> sync_list option" where
  "semaphore_post s l = map_option (\<lambda>n. l\<lparr>semaphores := (semaphores l)(s := Some (n + 1))\<rparr>) (semaphores l s)"

text \<open>The end of a wait: it took the semaphore, which is not possible at zero, or its time has passed.\<close>

definition semaphore_wait_ends :: "bool \<Rightarrow> nat \<Rightarrow> sync_list \<Rightarrow> (int \<times> sync_list) option" where
  "semaphore_wait_ends timed_out s l =
     (case semaphores l s of
        None \<Rightarrow> None
      | Some n \<Rightarrow> if timed_out \<or> n = 0 then Some (- 1, l)
                  else Some (0, l\<lparr>semaphores := (semaphores l)(s := Some (n - 1))\<rparr>))"

definition sync_callback_list_insert ::
  "'w dm_env \<Rightarrow> 'w sync_env \<Rightarrow> int \<Rightarrow> nat \<Rightarrow> sync_list \<Rightarrow> 'w \<Rightarrow> int
      \<times> nat option \<times> sync_list \<times> 'w" where
  "sync_callback_list_insert env se msgid semaphore l w =
     (if \<exists>n \<in> set (upstream_sync_callback_list l). sy_msgid n = msgid then (STATE_DEV_MODEL_DUP_UPSTREAM_MSG, None, l, w)
      else let (ok, w) = HAL_Malloc env (sizeof_sync_node se) w
        in if \<not> ok then (STATE_SYS_DEPEND_MALLOC, None, l, w)
           else let n = \<lparr>sy_addr = syncs_made l, sy_msgid = msgid, sy_semaphore = semaphore, sy_code = 0\<rparr>
             in (STATE_SUCCESS, Some (sy_addr n), l\<lparr>upstream_sync_callback_list := n # upstream_sync_callback_list l,
                  syncs_made := syncs_made l + 1\<rparr>, w))"

fun remove_sync :: "int \<Rightarrow> sync_node list \<Rightarrow> (sync_node \<times> sync_node list) option" where
  "remove_sync msgid [] = None"
| "remove_sync msgid (n # ns) =
     (if sy_msgid n = msgid then Some (n, ns) else map_option (\<lambda>(m, ns). (m, n # ns)) (remove_sync msgid ns))"

definition sync_callback_list_remove :: "int \<Rightarrow> sync_list \<Rightarrow> (int \<times> sync_list) option" where
  "sync_callback_list_remove msgid l =
     (case remove_sync msgid (upstream_sync_callback_list l) of
        None \<Rightarrow> Some (STATE_DEV_MODEL_UPSTREAM_REC_NOT_FOUND, l)
      | Some (n, ns) \<Rightarrow> do {
          l \<leftarrow> semaphore_destroy (sy_semaphore n) l;
          Some (STATE_SUCCESS, l\<lparr>upstream_sync_callback_list := ns\<rparr>) })"

definition sync_callback_list_search :: "int \<Rightarrow> sync_list \<Rightarrow> int \<times> sync_node option" where
  "sync_callback_list_search msgid l =
     (case List.find (\<lambda>n. sy_msgid n = msgid) (upstream_sync_callback_list l) of
        None \<Rightarrow> (STATE_DEV_MODEL_UPSTREAM_REC_NOT_FOUND, None)
      | Some n \<Rightarrow> (STATE_SUCCESS, Some n))"

fun destroy_semaphores :: "sync_node list \<Rightarrow> sync_list \<Rightarrow> sync_list option" where
  "destroy_semaphores [] l = Some l"
| "destroy_semaphores (n # ns) l = do { l \<leftarrow> semaphore_destroy (sy_semaphore n) l; destroy_semaphores ns l }"

definition sync_callback_list_destroy :: "sync_list \<Rightarrow> sync_list option" where
  "sync_callback_list_destroy l =
     map_option (\<lambda>l. l\<lparr>upstream_sync_callback_list := []\<rparr>) (destroy_semaphores (upstream_sync_callback_list l) l)"

text \<open>The node found is changed in place.\<close>

definition set_sync_code :: "nat \<Rightarrow> int \<Rightarrow> sync_node list \<Rightarrow> sync_node list" where
  "set_sync_code addr code = map (\<lambda>n. if sy_addr n = addr then n\<lparr>sy_code := code\<rparr> else n)"

definition sync_result :: "int \<Rightarrow> int" where
  "sync_result code = (if code = IOTX_DM_ERR_CODE_SUCCESS then STATE_SUCCESS else STATE_DEV_MODEL_REFUSED_BY_CLOUD)"

definition upstream_callback_remove :: "int \<Rightarrow> int \<Rightarrow> sync_list \<Rightarrow> sync_list option" where
  "upstream_callback_remove msgid code l =
     (case sync_callback_list_search msgid l of
        (_, None) \<Rightarrow> Some l
      | (_, Some n) \<Rightarrow> semaphore_post (sy_semaphore n)
          (l\<lparr>upstream_sync_callback_list := set_sync_code (sy_addr n) (sync_result code) (upstream_sync_callback_list l)\<rparr>))"

section \<open>The commands are counted\<close>

text \<open>What goes over the time is dropped, what stays keeps its order and its number.\<close>

lemma overtime_loop_eq:
  "int (length ns) \<le> num \<Longrightarrow> overtime_loop now ns num =
    (filter (\<lambda>n. \<not> overdue now n) (map (seen_at now) ns),
     num - int (length (filter (\<lambda>n. overdue now n) (map (seen_at now) ns))))"
  by (induction ns arbitrary: num) (auto simp: Let_def)

lemma seen_at_addr [simp]: "cmd_addr (seen_at now n) = cmd_addr n"
  by (simp add: seen_at_def)

definition commands_ok :: "command_list \<Rightarrow> bool" where
  "commands_ok l \<longleftrightarrow> command_list_num l = int (length (downstream_command_list l))
     \<and> command_list_num l \<le> CONFIG_COMMAND_LIST_MAXLEN
     \<and> distinct (map cmd_addr (downstream_command_list l)) \<and> (\<forall>n \<in> set (downstream_command_list l). cmd_addr n <
         commands_made l)"

lemma commands_insert:
  assumes "commands_ok l" "enos_command_list_insert env se msgid has_ctx l w = Some (rc, node, l', w')"
  shows "commands_ok l'"
proof -
  have "l' = l \<or> (\<exists>n. command_list_num l < CONFIG_COMMAND_LIST_MAXLEN \<and> cmd_addr n = commands_made l
      \<and> l' = l\<lparr>downstream_command_list := n # downstream_command_list l, command_list_num := command_list_num l + 1,
            commands_made := commands_made l + 1\<rparr>)"
    using assms(2) by (force simp: enos_command_list_insert_def Let_def split: if_splits prod.splits Option.bind_splits)
  then show ?thesis using assms(1) by (fastforce simp: commands_ok_def less_Suc_eq)
qed

lemma commands_delete:
  assumes "commands_ok l" "enos_command_list_search node l = STATE_SUCCESS"
  shows "commands_ok (snd (enos_command_list_delete node l))"
proof -
  have d: "distinct (map cmd_addr (downstream_command_list l))" using assms(1) by (simp add: commands_ok_def)
  obtain n where n: "n \<in> set (downstream_command_list l)" "cmd_addr n = node"
    using assms(2) by (auto simp: enos_command_list_search_def split: if_splits)
  from split_list [OF n(1)] obtain a b where ab: "downstream_command_list l = a @ n # b" by blast
  have "filter (\<lambda>m. cmd_addr m \<noteq> node) (downstream_command_list l) = a @ b"
    using d n(2) by (auto simp: ab image_iff intro!: arg_cong2 [where f = "(@)"] filter_True)
  then show ?thesis using assms(1) by (auto simp: commands_ok_def enos_command_list_delete_def ab)
qed

lemma commands_overtime:
  assumes "commands_ok l" "iotx_enos_service_list_overtime_handle env l w = (l', w')"
  shows "commands_ok l'"
proof -
  obtain now v where t: "uptime64 env w = (now, v)" by (cases "uptime64 env w")
  let ?ns = "map (seen_at now) (downstream_command_list l)"
  have l': "l' = l\<lparr>downstream_command_list := filter (\<lambda>n. \<not> overdue now n) ?ns,
      command_list_num := command_list_num l - int (length (filter (overdue now) ?ns))\<rparr>"
    using assms t by (auto simp: iotx_enos_service_list_overtime_handle_def commands_ok_def overtime_loop_eq)
  have "map cmd_addr ?ns = map cmd_addr (downstream_command_list l)" by simp
  then have "distinct (map cmd_addr ?ns)" using assms(1) by (simp add: commands_ok_def del: map_map)
  then have "distinct (map cmd_addr (filter (\<lambda>n. \<not> overdue now n) ?ns))" by (rule distinct_map_filter)
  moreover have "length (filter (overdue now) ?ns) + length (filter (\<lambda>n. \<not> overdue now n) ?ns) = length ?ns"
    by (rule sum_length_filter_compl)
  then have "int (length (filter (\<lambda>n. \<not> overdue now n) ?ns)) = int (length ?ns) - int (length (filter (overdue now) ?ns))"
    by linarith
  ultimately show ?thesis using assms(1) unfolding l' by (auto simp: commands_ok_def)
qed

text \<open>The operations on the list, and those of the callers: a command is deleted after it has been found.\<close>

datatype command_op = New_command "byte list" bool | Answer_command nat | Check_times

fun command_run :: "'w dm_env \<Rightarrow> 'w sync_env \<Rightarrow> command_op list \<Rightarrow> command_list \<times> 'w
    \<Rightarrow> (command_list \<times> 'w) option" where
  "command_run env se [] s = Some s"
| "command_run env se (New_command msgid has_ctx # ops) (l, w) = do {
     (_, _, l, w) \<leftarrow> enos_command_list_insert env se msgid has_ctx l w;
     command_run env se ops (l, w) }"
| "command_run env se (Answer_command node # ops) (l, w) =
     command_run env se ops (if enos_command_list_search node l = STATE_SUCCESS then snd (enos_command_list_delete node l) else l, w)"
| "command_run env se (Check_times # ops) (l, w) = command_run env se ops (iotx_enos_service_list_overtime_handle env l w)"

lemma command_run_ok: "commands_ok l \<Longrightarrow> command_run env se ops (l, w) = Some (l', w') \<Longrightarrow> commands_ok l'"
proof (induction env se ops "(l, w)" arbitrary: l w rule: command_run.induct)
  case (2 env se msgid has_ctx ops l w)
  then show ?case by (auto simp: bind_eq_Some_conv dest: commands_insert)
next
  case (3 env se node ops l w)
  then show ?case by (auto dest: commands_delete split: if_splits)
next
  case (4 env se ops l w)
  then show ?case by (cases "iotx_enos_service_list_overtime_handle env l w") (auto dest: commands_overtime)
qed simp

text \<open>
  C21. Commands waiting for the user never pile up: after any sequence of commands arriving, being answered or
  running out of time, the count is the number of commands in the list, it is at most thirty, and no two
  commands share an address, so an answer is for one command.
\<close>

theorem commands_counted:
  assumes "command_list_num l = 0" "downstream_command_list l = []" "command_run env se ops (l, w) = Some (l', w')"
  shows "command_list_num l' = int (length (downstream_command_list l')) \<and> command_list_num l' \<le> 30
    \<and> distinct (map cmd_addr (downstream_command_list l'))"
proof -
  have "commands_ok l" using assms(1,2) by (simp add: commands_ok_def CONFIG_COMMAND_LIST_MAXLEN_def)
  from command_run_ok [OF this assms(3)] show ?thesis by (simp add: commands_ok_def CONFIG_COMMAND_LIST_MAXLEN_def)
qed

definition demo_sync_env :: "nat sync_env" where
  "demo_sync_env = \<lparr>HAL_SemaphoreCreate = \<lambda>w. (True, w), sizeof_command_node = 48, sizeof_sync_node = 32\<rparr>"

theorem commands_counted_witness:
  "\<exists>l' w'. command_run demo_dm demo_sync_env [New_command (ascii ''12,'') False, New_command (ascii ''7,'') False, Answer_command
      0, Check_times]
      (\<lparr>command_list_num = 0, downstream_command_list = [], commands_made = 0\<rparr>, 0) = Some (l', w')
    \<and> command_list_num l' = int (length (downstream_command_list l')) \<and> command_list_num l' \<le> 30
    \<and> distinct (map cmd_addr (downstream_command_list l'))"
proof -
  let ?l = "\<lparr>command_list_num = 0, downstream_command_list = [], commands_made = 0\<rparr>"
  let ?ops = "[New_command (ascii ''12,'') False, New_command (ascii ''7,'') False, Answer_command 0, Check_times]"
  have "command_run demo_dm demo_sync_env ?ops (?l, 0) \<noteq> None"
    by (simp add: ascii_def enos_command_list_insert_def demo_dm_def demo_sync_env_def CONFIG_COMMAND_LIST_MAXLEN_def is_digit_def)
  then obtain l' w' where r: "command_run demo_dm demo_sync_env ?ops (?l, 0) = Some (l', w')" by auto
  from commands_counted [OF _ _ r] show ?thesis using r by simp
qed

end
