(* ===== verification/EnosEvents.thy ===== *)
theory EnosEvents
  imports EnosLists DmApi
begin

text \<open>
  The callback of \<^verbatim>\<open>src/src/dev_model/impl_enos.c\<close> for the messages of the queue: it reads the JSON text of the
  message, and calls a function of the user or answers a request that waits.
\<close>

section \<open>The state\<close>

text \<open>
  \<^verbatim>\<open>iotx_enos_ctx_t\<close>, with the state of the device model below it. A mutex that has been destroyed is still
      pointed to.
\<close>

datatype mutex = Mutex_null | Mutex_live | Mutex_gone

record 'w enos =
  edm :: "'w dm"
  dm_event_cb :: bool
  enos_mutex :: mutex
  upstream_mutex :: mutex
  command_list_mutex :: mutex
  is_opened :: bool
  is_connected :: bool
  is_yield_running :: bool
  yield_running :: bool
  syncs :: sync_list
  commands :: command_list

text \<open>
  What a function the user has registered is called with: pointers to text are the memory there, with its length where
  it is passed.
\<close>

datatype user_call =
    Call_connection
  | Call_device int
  | Call_raw_data int "byte list" int
  | Call_service int "byte list" int "byte list" int nat
  | Call_measurepoint_set int "byte list" int "nat option"
  | Call_thing_reply int int int "byte list" int "byte list" int
  | Call_cloud_error int "byte list" "byte list"
  | Call_topo_list int int int "byte list" int
  | Call_register_reply int int int
  | Call_deleted int "byte list option" int "byte list option" int

record 'w enos_env = "'w sync_env" +
  dme :: "'w dmodel_env"
  user_function :: "nat \<Rightarrow> user_call \<Rightarrow> 'w \<Rightarrow> 'w"
  yield_threads_leave :: "'w cm \<Rightarrow> 'w cm"
  uninit_credential :: device_credential

abbreviation (input) ITE_CONNECT_SUCC :: int where "ITE_CONNECT_SUCC \<equiv> 0"
abbreviation (input) ITE_DISCONNECTED :: int where "ITE_DISCONNECTED \<equiv> 2"
abbreviation (input) ITE_RAWDATA_ARRIVED :: int where "ITE_RAWDATA_ARRIVED \<equiv> 3"
abbreviation (input) ITE_SERVICE_REQUEST :: int where "ITE_SERVICE_REQUEST \<equiv> 4"
abbreviation (input) ITE_MEASUREPOINT_SET :: int where "ITE_MEASUREPOINT_SET \<equiv> 5"
abbreviation (input) ITE_THING_REPLY :: int where "ITE_THING_REPLY \<equiv> 7"
abbreviation (input) ITE_TOPO_GET_REPLY :: int where "ITE_TOPO_GET_REPLY \<equiv> 8"
abbreviation (input) ITE_DEVICE_REGISTER_REPLY :: int where "ITE_DEVICE_REGISTER_REPLY \<equiv> 9"
abbreviation (input) ITE_COMBINE_DISABLE :: int where "ITE_COMBINE_DISABLE \<equiv> 10"
abbreviation (input) ITE_COMBINE_ENABLE :: int where "ITE_COMBINE_ENABLE \<equiv> 11"
abbreviation (input) ITE_COMBINE_DELETE :: int where "ITE_COMBINE_DELETE \<equiv> 12"
abbreviation (input) ITE_INITIALIZE_COMPLETED :: int where "ITE_INITIALIZE_COMPLETED \<equiv> 13"
abbreviation (input) ITE_CLOUD_ERROR :: int where "ITE_CLOUD_ERROR \<equiv> 15"
abbreviation (input) IOTX_DM_EVENT_CLOUD_ERROR :: int where "IOTX_DM_EVENT_CLOUD_ERROR \<equiv> 38"

definition user_callback :: "int \<Rightarrow> 'w enos \<Rightarrow> nat option" where
  "user_callback evt e = iotx_event_callback (events (api_sys (cm_api (dm_cm (edm e))))) evt"

definition call_user :: "'w enos_env \<Rightarrow> int \<Rightarrow> user_call \<Rightarrow> 'w enos \<Rightarrow> 'w enos" where
  "call_user env evt c e =
     (case user_callback evt e of
        None \<Rightarrow> e
      | Some f \<Rightarrow> e\<lparr>edm := set_dm_world (user_function env f c (dm_world (edm e))) (edm e)\<rparr>)"

definition enos_malloc :: "'w enos_env \<Rightarrow> int \<Rightarrow> 'w enos \<Rightarrow> bool \<times> 'w enos" where
  "enos_malloc env n e = (let (ok, d) = dm_malloc (dme env) n (edm e) in (ok, e\<lparr>edm := d\<rparr>))"

text \<open>A new command; \<open>None\<close> for the number when it could not be made.\<close>

definition new_command :: "'w enos_env \<Rightarrow> lite_cjson \<Rightarrow> 'w enos \<Rightarrow> (nat option \<times> 'w enos) option"
    where
  "new_command env item e = do {
     msgid \<leftarrow> cj_value item;
     (_, node, l, w) \<leftarrow> enos_command_list_insert (dmq (dme env)) (sync_env.truncate env) msgid False (commands e) (dm_world
         (edm e));
     Some (node, e\<lparr>commands := l, edm := set_dm_world w (edm e)\<rparr>) }"

section \<open>The message\<close>

definition enos_keys :: "byte list list" where
  "enos_keys = map ascii
     [''id'', ''devid'', ''serviceid'', ''payload'', ''ctx'', ''code'', ''eventid'', ''utc'', ''topo'', ''productKey'', ''deviceKey'',
      ''time'', ''version'', ''configId'', ''configSize'', ''getType'', ''sign'', ''signMethod'', ''url'', ''data'', ''message'']"

text \<open>The items of a message under their keys; the items of a missing member are zero.\<close>

fun fetch_items :: "'w dmodel_env \<Rightarrow> lite_cjson \<Rightarrow> byte list list \<Rightarrow> (byte list \<times> lite_cjson)
    list option" where
  "fetch_items env lite [] = Some []"
| "fetch_items env lite (key # ks) = do {
     (_, item) \<leftarrow> dm_utils_json_object_item (dm_double env) (Some lite) (Some (key @ [0])) (int (length key)) cJSON_Invalid
         (Some cjson_zero);
     item \<leftarrow> item;
     items \<leftarrow> fetch_items env lite ks;
     Some ((key, item) # items) }"

text \<open>
  No items are read without a message, or from one that is not an object: the variables then keep what they held, which
  is nothing here. A text that is not JSON ends the callback.
\<close>

definition message_items :: "'w dmodel_env \<Rightarrow> byte list option \<Rightarrow> (byte list \<times> lite_cjson) list option
    option" where
  "message_items env pl =
     (case pl of
        None \<Rightarrow> Some (Some [])
      | Some text \<Rightarrow> do {
          str \<leftarrow> c_str (text @ [0]);
          (res, lite) \<leftarrow> dm_utils_json_parse (dm_double env) (Some (text @ [0])) (int (length str)) cJSON_Invalid (Some
              cjson_zero);
          lite \<leftarrow> lite;
          (if res \<noteq> STATE_SUCCESS then Some None
           else if cj_type lite \<noteq> cJSON_Object then Some (Some [])
           else map_option Some (fetch_items env lite enos_keys)) })"

definition has_type :: "(byte list \<times> lite_cjson) list \<Rightarrow> string \<Rightarrow> int \<Rightarrow> bool option" where
  "has_type items key type = map_option (\<lambda>item. cj_type item = type) (map_of items (ascii key))"

text \<open>The conditions of a guard from left to right: the first that fails decides.\<close>

fun have_types :: "(byte list \<times> lite_cjson) list \<Rightarrow> (string \<times> int) list \<Rightarrow> bool option" where
  "have_types items [] = Some True"
| "have_types items ((key, type) # rest) = do {
     ok \<leftarrow> has_type items key type;
     (if ok then have_types items rest else Some False) }"

definition number :: "(byte list \<times> lite_cjson) list \<Rightarrow> string \<Rightarrow> int option" where
  "number items key = map_option cj_value_int (map_of items (ascii key))"

text \<open>The value of an item in a zeroed block one longer than it.\<close>

definition value_block :: "lite_cjson \<Rightarrow> byte list option" where
  "value_block item =
     (if cj_value_length item = 0 then Some [0]
      else do { mem \<leftarrow> cj_value item; mem_copy mem (cj_value_length item) (replicate (nat (cj_value_length item + 1)) 0) })"

section \<open>The callback\<close>

definition item :: "(byte list \<times> lite_cjson) list \<Rightarrow> string \<Rightarrow> lite_cjson option" where
  "item items key = map_of items (ascii key)"

definition devid_to_user ::
  "'w enos_env \<Rightarrow> int \<Rightarrow> byte list option \<Rightarrow> (byte list \<times> lite_cjson) list \<Rightarrow> 'w enos
      \<Rightarrow> 'w enos option" where
  "devid_to_user env evt pl items e =
     (if pl = None then Some e
      else do {
        ok \<leftarrow> have_types items [(''devid'', cJSON_Number)];
        devid \<leftarrow> number items ''devid'';
        Some (if ok then call_user env evt (Call_device devid) e else e) })"

text \<open>Bytes written as hexadecimal digits. \<open>zeroed\<close>: whether the block was set to zero before it was filled.\<close>

definition raw_data_to_user ::
  "'w enos_env \<Rightarrow> bool \<Rightarrow> byte list option \<Rightarrow> (byte list \<times> lite_cjson) list \<Rightarrow> 'w enos
      \<Rightarrow> 'w enos option" where
  "raw_data_to_user env zeroed pl items e =
     (if pl = None then Some e
      else do {
        ok \<leftarrow> have_types items [(''devid'', cJSON_Number), (''payload'', cJSON_String)];
        (if \<not> ok then Some e
         else do {
           devid \<leftarrow> number items ''devid'';
           it \<leftarrow> item items ''payload'';
           let raw_data_len = cj_value_length it div 2;
           let (ok, e) = enos_malloc env raw_data_len e;
           (if \<not> ok then Some e
            else do {
              hex \<leftarrow> mem_copy (case cj_value it of Some mem \<Rightarrow> mem | None \<Rightarrow> []) (cj_value_length it)
                  (replicate (nat (cj_value_length it)) 0);
              let raw = LITE_hexstr_convert hex (nat raw_data_len);
              (if length raw < nat raw_data_len \<and> \<not> zeroed then None
               else Some (call_user env ITE_RAWDATA_ARRIVED
                 (Call_raw_data devid (raw @ replicate (nat raw_data_len - length raw) 0) raw_data_len) e)) }) }) })"

definition service_to_user ::
  "'w enos_env \<Rightarrow> byte list option \<Rightarrow> (byte list \<times> lite_cjson) list \<Rightarrow> 'w enos \<Rightarrow> 'w
      enos option" where
  "service_to_user env pl items e =
     (if pl = None then Some e
      else do {
        ok \<leftarrow> have_types items [(''id'', cJSON_String), (''devid'', cJSON_Number), (''serviceid'', cJSON_String), (''payload'',
            cJSON_Object)];
        (if \<not> ok then Some e
         else do {
           it \<leftarrow> item items ''payload'';
           let (ok, e) = enos_malloc env (cj_value_length it + 1) e;
           (if \<not> ok then Some e
            else do {
              request \<leftarrow> value_block it;
              (if user_callback ITE_SERVICE_REQUEST e = None then Some e
               else do {
                 mid \<leftarrow> item items ''id'';
                 devid \<leftarrow> number items ''devid'';
                 service \<leftarrow> item items ''serviceid'';
                 name \<leftarrow> cj_value service;
                 (service_ctx, e) \<leftarrow> new_command env mid e;
                 Some (case service_ctx of
                    None \<Rightarrow> e
                  | Some node \<Rightarrow> call_user env ITE_SERVICE_REQUEST
                      (Call_service devid name (cj_value_length service) request (cj_value_length it) node) e) }) }) }) })"

text \<open>The number of the request is not checked, and the user is called when the command could not be kept.\<close>

definition measurepoint_set_to_user ::
  "'w enos_env \<Rightarrow> byte list option \<Rightarrow> (byte list \<times> lite_cjson) list \<Rightarrow> 'w enos \<Rightarrow> 'w
      enos option" where
  "measurepoint_set_to_user env pl items e =
     (if pl = None then Some e
      else do {
        ok \<leftarrow> have_types items [(''devid'', cJSON_Number), (''payload'', cJSON_Object)];
        (if \<not> ok then Some e
         else do {
           it \<leftarrow> item items ''payload'';
           let (ok, e) = enos_malloc env (cj_value_length it + 1) e;
           (if \<not> ok then Some e
            else do {
              block \<leftarrow> value_block it;
              (if user_callback ITE_MEASUREPOINT_SET e = None then Some e
               else do {
                 mid \<leftarrow> item items ''id'';
                 devid \<leftarrow> number items ''devid'';
                 (node, e) \<leftarrow> new_command env mid e;
                 Some (call_user env ITE_MEASUREPOINT_SET (Call_measurepoint_set devid block (cj_value_length it) node) e) }) }) }) })"

definition thing_reply_to_user ::
  "'w enos_env \<Rightarrow> byte list option \<Rightarrow> (byte list \<times> lite_cjson) list \<Rightarrow> 'w enos \<Rightarrow> 'w
      enos option" where
  "thing_reply_to_user env pl items e =
     (if pl = None then Some e
      else do {
        ok \<leftarrow> have_types items [(''id'', cJSON_Number), (''code'', cJSON_Number), (''devid'', cJSON_Number), (''eventid'',
            cJSON_String),
          (''payload'', cJSON_String)];
        (if \<not> ok then Some e
         else do {
           ev \<leftarrow> item items ''eventid'';
           it \<leftarrow> item items ''payload'';
           let (ok, e) = enos_malloc env (cj_value_length ev + 1) e;
           (if \<not> ok then Some e
            else do {
              user_eventid \<leftarrow> value_block ev;
              let (ok, e) = enos_malloc env (cj_value_length it + 1) e;
              (if \<not> ok then Some e
               else do {
                 user_payload \<leftarrow> value_block it;
                 devid \<leftarrow> number items ''devid'';
                 mid \<leftarrow> number items ''id'';
                 code \<leftarrow> number items ''code'';
                 Some (call_user env ITE_THING_REPLY
                   (Call_thing_reply devid mid code user_eventid (cj_value_length ev) user_payload (cj_value_length it)) e) }) }) }) })"

definition cloud_error_to_user ::
  "'w enos_env \<Rightarrow> byte list option \<Rightarrow> (byte list \<times> lite_cjson) list \<Rightarrow> 'w enos \<Rightarrow> 'w
      enos option" where
  "cloud_error_to_user env pl items e =
     (if pl = None then Some e
      else do {
        ok \<leftarrow> have_types items [(''code'', cJSON_Number)];
        (if \<not> ok then Some e
         else do {
           x \<leftarrow> item items ''data'';
           m \<leftarrow> item items ''message'';
           let (ok, e) = enos_malloc env (cj_value_length x + 1) e;
           (if \<not> ok then Some e
            else do {
              err_data \<leftarrow> value_block x;
              let (ok, e) = enos_malloc env (cj_value_length m + 1) e;
              (if \<not> ok then Some e
               else do {
                 err_detail \<leftarrow> value_block m;
                 code \<leftarrow> number items ''code'';
                 Some (call_user env ITE_CLOUD_ERROR (Call_cloud_error code err_data err_detail) e) }) }) }) })"

definition topo_list_to_user ::
  "'w enos_env \<Rightarrow> byte list option \<Rightarrow> (byte list \<times> lite_cjson) list \<Rightarrow> 'w enos \<Rightarrow> 'w
      enos option" where
  "topo_list_to_user env pl items e =
     (if pl = None then Some e
      else do {
        ok \<leftarrow> have_types items [(''id'', cJSON_Number), (''devid'', cJSON_Number), (''code'', cJSON_Number), (''topo'',
            cJSON_Array)];
        (if \<not> ok then Some e
         else do {
           it \<leftarrow> item items ''topo'';
           let (ok, e) = enos_malloc env (cj_value_length it + 1) e;
           (if \<not> ok then Some e
            else do {
              topo_list \<leftarrow> value_block it;
              devid \<leftarrow> number items ''devid'';
              mid \<leftarrow> number items ''id'';
              code \<leftarrow> number items ''code'';
              Some (call_user env ITE_TOPO_GET_REPLY (Call_topo_list devid mid code topo_list (cj_value_length it)) e) }) }) })"

definition answer_waiting :: "int \<Rightarrow> int \<Rightarrow> 'w enos \<Rightarrow> 'w enos option" where
  "answer_waiting msgid code e = map_option (\<lambda>l. e\<lparr>syncs := l\<rparr>) (upstream_callback_remove msgid code (syncs e))"

text \<open>Without a guard.\<close>

definition register_reply_to_user ::
  "'w enos_env \<Rightarrow> (byte list \<times> lite_cjson) list \<Rightarrow> 'w enos \<Rightarrow> 'w enos option" where
  "register_reply_to_user env items e = do {
     devid \<leftarrow> number items ''devid'';
     mid \<leftarrow> number items ''id'';
     code \<leftarrow> number items ''code'';
     answer_waiting mid code (call_user env ITE_DEVICE_REGISTER_REPLY (Call_register_reply devid mid code) e) }"

definition reply_to_waiting :: "byte list option \<Rightarrow> (byte list \<times> lite_cjson) list \<Rightarrow> 'w enos \<Rightarrow>
    'w enos option" where
  "reply_to_waiting pl items e =
     (if pl = None then Some e
      else do {
        ok \<leftarrow> have_types items [(''id'', cJSON_Number), (''devid'', cJSON_Number), (''code'', cJSON_Number)];
        mid \<leftarrow> number items ''id'';
        code \<leftarrow> number items ''code'';
        (if ok then answer_waiting mid code e else Some e) })"

definition deleted_to_user ::
  "'w enos_env \<Rightarrow> byte list option \<Rightarrow> (byte list \<times> lite_cjson) list \<Rightarrow> 'w enos \<Rightarrow> 'w
      enos option" where
  "deleted_to_user env pl items e =
     (if pl = None then Some e
      else do {
        ok \<leftarrow> have_types items [(''devid'', cJSON_Number)];
        devid \<leftarrow> number items ''devid'';
        pk \<leftarrow> item items ''productKey'';
        dk \<leftarrow> item items ''deviceKey'';
        Some (if ok then call_user env ITE_COMBINE_DELETE
                (Call_deleted devid (cj_value pk) (cj_value_length pk) (cj_value dk) (cj_value_length dk)) e else e) })"

text \<open>The reply to the login of a batch is not among the cases.\<close>

definition iotx_enos_event_callback :: "'w enos_env \<Rightarrow> int \<Rightarrow> byte list option \<Rightarrow> 'w enos \<Rightarrow>
    'w enos option" where
  "iotx_enos_event_callback env type pl e = do {
     items \<leftarrow> message_items (dme env) pl;
     (case items of
        None \<Rightarrow> Some e
      | Some items \<Rightarrow>
          if type = IOTX_DM_EVENT_CLOUD_CONNECTED then Some (call_user env ITE_CONNECT_SUCC Call_connection e)
          else if type = IOTX_DM_EVENT_CLOUD_DISCONNECT then Some (call_user env ITE_DISCONNECTED Call_connection e)
          else if type = IOTX_DM_EVENT_INITIALIZED then devid_to_user env ITE_INITIALIZE_COMPLETED pl items e
          else if type = IOTX_DM_EVENT_MODEL_DOWN_RAW then raw_data_to_user env False pl items e
          else if type = IOTX_DM_EVENT_MODEL_UP_RAW_REPLY then raw_data_to_user env True pl items e
          else if type = IOTX_DM_EVENT_THING_SERVICE_INVOKE then service_to_user env pl items e
          else if type = IOTX_DM_EVENT_MEASUREPOINT_SET then measurepoint_set_to_user env pl items e
          else if type = IOTX_DM_EVENT_THING_REPLY then thing_reply_to_user env pl items e
          else if type = IOTX_DM_EVENT_CLOUD_ERROR then cloud_error_to_user env pl items e
          else if type = IOTX_DM_EVENT_TOPO_GET_REPLY then topo_list_to_user env pl items e
          else if type = IOTX_DM_EVENT_SUBDEV_REGISTER_REPLY then register_reply_to_user env items e
          else if type \<in> {IOTX_DM_EVENT_TOPO_DELETE_REPLY, IOTX_DM_EVENT_TOPO_ADD_REPLY, IOTX_DM_EVENT_COMBINE_LOGIN_REPLY,
            IOTX_DM_EVENT_COMBINE_LOGOUT_REPLY} then reply_to_waiting pl items e
          else if type = IOTX_DM_EVENT_COMBINE_DISABLE then devid_to_user env ITE_COMBINE_DISABLE pl items e
          else if type = IOTX_DM_EVENT_COMBINE_ENABLE then devid_to_user env ITE_COMBINE_ENABLE pl items e
          else if type = IOTX_DM_EVENT_COMBINE_DELETE then deleted_to_user env pl items e
          else Some e) }"

end
