(* ===== verification/EnosApi.thy ===== *)
theory EnosApi
  imports EnosEvents
begin

text \<open>
  The functions the user calls, \<^verbatim>\<open>src/src/dev_model/impl_enos.c\<close>: opening, connecting, yielding and closing, the
  reports with those that wait for an answer, and the answers to commands.
\<close>

abbreviation (input) STATE_DEV_MODEL_MASTER_ALREADY_OPEN :: int where "STATE_DEV_MODEL_MASTER_ALREADY_OPEN \<equiv> - 0x901"
abbreviation (input) STATE_DEV_MODEL_MASTER_ALREADY_CONNECT :: int where "STATE_DEV_MODEL_MASTER_ALREADY_CONNECT \<equiv> - 0x902"
abbreviation (input) STATE_DEV_MODEL_MASTER_NOT_OPEN_YET :: int where "STATE_DEV_MODEL_MASTER_NOT_OPEN_YET \<equiv> - 0x903"
abbreviation (input) STATE_DEV_MODEL_MASTER_NOT_CONNECT_YET :: int where "STATE_DEV_MODEL_MASTER_NOT_CONNECT_YET \<equiv> - 0x904"
abbreviation (input) STATE_DEV_MODEL_GATEWAY_NOT_ENABLED :: int where "STATE_DEV_MODEL_GATEWAY_NOT_ENABLED \<equiv> - 0x91C"
abbreviation (input) STATE_DEV_MODEL_YIELD_STOPPED :: int where "STATE_DEV_MODEL_YIELD_STOPPED \<equiv> - 0x93C"
abbreviation (input) STATE_DEV_MODEL_YIELD_RUNNING :: int where "STATE_DEV_MODEL_YIELD_RUNNING \<equiv> - 0x93D"
abbreviation (input) STATE_USER_INPUT_META_INFO :: int where "STATE_USER_INPUT_META_INFO \<equiv> - 0x10F"
abbreviation (input) STATE_USER_INPUT_DEVICE_TYPE :: int where "STATE_USER_INPUT_DEVICE_TYPE \<equiv> - 0x111"
abbreviation (input) STATE_USER_INPUT_MSG_TYPE :: int where "STATE_USER_INPUT_MSG_TYPE \<equiv> - 0x112"
abbreviation (input) STATE_SYS_DEPEND_SEMAPHORE_CREATE :: int where "STATE_SYS_DEPEND_SEMAPHORE_CREATE \<equiv> - 0x20C"
abbreviation (input) STATE_SYS_DEPEND_SEMAPHORE_WAIT :: int where "STATE_SYS_DEPEND_SEMAPHORE_WAIT \<equiv> - 0x20D"

section \<open>Opening\<close>

text \<open>The four arrays of the description of a device.\<close>

record dev_meta =
  mi_product_key :: "byte list"
  mi_product_secret :: "byte list"
  mi_device_key :: "byte list"
  mi_device_secret :: "byte list"

definition set_setting :: "iotx_ioctl_option \<Rightarrow> byte list \<Rightarrow> 'w dm \<Rightarrow> 'w dm option" where
  "set_setting opt mem d =
     (let a = cm_api (dm_cm d)
      in do {
        (_, _, s) \<leftarrow> IOT_Ioctl (\<lambda>_ _. 0) (\<lambda>_ _. 0) opt (Some (Data_mem mem)) (settings (api_sys a));
        Some (d\<lparr>dm_cm := (dm_cm d)\<lparr>cm_api := a\<lparr>api_sys := (api_sys a)\<lparr>settings :=
            s\<rparr>\<rparr>\<rparr>\<rparr>) })"

definition set_settings :: "dev_meta \<Rightarrow> 'w dm \<Rightarrow> 'w dm option" where
  "set_settings m d = do {
     d \<leftarrow> set_setting IOTX_IOCTL_SET_PRODUCT_KEY (mi_product_key m) d;
     d \<leftarrow> set_setting IOTX_IOCTL_SET_PRODUCT_SECRET (mi_product_secret m) d;
     d \<leftarrow> set_setting IOTX_IOCTL_SET_DEVICE_KEY (mi_device_key m) d;
     set_setting IOTX_IOCTL_SET_DEVICE_SECRET (mi_device_secret m) d }"

definition new_mutex :: "'w enos_env \<Rightarrow> 'w enos \<Rightarrow> bool \<times> 'w enos" where
  "new_mutex env e =
     (let (ok, w) = HAL_MutexCreate (dmq (dme env)) (dm_world (edm e)) in (ok, e\<lparr>edm := set_dm_world w (edm e)\<rparr>))"

definition iotx_enos_master_open :: "'w enos_env \<Rightarrow> dev_meta \<Rightarrow> 'w enos \<Rightarrow> (int \<times> 'w enos)
    option" where
  "iotx_enos_master_open env m e =
     (if is_opened e then Some (STATE_DEV_MODEL_MASTER_ALREADY_OPEN, e)
      else do {
        d \<leftarrow> set_settings m (edm e);
        let (ok, e) = new_mutex env (e\<lparr>edm := d\<rparr>);
        (if \<not> ok then Some (STATE_SYS_DEPEND_MUTEX_CREATE, e\<lparr>enos_mutex := Mutex_null\<rparr>)
         else let (ok, e) = new_mutex env (e\<lparr>enos_mutex := Mutex_live\<rparr>)
           in if \<not> ok then Some (STATE_SYS_DEPEND_MUTEX_CREATE, e\<lparr>enos_mutex := Mutex_gone, upstream_mutex :=
               Mutex_null\<rparr>)
              else let (ok, e) = new_mutex env (e\<lparr>upstream_mutex := Mutex_live\<rparr>)
                in if \<not> ok then Some (STATE_SYS_DEPEND_MUTEX_CREATE,
                       e\<lparr>enos_mutex := Mutex_gone, upstream_mutex := Mutex_gone, command_list_mutex := Mutex_null\<rparr>)
                   else do {
                     let e = e\<lparr>command_list_mutex := Mutex_live, commands := (commands e)\<lparr>command_list_num := 0\<rparr>,
                         dm_event_cb := False\<rparr>;
                     (res, d) \<leftarrow> iotx_dm_open (dme env) (yield_threads_leave env) (edm e);
                     let e = e\<lparr>edm := d\<rparr>;
                     Some (if res \<noteq> STATE_SUCCESS
                           then (res, e\<lparr>enos_mutex := Mutex_gone, upstream_mutex := Mutex_gone, command_list_mutex :=
                               Mutex_gone\<rparr>)
                           else (STATE_SUCCESS, e\<lparr>is_opened := True, syncs := (syncs e)\<lparr>upstream_sync_callback_list :=
                               []\<rparr>,
                             commands := (commands e)\<lparr>downstream_command_list := []\<rparr>\<rparr>)) }) })"

text \<open>The new device's number, or the error.\<close>

definition iotx_enos_slave_open :: "'w enos_env \<Rightarrow> dev_meta \<Rightarrow> 'w enos \<Rightarrow> (int \<times> 'w enos) option"
    where
  "iotx_enos_slave_open env m e =
     (if \<not> is_opened e then Some (STATE_DEV_MODEL_MASTER_NOT_OPEN_YET, e)
      else do {
        pk \<leftarrow> c_str (mi_product_key m);
        ps \<leftarrow> c_str (mi_product_secret m);
        dk \<leftarrow> c_str (mi_device_key m);
        ds \<leftarrow> c_str (mi_device_secret m);
        let (res, devid, d) = iotx_dm_subdev_create (dme env) (Some pk) (Some ps) (Some dk) (Some ds) (Some 0) (edm e);
        devid \<leftarrow> devid;
        Some (if res < 0 then res else devid, e\<lparr>edm := d\<rparr>) })"

datatype dev_type = IOTX_ENOS_DEV_TYPE_MASTER | IOTX_ENOS_DEV_TYPE_SLAVE | IOTX_ENOS_DEV_TYPE_MAX

definition IOT_EnOS_Open :: "'w enos_env \<Rightarrow> dev_type \<Rightarrow> dev_meta option \<Rightarrow> 'w enos \<Rightarrow> (int
    \<times> 'w enos) option" where
  "IOT_EnOS_Open env dev_type meta_info e =
     (case meta_info of
        None \<Rightarrow> Some (STATE_USER_INPUT_META_INFO, e)
      | Some m \<Rightarrow>
          (case dev_type of
             IOTX_ENOS_DEV_TYPE_MASTER \<Rightarrow> do {
               (res, e) \<leftarrow> iotx_enos_master_open env m e;
               Some (if res = STATE_SUCCESS then IOTX_DM_LOCAL_NODE_DEVID else res, e) }
           | IOTX_ENOS_DEV_TYPE_SLAVE \<Rightarrow> iotx_enos_slave_open env m e
           | IOTX_ENOS_DEV_TYPE_MAX \<Rightarrow> Some (STATE_USER_INPUT_DEVICE_TYPE, e)))"

section \<open>Connecting\<close>

definition enos_connect_subscribed :: "'w enos_env \<Rightarrow> 'w enos \<Rightarrow> (int \<times> 'w enos) option" where
  "enos_connect_subscribed env e = do {
     e \<leftarrow> iotx_enos_event_callback env IOTX_DM_EVENT_INITIALIZED (Some (ascii ''{\"devid\":0}'')) e;
     Some (STATE_SUCCESS, e\<lparr>yield_running := True\<rparr>) }"

definition iotx_enos_master_connect :: "'w enos_env \<Rightarrow> 'w enos \<Rightarrow> (int \<times> 'w enos) option" where
  "iotx_enos_master_connect env e =
     (if is_connected e then Some (STATE_DEV_MODEL_MASTER_ALREADY_CONNECT, e)
      else do {
        (res, cb, d) \<leftarrow> iotx_dm_connect (dme env) True (dm_event_cb e, edm e);
        let e = e\<lparr>is_connected := True, dm_event_cb := cb, edm := d\<rparr>;
        (if res \<noteq> STATE_SUCCESS then Some (res, e\<lparr>is_connected := False\<rparr>)
         else do {
           (res, d) \<leftarrow> iotx_dm_subscribe (dme env) IOTX_DM_LOCAL_NODE_DEVID (edm e);
           let e = e\<lparr>edm := d\<rparr>;
           (if res \<noteq> STATE_SUCCESS then Some (res, e\<lparr>is_connected := False\<rparr>)
            else enos_connect_subscribed env e) }) })"

text \<open>Locking a mutex that has been destroyed is undefined; a null one is not locked.\<close>

definition locked :: "('w enos \<Rightarrow> 'a option) \<Rightarrow> 'w enos \<Rightarrow> 'a option" where
  "locked f e = (if enos_mutex e = Mutex_gone then None else f e)"

definition IOT_EnOS_Connect :: "'w enos_env \<Rightarrow> int \<Rightarrow> 'w enos \<Rightarrow> (int \<times> 'w enos) option" where
  "IOT_EnOS_Connect env devid e =
     (if devid < 0 then Some (STATE_USER_INPUT_INVALID, e)
      else if \<not> is_opened e then Some (STATE_DEV_MODEL_MASTER_NOT_OPEN_YET, e)
      else locked (\<lambda>e. if devid = IOTX_DM_LOCAL_NODE_DEVID then iotx_enos_master_connect env e
                        else Some (STATE_DEV_MODEL_GATEWAY_NOT_ENABLED, e)) e)"

section \<open>Work\<close>

text \<open>The dispatch loop, with the callback at the top.\<close>

fun enos_dispatch_loop :: "'w enos_env \<Rightarrow> nat \<Rightarrow> 'w enos \<Rightarrow> 'w enos option" where
  "enos_dispatch_loop env 0 e = Some e"
| "enos_dispatch_loop env (Suc n) e =
     (case dm_ipc_msg_next (dm_queue (edm e)) of
        (_, None, q) \<Rightarrow> Some (e\<lparr>edm := (edm e)\<lparr>dm_queue := q\<rparr>\<rparr>)
      | (_, Some m, q) \<Rightarrow> do {
          let e = e\<lparr>edm := (edm e)\<lparr>dm_queue := q\<rparr>\<rparr>;
          e \<leftarrow> (if dm_event_cb e then iotx_enos_event_callback env (ipc_type m) (ipc_data m) e else Some e);
          enos_dispatch_loop env n e })"

definition enos_timeouts :: "'w enos_env \<Rightarrow> 'w enos \<Rightarrow> 'w enos" where
  "enos_timeouts env e =
     (let d = edm e;
          (c, q, w) = dm_msg_cache_tick (dmq (dme env)) (dm_cache d) (dm_queue d) (dm_world d);
          (l, w) = iotx_enos_service_list_overtime_handle (dmq (dme env)) (commands e) w
      in e\<lparr>commands := l, edm := set_dm_world w (d\<lparr>dm_cache := c, dm_queue := q\<rparr>)\<rparr>)"

definition iotx_dm_dispatch :: "'w enos_env \<Rightarrow> 'w enos \<Rightarrow> 'w enos option" where
  "iotx_dm_dispatch env e = enos_dispatch_loop env CONFIG_DISPATCH_QUEUE_MAXLEN (enos_timeouts env e)"

definition enos_sleep :: "'w enos_env \<Rightarrow> int \<Rightarrow> 'w enos \<Rightarrow> 'w enos" where
  "enos_sleep env ms e =
     e\<lparr>edm := set_dm_world (HAL_SleepMs (dmq (dme env)) (word_of_int ms) (dm_world (edm e))) (edm e)\<rparr>"

text \<open>\<^verbatim>\<open>is_yield_running\<close> is set while the function works.\<close>

definition IOT_EnOS_Yield :: "'w enos_env \<Rightarrow> int \<Rightarrow> 'w enos \<Rightarrow> (int \<times> 'w enos) option" where
  "IOT_EnOS_Yield env timeout_ms e =
     (if \<not> yield_running e then Some (STATE_DEV_MODEL_YIELD_STOPPED, enos_sleep env timeout_ms e)
      else let e = e\<lparr>is_yield_running := True\<rparr>
        in if timeout_ms \<le> 0 then Some (STATE_USER_INPUT_INVALID, e\<lparr>is_yield_running := False\<rparr>)
           else if \<not> is_opened e \<or> \<not> is_connected e then Some (STATE_DEV_MODEL_MASTER_NOT_CONNECT_YET,
               e\<lparr>is_yield_running := False\<rparr>)
           else do {
             (res, d) \<leftarrow> iotx_dm_yield timeout_ms (edm e);
             e \<leftarrow> iotx_dm_dispatch env (e\<lparr>edm := d\<rparr>);
             Some (res, (enos_sleep env timeout_ms e)\<lparr>is_yield_running := False\<rparr>) })"

section \<open>Closing\<close>

definition enos_zero :: "'w dm \<Rightarrow> sync_list \<Rightarrow> command_list \<Rightarrow> 'w enos" where
  "enos_zero d s l = \<lparr>edm = d, dm_event_cb = False, enos_mutex = Mutex_null, upstream_mutex = Mutex_null, command_list_mutex =
      Mutex_null,
     is_opened = False, is_connected = False, is_yield_running = False, yield_running = False,
     syncs = s\<lparr>upstream_sync_callback_list := []\<rparr>, commands = enos_service_list_destroy l\<rparr>"

text \<open>The callback of the device model is not cleared; opening clears it.\<close>

definition iotx_enos_master_close :: "'w enos_env \<Rightarrow> 'w enos \<Rightarrow> (int \<times> 'w enos) option" where
  "iotx_enos_master_close env e =
     (let e = e\<lparr>yield_running := False\<rparr>
      in if is_yield_running e then Some (STATE_DEV_MODEL_YIELD_RUNNING, e)
         else locked (\<lambda>e.
           if \<not> is_opened e then Some (STATE_DEV_MODEL_MASTER_NOT_OPEN_YET, e)
           else do {
             (_, d) \<leftarrow> iotx_dm_close (dme env) (yield_threads_leave env) (edm e);
             s \<leftarrow> sync_callback_list_destroy (syncs e);
             Some (STATE_SUCCESS, (enos_zero d s (commands e))\<lparr>dm_event_cb := dm_event_cb e\<rparr>) }) e)"

definition iotx_enos_slave_close :: "'w enos_env \<Rightarrow> int \<Rightarrow> 'w enos \<Rightarrow> (int \<times> 'w enos) option" where
  "iotx_enos_slave_close env devid = locked (\<lambda>e.
     if \<not> is_opened e then Some (STATE_DEV_MODEL_MASTER_NOT_OPEN_YET, e)
     else do {
       (_, d) \<leftarrow> iotx_dm_subdev_destroy (dme env) devid (edm e);
       Some (STATE_SUCCESS, e\<lparr>edm := d\<rparr>) })"

definition IOT_EnOS_Close :: "'w enos_env \<Rightarrow> int \<Rightarrow> 'w enos \<Rightarrow> (int \<times> 'w enos) option" where
  "IOT_EnOS_Close env devid e =
     (if devid < 0 then Some (STATE_USER_INPUT_DEVID, e)
      else if devid = IOTX_DM_LOCAL_NODE_DEVID then iotx_enos_master_close env e
      else iotx_enos_slave_close env devid e)"

section \<open>Calls that wait for the cloud\<close>

text \<open>
  Five kinds of report send a request and wait for the answer to it. The first half runs to the wait, the second after it;
  between the halves the other thread dispatches. The mutex of the context is held all the time.
\<close>

datatype msg_type =
    ITM_MSG_QUERY_TAG | ITM_MSG_UPDATE_TAG | ITM_MSG_DELETE_TAG
  | ITM_MSG_QUERY_ATTRIBUTE | ITM_MSG_UPDATE_ATTRIBUTE | ITM_MSG_DELETE_ATTRIBUTE
  | ITM_MSG_POST_MEASUREPOINT | ITM_MSG_POST_MEASUREPOINT_BATCH | ITM_MSG_POST_EVENT
  | ITM_MSG_RESUME_MEASUREPOINT | ITM_MSG_RESUME_MEASUREPOINT_BATCH | ITM_MSG_POST_RAW_DATA
  | ITM_MSG_REGISTER | ITM_MSG_LOGIN | ITM_MSG_LOGOUT | ITM_MSG_LOGIN_BATCH | ITM_MSG_ADD_TOPO | ITM_MSG_DELETE_TOPO | ITM_MSG_GET_TOPO
  | ITM_MSG_REPORT_SUBDEV_FIRMWARE_VERSION | ITM_MSG_MEASUREPOINT_RESUME_DATA | IOTX_ENOS_MSG_MAX

record waiting =
  wt_type :: msg_type
  wt_devid :: int
  wt_msgid :: int
  wt_node :: nat
  wt_semaphore :: nat

text \<open>\<open>Inl\<close>: the call has returned. \<open>Inr\<close>: it waits.\<close>

definition sync_begin ::
  "'w enos_env \<Rightarrow> msg_type \<Rightarrow> int \<Rightarrow> ('w dm \<Rightarrow> (int \<times> 'w dm) option) \<Rightarrow> 'w
      enos \<Rightarrow> ((int + waiting) \<times> 'w enos) option" where
  "sync_begin env type devid send e = do {
     (res, d) \<leftarrow> send (edm e);
     let e = e\<lparr>edm := d\<rparr>;
     (if res < STATE_SUCCESS then Some (Inl res, e)
      else let msgid = res;
               (sem, l, w) = semaphore_create (sync_env.truncate env) (syncs e) (dm_world (edm e));
               e = e\<lparr>syncs := l, edm := set_dm_world w (edm e)\<rparr>
        in case sem of
             None \<Rightarrow> Some (Inl STATE_SYS_DEPEND_SEMAPHORE_CREATE, e)
           | Some sem \<Rightarrow>
               let (res, node, l, w) = sync_callback_list_insert (dmq (dme env)) (sync_env.truncate env) msgid sem (syncs e) (dm_world
                   (edm e));
                   e = e\<lparr>syncs := l, edm := set_dm_world w (edm e)\<rparr>
               in case node of
                    None \<Rightarrow> do { l \<leftarrow> semaphore_destroy sem (syncs e); Some (Inl res, e\<lparr>syncs := l\<rparr>) }
                  | Some a \<Rightarrow> Some (Inr \<lparr>wt_type = type, wt_devid = devid, wt_msgid = msgid, wt_node = a, wt_semaphore
                      = sem\<rparr>, e)) }"

text \<open>
  After the wait: the request leaves the list, and the code that was put into it decides. \<open>on_timeout\<close> is what the call
  makes of a wait that failed. Reading a node that is gone is undefined.
\<close>

definition sync_end :: "(int \<Rightarrow> int) \<Rightarrow> bool \<Rightarrow> waiting \<Rightarrow> 'w enos \<Rightarrow> (int
    \<times> 'w enos) option" where
  "sync_end on_timeout timed_out k e = do {
     (res, l) \<leftarrow> semaphore_wait_ends timed_out (wt_semaphore k) (syncs e);
     (if res < STATE_SUCCESS then do {
        (_, l) \<leftarrow> sync_callback_list_remove (wt_msgid k) l;
        Some (on_timeout res, e\<lparr>syncs := l\<rparr>) }
      else do {
        n \<leftarrow> List.find (\<lambda>n. sy_addr n = wt_node k) (upstream_sync_callback_list l);
        (_, l) \<leftarrow> sync_callback_list_remove (wt_msgid k) l;
        Some (if sy_code n \<noteq> STATE_SUCCESS then STATE_DEV_MODEL_REFUSED_BY_CLOUD else STATE_SUCCESS, e\<lparr>syncs := l\<rparr>)
            }) }"

definition subscribe_and_tell :: "'w enos_env \<Rightarrow> int \<Rightarrow> int \<times> 'w enos \<Rightarrow> (int \<times> 'w enos)
    option" where
  "subscribe_and_tell env devid = (\<lambda>(res, e).
     if res \<noteq> STATE_SUCCESS then Some (res, e)
     else do {
       (res, d) \<leftarrow> iotx_dm_subscribe (dme env) devid (edm e);
       let e = e\<lparr>edm := d\<rparr>;
       Some (if res \<noteq> STATE_SUCCESS then (res, e)
             else (STATE_SUCCESS, call_user env ITE_INITIALIZE_COMPLETED (Call_device devid) e)) })"

definition subdev_login_begin :: "'w enos_env \<Rightarrow> int \<Rightarrow> 'w enos \<Rightarrow> ((int + waiting) \<times> 'w enos)
    option" where
  "subdev_login_begin env devid = sync_begin env ITM_MSG_LOGIN devid (iotx_dm_subdev_login (dme env) devid)"

definition subdev_login_end :: "'w enos_env \<Rightarrow> bool \<Rightarrow> waiting \<Rightarrow> 'w enos \<Rightarrow> (int \<times> 'w
    enos) option" where
  "subdev_login_end env timed_out k e =
     Option.bind (sync_end (\<lambda>res. res) timed_out k e) (subscribe_and_tell env (wt_devid k))"

definition subdev_login_batch_begin :: "'w enos_env \<Rightarrow> int \<Rightarrow> int list \<Rightarrow> 'w enos \<Rightarrow> ((int +
    waiting) \<times> 'w enos) option" where
  "subdev_login_batch_begin env devid sub_devids =
     sync_begin env ITM_MSG_LOGIN_BATCH devid (iotx_dm_subdev_login_batch (dme env) (uninit_credential env) devid sub_devids)"

definition subdev_login_batch_end :: "'w enos_env \<Rightarrow> bool \<Rightarrow> waiting \<Rightarrow> 'w enos \<Rightarrow> (int
    \<times> 'w enos) option" where
  "subdev_login_batch_end env timed_out k e =
     Option.bind (sync_end (\<lambda>res. res) timed_out k e) (subscribe_and_tell env (wt_devid k))"

definition subdev_logout_begin :: "'w enos_env \<Rightarrow> int \<Rightarrow> 'w enos \<Rightarrow> ((int + waiting) \<times> 'w enos)
    option" where
  "subdev_logout_begin env devid = sync_begin env ITM_MSG_LOGOUT devid (iotx_dm_subdev_logout (dme env) devid)"

definition subdev_logout_end :: "bool \<Rightarrow> waiting \<Rightarrow> 'w enos \<Rightarrow> (int \<times> 'w enos) option" where
  "subdev_logout_end = sync_end (\<lambda>_. STATE_SYS_DEPEND_SEMAPHORE_WAIT)"

definition topo_call_begin ::
  "'w enos_env \<Rightarrow> msg_type \<Rightarrow> int \<Rightarrow> ('w dm \<Rightarrow> (int \<times> 'w dm) option) \<Rightarrow> 'w
      enos \<Rightarrow> ((int + waiting) \<times> 'w enos) option" where
  "topo_call_begin env type devid send e =
     (if \<not> is_connected e then Some (Inl STATE_DEV_MODEL_MASTER_NOT_CONNECT_YET, e)
      else if devid \<le> 0 then Some (Inl STATE_USER_INPUT_DEVID, e)
      else sync_begin env type devid send e)"

definition subdev_add_topo_begin :: "'w enos_env \<Rightarrow> int \<Rightarrow> 'w enos \<Rightarrow> ((int + waiting) \<times> 'w enos)
    option" where
  "subdev_add_topo_begin env devid = topo_call_begin env ITM_MSG_ADD_TOPO devid (iotx_dm_subdev_topo_add (dme env) devid)"

definition subdev_add_topo_end :: "bool \<Rightarrow> waiting \<Rightarrow> 'w enos \<Rightarrow> (int \<times> 'w enos) option" where
  "subdev_add_topo_end = sync_end (\<lambda>_. STATE_SYS_DEPEND_SEMAPHORE_WAIT)"

definition subdev_delete_topo_begin :: "'w enos_env \<Rightarrow> int \<Rightarrow> 'w enos \<Rightarrow> ((int + waiting) \<times> 'w
    enos) option" where
  "subdev_delete_topo_begin env devid = topo_call_begin env ITM_MSG_DELETE_TOPO devid (iotx_dm_subdev_topo_del (dme env) devid)"

definition subdev_delete_topo_end :: "bool \<Rightarrow> waiting \<Rightarrow> 'w enos \<Rightarrow> (int \<times> 'w enos) option" where
  "subdev_delete_topo_end = sync_end (\<lambda>_. STATE_SYS_DEPEND_SEMAPHORE_WAIT)"

section \<open>Reports\<close>

definition g_msg_type_method_map :: "(msg_type \<times> byte list) list" where
  "g_msg_type_method_map = map (map_prod (\<lambda>t. t) ascii)
     [(ITM_MSG_QUERY_TAG, ''thing.tag.query''), (ITM_MSG_UPDATE_TAG, ''thing.tag.update''), (ITM_MSG_DELETE_TAG, ''thing.tag.delete''),
      (ITM_MSG_QUERY_ATTRIBUTE, ''thing.attribute.query''), (ITM_MSG_UPDATE_ATTRIBUTE, ''thing.attribute.update''),
      (ITM_MSG_DELETE_ATTRIBUTE, ''thing.attribute.delete''),
      (ITM_MSG_RESUME_MEASUREPOINT, ''thing.measurepoint.resume''),
      (ITM_MSG_RESUME_MEASUREPOINT_BATCH, ''thing.measurepoint.resume.batch''),
      (ITM_MSG_POST_MEASUREPOINT, ''thing.measurepoint.post''), (ITM_MSG_POST_MEASUREPOINT_BATCH, ''thing.measurepoint.post.batch''),
      (ITM_MSG_REGISTER, ''thing.device.register'')]"

definition iotx_enos_get_method :: "msg_type \<Rightarrow> byte list option" where
  "iotx_enos_get_method type = map_of g_msg_type_method_map type"

text \<open>The payload of a report is text, or an array of numbers for the login of a batch.\<close>

datatype report_data = Report_text "byte list option" int | Report_devids "int list"

definition returns :: "'w enos \<Rightarrow> (int \<times> 'w dm) option \<Rightarrow> ((int + waiting) \<times> 'w enos) option" where
  "returns e r = map_option (\<lambda>(res, d). (Inl res, e\<lparr>edm := d\<rparr>)) r"

definition with_text ::
  "report_data \<Rightarrow> 'w enos \<Rightarrow> (byte list option \<Rightarrow> int \<Rightarrow> (int \<times> 'w dm) option)
      \<Rightarrow> ((int + waiting) \<times> 'w enos) option" where
  "with_text x e f =
     (case x of
        Report_text pl pl_len \<Rightarrow>
          if pl = None \<or> pl_len \<le> 0 then Some (Inl STATE_USER_INPUT_INVALID, e) else returns e (f pl pl_len)
      | Report_devids _ \<Rightarrow> None)"

definition IOT_EnOS_Report_begin ::
  "'w enos_env \<Rightarrow> int \<Rightarrow> msg_type \<Rightarrow> report_data \<Rightarrow> 'w enos \<Rightarrow> ((int + waiting)
      \<times> 'w enos) option" where
  "IOT_EnOS_Report_begin env devid type x e =
     (if devid < 0 then Some (Inl STATE_USER_INPUT_DEVID, e)
      else if type = IOTX_ENOS_MSG_MAX then Some (Inl STATE_USER_INPUT_MSG_TYPE, e)
      else if \<not> is_opened e \<or> \<not> is_connected e then Some (Inl STATE_DEV_MODEL_MASTER_NOT_CONNECT_YET, e)
      else locked (\<lambda>e.
        if type \<in> {ITM_MSG_QUERY_TAG, ITM_MSG_UPDATE_TAG, ITM_MSG_DELETE_TAG, ITM_MSG_QUERY_ATTRIBUTE, ITM_MSG_UPDATE_ATTRIBUTE,
          ITM_MSG_DELETE_ATTRIBUTE, ITM_MSG_RESUME_MEASUREPOINT, ITM_MSG_RESUME_MEASUREPOINT_BATCH, ITM_MSG_POST_MEASUREPOINT,
          ITM_MSG_POST_MEASUREPOINT_BATCH, ITM_MSG_REGISTER}
        then with_text x e (\<lambda>pl pl_len. iotx_dm_upstream_common (dme env) devid pl pl_len (iotx_enos_get_method type) (edm e))
        else case type of
            ITM_MSG_POST_RAW_DATA \<Rightarrow> with_text x e (\<lambda>pl pl_len. iotx_dm_post_rawdata (dme env) devid pl pl_len (edm e))
          | ITM_MSG_LOGIN \<Rightarrow> subdev_login_begin env devid e
          | ITM_MSG_LOGIN_BATCH \<Rightarrow> (case x of Report_devids ds \<Rightarrow> subdev_login_batch_begin env devid ds e | _
              \<Rightarrow> None)
          | ITM_MSG_LOGOUT \<Rightarrow> subdev_logout_begin env devid e
          | ITM_MSG_ADD_TOPO \<Rightarrow> subdev_add_topo_begin env devid e
          | ITM_MSG_DELETE_TOPO \<Rightarrow> subdev_delete_topo_begin env devid e
          | ITM_MSG_GET_TOPO \<Rightarrow> returns e (iotx_dm_topo_get (dme env) (edm e))
          | ITM_MSG_MEASUREPOINT_RESUME_DATA \<Rightarrow> with_text x e (\<lambda>pl pl_len. iotx_dm_resume_measurepoint (dme env) devid
              pl pl_len (edm e))
          | _ \<Rightarrow> Some (Inl STATE_USER_INPUT_MSG_TYPE, e)) e)"

definition IOT_EnOS_Report_end :: "'w enos_env \<Rightarrow> bool \<Rightarrow> waiting \<Rightarrow> 'w enos \<Rightarrow> (int \<times>
    'w enos) option" where
  "IOT_EnOS_Report_end env timed_out k e =
     (case wt_type k of
        ITM_MSG_LOGIN \<Rightarrow> subdev_login_end env timed_out k e
      | ITM_MSG_LOGIN_BATCH \<Rightarrow> subdev_login_batch_end env timed_out k e
      | ITM_MSG_LOGOUT \<Rightarrow> subdev_logout_end timed_out k e
      | ITM_MSG_ADD_TOPO \<Rightarrow> subdev_add_topo_end timed_out k e
      | _ \<Rightarrow> subdev_delete_topo_end timed_out k e)"

section \<open>Queries, events and answers\<close>

definition on_dm :: "'w enos \<Rightarrow> (int \<times> 'w dm) option \<Rightarrow> (int \<times> 'w enos) option" where
  "on_dm e r = map_option (\<lambda>(res, d). (res, e\<lparr>edm := d\<rparr>)) r"

definition IOT_EnOS_Query :: "'w enos_env \<Rightarrow> int \<Rightarrow> msg_type \<Rightarrow> 'w enos \<Rightarrow> (int \<times> 'w
    enos) option" where
  "IOT_EnOS_Query env devid type e =
     (if devid < 0 \<or> type = IOTX_ENOS_MSG_MAX then Some (STATE_USER_INPUT_INVALID, e)
      else if \<not> is_opened e \<or> \<not> is_connected e then Some (STATE_DEV_MODEL_MASTER_NOT_CONNECT_YET, e)
      else locked (\<lambda>e. if type = ITM_MSG_GET_TOPO then on_dm e (iotx_dm_topo_get (dme env) (edm e))
                        else Some (STATE_USER_INPUT_MSG_TYPE, e)) e)"

definition IOT_EnOS_TriggerEvent ::
  "'w enos_env \<Rightarrow> int \<Rightarrow> byte list option \<Rightarrow> int \<Rightarrow> byte list option \<Rightarrow> int
      \<Rightarrow> 'w enos \<Rightarrow> (int \<times> 'w enos) option" where
  "IOT_EnOS_TriggerEvent env devid eventid eventid_len pl pl_len e =
     (if devid < 0 \<or> eventid = None \<or> eventid_len \<le> 0 \<or> pl = None \<or> pl_len \<le> 0 then Some
         (STATE_USER_INPUT_INVALID, e)
      else if \<not> is_opened e \<or> \<not> is_connected e then Some (STATE_DEV_MODEL_MASTER_NOT_CONNECT_YET, e)
      else locked (\<lambda>e. on_dm e (iotx_dm_post_event (dme env) devid eventid eventid_len pl pl_len (edm e))) e)"

datatype command_type = IOTX_COMMAND_MEASUREPOINT_SET | IOTX_COMMAND_SERVICE_INVOKE

text \<open>The number of the command as a string in 32 bytes of zeros.\<close>

definition command_number :: "command_node \<Rightarrow> byte list option" where
  "command_number n = do { block \<leftarrow> mem_copy (cmd_msgid n) (int (length (cmd_msgid n))) (replicate 32 0); c_str block }"

definition IOT_EnOS_CommandReply ::
  "'w enos_env \<Rightarrow> int \<Rightarrow> command_type \<Rightarrow> byte list option \<Rightarrow> int \<Rightarrow> byte list
      option \<Rightarrow> int \<Rightarrow> nat option \<Rightarrow> 'w enos \<Rightarrow>
   (int \<times> 'w enos) option" where
  "IOT_EnOS_CommandReply env devid type serviceid serviceid_len pl pl_len p_command_ctx e =
     (case p_command_ctx of
        None \<Rightarrow> Some (STATE_USER_INPUT_INVALID, e)
      | Some node \<Rightarrow>
          if devid < 0 \<or> (type = IOTX_COMMAND_SERVICE_INVOKE \<and> (serviceid = None \<or> serviceid_len = 0)) \<or> pl = None \<or>
              pl_len = 0
          then Some (STATE_USER_INPUT_INVALID, e)
          else if \<not> is_opened e \<or> \<not> is_connected e then Some (STATE_DEV_MODEL_MASTER_NOT_CONNECT_YET, e)
          else if enos_command_list_search node (commands e) \<noteq> STATE_SUCCESS then Some (STATE_DEV_MODEL_SERVICE_CTX_NOT_EXIST, e)
          else do {
               n \<leftarrow> List.find (\<lambda>n. cmd_addr n = node) (downstream_command_list (commands e));
               msgid \<leftarrow> command_number n;
               (res, d) \<leftarrow>
                 (if type = IOTX_COMMAND_MEASUREPOINT_SET
                  then iotx_dm_send_measurepoint_set_response (dme env) devid (Some (msgid @ [0])) (int (length msgid))
                         IOTX_DM_ERR_CODE_SUCCESS pl pl_len (cmd_service_ctx n) (edm e)
                  else iotx_dm_send_service_invoke_response (dme env) devid (Some (msgid @ [0])) (int (length msgid))
                         IOTX_DM_ERR_CODE_SUCCESS serviceid serviceid_len pl pl_len (cmd_service_ctx n) (edm e));
               Some (res, e\<lparr>edm := d, commands := snd (enos_command_list_delete node (commands e))\<rparr>) })"

definition iot_enos_subdev_query_id :: "byte list \<Rightarrow> byte list \<Rightarrow> 'w enos \<Rightarrow> int" where
  "iot_enos_subdev_query_id pk dk e =
     (if \<not> is_opened e then STATE_DEV_MODEL_MASTER_NOT_OPEN_YET
      else case iotx_dm_subdev_query pk dk (Some (- 1)) (edm e) of (_, Some i) \<Rightarrow> i | (_, None) \<Rightarrow> - 1)"

end
