(* ===== verification/EnosSync.thy ===== *)
theory EnosSync
  imports EnosApi DmText
begin

text \<open>
  The reports that wait for the cloud, against the other thread that dispatches the answers
  (\<^verbatim>\<open>src/src/dev_model/impl_enos.c\<close>): which messages answer a request, what the list of waiting requests
  holds at every moment, and what the waiting call makes of it.
\<close>

section \<open>Which messages answer a request\<close>

text \<open>The number and the code a message of the queue carries for a request that waits.\<close>

definition replies :: "bool \<Rightarrow> (byte list \<times> lite_cjson) list \<Rightarrow> (int \<times> int) option" where
  "replies guarded items = do {
     mid \<leftarrow> number items ''id'';
     code \<leftarrow> number items ''code'';
     ok \<leftarrow> (if guarded then have_types items [(''id'', cJSON_Number), (''devid'', cJSON_Number), (''code'', cJSON_Number)] else
         Some True);
     (if ok then Some (mid, code) else None) }"

definition answer_of :: "'w enos_env \<Rightarrow> ipc_msg \<Rightarrow> (int \<times> int) option" where
  "answer_of env m =
     (case message_items (dme env) (ipc_data m) of
        Some (Some items) \<Rightarrow>
          if ipc_type m = IOTX_DM_EVENT_SUBDEV_REGISTER_REPLY then replies False items
          else if ipc_type m \<in> {IOTX_DM_EVENT_TOPO_DELETE_REPLY, IOTX_DM_EVENT_TOPO_ADD_REPLY, IOTX_DM_EVENT_COMBINE_LOGIN_REPLY,
            IOTX_DM_EVENT_COMBINE_LOGOUT_REPLY} \<and> ipc_data m \<noteq> None then replies True items
          else None
      | _ \<Rightarrow> None)"

declare have_types.simps [simp del]

lemma frames [simp]:
  "syncs (call_user env evt c e) = syncs e"
  "syncs (snd (enos_malloc env n e)) = syncs e"
  by (simp_all add: call_user_def enos_malloc_def split: option.splits prod.splits)

lemma enos_malloc_frame: "enos_malloc env n e = (ok, e') \<Longrightarrow> syncs e' = syncs e"
  by (metis frames(2) snd_conv)

text \<open>\<open>keeps e r\<close>: the result, if there is one, has the requests of \<open>e\<close>.\<close>

definition keeps :: "'w enos \<Rightarrow> 'w enos option \<Rightarrow> bool" where
  "keeps e r \<longleftrightarrow> holds r (\<lambda>e'. syncs e' = syncs e)"

lemma keepsD: "keeps e r \<Longrightarrow> r = Some e' \<Longrightarrow> syncs e' = syncs e"
  by (simp add: keeps_def holds_def)

lemma new_command_holds: "holds (new_command env it e) (\<lambda>(_, e'). syncs e' = syncs e)"
  by (auto simp: new_command_def split: prod.splits intro!: holds_any [where m = "cj_value it" for it]
      holds_any [where m = "enos_command_list_insert a b c x l w" for a b c x l w])

lemma keeps_command: "(\<And>n e'. syncs e' = syncs e0 \<Longrightarrow> keeps e (f n e')) \<Longrightarrow>
  keeps e (do { (n, e') \<leftarrow> new_command env it e0; f n e' })"
  by (auto simp: keeps_def split: prod.splits intro!: holds_mono [OF new_command_holds])

lemma keeps_bind: "(\<And>x. keeps e (f x)) \<Longrightarrow> keeps e (Option.bind m f)"
  by (simp add: keeps_def holds_any)

lemma keeps_if: "keeps e r \<Longrightarrow> keeps e r' \<Longrightarrow> keeps e (if b then r else r')"
  by simp

lemma keeps_Some: "syncs e' = syncs e \<Longrightarrow> keeps e (Some e')"
  by (simp add: keeps_def)

lemma keeps_None: "keeps e None"
  by (simp add: keeps_def)

lemma keeps_malloc: "(\<And>ok e'. syncs e' = syncs e0 \<Longrightarrow> keeps e (f ok e')) \<Longrightarrow> keeps e (case enos_malloc
    env n e0 of (ok, e') \<Rightarrow> f ok e')"
  by (auto split: prod.splits dest: enos_malloc_frame)

lemmas keeping = keeps_command keeps_malloc keeps_None keeps_Some keeps_if keeps_bind

lemma to_user_frames:
  "keeps e (devid_to_user env evt pl items e)"
  "keeps e (raw_data_to_user env zeroed pl items e)"
  "keeps e (service_to_user env pl items e)"
  "keeps e (measurepoint_set_to_user env pl items e)"
  "keeps e (thing_reply_to_user env pl items e)"
  "keeps e (cloud_error_to_user env pl items e)"
  "keeps e (topo_list_to_user env pl items e)"
  "keeps e (deleted_to_user env pl items e)"
  unfolding devid_to_user_def raw_data_to_user_def service_to_user_def measurepoint_set_to_user_def
    thing_reply_to_user_def cloud_error_to_user_def topo_list_to_user_def deleted_to_user_def Let_def
  by (rule keeping | simp split: option.split | (rule impI)+ | (rule allI)+ | (rule conjI))+

lemma register_reply_answers:
  "register_reply_to_user env items e = Some e' \<Longrightarrow>
   \<exists>i c. replies False items = Some (i, c) \<and> upstream_callback_remove i c (syncs e) = Some (syncs e')"
  by (auto simp: register_reply_to_user_def replies_def answer_waiting_def Option.bind_eq_Some_conv)

lemma waiting_reply_answers:
  assumes "reply_to_waiting pl items e = Some e'" "pl \<noteq> None"
  shows "(case replies True items of None \<Rightarrow> Some (syncs e) | Some (i, c) \<Rightarrow> upstream_callback_remove i c (syncs
      e)) = Some (syncs e')"
proof -
  obtain ok mid code where h: "have_types items [(''id'', cJSON_Number), (''devid'', cJSON_Number), (''code'', cJSON_Number)] = Some ok"
    "number items ''id'' = Some mid" "number items ''code'' = Some code"
    "(if ok then answer_waiting mid code e else Some e) = Some e'"
    using assms by (auto simp: reply_to_waiting_def Option.bind_eq_Some_conv)
  then show ?thesis by (cases ok) (auto simp: replies_def answer_waiting_def)
qed

text \<open>A callback changes the list of requests only by the answer it carries.\<close>

lemma callback_answers:
  assumes "iotx_enos_event_callback env (ipc_type m) (ipc_data m) e = Some e'"
  shows "(case answer_of env m of
            None \<Rightarrow> Some (syncs e)
          | Some (i, c) \<Rightarrow> upstream_callback_remove i c (syncs e)) = Some (syncs e')"
proof -
  obtain r where r: "message_items (dme env) (ipc_data m) = Some r"
    using assms by (auto simp: iotx_enos_event_callback_def Option.bind_eq_Some_conv)
  show ?thesis
  proof (cases r)
    case None
    then show ?thesis using assms r by (simp add: iotx_enos_event_callback_def answer_of_def)
  next
    case (Some items)
    consider "ipc_type m = IOTX_DM_EVENT_SUBDEV_REGISTER_REPLY"
      | "ipc_type m \<in> {IOTX_DM_EVENT_TOPO_DELETE_REPLY, IOTX_DM_EVENT_TOPO_ADD_REPLY, IOTX_DM_EVENT_COMBINE_LOGIN_REPLY,
          IOTX_DM_EVENT_COMBINE_LOGOUT_REPLY}"
      | (other) "ipc_type m \<notin> {IOTX_DM_EVENT_SUBDEV_REGISTER_REPLY, IOTX_DM_EVENT_TOPO_DELETE_REPLY, IOTX_DM_EVENT_TOPO_ADD_REPLY,
          IOTX_DM_EVENT_COMBINE_LOGIN_REPLY, IOTX_DM_EVENT_COMBINE_LOGOUT_REPLY}" by auto
    then show ?thesis
    proof cases
      case 1
      then have "register_reply_to_user env items e = Some e'" using assms r Some by (simp add: iotx_enos_event_callback_def)
      from register_reply_answers [OF this] show ?thesis using 1 r Some by (auto simp: answer_of_def)
    next
      case 2
      then have w: "reply_to_waiting (ipc_data m) items e = Some e'"
        using assms r Some by (auto simp: iotx_enos_event_callback_def)
      show ?thesis
      proof (cases "ipc_data m")
        case None
        then show ?thesis using w 2 r Some by (auto simp: answer_of_def reply_to_waiting_def)
      next
        case (Some p)
        then have "answer_of env m = replies True items" using 2 r \<open>r = Some items\<close> by (auto simp: answer_of_def)
        with waiting_reply_answers [OF w] Some show ?thesis by simp
      qed
    next
      case other
      then have "answer_of env m = None" using r Some by (auto simp: answer_of_def)
      moreover have "syncs e' = syncs e"
        using other assms r Some by (auto simp: iotx_enos_event_callback_def dest: to_user_frames [THEN keepsD] split: if_splits)
      ultimately show ?thesis by simp
    qed
  qed
qed

section \<open>While a call waits\<close>

text \<open>
  The other thread, in pieces of its yield: it takes a message from the queue and hands it to the callback, or works on the
  connection and the timeouts; or the user answers a command. Everything else needs the mutex the waiting call holds.
\<close>

datatype other_label = Message ipc_msg | Dropped | Work | Command_answered

inductive other_thread :: "'w enos_env \<Rightarrow> 'w enos \<Rightarrow> other_label \<Rightarrow> 'w enos \<Rightarrow> bool" for env
    where
  dispatched: "dm_ipc_msg_next (dm_queue (edm e)) = (rc, Some m, q) \<Longrightarrow> dm_event_cb e \<Longrightarrow>
    iotx_enos_event_callback env (ipc_type m) (ipc_data m) (e\<lparr>edm := (edm e)\<lparr>dm_queue := q\<rparr>\<rparr>) = Some e'
        \<Longrightarrow>
    other_thread env e (Message m) e'"
| dropped: "dm_ipc_msg_next (dm_queue (edm e)) = (rc, Some m, q) \<Longrightarrow> \<not> dm_event_cb e \<Longrightarrow>
    other_thread env e Dropped (e\<lparr>edm := (edm e)\<lparr>dm_queue := q\<rparr>\<rparr>)"
| worked: "iotx_dm_yield ms (edm e) = Some (rc, d) \<Longrightarrow> other_thread env e Work (enos_timeouts env (e\<lparr>edm :=
    d\<rparr>))"
| answered: "IOT_EnOS_CommandReply env devid type sid sid_len pl pl_len node e = Some (rc, e') \<Longrightarrow>
    other_thread env e Command_answered e'"

inductive while_waiting :: "'w enos_env \<Rightarrow> 'w enos \<Rightarrow> other_label list \<Rightarrow> 'w enos \<Rightarrow> bool"
    for env where
  none: "while_waiting env e [] e"
| more: "while_waiting env e ls e' \<Longrightarrow> other_thread env e' l e'' \<Longrightarrow> while_waiting env e (ls @ [l]) e''"

text \<open>The codes of the answers to a request among the messages, in order.\<close>

definition answer_code :: "'w enos_env \<Rightarrow> int \<Rightarrow> other_label \<Rightarrow> int list" where
  "answer_code env msgid l =
     (case l of
        Message m \<Rightarrow> (case answer_of env m of Some (i, c) \<Rightarrow> if i = msgid then [c] else [] | None \<Rightarrow> [])
      | _ \<Rightarrow> [])"

definition answer_codes :: "'w enos_env \<Rightarrow> int \<Rightarrow> other_label list \<Rightarrow> int list" where
  "answer_codes env msgid ls = concat (map (answer_code env msgid) ls)"

lemma answer_codes_simps [simp]:
  "answer_codes env msgid [] = []" "answer_codes env msgid (ls @ [l]) = answer_codes env msgid ls @ answer_code env msgid l"
  by (simp_all add: answer_codes_def)

text \<open>A call waits: its request is the only one in the list, with the code \<open>c\<close>, and its semaphore stands at
    \<open>n\<close>.\<close>

definition waits :: "waiting \<Rightarrow> int \<Rightarrow> nat \<Rightarrow> sync_list \<Rightarrow> bool" where
  "waits k c n l \<longleftrightarrow> upstream_sync_callback_list l =
       [\<lparr>sy_addr = wt_node k, sy_msgid = wt_msgid k, sy_semaphore = wt_semaphore k, sy_code = c\<rparr>]
     \<and> semaphores l (wt_semaphore k) = Some n"

lemma answer_arrives:
  assumes "waits k c n l" "upstream_callback_remove i x l = Some l'"
  shows "if i = wt_msgid k then waits k (sync_result x) (n + 1) l' else waits k c n l'"
  using assms
  by (auto simp: waits_def upstream_callback_remove_def sync_callback_list_search_def semaphore_post_def set_sync_code_def)

lemma command_reply_frame: "IOT_EnOS_CommandReply env devid type sid sid_len pl pl_len node e = Some (rc, e') \<Longrightarrow> syncs e'
    = syncs e"
  unfolding IOT_EnOS_CommandReply_def by (auto simp: Option.bind_eq_Some_conv split: option.splits if_splits)

lemma timeouts_frame: "syncs (enos_timeouts env e) = syncs e"
  by (simp add: enos_timeouts_def Let_def split: prod.splits)

lemma other_step:
  assumes "other_thread env e l e'" "waits k c n (syncs e)"
  shows "waits k (case answer_code env (wt_msgid k) l of [] \<Rightarrow> c | x # _ \<Rightarrow> sync_result x) (n + length (answer_code
      env (wt_msgid k) l)) (syncs e')"
  using assms
proof cases
  case (dispatched rc m q)
  have same: "syncs (e\<lparr>edm := (edm e)\<lparr>dm_queue := q\<rparr>\<rparr>) = syncs e" by simp
  have a: "(case answer_of env m of None \<Rightarrow> Some (syncs e) | Some (i, c) \<Rightarrow> upstream_callback_remove i c (syncs e))
      = Some (syncs e')"
    using callback_answers [OF dispatched(4)] unfolding same .
  show ?thesis
  proof (cases "answer_of env m")
    case None
    then show ?thesis using a assms(2) dispatched(1) by (simp add: answer_code_def)
  next
    case (Some p)
    then obtain i x where p: "answer_of env m = Some (i, x)" by (cases p) simp
    with a have "upstream_callback_remove i x (syncs e) = Some (syncs e')" by simp
    from answer_arrives [OF assms(2) this] show ?thesis using p dispatched(1) by (simp add: answer_code_def split: if_splits)
  qed
next
  case (answered devid type sid sid_len pl pl_len node rc)
  then show ?thesis using assms(2) by (simp add: answer_code_def command_reply_frame)
qed (use assms(2) in \<open>simp_all add: answer_code_def timeouts_frame\<close>)

lemma waiting_run:
  assumes "while_waiting env e ls e'" "waits k c n (syncs e)"
  shows "waits k (if answer_codes env (wt_msgid k) ls = [] then c else sync_result (last (answer_codes env (wt_msgid k) ls)))
    (n + length (answer_codes env (wt_msgid k) ls)) (syncs e')"
  using assms
proof (induction rule: while_waiting.induct)
  case (none e)
  then show ?case by simp
next
  case (more e ls e' l e'')
  have l: "length (answer_code env (wt_msgid k) l) \<le> 1"
    by (simp add: answer_code_def split: other_label.split option.split prod.split)
  from other_step [OF more.hyps(2) more.IH [OF more.prems]] show ?case
    using l by (cases "answer_code env (wt_msgid k) l") (auto simp: add.assoc)
qed

section \<open>The two halves of a call\<close>

lemma sync_begin_waits:
  assumes "upstream_sync_callback_list (syncs e) = []" "sync_begin env type devid send e = Some (r, e')"
  shows "case r of Inl rc \<Rightarrow> upstream_sync_callback_list (syncs e') = []
    | Inr k \<Rightarrow> waits k 0 0 (syncs e') \<and> wt_type k = type \<and> wt_devid k = devid"
  using assms
  by (auto simp: sync_begin_def Let_def semaphore_create_def sync_callback_list_insert_def semaphore_destroy_def waits_def
      Option.bind_eq_Some_conv split: prod.splits if_splits option.splits)

lemma sync_end_result:
  assumes "waits k c n (syncs e)"
  shows "\<exists>e'. sync_end on_timeout timed_out k e =
      Some (if timed_out \<or> n = 0 then on_timeout (- 1)
            else if c \<noteq> STATE_SUCCESS then STATE_DEV_MODEL_REFUSED_BY_CLOUD else STATE_SUCCESS, e')
    \<and> upstream_sync_callback_list (syncs e') = []"
  using assms
  by (auto simp: sync_end_def waits_def semaphore_wait_ends_def sync_callback_list_remove_def semaphore_destroy_def)

section \<open>Reports\<close>

lemma sync_result_cases: "sync_result c = (if c = 200 then 0 else STATE_DEV_MODEL_REFUSED_BY_CLOUD)"
  by (simp add: sync_result_def IOTX_DM_ERR_CODE_SUCCESS_def)

lemma returns_frame: "returns e r = Some (x, e') \<Longrightarrow> syncs e' = syncs e \<and> isl x"
  by (auto simp: returns_def)

lemma with_text_frame: "with_text x e f = Some (y, e') \<Longrightarrow> syncs e' = syncs e \<and> isl y"
  by (auto simp: with_text_def dest: returns_frame split: report_data.splits if_splits)

definition waiting_types :: "msg_type set" where
  "waiting_types = {ITM_MSG_LOGIN, ITM_MSG_LOGIN_BATCH, ITM_MSG_LOGOUT, ITM_MSG_ADD_TOPO, ITM_MSG_DELETE_TOPO}"

lemmas begin_defs = subdev_login_begin_def subdev_login_batch_begin_def subdev_logout_begin_def subdev_add_topo_begin_def
  subdev_delete_topo_begin_def topo_call_begin_def

text \<open>A call that has returned leaves no request; one that waits left its own.\<close>

definition begun :: "msg_type \<Rightarrow> int \<Rightarrow> int + waiting \<Rightarrow> sync_list \<Rightarrow> bool" where
  "begun type devid r l =
     (case r of Inl rc \<Rightarrow> upstream_sync_callback_list l = []
      | Inr k \<Rightarrow> waits k 0 0 l \<and> wt_type k = type \<and> wt_devid k = devid \<and> type \<in> waiting_types)"

lemma begun_returned: "isl r \<Longrightarrow> upstream_sync_callback_list l = [] \<Longrightarrow> begun type devid r l"
  by (auto simp: begun_def split: sum.splits)

lemma begun_sync:
  "sync_begin env type devid send e = Some (r, e') \<Longrightarrow> upstream_sync_callback_list (syncs e) = [] \<Longrightarrow> type
      \<in> waiting_types \<Longrightarrow>
   begun type devid r (syncs e')"
  using sync_begin_waits [of e env type devid send r e'] by (auto simp: begun_def split: sum.splits)

lemma report_begins:
  assumes "upstream_sync_callback_list (syncs e) = []" "IOT_EnOS_Report_begin env devid type x e = Some (r, e')"
  shows "begun type devid r (syncs e')"
  using assms
  by (cases type)
    (auto simp: IOT_EnOS_Report_begin_def locked_def begin_defs waiting_types_def intro: begun_returned
      dest!: returns_frame with_text_frame begun_sync split: if_splits report_data.splits)


text \<open>
  C39. The login of a batch never succeeds: the callback has no case for the reply to it, so unless a message of another
  kind carries its number, a call that waits for it can only run out of time, whatever the cloud answers.
\<close>

theorem batch_login_never_answered:
  assumes "waits k 0 0 (syncs e1)" "wt_type k = ITM_MSG_LOGIN_BATCH" "while_waiting env e1 ls e2"
    "\<forall>m \<in> {m. Message m \<in> set ls}. ipc_type m = IOTX_DM_EVENT_COMBINE_LOGIN_BATCH_REPLY
       \<or> map_option fst (answer_of env m) \<noteq> Some (wt_msgid k)"
  shows "\<exists>e3. IOT_EnOS_Report_end env timed_out k e2 = Some (- 1, e3)"
proof -
  have "answer_code env (wt_msgid k) l = []" if "l \<in> set ls" for l
    using assms(4) that
    by (cases l) (force simp: answer_code_def answer_of_def split: option.splits)+
  then have "answer_codes env (wt_msgid k) ls = []" by (simp add: answer_codes_def)
  then show ?thesis
    using sync_end_result [OF waiting_run [OF assms(3,1)], of "\<lambda>res. res" timed_out] assms(2)
    by (auto simp: IOT_EnOS_Report_end_def subdev_login_batch_end_def subscribe_and_tell_def)
qed

text \<open>Calls one after another, each with the work of the other thread.\<close>

inductive calls_made :: "'w enos_env \<Rightarrow> 'w enos \<times> waiting option \<Rightarrow> bool" for env where
  opened: "upstream_sync_callback_list (syncs e) = [] \<Longrightarrow> calls_made env (e, None)"
| begins: "calls_made env (e, None) \<Longrightarrow> IOT_EnOS_Report_begin env devid type x e = Some (Inr k, e') \<Longrightarrow>
    calls_made env (e', Some k)"
| returns: "calls_made env (e, None) \<Longrightarrow> IOT_EnOS_Report_begin env devid type x e = Some (Inl rc, e') \<Longrightarrow>
    calls_made env (e', None)"
| others: "calls_made env (e, k) \<Longrightarrow> other_thread env e l e' \<Longrightarrow> calls_made env (e', k)"
| ends: "calls_made env (e, Some k) \<Longrightarrow> IOT_EnOS_Report_end env timed_out k e = Some (rc, e') \<Longrightarrow> calls_made
    env (e', None)"

lemma idle_other:
  assumes "other_thread env e l e'" "upstream_sync_callback_list (syncs e) = []"
  shows "upstream_sync_callback_list (syncs e') = []"
  using assms
proof cases
  case (dispatched rc m q)
  have same: "syncs (e\<lparr>edm := (edm e)\<lparr>dm_queue := q\<rparr>\<rparr>) = syncs e" by simp
  show ?thesis using callback_answers [OF dispatched(4)] assms(2) unfolding same
    by (auto simp: upstream_callback_remove_def sync_callback_list_search_def split: option.splits prod.splits)
qed (simp_all add: command_reply_frame timeouts_frame)

lemma subscribe_and_tell_frame: "subscribe_and_tell env devid (res, e) = Some (rc, e') \<Longrightarrow> syncs e' = syncs e"
  by (auto simp: subscribe_and_tell_def Let_def Option.bind_eq_Some_conv split: if_splits)

lemma report_ends:
  assumes "waits k c n (syncs e)" "IOT_EnOS_Report_end env timed_out k e = Some (rc, e')"
  shows "upstream_sync_callback_list (syncs e') = []"
proof -
  have "\<exists>e3. (\<exists>res. sync_end f timed_out k e = Some (res, e3)) \<and> upstream_sync_callback_list (syncs e3) = []" for f
    using sync_end_result [OF assms(1), of f timed_out] by blast
  then have "sync_end f timed_out k e = Some (res, e3) \<Longrightarrow> upstream_sync_callback_list (syncs e3) = []" for f res e3
    by (metis option.inject prod.inject)
  then show ?thesis
    using assms(2)
    by (auto simp: IOT_EnOS_Report_end_def subdev_login_end_def subdev_login_batch_end_def subdev_logout_end_def subdev_add_topo_end_def
        subdev_delete_topo_end_def Option.bind_eq_Some_conv dest!: subscribe_and_tell_frame split: msg_type.splits)
qed

lemma requests_tracked_lemma:
  "calls_made env s \<Longrightarrow> case s of (e, None) \<Rightarrow> upstream_sync_callback_list (syncs e) = [] | (e, Some k)
      \<Rightarrow> \<exists>c n. waits k c n (syncs e)"
proof (induction rule: calls_made.induct)
  case (begins e devid type x k e')
  then show ?case using report_begins [of e env devid type x] by (fastforce simp: begun_def)
next
  case (returns e devid type x rc e')
  then show ?case using report_begins [of e env devid type x] by (fastforce simp: begun_def)
next
  case (others e k l e')
  show ?case
  proof (cases k)
    case None
    then show ?thesis using others idle_other by simp
  next
    case (Some a)
    then obtain c n where "waits a c n (syncs e)" using others.IH by auto
    from other_step [OF others.hyps(2) this] show ?thesis using Some by auto
  qed
next
  case (ends e k timed_out rc e')
  then show ?case using report_ends by auto
qed simp

text \<open>
  C20. In every sequence of reports, answers and dispatching after opening, a report that waits finds its own
  request and its own semaphore when the wait ends, however it ends: the second half is never undefined for a
  request or semaphore that is gone.
\<close>

theorem waiting_call_ends:
  assumes "calls_made env (e, Some k)"
  shows "\<exists>rc e'. sync_end on_timeout timed_out k e = Some (rc, e')"
proof -
  obtain c n where "waits k c n (syncs e)" using requests_tracked_lemma [OF assms] by auto
  from sync_end_result [OF this, of on_timeout timed_out] show ?thesis by blast
qed

section \<open>A run\<close>

text \<open>The gateway of \<open>DmText\<close> with one sub-device, opened and connected.\<close>

definition demo_enos_env :: "demo enos_env" where
  "demo_enos_env = \<lparr>HAL_SemaphoreCreate = \<lambda>w. (True, w), sizeof_command_node = 48, sizeof_sync_node = 32, dme =
      demo_device_env,
     user_function = \<lambda>f c w. w, yield_threads_leave = \<lambda>c. c,
     uninit_credential = \<lparr>cred_product_key = replicate 21 0, cred_device_key = replicate 33 0, cred_device_secret = replicate 65
         0\<rparr>\<rparr>"

definition demo_gateway :: "demo dm" where
  "demo_gateway = snd (snd (iotx_dm_subdev_create demo_device_env (Some [112]) (Some [120]) (Some [115]) (Some [120]) (Some 0)
      demo_device))"

definition demo_enos :: "demo enos" where
  "demo_enos = \<lparr>edm = demo_gateway, dm_event_cb = True, enos_mutex = Mutex_live, upstream_mutex = Mutex_live,
     command_list_mutex = Mutex_live, is_opened = True, is_connected = True, is_yield_running = False, yield_running = True,
     syncs = \<lparr>upstream_sync_callback_list = [], syncs_made = 0, semaphores = \<lambda>_. None, semaphores_made = 0\<rparr>,
     commands = \<lparr>command_list_num = 0, downstream_command_list = [], commands_made = 0\<rparr>\<rparr>"

definition ends_well :: "(int \<times> 'b) option \<Rightarrow> bool" where
  "ends_well r = (case r of Some (rc, x) \<Rightarrow> rc = 0 | None \<Rightarrow> False)"

definition demo_params :: "byte list" where
  "demo_params = [0x5B] @ ([0x7B] @ [] @ (0x22 # ascii ''productKey'' @ [0x22]) @ [] @ [0x3A] @ [] @ (0x22 # ascii ''p'' @ [0x22]) @ [] @
      [0x2C] @
     ([] @ (0x22 # ascii ''deviceKey'' @ [0x22]) @ [] @ [0x3A] @ [] @ (0x22 # ascii ''s'' @ [0x22]) @ []) @ [0x7D]) @ [0x5D]"

definition demo_delete :: dm_msg_request where
  "demo_delete = request_zero\<lparr>rm_service_prefix := Some DM_URI_SYS_PREFIX, rm_service_name := Some (ascii ''thing/topo/delete''),
     rm_product_key := ascii ''p'', rm_device_key := ascii ''d'', rm_params := Some (demo_params @ [0]),
     rm_params_len := int (length demo_params), rm_method := Some (ascii ''thing.topo.delete''), rm_devid := 1\<rparr>"

lemma demo_params_value: "value_text 2 (JArr [JObj [(ascii ''productKey'', JStr (ascii ''p'')), (ascii ''deviceKey'', JStr (ascii
    ''s''))]]) demo_params"
proof -
  have strs: "string_text (ascii ''productKey'')" "string_text (ascii ''deviceKey'')" "string_text (ascii ''p'')" "string_text (ascii
      ''s'')"
    by (simp_all add: ascii_def)
  have nil: "blank []" by (simp add: blank_def)
  note intros = value_text_elements_text_members_text.intros
  note last_member = one_member [OF nil strs(2) nil nil str [OF strs(4)] nil, of 0]
  note members = more_members [OF nil strs(1) nil nil str [OF strs(3)] nil last_member]
  show ?thesis
    using array [OF one_element [OF nil object [OF members] nil]] by (simp add: demo_params_def numeral_2_eq_2)
qed

definition demo_empty :: dm_msg_request where
  "demo_empty = request_zero\<lparr>rm_service_prefix := Some DM_URI_SYS_PREFIX, rm_service_name := Some (ascii ''thing/topo/delete''),
     rm_product_key := ascii ''p'', rm_device_key := ascii ''d''\<rparr>"

definition demo_filled :: dm_msg_request where
  "demo_filled = demo_empty\<lparr>rm_params := Some (demo_params @ [0]), rm_params_len := int (length demo_params),
     rm_method := Some (ascii ''thing.topo.delete'')\<rparr>"

definition demo_asking :: "demo dm" where
  "demo_asking = remember_request demo_device_env IOTX_DM_EVENT_TOPO_DELETE_REPLY (demo_filled\<lparr>rm_msgid := 0, rm_devid := 1\<rparr>)
     (demo_gateway\<lparr>g_report_id := 1\<rparr>)"

lemma demo_steps:
  "map_option (\<lambda>n. (dn_product_key n, dn_device_key n)) (search_dev_by_devid 1 (dm_table demo_gateway)) = Some (ascii ''p'',
      ascii ''s'')"
  "own_keys demo_gateway = Some (ascii ''p'', ascii ''d'')"
  "dm_msg_thing_topo_delete demo_device_env (ascii ''p'') (ascii ''s'') demo_empty demo_gateway = Some (0, demo_filled, demo_gateway)"
  "iotx_report_id demo_gateway = (0, demo_gateway\<lparr>g_report_id := 1\<rparr>)"
  by code_simp+

lemma demo_publishes:
  "ends_well (publishes demo_device_env (demo_filled\<lparr>rm_msgid := 0, rm_devid := 1\<rparr>)
     (request_text (fmt_d 0) demo_params (ascii ''thing.topo.delete'')) 20 demo_asking)"
  by code_simp

lemma demo_padding:
  "length DM_MSG_REQUEST + 10 + length DM_MSG_VERSION + length demo_params + length (ascii ''thing.topo.delete'') + 1
     - length (request_text (fmt_d 0) demo_params (ascii ''thing.topo.delete'')) = 20"
  by code_simp

lemma demo_sends: "\<exists>d. iotx_dm_subdev_topo_del demo_device_env 1 demo_gateway = Some (0, d)"
proof -
  let ?r = "demo_filled\<lparr>rm_msgid := 0, rm_devid := 1\<rparr>"
  obtain n where n: "search_dev_by_devid 1 (dm_table demo_gateway) = Some n" "dn_product_key n = ascii ''p''" "dn_device_key n = ascii
      ''s''"
    using demo_steps(1) by auto
  have "dm_msg_request demo_device_env DM_MSG_DEST_CLOUD ?r demo_asking =
      publishes demo_device_env ?r (request_text (fmt_d (rm_msgid ?r)) demo_params (ascii ''thing.topo.delete''))
        (length DM_MSG_REQUEST + 10 + length DM_MSG_VERSION + length demo_params + length (ascii ''thing.topo.delete'') + 1
          - length (request_text (fmt_d (rm_msgid ?r)) demo_params (ascii ''thing.topo.delete''))) demo_asking"
  proof (rule request_publishes [OF _ _ _ _ demo_params_value])
    show "rm_params ?r = Some (demo_params @ [0])" "rm_params_len ?r = int (length demo_params)"
      "rm_method ?r = Some (ascii ''thing.topo.delete'')" by (simp_all add: demo_filled_def)
    show "c_int (rm_msgid ?r)" by (simp add: c_int_def INT_MAX_def)
    show "int (Suc 2) \<le> LITE_CJSON_NESTING_LIMIT" by (simp add: LITE_CJSON_NESTING_LIMIT_def)
    show "clean (ascii ''thing.topo.delete'')" by (simp add: clean_def ascii_def)
    show "0 \<notin> set demo_params" by code_simp
  qed
  then have "ends_well (dm_msg_request demo_device_env DM_MSG_DEST_CLOUD ?r demo_asking)"
    using demo_publishes demo_padding by simp
  then obtain d where d: "dm_msg_request demo_device_env DM_MSG_DEST_CLOUD ?r demo_asking = Some (0, d)"
    by (auto simp: ends_well_def split: option.splits)
  have "gateway_request demo_device_env DM_URI_SYS_PREFIX (ascii ''thing/topo/delete'') 1 IOTX_DM_EVENT_TOPO_DELETE_REPLY
      (dm_msg_thing_topo_delete demo_device_env (ascii ''p'') (ascii ''s'')) demo_gateway = Some (0, d)"
    unfolding gateway_request_def demo_steps(2) demo_empty_def [symmetric]
    using d by (simp add: demo_steps(3,4) send_request_def demo_asking_def demo_empty_def [symmetric])
  then show ?thesis
    using n by (auto simp: iotx_dm_subdev_topo_del_def checked_devid_def dm_mgr_upstream_thing_topo_delete_def for_device_def)
qed

lemma demo_begins:
  "\<exists>k e. IOT_EnOS_Report_begin demo_enos_env 1 ITM_MSG_DELETE_TOPO (Report_text None 0) demo_enos = Some (Inr k, e)"
proof -
  obtain d where d: "iotx_dm_subdev_topo_del demo_device_env 1 demo_gateway = Some (0, d)" using demo_sends by blast
  have "\<exists>k e. sync_begin demo_enos_env ITM_MSG_DELETE_TOPO 1 (iotx_dm_subdev_topo_del demo_device_env 1) demo_enos = Some (Inr k,
      e)"
    using d
    by (simp add: sync_begin_def demo_enos_def semaphore_create_def sync_callback_list_insert_def demo_enos_env_def sync_env.defs
        demo_device_env_def api_env_def demo_env_def hal.defs dm_env.defs)
  then show ?thesis
    by (simp add: IOT_EnOS_Report_begin_def locked_def subdev_delete_topo_begin_def topo_call_begin_def demo_enos_env_def demo_enos_def)
qed


text \<open>The reply to a batch, in the queue of a call that waits for it.\<close>

definition demo_batch :: waiting where
  "demo_batch = \<lparr>wt_type = ITM_MSG_LOGIN_BATCH, wt_devid = 1, wt_msgid = 5, wt_node = 0, wt_semaphore = 0\<rparr>"

definition demo_reply :: ipc_msg where
  "demo_reply = \<lparr>ipc_type = IOTX_DM_EVENT_COMBINE_LOGIN_BATCH_REPLY, ipc_data = None\<rparr>"

definition demo_batch_waits :: "ipc_msg list \<Rightarrow> demo enos" where
  "demo_batch_waits ms = demo_enos\<lparr>edm := demo_gateway\<lparr>dm_queue := dm_ipc_zero\<lparr>message_list := ms, ipc_size := int
      (length ms)\<rparr>\<rparr>,
     syncs := \<lparr>upstream_sync_callback_list = [\<lparr>sy_addr = 0, sy_msgid = 5, sy_semaphore = 0, sy_code = 0\<rparr>],
         syncs_made = 1,
       semaphores = (\<lambda>_. None)(0 := Some 0), semaphores_made = 1\<rparr>\<rparr>"

theorem batch_login_never_answered_witness:
  "\<exists>e3. IOT_EnOS_Report_end demo_enos_env False demo_batch (demo_batch_waits []) = Some (- 1, e3)"
proof (rule batch_login_never_answered)
  show "waits demo_batch 0 0 (syncs (demo_batch_waits [demo_reply]))" by (simp add: waits_def demo_batch_def demo_batch_waits_def)
  show "wt_type demo_batch = ITM_MSG_LOGIN_BATCH" by (simp add: demo_batch_def)
  have "other_thread demo_enos_env (demo_batch_waits [demo_reply]) (Message demo_reply) (demo_batch_waits [])"
    by (rule other_thread.dispatched)
      (simp_all add: demo_batch_waits_def dm_ipc_msg_next_def dm_ipc_zero_def demo_reply_def demo_enos_def iotx_enos_event_callback_def
        message_items_def)
  from while_waiting.more [OF while_waiting.none this]
  show "while_waiting demo_enos_env (demo_batch_waits [demo_reply]) [Message demo_reply] (demo_batch_waits [])" by simp
  show "\<forall>m \<in> {m. Message m \<in> set [Message demo_reply]}. ipc_type m = IOTX_DM_EVENT_COMBINE_LOGIN_BATCH_REPLY
      \<or> map_option fst (answer_of demo_enos_env m) \<noteq> Some (wt_msgid demo_batch)"
    by (simp add: demo_reply_def)
qed

theorem waiting_call_ends_witness:
  "\<exists>k e rc e'. calls_made demo_enos_env (e, Some k) \<and> sync_end (\<lambda>res. res) True k e = Some (rc, e')"
proof -
  obtain k e where b: "IOT_EnOS_Report_begin demo_enos_env 1 ITM_MSG_DELETE_TOPO (Report_text None 0) demo_enos = Some (Inr k, e)"
    using demo_begins by blast
  have "calls_made demo_enos_env (demo_enos, None)" by (rule calls_made.opened) (simp add: demo_enos_def)
  from calls_made.begins [OF this b] have c: "calls_made demo_enos_env (e, Some k)" .
  from waiting_call_ends [OF c, of "\<lambda>res. res" True] c show ?thesis by blast
qed

end
